(* ===== verification/Katana_Prelude.thy ===== *)
theory Katana_Prelude
  imports Main "HOL-Library.Word" "HOL-Library.Product_Lexorder" "HOL-Library.Multiset"
begin

text \<open>
  Shared vocabulary of the development: the names of the scalar types of
  \<^verbatim>\<open>crates/primitives\<close>, the result type for fallible code, and the generic lemmas
  on lists that the component theories rely on.

  Field elements are natural numbers; arithmetic on them is written with
  \<^verbatim>\<open>mod stark_prime\<close> where the code computes.  Block and transaction numbers are
  identifiers and are kept as naturals; fixed-width arithmetic is written with words or
  with an explicit modulus in the components where it can wrap.
\<close>

named_theorems table_simps \<open>read-over-write rules of the storage tables\<close>
named_theorems db_simps \<open>unfolding rules for the provider operations\<close>

type_synonym felt = nat
type_synonym block_number = nat
type_synonym block_hash = felt
type_synonym tx_number = nat
type_synonym tx_hash = felt
type_synonym class_hash = felt
type_synonym compiled_class_hash = felt
type_synonym contract_address = felt
type_synonym storage_key = felt
type_synonym storage_value = felt
type_synonym nonce = felt

definition stark_prime :: nat where
  "stark_prime = 2 ^ 251 + 17 * 2 ^ 192 + 1"

text \<open>The conversion \<^verbatim>\<open>as u32\<close> of a count.\<close>

definition as_u32 :: "nat \<Rightarrow> nat" where
  "as_u32 n = n mod 2 ^ 32"

section \<open>Results\<close>

text \<open>\<^verbatim>\<open>Result<T, E>\<close> is \<open>'e + 'a\<close>; the question mark operator is \<open>rbind\<close>.\<close>

type_synonym ('e, 'a) result = "'e + 'a"

fun rbind :: "'e + 'a \<Rightarrow> ('a \<Rightarrow> 'e + 'b) \<Rightarrow> 'e + 'b" where
  "rbind (Inl e) f = Inl e"
| "rbind (Inr a) f = f a"

fun ok_or :: "'e \<Rightarrow> 'a option \<Rightarrow> 'e + 'a" where
  "ok_or e None = Inl e"
| "ok_or e (Some a) = Inr a"

fun collect_results :: "('e + 'a) list \<Rightarrow> 'e + 'a list" where
  "collect_results [] = Inr []"
| "collect_results (Inl e # rs) = Inl e"
| "collect_results (Inr a # rs) = rbind (collect_results rs) (\<lambda>as. Inr (a # as))"

lemma rbind_Inr_iff: "rbind m f = Inr b \<longleftrightarrow> (\<exists>a. m = Inr a \<and> f a = Inr b)"
  by (cases m) auto

lemma rbind_assoc: "rbind (rbind m f) g = rbind m (\<lambda>a. rbind (f a) g)"
  by (cases m) auto

lemma ok_or_Inr_iff [simp]: "ok_or e x = Inr a \<longleftrightarrow> x = Some a"
  by (cases x) auto

lemma collect_results_Inr [simp]: "collect_results (map Inr xs) = Inr xs"
  by (induction xs) auto

lemma collect_results_map_Inr:
  "(\<And>x. x \<in> set xs \<Longrightarrow> f x = Inr (g x)) \<Longrightarrow> collect_results (map f xs) = Inr (map g xs)"
  by (induction xs) auto

section \<open>Lists\<close>

text \<open>\<^verbatim>\<open>Vec::swap_remove\<close>; \<open>None\<close> is its panic.\<close>

definition swap_remove :: "nat \<Rightarrow> 'c list \<Rightarrow> ('c \<times> 'c list) option" where
  "swap_remove n xs = (if n < length xs
     then Some (xs ! n, butlast (xs[n := last xs]))
     else None)"

lemma swap_remove_append:
  "\<exists>post'. swap_remove (length pre) (pre @ c # post) = Some (c, pre @ post') \<and> mset post' = mset post"
proof (cases post rule: rev_cases)
  case (snoc ys y)
  have "swap_remove (length pre) (pre @ c # post) = Some (c, pre @ y # ys)"
    by (simp add: swap_remove_def snoc butlast_append)
  then show ?thesis by (auto simp: snoc)
qed (simp add: swap_remove_def)

lemma swap_remove_split:
  assumes "n < length xs"
  obtains rest where "swap_remove n xs = Some (xs ! n, rest)" "mset xs = add_mset (xs ! n) (mset rest)"
    "length rest = length xs - 1" "set (drop n rest) \<subseteq> set (drop (Suc n) xs)"
proof -
  have xs: "take n xs @ xs ! n # drop (Suc n) xs = xs" using assms by (simp add: id_take_nth_drop [symmetric])
  obtain post where "swap_remove (length (take n xs)) (take n xs @ xs ! n # drop (Suc n) xs) =
      Some (xs ! n, take n xs @ post)" "mset post = mset (drop (Suc n) xs)"
    using swap_remove_append [of "take n xs" "xs ! n" "drop (Suc n) xs"] by blast
  then have p: "swap_remove n xs = Some (xs ! n, take n xs @ post)" "mset post = mset (drop (Suc n) xs)"
    unfolding xs using assms by simp_all
  show thesis
  proof (rule that [OF p(1)])
    show "mset xs = add_mset (xs ! n) (mset (take n xs @ post))" using p(2) arg_cong [OF xs, of mset] by simp
    show "length (take n xs @ post) = length xs - 1" using mset_eq_length [OF p(2)] assms by simp
    show "set (drop n (take n xs @ post)) \<subseteq> set (drop (Suc n) xs)" using mset_eq_setD [OF p(2)] assms by simp
  qed
qed

lemma sorted_wrt_less_distinct: "sorted_wrt (<) (xs :: 'a :: linorder list) \<Longrightarrow> distinct xs"
  by (simp add: strict_sorted_iff)

lemma fold_append_snoc: "fold (\<lambda>x acc. acc @ [f x]) xs acc = acc @ map f xs"
  by (induction xs arbitrary: acc) auto

lemma map_of_enumerate:
  "map_of (List.enumerate n xs) k = (if n \<le> k \<and> k < n + length xs then Some (xs ! (k - n)) else None)"
proof (induction xs arbitrary: n)
  case (Cons x xs)
  show ?case
  proof (cases "k = n")
    case False
    then show ?thesis using Cons.IH [of "Suc n"]
      by (auto simp: nth_Cons' Suc_le_eq)
  qed simp
qed simp

lemma map_of_rev_distinct: "distinct (map fst es) \<Longrightarrow> map_of (rev es) = map_of es"
  by (subst map_of_inject_set) (auto simp: rev_map [symmetric])

lemma map_of_perm: "mset xs = mset ys \<Longrightarrow> distinct (map fst xs) \<Longrightarrow> map_of xs = map_of ys"
proof -
  assume a: "mset xs = mset ys" "distinct (map fst xs)"
  then have "set xs = set ys" "distinct (map fst ys)"
    using mset_eq_imp_distinct_iff [of "map fst xs" "map fst ys"] mset_eq_setD [of xs ys] by simp_all
  then show ?thesis using a(2) by (simp add: map_of_inject_set)
qed

lemma those_map_Some: "\<forall>x\<in>set xs. f x = Some (g x) \<Longrightarrow> those (map f xs) = Some (map g xs)"
  by (induction xs) auto

lemma find_SomeD: "List.find P xs = Some x \<Longrightarrow> x \<in> set xs \<and> P x"
  by (induction xs) (auto split: if_splits)

lemma find_None_iff_set: "List.find P xs = None \<longleftrightarrow> (\<forall>x\<in>set xs. \<not> P x)"
  by (induction xs) auto

end
