(* ===== verification/Num_Text.thy ===== *)
theory Num_Text
  imports Katana_Prelude
begin

text \<open>
  Text forms of unsigned integers as the Rust standard library reads and writes them:
  \<^verbatim>\<open>from_str_radix\<close> / \<^verbatim>\<open>parse\<close> on \<^verbatim>\<open>u8\<close>, \<^verbatim>\<open>u64\<close> and the decimal and lower-case hexadecimal
  formatting traits, together with \<^verbatim>\<open>str::split\<close> on a separator character.  The version,
  continuation-token and checkpoint code uses them.
\<close>

datatype parse_int_error = Empty | InvalidDigit | PosOverflow

definition char_digit :: "char \<Rightarrow> nat option" where
  "char_digit c =
     (let n = of_char c :: nat in
      if 48 \<le> n \<and> n \<le> 57 then Some (n - 48)
      else if 97 \<le> n \<and> n \<le> 122 then Some (n - 87)
      else if 65 \<le> n \<and> n \<le> 90 then Some (n - 55)
      else None)"

definition digit_char :: "nat \<Rightarrow> char" where
  "digit_char d = (if d < 10 then char_of (48 + d) else char_of (87 + d))"

text \<open>The digit loop: multiply-and-add with an overflow check at every digit.\<close>

fun parse_digits :: "nat \<Rightarrow> nat \<Rightarrow> nat \<Rightarrow> string \<Rightarrow> parse_int_error + nat" where
  "parse_digits radix bound acc [] = Inr acc"
| "parse_digits radix bound acc (c # cs) =
     (case char_digit c of
        None \<Rightarrow> Inl InvalidDigit
      | Some d \<Rightarrow>
          if radix \<le> d then Inl InvalidDigit
          else if bound < acc * radix + d then Inl PosOverflow
          else parse_digits radix bound (acc * radix + d) cs)"

text \<open>A single leading plus sign is accepted when digits follow.\<close>

definition from_str_radix :: "nat \<Rightarrow> nat \<Rightarrow> string \<Rightarrow> parse_int_error + nat" where
  "from_str_radix radix bound s =
     (case s of
        [] \<Rightarrow> Inl Empty
      | c # cs \<Rightarrow>
          if c = CHR ''+'' then (if cs = [] then Inl InvalidDigit else parse_digits radix bound 0 cs)
          else parse_digits radix bound 0 s)"

definition parse_u8 :: "string \<Rightarrow> parse_int_error + nat" where
  "parse_u8 = from_str_radix 10 (2 ^ 8 - 1)"

fun show_radix_acc :: "nat \<Rightarrow> nat \<Rightarrow> nat \<Rightarrow> string \<Rightarrow> string" where
  "show_radix_acc 0 radix n acc = acc"
| "show_radix_acc (Suc fuel) radix n acc =
     (if n < radix then digit_char n # acc
      else show_radix_acc fuel radix (n div radix) (digit_char (n mod radix) # acc))"

text \<open>The number itself is enough fuel: every division by a radix of at least two lowers it.\<close>

definition show_radix :: "nat \<Rightarrow> nat \<Rightarrow> string" where
  "show_radix radix n = show_radix_acc (Suc n) radix n []"

abbreviation show_dec :: "nat \<Rightarrow> string" where
  "show_dec \<equiv> show_radix 10"

abbreviation show_hex :: "nat \<Rightarrow> string" where
  "show_hex \<equiv> show_radix 16"

fun split_on :: "char \<Rightarrow> string \<Rightarrow> string list" where
  "split_on sep [] = [[]]"
| "split_on sep (c # cs) =
     (if c = sep then [] # split_on sep cs
      else (case split_on sep cs of
              [] \<Rightarrow> [[c]]
            | w # ws \<Rightarrow> (c # w) # ws))"

section \<open>Facts\<close>

lemma char_digit_digit_char: "d < 36 \<Longrightarrow> char_digit (digit_char d) = Some d"
  by (auto simp: char_digit_def digit_char_def Let_def)

lemma parse_digits_append:
  "parse_digits radix bound acc (xs @ ys) =
     rbind (parse_digits radix bound acc xs) (\<lambda>a. parse_digits radix bound a ys)"
  by (induction radix bound acc xs rule: parse_digits.induct) (auto split: option.splits)

lemma show_radix_acc_append:
  "show_radix_acc fuel radix n acc = show_radix_acc fuel radix n [] @ acc"
proof (induction fuel arbitrary: n acc)
  case (Suc fuel)
  show ?case
    using Suc.IH [of "n div radix" "digit_char (n mod radix) # acc"]
      Suc.IH [of "n div radix" "[digit_char (n mod radix)]"] by simp
qed simp

lemma parse_show_radix_acc:
  assumes "2 \<le> radix" "radix \<le> 36"
  shows "n < fuel \<Longrightarrow> n \<le> bound \<Longrightarrow> parse_digits radix bound 0 (show_radix_acc fuel radix n []) = Inr n"
proof (induction fuel arbitrary: n)
  case (Suc fuel)
  show ?case
  proof (cases "n < radix")
    case True
    then show ?thesis using Suc.prems assms by (simp add: char_digit_digit_char)
  next
    case False
    have "n div radix < n" using False assms by (intro div_less_dividend) auto
    then have IH: "parse_digits radix bound 0 (show_radix_acc fuel radix (n div radix) []) = Inr (n div radix)"
      using Suc.prems div_le_dividend [of n radix] by (intro Suc.IH) linarith+
    have d: "n mod radix < radix" using assms by simp
    then have "n mod radix < 36" using assms by linarith
    then have "char_digit (digit_char (n mod radix)) = Some (n mod radix)"
      by (rule char_digit_digit_char)
    with d False IH Suc.prems show ?thesis
      by (simp add: show_radix_acc_append [of _ _ _ "[_]"] parse_digits_append)
  qed
qed simp

lemma digit_char_not_plus: "d < 36 \<Longrightarrow> digit_char d \<noteq> CHR ''+''"
  using char_digit_digit_char [of d] by (auto simp: char_digit_def Let_def)

lemma show_radix_acc_ne: "fuel \<noteq> 0 \<Longrightarrow> show_radix_acc fuel radix n acc \<noteq> []"
  by (cases fuel) (simp_all add: show_radix_acc_append [of _ _ _ "_ # _"])

lemma show_radix_ne [simp]: "show_radix radix n \<noteq> []"
  unfolding show_radix_def by (rule show_radix_acc_ne) simp

lemma set_show_radix_acc:
  "0 < radix \<Longrightarrow> set (show_radix_acc fuel radix n acc) \<subseteq> digit_char ` {..<radix} \<union> set acc"
proof (induction fuel arbitrary: n acc)
  case (Suc fuel)
  have "show_radix_acc fuel radix (n div radix) (digit_char (n mod radix) # acc) = w \<Longrightarrow>
      set w \<subseteq> digit_char ` {..<radix} \<union> set acc" for w
    using Suc.IH [of "n div radix" "digit_char (n mod radix) # acc"] Suc.prems by auto
  then show ?case by auto
qed simp

lemma set_show_radix: "0 < radix \<Longrightarrow> set (show_radix radix n) \<subseteq> digit_char ` {..<radix}"
  using set_show_radix_acc [of radix "Suc n" n "[]"] by (simp add: show_radix_def)

text \<open>Reading back what was written.\<close>

lemma from_str_radix_show:
  assumes "2 \<le> radix" "radix \<le> 36" "n \<le> bound"
  shows "from_str_radix radix bound (show_radix radix n) = Inr n"
proof -
  obtain c cs where s: "show_radix radix n = c # cs"
    by (meson list.exhaust show_radix_ne)
  then have "c \<in> digit_char ` {..<radix}"
    using set_show_radix [of radix n] assms(1) by auto
  then have "c \<noteq> CHR ''+''"
    using digit_char_not_plus assms(2) by auto
  moreover have "parse_digits radix bound 0 (show_radix radix n) = Inr n"
    unfolding show_radix_def using assms by (intro parse_show_radix_acc) auto
  ultimately show ?thesis using s by (simp add: from_str_radix_def)
qed

lemma parse_digits_bound: "parse_digits radix bound acc s = Inr n \<Longrightarrow> acc \<le> bound \<Longrightarrow> n \<le> bound"
  by (induction radix bound acc s rule: parse_digits.induct) (auto split: option.splits if_splits)

lemma from_str_radix_bound: "from_str_radix radix bound s = Inr n \<Longrightarrow> n \<le> bound"
  by (auto simp: from_str_radix_def simp del: parse_digits.simps split: list.splits if_splits
      dest: parse_digits_bound)

lemma split_on_ne [simp]: "split_on sep s \<noteq> []"
  by (induction s) (auto split: list.splits)

lemma split_on_word: "sep \<notin> set w \<Longrightarrow> split_on sep w = [w]"
  by (induction w) auto

lemma split_on_append: "sep \<notin> set w \<Longrightarrow> split_on sep (w @ sep # s) = w # split_on sep s"
  by (induction w) auto

end
