(* ===== verification/Chain_Types.thy ===== *)
theory Chain_Types
  imports Num_Text
begin

text \<open>
  Chain identifiers and protocol versions: \<^verbatim>\<open>crates/primitives/src/chain.rs\<close> and
  \<^verbatim>\<open>crates/primitives/src/version.rs\<close>.  A short string is the big-endian number of its ASCII
  bytes.  The conversions of the \<^verbatim>\<open>starknet\<close> crates (\<^verbatim>\<open>cairo_short_string_to_felt\<close>,
  \<^verbatim>\<open>Felt::from_hex\<close> and the hexadecimal formatting of a felt) are parameters.
\<close>

definition short_string :: "string \<Rightarrow> felt" where
  "short_string s = foldl (\<lambda>acc c. acc * 256 + of_char c) 0 s"

section \<open>Chain identifiers\<close>

datatype named_chain_id = Mainnet | Goerli | Sepolia

definition SN_MAIN :: felt where "SN_MAIN = short_string ''SN_MAIN''"
definition SN_GOERLI :: felt where "SN_GOERLI = short_string ''SN_GOERLI''"
definition SN_SEPOLIA :: felt where "SN_SEPOLIA = short_string ''SN_SEPOLIA''"

fun named_id :: "named_chain_id \<Rightarrow> felt" where
  "named_id Mainnet = SN_MAIN"
| "named_id Goerli = SN_GOERLI"
| "named_id Sepolia = SN_SEPOLIA"

fun named_name :: "named_chain_id \<Rightarrow> string" where
  "named_name Mainnet = ''SN_MAIN''"
| "named_name Goerli = ''SN_GOERLI''"
| "named_name Sepolia = ''SN_SEPOLIA''"

datatype named_chain_try_from_error = NamedChainTryFromError felt

definition named_try_from :: "felt \<Rightarrow> named_chain_try_from_error + named_chain_id" where
  "named_try_from value =
     (if value = SN_MAIN then Inr Mainnet
      else if value = SN_GOERLI then Inr Goerli
      else if value = SN_SEPOLIA then Inr Sepolia
      else Inl (NamedChainTryFromError value))"

datatype chain_id = Named named_chain_id | Id felt

fun chain_id_id :: "chain_id \<Rightarrow> felt" where
  "chain_id_id (Named name) = named_id name"
| "chain_id_id (Id i) = i"

definition chain_id_from :: "felt \<Rightarrow> chain_id" where
  "chain_id_from value = (case named_try_from value of Inr n \<Rightarrow> Named n | Inl _ \<Rightarrow> Id value)"

definition chain_id_default :: chain_id where
  "chain_id_default = Id 0"

datatype ('h, 'c) parse_chain_id_error = FromStr 'h | CairoShortStringToFelt 'c

definition starts_with :: "string \<Rightarrow> string \<Rightarrow> bool" where
  "starts_with s p \<longleftrightarrow> take (length p) s = p"

text \<open>\<open>from_hex\<close> and \<open>to_felt\<close> stand for the felt and short-string parsers of the libraries.\<close>

definition chain_id_parse ::
    "(string \<Rightarrow> 'h + felt) \<Rightarrow> (string \<Rightarrow> 'c + felt) \<Rightarrow> string
     \<Rightarrow> ('h, 'c) parse_chain_id_error + chain_id" where
  "chain_id_parse from_hex to_felt s =
     (if starts_with s ''0x''
      then (case from_hex s of Inl e \<Rightarrow> Inl (FromStr e) | Inr i \<Rightarrow> Inr (chain_id_from i))
      else (case to_felt s of Inl e \<Rightarrow> Inl (CairoShortStringToFelt e) | Inr i \<Rightarrow> Inr (chain_id_from i)))"

fun chain_id_display :: "(felt \<Rightarrow> string) \<Rightarrow> chain_id \<Rightarrow> string" where
  "chain_id_display hex (Named n) = named_name n"
| "chain_id_display hex (Id i) = hex i"

text \<open>A chain id in normal form names every known chain; \<open>chain_id_from\<close> produces these.\<close>

definition chain_id_normal :: "chain_id \<Rightarrow> bool" where
  "chain_id_normal c \<longleftrightarrow> chain_id_from (chain_id_id c) = c"

section \<open>Protocol versions\<close>

record protocol_version =
  segments :: "nat list"

datatype parse_version_error = InvalidFormat | ParseSegment parse_int_error

definition version_new :: "nat list \<Rightarrow> protocol_version" where
  "version_new s = \<lparr>segments = s\<rparr>"

definition CURRENT_STARKNET_VERSION :: protocol_version where
  "CURRENT_STARKNET_VERSION = version_new [0, 13, 1, 1]"

definition version_default :: protocol_version where
  "version_default = version_new [0, 1, 0, 0]"

text \<open>The loop over the zipped buffer and segments, left to right with an early return.\<close>

fun fill_segments :: "nat list \<Rightarrow> string list \<Rightarrow> parse_version_error + nat list" where
  "fill_segments [] segs = Inr []"
| "fill_segments buffer [] = Inr buffer"
| "fill_segments (b # buffer) (seg # segs) =
     (case (if seg = [] then Inr 0 else parse_u8 seg) of
        Inl e \<Rightarrow> Inl (ParseSegment e)
      | Inr n \<Rightarrow> rbind (fill_segments buffer segs) (\<lambda>rest. Inr (n # rest)))"

definition version_parse :: "string \<Rightarrow> parse_version_error + protocol_version" where
  "version_parse version =
     (if version = [] then Inl InvalidFormat
      else let segs = split_on (CHR ''.'') version in
        if 4 < length segs then Inl InvalidFormat
        else rbind (fill_segments [0, 0, 0, 0] segs) (\<lambda>buffer. Inr (version_new buffer)))"

text \<open>One step of the formatting loop, by the index of the segment.\<close>

definition show_segment :: "nat \<Rightarrow> nat \<Rightarrow> nat \<Rightarrow> string" where
  "show_segment n idx segment =
     (if idx = n - 1 then (if segment \<noteq> 0 then CHR ''.'' # show_dec segment else [])
      else if idx = 0 then show_dec segment
      else CHR ''.'' # show_dec segment)"

definition version_to_string :: "protocol_version \<Rightarrow> string" where
  "version_to_string v =
     concat (map (\<lambda>(idx, segment). show_segment (length (segments v)) idx segment)
       (List.enumerate 0 (segments v)))"

text \<open>The array type of the code: four bytes.\<close>

definition version_ok :: "protocol_version \<Rightarrow> bool" where
  "version_ok v \<longleftrightarrow> length (segments v) = 4 \<and> (\<forall>s\<in>set (segments v). s < 256)"

section \<open>Facts\<close>

lemma named_ids_distinct: "inj named_id"
proof (rule injI)
  fix a b assume "named_id a = named_id b"
  then show "a = b"
    by (cases a; cases b) (simp_all add: SN_MAIN_def SN_GOERLI_def SN_SEPOLIA_def short_string_def)
qed

lemma named_try_from_id [simp]: "named_try_from (named_id n) = Inr n"
  using inj_eq [OF named_ids_distinct]
  by (cases n) (auto simp: named_try_from_def simp flip: named_id.simps)

lemma named_try_from_Inr: "named_try_from v = Inr n \<Longrightarrow> named_id n = v"
  by (auto simp: named_try_from_def split: if_splits)

lemma chain_id_id_from [simp]: "chain_id_id (chain_id_from v) = v"
  by (auto simp: chain_id_from_def split: sum.splits dest: named_try_from_Inr)

lemma chain_id_normal_from [simp]: "chain_id_normal (chain_id_from v)"
  by (simp add: chain_id_normal_def)

lemma chain_id_normal_Named [simp]: "chain_id_normal (Named n)"
  by (simp add: chain_id_normal_def chain_id_from_def)

lemma dot_not_digit: "CHR ''.'' \<notin> set (show_dec n)"
proof
  assume "CHR ''.'' \<in> set (show_dec n)"
  then obtain d where d: "d < 10" "digit_char d = CHR ''.''"
    using set_show_radix [of 10 n] by auto
  then have "char_digit (digit_char d) = Some d"
    by (intro char_digit_digit_char) simp
  with d(2) show False by (simp add: char_digit_def)
qed

lemma parse_u8_show [simp]: "n < 256 \<Longrightarrow> parse_u8 (show_dec n) = Inr n"
  unfolding parse_u8_def by (rule from_str_radix_show) auto

lemma parse_u8_bound: "parse_u8 s = Inr n \<Longrightarrow> n < 256"
  unfolding parse_u8_def using from_str_radix_bound by fastforce

lemma version_to_string_four:
  "version_to_string \<lparr>segments = [a, b, c, d]\<rparr> =
     show_dec a @ CHR ''.'' # show_dec b @ CHR ''.'' # show_dec c @
       (if d = 0 then [] else CHR ''.'' # show_dec d)"
  by (simp add: version_to_string_def show_segment_def)

lemma split_version_to_string:
  "split_on (CHR ''.'') (version_to_string \<lparr>segments = [a, b, c, d]\<rparr>) =
     [show_dec a, show_dec b, show_dec c] @ (if d = 0 then [] else [show_dec d])"
  by (simp add: version_to_string_four split_on_append split_on_word dot_not_digit)

lemma version_ok_cases:
  assumes "version_ok v"
  obtains a b c d where "v = \<lparr>segments = [a, b, c, d]\<rparr>" "a < 256" "b < 256" "c < 256" "d < 256"
proof -
  obtain a b c d where "segments v = [a, b, c, d]"
    using assms by (auto simp: version_ok_def numeral_eq_Suc length_Suc_conv)
  then show thesis using that assms
    by (cases v) (auto simp: version_ok_def)
qed

lemma fill_segments_ok:
  "fill_segments buffer segs = Inr out \<Longrightarrow> (\<forall>b\<in>set buffer. b < 256) \<Longrightarrow>
   length out = length buffer \<and> (\<forall>b\<in>set out. b < 256)"
proof (induction buffer segs arbitrary: out rule: fill_segments.induct)
  case (3 b buffer seg segs)
  then show ?case
    by (auto simp: rbind_Inr_iff split: sum.splits if_splits dest: parse_u8_bound)
qed auto

lemma version_parse_ok: "version_parse s = Inr v \<Longrightarrow> version_ok v"
  by (auto simp: version_parse_def Let_def rbind_Inr_iff version_ok_def version_new_def
      split: if_splits dest!: fill_segments_ok)

text \<open>The textual form determines the version.\<close>

lemma version_roundtrip_aux: "version_ok v \<Longrightarrow> version_parse (version_to_string v) = Inr v"
proof (erule version_ok_cases)
  fix a b c d :: nat
  assume v: "v = \<lparr>segments = [a, b, c, d]\<rparr>" and lt: "a < 256" "b < 256" "c < 256" "d < 256"
  have "version_to_string v \<noteq> []" by (simp add: v version_to_string_four)
  then show ?thesis
    using lt by (simp add: version_parse_def v split_version_to_string version_new_def)
qed

end
