(* ===== verification/Bytes_Be.thy ===== *)
theory Bytes_Be
  imports Katana_Prelude
begin

text \<open>
  Big-endian byte strings: \<^verbatim>\<open>to_be_bytes\<close> of the integer types, and field elements from and to
  bytes.  A byte is a natural number below 256.  Shared by the hash preimages, the database
  codecs and the blob encoding.
\<close>

type_synonym bytes = "nat list"

fun be_bytes :: "nat \<Rightarrow> nat \<Rightarrow> bytes" where
  "be_bytes 0 n = []"
| "be_bytes (Suc w) n = be_bytes w (n div 256) @ [n mod 256]"

definition be_value :: "bytes \<Rightarrow> nat" where
  "be_value bs = foldl (\<lambda>acc b. acc * 256 + b) 0 bs"

definition felt_from_bytes_be :: "bytes \<Rightarrow> felt" where
  "felt_from_bytes_be bs = be_value bs mod stark_prime"

definition felt_to_bytes_be :: "felt \<Rightarrow> bytes" where
  "felt_to_bytes_be = be_bytes 32"

definition bytes_ok :: "bytes \<Rightarrow> bool" where
  "bytes_ok bs \<longleftrightarrow> (\<forall>b\<in>set bs. b < 256)"

lemma length_be_bytes [simp]: "length (be_bytes w n) = w"
  by (induction w arbitrary: n) auto

lemma bytes_ok_be_bytes [simp]: "bytes_ok (be_bytes w n)"
  by (induction w arbitrary: n) (auto simp: bytes_ok_def)

lemma bytes_ok_append [simp]: "bytes_ok (xs @ ys) \<longleftrightarrow> bytes_ok xs \<and> bytes_ok ys"
  by (auto simp: bytes_ok_def)

lemma bytes_ok_Cons [simp]: "bytes_ok (b # bs) \<longleftrightarrow> b < 256 \<and> bytes_ok bs"
  by (auto simp: bytes_ok_def)

lemma bytes_ok_Nil [simp]: "bytes_ok []"
  by (simp add: bytes_ok_def)

lemma bytes_ok_replicate_0 [simp]: "bytes_ok (replicate n 0)"
  by (simp add: bytes_ok_def)

lemma be_value_simps [simp]: "be_value [] = 0" "be_value [b] = b" "be_value (bs @ [b]) = be_value bs * 256 + b"
  by (simp_all add: be_value_def)

lemma be_value_append: "be_value (xs @ ys) = be_value xs * 256 ^ length ys + be_value ys"
proof (induction ys rule: rev_induct)
  case (snoc y ys)
  then show ?case
    by (simp flip: append_assoc add: algebra_simps)
qed simp

lemma be_value_Cons: "be_value (b # bs) = b * 256 ^ length bs + be_value bs"
  using be_value_append [of "[b]" bs] by simp

lemma be_value_replicate_0 [simp]: "be_value (replicate n 0) = 0"
  by (induction n) (simp_all add: be_value_Cons)

lemma be_value_less: "bytes_ok bs \<Longrightarrow> be_value bs < 256 ^ length bs"
proof (induction bs rule: rev_induct)
  case (snoc b bs)
  then have "be_value bs + 1 \<le> 256 ^ length bs" "b < 256"
    by (auto simp: bytes_ok_def)
  then have "(be_value bs + 1) * 256 \<le> 256 ^ length bs * 256"
    by (intro mult_le_mono1)
  with \<open>b < 256\<close> show ?case by simp
qed simp

lemma be_value_be_bytes [simp]: "be_value (be_bytes w n) = n mod 256 ^ w"
proof (induction w arbitrary: n)
  case (Suc w)
  have "n mod 256 ^ Suc w = n div 256 mod 256 ^ w * 256 + n mod 256"
    by (simp add: mod_mult2_eq [of n 256 "256 ^ w"] mult.commute)
  with Suc show ?case by simp
qed simp

lemma be_bytes_be_value: "bytes_ok bs \<Longrightarrow> be_bytes (length bs) (be_value bs) = bs"
proof (induction bs rule: rev_induct)
  case (snoc b bs)
  then have "b < 256" "bytes_ok bs" by (auto simp: bytes_ok_def)
  with snoc show ?case by simp
qed simp

lemma be_bytes_inj: "x < 256 ^ w \<Longrightarrow> y < 256 ^ w \<Longrightarrow> be_bytes w x = be_bytes w y \<longleftrightarrow> x = y"
  by (metis be_value_be_bytes mod_less)

lemma be_value_inj:
  "bytes_ok xs \<Longrightarrow> bytes_ok ys \<Longrightarrow> length xs = length ys \<Longrightarrow> be_value xs = be_value ys \<longleftrightarrow> xs = ys"
  by (metis be_bytes_be_value)

lemma felt_from_bytes_be_small:
  "bytes_ok bs \<Longrightarrow> length bs \<le> 31 \<Longrightarrow> felt_from_bytes_be bs = be_value bs"
proof -
  assume bs: "bytes_ok bs" "length bs \<le> 31"
  have "be_value bs < 256 ^ length bs" using bs by (intro be_value_less)
  also have "\<dots> \<le> 256 ^ 31" using bs by (intro power_increasing) auto
  also have "\<dots> < stark_prime" by (simp add: stark_prime_def)
  finally show ?thesis by (simp add: felt_from_bytes_be_def)
qed

lemma stark_prime_less_256_32: "stark_prime < 256 ^ 32"
  by (simp add: stark_prime_def)

lemma felt_bytes_roundtrip: "x < stark_prime \<Longrightarrow> felt_from_bytes_be (felt_to_bytes_be x) = x"
  using stark_prime_less_256_32 by (simp add: felt_from_bytes_be_def felt_to_bytes_be_def)

lemma length_felt_to_bytes_be [simp]: "length (felt_to_bytes_be x) = 32"
  by (simp add: felt_to_bytes_be_def)

end
