(* ===== verification/Tx_Hash.thy ===== *)
theory Tx_Hash
  imports Transactions "HOL-Library.Countable"
begin

text \<open>
  Transaction hashes: \<^verbatim>\<open>crates/primitives/src/utils/transaction.rs\<close> and the
  \<^verbatim>\<open>calculate_hash\<close> methods of \<^verbatim>\<open>transaction.rs\<close>.  \<open>ped\<close> stands for
  \<^verbatim>\<open>compute_hash_on_elements\<close>, \<open>pos\<close> for \<^verbatim>\<open>poseidon_hash_many\<close>; the theorems assume of them at
  most that they are injective.  A method that panics is \<open>None\<close>.
\<close>

definition QUERY_VERSION_OFFSET :: felt where "QUERY_VERSION_OFFSET = 2 ^ 128"
definition PREFIX_INVOKE :: felt where "PREFIX_INVOKE = short_string ''invoke''"
definition PREFIX_DECLARE :: felt where "PREFIX_DECLARE = short_string ''declare''"
definition PREFIX_DEPLOY_ACCOUNT :: felt where "PREFIX_DEPLOY_ACCOUNT = short_string ''deploy_account''"
definition PREFIX_L1_HANDLER :: felt where "PREFIX_L1_HANDLER = short_string ''l1_handler''"

type_synonym hash_fn = "felt list \<Rightarrow> felt"

text \<open>The version felt, with the query offset added for simulated transactions.\<close>

definition query_version :: "bool \<Rightarrow> felt \<Rightarrow> felt" where
  "query_version is_query v = (if is_query then (QUERY_VERSION_OFFSET + v) mod stark_prime else v)"

definition encode_gas_bound :: "bytes \<Rightarrow> resource_bounds \<Rightarrow> felt" where
  "encode_gas_bound name bound =
     felt_from_bytes_be
       (replicate (8 - length name) 0 @ name @ be_bytes 8 (max_amount bound)
        @ be_bytes 16 (max_price_per_unit bound))"

definition name_L1_GAS :: bytes where "name_L1_GAS = map of_char ''L1_GAS''"
definition name_L2_GAS :: bytes where "name_L2_GAS = map of_char ''L2_GAS''"
definition name_L1_DATA :: bytes where "name_L1_DATA = map of_char ''L1_DATA''"

definition hash_fee_fields ::
    "hash_fn \<Rightarrow> nat \<Rightarrow> resource_bounds \<Rightarrow> resource_bounds \<Rightarrow> resource_bounds option \<Rightarrow> felt" where
  "hash_fee_fields pos tip l1_gas_bounds l2_gas_bounds l1_data_gas_bounds =
     (case l1_data_gas_bounds of
        Some data_gas_bounds \<Rightarrow>
          pos [tip, encode_gas_bound name_L1_GAS l1_gas_bounds,
               encode_gas_bound name_L2_GAS l2_gas_bounds,
               encode_gas_bound name_L1_DATA data_gas_bounds]
      | None \<Rightarrow>
          pos [tip, encode_gas_bound name_L1_GAS l1_gas_bounds,
               encode_gas_bound name_L2_GAS l2_gas_bounds])"

fun da_mode_u64 :: "da_mode \<Rightarrow> nat" where
  "da_mode_u64 DaL1 = 0"
| "da_mode_u64 DaL2 = 1"

definition encode_da_mode :: "da_mode \<Rightarrow> da_mode \<Rightarrow> felt" where
  "encode_da_mode nonce_da_mode fee_da_mode =
     (let nonce = da_mode_u64 nonce_da_mode * 2 ^ 32; fee = da_mode_u64 fee_da_mode in nonce + fee)"

definition compute_deploy_account_v1_tx_hash ::
    "hash_fn \<Rightarrow> felt \<Rightarrow> felt list \<Rightarrow> felt \<Rightarrow> felt \<Rightarrow> nat \<Rightarrow> felt \<Rightarrow> felt \<Rightarrow> bool \<Rightarrow> felt" where
  "compute_deploy_account_v1_tx_hash ped sender_address constructor_calldata class_hash
       contract_address_salt max_fee chain nonce is_query =
     (let calldata_to_hash = [class_hash, contract_address_salt] @ constructor_calldata in
      ped [PREFIX_DEPLOY_ACCOUNT, query_version is_query 1, sender_address, 0,
           ped calldata_to_hash, max_fee, chain, nonce])"

definition compute_deploy_account_v3_tx_hash ::
    "hash_fn \<Rightarrow> felt \<Rightarrow> felt list \<Rightarrow> felt \<Rightarrow> felt \<Rightarrow> nat \<Rightarrow> resource_bounds \<Rightarrow> resource_bounds
     \<Rightarrow> resource_bounds option \<Rightarrow> felt list \<Rightarrow> felt \<Rightarrow> felt \<Rightarrow> da_mode \<Rightarrow> da_mode \<Rightarrow> bool \<Rightarrow> felt" where
  "compute_deploy_account_v3_tx_hash pos contract_address constructor_calldata class_hash
       contract_address_salt tip l1_gas_bounds l2_gas_bounds l1_data_gas_bounds paymaster_data
       chain nonce nonce_da fee_da is_query =
     pos [PREFIX_DEPLOY_ACCOUNT, query_version is_query 3, contract_address,
          hash_fee_fields pos tip l1_gas_bounds l2_gas_bounds l1_data_gas_bounds,
          pos paymaster_data, chain, nonce, encode_da_mode nonce_da fee_da,
          pos constructor_calldata, class_hash, contract_address_salt]"

definition compute_declare_v0_tx_hash :: "hash_fn \<Rightarrow> felt \<Rightarrow> felt \<Rightarrow> nat \<Rightarrow> felt \<Rightarrow> bool \<Rightarrow> felt" where
  "compute_declare_v0_tx_hash ped sender_address class_hash max_fee chain is_query =
     ped [PREFIX_DECLARE, query_version is_query 0, sender_address, 0, ped [], max_fee, chain, class_hash]"

definition compute_declare_v1_tx_hash ::
    "hash_fn \<Rightarrow> felt \<Rightarrow> felt \<Rightarrow> nat \<Rightarrow> felt \<Rightarrow> felt \<Rightarrow> bool \<Rightarrow> felt" where
  "compute_declare_v1_tx_hash ped sender_address class_hash max_fee chain nonce is_query =
     ped [PREFIX_DECLARE, query_version is_query 1, sender_address, 0, ped [class_hash], max_fee,
          chain, nonce]"

definition compute_declare_v2_tx_hash ::
    "hash_fn \<Rightarrow> felt \<Rightarrow> felt \<Rightarrow> nat \<Rightarrow> felt \<Rightarrow> felt \<Rightarrow> felt \<Rightarrow> bool \<Rightarrow> felt" where
  "compute_declare_v2_tx_hash ped sender_address class_hash max_fee chain nonce compiled_class_hash is_query =
     ped [PREFIX_DECLARE, query_version is_query 2, sender_address, 0, ped [class_hash], max_fee,
          chain, nonce, compiled_class_hash]"

definition compute_declare_v3_tx_hash ::
    "hash_fn \<Rightarrow> felt \<Rightarrow> felt \<Rightarrow> felt \<Rightarrow> nat \<Rightarrow> resource_bounds \<Rightarrow> resource_bounds
     \<Rightarrow> resource_bounds option \<Rightarrow> felt list \<Rightarrow> felt \<Rightarrow> felt \<Rightarrow> da_mode \<Rightarrow> da_mode \<Rightarrow> felt list \<Rightarrow> bool \<Rightarrow> felt" where
  "compute_declare_v3_tx_hash pos sender_address class_hash compiled_class_hash tip l1_gas_bounds
       l2_gas_bounds l1_data_gas_bounds paymaster_data chain nonce nonce_da fee_da
       account_deployment_data is_query =
     pos [PREFIX_DECLARE, query_version is_query 3, sender_address,
          hash_fee_fields pos tip l1_gas_bounds l2_gas_bounds l1_data_gas_bounds,
          pos paymaster_data, chain, nonce, encode_da_mode nonce_da fee_da,
          pos account_deployment_data, class_hash, compiled_class_hash]"

definition compute_invoke_v1_tx_hash ::
    "hash_fn \<Rightarrow> felt \<Rightarrow> felt list \<Rightarrow> nat \<Rightarrow> felt \<Rightarrow> felt \<Rightarrow> bool \<Rightarrow> felt" where
  "compute_invoke_v1_tx_hash ped sender_address calldata max_fee chain nonce is_query =
     ped [PREFIX_INVOKE, query_version is_query 1, sender_address, 0, ped calldata, max_fee, chain, nonce]"

definition compute_invoke_v3_tx_hash ::
    "hash_fn \<Rightarrow> felt \<Rightarrow> felt list \<Rightarrow> nat \<Rightarrow> resource_bounds \<Rightarrow> resource_bounds
     \<Rightarrow> resource_bounds option \<Rightarrow> felt list \<Rightarrow> felt \<Rightarrow> felt \<Rightarrow> da_mode \<Rightarrow> da_mode \<Rightarrow> felt list \<Rightarrow> bool \<Rightarrow> felt" where
  "compute_invoke_v3_tx_hash pos sender_address calldata tip l1_gas_bounds l2_gas_bounds
       l1_data_gas_bounds paymaster_data chain nonce nonce_da fee_da account_deployment_data is_query =
     pos [PREFIX_INVOKE, query_version is_query 3, sender_address,
          hash_fee_fields pos tip l1_gas_bounds l2_gas_bounds l1_data_gas_bounds,
          pos paymaster_data, chain, nonce, encode_da_mode nonce_da fee_da,
          pos account_deployment_data, pos calldata]"

definition compute_l1_handler_tx_hash ::
    "hash_fn \<Rightarrow> felt \<Rightarrow> felt \<Rightarrow> felt \<Rightarrow> felt list \<Rightarrow> felt \<Rightarrow> felt \<Rightarrow> felt" where
  "compute_l1_handler_tx_hash ped version contract_address entry_point_selector calldata chain nonce =
     ped [PREFIX_L1_HANDLER, version, contract_address, entry_point_selector, ped calldata, 0, chain, nonce]"

text \<open>How the three V3 transactions pass their resource bounds.\<close>

fun bounds_l1 :: "resource_bounds_mapping \<Rightarrow> resource_bounds" where
  "bounds_l1 (AllBounds b) = l1_gas b"
| "bounds_l1 (L1Gas b) = b"

fun bounds_l2 :: "resource_bounds_mapping \<Rightarrow> resource_bounds" where
  "bounds_l2 (AllBounds b) = l2_gas b"
| "bounds_l2 (L1Gas b) = resource_bounds_ZERO"

fun bounds_l1_data :: "resource_bounds_mapping \<Rightarrow> resource_bounds option" where
  "bounds_l1_data (AllBounds b) = Some (l1_data_gas b)"
| "bounds_l1_data (L1Gas b) = None"

fun invoke_calculate_hash :: "hash_fn \<Rightarrow> hash_fn \<Rightarrow> invoke_tx \<Rightarrow> bool \<Rightarrow> felt option" where
  "invoke_calculate_hash ped pos (InvokeV0 t) is_query = None"
| "invoke_calculate_hash ped pos (InvokeV1 t) is_query =
     Some (compute_invoke_v1_tx_hash ped (iv1_sender_address t) (iv1_calldata t) (iv1_max_fee t)
       (chain_id_id (iv1_chain_id t)) (iv1_nonce t) is_query)"
| "invoke_calculate_hash ped pos (InvokeV3 t) is_query =
     Some (compute_invoke_v3_tx_hash pos (iv3_sender_address t) (iv3_calldata t) (iv3_tip t)
       (bounds_l1 (iv3_resource_bounds t)) (bounds_l2 (iv3_resource_bounds t))
       (bounds_l1_data (iv3_resource_bounds t)) (iv3_paymaster_data t)
       (chain_id_id (iv3_chain_id t)) (iv3_nonce t) (iv3_nonce_da_mode t) (iv3_fee_da_mode t)
       (iv3_account_deployment_data t) is_query)"

fun declare_calculate_hash :: "hash_fn \<Rightarrow> hash_fn \<Rightarrow> declare_tx \<Rightarrow> bool \<Rightarrow> felt" where
  "declare_calculate_hash ped pos (DeclareV0 t) is_query =
     compute_declare_v0_tx_hash ped (dv0_sender_address t) (dv0_class_hash t) (dv0_max_fee t)
       (chain_id_id (dv0_chain_id t)) is_query"
| "declare_calculate_hash ped pos (DeclareV1 t) is_query =
     compute_declare_v1_tx_hash ped (dv1_sender_address t) (dv1_class_hash t) (dv1_max_fee t)
       (chain_id_id (dv1_chain_id t)) (dv1_nonce t) is_query"
| "declare_calculate_hash ped pos (DeclareV2 t) is_query =
     compute_declare_v2_tx_hash ped (dv2_sender_address t) (dv2_class_hash t) (dv2_max_fee t)
       (chain_id_id (dv2_chain_id t)) (dv2_nonce t) (dv2_compiled_class_hash t) is_query"
| "declare_calculate_hash ped pos (DeclareV3 t) is_query =
     compute_declare_v3_tx_hash pos (dv3_sender_address t) (dv3_class_hash t)
       (dv3_compiled_class_hash t) (dv3_tip t)
       (bounds_l1 (dv3_resource_bounds t)) (bounds_l2 (dv3_resource_bounds t))
       (bounds_l1_data (dv3_resource_bounds t)) (dv3_paymaster_data t)
       (chain_id_id (dv3_chain_id t)) (dv3_nonce t) (dv3_nonce_da_mode t) (dv3_fee_da_mode t)
       (dv3_account_deployment_data t) is_query"

definition l1_handler_calculate_hash :: "hash_fn \<Rightarrow> l1_handler_tx \<Rightarrow> felt" where
  "l1_handler_calculate_hash ped t =
     compute_l1_handler_tx_hash ped (l1h_version t) (l1h_contract_address t)
       (l1h_entry_point_selector t) (l1h_calldata t) (chain_id_id (l1h_chain_id t)) (l1h_nonce t)"

fun deploy_account_calculate_hash :: "hash_fn \<Rightarrow> hash_fn \<Rightarrow> deploy_account_tx \<Rightarrow> bool \<Rightarrow> felt" where
  "deploy_account_calculate_hash ped pos (DeployAccountV1 t) is_query =
     compute_deploy_account_v1_tx_hash ped (da1_contract_address t) (da1_constructor_calldata t)
       (da1_class_hash t) (da1_contract_address_salt t) (da1_max_fee t)
       (chain_id_id (da1_chain_id t)) (da1_nonce t) is_query"
| "deploy_account_calculate_hash ped pos (DeployAccountV3 t) is_query =
     compute_deploy_account_v3_tx_hash pos (da3_contract_address t) (da3_constructor_calldata t)
       (da3_class_hash t) (da3_contract_address_salt t) (da3_tip t)
       (bounds_l1 (da3_resource_bounds t)) (bounds_l2 (da3_resource_bounds t))
       (bounds_l1_data (da3_resource_bounds t)) (da3_paymaster_data t)
       (chain_id_id (da3_chain_id t)) (da3_nonce t) (da3_nonce_da_mode t) (da3_fee_da_mode t) is_query"

fun executable_calculate_hash :: "hash_fn \<Rightarrow> hash_fn \<Rightarrow> 'cls executable_tx \<Rightarrow> bool \<Rightarrow> felt option" where
  "executable_calculate_hash ped pos (ExL1Handler t) is_query = Some (l1_handler_calculate_hash ped t)"
| "executable_calculate_hash ped pos (ExInvoke t) is_query = invoke_calculate_hash ped pos t is_query"
| "executable_calculate_hash ped pos (ExDeclare t) is_query =
     Some (declare_calculate_hash ped pos (dwc_transaction t) is_query)"
| "executable_calculate_hash ped pos (ExDeployAccount t) is_query =
     Some (deploy_account_calculate_hash ped pos t is_query)"

definition executable_new_query ::
    "hash_fn \<Rightarrow> hash_fn \<Rightarrow> 'cls executable_tx \<Rightarrow> bool \<Rightarrow> 'cls executable_tx_with_hash option" where
  "executable_new_query ped pos transaction is_query =
     map_option (\<lambda>h. \<lparr>ewh_hash = h, ewh_transaction = transaction\<rparr>)
       (executable_calculate_hash ped pos transaction is_query)"

definition executable_new ::
    "hash_fn \<Rightarrow> hash_fn \<Rightarrow> 'cls executable_tx \<Rightarrow> 'cls executable_tx_with_hash option" where
  "executable_new ped pos transaction =
     map_option (\<lambda>h. \<lparr>ewh_hash = h, ewh_transaction = transaction\<rparr>)
       (executable_calculate_hash ped pos transaction False)"

section \<open>Preimages are unambiguous\<close>

text \<open>The widths the types of the code guarantee.\<close>

definition bounds_ok :: "resource_bounds \<Rightarrow> bool" where
  "bounds_ok b \<longleftrightarrow> max_amount b < 2 ^ 64 \<and> max_price_per_unit b < 2 ^ 128"

fun bounds_mapping_ok :: "resource_bounds_mapping \<Rightarrow> bool" where
  "bounds_mapping_ok (L1Gas b) = bounds_ok b"
| "bounds_mapping_ok (AllBounds b) = (bounds_ok (l1_gas b) \<and> bounds_ok (l2_gas b) \<and> bounds_ok (l1_data_gas b))"

lemma encode_gas_bound_value:
  assumes "bytes_ok name" "length name \<le> 7"
  shows "encode_gas_bound name b =
    be_value (replicate (8 - length name) 0 @ name @ be_bytes 8 (max_amount b)
      @ be_bytes 16 (max_price_per_unit b))"
proof -
  let ?tl = "name @ be_bytes 8 (max_amount b) @ be_bytes 16 (max_price_per_unit b)"
  have v: "be_value (replicate n 0 @ ?tl) = be_value ?tl" for n
    by (simp add: be_value_append [of "replicate n 0"])
  have "felt_from_bytes_be ?tl = be_value ?tl"
    by (rule felt_from_bytes_be_small) (use assms in auto)
  then show ?thesis
    unfolding encode_gas_bound_def felt_from_bytes_be_def v .
qed

lemma encode_gas_bound_inj:
  assumes name: "bytes_ok name" "length name \<le> 7" and ok: "bounds_ok a" "bounds_ok b"
    and eq: "encode_gas_bound name a = encode_gas_bound name b"
  shows "a = b"
proof -
  have zeros: "bytes_ok (replicate n 0)" for n by (simp add: bytes_ok_def)
  have "be_bytes 8 (max_amount a) = be_bytes 8 (max_amount b) \<and>
      be_bytes 16 (max_price_per_unit a) = be_bytes 16 (max_price_per_unit b)"
    using eq name zeros unfolding encode_gas_bound_value [OF name]
    by (subst (asm) be_value_inj) auto
  then have "max_amount a = max_amount b" "max_price_per_unit a = max_price_per_unit b"
    using ok by (auto simp: be_bytes_inj bounds_ok_def)
  then show ?thesis by simp
qed

lemma gas_names [simp]:
  "bytes_ok name_L1_GAS" "bytes_ok name_L2_GAS" "bytes_ok name_L1_DATA"
  "length name_L1_GAS \<le> 7" "length name_L2_GAS \<le> 7" "length name_L1_DATA \<le> 7"
  by (simp_all add: name_L1_GAS_def name_L2_GAS_def name_L1_DATA_def bytes_ok_def)

lemma encode_da_mode_inj: "encode_da_mode a b = encode_da_mode c d \<longleftrightarrow> a = c \<and> b = d"
  by (cases a; cases b; cases c; cases d) (simp_all add: encode_da_mode_def)

lemma query_version_inj:
  "v < 4 \<Longrightarrow> w < 4 \<Longrightarrow> query_version q v = query_version r w \<longleftrightarrow> q = r \<and> v = w"
  by (auto simp: query_version_def QUERY_VERSION_OFFSET_def stark_prime_def)

lemma prefixes_distinct:
  "distinct [PREFIX_INVOKE, PREFIX_DECLARE, PREFIX_DEPLOY_ACCOUNT, PREFIX_L1_HANDLER]"
  by (simp add: PREFIX_INVOKE_def PREFIX_DECLARE_def PREFIX_DEPLOY_ACCOUNT_def
      PREFIX_L1_HANDLER_def short_string_def)

lemma bounds_ok_ZERO [simp]: "bounds_ok resource_bounds_ZERO"
  by (simp add: bounds_ok_def resource_bounds_ZERO_def)

text \<open>The fee fields determine the tip and the complete bounds, the legacy form included.\<close>

lemma hash_fee_fields_inj:
  assumes pos: "inj pos" and ok: "bounds_mapping_ok a" "bounds_mapping_ok b"
    and eq: "hash_fee_fields pos tip (bounds_l1 a) (bounds_l2 a) (bounds_l1_data a) =
      hash_fee_fields pos tip' (bounds_l1 b) (bounds_l2 b) (bounds_l1_data b)"
  shows "tip = tip' \<and> a = b"
  using ok eq
  by (cases a; cases b)
     (auto simp: hash_fee_fields_def inj_eq [OF pos] dest!: encode_gas_bound_inj [rotated 4])

lemmas pos_hash_defs =
  compute_invoke_v3_tx_hash_def compute_declare_v3_tx_hash_def compute_deploy_account_v3_tx_hash_def

lemmas ped_hash_defs =
  compute_invoke_v1_tx_hash_def compute_declare_v0_tx_hash_def compute_declare_v1_tx_hash_def
  compute_declare_v2_tx_hash_def compute_deploy_account_v1_tx_hash_def
  l1_handler_calculate_hash_def compute_l1_handler_tx_hash_def

text \<open>Which of the two hash functions a transaction uses.\<close>

fun uses_poseidon :: "'cls executable_tx \<Rightarrow> bool" where
  "uses_poseidon (ExInvoke (InvokeV3 _)) = True"
| "uses_poseidon (ExDeployAccount (DeployAccountV3 _)) = True"
| "uses_poseidon (ExDeclare t) = (case dwc_transaction t of DeclareV3 _ \<Rightarrow> True | _ \<Rightarrow> False)"
| "uses_poseidon _ = False"

text \<open>The leading elements of the preimage: kind, version and query flag.\<close>

fun kind_prefix :: "tx_type \<Rightarrow> felt" where
  "kind_prefix TInvoke = PREFIX_INVOKE"
| "kind_prefix TDeclare = PREFIX_DECLARE"
| "kind_prefix TDeployAccount = PREFIX_DEPLOY_ACCOUNT"
| "kind_prefix TL1Handler = PREFIX_L1_HANDLER"
| "kind_prefix TDeploy = 0"

lemma kind_prefix_inj:
  "kind_prefix k = kind_prefix k' \<Longrightarrow> k \<noteq> TDeploy \<Longrightarrow> k' \<noteq> TDeploy \<Longrightarrow> k = k'"
  using prefixes_distinct by (cases k; cases k') auto

lemma executable_type_not_deploy [simp]: "executable_type a \<noteq> TDeploy"
  by (cases a) auto

definition hash_version :: "'cls executable_tx \<Rightarrow> bool \<Rightarrow> felt" where
  "hash_version a q =
     (if executable_type a = TL1Handler then tx_version (tx_of_executable a)
      else query_version q (tx_version (tx_of_executable a)))"

lemma executable_hash_head:
  assumes "executable_calculate_hash ped pos a q = Some h"
  shows "\<exists>rest. h = (if uses_poseidon a then pos else ped)
    (kind_prefix (executable_type a) # hash_version a q # rest)"
proof (cases a)
  case (ExInvoke t)
  with assms show ?thesis
    by (cases t) (auto simp: hash_version_def pos_hash_defs ped_hash_defs)
next
  case (ExDeclare t)
  with assms show ?thesis
    by (cases "dwc_transaction t") (auto simp: hash_version_def pos_hash_defs ped_hash_defs Let_def)
next
  case (ExDeployAccount t)
  with assms show ?thesis
    by (cases t) (auto simp: hash_version_def pos_hash_defs ped_hash_defs Let_def)
next
  case (ExL1Handler t)
  with assms show ?thesis by (auto simp: hash_version_def ped_hash_defs)
qed

lemma tx_version_less_4: "executable_type a \<noteq> TL1Handler \<Longrightarrow> tx_version (tx_of_executable a) < 4"
proof (cases a)
  case (ExInvoke t) then show ?thesis by (cases t) auto
next
  case (ExDeclare t) then show ?thesis by (cases "dwc_transaction t") auto
next
  case (ExDeployAccount t) then show ?thesis by (cases t) auto
qed auto

section \<open>Properties\<close>

text \<open>
  C24. The hash of a V3 invoke transaction binds every field it is computed from.  If
  Poseidon is collision free, two V3 invoke transactions (with chain ids in normal form and
  bounds of the widths of the code) that have the same hash agree in everything but the
  signature, whatever the form of their resource bounds, and are both queries or both not.
\<close>

theorem invoke_v3_hash_binding:
  assumes "inj pos"
    and "bounds_mapping_ok (iv3_resource_bounds a)" "bounds_mapping_ok (iv3_resource_bounds b)"
    and "chain_id_normal (iv3_chain_id a)" "chain_id_normal (iv3_chain_id b)"
    and "invoke_calculate_hash ped pos (InvokeV3 a) q = invoke_calculate_hash ped pos (InvokeV3 b) r"
  shows "q = r \<and> a\<lparr>iv3_signature := []\<rparr> = b\<lparr>iv3_signature := []\<rparr>"
proof -
  note inj = inj_eq [OF assms(1)]
  have eqs: "query_version q 3 = query_version r 3"
      "encode_da_mode (iv3_nonce_da_mode a) (iv3_fee_da_mode a) =
       encode_da_mode (iv3_nonce_da_mode b) (iv3_fee_da_mode b)"
      "chain_id_id (iv3_chain_id a) = chain_id_id (iv3_chain_id b)"
      "iv3_sender_address a = iv3_sender_address b" "iv3_calldata a = iv3_calldata b"
      "iv3_nonce a = iv3_nonce b" "iv3_paymaster_data a = iv3_paymaster_data b"
      "iv3_account_deployment_data a = iv3_account_deployment_data b"
    using assms(6) by (simp_all add: compute_invoke_v3_tx_hash_def inj)
  have fee: "iv3_tip a = iv3_tip b \<and> iv3_resource_bounds a = iv3_resource_bounds b"
    by (rule hash_fee_fields_inj [OF assms(1-3)])
       (use assms(6) in \<open>simp add: compute_invoke_v3_tx_hash_def inj\<close>)
  have "iv3_chain_id a = iv3_chain_id b"
    using assms(4,5) eqs(3) by (simp add: chain_id_normal_def)
  moreover have "q = r" using eqs(1) by (simp add: query_version_inj)
  ultimately show ?thesis
    using eqs fee by (simp add: encode_da_mode_inj)
qed

definition sample_invoke_v3 :: invoke_tx_v3 where
  "sample_invoke_v3 =
     \<lparr>iv3_chain_id = Named Sepolia, iv3_sender_address = 5, iv3_nonce = 1, iv3_calldata = [7, 8],
      iv3_signature = [1], iv3_resource_bounds = L1Gas \<lparr>max_amount = 3, max_price_per_unit = 4\<rparr>,
      iv3_tip = 0, iv3_paymaster_data = [], iv3_account_deployment_data = [],
      iv3_nonce_da_mode = DaL1, iv3_fee_da_mode = DaL1\<rparr>"

lemma invoke_v3_hash_binding_witness:
  "False = False \<and> sample_invoke_v3\<lparr>iv3_signature := []\<rparr> =
     (sample_invoke_v3\<lparr>iv3_signature := [9]\<rparr>)\<lparr>iv3_signature := []\<rparr>"
  by (rule invoke_v3_hash_binding [where pos = list_encode and ped = list_encode])
     (simp_all add: sample_invoke_v3_def bounds_ok_def inj_list_encode)

text \<open>
  C33. Transaction hashes are separated by domain.  With collision-free hash functions, two
  executable transactions hashed with the same function have equal hashes only if they are
  of the same kind and version; apart from L1 handlers, whose hash has no query form, they
  are also both queries or both not.
\<close>

theorem tx_hash_domain_separation:
  assumes "inj ped" "inj pos" "uses_poseidon a = uses_poseidon b"
    and "executable_calculate_hash ped pos a q = Some h"
    and "executable_calculate_hash ped pos b r = Some h"
  shows "executable_type a = executable_type b
    \<and> tx_version (tx_of_executable a) = tx_version (tx_of_executable b)
    \<and> (executable_type a = TL1Handler \<or> q = r)"
proof -
  obtain ra where a: "h = (if uses_poseidon a then pos else ped)
      (kind_prefix (executable_type a) # hash_version a q # ra)"
    using executable_hash_head [OF assms(4)] by blast
  obtain rb where b: "h = (if uses_poseidon b then pos else ped)
      (kind_prefix (executable_type b) # hash_version b r # rb)"
    using executable_hash_head [OF assms(5)] by blast
  have eqs: "kind_prefix (executable_type a) = kind_prefix (executable_type b)"
      "hash_version a q = hash_version b r"
    using a b assms(1-3) by (auto simp: inj_eq split: if_splits)
  then have ty: "executable_type a = executable_type b"
    by (auto intro: kind_prefix_inj)
  then show ?thesis
    using eqs(2) tx_version_less_4 [of a] tx_version_less_4 [of b]
    by (auto simp: hash_version_def query_version_inj split: if_splits)
qed

text \<open>
  Two transactions that differ in their signature have the same hash, and are of the same domain; a
  transaction and its query form are not of the same domain, and have different hashes.
\<close>

lemma tx_hash_domain_separation_witness:
  "let a = ExInvoke (InvokeV3 (sample_invoke_v3\<lparr>iv3_signature := [9]\<rparr>)) :: unit executable_tx;
       b = ExInvoke (InvokeV3 (sample_invoke_v3\<lparr>iv3_signature := [8, 7]\<rparr>)) :: unit executable_tx
   in a \<noteq> b \<and> executable_calculate_hash list_encode list_encode a False = executable_calculate_hash list_encode list_encode b False
     \<and> executable_type a = executable_type b \<and> tx_version (tx_of_executable a) = tx_version (tx_of_executable b)
     \<and> executable_calculate_hash list_encode list_encode a False \<noteq> executable_calculate_hash list_encode list_encode b True"
proof -
  let ?a = "ExInvoke (InvokeV3 (sample_invoke_v3\<lparr>iv3_signature := [9]\<rparr>)) :: unit executable_tx"
  let ?b = "ExInvoke (InvokeV3 (sample_invoke_v3\<lparr>iv3_signature := [8, 7]\<rparr>)) :: unit executable_tx"
  note sep = tx_hash_domain_separation [where a = ?a and b = ?b, OF inj_list_encode inj_list_encode]
  have "?a \<noteq> ?b" by (simp add: sample_invoke_v3_def)
  moreover obtain h where h: "executable_calculate_hash list_encode list_encode ?a False = Some h"
    "executable_calculate_hash list_encode list_encode ?b False = Some h"
    by simp
  moreover have "executable_calculate_hash list_encode list_encode ?b True \<noteq> Some h"
    using sep [OF _ h(1), of True] by auto
  ultimately show ?thesis using sep [OF _ h, simplified] by (simp add: Let_def)
qed

end
