(* ===== verification/Kv_Tables.thy ===== *)
theory Kv_Tables
  imports Katana_Prelude
begin

text \<open>
  The storage abstraction of \<^verbatim>\<open>crates/storage/db/src/abstraction\<close>.

  A table is the list of its entries in key order, which is the order in which a cursor
  walks it.  The operations are the ones the traits \<^verbatim>\<open>DbTx\<close>, \<^verbatim>\<open>DbTxMut\<close>, \<^verbatim>\<open>DbCursor\<close> and
  \<^verbatim>\<open>DbDupSortCursor\<close> document: \<open>get\<close>, \<open>put\<close>, \<open>delete\<close>, \<open>clear\<close>, \<open>entries\<close>, \<open>first\<close>, \<open>last\<close>,
  \<open>seek\<close>, \<open>walk\<close> for plain tables; \<open>put\<close>, \<open>delete\<close>, \<open>seek_by_key_subkey\<close> and \<open>walk_dup\<close> for
  dupsort tables, whose values are ordered by their subkey first.  Failures of the storage
  engine itself (I/O, a full map) are not represented: an operation always succeeds.

  The locale \<open>kv_table\<close> states what the providers rely on; it is interpreted on these
  definitions, and the loops of the providers over \<open>put\<close> are treated once inside it.
\<close>

type_synonym ('k, 'v) table = "('k \<times> 'v) list"

section \<open>Plain tables\<close>

definition tbl_inv :: "('k :: linorder, 'v) table \<Rightarrow> bool" where
  "tbl_inv t \<longleftrightarrow> sorted_wrt (<) (map fst t)"

definition tbl_get :: "('k, 'v) table \<Rightarrow> 'k \<Rightarrow> 'v option" where
  "tbl_get t k = map_of t k"

fun tbl_put :: "('k :: linorder) \<Rightarrow> 'v \<Rightarrow> ('k, 'v) table \<Rightarrow> ('k, 'v) table" where
  "tbl_put k v [] = [(k, v)]"
| "tbl_put k v ((k', v') # t) =
     (if k < k' then (k, v) # (k', v') # t
      else if k = k' then (k, v) # t
      else (k', v') # tbl_put k v t)"

text \<open>\<^verbatim>\<open>delete\<close> with no value: every entry of the key is removed, and the flag tells
  whether there was one.\<close>

definition tbl_delete :: "'k \<Rightarrow> ('k, 'v) table \<Rightarrow> ('k, 'v) table \<times> bool" where
  "tbl_delete k t = (filter (\<lambda>e. fst e \<noteq> k) t, k \<in> fst ` set t)"

definition tbl_clear :: "('k, 'v) table \<Rightarrow> ('k, 'v) table" where
  "tbl_clear t = []"

definition tbl_entries :: "('k, 'v) table \<Rightarrow> nat" where
  "tbl_entries t = length t"

definition tbl_first :: "('k, 'v) table \<Rightarrow> ('k \<times> 'v) option" where
  "tbl_first t = (case t of [] \<Rightarrow> None | e # _ \<Rightarrow> Some e)"

definition tbl_last :: "('k, 'v) table \<Rightarrow> ('k \<times> 'v) option" where
  "tbl_last t = (if t = [] then None else Some (last t))"

definition tbl_seek :: "('k :: linorder) \<Rightarrow> ('k, 'v) table \<Rightarrow> ('k \<times> 'v) option" where
  "tbl_seek k t = List.find (\<lambda>e. k \<le> fst e) t"

definition tbl_walk :: "('k :: linorder) option \<Rightarrow> ('k, 'v) table \<Rightarrow> ('k \<times> 'v) list" where
  "tbl_walk start t = (case start of None \<Rightarrow> t | Some k \<Rightarrow> dropWhile (\<lambda>e. fst e < k) t)"

definition tbl_keys :: "('k, 'v) table \<Rightarrow> 'k set" where
  "tbl_keys t = fst ` set t"

section \<open>Dupsort tables\<close>

text \<open>
  A dupsort table holds several values per key.  The values of one key are ordered by
  subkey first; writing a pair that is already there changes nothing.  The engine compares
  encoded bytes.  Keys and subkeys are big-endian, so their order is the numeric one.  The encoding of
  the rest of a value belongs to a library, and values that agree in their subkey, or have none, are
  put in numeric order here: what the code reads does not depend on that order as long as a subkey has one
  value, and values without subkey are collected into ordered maps; where a subkey gets two values, only
  that both are there is stated.
\<close>

fun dup_put :: "('k :: linorder) \<Rightarrow> ('v :: linorder) \<Rightarrow> ('k, 'v) table \<Rightarrow> ('k, 'v) table" where
  "dup_put k v [] = [(k, v)]"
| "dup_put k v (e # t) =
     (if (k, v) < e then (k, v) # e # t
      else if (k, v) = e then e # t
      else e # dup_put k v t)"

definition dup_inv :: "('k :: linorder, 'v :: linorder) table \<Rightarrow> bool" where
  "dup_inv t \<longleftrightarrow> sorted_wrt (<) t"

text \<open>\<^verbatim>\<open>delete\<close> with a value: only the matching data item is removed.\<close>

definition dup_delete :: "'k \<Rightarrow> 'v \<Rightarrow> ('k, 'v) table \<Rightarrow> ('k, 'v) table \<times> bool" where
  "dup_delete k v t = (filter (\<lambda>e. e \<noteq> (k, v)) t, (k, v) \<in> set t)"

definition seek_by_key_subkey ::
    "'k \<Rightarrow> ('s :: linorder) \<Rightarrow> ('k, 's \<times> 'v) table \<Rightarrow> ('s \<times> 'v) option" where
  "seek_by_key_subkey k s t =
     (case List.find (\<lambda>e. fst e = k \<and> s \<le> fst (snd e)) t of
        None \<Rightarrow> None | Some e \<Rightarrow> Some (snd e))"

text \<open>\<^verbatim>\<open>walk_dup(Some(key), None)\<close>: the values of a key in order, \<open>None\<close> when the key is
  absent.\<close>

definition walk_dup :: "'k \<Rightarrow> ('k, 'v) table \<Rightarrow> 'v list option" where
  "walk_dup k t =
     (case map snd (filter (\<lambda>e. fst e = k) t) of [] \<Rightarrow> None | vs \<Rightarrow> Some vs)"

section \<open>Facts on plain tables\<close>

lemma tbl_inv_Nil [simp]: "tbl_inv []"
  by (simp add: tbl_inv_def)

lemma tbl_inv_Cons [simp]:
  "tbl_inv ((k, v) # t) \<longleftrightarrow> (\<forall>k'\<in>tbl_keys t. k < k') \<and> tbl_inv t"
  by (auto simp: tbl_inv_def tbl_keys_def)

lemma tbl_keys_put [simp]: "tbl_keys (tbl_put k v t) = insert k (tbl_keys t)"
  by (induction t rule: tbl_put.induct) (auto simp: tbl_keys_def)

lemma tbl_keys_simps [simp]: "tbl_keys [] = {}" "tbl_keys ((k, v) # t) = insert k (tbl_keys t)"
  by (simp_all add: tbl_keys_def)

lemma finite_tbl_keys [simp]: "finite (tbl_keys t)"
  by (simp add: tbl_keys_def)

lemma tbl_inv_put [simp, intro]: "tbl_inv t \<Longrightarrow> tbl_inv (tbl_put k v t)"
  by (induction k v t rule: tbl_put.induct) auto

lemma tbl_get_put [table_simps]:
  "tbl_get (tbl_put k v t) k' = (if k' = k then Some v else tbl_get t k')"
  by (induction k v t rule: tbl_put.induct) (auto simp: tbl_get_def)

lemma tbl_get_Nil [simp]: "tbl_get [] k = None"
  by (simp add: tbl_get_def)

lemma tbl_get_eq_None: "tbl_get t k = None \<longleftrightarrow> k \<notin> tbl_keys t"
  by (simp add: tbl_get_def tbl_keys_def map_of_eq_None_iff)

lemma tbl_get_SomeD: "tbl_get t k = Some v \<Longrightarrow> k \<in> tbl_keys t"
  by (metis option.distinct(1) tbl_get_eq_None)

lemma tbl_inv_map_of_in: "tbl_inv t \<Longrightarrow> tbl_get t k = Some v \<longleftrightarrow> (k, v) \<in> set t"
  by (simp add: tbl_get_def tbl_inv_def sorted_wrt_less_distinct)

lemma tbl_get_delete [table_simps]:
  "tbl_get (fst (tbl_delete k t)) k' = (if k' = k then None else tbl_get t k')"
  by (induction t) (auto simp: tbl_get_def tbl_delete_def)

lemma tbl_inv_filter [simp, intro]: "tbl_inv t \<Longrightarrow> tbl_inv (filter P t)"
  unfolding tbl_inv_def by (metis sorted_wrt_filter sorted_wrt_map)

lemma tbl_inv_delete [simp, intro]: "tbl_inv t \<Longrightarrow> tbl_inv (fst (tbl_delete k t))"
  by (simp add: tbl_delete_def)

lemma tbl_inv_clear [simp, intro]: "tbl_inv (tbl_clear t)"
  by (simp add: tbl_clear_def)

lemma tbl_get_clear [table_simps]: "tbl_get (tbl_clear t) k = None"
  by (simp add: tbl_clear_def)

lemma tbl_entries_card: "tbl_inv t \<Longrightarrow> tbl_entries t = card (tbl_keys t)"
proof -
  assume "tbl_inv t"
  then have "distinct (map fst t)"
    by (simp add: tbl_inv_def sorted_wrt_less_distinct)
  then show ?thesis
    using distinct_card [of "map fst t"] by (simp add: tbl_entries_def tbl_keys_def)
qed

lemma tbl_last_snoc [simp]: "tbl_last (t @ [e]) = Some e"
  by (simp add: tbl_last_def)

lemma tbl_last_Some:
  assumes "tbl_inv t"
  shows "tbl_last t = Some (k, v) \<longleftrightarrow> tbl_get t k = Some v \<and> (\<forall>k'\<in>tbl_keys t. k' \<le> k)"
proof (cases t rule: rev_cases)
  case (snoc t' e)
  obtain a b where e: "e = (a, b)" by fastforce
  from assms have "sorted_wrt (<) (map fst t' @ [a])"
    unfolding snoc e tbl_inv_def by simp
  then have lt: "\<forall>k'\<in>tbl_keys t'. k' < a"
    by (simp add: sorted_wrt_append tbl_keys_def)
  have get: "tbl_get t k = Some v \<longleftrightarrow> (k, v) \<in> set t' \<or> (k, v) = (a, b)"
    unfolding tbl_inv_map_of_in [OF assms] unfolding snoc e by auto
  have "(k, v) \<in> set t' \<Longrightarrow> k < a"
    using lt by (force simp: tbl_keys_def)
  then show ?thesis
    unfolding get using lt unfolding snoc e
    by (auto simp: tbl_keys_def less_imp_le)
qed (simp add: tbl_last_def)

lemma tbl_last_None [simp]: "tbl_last t = None \<longleftrightarrow> t = []"
  by (simp add: tbl_last_def)

lemma tbl_walk_filter:
  "tbl_inv t \<Longrightarrow> tbl_walk (Some k) t = filter (\<lambda>e. k \<le> fst e) t"
proof (induction t)
  case (Cons e t)
  show ?case
  proof (cases "fst e < k")
    case True
    then show ?thesis using Cons by (cases e) (auto simp: tbl_walk_def)
  next
    case False
    with Cons.prems have "\<forall>e'\<in>set (e # t). k \<le> fst e'"
      by (cases e) (auto simp: tbl_keys_def)
    then show ?thesis using False by (simp add: tbl_walk_def)
  qed
qed (simp add: tbl_walk_def)

section \<open>The table interface\<close>

locale kv_table =
  fixes invar :: "'t \<Rightarrow> bool"
    and get :: "'t \<Rightarrow> 'k \<Rightarrow> 'v option"
    and put :: "'k \<Rightarrow> 'v \<Rightarrow> 't \<Rightarrow> 't"
    and entries :: "'t \<Rightarrow> nat"
  assumes get_put: "get (put k v t) k' = (if k' = k then Some v else get t k')"
    and invar_put: "invar t \<Longrightarrow> invar (put k v t)"
    and entries_put: "invar t \<Longrightarrow> entries (put k v t) = (if get t k = None then Suc (entries t) else entries t)"
begin

lemma invar_put_all: "invar t \<Longrightarrow> invar (fold (\<lambda>e. put (fst e) (snd e)) es t)"
  by (induction es arbitrary: t) (auto intro: invar_put)

lemma get_put_all:
  "get (fold (\<lambda>e. put (fst e) (snd e)) es t) k =
     (case map_of (rev es) k of Some v \<Rightarrow> Some v | None \<Rightarrow> get t k)"
  by (induction es arbitrary: t) (auto simp: get_put map_add_def split: option.splits)

lemma get_put_all_distinct:
  "distinct (map fst es) \<Longrightarrow>
   get (fold (\<lambda>e. put (fst e) (snd e)) es t) k =
     (case map_of es k of Some v \<Rightarrow> Some v | None \<Rightarrow> get t k)"
  by (simp add: get_put_all map_of_rev_distinct)

lemma get_put_all_keyed:
  "get (fold (\<lambda>x. put (f x) (g x)) xs t) k =
     (case map_of (rev (map (\<lambda>x. (f x, g x)) xs)) k of Some v \<Rightarrow> Some v | None \<Rightarrow> get t k)"
  using get_put_all [of "map (\<lambda>x. (f x, g x)) xs"] by (simp add: fold_map comp_def)

lemma entries_put_fresh:
  "invar t \<Longrightarrow> distinct (map fst es) \<Longrightarrow> (\<forall>e\<in>set es. get t (fst e) = None) \<Longrightarrow>
   entries (fold (\<lambda>e. put (fst e) (snd e)) es t) = entries t + length es"
proof (induction es arbitrary: t)
  case (Cons e es)
  have "entries (fold (\<lambda>e. put (fst e) (snd e)) es (put (fst e) (snd e) t)) =
      entries (put (fst e) (snd e) t) + length es"
  proof (rule Cons.IH)
    show "\<forall>e'\<in>set es. get (put (fst e) (snd e) t) (fst e') = None"
      using Cons.prems(2,3) by (auto simp: get_put image_iff)
  qed (use Cons.prems(1,2) invar_put in auto)
  then show ?case using Cons.prems(1,3) by (simp add: entries_put)
qed simp

end

interpretation tbl: kv_table "tbl_inv :: ('k :: linorder, 'v) table \<Rightarrow> bool" tbl_get tbl_put tbl_entries
proof (unfold_locales, goal_cases)
  case (3 t k v)
  then show ?case by (simp add: tbl_entries_card card_insert_if tbl_get_eq_None)
qed (auto simp: table_simps)

section \<open>Facts on dupsort tables\<close>

lemma dup_inv_Nil [simp]: "dup_inv []"
  by (simp add: dup_inv_def)

lemma dup_inv_Cons [simp]: "dup_inv (e # t) \<longleftrightarrow> (\<forall>e'\<in>set t. e < e') \<and> dup_inv t"
  by (simp add: dup_inv_def)

lemma set_dup_put [simp]: "set (dup_put k v t) = insert (k, v) (set t)"
  by (induction k v t rule: dup_put.induct) auto

lemma dup_inv_put [simp, intro]: "dup_inv t \<Longrightarrow> dup_inv (dup_put k v t)"
  by (induction k v t rule: dup_put.induct) (auto simp del: less_prod_simp)

lemma dup_inv_filter [simp, intro]: "dup_inv t \<Longrightarrow> dup_inv (filter P t)"
  by (simp add: dup_inv_def sorted_wrt_filter)

lemma set_dup_delete [simp]: "set (fst (dup_delete k v t)) = set t - {(k, v)}"
  by (auto simp: dup_delete_def)

lemma dup_inv_delete [simp, intro]: "dup_inv t \<Longrightarrow> dup_inv (fst (dup_delete k v t))"
  by (simp add: dup_delete_def)

lemma find_sorted_least:
  "sorted_wrt (<) (t :: 'a :: linorder list) \<Longrightarrow> x \<in> set t \<Longrightarrow> P x \<Longrightarrow>
   \<exists>y. List.find P t = Some y \<and> y \<le> x"
  by (induction t) (auto simp: less_imp_le)

text \<open>A dupsort table used as a map: at most one value per key and subkey.\<close>

definition dup_functional :: "('k, 's \<times> 'v) table \<Rightarrow> bool" where
  "dup_functional t \<longleftrightarrow>
     (\<forall>e\<in>set t. \<forall>e'\<in>set t. fst e = fst e' \<and> fst (snd e) = fst (snd e') \<longrightarrow> e = e')"

text \<open>The providers look an entry up with \<^verbatim>\<open>seek_by_key_subkey\<close> and then compare the
  subkey of what they found.\<close>

definition dup_get :: "('k, ('s :: linorder) \<times> 'v) table \<Rightarrow> 'k \<Rightarrow> 's \<Rightarrow> 'v option" where
  "dup_get t k s =
     (case seek_by_key_subkey k s t of
        Some (s', v) \<Rightarrow> if s' = s then Some v else None
      | None \<Rightarrow> None)"

lemma dup_get_SomeD: "dup_get t k s = Some v \<Longrightarrow> (k, s, v) \<in> set t"
  by (auto simp: dup_get_def seek_by_key_subkey_def split: option.splits if_splits dest!: find_SomeD)

lemma dup_get_Some_ex:
  fixes t :: "('k :: linorder, ('s :: linorder) \<times> ('v :: linorder)) table"
  assumes "dup_inv t" "(k, s, v) \<in> set t"
  shows "\<exists>v'. dup_get t k s = Some v'"
proof -
  obtain y where y: "List.find (\<lambda>e. fst e = k \<and> s \<le> fst (snd e)) t = Some y" "y \<le> (k, s, v)"
    using find_sorted_least [of t "(k, s, v)" "\<lambda>e. fst e = k \<and> s \<le> fst (snd e)"] assms
    by (auto simp: dup_inv_def)
  then have "fst y = k" "s \<le> fst (snd y)"
    by (auto dest: find_SomeD)
  with y(2) have "fst (snd y) = s"
    by (cases y) (auto simp: less_eq_prod_def)
  then show ?thesis
    using y(1) by (cases y) (auto simp: dup_get_def seek_by_key_subkey_def)
qed

lemma dup_get_iff:
  fixes t :: "('k :: linorder, ('s :: linorder) \<times> ('v :: linorder)) table"
  assumes "dup_inv t" "dup_functional t"
  shows "dup_get t k s = Some v \<longleftrightarrow> (k, s, v) \<in> set t"
proof
  assume in_t: "(k, s, v) \<in> set t"
  then obtain v' where v': "dup_get t k s = Some v'"
    using dup_get_Some_ex [OF assms(1)] by blast
  then have "(k, s, v') \<in> set t" by (rule dup_get_SomeD)
  with in_t have "(k, s, v) = (k, s, v')"
    using assms(2) unfolding dup_functional_def by (metis fst_conv snd_conv)
  with v' show "dup_get t k s = Some v" by simp
qed (rule dup_get_SomeD)

lemma dup_get_eq_None:
  fixes t :: "('k :: linorder, ('s :: linorder) \<times> ('v :: linorder)) table"
  assumes "dup_inv t"
  shows "dup_get t k s = None \<longleftrightarrow> (\<forall>v. (k, s, v) \<notin> set t)"
  using dup_get_Some_ex [OF assms] dup_get_SomeD by (metis not_None_eq)

lemma dup_functional_put:
  "dup_functional t \<Longrightarrow> (\<And>v'. (k, s, v') \<in> set t \<Longrightarrow> v' = v) \<Longrightarrow> dup_functional (dup_put k (s, v) t)"
  unfolding dup_functional_def by (auto; fastforce)

lemma dup_functional_subset: "dup_functional t \<Longrightarrow> set t' \<subseteq> set t \<Longrightarrow> dup_functional t'"
  unfolding dup_functional_def by blast

lemma dup_functional_Nil [simp]: "dup_functional []"
  by (simp add: dup_functional_def)

text \<open>Two sorted dupsort tables with the same entries read the same.\<close>

lemma dup_inv_set_eq: "dup_inv t \<Longrightarrow> dup_inv t' \<Longrightarrow> set t = set t' \<Longrightarrow> t = t'"
  unfolding dup_inv_def by (metis strict_sorted_equal)

lemma walk_dup_Some_iff:
  "walk_dup k t = Some vs \<longleftrightarrow> vs = map snd (filter (\<lambda>e. fst e = k) t) \<and> vs \<noteq> []"
  by (auto simp: walk_dup_def split: list.splits)

lemma walk_dup_None_iff: "walk_dup k t = None \<longleftrightarrow> (\<forall>e\<in>set t. fst e \<noteq> k)"
proof -
  have "walk_dup k t = None \<longleftrightarrow> filter (\<lambda>e. fst e = k) t = []"
    by (auto simp: walk_dup_def split: list.splits)
  then show ?thesis by (simp add: filter_empty_conv)
qed

end
