(* ===== verification/Block_Types.thy ===== *)
theory Block_Types
  imports Tx_Hash Kv_Tables
begin

text \<open>
  Blocks, receipts and state updates: \<^verbatim>\<open>crates/primitives/src/block.rs\<close>, \<^verbatim>\<open>receipt.rs\<close>,
  \<^verbatim>\<open>state.rs\<close>, \<^verbatim>\<open>env.rs\<close> and \<^verbatim>\<open>contract.rs\<close>.  A \<^verbatim>\<open>BTreeMap\<close> is the key-ordered list of its entries
  (the tables of \<^verbatim>\<open>Kv_Tables\<close> without the storage engine), a \<^verbatim>\<open>BTreeSet\<close> the ascending list of
  its members; this is the order the iterators of the code produce.  The Poseidon hash
  \<open>pos\<close>, the keccak hash \<open>keccak\<close> of a revert reason and the short-string conversion of a
  version string are parameters.
\<close>

section \<open>Receipts\<close>

record event =
  ev_from_address :: contract_address
  ev_keys :: "felt list"
  ev_data :: "felt list"

record message_to_l1 =
  msg_from_address :: contract_address
  msg_to_address :: felt
  msg_payload :: "felt list"

record gas_used =
  gu_l2_gas :: nat
  gu_l1_gas :: nat
  gu_l1_data_gas :: nat

record da_resources =
  dr_l1_gas :: nat
  dr_l1_data_gas :: nat

record vm_resources =
  n_steps :: nat
  n_memory_holes :: nat
  builtin_instance_counter :: "(string, nat) table"

record execution_resources =
  er_gas :: gas_used
  er_computation_resources :: vm_resources
  er_da_resources :: da_resources

record invoke_tx_receipt =
  ir_fee :: fee_info
  ir_events :: "event list"
  ir_messages_sent :: "message_to_l1 list"
  ir_revert_error :: "string option"
  ir_execution_resources :: execution_resources

record declare_tx_receipt =
  dr_fee :: fee_info
  dr_events :: "event list"
  dr_messages_sent :: "message_to_l1 list"
  dr_revert_error :: "string option"
  dr_execution_resources :: execution_resources

record l1_handler_tx_receipt =
  lr_fee :: fee_info
  lr_events :: "event list"
  lr_message_hash :: nat
  lr_messages_sent :: "message_to_l1 list"
  lr_revert_error :: "string option"
  lr_execution_resources :: execution_resources

record deploy_account_tx_receipt =
  ar_fee :: fee_info
  ar_events :: "event list"
  ar_messages_sent :: "message_to_l1 list"
  ar_revert_error :: "string option"
  ar_execution_resources :: execution_resources
  ar_contract_address :: contract_address

datatype receipt =
  RInvoke invoke_tx_receipt
| RDeclare declare_tx_receipt
| RL1Handler l1_handler_tx_receipt
| RDeployAccount deploy_account_tx_receipt

fun revert_reason :: "receipt \<Rightarrow> string option" where
  "revert_reason (RInvoke r) = ir_revert_error r"
| "revert_reason (RDeclare r) = dr_revert_error r"
| "revert_reason (RL1Handler r) = lr_revert_error r"
| "revert_reason (RDeployAccount r) = ar_revert_error r"

definition is_reverted :: "receipt \<Rightarrow> bool" where
  "is_reverted r \<longleftrightarrow> revert_reason r \<noteq> None"

fun messages_sent :: "receipt \<Rightarrow> message_to_l1 list" where
  "messages_sent (RInvoke r) = ir_messages_sent r"
| "messages_sent (RDeclare r) = dr_messages_sent r"
| "messages_sent (RL1Handler r) = lr_messages_sent r"
| "messages_sent (RDeployAccount r) = ar_messages_sent r"

fun receipt_events :: "receipt \<Rightarrow> event list" where
  "receipt_events (RInvoke r) = ir_events r"
| "receipt_events (RDeclare r) = dr_events r"
| "receipt_events (RL1Handler r) = lr_events r"
| "receipt_events (RDeployAccount r) = ar_events r"

fun resources_used :: "receipt \<Rightarrow> execution_resources" where
  "resources_used (RInvoke r) = ir_execution_resources r"
| "resources_used (RDeclare r) = dr_execution_resources r"
| "resources_used (RL1Handler r) = lr_execution_resources r"
| "resources_used (RDeployAccount r) = ar_execution_resources r"

fun receipt_fee :: "receipt \<Rightarrow> fee_info" where
  "receipt_fee (RInvoke r) = ir_fee r"
| "receipt_fee (RDeclare r) = dr_fee r"
| "receipt_fee (RL1Handler r) = lr_fee r"
| "receipt_fee (RDeployAccount r) = ar_fee r"

fun receipt_type :: "receipt \<Rightarrow> tx_type" where
  "receipt_type (RInvoke _) = TInvoke"
| "receipt_type (RDeclare _) = TDeclare"
| "receipt_type (RL1Handler _) = TL1Handler"
| "receipt_type (RDeployAccount _) = TDeployAccount"

record receipt_with_tx_hash =
  rwh_tx_hash :: tx_hash
  rwh_receipt :: receipt

text \<open>The fold over the messages pushes three elements per message.\<close>

definition compute_messages_to_l1_hash :: "hash_fn \<Rightarrow> receipt_with_tx_hash \<Rightarrow> felt" where
  "compute_messages_to_l1_hash pos r =
     (let messages = messages_sent (rwh_receipt r) in
      pos (fold
        (\<lambda>msg acc. acc @ [msg_from_address msg, msg_to_address msg,
           pos (length (msg_payload msg) # msg_payload msg)])
        messages [length messages]))"

definition receipt_compute_hash :: "hash_fn \<Rightarrow> (string \<Rightarrow> felt) \<Rightarrow> receipt_with_tx_hash \<Rightarrow> felt" where
  "receipt_compute_hash pos keccak r =
     (let gas = er_gas (resources_used (rwh_receipt r));
          gas_usage = pos [gu_l2_gas gas, gu_l1_gas gas, gu_l1_data_gas gas];
          messages_hash = compute_messages_to_l1_hash pos r;
          revert_reason_hash =
            (case revert_reason (rwh_receipt r) of Some reason \<Rightarrow> keccak reason | None \<Rightarrow> 0)
      in pos [rwh_tx_hash r, fi_overall_fee (receipt_fee (rwh_receipt r)), messages_hash,
              revert_reason_hash, gas_usage])"

section \<open>State updates\<close>

record state_updates =
  nonce_updates :: "(contract_address, nonce) table"
  storage_updates :: "(contract_address, (storage_key, storage_value) table) table"
  deployed_contracts :: "(contract_address, class_hash) table"
  declared_classes :: "(class_hash, compiled_class_hash) table"
  deprecated_declared_classes :: "class_hash list"
  replaced_classes :: "(contract_address, class_hash) table"

definition state_updates_len :: "state_updates \<Rightarrow> nat" where
  "state_updates_len s =
     fold (\<lambda>updates len. len + length updates) (map snd (storage_updates s))
       (length (deployed_contracts s) + length (replaced_classes s) + length (declared_classes s)
        + length (deprecated_declared_classes s) + length (nonce_updates s))"

record 'cls state_updates_with_classes =
  su_state_updates :: state_updates
  su_classes :: "(class_hash, 'cls) table"

definition flat_pairs :: "(felt \<times> felt) list \<Rightarrow> felt list" where
  "flat_pairs es = concat (map (\<lambda>(a, b). [a, b]) es)"

definition state_diff_elements :: "state_updates \<Rightarrow> felt list" where
  "state_diff_elements states =
     [short_string ''STARKNET_STATE_DIFF0'']
     @ [length (deployed_contracts states) + length (replaced_classes states)]
     @ flat_pairs (deployed_contracts states @ replaced_classes states)
     @ [length (declared_classes states)]
     @ flat_pairs (declared_classes states)
     @ [length (deprecated_declared_classes states)]
     @ deprecated_declared_classes states
     @ [1] @ [0]
     @ [length (storage_updates states)]
     @ concat (map (\<lambda>(address, entries). [address] @ [length entries] @ flat_pairs entries)
         (storage_updates states))
     @ [length (nonce_updates states)]
     @ flat_pairs (nonce_updates states)"

definition compute_state_diff_hash :: "hash_fn \<Rightarrow> state_updates \<Rightarrow> felt" where
  "compute_state_diff_hash pos states = pos (state_diff_elements states)"

section \<open>Headers and blocks\<close>

text \<open>A gas price is a pair of non-zero \<^verbatim>\<open>u128\<close> values.\<close>

record gas_price =
  gp_eth :: nat
  gp_strk :: nat

definition gas_price_MIN :: gas_price where
  "gas_price_MIN = \<lparr>gp_eth = 1, gp_strk = 1\<rparr>"

definition gas_price_MAX :: gas_price where
  "gas_price_MAX = \<lparr>gp_eth = 2 ^ 128 - 1, gp_strk = 2 ^ 128 - 1\<rparr>"

datatype finality_status = AcceptedOnL2 | AcceptedOnL1

datatype block_hash_or_number = Hash block_hash | Num block_number

record partial_header =
  ph_parent_hash :: block_hash
  ph_number :: block_number
  ph_timestamp :: nat
  ph_sequencer_address :: contract_address
  ph_l1_gas_prices :: gas_price
  ph_l1_data_gas_prices :: gas_price
  ph_l2_gas_prices :: gas_price
  ph_l1_da_mode :: l1_da_mode
  ph_protocol_version :: protocol_version

record header =
  hd_parent_hash :: block_hash
  hd_number :: block_number
  hd_state_diff_commitment :: felt
  hd_transactions_commitment :: felt
  hd_receipts_commitment :: felt
  hd_events_commitment :: felt
  hd_state_root :: felt
  hd_transaction_count :: nat
  hd_events_count :: nat
  hd_state_diff_length :: nat
  hd_timestamp :: nat
  hd_sequencer_address :: contract_address
  hd_l1_gas_prices :: gas_price
  hd_l1_data_gas_prices :: gas_price
  hd_l2_gas_prices :: gas_price
  hd_l1_da_mode :: l1_da_mode
  hd_protocol_version :: protocol_version

fun l1_da_byte :: "l1_da_mode \<Rightarrow> nat" where
  "l1_da_byte Calldata = 0"
| "l1_da_byte Blob = 128"

definition concat_counts :: "nat \<Rightarrow> nat \<Rightarrow> nat \<Rightarrow> l1_da_mode \<Rightarrow> felt" where
  "concat_counts transaction_count event_count state_diff_length mode =
     felt_from_bytes_be
       (be_bytes 8 transaction_count @ be_bytes 8 event_count @ be_bytes 8 state_diff_length
        @ [l1_da_byte mode] @ replicate 7 0)"

text \<open>\<open>to_felt\<close> is the conversion of the version string; its \<^verbatim>\<open>unwrap\<close> is part of the parameter.\<close>

definition header_compute_hash :: "hash_fn \<Rightarrow> (string \<Rightarrow> felt) \<Rightarrow> header \<Rightarrow> felt" where
  "header_compute_hash pos to_felt h =
     (let concant = concat_counts (hd_transaction_count h) (hd_events_count h)
            (hd_state_diff_length h) (hd_l1_da_mode h)
      in pos
       [short_string ''STARKNET_BLOCK_HASH0'',
        hd_number h,
        hd_state_root h,
        hd_sequencer_address h,
        hd_timestamp h,
        concant,
        hd_state_diff_commitment h,
        hd_transactions_commitment h,
        hd_events_commitment h,
        hd_receipts_commitment h,
        gp_eth (hd_l1_gas_prices h),
        gp_strk (hd_l1_gas_prices h),
        gp_eth (hd_l1_data_gas_prices h),
        gp_strk (hd_l1_data_gas_prices h),
        to_felt (version_to_string (hd_protocol_version h)),
        0,
        hd_parent_hash h])"

definition header_default :: header where
  "header_default =
     \<lparr>hd_parent_hash = 0, hd_number = 0, hd_state_diff_commitment = 0,
      hd_transactions_commitment = 0, hd_receipts_commitment = 0, hd_events_commitment = 0,
      hd_state_root = 0, hd_transaction_count = 0, hd_events_count = 0, hd_state_diff_length = 0,
      hd_timestamp = 0, hd_sequencer_address = 0, hd_l1_gas_prices = gas_price_MIN,
      hd_l1_data_gas_prices = gas_price_MIN, hd_l2_gas_prices = gas_price_MIN,
      hd_l1_da_mode = Calldata, hd_protocol_version = version_default\<rparr>"

record block =
  blk_header :: header
  blk_body :: "tx_with_hash list"

record block_with_tx_hashes =
  bth_header :: header
  bth_body :: "tx_hash list"

record sealed_block =
  sb_hash :: block_hash
  sb_header :: header
  sb_body :: "tx_with_hash list"

record sealed_block_with_status =
  sbs_block :: sealed_block
  sbs_status :: finality_status

definition seal_with_hash :: "block \<Rightarrow> block_hash \<Rightarrow> sealed_block" where
  "seal_with_hash b h = \<lparr>sb_hash = h, sb_header = blk_header b, sb_body = blk_body b\<rparr>"

definition seal :: "hash_fn \<Rightarrow> (string \<Rightarrow> felt) \<Rightarrow> block \<Rightarrow> sealed_block" where
  "seal pos to_felt b = seal_with_hash b (header_compute_hash pos to_felt (blk_header b))"

definition seal_with_hash_and_status :: "block \<Rightarrow> block_hash \<Rightarrow> finality_status \<Rightarrow> sealed_block_with_status" where
  "seal_with_hash_and_status b h status = \<lparr>sbs_block = seal_with_hash b h, sbs_status = status\<rparr>"

definition unseal :: "sealed_block \<Rightarrow> block" where
  "unseal b = \<lparr>blk_header = sb_header b, blk_body = sb_body b\<rparr>"

section \<open>Environments and contract information\<close>

record block_env =
  be_number :: block_number
  be_timestamp :: nat
  be_l2_gas_prices :: gas_price
  be_l1_gas_prices :: gas_price
  be_l1_data_gas_prices :: gas_price
  be_sequencer_address :: contract_address

record generic_contract_info =
  ci_nonce :: nonce
  ci_class_hash :: class_hash

definition contract_info_default :: generic_contract_info where
  "contract_info_default = \<lparr>ci_nonce = 0, ci_class_hash = 0\<rparr>"

datatype 'info typed_execution_info =
  XInvoke 'info
| XDeclare 'info
| XL1Handler 'info
| XDeployAccount 'info

text \<open>\<open>None\<close> is the panic on the unsupported deploy transaction.\<close>

fun typed_execution_info_new :: "tx_type \<Rightarrow> 'info \<Rightarrow> 'info typed_execution_info option" where
  "typed_execution_info_new TDeclare i = Some (XDeclare i)"
| "typed_execution_info_new TInvoke i = Some (XInvoke i)"
| "typed_execution_info_new TDeployAccount i = Some (XDeployAccount i)"
| "typed_execution_info_new TL1Handler i = Some (XL1Handler i)"
| "typed_execution_info_new TDeploy i = None"

fun execution_info :: "'info typed_execution_info \<Rightarrow> 'info" where
  "execution_info (XInvoke i) = i"
| "execution_info (XDeclare i) = i"
| "execution_info (XL1Handler i) = i"
| "execution_info (XDeployAccount i) = i"

fun execution_info_type :: "'info typed_execution_info \<Rightarrow> tx_type" where
  "execution_info_type (XInvoke _) = TInvoke"
| "execution_info_type (XDeclare _) = TDeclare"
| "execution_info_type (XL1Handler _) = TL1Handler"
| "execution_info_type (XDeployAccount _) = TDeployAccount"

end
