(* ===== verification/Block_Hash.thy ===== *)
theory Block_Hash
  imports Block_Types
begin

text \<open>
  What the block hash and the state-diff commitment cover.  The packed counter word of the
  header is laid out without overlap, the header hash determines every field except the L2
  gas prices, and the preimage of the state-diff commitment can be read back uniquely.
\<close>

section \<open>The packed counters\<close>

lemma bytes_ok_counts:
  "bytes_ok (be_bytes 8 a @ be_bytes 8 b @ be_bytes 8 c @ [l1_da_byte m] @ replicate 7 0)"
  by (cases m) auto

lemma concat_counts_value:
  assumes "a < 2 ^ 32" "b < 2 ^ 64" "c < 2 ^ 64"
  shows "concat_counts a b c m =
    a * 2 ^ 192 + b * 2 ^ 128 + c * 2 ^ 64 + (case m of Calldata \<Rightarrow> 0 | Blob \<Rightarrow> 2 ^ 63)"
proof -
  let ?bs = "be_bytes 8 a @ be_bytes 8 b @ be_bytes 8 c @ [l1_da_byte m] @ replicate 7 0"
  have v: "be_value ?bs = a * 2 ^ 192 + b * 2 ^ 128 + c * 2 ^ 64 + (case m of Calldata \<Rightarrow> 0 | Blob \<Rightarrow> 2 ^ 63)"
    using assms by (cases m) (simp_all add: be_value_append be_value_Cons)
  have "be_value ?bs < stark_prime"
    unfolding v using assms by (cases m) (simp_all add: stark_prime_def)
  then show ?thesis unfolding concat_counts_def felt_from_bytes_be_def v by simp
qed

lemma concat_counts_inj:
  assumes "a < 2 ^ 32" "b < 2 ^ 32" "c < 2 ^ 32" "a' < 2 ^ 32" "b' < 2 ^ 32" "c' < 2 ^ 32"
    and "concat_counts a b c m = concat_counts a' b' c' m'"
  shows "a = a' \<and> b = b' \<and> c = c' \<and> m = m'"
proof -
  have "a < 2 ^ 64" "b < 2 ^ 64" "c < 2 ^ 64" "a' < 2 ^ 64" "b' < 2 ^ 64" "c' < 2 ^ 64"
    using assms by simp_all
  moreover have "be_value (be_bytes 8 a @ be_bytes 8 b @ be_bytes 8 c @ [l1_da_byte m] @ replicate 7 0) =
      be_value (be_bytes 8 a' @ be_bytes 8 b' @ be_bytes 8 c' @ [l1_da_byte m'] @ replicate 7 0)"
  proof -
    have "concat_counts x y z n = be_value (be_bytes 8 x @ be_bytes 8 y @ be_bytes 8 z @ [l1_da_byte n] @ replicate 7 0)"
      if "x < 2 ^ 32" "y < 2 ^ 32" "z < 2 ^ 32" for x y z n
      using that concat_counts_value [of x y z n]
      by (cases n) (simp_all add: be_value_append be_value_Cons)
    then show ?thesis using assms by metis
  qed
  ultimately show ?thesis
    by (subst (asm) be_value_inj [OF bytes_ok_counts bytes_ok_counts])
       (cases m; cases m'; auto simp: be_bytes_inj)+
qed

text \<open>The widths of the counters in the code.\<close>

definition header_ok :: "header \<Rightarrow> bool" where
  "header_ok h \<longleftrightarrow> hd_transaction_count h < 2 ^ 32 \<and> hd_events_count h < 2 ^ 32
     \<and> hd_state_diff_length h < 2 ^ 32 \<and> version_ok (hd_protocol_version h)"

lemma version_to_string_inj:
  "version_ok v \<Longrightarrow> version_ok w \<Longrightarrow> version_to_string v = version_to_string w \<Longrightarrow> v = w"
  by (metis sum.inject(2) version_roundtrip_aux)

section \<open>The state-diff preimage\<close>

lemma length_flat_pairs [simp]: "length (flat_pairs es) = 2 * length es"
  by (induction es) (auto simp: flat_pairs_def)

lemma flat_pairs_Cons: "flat_pairs ((a, b) # es) = a # b # flat_pairs es"
  by (simp add: flat_pairs_def)

lemma flat_pairs_inj: "flat_pairs es = flat_pairs es' \<Longrightarrow> es = es'"
proof (induction es arbitrary: es')
  case Nil
  then have "length es' = 0" by (metis length_flat_pairs list.size(3) mult_eq_0_iff zero_neq_numeral)
  then show ?case by simp
next
  case (Cons e es)
  then have "length (e # es) = length es'"
    by (metis length_flat_pairs mult_left_cancel zero_neq_numeral)
  then obtain e' es'' where es': "es' = e' # es''"
    by (metis length_0_conv list.exhaust list.distinct(1))
  then show ?case using Cons
    by (cases e; cases e') (auto simp: flat_pairs_Cons)
qed

text \<open>A length-prefixed list of pairs followed by anything is read back uniquely.\<close>

lemma counted_pairs_inj:
  "length es # flat_pairs es @ r = length es' # flat_pairs es' @ r' \<Longrightarrow> es = es' \<and> r = r'"
  by (auto dest: flat_pairs_inj)

definition storage_elements :: "(contract_address, (storage_key, storage_value) table) table \<Rightarrow> felt list" where
  "storage_elements ss =
     concat (map (\<lambda>(address, entries). [address] @ [length entries] @ flat_pairs entries) ss)"

lemma storage_elements_inj:
  "length ss = length ss' \<Longrightarrow> storage_elements ss @ r = storage_elements ss' @ r' \<Longrightarrow> ss = ss' \<and> r = r'"
proof (induction ss ss' rule: list_induct2)
  case (Cons x ss y ss')
  obtain a es b es' where xy: "x = (a, es)" "y = (b, es')" by fastforce
  have "a = b" and eq: "length es # flat_pairs es @ storage_elements ss @ r =
      length es' # flat_pairs es' @ storage_elements ss' @ r'"
    using Cons.prems by (auto simp: storage_elements_def xy)
  moreover have "es = es' \<and> storage_elements ss @ r = storage_elements ss' @ r'"
    using counted_pairs_inj [OF eq] .
  ultimately show ?case using Cons.IH xy by simp
qed (simp add: storage_elements_def)

lemma state_diff_elements_eq:
  "state_diff_elements s =
     short_string ''STARKNET_STATE_DIFF0''
     # length (deployed_contracts s @ replaced_classes s)
     # flat_pairs (deployed_contracts s @ replaced_classes s)
     @ length (declared_classes s) # flat_pairs (declared_classes s)
     @ length (deprecated_declared_classes s) # deprecated_declared_classes s
     @ 1 # 0 # length (storage_updates s) # storage_elements (storage_updates s)
     @ length (nonce_updates s) # flat_pairs (nonce_updates s) @ []"
  by (simp add: state_diff_elements_def storage_elements_def)

lemma state_diff_elements_inj:
  assumes "state_diff_elements s = state_diff_elements t"
  shows "deployed_contracts s @ replaced_classes s = deployed_contracts t @ replaced_classes t
    \<and> declared_classes s = declared_classes t
    \<and> deprecated_declared_classes s = deprecated_declared_classes t
    \<and> storage_updates s = storage_updates t \<and> nonce_updates s = nonce_updates t"
proof -
  note eq = assms [unfolded state_diff_elements_eq list.inject]
  note c1 = counted_pairs_inj [OF eq [THEN conjunct2, folded list.inject]]
  note c2 = counted_pairs_inj [OF c1 [THEN conjunct2]]
  from c2 have c3: "deprecated_declared_classes s = deprecated_declared_classes t"
      and len: "length (storage_updates s) = length (storage_updates t)"
      and r3: "storage_elements (storage_updates s) @ length (nonce_updates s) # flat_pairs (nonce_updates s) @ [] =
        storage_elements (storage_updates t) @ length (nonce_updates t) # flat_pairs (nonce_updates t) @ []"
    by auto
  from storage_elements_inj [OF len r3]
  have c4: "storage_updates s = storage_updates t"
      and r4: "length (nonce_updates s) # flat_pairs (nonce_updates s) @ [] =
        length (nonce_updates t) # flat_pairs (nonce_updates t) @ []"
    by blast+
  from counted_pairs_inj [OF r4] c1 c2 c3 c4 show ?thesis by blast
qed

section \<open>Properties\<close>

text \<open>
  C25. The block hash binds the header.  If Poseidon and the conversion of version strings
  are injective, two headers with the same hash agree in every field except the L2 gas
  prices, which the hash does not cover.
\<close>

theorem block_hash_binding:
  assumes "inj pos" "inj to_felt" "header_ok h" "header_ok h'"
    and "header_compute_hash pos to_felt h = header_compute_hash pos to_felt h'"
  shows "h\<lparr>hd_l2_gas_prices := g\<rparr> = h'\<lparr>hd_l2_gas_prices := g\<rparr>"
proof -
  note eqs = assms(5) [unfolded header_compute_hash_def Let_def inj_eq [OF assms(1)] list.inject]
  have "hd_transaction_count h = hd_transaction_count h' \<and> hd_events_count h = hd_events_count h'
      \<and> hd_state_diff_length h = hd_state_diff_length h' \<and> hd_l1_da_mode h = hd_l1_da_mode h'"
    by (rule concat_counts_inj) (use assms(3,4) eqs in \<open>simp_all add: header_ok_def\<close>)
  moreover have "hd_protocol_version h = hd_protocol_version h'"
    using assms(3,4) eqs
    by (auto simp: inj_eq [OF assms(2)] header_ok_def intro: version_to_string_inj)
  moreover have "hd_l1_gas_prices h = hd_l1_gas_prices h'"
      "hd_l1_data_gas_prices h = hd_l1_data_gas_prices h'"
    using eqs by auto
  ultimately show ?thesis using eqs by simp
qed

lemma block_hash_binding_witness:
  "header_default\<lparr>hd_l2_gas_prices := gas_price_MAX\<rparr> =
     (header_default\<lparr>hd_l2_gas_prices := gas_price_MAX\<rparr>)\<lparr>hd_l2_gas_prices := gas_price_MAX\<rparr>"
proof (rule block_hash_binding [where pos = list_encode and to_felt = "\<lambda>s. list_encode (map of_char s)"])
  show "inj (\<lambda>s :: string. list_encode (map of_char s))"
    using inj_mapI [of "of_char :: char \<Rightarrow> nat"]
    by (auto simp: inj_on_def dest!: list_encode_eq [THEN iffD1])
qed (simp_all add: header_default_def header_ok_def version_default_def version_new_def
      version_ok_def header_compute_hash_def inj_list_encode)

text \<open>
  C34. The state-diff commitment covers the whole state diff: if Poseidon is injective, equal
  commitments mean equal storage, nonce and declared-class updates, equal deprecated
  declarations, and equal contract updates up to the boundary between deployed and replaced
  classes, which are hashed as one list.
\<close>

theorem state_diff_hash_binding:
  assumes "inj pos" "compute_state_diff_hash pos s = compute_state_diff_hash pos t"
  shows "deployed_contracts s @ replaced_classes s = deployed_contracts t @ replaced_classes t
    \<and> declared_classes s = declared_classes t
    \<and> deprecated_declared_classes s = deprecated_declared_classes t
    \<and> storage_updates s = storage_updates t \<and> nonce_updates s = nonce_updates t"
  using assms by (intro state_diff_elements_inj) (simp add: compute_state_diff_hash_def inj_eq)

definition sample_diff :: "(felt \<times> felt) list \<Rightarrow> (felt \<times> felt) list \<Rightarrow> state_updates" where
  "sample_diff dep rep =
     \<lparr>nonce_updates = [(1, 2)], storage_updates = [(1, [(7, 8)])], deployed_contracts = dep,
      declared_classes = [], deprecated_declared_classes = [4], replaced_classes = rep\<rparr>"

lemma state_diff_hash_binding_witness:
  "deployed_contracts (sample_diff [(3, 9)] []) @ replaced_classes (sample_diff [(3, 9)] []) =
     deployed_contracts (sample_diff [] [(3, 9)]) @ replaced_classes (sample_diff [] [(3, 9)])"
  using state_diff_hash_binding [OF inj_list_encode, of "sample_diff [(3, 9)] []" "sample_diff [] [(3, 9)]"]
  by (simp add: sample_diff_def compute_state_diff_hash_def state_diff_elements_def)

text \<open>
  The counters of the header are packed into one felt without overlap and without
  reduction modulo the field: 32-bit counts occupy their own 64-bit lanes and the data
  availability flag the top bit of the last lane.
\<close>

theorem concat_counts_layout:
  assumes "tx_count < 2 ^ 32" "event_count < 2 ^ 32" "diff_length < 2 ^ 32"
  shows "concat_counts tx_count event_count diff_length m =
    tx_count * 2 ^ 192 + event_count * 2 ^ 128 + diff_length * 2 ^ 64
      + (case m of Calldata \<Rightarrow> 0 | Blob \<Rightarrow> 2 ^ 63)"
  by (rule concat_counts_value) (use assms in simp_all)

lemma concat_counts_layout_witness:
  "concat_counts 1 2 3 Blob = 0x1000000000000000200000000000000038000000000000000"
  using concat_counts_layout [of 1 2 3 Blob] by simp

text \<open>
  Protocol versions survive a round trip through their text form: a version of four
  bytes printed by the formatter (which drops a zero last segment) parses back to itself.
\<close>

theorem version_roundtrip:
  assumes "version_ok v"
  shows "version_parse (version_to_string v) = Inr v"
  using assms by (rule version_roundtrip_aux)

lemma version_roundtrip_witness:
  "version_ok CURRENT_STARKNET_VERSION
   \<and> version_parse (version_to_string CURRENT_STARKNET_VERSION) = Inr CURRENT_STARKNET_VERSION"
  using version_roundtrip [of CURRENT_STARKNET_VERSION]
  by (simp add: CURRENT_STARKNET_VERSION_def version_new_def version_ok_def)

end
