(* ===== verification/Tx_Pool.thy ===== *)
theory Tx_Pool
  imports Transactions "HOL-Library.Multiset"
begin

text \<open>
  The transaction pool of \<^verbatim>\<open>crates/pool\<close>: priorities (\<^verbatim>\<open>ordering.rs\<close>), pool transactions
  (\<^verbatim>\<open>tx.rs\<close>), the pool itself (\<^verbatim>\<open>pool.rs\<close>) and the stream of pending transactions
  (\<^verbatim>\<open>pending.rs\<close>, \<^verbatim>\<open>subscription.rs\<close>).

  The pool keeps its transactions in a \<^verbatim>\<open>BTreeSet\<close> under the comparison of \<^verbatim>\<open>PendingTx\<close>, which is
  not transitive, so the place where a new transaction ends up depends on the shape of the
  tree.  A tree search compares the new element with both neighbours of the gap in which it
  ends; \<open>btree_slot\<close> says exactly that, and the operations take the search as an argument.
  \<open>btree_position\<close> is the search of a single node.  The channels to listeners and subscribers
  belong to \<^verbatim>\<open>futures\<close> and \<^verbatim>\<open>tokio\<close>: sending and receiving are arguments of the operations.
\<close>

section \<open>Comparison and priorities\<close>

datatype ordering = Less | Equal | Greater

definition cmp :: "'a :: linorder \<Rightarrow> 'a \<Rightarrow> ordering" where
  "cmp a b = (if a < b then Less else if a = b then Equal else Greater)"

text \<open>Submission nonces compare as the counter values, tips the other way round.\<close>

datatype tx_submission_nonce = TxSubmissionNonce (submission_value: "64 word")

instantiation tx_submission_nonce :: linorder
begin

definition less_eq_tx_submission_nonce :: "tx_submission_nonce \<Rightarrow> tx_submission_nonce \<Rightarrow> bool" where
  "less_eq_tx_submission_nonce a b = (submission_value a \<le> submission_value b)"

definition less_tx_submission_nonce :: "tx_submission_nonce \<Rightarrow> tx_submission_nonce \<Rightarrow> bool" where
  "less_tx_submission_nonce a b = (submission_value a < submission_value b)"

instance
  by standard
    (auto simp: less_eq_tx_submission_nonce_def less_tx_submission_nonce_def
      intro: tx_submission_nonce.expand)

end

datatype tip_value = Tip (tip_value: "64 word")

instantiation tip_value :: linorder
begin

definition less_eq_tip_value :: "tip_value \<Rightarrow> tip_value \<Rightarrow> bool" where
  "less_eq_tip_value a b = (tip_value b \<le> tip_value a)"

definition less_tip_value :: "tip_value \<Rightarrow> tip_value \<Rightarrow> bool" where
  "less_tip_value a b = (tip_value b < tip_value a)"

instance
  by standard (auto simp: less_eq_tip_value_def less_tip_value_def intro: tip_value.expand)

end

section \<open>Pool transactions\<close>

type_synonym 'cls ptx = "'cls executable_tx_with_hash"

text \<open>\<^verbatim>\<open>unimplemented!\<close> for version 0 transactions is \<open>None\<close>.\<close>

fun pool_tx_nonce :: "'cls executable_tx \<Rightarrow> nonce option" where
  "pool_tx_nonce (ExInvoke (InvokeV0 _)) = None"
| "pool_tx_nonce (ExInvoke (InvokeV1 t)) = Some (iv1_nonce t)"
| "pool_tx_nonce (ExInvoke (InvokeV3 t)) = Some (iv3_nonce t)"
| "pool_tx_nonce (ExL1Handler t) = Some (l1h_nonce t)"
| "pool_tx_nonce (ExDeclare t) = (case dwc_transaction t of
      DeclareV0 _ \<Rightarrow> None
    | DeclareV1 d \<Rightarrow> Some (dv1_nonce d)
    | DeclareV2 d \<Rightarrow> Some (dv2_nonce d)
    | DeclareV3 d \<Rightarrow> Some (dv3_nonce d))"
| "pool_tx_nonce (ExDeployAccount (DeployAccountV1 t)) = Some (da1_nonce t)"
| "pool_tx_nonce (ExDeployAccount (DeployAccountV3 t)) = Some (da3_nonce t)"

fun pool_tx_sender :: "'cls executable_tx \<Rightarrow> contract_address" where
  "pool_tx_sender (ExInvoke (InvokeV0 t)) = iv0_contract_address t"
| "pool_tx_sender (ExInvoke (InvokeV1 t)) = iv1_sender_address t"
| "pool_tx_sender (ExInvoke (InvokeV3 t)) = iv3_sender_address t"
| "pool_tx_sender (ExL1Handler t) = l1h_contract_address t"
| "pool_tx_sender (ExDeclare t) = (case dwc_transaction t of
      DeclareV0 d \<Rightarrow> dv0_sender_address d
    | DeclareV1 d \<Rightarrow> dv1_sender_address d
    | DeclareV2 d \<Rightarrow> dv2_sender_address d
    | DeclareV3 d \<Rightarrow> dv3_sender_address d)"
| "pool_tx_sender (ExDeployAccount t) = deploy_account_contract_address t"

fun pool_tx_max_fee :: "'cls executable_tx \<Rightarrow> nat" where
  "pool_tx_max_fee (ExInvoke (InvokeV0 t)) = iv0_max_fee t"
| "pool_tx_max_fee (ExInvoke (InvokeV1 t)) = iv1_max_fee t"
| "pool_tx_max_fee (ExInvoke (InvokeV3 _)) = 0"
| "pool_tx_max_fee (ExL1Handler t) = l1h_paid_fee_on_l1 t"
| "pool_tx_max_fee (ExDeclare t) = (case dwc_transaction t of
      DeclareV0 d \<Rightarrow> dv0_max_fee d
    | DeclareV1 d \<Rightarrow> dv1_max_fee d
    | DeclareV2 d \<Rightarrow> dv2_max_fee d
    | DeclareV3 _ \<Rightarrow> 0)"
| "pool_tx_max_fee (ExDeployAccount (DeployAccountV1 t)) = da1_max_fee t"
| "pool_tx_max_fee (ExDeployAccount (DeployAccountV3 _)) = 0"

fun pool_tx_tip :: "'cls executable_tx \<Rightarrow> nat" where
  "pool_tx_tip (ExInvoke (InvokeV3 t)) = iv3_tip t"
| "pool_tx_tip (ExInvoke _) = 0"
| "pool_tx_tip (ExL1Handler _) = 0"
| "pool_tx_tip (ExDeclare t) = (case dwc_transaction t of DeclareV3 d \<Rightarrow> dv3_tip d | _ \<Rightarrow> 0)"
| "pool_tx_tip (ExDeployAccount (DeployAccountV3 t)) = da3_tip t"
| "pool_tx_tip (ExDeployAccount _) = 0"

record tx_id =
  id_sender :: contract_address
  id_nonce :: nonce

definition tx_id_new :: "contract_address \<Rightarrow> nonce \<Rightarrow> tx_id" where
  "tx_id_new s n = \<lparr>id_sender = s, id_nonce = n\<rparr>"

definition tx_id_parent :: "tx_id \<Rightarrow> tx_id option" where
  "tx_id_parent i = (if id_nonce i = 0 then None else Some (i\<lparr>id_nonce := id_nonce i - 1\<rparr>))"

definition tx_id_descendent :: "tx_id \<Rightarrow> tx_id" where
  "tx_id_descendent i = i\<lparr>id_nonce := (id_nonce i + 1) mod stark_prime\<rparr>"

record ('cls, 'p) pending_tx =
  pt_id :: tx_id
  pt_tx :: "'cls ptx"
  pt_priority :: 'p
  pt_added_at :: nat

text \<open>The comparison of pending transactions; it never answers \<open>Equal\<close>.\<close>

definition not_equal :: "ordering \<Rightarrow> ordering" where
  "not_equal c = (case c of Equal \<Rightarrow> Greater | c' \<Rightarrow> c')"

definition pending_cmp ::
    "('cls, 'p :: linorder) pending_tx \<Rightarrow> ('cls, 'p) pending_tx \<Rightarrow> ordering" where
  "pending_cmp a b =
     (if id_sender (pt_id a) = id_sender (pt_id b)
      then not_equal (cmp (id_nonce (pt_id a)) (id_nonce (pt_id b)))
      else not_equal (cmp (pt_priority a) (pt_priority b)))"

section \<open>Orderings\<close>

record fifo = fifo_nonce :: "64 word"

definition fifo_new :: fifo where
  "fifo_new = \<lparr>fifo_nonce = 0\<rparr>"

definition fifo_assign :: "fifo \<Rightarrow> 64 word \<times> fifo" where
  "fifo_assign f = (fifo_nonce f, f\<lparr>fifo_nonce := fifo_nonce f + 1\<rparr>)"

definition fifo_priority :: "fifo \<Rightarrow> 'cls ptx \<Rightarrow> tx_submission_nonce \<times> fifo" where
  "fifo_priority f t = (case fifo_assign f of (n, f') \<Rightarrow> (TxSubmissionNonce n, f'))"

definition tip_priority :: "unit \<Rightarrow> 'cls ptx \<Rightarrow> tip_value \<times> unit" where
  "tip_priority u t = (Tip (of_nat (pool_tx_tip (ewh_transaction t))), u)"

section \<open>Insertion into the tree\<close>

definition btree_slot :: "('a \<Rightarrow> 'a \<Rightarrow> ordering) \<Rightarrow> 'a \<Rightarrow> 'a list \<Rightarrow> nat \<Rightarrow> bool" where
  "btree_slot c x xs p \<longleftrightarrow> p \<le> length xs \<and> (p > 0 \<longrightarrow> c x (xs ! (p - 1)) = Greater) \<and>
     (p < length xs \<longrightarrow> c x (xs ! p) = Less)"

fun btree_position :: "('a \<Rightarrow> 'a \<Rightarrow> ordering) \<Rightarrow> 'a \<Rightarrow> 'a list \<Rightarrow> nat" where
  "btree_position c x [] = 0"
| "btree_position c x (y # ys) = (if c x y = Greater then Suc (btree_position c x ys) else 0)"

definition btree_insert :: "('a \<Rightarrow> 'a list \<Rightarrow> nat) \<Rightarrow> 'a \<Rightarrow> 'a list \<Rightarrow> 'a list" where
  "btree_insert search x xs = take (search x xs) xs @ x # drop (search x xs) xs"

section \<open>Validation outcomes and errors\<close>

datatype insufficient_intrinsic_fee_error =
  InsufficientMaxFee nat nat
| InsufficientResourceBounds string

datatype 'r insufficient_funds_error =
  MaxFeeExceedsFunds nat felt
| L1GasBoundsExceedFunds 'r nat nat felt
| ResourceBoundsExceedFunds string

datatype 'r invalid_transaction_error =
  InsufficientFunds "'r insufficient_funds_error"
| InsufficientIntrinsicFee insufficient_intrinsic_fee_error
| ValidationFailure contract_address class_hash string
| NonAccount contract_address
| InvalidNonce contract_address nonce nonce
| ClassAlreadyDeclared class_hash

record 'b validation_error =
  ve_hash :: tx_hash
  ve_error :: 'b

datatype ('t, 'r) validation_outcome =
  Valid 't
| Invalid 't "'r invalid_transaction_error"
| Dependent 't nonce nonce

type_synonym ('t, 'r, 'b) validation_result = "'b validation_error + ('t, 'r) validation_outcome"

datatype ('r, 'b) pool_error =
  InvalidTransaction "'r invalid_transaction_error"
| Internal 'b

text \<open>A validator is a state transformer; \<open>None\<close> is a panic while validating.\<close>

type_synonym ('v, 't, 'r, 'b) validator_fn = "'v \<Rightarrow> 't \<Rightarrow> ('v \<times> ('t, 'r, 'b) validation_result) option"

definition noop_validate :: "('v, 't, 'r, 'b) validator_fn" where
  "noop_validate v t = Some (v, Inr (Valid t))"

text \<open>\<^verbatim>\<open>validate_all\<close>.\<close>

fun validate_all ::
    "('v, 't, 'r, 'b) validator_fn \<Rightarrow> 'v \<Rightarrow> 't list \<Rightarrow>
     ('v \<times> ('t, 'r, 'b) validation_result list) option" where
  "validate_all validate v [] = Some (v, [])"
| "validate_all validate v (t # ts) = (case validate v t of
      None \<Rightarrow> None
    | Some (v', r) \<Rightarrow> (case validate_all validate v' ts of
        None \<Rightarrow> None
      | Some (v'', rs) \<Rightarrow> Some (v'', r # rs)))"

section \<open>The pool\<close>

record ('cls, 'p, 'v, 'o, 'l, 's) pool =
  transactions :: "('cls, 'p) pending_tx list"
  listeners :: "'l list"
  subscribers :: "'s list"
  validator :: 'v
  pool_ordering :: 'o

definition pool_new :: "'v \<Rightarrow> 'o \<Rightarrow> ('cls, 'p, 'v, 'o, 'l, 's) pool" where
  "pool_new v ord = \<lparr>transactions = [], listeners = [], subscribers = [], validator = v, pool_ordering = ord\<rparr>"

text \<open>The notification loop: take entry \<open>n\<close> out, send, put it back when it is to be kept.\<close>

fun notify_loop :: "('c \<Rightarrow> 'c \<times> bool) \<Rightarrow> nat \<Rightarrow> 'c list \<Rightarrow> 'c list option" where
  "notify_loop send 0 xs = Some xs"
| "notify_loop send (Suc n) xs = (case swap_remove n xs of
      None \<Rightarrow> None
    | Some (c, rest) \<Rightarrow> (case send c of
        (c', retain) \<Rightarrow> notify_loop send n (if retain then rest @ [c'] else rest)))"

datatype send_outcome = Sent | ChannelFull | Disconnected

definition notify_listener ::
    "('l \<Rightarrow> tx_hash \<Rightarrow> 'l \<times> send_outcome) \<Rightarrow> ('cls, 'p, 'v, 'o, 'l, 's) pool \<Rightarrow> tx_hash \<Rightarrow>
     ('cls, 'p, 'v, 'o, 'l, 's) pool option" where
  "notify_listener try_send p h =
     map_option (\<lambda>ls. p\<lparr>listeners := ls\<rparr>)
       (notify_loop (\<lambda>l. case try_send l h of (l', r) \<Rightarrow>
          (l', case r of Sent \<Rightarrow> True | ChannelFull \<Rightarrow> True | Disconnected \<Rightarrow> False))
        (length (listeners p)) (listeners p))"

definition notify_subscribers ::
    "('s \<Rightarrow> ('cls, 'p) pending_tx \<Rightarrow> 's \<times> bool) \<Rightarrow> ('cls, 'p, 'v, 'o, 'l, 's) pool \<Rightarrow>
     ('cls, 'p) pending_tx \<Rightarrow> ('cls, 'p, 'v, 'o, 'l, 's) pool option" where
  "notify_subscribers send p t =
     map_option (\<lambda>ss. p\<lparr>subscribers := ss\<rparr>)
       (notify_loop (\<lambda>s. send s t) (length (subscribers p)) (subscribers p))"

definition notify ::
    "('l \<Rightarrow> tx_hash \<Rightarrow> 'l \<times> send_outcome) \<Rightarrow> ('s \<Rightarrow> ('cls, 'p) pending_tx \<Rightarrow> 's \<times> bool) \<Rightarrow>
     ('cls, 'p, 'v, 'o, 'l, 's) pool \<Rightarrow> ('cls, 'p) pending_tx \<Rightarrow>
     ('cls, 'p, 'v, 'o, 'l, 's) pool option" where
  "notify try_send send p t = (case notify_listener try_send p (ewh_hash (pt_tx t)) of
      None \<Rightarrow> None
    | Some p' \<Rightarrow> notify_subscribers send p' t)"

text \<open>What the pool uses of its surroundings.\<close>

record ('cls, 'p, 'v, 'o, 'l, 's, 'r, 'b) pool_deps =
  pd_validate :: "('v, 'cls ptx, 'r, 'b) validator_fn"
  pd_priority :: "'o \<Rightarrow> 'cls ptx \<Rightarrow> 'p \<times> 'o"
  pd_search :: "('cls, 'p) pending_tx \<Rightarrow> ('cls, 'p) pending_tx list \<Rightarrow> nat"
  pd_try_send :: "'l \<Rightarrow> tx_hash \<Rightarrow> 'l \<times> send_outcome"
  pd_send :: "'s \<Rightarrow> ('cls, 'p) pending_tx \<Rightarrow> 's \<times> bool"

definition add_transaction ::
    "('cls, 'p, 'v, 'o, 'l, 's, 'r, 'b) pool_deps \<Rightarrow> nat \<Rightarrow>
     ('cls, 'p, 'v, 'o, 'l, 's) pool \<Rightarrow> 'cls ptx \<Rightarrow>
     (('cls, 'p, 'v, 'o, 'l, 's) pool \<times> (('r, 'b) pool_error + tx_hash)) option" where
  "add_transaction d now p t = (case pool_tx_nonce (ewh_transaction t) of
      None \<Rightarrow> None
    | Some n \<Rightarrow> (let i = tx_id_new (pool_tx_sender (ewh_transaction t)) n in
        (case pd_validate d (validator p) t of
           None \<Rightarrow> None
         | Some (v', res) \<Rightarrow> (let p = p\<lparr>validator := v'\<rparr> in
             (case res of
                Inr (Valid t') \<Rightarrow>
                  (case pd_priority d (pool_ordering p) t' of (prio, ord') \<Rightarrow>
                    (let x = \<lparr>pt_id = i, pt_tx = t', pt_priority = prio, pt_added_at = now\<rparr>;
                         p = p\<lparr>pool_ordering := ord', transactions := btree_insert (pd_search d) x (transactions p)\<rparr>
                     in map_option (\<lambda>p'. (p', Inr (ewh_hash t))) (notify (pd_try_send d) (pd_send d) p x)))
              | Inr (Invalid _ e) \<Rightarrow> Some (p, Inl (InvalidTransaction e))
              | Inr (Dependent t' tx_nonce current_nonce) \<Rightarrow>
                  Some (p, Inl (InvalidTransaction
                    (InvalidNonce (pool_tx_sender (ewh_transaction t')) current_nonce tx_nonce)))
              | Inl e \<Rightarrow> Some (p, Inl (Internal (ve_error e))))))))"

definition pool_get :: "('cls, 'p, 'v, 'o, 'l, 's) pool \<Rightarrow> tx_hash \<Rightarrow> 'cls ptx option" where
  "pool_get p h = map_option pt_tx (List.find (\<lambda>t. ewh_hash (pt_tx t) = h) (transactions p))"

definition pool_contains :: "('cls, 'p, 'v, 'o, 'l, 's) pool \<Rightarrow> tx_hash \<Rightarrow> bool" where
  "pool_contains p h = (pool_get p h \<noteq> None)"

definition remove_transactions ::
    "('cls, 'p, 'v, 'o, 'l, 's) pool \<Rightarrow> tx_hash list \<Rightarrow> ('cls, 'p, 'v, 'o, 'l, 's) pool" where
  "remove_transactions p hs =
     p\<lparr>transactions := filter (\<lambda>t. ewh_hash (pt_tx t) \<notin> set hs) (transactions p)\<rparr>"

definition pool_size :: "('cls, 'p, 'v, 'o, 'l, 's) pool \<Rightarrow> nat" where
  "pool_size p = length (transactions p)"

definition add_listener ::
    "'l \<Rightarrow> ('cls, 'p, 'v, 'o, 'l, 's) pool \<Rightarrow> ('cls, 'p, 'v, 'o, 'l, 's) pool" where
  "add_listener sender p = p\<lparr>listeners := listeners p @ [sender]\<rparr>"

definition subscribe ::
    "'s \<Rightarrow> ('cls, 'p, 'v, 'o, 'l, 's) pool \<Rightarrow> ('cls, 'p, 'v, 'o, 'l, 's) pool" where
  "subscribe sender p = p\<lparr>subscribers := subscribers p @ [sender]\<rparr>"

section \<open>Pending transactions\<close>

datatype 'a poll = Ready 'a | Pending

record ('cls, 'p, 'rx) subscription =
  sub_txs :: "('cls, 'p) pending_tx list"
  sub_receiver :: 'rx

record ('cls, 'p, 'rx) pending_transactions =
  pts_all :: "('cls, 'p) pending_tx list"
  pts_subscription :: "('cls, 'p, 'rx) subscription"

text \<open>\<^verbatim>\<open>pending_transactions\<close>: a fresh channel, whose sender goes to the pool, and a snapshot.\<close>

definition pool_pending_transactions ::
    "'s \<times> 'rx \<Rightarrow> ('cls, 'p, 'v, 'o, 'l, 's) pool \<Rightarrow>
     ('cls, 'p, 'v, 'o, 'l, 's) pool \<times> ('cls, 'p, 'rx) pending_transactions" where
  "pool_pending_transactions channel p =
     (subscribe (fst channel) p,
      \<lparr>pts_all = transactions p,
       pts_subscription = \<lparr>sub_txs = [], sub_receiver = snd channel\<rparr>\<rparr>)"

text \<open>The inner loop of \<^verbatim>\<open>Subscription::poll_next\<close>: drain the channel into the set.\<close>

partial_function (option) drain ::
    "('rx \<Rightarrow> 'a option poll \<times> 'rx) \<Rightarrow> ('a \<Rightarrow> 'a list \<Rightarrow> nat) \<Rightarrow> 'rx \<Rightarrow> 'a list \<Rightarrow> ('a list \<times> 'rx) option" where
  "drain poll_recv search rx txs = (case poll_recv rx of
      (Ready (Some t), rx') \<Rightarrow> drain poll_recv search rx' (btree_insert search t txs)
    | (_, rx') \<Rightarrow> Some (txs, rx'))"

text \<open>
  One poll.  After a successful receive the set is not empty, so the outer loop is left in
  its second round at the latest.
\<close>

definition subscription_poll_next ::
    "('rx \<Rightarrow> ('cls, 'p) pending_tx option poll \<times> 'rx) \<Rightarrow>
     (('cls, 'p) pending_tx \<Rightarrow> ('cls, 'p) pending_tx list \<Rightarrow> nat) \<Rightarrow> ('cls, 'p, 'rx) subscription \<Rightarrow>
     (('cls, 'p) pending_tx option poll \<times> ('cls, 'p, 'rx) subscription) option" where
  "subscription_poll_next poll_recv search s = (case sub_txs s of
      t # ts \<Rightarrow> Some (Ready (Some t), s\<lparr>sub_txs := ts\<rparr>)
    | [] \<Rightarrow> (case poll_recv (sub_receiver s) of
        (Ready (Some t), rx) \<Rightarrow> (case drain poll_recv search rx (btree_insert search t []) of
            None \<Rightarrow> None
          | Some ([], rx') \<Rightarrow> None
          | Some (u # us, rx') \<Rightarrow> Some (Ready (Some u), \<lparr>sub_txs = us, sub_receiver = rx'\<rparr>))
      | (Ready None, rx) \<Rightarrow> Some (Ready None, s\<lparr>sub_receiver := rx\<rparr>)
      | (Pending, rx) \<Rightarrow> Some (Pending, s\<lparr>sub_receiver := rx\<rparr>)))"

definition pending_poll_next ::
    "('rx \<Rightarrow> ('cls, 'p) pending_tx option poll \<times> 'rx) \<Rightarrow>
     (('cls, 'p) pending_tx \<Rightarrow> ('cls, 'p) pending_tx list \<Rightarrow> nat) \<Rightarrow> ('cls, 'p, 'rx) pending_transactions \<Rightarrow>
     (('cls, 'p) pending_tx option poll \<times> ('cls, 'p, 'rx) pending_transactions) option" where
  "pending_poll_next poll_recv search q = (case pts_all q of
      t # ts \<Rightarrow> Some (Ready (Some t), q\<lparr>pts_all := ts\<rparr>)
    | [] \<Rightarrow> map_option (\<lambda>(r, s). (r, q\<lparr>pts_subscription := s\<rparr>))
              (subscription_poll_next poll_recv search (pts_subscription q)))"

text \<open>A sequence of submissions, each at its own time.\<close>

fun submit_all ::
    "('cls, 'p, 'v, 'o, 'l, 's, 'r, 'b) pool_deps \<Rightarrow> ('cls, 'p, 'v, 'o, 'l, 's) pool \<Rightarrow>
     (nat \<times> 'cls ptx) list \<Rightarrow>
     (('cls, 'p, 'v, 'o, 'l, 's) pool \<times> (('r, 'b) pool_error + tx_hash) list) option" where
  "submit_all d p [] = Some (p, [])"
| "submit_all d p ((now, t) # ts) = (case add_transaction d now p t of
      None \<Rightarrow> None
    | Some (p', r) \<Rightarrow> map_option (\<lambda>(p'', rs). (p'', r # rs)) (submit_all d p' ts))"

definition accepted :: "(nat \<times> 'cls ptx) list \<Rightarrow> (('r, 'b) pool_error + tx_hash) list \<Rightarrow> 'cls ptx list" where
  "accepted ts rs = map (snd \<circ> fst) (filter (\<lambda>x. \<not> isl (snd x)) (zip ts rs))"

text \<open>Two transactions of one sender are in nonce order; other pairs are not constrained.\<close>

definition in_nonce_order :: "'cls ptx \<Rightarrow> 'cls ptx \<Rightarrow> bool" where
  "in_nonce_order a b \<longleftrightarrow>
     (pool_tx_sender (ewh_transaction a) = pool_tx_sender (ewh_transaction b) \<longrightarrow>
      the (pool_tx_nonce (ewh_transaction a)) \<le> the (pool_tx_nonce (ewh_transaction b)))"

section \<open>Facts about the tree\<close>

lemma not_equal_simps [simp]:
  "not_equal c \<noteq> Equal"
  "not_equal (cmp a b) = Greater \<longleftrightarrow> b \<le> a"
  "not_equal (cmp a b) = Less \<longleftrightarrow> a < b"
  by (auto simp: not_equal_def cmp_def split: ordering.splits)

lemma pending_cmp_not_Equal [simp]: "pending_cmp a b \<noteq> Equal"
  by (simp add: pending_cmp_def)

lemma pending_cmp_Greater:
  "pending_cmp a b = Greater \<longleftrightarrow>
     (if id_sender (pt_id a) = id_sender (pt_id b) then id_nonce (pt_id b) \<le> id_nonce (pt_id a)
      else pt_priority b \<le> pt_priority a)"
  by (simp add: pending_cmp_def)

lemma pending_cmp_Less_iff: "pending_cmp a b = Less \<longleftrightarrow> pending_cmp a b \<noteq> Greater"
  using pending_cmp_not_Equal [of a b] by (cases "pending_cmp a b") auto

lemma btree_position_le: "btree_position c x xs \<le> length xs"
  by (induction xs) auto

lemma btree_position_before: "i < btree_position c x xs \<Longrightarrow> c x (xs ! i) = Greater"
proof (induction xs arbitrary: i)
  case (Cons y ys)
  then show ?case by (cases i) (auto split: if_splits)
qed simp

lemma btree_position_at: "btree_position c x xs < length xs \<Longrightarrow> c x (xs ! btree_position c x xs) \<noteq> Greater"
  by (induction xs) auto

lemma btree_position_slot: "btree_slot pending_cmp x xs (btree_position pending_cmp x xs)"
  using btree_position_le [of pending_cmp x xs] btree_position_before [of _ pending_cmp x xs]
    btree_position_at [of pending_cmp x xs]
  by (auto simp: btree_slot_def pending_cmp_Less_iff)

lemma btree_slot_end:
  assumes "btree_slot c x xs p" and "\<And>y. y \<in> set xs \<Longrightarrow> c x y = Greater"
  shows "p = length xs"
  using assms by (metis btree_slot_def le_neq_implies_less nth_mem ordering.distinct(3))

lemma mset_btree_insert [simp]: "mset (btree_insert search x xs) = add_mset x (mset xs)"
proof -
  have "mset (take n xs) + mset (drop n xs) = mset xs" for n
    by (metis append_take_drop_id mset_append)
  then show ?thesis by (simp add: btree_insert_def)
qed

lemma set_btree_insert [simp]: "set (btree_insert search x xs) = insert x (set xs)"
  by (metis mset_btree_insert set_mset_add_mset_insert set_mset_mset)

text \<open>
  When the senders are distinct the comparison looks at priorities only: whatever the shape
  of the tree, the set stays sorted and a newcomer goes behind the equal ones.
\<close>

lemma btree_slot_sorted:
  fixes xs :: "('cls, 'p :: linorder) pending_tx list"
  assumes slot: "btree_slot pending_cmp x xs p"
    and fresh: "\<And>y. y \<in> set xs \<Longrightarrow> id_sender (pt_id y) \<noteq> id_sender (pt_id x)"
    and sorted: "sorted (map pt_priority xs)"
  shows "\<forall>y\<in>set (take p xs). pt_priority y \<le> pt_priority x"
    and "\<forall>y\<in>set (drop p xs). pt_priority x < pt_priority y"
proof -
  have cmp: "pending_cmp x (xs ! i) = Greater \<longleftrightarrow> pt_priority (xs ! i) \<le> pt_priority x" if "i < length xs" for i
    using fresh [of "xs ! i"] that by (auto simp: pending_cmp_Greater)
  have mono: "pt_priority (xs ! i) \<le> pt_priority (xs ! j)" if "i \<le> j" "j < length xs" for i j
    using sorted_nth_mono [OF sorted, of i j] that by simp
  have p: "p \<le> length xs" using slot by (simp add: btree_slot_def)
  show "\<forall>y\<in>set (take p xs). pt_priority y \<le> pt_priority x"
  proof
    fix y assume "y \<in> set (take p xs)"
    then obtain i where i: "i < p" "i < length xs" "y = xs ! i" by (auto simp: in_set_conv_nth)
    then have "pt_priority (xs ! (p - 1)) \<le> pt_priority x"
      using slot p cmp [of "p - 1"] by (auto simp: btree_slot_def)
    then show "pt_priority y \<le> pt_priority x" using mono [of i "p - 1"] i p by fastforce
  qed
  show "\<forall>y\<in>set (drop p xs). pt_priority x < pt_priority y"
  proof
    fix y assume "y \<in> set (drop p xs)"
    then obtain i where "i < length (drop p xs)" and "y = drop p xs ! i"
      by (metis in_set_conv_nth)
    then have i: "p + i < length xs" "y = xs ! (p + i)" by auto
    then have "pt_priority x < pt_priority (xs ! p)"
      using slot cmp [of p] by (fastforce simp: btree_slot_def)
    then show "pt_priority x < pt_priority y" using mono [of p "p + i"] i by fastforce
  qed
qed

section \<open>Facts about notifications\<close>

lemma notify_loop_append:
  "\<exists>ys. notify_loop send (length pre) (pre @ post) = Some ys \<and>
        mset ys = mset post + mset (map fst (filter snd (map send pre)))"
proof (induction pre arbitrary: post rule: rev_induct)
  case (snoc c pre)
  obtain post' where sr: "swap_remove (length pre) (pre @ c # post) = Some (c, pre @ post')"
    and m: "mset post' = mset post" using swap_remove_append [of pre c post] by auto
  obtain c' keep where sc: "send c = (c', keep)" by fastforce
  show ?case
    using snoc.IH [of "if keep then post' @ [c'] else post'"] sr m sc
    by (cases keep) auto
qed simp

lemma notify_loop_total:
  obtains ys where "notify_loop send (length xs) xs = Some ys"
    and "mset ys = mset (map fst (filter snd (map send xs)))"
  using notify_loop_append [of send xs "[]"] by auto

lemma notify_total:
  obtains p' where "notify try_send send p t = Some p'"
    and "transactions p' = transactions p" and "validator p' = validator p"
    and "pool_ordering p' = pool_ordering p"
    and "mset (subscribers p') = mset (map fst (filter snd (map (\<lambda>s. send s t) (subscribers p))))"
    and "mset (listeners p') = mset (map fst (filter (\<lambda>x. snd x \<noteq> Disconnected)
           (map (\<lambda>l. try_send l (ewh_hash (pt_tx t))) (listeners p))))"
proof -
  let ?h = "ewh_hash (pt_tx t)"
  let ?f = "\<lambda>l. case try_send l ?h of (l', r) \<Rightarrow>
          (l', case r of Sent \<Rightarrow> True | ChannelFull \<Rightarrow> True | Disconnected \<Rightarrow> False)"
  have keep: "map fst (filter snd (map ?f ls)) =
      map fst (filter (\<lambda>x. snd x \<noteq> Disconnected) (map (\<lambda>l. try_send l ?h) ls))" for ls
    by (induction ls) (auto split: prod.split send_outcome.split)
  obtain ls where ls: "notify_loop ?f (length (listeners p)) (listeners p) = Some ls"
    and mls: "mset ls = mset (map fst (filter snd (map ?f (listeners p))))"
    by (rule notify_loop_total)
  obtain ss where ss: "notify_loop (\<lambda>s. send s t) (length (subscribers p)) (subscribers p) = Some ss"
    and mss: "mset ss = mset (map fst (filter snd (map (\<lambda>s. send s t) (subscribers p))))"
    by (rule notify_loop_total)
  have "notify try_send send p t = Some (p\<lparr>listeners := ls, subscribers := ss\<rparr>)"
    using ls ss by (simp add: notify_def notify_listener_def notify_subscribers_def)
  then show ?thesis using that mls [unfolded keep] mss by simp
qed

end
