(* ===== verification/Versioned_Models.thy ===== *)
theory Versioned_Models
  imports Block_Types
begin

text \<open>
  The versioned rows of the header and transaction tables:
  \<^verbatim>\<open>crates/storage/db/src/models/versioned\<close>.  Rows written now are \<^verbatim>\<open>V7\<close>; rows of a database of
  version 6 are converted when they are read.
\<close>

section \<open>Headers\<close>

record header_v6 =
  h6_parent_hash :: block_hash
  h6_number :: block_number
  h6_state_diff_commitment :: felt
  h6_transactions_commitment :: felt
  h6_receipts_commitment :: felt
  h6_events_commitment :: felt
  h6_state_root :: felt
  h6_transaction_count :: nat
  h6_events_count :: nat
  h6_state_diff_length :: nat
  h6_timestamp :: nat
  h6_sequencer_address :: contract_address
  h6_l1_gas_prices :: gas_price
  h6_l1_data_gas_prices :: gas_price
  h6_l1_da_mode :: l1_da_mode
  h6_protocol_version :: protocol_version

definition header_from_v6 :: "header_v6 \<Rightarrow> header" where
  "header_from_v6 h =
     \<lparr>hd_parent_hash = h6_parent_hash h, hd_number = h6_number h,
      hd_state_diff_commitment = h6_state_diff_commitment h,
      hd_transactions_commitment = h6_transactions_commitment h,
      hd_receipts_commitment = h6_receipts_commitment h,
      hd_events_commitment = h6_events_commitment h, hd_state_root = h6_state_root h,
      hd_transaction_count = h6_transaction_count h, hd_events_count = h6_events_count h,
      hd_state_diff_length = h6_state_diff_length h, hd_timestamp = h6_timestamp h,
      hd_sequencer_address = h6_sequencer_address h, hd_l1_gas_prices = h6_l1_gas_prices h,
      hd_l1_data_gas_prices = h6_l1_data_gas_prices h, hd_l2_gas_prices = gas_price_MIN,
      hd_l1_da_mode = h6_l1_da_mode h, hd_protocol_version = h6_protocol_version h\<rparr>"

datatype versioned_header = HeaderV6 header_v6 | HeaderV7 header

definition versioned_header_from :: "header \<Rightarrow> versioned_header" where
  "versioned_header_from h = HeaderV7 h"

fun header_of_versioned :: "versioned_header \<Rightarrow> header" where
  "header_of_versioned (HeaderV7 h) = h"
| "header_of_versioned (HeaderV6 h) = header_from_v6 h"

section \<open>Transactions\<close>

record resource_bounds_mapping_v6 =
  rb6_l1_gas :: resource_bounds
  rb6_l2_gas :: resource_bounds

record invoke_tx_v3_v6 =
  i6_chain_id :: chain_id
  i6_sender_address :: contract_address
  i6_nonce :: felt
  i6_calldata :: "felt list"
  i6_signature :: "felt list"
  i6_resource_bounds :: resource_bounds_mapping_v6
  i6_tip :: nat
  i6_paymaster_data :: "felt list"
  i6_account_deployment_data :: "felt list"
  i6_nonce_da_mode :: da_mode
  i6_fee_da_mode :: da_mode

record declare_tx_v3_v6 =
  d6_chain_id :: chain_id
  d6_sender_address :: contract_address
  d6_nonce :: felt
  d6_signature :: "felt list"
  d6_class_hash :: class_hash
  d6_compiled_class_hash :: compiled_class_hash
  d6_resource_bounds :: resource_bounds_mapping_v6
  d6_tip :: nat
  d6_paymaster_data :: "felt list"
  d6_account_deployment_data :: "felt list"
  d6_nonce_da_mode :: da_mode
  d6_fee_da_mode :: da_mode

record deploy_account_tx_v3_v6 =
  a6_chain_id :: chain_id
  a6_nonce :: nonce
  a6_signature :: "felt list"
  a6_class_hash :: class_hash
  a6_contract_address :: contract_address
  a6_contract_address_salt :: felt
  a6_constructor_calldata :: "felt list"
  a6_resource_bounds :: resource_bounds_mapping_v6
  a6_tip :: nat
  a6_paymaster_data :: "felt list"
  a6_nonce_da_mode :: da_mode
  a6_fee_da_mode :: da_mode

datatype invoke_tx_v6 = Invoke6V0 invoke_tx_v0 | Invoke6V1 invoke_tx_v1 | Invoke6V3 invoke_tx_v3_v6

datatype declare_tx_v6 =
  Declare6V1 declare_tx_v1
| Declare6V2 declare_tx_v2
| Declare6V3 declare_tx_v3_v6
| Declare6V0 declare_tx_v0

datatype deploy_account_tx_v6 = DeployAccount6V1 deploy_account_tx_v1 | DeployAccount6V3 deploy_account_tx_v3_v6

datatype tx_v6 =
  Invoke6 invoke_tx_v6
| Declare6 declare_tx_v6
| L1Handler6 l1_handler_tx
| DeployAccount6 deploy_account_tx_v6
| Deploy6 deploy_tx

fun tx_v6_version :: "tx_v6 \<Rightarrow> felt" where
  "tx_v6_version (Invoke6 (Invoke6V0 _)) = 0"
| "tx_v6_version (Invoke6 (Invoke6V1 _)) = 1"
| "tx_v6_version (Invoke6 (Invoke6V3 _)) = 3"
| "tx_v6_version (Declare6 (Declare6V0 _)) = 0"
| "tx_v6_version (Declare6 (Declare6V1 _)) = 1"
| "tx_v6_version (Declare6 (Declare6V2 _)) = 2"
| "tx_v6_version (Declare6 (Declare6V3 _)) = 3"
| "tx_v6_version (L1Handler6 t) = l1h_version t"
| "tx_v6_version (DeployAccount6 (DeployAccount6V1 _)) = 1"
| "tx_v6_version (DeployAccount6 (DeployAccount6V3 _)) = 3"
| "tx_v6_version (Deploy6 t) = dep_version t"

fun tx_v6_type :: "tx_v6 \<Rightarrow> tx_type" where
  "tx_v6_type (Invoke6 _) = TInvoke"
| "tx_v6_type (Deploy6 _) = TDeploy"
| "tx_v6_type (Declare6 _) = TDeclare"
| "tx_v6_type (L1Handler6 _) = TL1Handler"
| "tx_v6_type (DeployAccount6 _) = TDeployAccount"

definition bounds_from_v6 :: "resource_bounds_mapping_v6 \<Rightarrow> resource_bounds_mapping" where
  "bounds_from_v6 b = L1Gas (rb6_l1_gas b)"

definition invoke_v3_from_v6 :: "invoke_tx_v3_v6 \<Rightarrow> invoke_tx_v3" where
  "invoke_v3_from_v6 t =
     \<lparr>iv3_chain_id = i6_chain_id t, iv3_sender_address = i6_sender_address t,
      iv3_nonce = i6_nonce t, iv3_calldata = i6_calldata t, iv3_signature = i6_signature t,
      iv3_resource_bounds = bounds_from_v6 (i6_resource_bounds t), iv3_tip = i6_tip t,
      iv3_paymaster_data = i6_paymaster_data t,
      iv3_account_deployment_data = i6_account_deployment_data t,
      iv3_nonce_da_mode = i6_nonce_da_mode t, iv3_fee_da_mode = i6_fee_da_mode t\<rparr>"

definition declare_v3_from_v6 :: "declare_tx_v3_v6 \<Rightarrow> declare_tx_v3" where
  "declare_v3_from_v6 t =
     \<lparr>dv3_chain_id = d6_chain_id t, dv3_sender_address = d6_sender_address t,
      dv3_nonce = d6_nonce t, dv3_signature = d6_signature t, dv3_class_hash = d6_class_hash t,
      dv3_compiled_class_hash = d6_compiled_class_hash t,
      dv3_resource_bounds = bounds_from_v6 (d6_resource_bounds t), dv3_tip = d6_tip t,
      dv3_paymaster_data = d6_paymaster_data t,
      dv3_account_deployment_data = d6_account_deployment_data t,
      dv3_nonce_da_mode = d6_nonce_da_mode t, dv3_fee_da_mode = d6_fee_da_mode t\<rparr>"

definition deploy_account_v3_from_v6 :: "deploy_account_tx_v3_v6 \<Rightarrow> deploy_account_tx_v3" where
  "deploy_account_v3_from_v6 t =
     \<lparr>da3_chain_id = a6_chain_id t, da3_nonce = a6_nonce t, da3_signature = a6_signature t,
      da3_class_hash = a6_class_hash t, da3_contract_address = a6_contract_address t,
      da3_contract_address_salt = a6_contract_address_salt t,
      da3_constructor_calldata = a6_constructor_calldata t,
      da3_resource_bounds = bounds_from_v6 (a6_resource_bounds t), da3_tip = a6_tip t,
      da3_paymaster_data = a6_paymaster_data t, da3_nonce_da_mode = a6_nonce_da_mode t,
      da3_fee_da_mode = a6_fee_da_mode t\<rparr>"

fun invoke_from_v6 :: "invoke_tx_v6 \<Rightarrow> invoke_tx" where
  "invoke_from_v6 (Invoke6V0 t) = InvokeV0 t"
| "invoke_from_v6 (Invoke6V1 t) = InvokeV1 t"
| "invoke_from_v6 (Invoke6V3 t) = InvokeV3 (invoke_v3_from_v6 t)"

fun declare_from_v6 :: "declare_tx_v6 \<Rightarrow> declare_tx" where
  "declare_from_v6 (Declare6V0 t) = DeclareV0 t"
| "declare_from_v6 (Declare6V1 t) = DeclareV1 t"
| "declare_from_v6 (Declare6V2 t) = DeclareV2 t"
| "declare_from_v6 (Declare6V3 t) = DeclareV3 (declare_v3_from_v6 t)"

fun deploy_account_from_v6 :: "deploy_account_tx_v6 \<Rightarrow> deploy_account_tx" where
  "deploy_account_from_v6 (DeployAccount6V1 t) = DeployAccountV1 t"
| "deploy_account_from_v6 (DeployAccount6V3 t) = DeployAccountV3 (deploy_account_v3_from_v6 t)"

fun tx_from_v6 :: "tx_v6 \<Rightarrow> tx" where
  "tx_from_v6 (Invoke6 t) = Invoke (invoke_from_v6 t)"
| "tx_from_v6 (Declare6 t) = Declare (declare_from_v6 t)"
| "tx_from_v6 (L1Handler6 t) = L1Handler t"
| "tx_from_v6 (DeployAccount6 t) = DeployAccount (deploy_account_from_v6 t)"
| "tx_from_v6 (Deploy6 t) = Deploy t"

datatype versioned_tx = TxV6 tx_v6 | TxV7 tx

definition versioned_tx_from :: "tx \<Rightarrow> versioned_tx" where
  "versioned_tx_from t = TxV7 t"

fun tx_of_versioned :: "versioned_tx \<Rightarrow> tx" where
  "tx_of_versioned (TxV6 t) = tx_from_v6 t"
| "tx_of_versioned (TxV7 t) = t"

section \<open>Facts\<close>

lemma header_versioned_roundtrip [simp]: "header_of_versioned (versioned_header_from h) = h"
  by (simp add: versioned_header_from_def)

lemma tx_versioned_roundtrip [simp]: "tx_of_versioned (versioned_tx_from t) = t"
  by (simp add: versioned_tx_from_def)

lemma tx_from_v6_version: "tx_version (tx_from_v6 t) = tx_v6_version t"
  by (cases t rule: tx_v6_version.cases) simp_all

lemma tx_from_v6_type: "tx_type_of (tx_from_v6 t) = tx_v6_type t"
  by (cases t) simp_all

end
