(* ===== verification/Integer_Set.thy ===== *)
theory Integer_Set
  imports Katana_Prelude
begin

text \<open>
  The block lists of the change-set tables: \<^verbatim>\<open>IntegerSet\<close> of
  \<^verbatim>\<open>crates/storage/db/src/models/list.rs\<close>.  A set is the ascending list of its members, the
  order in which \<^verbatim>\<open>iter\<close> yields them; every operation is the one its doc comment describes.
  The contract the readers rely on (\<open>rank\<close> counts, \<open>select\<close> indexes) is the locale
  \<open>integer_set\<close>, and the search for the most recent change is treated inside it.
\<close>

type_synonym integer_set = "nat list"

definition iset_inv :: "integer_set \<Rightarrow> bool" where
  "iset_inv s \<longleftrightarrow> sorted_wrt (<) s"

definition iset_new :: integer_set where
  "iset_new = []"

fun iset_insert :: "nat \<Rightarrow> integer_set \<Rightarrow> integer_set" where
  "iset_insert n [] = [n]"
| "iset_insert n (m # s) =
     (if n < m then n # m # s else if n = m then m # s else m # iset_insert n s)"

definition iset_remove :: "nat \<Rightarrow> integer_set \<Rightarrow> integer_set \<times> bool" where
  "iset_remove n s = (filter (\<lambda>m. m \<noteq> n) s, n \<in> set s)"

definition iset_contains :: "integer_set \<Rightarrow> nat \<Rightarrow> bool" where
  "iset_contains s n \<longleftrightarrow> n \<in> set s"

definition iset_rank :: "integer_set \<Rightarrow> nat \<Rightarrow> nat" where
  "iset_rank s v = length (filter (\<lambda>m. m \<le> v) s)"

definition iset_select :: "integer_set \<Rightarrow> nat \<Rightarrow> nat option" where
  "iset_select s n = (if n < length s then Some (s ! n) else None)"

definition iset_max :: "integer_set \<Rightarrow> nat option" where
  "iset_max s = (if s = [] then None else Some (last s))"

definition iset_min :: "integer_set \<Rightarrow> nat option" where
  "iset_min s = (case s of [] \<Rightarrow> None | m # _ \<Rightarrow> Some m)"

text \<open>\<^verbatim>\<open>remove_range\<close> on a closed range, which is how the pruner calls it.\<close>

definition iset_remove_range :: "nat \<Rightarrow> nat \<Rightarrow> integer_set \<Rightarrow> integer_set \<times> nat" where
  "iset_remove_range lo hi s =
     (filter (\<lambda>m. \<not> (lo \<le> m \<and> m \<le> hi)) s, length (filter (\<lambda>m. lo \<le> m \<and> m \<le> hi) s))"

definition iset_len :: "integer_set \<Rightarrow> nat" where
  "iset_len s = length s"

definition iset_is_empty :: "integer_set \<Rightarrow> bool" where
  "iset_is_empty s \<longleftrightarrow> s = []"

definition iset_from :: "nat list \<Rightarrow> integer_set" where
  "iset_from ns = fold iset_insert ns iset_new"

text \<open>
  The search shared by the historical state provider and the trie snapshots: the largest
  member that is not above the given block.
\<close>

definition recent_change_from_block :: "block_number \<Rightarrow> integer_set \<Rightarrow> block_number option" where
  "recent_change_from_block block_number block_list =
     (let rank = iset_rank block_list block_number
      in if rank = 0 then None else iset_select block_list (rank - 1))"

section \<open>Facts\<close>

lemma iset_inv_simps [simp]:
  "iset_inv []" "iset_inv (m # s) \<longleftrightarrow> (\<forall>x\<in>set s. m < x) \<and> iset_inv s"
  by (auto simp: iset_inv_def)

lemma set_iset_insert [simp]: "set (iset_insert n s) = insert n (set s)"
  by (induction n s rule: iset_insert.induct) auto

lemma iset_inv_insert [simp, intro]: "iset_inv s \<Longrightarrow> iset_inv (iset_insert n s)"
  by (induction n s rule: iset_insert.induct) auto

lemma iset_inv_filter [simp, intro]: "iset_inv s \<Longrightarrow> iset_inv (filter P s)"
  by (simp add: iset_inv_def sorted_wrt_filter)

lemma iset_inv_new [simp]: "iset_inv iset_new"
  by (simp add: iset_new_def)

lemma iset_inv_from [simp]: "iset_inv (iset_from ns)"
proof -
  have "iset_inv s \<Longrightarrow> iset_inv (fold iset_insert ns s)" for s
    by (induction ns arbitrary: s) auto
  then show ?thesis by (simp add: iset_from_def)
qed

lemma set_iset_from [simp]: "set (iset_from ns) = set ns"
proof -
  have "set (fold iset_insert ns s) = set ns \<union> set s" for s
    by (induction ns arbitrary: s) auto
  then show ?thesis by (simp add: iset_from_def iset_new_def)
qed

lemma iset_insert_append: "\<forall>x\<in>set s. x < n \<Longrightarrow> iset_insert n s = s @ [n]"
  by (induction n s rule: iset_insert.induct) auto

lemma iset_max_Max: "iset_inv s \<Longrightarrow> iset_max s = (if set s = {} then None else Some (Max (set s)))"
proof (cases s rule: rev_cases)
  case (snoc s' x)
  assume "iset_inv s"
  then have "\<forall>y\<in>set s'. y < x"
    using snoc by (simp add: iset_inv_def sorted_wrt_append)
  then have "Max (set s) = x"
    using snoc by (intro Max_eqI) (auto simp: less_imp_le)
  then show ?thesis using snoc by (simp add: iset_max_def)
qed (simp add: iset_max_def)

section \<open>The interface and the most recent change\<close>

locale integer_set =
  fixes invar :: "'s \<Rightarrow> bool"
    and elems :: "'s \<Rightarrow> nat set"
    and rank :: "'s \<Rightarrow> nat \<Rightarrow> nat"
    and select :: "'s \<Rightarrow> nat \<Rightarrow> nat option"
  assumes finite_elems: "finite (elems s)"
    and rank_card: "invar s \<Longrightarrow> rank s v = card {x \<in> elems s. x \<le> v}"
    and select_rank: "invar s \<Longrightarrow> x \<in> elems s \<Longrightarrow> select s (card {y \<in> elems s. y < x}) = Some x"
begin

lemma rank_zero_iff: "invar s \<Longrightarrow> rank s v = 0 \<longleftrightarrow> (\<forall>x\<in>elems s. v < x)"
  using finite_elems [of s] by (auto simp: rank_card not_le)

lemma select_pred_rank:
  assumes "invar s" "\<exists>x\<in>elems s. x \<le> v"
  shows "select s (rank s v - 1) = Some (Max {x \<in> elems s. x \<le> v})"
proof -
  let ?A = "{x \<in> elems s. x \<le> v}" and ?m = "Max {x \<in> elems s. x \<le> v}"
  have fin: "finite ?A" using finite_elems by simp
  have m: "?m \<in> ?A" using Max_in [OF fin] assms(2) by blast
  have "{y \<in> elems s. y < ?m} = ?A - {?m}"
    using m Max_ge [OF fin] by (force simp: less_le)
  then have "card {y \<in> elems s. y < ?m} = card ?A - 1"
    using m fin by simp
  then show ?thesis
    using select_rank [OF assms(1), of ?m] m by (simp add: rank_card [OF assms(1)])
qed

end

lemma iset_select_card:
  "iset_inv s \<Longrightarrow> x \<in> set s \<Longrightarrow> iset_select s (card {y \<in> set s. y < x}) = Some x"
proof (induction s)
  case (Cons a s)
  show ?case
  proof (cases "x = a")
    case True
    then have "{y \<in> set (a # s). y < x} = {}" using Cons.prems by auto
    then show ?thesis using True by (simp only: card.empty) (simp add: iset_select_def)
  next
    case False
    then have "{y \<in> set (a # s). y < x} = insert a {y \<in> set s. y < x}" "a \<notin> {y \<in> set s. y < x}"
      using Cons.prems by auto
    then show ?thesis using False Cons by (auto simp: iset_select_def split: if_splits)
  qed
qed simp

interpretation iset: integer_set iset_inv set iset_rank iset_select
proof (unfold_locales, goal_cases)
  case (2 s v)
  then have "distinct (filter (\<lambda>m. m \<le> v) s)"
    by (simp add: iset_inv_def sorted_wrt_less_distinct)
  then show ?case
    by (metis distinct_card iset_rank_def set_filter)
qed (auto intro: iset_select_card)

lemma recent_change_from_block_Max:
  "iset_inv s \<Longrightarrow>
   recent_change_from_block b s =
     (if \<exists>x\<in>set s. x \<le> b then Some (Max {x \<in> set s. x \<le> b}) else None)"
  using iset.rank_zero_iff [of s b] iset.select_pred_rank [of s b]
  by (auto simp: recent_change_from_block_def Let_def not_le)

lemma recent_change_SomeD:
  assumes "iset_inv s" "recent_change_from_block n s = Some b"
  shows "b \<in> set s \<and> b \<le> n"
proof -
  have ne: "{x \<in> set s. x \<le> n} \<noteq> {}" and b: "b = Max {x \<in> set s. x \<le> n}"
    using assms by (auto simp: recent_change_from_block_Max split: if_splits)
  have "Max {x \<in> set s. x \<le> n} \<in> {x \<in> set s. x \<le> n}"
    by (rule Max_in) (use ne in simp_all)
  then show ?thesis unfolding b by simp
qed

end
