(* ===== verification/Fork_Errors.thy ===== *)
theory Fork_Errors
  imports Katana_Prelude
begin

text \<open>
  The errors of the fork backend and of its clients (\<^verbatim>\<open>crates/storage/fork/src/lib.rs\<close>), which are
  part of the errors of the storage providers.  Of the errors of the remote JSON-RPC provider,
  which is not part of the repository, the code distinguishes the two that mean that the data
  does not exist.
\<close>

datatype starknet_provider_error = RpcContractNotFound | RpcClassHashNotFound | RpcOtherError nat

datatype backend_error =
  BackendThreadInit
| StarknetProvider starknet_provider_error
| UnexpectedReceiveResult

datatype backend_client_error =
  FailedSendRequest
| FailedReceiveResult
| BackendError backend_error
| ClassConversion
| ClassCompilation
| ClassHashComputation
| UnexpectedResponse

end
