(* ===== verification/Db_Provider.thy ===== *)
theory Db_Provider
  imports Versioned_Models Integer_Set Fork_Errors "HOL-Library.Char_ord" "HOL-Library.List_Lexorder"
begin

text \<open>
  The database-backed provider: \<^verbatim>\<open>crates/storage/provider/src/providers/db/mod.rs\<close>.

  The state is the record \<open>db\<close> of the tables of \<^verbatim>\<open>crates/storage/db/src/tables.rs\<close> that the
  provider touches (the trie tables are the state of the trie component).  Every getter is a
  function of the database; \<open>insert_block_with_states_and_receipts\<close> writes one block, loop by
  loop in the order of the code.  The type parameters are the contract class and the
  execution trace, which the provider only stores.
\<close>

section \<open>Stored models\<close>

record stored_block_body_indices =
  tx_offset :: tx_number
  tx_count :: nat

definition indices_range :: "stored_block_body_indices \<Rightarrow> tx_number list" where
  "indices_range i = [tx_offset i..<tx_offset i + tx_count i]"

record contract_info_change_list =
  class_change_list :: integer_set
  nonce_change_list :: integer_set

record stage_checkpoint =
  sc_block :: block_number

text \<open>
  Values of the dupsort tables are pairs with the subkey first: \<^verbatim>\<open>StorageEntry\<close> (key, value),
  \<^verbatim>\<open>ContractNonceChange\<close> and \<^verbatim>\<open>ContractClassChange\<close> (address, new value),
  \<^verbatim>\<open>ContractStorageEntry\<close> ((address, key), value).
\<close>

type_synonym storage_entry = "storage_key \<times> storage_value"
type_synonym contract_nonce_change = "contract_address \<times> nonce"
type_synonym contract_class_change = "contract_address \<times> class_hash"
type_synonym contract_storage_key = "contract_address \<times> storage_key"
type_synonym contract_storage_entry = "contract_storage_key \<times> storage_value"

record ('cls, 'info) db =
  tb_Headers :: "(block_number, versioned_header) table"
  tb_BlockHashes :: "(block_number, block_hash) table"
  tb_BlockNumbers :: "(block_hash, block_number) table"
  tb_BlockBodyIndices :: "(block_number, stored_block_body_indices) table"
  tb_BlockStatusses :: "(block_number, finality_status) table"
  tb_TxNumbers :: "(tx_hash, tx_number) table"
  tb_TxBlocks :: "(tx_number, block_number) table"
  tb_TxHashes :: "(tx_number, tx_hash) table"
  tb_TxTraces :: "(tx_number, 'info typed_execution_info) table"
  tb_Transactions :: "(tx_number, versioned_tx) table"
  tb_Receipts :: "(tx_number, receipt) table"
  tb_CompiledClassHashes :: "(class_hash, compiled_class_hash) table"
  tb_Classes :: "(class_hash, 'cls) table"
  tb_ContractInfo :: "(contract_address, generic_contract_info) table"
  tb_ContractStorage :: "(contract_address, storage_entry) table"
  tb_ClassDeclarationBlock :: "(class_hash, block_number) table"
  tb_ClassDeclarations :: "(block_number, class_hash) table"
  tb_ContractInfoChangeSet :: "(contract_address, contract_info_change_list) table"
  tb_NonceChangeHistory :: "(block_number, contract_nonce_change) table"
  tb_ClassChangeHistory :: "(block_number, contract_class_change) table"
  tb_StorageChangeHistory :: "(block_number, contract_storage_entry) table"
  tb_StorageChangeSet :: "(contract_storage_key, integer_set) table"
  tb_StageCheckpoints :: "(string, stage_checkpoint) table"

definition db_empty :: "('cls, 'info) db" where
  "db_empty =
     \<lparr>tb_Headers = [], tb_BlockHashes = [], tb_BlockNumbers = [], tb_BlockBodyIndices = [],
      tb_BlockStatusses = [], tb_TxNumbers = [], tb_TxBlocks = [], tb_TxHashes = [],
      tb_TxTraces = [], tb_Transactions = [], tb_Receipts = [], tb_CompiledClassHashes = [],
      tb_Classes = [], tb_ContractInfo = [], tb_ContractStorage = [],
      tb_ClassDeclarationBlock = [], tb_ClassDeclarations = [], tb_ContractInfoChangeSet = [],
      tb_NonceChangeHistory = [], tb_ClassChangeHistory = [], tb_StorageChangeHistory = [],
      tb_StorageChangeSet = [], tb_StageCheckpoints = []\<rparr>"

text \<open>The last constructor stands for a panic of the calling thread.\<close>

datatype provider_error =
  MissingLatestBlockHash
| MissingLatestBlockNumber
| MissingBlockHash block_number
| MissingBlockHeader block_number
| MissingBlockTxs block_number
| MissingBlockBodyIndices block_number
| MissingBlockStatus block_number
| MissingTx tx_number
| MissingTxBlock tx_number
| MissingTxHash tx_number
| MissingTxReceipt tx_number
| MissingTxExecution tx_number
| MissingContractClassChangeEntry block_number contract_address
| MissingContractNonceChangeEntry block_number contract_address
| MissingStorageChangeEntry block_number contract_address storage_key
| MissingContractClassHash contract_address
| MissingContractNonce contract_address
| StateRootNotFound
| StateProofNotSupported
| ForkedBackend1 backend_client_error
| Panic

type_synonym 'a provider_result = "provider_error + 'a"

section \<open>Block getters\<close>

definition block_number_by_hash :: "('cls, 'info) db \<Rightarrow> block_hash \<Rightarrow> block_number option provider_result" where
  "block_number_by_hash d hash = Inr (tbl_get (tb_BlockNumbers d) hash)"

definition latest_number :: "('cls, 'info) db \<Rightarrow> block_number provider_result" where
  "latest_number d = ok_or MissingLatestBlockNumber (map_option fst (tbl_last (tb_BlockHashes d)))"

definition latest_hash :: "('cls, 'info) db \<Rightarrow> block_hash provider_result" where
  "latest_hash d =
     rbind (latest_number d) (\<lambda>latest_block.
       ok_or MissingLatestBlockHash (tbl_get (tb_BlockHashes d) latest_block))"

definition block_hash_by_num :: "('cls, 'info) db \<Rightarrow> block_number \<Rightarrow> block_hash option provider_result" where
  "block_hash_by_num d num = Inr (tbl_get (tb_BlockHashes d) num)"

text \<open>The default methods of the number and hash traits.\<close>

fun block_number_by_id :: "('cls, 'info) db \<Rightarrow> block_hash_or_number \<Rightarrow> block_number option provider_result" where
  "block_number_by_id d (Num number) = Inr (Some number)"
| "block_number_by_id d (Hash hash) = block_number_by_hash d hash"

fun block_hash_by_id :: "('cls, 'info) db \<Rightarrow> block_hash_or_number \<Rightarrow> block_hash option provider_result" where
  "block_hash_by_id d (Hash hash) = Inr (Some hash)"
| "block_hash_by_id d (Num number) = block_hash_by_num d number"

text \<open>The match on the block id that most getters begin with.\<close>

fun resolve_id :: "('cls, 'info) db \<Rightarrow> block_hash_or_number \<Rightarrow> block_number option" where
  "resolve_id d (Num num) = Some num"
| "resolve_id d (Hash hash) = tbl_get (tb_BlockNumbers d) hash"

definition header_by_id :: "('cls, 'info) db \<Rightarrow> block_hash_or_number \<Rightarrow> header option provider_result" where
  "header_by_id d bid =
     (case resolve_id d bid of
        Some num \<Rightarrow>
          rbind (ok_or (MissingBlockHeader num) (tbl_get (tb_Headers d) num))
            (\<lambda>header. Inr (Some (header_of_versioned header)))
      | None \<Rightarrow> Inr None)"

definition block_body_indices ::
    "('cls, 'info) db \<Rightarrow> block_hash_or_number \<Rightarrow> stored_block_body_indices option provider_result" where
  "block_body_indices d bid =
     (case resolve_id d bid of
        Some num \<Rightarrow> Inr (tbl_get (tb_BlockBodyIndices d) num)
      | None \<Rightarrow> Inr None)"

text \<open>The loop over a range of transaction numbers: rows that are absent are skipped, a
  transaction without a hash is an error.\<close>

fun transaction_in_range :: "('cls, 'info) db \<Rightarrow> tx_number list \<Rightarrow> tx_with_hash list provider_result" where
  "transaction_in_range d [] = Inr []"
| "transaction_in_range d (i # rng) =
     (case tbl_get (tb_Transactions d) i of
        Some transaction \<Rightarrow>
          rbind (ok_or (MissingTxHash i) (tbl_get (tb_TxHashes d) i)) (\<lambda>hash.
            rbind (transaction_in_range d rng) (\<lambda>rest.
              Inr (\<lparr>twh_hash = hash, twh_transaction = tx_of_versioned transaction\<rparr> # rest)))
      | None \<Rightarrow> transaction_in_range d rng)"

definition transaction_hashes_in_range :: "('cls, 'info) db \<Rightarrow> tx_number list \<Rightarrow> tx_hash list provider_result" where
  "transaction_hashes_in_range d rng = Inr (List.map_filter (tbl_get (tb_TxHashes d)) rng)"

definition transactions_by_block ::
    "('cls, 'info) db \<Rightarrow> block_hash_or_number \<Rightarrow> tx_with_hash list option provider_result" where
  "transactions_by_block d bid =
     rbind (block_body_indices d bid) (\<lambda>indices.
       case indices of
         Some i \<Rightarrow> rbind (transaction_in_range d (indices_range i)) (\<lambda>txs. Inr (Some txs))
       | None \<Rightarrow> Inr None)"

definition block_by_id :: "('cls, 'info) db \<Rightarrow> block_hash_or_number \<Rightarrow> block option provider_result" where
  "block_by_id d bid =
     rbind (header_by_id d bid) (\<lambda>header.
       case header of
         Some h \<Rightarrow>
           rbind (transactions_by_block d bid) (\<lambda>res.
             rbind (ok_or (MissingBlockTxs (hd_number h)) res) (\<lambda>body.
               Inr (Some \<lparr>blk_header = h, blk_body = body\<rparr>)))
       | None \<Rightarrow> Inr None)"

definition block_with_tx_hashes_by_id ::
    "('cls, 'info) db \<Rightarrow> block_hash_or_number \<Rightarrow> block_with_tx_hashes option provider_result" where
  "block_with_tx_hashes_by_id d bid =
     (case resolve_id d bid of
        None \<Rightarrow> Inr None
      | Some block_num \<Rightarrow>
          (case tbl_get (tb_Headers d) block_num of
             Some header \<Rightarrow>
               rbind (ok_or (MissingBlockTxs block_num) (tbl_get (tb_BlockBodyIndices d) block_num))
                 (\<lambda>body_indices.
                    rbind (transaction_hashes_in_range d (indices_range body_indices)) (\<lambda>body.
                      Inr (Some \<lparr>bth_header = header_of_versioned header, bth_body = body\<rparr>)))
           | None \<Rightarrow> Inr None))"

fun blocks_in_list :: "('cls, 'info) db \<Rightarrow> block_number list \<Rightarrow> block list provider_result" where
  "blocks_in_list d [] = Inr []"
| "blocks_in_list d (num # nums) =
     (case tbl_get (tb_Headers d) num of
        Some header \<Rightarrow>
          rbind (ok_or (MissingBlockBodyIndices num) (tbl_get (tb_BlockBodyIndices d) num)) (\<lambda>i.
            rbind (transaction_in_range d (indices_range i)) (\<lambda>body.
              rbind (blocks_in_list d nums) (\<lambda>rest.
                Inr (\<lparr>blk_header = header_of_versioned header, blk_body = body\<rparr> # rest))))
      | None \<Rightarrow> blocks_in_list d nums)"

text \<open>The capacity of the result is the unsigned difference of the bounds, which overflows on a
  reversed range.\<close>

definition blocks_in_range :: "('cls, 'info) db \<Rightarrow> block_number \<Rightarrow> block_number \<Rightarrow> block list provider_result" where
  "blocks_in_range d start stop =
     (if Suc stop < start then Inl Panic else blocks_in_list d [start..<Suc stop])"

definition block_status :: "('cls, 'info) db \<Rightarrow> block_hash_or_number \<Rightarrow> finality_status option provider_result" where
  "block_status d bid =
     (case resolve_id d bid of
        Some block_num \<Rightarrow>
          rbind (ok_or (MissingBlockStatus block_num) (tbl_get (tb_BlockStatusses d) block_num))
            (\<lambda>status. Inr (Some status))
      | None \<Rightarrow> Inr None)"

definition block_env_at :: "('cls, 'info) db \<Rightarrow> block_hash_or_number \<Rightarrow> block_env option provider_result" where
  "block_env_at d bid =
     rbind (header_by_id d bid) (\<lambda>header.
       case header of
         None \<Rightarrow> Inr None
       | Some h \<Rightarrow> Inr (Some
           \<lparr>be_number = hd_number h, be_timestamp = hd_timestamp h,
            be_l2_gas_prices = hd_l2_gas_prices h, be_l1_gas_prices = hd_l1_gas_prices h,
            be_l1_data_gas_prices = hd_l1_data_gas_prices h,
            be_sequencer_address = hd_sequencer_address h\<rparr>))"

section \<open>Transaction getters\<close>

definition transaction_by_hash :: "('cls, 'info) db \<Rightarrow> tx_hash \<Rightarrow> tx_with_hash option provider_result" where
  "transaction_by_hash d hash =
     (case tbl_get (tb_TxNumbers d) hash of
        Some num \<Rightarrow>
          rbind (ok_or (MissingTx num) (tbl_get (tb_Transactions d) num)) (\<lambda>transaction.
            Inr (Some \<lparr>twh_hash = hash, twh_transaction = tx_of_versioned transaction\<rparr>))
      | None \<Rightarrow> Inr None)"

text \<open>The error of a missing block hash carries the transaction number, as in the code.\<close>

definition transaction_block_num_and_hash ::
    "('cls, 'info) db \<Rightarrow> tx_hash \<Rightarrow> (block_number \<times> block_hash) option provider_result" where
  "transaction_block_num_and_hash d hash =
     (case tbl_get (tb_TxNumbers d) hash of
        Some num \<Rightarrow>
          rbind (ok_or (MissingTxBlock num) (tbl_get (tb_TxBlocks d) num)) (\<lambda>block_num.
            rbind (ok_or (MissingBlockHash num) (tbl_get (tb_BlockHashes d) block_num)) (\<lambda>block_hash.
              Inr (Some (block_num, block_hash))))
      | None \<Rightarrow> Inr None)"

definition transaction_by_block_and_idx ::
    "('cls, 'info) db \<Rightarrow> block_hash_or_number \<Rightarrow> nat \<Rightarrow> tx_with_hash option provider_result" where
  "transaction_by_block_and_idx d bid idx =
     rbind (block_body_indices d bid) (\<lambda>indices.
       case indices of
         Some i \<Rightarrow>
           if idx < tx_count i then
             let num = tx_offset i + idx in
             rbind (ok_or (MissingTxHash num) (tbl_get (tb_TxHashes d) num)) (\<lambda>hash.
               rbind (ok_or (MissingTx num) (tbl_get (tb_Transactions d) num)) (\<lambda>transaction.
                 Inr (Some \<lparr>twh_hash = hash, twh_transaction = tx_of_versioned transaction\<rparr>)))
           else Inr None
       | None \<Rightarrow> Inr None)"

definition transaction_count_by_block ::
    "('cls, 'info) db \<Rightarrow> block_hash_or_number \<Rightarrow> nat option provider_result" where
  "transaction_count_by_block d bid =
     rbind (block_body_indices d bid) (\<lambda>indices. Inr (map_option tx_count indices))"

definition transaction_status :: "('cls, 'info) db \<Rightarrow> tx_hash \<Rightarrow> finality_status option provider_result" where
  "transaction_status d hash =
     (case tbl_get (tb_TxNumbers d) hash of
        Some tx_num \<Rightarrow>
          rbind (ok_or (MissingTxBlock tx_num) (tbl_get (tb_TxBlocks d) tx_num)) (\<lambda>block_num.
            rbind (ok_or (MissingBlockStatus block_num) (tbl_get (tb_BlockStatusses d) block_num))
              (\<lambda>status. Inr (Some status)))
      | None \<Rightarrow> Inr None)"

definition transaction_execution ::
    "('cls, 'info) db \<Rightarrow> tx_hash \<Rightarrow> 'info typed_execution_info option provider_result" where
  "transaction_execution d hash =
     (case tbl_get (tb_TxNumbers d) hash of
        Some num \<Rightarrow>
          rbind (ok_or (MissingTxExecution num) (tbl_get (tb_TxTraces d) num))
            (\<lambda>execution. Inr (Some execution))
      | None \<Rightarrow> Inr None)"

definition transaction_executions_in_range ::
    "('cls, 'info) db \<Rightarrow> tx_number list \<Rightarrow> 'info typed_execution_info list provider_result" where
  "transaction_executions_in_range d rng = Inr (List.map_filter (tbl_get (tb_TxTraces d)) rng)"

definition transaction_executions_by_block ::
    "('cls, 'info) db \<Rightarrow> block_hash_or_number \<Rightarrow> 'info typed_execution_info list option provider_result" where
  "transaction_executions_by_block d bid =
     rbind (block_body_indices d bid) (\<lambda>indices.
       case indices of
         Some i \<Rightarrow> rbind (transaction_executions_in_range d (indices_range i)) (\<lambda>traces. Inr (Some traces))
       | None \<Rightarrow> Inr None)"

definition receipt_by_hash :: "('cls, 'info) db \<Rightarrow> tx_hash \<Rightarrow> receipt option provider_result" where
  "receipt_by_hash d hash =
     (case tbl_get (tb_TxNumbers d) hash of
        Some num \<Rightarrow>
          rbind (ok_or (MissingTxReceipt num) (tbl_get (tb_Receipts d) num))
            (\<lambda>receipt. Inr (Some receipt))
      | None \<Rightarrow> Inr None)"

definition receipts_by_block ::
    "('cls, 'info) db \<Rightarrow> block_hash_or_number \<Rightarrow> receipt list option provider_result" where
  "receipts_by_block d bid =
     rbind (block_body_indices d bid) (\<lambda>indices.
       case indices of
         Some i \<Rightarrow> Inr (Some (List.map_filter (tbl_get (tb_Receipts d))
           [tx_offset i..<tx_offset i + tx_count i]))
       | None \<Rightarrow> Inr None)"

section \<open>State updates of a block\<close>

text \<open>
  \<open>dup_entries\<close> walks the values of one key and collects what \<open>f\<close> keeps of them; a missing
  key gives the default collection.
\<close>

definition dup_entries :: "('k, 'v) table \<Rightarrow> 'k \<Rightarrow> ('v \<Rightarrow> 'a option) \<Rightarrow> 'a list" where
  "dup_entries t key f =
     (case walk_dup key t of Some vs \<Rightarrow> List.map_filter f vs | None \<Rightarrow> [])"

text \<open>Collecting pairs into a \<^verbatim>\<open>BTreeMap\<close>: a later pair replaces an earlier one.\<close>

definition collect_map :: "('k :: linorder \<times> 'v) list \<Rightarrow> ('k, 'v) table" where
  "collect_map es = fold (\<lambda>(k, v). tbl_put k v) es []"

definition collect_storage ::
    "contract_storage_entry list \<Rightarrow> (contract_address, (storage_key, storage_value) table) table" where
  "collect_storage es =
     fold (\<lambda>((addr, key), value) m.
       tbl_put addr (tbl_put key value (case tbl_get m addr of Some inner \<Rightarrow> inner | None \<Rightarrow> [])) m)
       es []"

text \<open>The declarations of a block, split by whether a compiled class hash is recorded.\<close>

definition declared_in_block :: "('cls, 'info) db \<Rightarrow> block_number \<Rightarrow> (class_hash, compiled_class_hash) table" where
  "declared_in_block d block_num =
     collect_map (dup_entries (tb_ClassDeclarations d) block_num
       (\<lambda>class_hash. map_option (Pair class_hash) (tbl_get (tb_CompiledClassHashes d) class_hash)))"

definition deprecated_in_block :: "('cls, 'info) db \<Rightarrow> block_number \<Rightarrow> class_hash list" where
  "deprecated_in_block d block_num =
     map fst (collect_map (dup_entries (tb_ClassDeclarations d) block_num
       (\<lambda>class_hash. if tbl_get (tb_CompiledClassHashes d) class_hash = None
                     then Some (class_hash, ()) else None)))"

definition state_update :: "('cls, 'info) db \<Rightarrow> block_hash_or_number \<Rightarrow> state_updates option provider_result" where
  "state_update d bid =
     rbind (block_number_by_id d bid) (\<lambda>num.
       case num of
         Some block_num \<Rightarrow> Inr (Some
           \<lparr>nonce_updates = collect_map (dup_entries (tb_NonceChangeHistory d) block_num Some),
            storage_updates = collect_storage (dup_entries (tb_StorageChangeHistory d) block_num Some),
            deployed_contracts = collect_map (dup_entries (tb_ClassChangeHistory d) block_num Some),
            declared_classes = declared_in_block d block_num,
            deprecated_declared_classes = deprecated_in_block d block_num,
            replaced_classes = []\<rparr>)
       | None \<Rightarrow> Inr None)"

definition declared_classes_of ::
    "('cls, 'info) db \<Rightarrow> block_hash_or_number \<Rightarrow> (class_hash, compiled_class_hash) table option provider_result" where
  "declared_classes_of d bid =
     rbind (block_number_by_id d bid) (\<lambda>num. Inr (map_option (declared_in_block d) num))"

definition deployed_contracts_of ::
    "('cls, 'info) db \<Rightarrow> block_hash_or_number \<Rightarrow> (contract_address, class_hash) table option provider_result" where
  "deployed_contracts_of d bid =
     rbind (block_number_by_id d bid) (\<lambda>num. Inr (map_option
       (\<lambda>block_num. collect_map (dup_entries (tb_ClassChangeHistory d) block_num Some)) num))"

section \<open>Writing a block\<close>

text \<open>\<^verbatim>\<open>list.insert(block_number)\<close> on an existing block list, or a fresh one.\<close>

definition update_block_list :: "block_number \<Rightarrow> integer_set option \<Rightarrow> integer_set" where
  "update_block_list block_number list =
     (case list of Some l \<Rightarrow> iset_insert block_number l | None \<Rightarrow> iset_from [block_number])"

text \<open>Seek, delete the current entry if it is the one sought, and write the new one.\<close>

definition storage_upsert ::
    "contract_address \<Rightarrow> storage_key \<Rightarrow> storage_value \<Rightarrow> (contract_address, storage_entry) table
     \<Rightarrow> (contract_address, storage_entry) table" where
  "storage_upsert addr key value t =
     (let t' = (case seek_by_key_subkey addr key t of
                  Some current \<Rightarrow> if fst current = key then fst (dup_delete addr current t) else t
                | None \<Rightarrow> t)
      in dup_put addr (key, value) t')"

definition info_with_class :: "class_hash \<Rightarrow> generic_contract_info option \<Rightarrow> generic_contract_info" where
  "info_with_class class_hash info =
     (case info of Some i \<Rightarrow> i\<lparr>ci_class_hash := class_hash\<rparr>
      | None \<Rightarrow> contract_info_default\<lparr>ci_class_hash := class_hash\<rparr>)"

definition info_with_nonce :: "nonce \<Rightarrow> generic_contract_info option \<Rightarrow> generic_contract_info" where
  "info_with_nonce nonce info =
     (case info of Some i \<Rightarrow> i\<lparr>ci_nonce := nonce\<rparr>
      | None \<Rightarrow> contract_info_default\<lparr>ci_nonce := nonce\<rparr>)"

definition class_change_set :: "block_number \<Rightarrow> contract_info_change_list option \<Rightarrow> contract_info_change_list" where
  "class_change_set block_number cs =
     (case cs of
        Some c \<Rightarrow> c\<lparr>class_change_list := iset_insert block_number (class_change_list c)\<rparr>
      | None \<Rightarrow> \<lparr>class_change_list = iset_from [block_number], nonce_change_list = iset_new\<rparr>)"

definition nonce_change_set :: "block_number \<Rightarrow> contract_info_change_list option \<Rightarrow> contract_info_change_list" where
  "nonce_change_set block_number cs =
     (case cs of
        Some c \<Rightarrow> c\<lparr>nonce_change_list := iset_insert block_number (nonce_change_list c)\<rparr>
      | None \<Rightarrow> \<lparr>class_change_list = iset_new, nonce_change_list = iset_from [block_number]\<rparr>)"

definition put_transaction ::
    "block_number \<Rightarrow> tx_number \<times> tx_with_hash \<Rightarrow> ('cls, 'info) db \<Rightarrow> ('cls, 'info) db" where
  "put_transaction block_number e d =
     (let tx_number = fst e; transaction = snd e; tx_hash = twh_hash transaction in
      d\<lparr>tb_TxHashes := tbl_put tx_number tx_hash (tb_TxHashes d),
        tb_TxNumbers := tbl_put tx_hash tx_number (tb_TxNumbers d),
        tb_TxBlocks := tbl_put tx_number block_number (tb_TxBlocks d),
        tb_Transactions := tbl_put tx_number (versioned_tx_from (twh_transaction transaction))
          (tb_Transactions d)\<rparr>)"

definition put_receipt :: "tx_number \<times> receipt \<Rightarrow> ('cls, 'info) db \<Rightarrow> ('cls, 'info) db" where
  "put_receipt e d = d\<lparr>tb_Receipts := tbl_put (fst e) (snd e) (tb_Receipts d)\<rparr>"

definition put_execution ::
    "tx_number \<times> 'info typed_execution_info \<Rightarrow> ('cls, 'info) db \<Rightarrow> ('cls, 'info) db" where
  "put_execution e d = d\<lparr>tb_TxTraces := tbl_put (fst e) (snd e) (tb_TxTraces d)\<rparr>"

definition put_declared_class ::
    "block_number \<Rightarrow> class_hash \<times> compiled_class_hash \<Rightarrow> ('cls, 'info) db \<Rightarrow> ('cls, 'info) db" where
  "put_declared_class block_number e d =
     d\<lparr>tb_CompiledClassHashes := tbl_put (fst e) (snd e) (tb_CompiledClassHashes d),
       tb_ClassDeclarationBlock := tbl_put (fst e) block_number (tb_ClassDeclarationBlock d),
       tb_ClassDeclarations := dup_put block_number (fst e) (tb_ClassDeclarations d)\<rparr>"

definition put_deprecated_class ::
    "block_number \<Rightarrow> class_hash \<Rightarrow> ('cls, 'info) db \<Rightarrow> ('cls, 'info) db" where
  "put_deprecated_class block_number class_hash d =
     d\<lparr>tb_ClassDeclarationBlock := tbl_put class_hash block_number (tb_ClassDeclarationBlock d),
       tb_ClassDeclarations := dup_put block_number class_hash (tb_ClassDeclarations d)\<rparr>"

definition put_class :: "class_hash \<times> 'cls \<Rightarrow> ('cls, 'info) db \<Rightarrow> ('cls, 'info) db" where
  "put_class e d = d\<lparr>tb_Classes := tbl_put (fst e) (snd e) (tb_Classes d)\<rparr>"

definition put_storage_entry ::
    "block_number \<Rightarrow> contract_address \<Rightarrow> storage_entry \<Rightarrow> ('cls, 'info) db \<Rightarrow> ('cls, 'info) db" where
  "put_storage_entry block_number addr entry d =
     (let changeset_key = (addr, fst entry);
          updated_list = update_block_list block_number (tbl_get (tb_StorageChangeSet d) changeset_key)
      in d\<lparr>tb_StorageChangeSet := tbl_put changeset_key updated_list (tb_StorageChangeSet d),
           tb_ContractStorage := storage_upsert addr (fst entry) (snd entry) (tb_ContractStorage d),
           tb_StorageChangeHistory := dup_put block_number ((addr, fst entry), snd entry)
             (tb_StorageChangeHistory d)\<rparr>)"

definition put_deployed_contract ::
    "block_number \<Rightarrow> contract_address \<times> class_hash \<Rightarrow> ('cls, 'info) db \<Rightarrow> ('cls, 'info) db" where
  "put_deployed_contract block_number e d =
     (let addr = fst e; class_hash = snd e;
          value = info_with_class class_hash (tbl_get (tb_ContractInfo d) addr);
          new_change_set = class_change_set block_number (tbl_get (tb_ContractInfoChangeSet d) addr)
      in d\<lparr>tb_ContractInfo := tbl_put addr value (tb_ContractInfo d),
           tb_ClassChangeHistory := dup_put block_number (addr, class_hash) (tb_ClassChangeHistory d),
           tb_ContractInfoChangeSet := tbl_put addr new_change_set (tb_ContractInfoChangeSet d)\<rparr>)"

definition put_nonce_update ::
    "block_number \<Rightarrow> contract_address \<times> nonce \<Rightarrow> ('cls, 'info) db \<Rightarrow> ('cls, 'info) db" where
  "put_nonce_update block_number e d =
     (let addr = fst e; nonce = snd e;
          value = info_with_nonce nonce (tbl_get (tb_ContractInfo d) addr);
          new_change_set = nonce_change_set block_number (tbl_get (tb_ContractInfoChangeSet d) addr)
      in d\<lparr>tb_ContractInfo := tbl_put addr value (tb_ContractInfo d),
           tb_NonceChangeHistory := dup_put block_number (addr, nonce) (tb_NonceChangeHistory d),
           tb_ContractInfoChangeSet := tbl_put addr new_change_set (tb_ContractInfoChangeSet d)\<rparr>)"

definition put_block_header ::
    "sealed_block_with_status \<Rightarrow> nat \<Rightarrow> ('cls, 'info) db \<Rightarrow> ('cls, 'info) db" where
  "put_block_header b offset d =
     (let block_hash = sb_hash (sbs_block b);
          block_header = sb_header (sbs_block b);
          block_number = hd_number block_header;
          indices = \<lparr>tx_offset = offset, tx_count = length (sb_body (sbs_block b))\<rparr>
      in d\<lparr>tb_BlockHashes := tbl_put block_number block_hash (tb_BlockHashes d),
           tb_BlockNumbers := tbl_put block_hash block_number (tb_BlockNumbers d),
           tb_BlockStatusses := tbl_put block_number (sbs_status b) (tb_BlockStatusses d),
           tb_Headers := tbl_put block_number (versioned_header_from block_header) (tb_Headers d),
           tb_BlockBodyIndices := tbl_put block_number indices (tb_BlockBodyIndices d)\<rparr>)"

definition insert_block_with_states_and_receipts ::
    "sealed_block_with_status \<Rightarrow> 'cls state_updates_with_classes \<Rightarrow> receipt list
     \<Rightarrow> 'info typed_execution_info list \<Rightarrow> ('cls, 'info) db \<Rightarrow> ('cls, 'info) db" where
  "insert_block_with_states_and_receipts b states receipts executions d0 =
     (let block_number = hd_number (sb_header (sbs_block b));
          su = su_state_updates states;
          offset = tbl_entries (tb_Transactions d0);
          d1 = put_block_header b offset d0;
          d2 = fold (put_transaction block_number) (List.enumerate offset (sb_body (sbs_block b))) d1;
          d3 = fold put_receipt (List.enumerate offset receipts) d2;
          d4 = fold put_execution (List.enumerate offset executions) d3;
          d5 = fold (put_declared_class block_number) (declared_classes su) d4;
          d6 = fold (put_deprecated_class block_number) (deprecated_declared_classes su) d5;
          d7 = fold put_class (su_classes states) d6;
          d8 = fold (\<lambda>(addr, entries) d. fold (put_storage_entry block_number addr) entries d)
                 (storage_updates su) d7;
          d9 = fold (put_deployed_contract block_number) (deployed_contracts su) d8
      in fold (put_nonce_update block_number) (nonce_updates su) d9)"

section \<open>Stage checkpoints\<close>

definition checkpoint :: "('cls, 'info) db \<Rightarrow> string \<Rightarrow> block_number option provider_result" where
  "checkpoint d stage = Inr (map_option sc_block (tbl_get (tb_StageCheckpoints d) stage))"

definition set_checkpoint :: "string \<Rightarrow> block_number \<Rightarrow> ('cls, 'info) db \<Rightarrow> ('cls, 'info) db" where
  "set_checkpoint stage block_number d =
     d\<lparr>tb_StageCheckpoints := tbl_put stage \<lparr>sc_block = block_number\<rparr> (tb_StageCheckpoints d)\<rparr>"

end
