(* ===== verification/Exec_Errors.thy ===== *)
theory Exec_Errors
  imports Tx_Pool Db_Provider
begin

text \<open>
  The errors of the execution library as \<^verbatim>\<open>crates/executor\<close> and the pool validator see them, and
  the two translations of them: into \<^verbatim>\<open>ExecutionError\<close>
  (\<^verbatim>\<open>implementation/blockifier/error.rs\<close>) and into the pool's \<^verbatim>\<open>InvalidTransactionError\<close>
  (\<^verbatim>\<open>validation/stateful.rs\<close>).  The error types of the library have one constructor for each
  variant the code matches on, and one for the variants it treats alike; a variant whose
  text is printed carries that text.
\<close>

section \<open>Errors of the execution library\<close>

datatype state_error = UndeclaredClassHash class_hash | StateErrorOther string

datatype 'r transaction_fee_error =
  ExecuteFeeTransferError string
| FeeMaxFeeTooLow nat nat
| FeeStateError state_error
| GasBoundsExceedBalance 'r nat nat nat
| ResourcesBoundsExceedBalance string
| MaxFeeExceedsBalance nat nat
| FeeInsufficientResourceBounds "string list"
| FeeOther string

datatype 'r transaction_pre_validation_error =
  PreValidationFee "'r transaction_fee_error"
| PreValidationState state_error
| PreValidationInvalidNonce contract_address nonce nonce

datatype pre_execution_error =
  PreExecutionEntryPointNotFound felt
| UninitializedStorageAddress contract_address
| PreExecutionState state_error
| PreExecutionOther string

datatype entry_point_execution_error =
  EntryPointExecutionFailed string
| InvalidExecutionInput string string
| EntryPointRecursionDepthExceeded
| EntryPointState state_error
| EntryPointPreExecution pre_execution_error
| EntryPointOther string

text \<open>\<open>ValidateTransactionError\<close> carries the contract, its class, the inner and the whole text.\<close>

datatype 'r transaction_execution_error =
  DeclareTransactionError class_hash
| ValidateTransactionError contract_address class_hash string string
| ExecutionStateError state_error
| ExecutionPreValidation "'r transaction_pre_validation_error"
| ExecutionFee "'r transaction_fee_error"
| ExecutionEntryPoint entry_point_execution_error
| ContractConstructorExecutionFailed string
| PanicInValidate string
| ExecutionOther string

datatype 'r transaction_executor_error =
  BlockFull
| ExecutorStateError state_error
| CompressionError string
| ExecutorExecution "'r transaction_execution_error"

datatype 'r stateful_validator_error =
  ValidatorStateError state_error
| ValidatorExecutor "'r transaction_executor_error"
| ValidatorExecution "'r transaction_execution_error"
| ValidatorPreValidation "'r transaction_pre_validation_error"

section \<open>Errors of the executor\<close>

datatype execution_error =
  ConstructorExecutionFailed string
| ExecClassAlreadyDeclared class_hash
| EntryPointNotFound felt
| InvalidInput string string
| RecursionDepthExceeded
| ContractNotDeployed contract_address
| ExecInvalidNonce contract_address nonce nonce
| InsufficientBalance nat felt felt
| ActualFeeExceedsMaxFee nat nat
| MaxFeeTooLow nat nat
| UndeclaredClass class_hash
| FeeTransferError string
| ExecutionFailed string
| TransactionValidationFailed string
| TransactionReverted string
| ExecError string

datatype 'b executor_error = LimitsExhausted | ExecutorOther 'b

fun execution_error_of_state :: "state_error \<Rightarrow> execution_error" where
  "execution_error_of_state (UndeclaredClassHash h) = UndeclaredClass h"
| "execution_error_of_state (StateErrorOther s) = ExecError s"

text \<open>The texts of the variants that are only printed.\<close>

record 'r error_text =
  text_of_fee :: "'r transaction_fee_error \<Rightarrow> string"

fun execution_error_of_fee :: "'r error_text \<Rightarrow> 'r transaction_fee_error \<Rightarrow> execution_error" where
  "execution_error_of_fee d (ExecuteFeeTransferError s) = FeeTransferError s"
| "execution_error_of_fee d (FeeMaxFeeTooLow mn mx) = MaxFeeTooLow mn mx"
| "execution_error_of_fee d (FeeStateError e) = execution_error_of_state e"
| "execution_error_of_fee d e = ExecError (text_of_fee d e)"

fun execution_error_of_pre_validation ::
    "'r error_text \<Rightarrow> 'r transaction_pre_validation_error \<Rightarrow> execution_error" where
  "execution_error_of_pre_validation d (PreValidationInvalidNonce a n m) = ExecInvalidNonce a n m"
| "execution_error_of_pre_validation d (PreValidationFee e) = execution_error_of_fee d e"
| "execution_error_of_pre_validation d (PreValidationState e) = execution_error_of_state e"

fun execution_error_of_pre_execution :: "pre_execution_error \<Rightarrow> execution_error" where
  "execution_error_of_pre_execution (PreExecutionEntryPointNotFound s) = EntryPointNotFound s"
| "execution_error_of_pre_execution (UninitializedStorageAddress a) = ContractNotDeployed a"
| "execution_error_of_pre_execution (PreExecutionState e) = execution_error_of_state e"
| "execution_error_of_pre_execution (PreExecutionOther s) = ExecError s"

fun execution_error_of_entry_point :: "entry_point_execution_error \<Rightarrow> execution_error" where
  "execution_error_of_entry_point (EntryPointExecutionFailed s) = ExecutionFailed s"
| "execution_error_of_entry_point (InvalidExecutionInput s i) = InvalidInput s i"
| "execution_error_of_entry_point EntryPointRecursionDepthExceeded = RecursionDepthExceeded"
| "execution_error_of_entry_point (EntryPointState e) = execution_error_of_state e"
| "execution_error_of_entry_point (EntryPointPreExecution e) = execution_error_of_pre_execution e"
| "execution_error_of_entry_point (EntryPointOther s) = ExecError s"

fun execution_error_from :: "'r error_text \<Rightarrow> 'r transaction_execution_error \<Rightarrow> execution_error" where
  "execution_error_from d (DeclareTransactionError h) = ExecClassAlreadyDeclared h"
| "execution_error_from d (ValidateTransactionError a h inner whole) = TransactionValidationFailed inner"
| "execution_error_from d (ExecutionStateError e) = execution_error_of_state e"
| "execution_error_from d (ExecutionPreValidation e) = execution_error_of_pre_validation d e"
| "execution_error_from d (ExecutionFee e) = execution_error_of_fee d e"
| "execution_error_from d (ExecutionEntryPoint e) = execution_error_of_entry_point e"
| "execution_error_from d (ContractConstructorExecutionFailed s) = ConstructorExecutionFailed s"
| "execution_error_from d (PanicInValidate s) = ExecError s"
| "execution_error_from d (ExecutionOther s) = ExecError s"

fun executor_error_from :: "'r transaction_executor_error \<Rightarrow> 'r transaction_executor_error executor_error" where
  "executor_error_from BlockFull = LimitsExhausted"
| "executor_error_from e = ExecutorOther e"

section \<open>Errors of the pool validator\<close>

text \<open>
  \<open>Inl\<close> is an internal failure, boxed with its origin; \<open>Inr\<close> tells that the transaction is
  invalid.  The balance of the fee errors becomes a field element.
\<close>

datatype 'r boxed_error =
  BoxedState state_error
| BoxedFee "'r transaction_fee_error"
| BoxedExecution "'r transaction_execution_error"
| BoxedExecutor "'r transaction_executor_error"
| BoxedProvider provider_error

definition felt_of_biguint :: "nat \<Rightarrow> felt" where
  "felt_of_biguint n = n mod stark_prime"

text \<open>\<^verbatim>\<open>Vec<String>::join\<close>.\<close>

fun join_with :: "string \<Rightarrow> string list \<Rightarrow> string" where
  "join_with sep [] = []"
| "join_with sep [s] = s"
| "join_with sep (s # ss) = s @ sep @ join_with sep ss"

fun map_fee_err :: "'r transaction_fee_error \<Rightarrow> 'r boxed_error + 'r invalid_transaction_error" where
  "map_fee_err (GasBoundsExceedBalance r amount price balance) =
     Inr (InsufficientFunds (L1GasBoundsExceedFunds r amount price (felt_of_biguint balance)))"
| "map_fee_err (ResourcesBoundsExceedBalance s) = Inr (InsufficientFunds (ResourceBoundsExceedFunds s))"
| "map_fee_err (MaxFeeExceedsBalance fee balance) =
     Inr (InsufficientFunds (MaxFeeExceedsFunds fee (felt_of_biguint balance)))"
| "map_fee_err (FeeMaxFeeTooLow mn mx) = Inr (InsufficientIntrinsicFee (InsufficientMaxFee mn mx))"
| "map_fee_err (FeeInsufficientResourceBounds es) =
     Inr (InsufficientIntrinsicFee (InsufficientResourceBounds (join_with [CHR 0x0A] es)))"
| "map_fee_err e = Inl (BoxedFee e)"

fun map_pre_validation_err ::
    "'r transaction_pre_validation_error \<Rightarrow> 'r boxed_error + 'r invalid_transaction_error" where
  "map_pre_validation_err (PreValidationFee e) = map_fee_err e"
| "map_pre_validation_err (PreValidationState e) = Inl (BoxedState e)"
| "map_pre_validation_err (PreValidationInvalidNonce a n m) = Inr (InvalidNonce a n m)"

fun map_executor_err ::
    "'r transaction_executor_error \<Rightarrow> 'r boxed_error + 'r invalid_transaction_error" where
  "map_executor_err (ExecutorExecution (ExecutionFee e)) = map_fee_err e"
| "map_executor_err (ExecutorExecution (ExecutionPreValidation e)) = map_pre_validation_err e"
| "map_executor_err (ExecutorExecution e) = Inl (BoxedExecution e)"
| "map_executor_err e = Inl (BoxedExecutor e)"

fun map_execution_err ::
    "'r transaction_execution_error \<Rightarrow> 'r boxed_error + 'r invalid_transaction_error" where
  "map_execution_err (ValidateTransactionError a h inner whole) = Inr (ValidationFailure a h whole)"
| "map_execution_err (PanicInValidate s) = Inr (ValidationFailure 0 0 s)"
| "map_execution_err e = Inl (BoxedExecution e)"

fun map_invalid_tx_err ::
    "'r stateful_validator_error \<Rightarrow> 'r boxed_error + 'r invalid_transaction_error" where
  "map_invalid_tx_err (ValidatorStateError e) = Inl (BoxedState e)"
| "map_invalid_tx_err (ValidatorExecutor e) = map_executor_err e"
| "map_invalid_tx_err (ValidatorExecution e) = map_execution_err e"
| "map_invalid_tx_err (ValidatorPreValidation e) = map_pre_validation_err e"

end
