(* ===== verification/Executor.thy ===== *)
theory Executor
  imports Exec_Errors Db_Provider
begin

text \<open>
  The executor of \<^verbatim>\<open>crates/executor\<close>: execution flags and results (\<^verbatim>\<open>abstraction\<close>), the fee
  switches and the preparation of a transaction, \<^verbatim>\<open>transact\<close> and the state update of a block
  (\<^verbatim>\<open>implementation/blockifier/utils.rs\<close>), the receipts (\<^verbatim>\<open>utils.rs\<close>) and the block executor
  (\<^verbatim>\<open>implementation/blockifier/mod.rs\<close>).

  The execution library itself is a parameter (\<open>vm\<close>): running a transaction on a state, the
  block limits (the bouncer), the compiler of a declared class, and the fee computation.
\<close>

unbundle bit_operations_syntax

section \<open>Flags\<close>

record execution_flags =
  ef_account_validation :: bool
  ef_fee :: bool
  ef_nonce_check :: bool

definition execution_flags_default :: execution_flags where
  "execution_flags_default = \<lparr>ef_account_validation = True, ef_fee = True, ef_nonce_check = True\<rparr>"

definition with_account_validation :: "bool \<Rightarrow> execution_flags \<Rightarrow> execution_flags" where
  "with_account_validation b f = f\<lparr>ef_account_validation := b\<rparr>"

definition with_fee :: "bool \<Rightarrow> execution_flags \<Rightarrow> execution_flags" where
  "with_fee b f = f\<lparr>ef_fee := b\<rparr>"

definition with_nonce_check :: "bool \<Rightarrow> execution_flags \<Rightarrow> execution_flags" where
  "with_nonce_check b f = f\<lparr>ef_nonce_check := b\<rparr>"

record vm_execution_flags =
  vm_only_query :: bool
  vm_charge_fee :: bool
  vm_validate :: bool
  vm_strict_nonce_check :: bool

definition vm_flags_from :: "execution_flags \<Rightarrow> vm_execution_flags" where
  "vm_flags_from f = \<lparr>vm_only_query = False, vm_charge_fee = ef_fee f,
     vm_validate = ef_account_validation f, vm_strict_nonce_check = ef_nonce_check f\<rparr>"

section \<open>Fee switches\<close>

text \<open>The products and the sums are computed in 128 bits and wrap.\<close>

definition bound_cost :: "resource_bounds \<Rightarrow> 128 word" where
  "bound_cost b = of_nat (max_amount b) * of_nat (max_price_per_unit b)"

fun is_zero_resource_bounds :: "resource_bounds_mapping \<Rightarrow> bool" where
  "is_zero_resource_bounds (AllBounds m) \<longleftrightarrow>
     bound_cost (l1_gas m) + bound_cost (l2_gas m) + bound_cost (l1_data_gas m) = 0"
| "is_zero_resource_bounds (L1Gas b) \<longleftrightarrow> bound_cost b = 0"

fun skip_fee_on_zero_gas :: "'cls executable_tx \<Rightarrow> bool" where
  "skip_fee_on_zero_gas (ExInvoke (InvokeV0 t)) = (iv0_max_fee t = 0)"
| "skip_fee_on_zero_gas (ExInvoke (InvokeV1 t)) = (iv1_max_fee t = 0)"
| "skip_fee_on_zero_gas (ExInvoke (InvokeV3 t)) = is_zero_resource_bounds (iv3_resource_bounds t)"
| "skip_fee_on_zero_gas (ExDeployAccount (DeployAccountV1 t)) = (da1_max_fee t = 0)"
| "skip_fee_on_zero_gas (ExDeployAccount (DeployAccountV3 t)) = is_zero_resource_bounds (da3_resource_bounds t)"
| "skip_fee_on_zero_gas (ExDeclare t) = (case dwc_transaction t of
      DeclareV0 d \<Rightarrow> dv0_max_fee d = 0
    | DeclareV1 d \<Rightarrow> dv1_max_fee d = 0
    | DeclareV2 d \<Rightarrow> dv2_max_fee d = 0
    | DeclareV3 d \<Rightarrow> is_zero_resource_bounds (dv3_resource_bounds d))"
| "skip_fee_on_zero_gas (ExL1Handler _) = True"

fun max_l2_amount :: "resource_bounds_mapping \<Rightarrow> resource_bounds_mapping" where
  "max_l2_amount (AllBounds m) = AllBounds (m\<lparr>l2_gas := (l2_gas m)\<lparr>max_amount := 2 ^ 64 - 1\<rparr>\<rparr>)"
| "max_l2_amount (L1Gas b) = L1Gas b"

fun set_max_initial_sierra_gas :: "'cls executable_tx \<Rightarrow> 'cls executable_tx" where
  "set_max_initial_sierra_gas (ExInvoke (InvokeV3 t)) =
     ExInvoke (InvokeV3 (t\<lparr>iv3_resource_bounds := max_l2_amount (iv3_resource_bounds t)\<rparr>))"
| "set_max_initial_sierra_gas (ExDeployAccount (DeployAccountV3 t)) =
     ExDeployAccount (DeployAccountV3 (t\<lparr>da3_resource_bounds := max_l2_amount (da3_resource_bounds t)\<rparr>))"
| "set_max_initial_sierra_gas (ExDeclare t) = (case dwc_transaction t of
      DeclareV3 d \<Rightarrow> ExDeclare (t\<lparr>dwc_transaction :=
        DeclareV3 (d\<lparr>dv3_resource_bounds := max_l2_amount (dv3_resource_bounds d)\<rparr>)\<rparr>)
    | _ \<Rightarrow> ExDeclare t)"
| "set_max_initial_sierra_gas t = t"

text \<open>
  The transaction handed to the execution library: the fields are carried over under the
  library's names, so it is represented by the transaction itself, with the hash, the
  flags and, for a declaration, the compiled class.  An L1 handler carries no flags and
  its version is 1.  An address outside the library's range and a class that does not
  compile make the conversion panic.
\<close>

datatype ('cls, 'cmp) executor_tx =
  VmAccount tx_hash "'cls executable_tx" "'cmp option" vm_execution_flags
| VmL1Handler tx_hash l1_handler_tx

definition prepared_flags :: "'cls executable_tx \<Rightarrow> execution_flags \<Rightarrow> execution_flags" where
  "prepared_flags t f = (if ef_fee f then with_fee (\<not> skip_fee_on_zero_gas t) f else f)"

definition prepared_tx :: "'cls executable_tx \<Rightarrow> execution_flags \<Rightarrow> 'cls executable_tx" where
  "prepared_tx t f = (if \<not> ef_fee (prepared_flags t f) then set_max_initial_sierra_gas t else t)"

definition to_executor_tx ::
    "(contract_address \<Rightarrow> bool) \<Rightarrow> ('cls \<Rightarrow> 'cmp option) \<Rightarrow> 'cls ptx \<Rightarrow> execution_flags \<Rightarrow>
     ('cls, 'cmp) executor_tx option" where
  "to_executor_tx valid_address compile t f =
     (let flags = prepared_flags (ewh_transaction t) f; vf = vm_flags_from flags in
      if \<not> valid_address (pool_tx_sender (ewh_transaction t)) then None
      else (case prepared_tx (ewh_transaction t) f of
         ExDeclare d \<Rightarrow> (case compile (dwc_class d) of
             None \<Rightarrow> None
           | Some c \<Rightarrow> Some (VmAccount (ewh_hash t) (ExDeclare d) (Some c) vf))
       | ExL1Handler h \<Rightarrow> Some (VmL1Handler (ewh_hash t) (h\<lparr>l1h_version := 1\<rparr>))
       | x \<Rightarrow> Some (VmAccount (ewh_hash t) x None vf)))"

section \<open>Receipts\<close>

text \<open>The parts of the execution information that the receipt is built from.\<close>

datatype call_info = CallInfo
  (ci_storage_address: contract_address)
  (ci_events: "(felt list \<times> felt list) list")
  (ci_messages: "(felt \<times> felt list) list")
  (ci_inner_calls: "call_info list")

record exec_info =
  xi_validate_call_info :: "call_info option"
  xi_execute_call_info :: "call_info option"
  xi_fee_transfer_call_info :: "call_info option"
  xi_revert_error :: "string option"
  xi_actual_fee :: nat
  xi_gas :: gas_used
  xi_da_gas :: da_resources
  xi_vm_resources :: vm_resources

fun get_events_recur :: "call_info \<Rightarrow> event list" where
  "get_events_recur (CallInfo a es ms inner) =
     map (\<lambda>(ks, ds). \<lparr>ev_from_address = a, ev_keys = ks, ev_data = ds\<rparr>) es @
     concat (map get_events_recur inner)"

fun get_l2_to_l1_messages_recur :: "call_info \<Rightarrow> message_to_l1 list" where
  "get_l2_to_l1_messages_recur (CallInfo a es ms inner) =
     map (\<lambda>(to_addr, payload). \<lparr>msg_from_address = a, msg_to_address = to_addr, msg_payload = payload\<rparr>) ms @
     concat (map get_l2_to_l1_messages_recur inner)"

definition of_call :: "(call_info \<Rightarrow> 'a list) \<Rightarrow> call_info option \<Rightarrow> 'a list" where
  "of_call f c = (case c of None \<Rightarrow> [] | Some i \<Rightarrow> f i)"

definition events_from_exec_info :: "exec_info \<Rightarrow> event list" where
  "events_from_exec_info i = of_call get_events_recur (xi_validate_call_info i) @
     of_call get_events_recur (xi_execute_call_info i) @
     of_call get_events_recur (xi_fee_transfer_call_info i)"

definition l2_to_l1_messages_from_exec_info :: "exec_info \<Rightarrow> message_to_l1 list" where
  "l2_to_l1_messages_from_exec_info i = of_call get_l2_to_l1_messages_recur (xi_validate_call_info i) @
     of_call get_l2_to_l1_messages_recur (xi_execute_call_info i) @
     of_call get_l2_to_l1_messages_recur (xi_fee_transfer_call_info i)"

definition get_receipt_resources :: "exec_info \<Rightarrow> execution_resources" where
  "get_receipt_resources i = \<lparr>er_gas = xi_gas i, er_computation_resources = xi_vm_resources i, er_da_resources = xi_da_gas i\<rparr>"

definition build_receipt :: "'cls executable_tx \<Rightarrow> fee_info \<Rightarrow> exec_info \<Rightarrow> receipt" where
  "build_receipt t fee i =
     (let evs = events_from_exec_info i; msgs = l2_to_l1_messages_from_exec_info i;
          res = get_receipt_resources i; rev = xi_revert_error i in
      (case t of
         ExInvoke _ \<Rightarrow> RInvoke \<lparr>ir_fee = fee, ir_events = evs, ir_messages_sent = msgs,
           ir_revert_error = rev, ir_execution_resources = res\<rparr>
       | ExDeclare _ \<Rightarrow> RDeclare \<lparr>declare_tx_receipt.dr_fee = fee, dr_events = evs, dr_messages_sent = msgs,
           dr_revert_error = rev, dr_execution_resources = res\<rparr>
       | ExL1Handler h \<Rightarrow> RL1Handler \<lparr>lr_fee = fee, lr_events = evs, lr_message_hash = l1h_message_hash h,
           lr_messages_sent = msgs, lr_revert_error = rev, lr_execution_resources = res\<rparr>
       | ExDeployAccount a \<Rightarrow> RDeployAccount \<lparr>ar_fee = fee, ar_events = evs, ar_messages_sent = msgs,
           ar_revert_error = rev, ar_execution_resources = res,
           ar_contract_address = deploy_account_contract_address a\<rparr>))"

datatype execution_result =
  Success receipt exec_info
| Failed execution_error

fun is_success :: "execution_result \<Rightarrow> bool" where
  "is_success (Success _ _) = True"
| "is_success (Failed _) = False"

definition is_failed :: "execution_result \<Rightarrow> bool" where
  "is_failed r \<longleftrightarrow> \<not> is_success r"

fun result_receipt :: "execution_result \<Rightarrow> receipt option" where
  "result_receipt (Success r _) = Some r"
| "result_receipt (Failed _) = None"

fun result_trace :: "execution_result \<Rightarrow> exec_info option" where
  "result_trace (Success _ i) = Some i"
| "result_trace (Failed _) = None"

section \<open>The block context\<close>

text \<open>The block information kept by the execution library; the L2 price is the L1 gas price.\<close>

record block_info =
  ctx_number :: block_number
  ctx_timestamp :: nat
  ctx_sequencer_address :: contract_address
  ctx_l1_gas_price :: gas_price
  ctx_l1_data_gas_price :: gas_price
  ctx_l2_gas_price :: gas_price

definition block_info_of_env :: "block_env \<Rightarrow> block_info" where
  "block_info_of_env e = \<lparr>ctx_number = be_number e, ctx_timestamp = be_timestamp e,
     ctx_sequencer_address = be_sequencer_address e, ctx_l1_gas_price = be_l1_gas_prices e,
     ctx_l1_data_gas_price = be_l1_data_gas_prices e, ctx_l2_gas_price = be_l1_gas_prices e\<rparr>"

definition fill_block_env_from_header :: "partial_header \<Rightarrow> block_info" where
  "fill_block_env_from_header h = \<lparr>ctx_number = ph_number h, ctx_timestamp = ph_timestamp h,
     ctx_sequencer_address = ph_sequencer_address h, ctx_l1_gas_price = ph_l1_gas_prices h,
     ctx_l1_data_gas_price = ph_l1_data_gas_prices h, ctx_l2_gas_price = ph_l1_gas_prices h\<rparr>"

definition executor_block_env :: "block_info \<Rightarrow> block_env" where
  "executor_block_env i = \<lparr>be_number = ctx_number i, be_timestamp = ctx_timestamp i,
     be_l2_gas_prices = ctx_l2_gas_price i, be_l1_gas_prices = ctx_l1_gas_price i,
     be_l1_data_gas_prices = ctx_l1_data_gas_price i, be_sequencer_address = ctx_sequencer_address i\<rparr>"

section \<open>Executing one transaction\<close>

datatype fee_type = FeeEth | FeeStrk

record ('cls, 'cmp, 'st, 'bn, 'r) vm =
  vm_valid_address :: "contract_address \<Rightarrow> bool"
  vm_compile :: "'cls \<Rightarrow> 'cmp option"
  vm_execute :: "'st \<Rightarrow> block_info \<Rightarrow> ('cls, 'cmp) executor_tx \<Rightarrow>
    'st \<times> ('r transaction_execution_error + exec_info)"
  vm_fee_type :: "('cls, 'cmp) executor_tx \<Rightarrow> fee_type"
  vm_fee_by_gas :: "block_info \<Rightarrow> gas_used \<Rightarrow> fee_type \<Rightarrow> nat \<Rightarrow> nat"
  vm_try_update :: "'bn \<Rightarrow> 'st \<Rightarrow> exec_info \<Rightarrow> 'bn \<times> ('r transaction_executor_error + unit)"
  vm_error_text :: "'r error_text"

fun executor_tx_tip :: "('cls, 'cmp) executor_tx \<Rightarrow> nat" where
  "executor_tx_tip (VmAccount h t c f) = (if tx_version (tx_of_executable t) = 3 then pool_tx_tip t else 0)"
| "executor_tx_tip (VmL1Handler h t) = 0"

definition fee_info_of :: "block_info \<Rightarrow> fee_type \<Rightarrow> nat \<Rightarrow> fee_info" where
  "fee_info_of i ft overall =
     (case ft of
        FeeEth \<Rightarrow> \<lparr>fi_l1_gas_price = gp_eth (ctx_l1_gas_price i), fi_l2_gas_price = gp_eth (ctx_l2_gas_price i),
          fi_l1_data_gas_price = gp_eth (ctx_l1_data_gas_price i), fi_overall_fee = overall, fi_unit = Wei\<rparr>
      | FeeStrk \<Rightarrow> \<lparr>fi_l1_gas_price = gp_strk (ctx_l1_gas_price i), fi_l2_gas_price = gp_strk (ctx_l2_gas_price i),
          fi_l1_data_gas_price = gp_strk (ctx_l1_data_gas_price i), fi_overall_fee = overall, fi_unit = Fri\<rparr>)"

definition transact_inner ::
    "('cls, 'cmp, 'st, 'bn, 'r) vm \<Rightarrow> 'st \<Rightarrow> block_info \<Rightarrow> ('cls, 'cmp) executor_tx \<Rightarrow>
     'st \<times> (execution_error + exec_info \<times> fee_info)" where
  "transact_inner vm st ctx x = (case vm_execute vm st ctx x of
      (st', Inl e) \<Rightarrow> (st', Inl (execution_error_from (vm_error_text vm) e))
    | (st', Inr i) \<Rightarrow>
        (let ft = vm_fee_type vm x;
             overall = (if xi_actual_fee i = 0 then vm_fee_by_gas vm ctx (xi_gas i) ft (executor_tx_tip x) else xi_actual_fee i)
         in (st', Inr (i, fee_info_of ctx ft overall))))"

text \<open>
  The changes of a failed transaction are committed like those of a successful one; when the
  block is full they are dropped with the transactional layer.  \<open>None\<close> is a panic.
\<close>

definition transact ::
    "('cls, 'cmp, 'st, 'bn, 'r) vm \<Rightarrow> 'st \<Rightarrow> block_info \<Rightarrow> execution_flags \<Rightarrow> 'cls ptx \<Rightarrow> 'bn option \<Rightarrow>
     ('st \<times> 'bn option \<times> ('r transaction_executor_error executor_error + execution_result)) option" where
  "transact vm st ctx flags t bn =
     (case to_executor_tx (vm_valid_address vm) (vm_compile vm) t flags of
        None \<Rightarrow> None
      | Some x \<Rightarrow> (case transact_inner vm st ctx x of
          (st', Inl e) \<Rightarrow> Some (st', bn, Inr (Failed e))
        | (st', Inr (i, fee)) \<Rightarrow>
            (let outcome = Inr (Success (build_receipt (ewh_transaction t) fee i) i) in
             (case bn of
                None \<Rightarrow> Some (st', None, outcome)
              | Some b \<Rightarrow> (case vm_try_update vm b st' i of
                  (b', Inl e) \<Rightarrow> Some (st, Some b', Inl (executor_error_from e))
                | (b', Inr _) \<Rightarrow> Some (st', Some b', outcome))))))"

section \<open>Executing a block\<close>

record execution_stats =
  l1_gas_used :: nat
  cairo_steps_used :: nat

definition execution_stats_default :: execution_stats where
  "execution_stats_default = \<lparr>l1_gas_used = 0, cairo_steps_used = 0\<rparr>"

record 'cls execution_output =
  eo_stats :: execution_stats
  eo_states :: "'cls state_updates_with_classes"
  eo_transactions :: "(tx_with_hash \<times> execution_result) list"

record ('cls, 'st, 'bn) vm_processor =
  vp_block_info :: block_info
  vp_state :: 'st
  vp_declared_classes :: "(class_hash, 'cls) table"
  vp_transactions :: "(tx_with_hash \<times> execution_result) list"
  vp_flags :: execution_flags
  vp_stats :: execution_stats
  vp_bouncer :: 'bn

definition vm_processor_new ::
    "'st \<Rightarrow> block_env \<Rightarrow> execution_flags \<Rightarrow> 'bn \<Rightarrow> ('cls, 'st, 'bn) vm_processor" where
  "vm_processor_new st e flags bn = \<lparr>vp_block_info = block_info_of_env e, vp_state = st,
     vp_declared_classes = [], vp_transactions = [], vp_flags = flags,
     vp_stats = execution_stats_default, vp_bouncer = bn\<rparr>"

definition class_decl_artifacts :: "'cls executable_tx \<Rightarrow> (class_hash \<times> 'cls) option" where
  "class_decl_artifacts t = (case t of
      ExDeclare d \<Rightarrow> Some (declare_class_hash (dwc_transaction d), dwc_class d)
    | _ \<Rightarrow> None)"

text \<open>The bookkeeping after one transaction.\<close>

definition record_result ::
    "'cls ptx \<Rightarrow> execution_result \<Rightarrow> ('cls, 'st, 'bn) vm_processor \<Rightarrow> ('cls, 'st, 'bn) vm_processor" where
  "record_result t r p =
     (let p = (case r of
         Success rc _ \<Rightarrow>
           (let used = resources_used rc;
                st = vp_stats p;
                st = st\<lparr>l1_gas_used := l1_gas_used st + gu_l1_gas (er_gas used),
                        cairo_steps_used := cairo_steps_used st + n_steps (er_computation_resources used)\<rparr>
            in p\<lparr>vp_stats := st,
                 vp_declared_classes := (case class_decl_artifacts (ewh_transaction t) of
                    None \<Rightarrow> vp_declared_classes p
                  | Some (h, c) \<Rightarrow> tbl_put h c (vp_declared_classes p))\<rparr>)
       | Failed _ \<Rightarrow> p)
      in p\<lparr>vp_transactions := vp_transactions p @ [(tx_with_hash_from t, r)]\<rparr>)"

fun execute_transactions_loop ::
    "('cls, 'cmp, 'st, 'bn, 'r) vm \<Rightarrow> nat \<Rightarrow> ('cls, 'st, 'bn) vm_processor \<Rightarrow> 'cls ptx list \<Rightarrow>
     (('cls, 'st, 'bn) vm_processor \<times>
      ('r transaction_executor_error executor_error + nat \<times> 'r transaction_executor_error executor_error option)) option" where
  "execute_transactions_loop vm n p [] = Some (p, Inr (n, None))"
| "execute_transactions_loop vm n p (t # ts) =
     (case transact vm (vp_state p) (vp_block_info p) (vp_flags p) t (Some (vp_bouncer p)) of
        None \<Rightarrow> None
      | Some (st', bn', r) \<Rightarrow>
          (let p = p\<lparr>vp_state := st', vp_bouncer := (case bn' of Some b \<Rightarrow> b | None \<Rightarrow> vp_bouncer p)\<rparr> in
           (case r of
              Inr res \<Rightarrow> execute_transactions_loop vm (Suc n) (record_result t res p) ts
            | Inl LimitsExhausted \<Rightarrow> Some (p, Inr (n, Some LimitsExhausted))
            | Inl e \<Rightarrow> Some (p, Inl e))))"

definition execute_transactions where
  "execute_transactions vm p ts = execute_transactions_loop vm 0 p ts"

definition execute_block ::
    "('cls, 'cmp, 'st, 'bn, 'r) vm \<Rightarrow> ('cls, 'st, 'bn) vm_processor \<Rightarrow> partial_header \<Rightarrow> 'cls ptx list \<Rightarrow>
     (('cls, 'st, 'bn) vm_processor \<times> ('r transaction_executor_error executor_error + unit)) option" where
  "execute_block vm p h body =
     (case execute_transactions vm (p\<lparr>vp_block_info := fill_block_env_from_header h\<rparr>) body of
        None \<Rightarrow> None
      | Some (p', Inl e) \<Rightarrow> Some (p', Inl e)
      | Some (p', Inr _) \<Rightarrow> Some (p', Inr ()))"

section \<open>The state update of a block\<close>

text \<open>The difference reported by the execution library; its maps are walked in some order.\<close>

record state_maps =
  sm_nonces :: "(contract_address \<times> nonce) list"
  sm_class_hashes :: "(contract_address \<times> class_hash) list"
  sm_storage :: "((contract_address \<times> storage_key) \<times> storage_value) list"
  sm_compiled_class_hashes :: "(class_hash \<times> compiled_class_hash) list"

definition btree_collect :: "('k :: linorder \<times> 'v) list \<Rightarrow> ('k, 'v) table" where
  "btree_collect es = fold (\<lambda>e. tbl_put (fst e) (snd e)) es []"

definition storage_entry_insert ::
    "(contract_address \<times> storage_key) \<times> storage_value \<Rightarrow>
     (contract_address, (storage_key, storage_value) table) table \<Rightarrow>
     (contract_address, (storage_key, storage_value) table) table" where
  "storage_entry_insert e m = (case e of ((addr, key), v) \<Rightarrow>
     tbl_put addr (tbl_put key v (case tbl_get m addr of None \<Rightarrow> [] | Some en \<Rightarrow> en)) m)"

text \<open>\<^verbatim>\<open>CachedState::class\<close>: classes declared in this block first, then the underlying state.\<close>

definition cached_class ::
    "(class_hash \<Rightarrow> provider_error + 'cls option) \<Rightarrow> (class_hash, 'cls) table \<Rightarrow> class_hash \<Rightarrow>
     provider_error + 'cls option" where
  "cached_class base declared h = (case tbl_get declared h of Some c \<Rightarrow> Inr (Some c) | None \<Rightarrow> base h)"

fun collect_declared ::
    "('cls \<Rightarrow> bool) \<Rightarrow> (class_hash \<Rightarrow> provider_error + 'cls option) \<Rightarrow> (class_hash \<times> compiled_class_hash) list \<Rightarrow>
     (class_hash, 'cls) table \<times> (class_hash, compiled_class_hash) table \<times> (class_hash, unit) table \<Rightarrow>
     ((class_hash, 'cls) table \<times> (class_hash, compiled_class_hash) table \<times> (class_hash, unit) table) option" where
  "collect_declared is_legacy class [] acc = Some acc"
| "collect_declared is_legacy class ((h, ch) # es) (cls, decl, depr) = (case class h of
      Inr (Some c) \<Rightarrow> collect_declared is_legacy class es
        (if is_legacy c then (tbl_put h c cls, decl, tbl_put h () depr)
         else (tbl_put h c cls, tbl_put h ch decl, depr))
    | _ \<Rightarrow> None)"

definition state_update_from_cached_state ::
    "('cls \<Rightarrow> bool) \<Rightarrow> (class_hash \<Rightarrow> provider_error + 'cls option) \<Rightarrow> state_maps \<Rightarrow>
     'cls state_updates_with_classes option" where
  "state_update_from_cached_state is_legacy class m =
     (case collect_declared is_legacy class (sm_compiled_class_hashes m) ([], [], []) of
        None \<Rightarrow> None
      | Some (cls, decl, depr) \<Rightarrow> Some
          \<lparr>su_state_updates =
             \<lparr>nonce_updates = btree_collect (sm_nonces m),
              storage_updates = fold storage_entry_insert (sm_storage m) [],
              deployed_contracts = btree_collect (sm_class_hashes m),
              declared_classes = decl,
              deprecated_declared_classes = map fst depr,
              replaced_classes = []\<rparr>,
           su_classes = cls\<rparr>)"

definition take_execution_output ::
    "('cls \<Rightarrow> bool) \<Rightarrow> ('st \<Rightarrow> class_hash \<Rightarrow> provider_error + 'cls option) \<Rightarrow> ('st \<Rightarrow> state_maps) \<Rightarrow>
     ('cls, 'st, 'bn) vm_processor \<Rightarrow> (('cls, 'st, 'bn) vm_processor \<times> 'cls execution_output) option" where
  "take_execution_output is_legacy base_class to_state_diff p =
     (case state_update_from_cached_state is_legacy
             (cached_class (base_class (vp_state p)) (vp_declared_classes p)) (to_state_diff (vp_state p)) of
        None \<Rightarrow> None
      | Some st \<Rightarrow> Some
          (p\<lparr>vp_transactions := [], vp_stats := execution_stats_default\<rparr>,
           \<lparr>eo_stats = vp_stats p, eo_states = st, eo_transactions = vp_transactions p\<rparr>))"

section \<open>Reading the state of an executor\<close>

text \<open>The reader of the execution library, over the state provider it was given.\<close>

definition zero_is_none :: "felt \<Rightarrow> felt option" where
  "zero_is_none h = (if h = 0 then None else Some h)"

definition cached_class_hash_of_contract ::
    "(contract_address \<Rightarrow> string + class_hash) \<Rightarrow> contract_address \<Rightarrow> class_hash option" where
  "cached_class_hash_of_contract get_class_hash_at a =
     (case get_class_hash_at a of Inl _ \<Rightarrow> None | Inr h \<Rightarrow> zero_is_none h)"

definition cached_nonce ::
    "(contract_address \<Rightarrow> string + class_hash) \<Rightarrow> (contract_address \<Rightarrow> string + nonce) \<Rightarrow>
     contract_address \<Rightarrow> string + nonce option" where
  "cached_nonce get_class_hash_at get_nonce_at a =
     (case cached_class_hash_of_contract get_class_hash_at a of
        None \<Rightarrow> Inr None
      | Some _ \<Rightarrow> (case get_nonce_at a of Inr n \<Rightarrow> Inr (Some n) | Inl e \<Rightarrow> Inl e))"

definition cached_storage ::
    "(contract_address \<Rightarrow> string + class_hash) \<Rightarrow> (contract_address \<Rightarrow> storage_key \<Rightarrow> string + storage_value) \<Rightarrow>
     contract_address \<Rightarrow> storage_key \<Rightarrow> string + storage_value option" where
  "cached_storage get_class_hash_at get_storage_at a k =
     (case cached_class_hash_of_contract get_class_hash_at a of
        None \<Rightarrow> Inr None
      | Some _ \<Rightarrow> (case get_storage_at a k of Inr v \<Rightarrow> Inr (Some v) | Inl e \<Rightarrow> Inl e))"

end
