(* ===== verification/Tx_Validator.thy ===== *)
theory Tx_Validator
  imports Executor
begin

text \<open>
  The stateful validator of the pool, \<^verbatim>\<open>crates/pool/src/validation/stateful.rs\<close>.  The state
  provider it reads is a pair of functions; the validation run of the execution library
  (\<^verbatim>\<open>StatefulValidator::perform_validations\<close>) is an argument.  The mutexes serialise the calls,
  so a validation is one state transition; \<open>None\<close> is a panic.
\<close>

record 'cls state_reader =
  sr_nonce :: "contract_address \<Rightarrow> nonce option provider_result"
  sr_class :: "class_hash \<Rightarrow> 'cls option provider_result"

record ('cls, 'cfg) validator_state =
  vs_cfg_env :: 'cfg
  vs_block_env :: block_env
  vs_flags :: execution_flags
  vs_state :: "'cls state_reader"
  vs_pool_nonces :: "contract_address \<rightharpoonup> nonce"

record ('cls, 'cmp, 'cfg, 'r) validation_vm =
  vv_valid_address :: "contract_address \<Rightarrow> bool"
  vv_compile :: "'cls \<Rightarrow> 'cmp option"
  vv_perform_validations :: "'cls state_reader \<Rightarrow> block_env \<Rightarrow> 'cfg \<Rightarrow> ('cls, 'cmp) executor_tx \<Rightarrow>
    'r stateful_validator_error + unit"

definition tx_validator_new ::
    "'cls state_reader \<Rightarrow> execution_flags \<Rightarrow> 'cfg \<Rightarrow> block_env \<Rightarrow> ('cls, 'cfg) validator_state" where
  "tx_validator_new st f cfg e = \<lparr>vs_cfg_env = cfg, vs_block_env = e, vs_flags = f, vs_state = st,
     vs_pool_nonces = Map.empty\<rparr>"

definition tx_validator_update ::
    "'cls state_reader \<Rightarrow> block_env \<Rightarrow> ('cls, 'cfg) validator_state \<Rightarrow> ('cls, 'cfg) validator_state" where
  "tx_validator_update st e v = v\<lparr>vs_block_env := e, vs_state := st\<rparr>"

definition pool_nonce ::
    "('cls, 'cfg) validator_state \<Rightarrow> contract_address \<Rightarrow> nonce option provider_result" where
  "pool_nonce v a = (case vs_pool_nonces v a of Some n \<Rightarrow> Inr (Some n) | None \<Rightarrow> sr_nonce (vs_state v) a)"

text \<open>The free function \<^verbatim>\<open>validate\<close>.\<close>

definition stateful_validate ::
    "('cls, 'cmp, 'cfg, 'r) validation_vm \<Rightarrow> ('cls, 'cfg) validator_state \<Rightarrow> 'cls ptx \<Rightarrow> bool \<Rightarrow> bool \<Rightarrow>
     ('cls ptx, 'r, 'r boxed_error) validation_result option" where
  "stateful_validate vv v t skip_validate skip_fee_check =
     (let flags = with_nonce_check False (with_fee (\<not> skip_fee_check)
                    (with_account_validation (\<not> skip_validate) execution_flags_default)) in
      (case to_executor_tx (vv_valid_address vv) (vv_compile vv) t flags of
         None \<Rightarrow> None
       | Some (VmL1Handler _ _) \<Rightarrow> Some (Inr (Valid t))
       | Some x \<Rightarrow> Some (case vv_perform_validations vv (vs_state v) (vs_block_env v) (vs_cfg_env v) x of
           Inr _ \<Rightarrow> Inr (Valid t)
         | Inl e \<Rightarrow> (case map_invalid_tx_err e of
             Inr err \<Rightarrow> Inr (Invalid t err)
           | Inl err \<Rightarrow> Inl \<lparr>ve_hash = ewh_hash t, ve_error = err\<rparr>))))"

text \<open>The static check on declarations; \<open>None\<close> lets the transaction pass.\<close>

definition declare_check ::
    "('cls, 'cfg) validator_state \<Rightarrow> 'cls ptx \<Rightarrow> ('cls ptx, 'r, 'r boxed_error) validation_result option" where
  "declare_check v t = (case ewh_transaction t of
      ExDeclare d \<Rightarrow> (let h = declare_class_hash (dwc_transaction d) in
        (case sr_class (vs_state v) h of
           Inl e \<Rightarrow> Some (Inl \<lparr>ve_hash = ewh_hash t, ve_error = BoxedProvider e\<rparr>)
         | Inr (Some _) \<Rightarrow> Some (Inr (Invalid t (ClassAlreadyDeclared h)))
         | Inr None \<Rightarrow> None))
    | _ \<Rightarrow> None)"

text \<open>The nonce of the account from the pool or the state; a failing read panics.\<close>

definition account_nonce :: "('cls, 'cfg) validator_state \<Rightarrow> contract_address \<Rightarrow> nonce option" where
  "account_nonce v a = (case vs_pool_nonces v a of
      Some n \<Rightarrow> Some n
    | None \<Rightarrow> (case sr_nonce (vs_state v) a of
        Inl _ \<Rightarrow> None
      | Inr None \<Rightarrow> Some 0
      | Inr (Some n) \<Rightarrow> Some n))"

definition skip_for_deploy :: "'cls executable_tx \<Rightarrow> nonce \<Rightarrow> nonce \<Rightarrow> bool" where
  "skip_for_deploy t tx_nonce current_nonce = (case t of
      ExDeployAccount _ \<Rightarrow> False
    | ExDeclare _ \<Rightarrow> False
    | _ \<Rightarrow> tx_nonce = 1 \<and> current_nonce = 0)"

definition tx_validate ::
    "('cls, 'cmp, 'cfg, 'r) validation_vm \<Rightarrow>
     (('cls, 'cfg) validator_state, 'cls ptx, 'r, 'r boxed_error) validator_fn" where
  "tx_validate vv v t = (case pool_tx_nonce (ewh_transaction t) of
      None \<Rightarrow> None
    | Some tx_nonce \<Rightarrow> (let address = pool_tx_sender (ewh_transaction t) in
        (case declare_check v t of
           Some r \<Rightarrow> Some (v, r)
         | None \<Rightarrow> (case account_nonce v address of
             None \<Rightarrow> None
           | Some current_nonce \<Rightarrow>
               if tx_nonce > current_nonce then Some (v, Inr (Dependent t tx_nonce current_nonce))
               else (case stateful_validate vv v t
                        (\<not> ef_account_validation (vs_flags v) \<or> skip_for_deploy (ewh_transaction t) tx_nonce current_nonce)
                        (\<not> ef_fee (vs_flags v)) of
                   None \<Rightarrow> None
                 | Some (Inr (Valid t')) \<Rightarrow>
                     Some (v\<lparr>vs_pool_nonces := (vs_pool_nonces v)(address \<mapsto> (current_nonce + 1) mod stark_prime)\<rparr>,
                           Inr (Valid t'))
                 | Some r \<Rightarrow> Some (v, r))))))"

text \<open>The valid outcomes for a sender.\<close>

definition valid_of :: "contract_address \<Rightarrow> ('cls ptx, 'r, 'b) validation_result \<Rightarrow> bool" where
  "valid_of a r = (case r of Inr (Valid t) \<Rightarrow> pool_tx_sender (ewh_transaction t) = a | _ \<Rightarrow> False)"

section \<open>Facts\<close>

lemma stateful_validate_Valid:
  "stateful_validate vv v t s f = Some (Inr (Valid t')) \<Longrightarrow> t' = t"
  by (auto simp: stateful_validate_def Let_def split: option.splits executor_tx.splits sum.splits)

lemma stateful_validate_not_Dependent:
  "stateful_validate vv v t s f \<noteq> Some (Inr (Dependent t' m n))"
  by (auto simp: stateful_validate_def Let_def split: option.splits executor_tx.splits sum.splits)

lemma declare_check_not_Valid: "declare_check v t \<noteq> Some (Inr (Valid t'))"
  by (auto simp: declare_check_def Let_def split: executable_tx.splits sum.splits option.splits)

text \<open>The four ways a validation ends.\<close>

lemma tx_validate_cases:
  fixes r :: "('cls ptx, 'r, 'r boxed_error) validation_result"
  assumes "tx_validate vv v t = Some (v', r)"
  obtains (declared) "declare_check v t = Some r" "v' = v"
    | (dependent) n c where "pool_tx_nonce (ewh_transaction t) = Some n"
        "account_nonce v (pool_tx_sender (ewh_transaction t)) = Some c" "c < n"
        "r = Inr (Dependent t n c)" "v' = v"
    | (valid) n c where "pool_tx_nonce (ewh_transaction t) = Some n"
        "account_nonce v (pool_tx_sender (ewh_transaction t)) = Some c" "n \<le> c" "r = Inr (Valid t)"
        "v' = v\<lparr>vs_pool_nonces := (vs_pool_nonces v)(pool_tx_sender (ewh_transaction t) \<mapsto> (c + 1) mod stark_prime)\<rparr>"
    | (rejected) "\<And>t'. r \<noteq> Inr (Valid t')" "v' = v"
proof -
  show thesis
  proof (cases "declare_check v t :: ('cls ptx, 'r, 'r boxed_error) validation_result option")
    case (Some r0)
    then have "tx_validate vv v t = (if pool_tx_nonce (ewh_transaction t) = None then None else Some (v, r0))"
      by (simp add: tx_validate_def Let_def split: option.split)
    then have "r0 = r" "v' = v" using assms by (simp_all split: if_splits)
    then show thesis using Some by (intro declared) simp_all
  next
    case 2: None
    obtain n where n: "pool_tx_nonce (ewh_transaction t) = Some n"
      using assms by (cases "pool_tx_nonce (ewh_transaction t)") (simp_all add: tx_validate_def)
    obtain c where c: "account_nonce v (pool_tx_sender (ewh_transaction t)) = Some c"
      using assms n 2 by (cases "account_nonce v (pool_tx_sender (ewh_transaction t))")
        (simp_all add: tx_validate_def Let_def)
    note nc = n c
    show thesis
    proof (cases "c < n")
      case True
      then have "tx_validate vv v t = Some (v, Inr (Dependent t n c))"
        using 2 nc by (simp add: tx_validate_def Let_def)
      then show thesis using assms nc True by (intro dependent) simp_all
    next
      case False
      let ?s = "stateful_validate vv v t
          (\<not> ef_account_validation (vs_flags v) \<or> skip_for_deploy (ewh_transaction t) n c) (\<not> ef_fee (vs_flags v))"
      have eq: "tx_validate vv v t = (case ?s of
          None \<Rightarrow> None
        | Some (Inr (Valid t')) \<Rightarrow>
            Some (v\<lparr>vs_pool_nonces := (vs_pool_nonces v)(pool_tx_sender (ewh_transaction t) \<mapsto> (c + 1) mod stark_prime)\<rparr>,
                  Inr (Valid t'))
        | Some r \<Rightarrow> Some (v, r))"
        using 2 nc False by (simp add: tx_validate_def Let_def)
      show thesis
      proof (cases "\<exists>t'. ?s = Some (Inr (Valid t'))")
        case True
        then have "?s = Some (Inr (Valid t))" using stateful_validate_Valid by blast
        then have "Some (v', r) = Some (v\<lparr>vs_pool_nonces :=
            (vs_pool_nonces v)(pool_tx_sender (ewh_transaction t) \<mapsto> (c + 1) mod stark_prime)\<rparr>, Inr (Valid t))"
          using assms eq by simp
        then show thesis using nc False by (intro valid) auto
      next
        case no: False
        then have "?s = Some r \<and> v' = v"
          using assms unfolding eq by (simp split: option.splits sum.splits validation_outcome.splits)
        then show thesis using no by (intro rejected) auto
      qed
    qed
  qed
qed

lemma tx_validate_keeps_tx: "tx_validate vv v t = Some (v', Inr (Valid t')) \<Longrightarrow> t' = t"
  by (erule tx_validate_cases) (auto simp: declare_check_not_Valid)

lemma skip_for_deploy_dead: "n \<le> c \<Longrightarrow> \<not> skip_for_deploy t n c"
  by (auto simp: skip_for_deploy_def split: executable_tx.split)

end
