(* ===== verification/Db_Blocks.thy ===== *)
theory Db_Blocks
  imports Db_Provider
begin

text \<open>
  What inserting a block does to each table, and the block and transaction getters after it.

  Each loop of the writer is first shown to be one record update whose fields are folds over
  the single tables.  The invariant \<open>db_ok\<close> says that the transaction tables are filled
  contiguously from zero; it holds of the empty database and is kept by every insertion.
\<close>

section \<open>The loops as record updates\<close>

lemma fold_put_transaction:
  "fold (put_transaction bn) es d =
     d\<lparr>tb_TxHashes := fold (\<lambda>e. tbl_put (fst e) (twh_hash (snd e))) es (tb_TxHashes d),
       tb_TxNumbers := fold (\<lambda>e. tbl_put (twh_hash (snd e)) (fst e)) es (tb_TxNumbers d),
       tb_TxBlocks := fold (\<lambda>e. tbl_put (fst e) bn) es (tb_TxBlocks d),
       tb_Transactions := fold (\<lambda>e. tbl_put (fst e) (versioned_tx_from (twh_transaction (snd e)))) es
         (tb_Transactions d)\<rparr>"
  by (induction es arbitrary: d) (simp_all add: put_transaction_def Let_def)

lemma fold_put_receipt:
  "fold put_receipt es d = d\<lparr>tb_Receipts := fold (\<lambda>e. tbl_put (fst e) (snd e)) es (tb_Receipts d)\<rparr>"
  by (induction es arbitrary: d) (simp_all add: put_receipt_def)

lemma fold_put_execution:
  "fold put_execution es d = d\<lparr>tb_TxTraces := fold (\<lambda>e. tbl_put (fst e) (snd e)) es (tb_TxTraces d)\<rparr>"
  by (induction es arbitrary: d) (simp_all add: put_execution_def)

lemma fold_put_declared_class:
  "fold (put_declared_class bn) es d =
     d\<lparr>tb_CompiledClassHashes := fold (\<lambda>e. tbl_put (fst e) (snd e)) es (tb_CompiledClassHashes d),
       tb_ClassDeclarationBlock := fold (\<lambda>e. tbl_put (fst e) bn) es (tb_ClassDeclarationBlock d),
       tb_ClassDeclarations := fold (\<lambda>e. dup_put bn (fst e)) es (tb_ClassDeclarations d)\<rparr>"
  by (induction es arbitrary: d) (simp_all add: put_declared_class_def)

lemma fold_put_deprecated_class:
  "fold (put_deprecated_class bn) es d =
     d\<lparr>tb_ClassDeclarationBlock := fold (\<lambda>e. tbl_put e bn) es (tb_ClassDeclarationBlock d),
       tb_ClassDeclarations := fold (dup_put bn) es (tb_ClassDeclarations d)\<rparr>"
  by (induction es arbitrary: d) (simp_all add: put_deprecated_class_def)

lemma fold_put_class:
  "fold put_class es d = d\<lparr>tb_Classes := fold (\<lambda>e. tbl_put (fst e) (snd e)) es (tb_Classes d)\<rparr>"
  by (induction es arbitrary: d) (simp_all add: put_class_def)

text \<open>The storage updates of a block, flattened to one list of entries.\<close>

definition flat_storage ::
    "(contract_address, (storage_key, storage_value) table) table \<Rightarrow> contract_storage_entry list" where
  "flat_storage ss = concat (map (\<lambda>(addr, entries). map (\<lambda>(k, v). ((addr, k), v)) entries) ss)"

definition change_list_step :: "block_number \<Rightarrow> contract_storage_entry
    \<Rightarrow> (contract_storage_key, integer_set) table \<Rightarrow> (contract_storage_key, integer_set) table" where
  "change_list_step bn e t = tbl_put (fst e) (update_block_list bn (tbl_get t (fst e))) t"

definition storage_step :: "contract_storage_entry
    \<Rightarrow> (contract_address, storage_entry) table \<Rightarrow> (contract_address, storage_entry) table" where
  "storage_step e = storage_upsert (fst (fst e)) (snd (fst e)) (snd e)"

lemma fold_put_storage_entry:
  "fold (put_storage_entry bn addr) entries d =
     d\<lparr>tb_StorageChangeSet := fold (change_list_step bn) (map (\<lambda>(k, v). ((addr, k), v)) entries)
         (tb_StorageChangeSet d),
       tb_ContractStorage := fold storage_step (map (\<lambda>(k, v). ((addr, k), v)) entries)
         (tb_ContractStorage d),
       tb_StorageChangeHistory := fold (dup_put bn) (map (\<lambda>(k, v). ((addr, k), v)) entries)
         (tb_StorageChangeHistory d)\<rparr>"
  by (induction entries arbitrary: d)
     (simp_all add: put_storage_entry_def Let_def change_list_step_def storage_step_def split_beta)

lemma fold_put_storage:
  "fold (\<lambda>(addr, entries) d. fold (put_storage_entry bn addr) entries d) ss d =
     d\<lparr>tb_StorageChangeSet := fold (change_list_step bn) (flat_storage ss) (tb_StorageChangeSet d),
       tb_ContractStorage := fold storage_step (flat_storage ss) (tb_ContractStorage d),
       tb_StorageChangeHistory := fold (dup_put bn) (flat_storage ss) (tb_StorageChangeHistory d)\<rparr>"
  by (induction ss arbitrary: d) (simp_all add: split_beta fold_put_storage_entry flat_storage_def)

definition class_info_step ::
    "contract_address \<times> class_hash \<Rightarrow> (contract_address, generic_contract_info) table
     \<Rightarrow> (contract_address, generic_contract_info) table" where
  "class_info_step e t = tbl_put (fst e) (info_with_class (snd e) (tbl_get t (fst e))) t"

definition nonce_info_step ::
    "contract_address \<times> nonce \<Rightarrow> (contract_address, generic_contract_info) table
     \<Rightarrow> (contract_address, generic_contract_info) table" where
  "nonce_info_step e t = tbl_put (fst e) (info_with_nonce (snd e) (tbl_get t (fst e))) t"

definition class_list_step ::
    "block_number \<Rightarrow> contract_address \<times> class_hash \<Rightarrow> (contract_address, contract_info_change_list) table
     \<Rightarrow> (contract_address, contract_info_change_list) table" where
  "class_list_step bn e t = tbl_put (fst e) (class_change_set bn (tbl_get t (fst e))) t"

definition nonce_list_step ::
    "block_number \<Rightarrow> contract_address \<times> nonce \<Rightarrow> (contract_address, contract_info_change_list) table
     \<Rightarrow> (contract_address, contract_info_change_list) table" where
  "nonce_list_step bn e t = tbl_put (fst e) (nonce_change_set bn (tbl_get t (fst e))) t"

lemma fold_put_deployed_contract:
  "fold (put_deployed_contract bn) es d =
     d\<lparr>tb_ContractInfo := fold class_info_step es (tb_ContractInfo d),
       tb_ClassChangeHistory := fold (dup_put bn) es (tb_ClassChangeHistory d),
       tb_ContractInfoChangeSet := fold (class_list_step bn) es (tb_ContractInfoChangeSet d)\<rparr>"
  by (induction es arbitrary: d)
     (simp_all add: put_deployed_contract_def Let_def class_info_step_def class_list_step_def)

lemma fold_put_nonce_update:
  "fold (put_nonce_update bn) es d =
     d\<lparr>tb_ContractInfo := fold nonce_info_step es (tb_ContractInfo d),
       tb_NonceChangeHistory := fold (dup_put bn) es (tb_NonceChangeHistory d),
       tb_ContractInfoChangeSet := fold (nonce_list_step bn) es (tb_ContractInfoChangeSet d)\<rparr>"
  by (induction es arbitrary: d)
     (simp_all add: put_nonce_update_def Let_def nonce_info_step_def nonce_list_step_def)

lemmas loop_simps =
  fold_put_transaction fold_put_receipt fold_put_execution fold_put_declared_class
  fold_put_deprecated_class fold_put_class fold_put_storage fold_put_deployed_contract
  fold_put_nonce_update

section \<open>Every table after an insertion\<close>

abbreviation insert_block ::
    "sealed_block_with_status \<Rightarrow> 'cls state_updates_with_classes \<Rightarrow> receipt list
     \<Rightarrow> 'info typed_execution_info list \<Rightarrow> ('cls, 'info) db \<Rightarrow> ('cls, 'info) db" where
  "insert_block \<equiv> insert_block_with_states_and_receipts"

abbreviation block_num :: "sealed_block_with_status \<Rightarrow> block_number" where
  "block_num b \<equiv> hd_number (sb_header (sbs_block b))"

lemma insert_block_tables [db_simps]:
  "tb_Headers (insert_block b st rs xs d) =
     tbl_put (block_num b) (versioned_header_from (sb_header (sbs_block b))) (tb_Headers d)"
  "tb_BlockHashes (insert_block b st rs xs d) = tbl_put (block_num b) (sb_hash (sbs_block b)) (tb_BlockHashes d)"
  "tb_BlockNumbers (insert_block b st rs xs d) = tbl_put (sb_hash (sbs_block b)) (block_num b) (tb_BlockNumbers d)"
  "tb_BlockStatusses (insert_block b st rs xs d) = tbl_put (block_num b) (sbs_status b) (tb_BlockStatusses d)"
  "tb_BlockBodyIndices (insert_block b st rs xs d) =
     tbl_put (block_num b)
       \<lparr>tx_offset = tbl_entries (tb_Transactions d), tx_count = length (sb_body (sbs_block b))\<rparr>
       (tb_BlockBodyIndices d)"
  "tb_StageCheckpoints (insert_block b st rs xs d) = tb_StageCheckpoints d"
  by (simp_all add: insert_block_with_states_and_receipts_def Let_def loop_simps put_block_header_def)

lemma insert_block_tx_tables:
  fixes d :: "('cls, 'info) db"
  defines "off \<equiv> tbl_entries (tb_Transactions d)"
  shows
  "tb_TxHashes (insert_block b st rs xs d) =
     fold (\<lambda>e. tbl_put (fst e) (twh_hash (snd e))) (List.enumerate off (sb_body (sbs_block b))) (tb_TxHashes d)"
  "tb_TxNumbers (insert_block b st rs xs d) =
     fold (\<lambda>e. tbl_put (twh_hash (snd e)) (fst e)) (List.enumerate off (sb_body (sbs_block b))) (tb_TxNumbers d)"
  "tb_TxBlocks (insert_block b st rs xs d) =
     fold (\<lambda>e. tbl_put (fst e) (block_num b)) (List.enumerate off (sb_body (sbs_block b))) (tb_TxBlocks d)"
  "tb_Transactions (insert_block b st rs xs d) =
     fold (\<lambda>e. tbl_put (fst e) (versioned_tx_from (twh_transaction (snd e))))
       (List.enumerate off (sb_body (sbs_block b))) (tb_Transactions d)"
  "tb_Receipts (insert_block b st rs xs d) =
     fold (\<lambda>e. tbl_put (fst e) (snd e)) (List.enumerate off rs) (tb_Receipts d)"
  "tb_TxTraces (insert_block b st rs xs d) =
     fold (\<lambda>e. tbl_put (fst e) (snd e)) (List.enumerate off xs) (tb_TxTraces d)"
  by (simp_all add: off_def insert_block_with_states_and_receipts_def Let_def loop_simps put_block_header_def)

lemma insert_block_state_tables [db_simps]:
  fixes d :: "('cls, 'info) db" and st :: "'cls state_updates_with_classes"
  defines "su \<equiv> su_state_updates st"
  shows
  "tb_CompiledClassHashes (insert_block b st rs xs d) =
     fold (\<lambda>e. tbl_put (fst e) (snd e)) (declared_classes su) (tb_CompiledClassHashes d)"
  "tb_Classes (insert_block b st rs xs d) =
     fold (\<lambda>e. tbl_put (fst e) (snd e)) (su_classes st) (tb_Classes d)"
  "tb_ClassDeclarationBlock (insert_block b st rs xs d) =
     fold (\<lambda>c. tbl_put c (block_num b)) (deprecated_declared_classes su)
       (fold (\<lambda>e. tbl_put (fst e) (block_num b)) (declared_classes su) (tb_ClassDeclarationBlock d))"
  "tb_ClassDeclarations (insert_block b st rs xs d) =
     fold (dup_put (block_num b)) (deprecated_declared_classes su)
       (fold (\<lambda>e. dup_put (block_num b) (fst e)) (declared_classes su) (tb_ClassDeclarations d))"
  "tb_ContractStorage (insert_block b st rs xs d) =
     fold storage_step (flat_storage (storage_updates su)) (tb_ContractStorage d)"
  "tb_StorageChangeSet (insert_block b st rs xs d) =
     fold (change_list_step (block_num b)) (flat_storage (storage_updates su)) (tb_StorageChangeSet d)"
  "tb_StorageChangeHistory (insert_block b st rs xs d) =
     fold (dup_put (block_num b)) (flat_storage (storage_updates su)) (tb_StorageChangeHistory d)"
  "tb_ContractInfo (insert_block b st rs xs d) =
     fold nonce_info_step (nonce_updates su) (fold class_info_step (deployed_contracts su) (tb_ContractInfo d))"
  "tb_ClassChangeHistory (insert_block b st rs xs d) =
     fold (dup_put (block_num b)) (deployed_contracts su) (tb_ClassChangeHistory d)"
  "tb_NonceChangeHistory (insert_block b st rs xs d) =
     fold (dup_put (block_num b)) (nonce_updates su) (tb_NonceChangeHistory d)"
  "tb_ContractInfoChangeSet (insert_block b st rs xs d) =
     fold (nonce_list_step (block_num b)) (nonce_updates su)
       (fold (class_list_step (block_num b)) (deployed_contracts su) (tb_ContractInfoChangeSet d))"
  by (simp_all add: su_def insert_block_with_states_and_receipts_def Let_def loop_simps put_block_header_def)

section \<open>Folds of writes\<close>

lemma fold_keeps: "(\<And>x t. x \<in> set xs \<Longrightarrow> P t \<Longrightarrow> P (f x t)) \<Longrightarrow> P t \<Longrightarrow> P (fold f xs t)"
  by (induction xs arbitrary: t) auto

lemma tbl_keys_fold:
  "(\<And>x t. tbl_keys (f x t) = insert (k x) (tbl_keys t)) \<Longrightarrow> tbl_keys (fold f xs t) = k ` set xs \<union> tbl_keys t"
  by (induction xs arbitrary: t) auto

lemma tbl_inv_fold_put [simp]: "tbl_inv t \<Longrightarrow> tbl_inv (fold (\<lambda>x. tbl_put (f x) (g x)) xs t)"
  by (rule fold_keeps) auto

lemma tbl_keys_fold_put [simp]:
  "tbl_keys (fold (\<lambda>x. tbl_put (f x) (g x)) xs t) = f ` set xs \<union> tbl_keys t"
  by (rule tbl_keys_fold) simp

lemma set_enumerate_fst [simp]: "fst ` set (List.enumerate n xs) = {n..<n + length xs}"
  by (metis enumerate_eq_zip list.set_map map_fst_zip length_upt set_upt diff_add_inverse)

lemma tbl_get_fold_put_distinct:
  "distinct (map f xs) \<Longrightarrow>
   tbl_get (fold (\<lambda>x. tbl_put (f x) (g x)) xs t) k =
     (case map_of (map (\<lambda>x. (f x, g x)) xs) k of Some v \<Rightarrow> Some v | None \<Rightarrow> tbl_get t k)"
  unfolding tbl.get_put_all_keyed by (simp add: map_of_rev_distinct comp_def)

lemma tbl_get_put_enumerate:
  assumes "\<And>i x. g (i, x) = h x"
  shows "tbl_get (fold (\<lambda>e. tbl_put (fst e) (g e)) (List.enumerate n xs) t) k =
     (if n \<le> k \<and> k < n + length xs then Some (h (xs ! (k - n))) else tbl_get t k)"
proof -
  have "map (\<lambda>e. (fst e, g e)) (List.enumerate n xs) = List.enumerate n (map h xs)"
    using assms by (auto simp: enumerate_eq_zip zip_map2 split_beta)
  then show ?thesis
    by (auto simp: tbl_get_fold_put_distinct map_of_enumerate)
qed

section \<open>The invariant of the block and transaction tables\<close>

abbreviation tx_total :: "('cls, 'info) db \<Rightarrow> nat" where
  "tx_total d \<equiv> tbl_entries (tb_Transactions d)"

definition db_tables_sorted :: "('cls, 'info) db \<Rightarrow> bool" where
  "db_tables_sorted d \<longleftrightarrow>
     tbl_inv (tb_Headers d) \<and> tbl_inv (tb_BlockHashes d) \<and> tbl_inv (tb_BlockNumbers d)
     \<and> tbl_inv (tb_BlockBodyIndices d) \<and> tbl_inv (tb_BlockStatusses d) \<and> tbl_inv (tb_TxNumbers d)
     \<and> tbl_inv (tb_TxBlocks d) \<and> tbl_inv (tb_TxHashes d) \<and> tbl_inv (tb_TxTraces d)
     \<and> tbl_inv (tb_Transactions d) \<and> tbl_inv (tb_Receipts d)"

text \<open>
  Transactions are numbered contiguously from zero, every transaction has a hash and a
  block, receipts and traces belong to transactions, the block tables have the same keys,
  and the body of every block lies within the transaction table.
\<close>

definition db_ok :: "('cls, 'info) db \<Rightarrow> bool" where
  "db_ok d \<longleftrightarrow>
     db_tables_sorted d
     \<and> tbl_keys (tb_Transactions d) = {..<tx_total d}
     \<and> tbl_keys (tb_TxHashes d) = {..<tx_total d}
     \<and> tbl_keys (tb_TxBlocks d) = {..<tx_total d}
     \<and> tbl_keys (tb_Receipts d) \<subseteq> {..<tx_total d}
     \<and> tbl_keys (tb_TxTraces d) \<subseteq> {..<tx_total d}
     \<and> tbl_keys (tb_BlockHashes d) = tbl_keys (tb_Headers d)
     \<and> tbl_keys (tb_BlockStatusses d) = tbl_keys (tb_Headers d)
     \<and> tbl_keys (tb_BlockBodyIndices d) = tbl_keys (tb_Headers d)
     \<and> (\<forall>n i. tbl_get (tb_BlockBodyIndices d) n = Some i \<longrightarrow> tx_offset i + tx_count i \<le> tx_total d)"

lemma db_ok_empty: "db_ok db_empty"
  by (simp add: db_ok_def db_tables_sorted_def db_empty_def tbl_entries_def)

lemma tx_total_insert_block:
  assumes "db_ok d"
  shows "tx_total (insert_block b st rs xs d) = tx_total d + length (sb_body (sbs_block b))"
proof -
  have "tbl_inv (tb_Transactions (insert_block b st rs xs d))"
    using assms by (simp add: db_simps insert_block_tx_tables db_ok_def db_tables_sorted_def)
  moreover have "tbl_keys (tb_Transactions (insert_block b st rs xs d)) =
      {..<tx_total d + length (sb_body (sbs_block b))}"
    using assms by (auto simp: db_simps insert_block_tx_tables db_ok_def)
  ultimately show ?thesis by (simp add: tbl_entries_card)
qed

lemma db_ok_insert_block:
  assumes "db_ok d" "length rs \<le> length (sb_body (sbs_block b))" "length xs \<le> length (sb_body (sbs_block b))"
  shows "db_ok (insert_block b st rs xs d)"
proof -
  let ?d' = "insert_block b st rs xs d" and ?n = "length (sb_body (sbs_block b))"
  note tot = tx_total_insert_block [OF assms(1), of b st rs xs]
  have "db_tables_sorted ?d'"
    using assms(1) by (simp add: db_simps insert_block_tx_tables db_ok_def db_tables_sorted_def)
  moreover have "tbl_keys (tb_Transactions ?d') = {..<tx_total d + ?n}"
      "tbl_keys (tb_TxHashes ?d') = {..<tx_total d + ?n}"
      "tbl_keys (tb_TxBlocks ?d') = {..<tx_total d + ?n}"
      "tbl_keys (tb_Receipts ?d') \<subseteq> {..<tx_total d + ?n}"
      "tbl_keys (tb_TxTraces ?d') \<subseteq> {..<tx_total d + ?n}"
    using assms by (auto simp: db_simps insert_block_tx_tables db_ok_def)
  moreover have "tbl_keys (tb_BlockHashes ?d') = tbl_keys (tb_Headers ?d')"
      "tbl_keys (tb_BlockStatusses ?d') = tbl_keys (tb_Headers ?d')"
      "tbl_keys (tb_BlockBodyIndices ?d') = tbl_keys (tb_Headers ?d')"
    using assms(1) by (simp_all add: db_simps insert_block_tx_tables db_ok_def)
  moreover have "tx_offset i + tx_count i \<le> tx_total d + ?n"
    if "tbl_get (tb_BlockBodyIndices ?d') n = Some i" for n i
    using that assms(1) by (fastforce simp: db_simps insert_block_tx_tables table_simps db_ok_def split: if_splits)
  ultimately show ?thesis unfolding db_ok_def tot by blast
qed

section \<open>Reading back\<close>

lemma transaction_in_range_total:
  assumes "\<And>i. i \<in> set is \<Longrightarrow> tbl_get (tb_Transactions d) i = Some (versioned_tx_from (twh_transaction (t i)))"
    and "\<And>i. i \<in> set is \<Longrightarrow> tbl_get (tb_TxHashes d) i = Some (twh_hash (t i))"
  shows "transaction_in_range d is = Inr (map t is)"
  using assms by (induction "is") auto

lemma transaction_in_range_cong:
  assumes "\<And>i. i \<in> set is \<Longrightarrow> tbl_get (tb_Transactions d) i = tbl_get (tb_Transactions d') i"
    and "\<And>i. i \<in> set is \<Longrightarrow> tbl_get (tb_TxHashes d) i = tbl_get (tb_TxHashes d') i"
  shows "transaction_in_range d is = transaction_in_range d' is"
  using assms
proof (induction "is")
  case (Cons a "is")
  then have "tbl_get (tb_Transactions d) a = tbl_get (tb_Transactions d') a"
      "tbl_get (tb_TxHashes d) a = tbl_get (tb_TxHashes d') a"
    by auto
  with Cons show ?case by (simp split: option.split)
qed simp

lemma map_nth_upt: "map (\<lambda>i. xs ! (i - n)) [n..<n + length xs] = xs"
  by (rule nth_equalityI) auto

text \<open>The tables of the transactions, read after an insertion.\<close>

lemma tx_tables_after_insert [db_simps]:
  fixes d :: "('cls, 'info) db"
  defines "off \<equiv> tx_total d"
  shows
  "tbl_get (tb_TxHashes (insert_block b st rs xs d)) k =
     (if off \<le> k \<and> k < off + length (sb_body (sbs_block b))
      then Some (twh_hash (sb_body (sbs_block b) ! (k - off))) else tbl_get (tb_TxHashes d) k)"
  "tbl_get (tb_Transactions (insert_block b st rs xs d)) k =
     (if off \<le> k \<and> k < off + length (sb_body (sbs_block b))
      then Some (versioned_tx_from (twh_transaction (sb_body (sbs_block b) ! (k - off))))
      else tbl_get (tb_Transactions d) k)"
  "tbl_get (tb_TxBlocks (insert_block b st rs xs d)) k =
     (if off \<le> k \<and> k < off + length (sb_body (sbs_block b)) then Some (block_num b)
      else tbl_get (tb_TxBlocks d) k)"
  "tbl_get (tb_Receipts (insert_block b st rs xs d)) k =
     (if off \<le> k \<and> k < off + length rs then Some (rs ! (k - off)) else tbl_get (tb_Receipts d) k)"
  "tbl_get (tb_TxTraces (insert_block b st rs xs d)) k =
     (if off \<le> k \<and> k < off + length xs then Some (xs ! (k - off)) else tbl_get (tb_TxTraces d) k)"
  unfolding off_def insert_block_tx_tables by (simp_all add: tbl_get_put_enumerate)

definition block_ids :: "sealed_block_with_status \<Rightarrow> block_hash_or_number set" where
  "block_ids b = {Num (block_num b), Hash (sb_hash (sbs_block b))}"

lemma resolve_id_inserted:
  "bid \<in> block_ids b \<Longrightarrow> resolve_id (insert_block b st rs xs d) bid = Some (block_num b)"
  by (auto simp: block_ids_def db_simps table_simps)

lemma block_body_indices_inserted:
  "bid \<in> block_ids b \<Longrightarrow>
   block_body_indices (insert_block b st rs xs d) bid =
     Inr (Some \<lparr>tx_offset = tx_total d, tx_count = length (sb_body (sbs_block b))\<rparr>)"
  unfolding block_body_indices_def by (simp add: resolve_id_inserted db_simps table_simps)

lemma header_inserted:
  "bid \<in> block_ids b \<Longrightarrow> header_by_id (insert_block b st rs xs d) bid = Inr (Some (sb_header (sbs_block b)))"
  unfolding header_by_id_def by (simp add: resolve_id_inserted db_simps table_simps)

lemma transactions_inserted:
  assumes "bid \<in> block_ids b"
  shows "transactions_by_block (insert_block b st rs xs d) bid = Inr (Some (sb_body (sbs_block b)))"
proof -
  let ?body = "sb_body (sbs_block b)" and ?off = "tx_total d"
  have "transaction_in_range (insert_block b st rs xs d) [?off..<?off + length ?body] =
      Inr (map (\<lambda>i. ?body ! (i - ?off)) [?off..<?off + length ?body])"
    by (rule transaction_in_range_total) (auto simp: db_simps)
  then show ?thesis
    unfolding transactions_by_block_def
    by (simp add: block_body_indices_inserted [OF assms] indices_range_def map_nth_upt)
qed

lemma block_inserted:
  "bid \<in> block_ids b \<Longrightarrow>
   block_by_id (insert_block b st rs xs d) bid = Inr (Some (unseal (sbs_block b)))"
  by (simp add: block_by_id_def header_inserted transactions_inserted unseal_def)

lemma map_filter_all_Some: "(\<And>x. x \<in> set xs \<Longrightarrow> f x = Some (g x)) \<Longrightarrow> List.map_filter f xs = map g xs"
  by (induction xs) (auto simp: List.map_filter_simps)

lemma receipts_inserted:
  assumes "bid \<in> block_ids b" "length rs = length (sb_body (sbs_block b))"
  shows "receipts_by_block (insert_block b st rs xs d) bid = Inr (Some rs)"
proof -
  have "List.map_filter (tbl_get (tb_Receipts (insert_block b st rs xs d)))
      [tx_total d..<tx_total d + length (sb_body (sbs_block b))] = rs"
    by (subst map_filter_all_Some [where g = "\<lambda>i. rs ! (i - tx_total d)"])
       (use map_nth_upt [of rs "tx_total d"] assms(2) in \<open>auto simp: db_simps\<close>)
  then show ?thesis
    unfolding receipts_by_block_def by (simp add: block_body_indices_inserted [OF assms(1)])
qed

lemma traces_inserted:
  assumes "bid \<in> block_ids b" "length xs = length (sb_body (sbs_block b))"
  shows "transaction_executions_by_block (insert_block b st rs xs d) bid = Inr (Some xs)"
proof -
  have "List.map_filter (tbl_get (tb_TxTraces (insert_block b st rs xs d)))
      [tx_total d..<tx_total d + length (sb_body (sbs_block b))] = xs"
    by (subst map_filter_all_Some [where g = "\<lambda>i. xs ! (i - tx_total d)"])
       (use map_nth_upt [of xs "tx_total d"] assms(2) in \<open>auto simp: db_simps\<close>)
  then show ?thesis
    unfolding transaction_executions_by_block_def transaction_executions_in_range_def
    by (simp add: block_body_indices_inserted [OF assms(1)] indices_range_def)
qed

text \<open>A block that was stored before is read as before.\<close>

lemma block_kept:
  assumes "db_ok d" "m \<noteq> block_num b"
  shows "block_by_id (insert_block b st rs xs d) (Num m) = block_by_id d (Num m)"
proof -
  let ?d' = "insert_block b st rs xs d"
  have hdr: "header_by_id ?d' (Num m) = header_by_id d (Num m)"
    using assms(2) by (simp add: header_by_id_def db_simps table_simps)
  have idx: "block_body_indices ?d' (Num m) = block_body_indices d (Num m)"
    using assms(2) by (simp add: block_body_indices_def db_simps table_simps)
  have "transaction_in_range ?d' (indices_range i) = transaction_in_range d (indices_range i)"
    if "tbl_get (tb_BlockBodyIndices d) m = Some i" for i
  proof (rule transaction_in_range_cong)
    fix k assume "k \<in> set (indices_range i)"
    then have "k < tx_total d"
      using that assms(1) by (fastforce simp: db_ok_def indices_range_def)
    then show "tbl_get (tb_Transactions ?d') k = tbl_get (tb_Transactions d) k"
        "tbl_get (tb_TxHashes ?d') k = tbl_get (tb_TxHashes d) k"
      by (simp_all add: db_simps)
  qed
  then have txs: "transactions_by_block ?d' (Num m) = transactions_by_block d (Num m)"
    unfolding transactions_by_block_def idx by (auto simp: block_body_indices_def split: option.splits)
  show ?thesis unfolding block_by_id_def hdr txs ..
qed

text \<open>The position of a transaction hash that occurs once in the new body.\<close>

lemma TxNumbers_inserted:
  assumes "distinct (map twh_hash (sb_body (sbs_block b)))" "i < length (sb_body (sbs_block b))"
  shows "tbl_get (tb_TxNumbers (insert_block b st rs xs d)) (twh_hash (sb_body (sbs_block b) ! i)) =
    Some (tx_total d + i)"
proof -
  let ?body = "sb_body (sbs_block b)" and ?off = "tx_total d"
  let ?es = "List.enumerate ?off ?body"
  have hashes: "map (\<lambda>e. twh_hash (snd e)) ?es = map twh_hash ?body"
    by (simp add: enumerate_eq_zip flip: map_map [of twh_hash snd, unfolded comp_def])
  have "(?off + i, ?body ! i) \<in> set ?es"
    using assms(2) by (simp add: in_set_enumerate_eq)
  then have "(twh_hash (?body ! i), ?off + i) \<in> set (map (\<lambda>e. (twh_hash (snd e), fst e)) ?es)"
    by (auto intro!: rev_image_eqI)
  moreover have "distinct (map fst (map (\<lambda>e. (twh_hash (snd e), fst e)) ?es))"
    using assms(1) hashes by (simp add: comp_def)
  ultimately have "map_of (map (\<lambda>e. (twh_hash (snd e), fst e)) ?es) (twh_hash (?body ! i)) = Some (?off + i)"
    by (intro map_of_is_SomeI)
  then show ?thesis
    unfolding insert_block_tx_tables using assms(1) hashes
    by (simp add: tbl_get_fold_put_distinct)
qed

lemma latest_number_insert:
  assumes "db_ok d" "\<forall>n\<in>tbl_keys (tb_Headers d). n < block_num b"
  shows "latest_number (insert_block b st rs xs d) = Inr (block_num b)"
    and "latest_hash (insert_block b st rs xs d) = Inr (sb_hash (sbs_block b))"
proof -
  have inv: "tbl_inv (tbl_put (block_num b) (sb_hash (sbs_block b)) (tb_BlockHashes d))"
    using assms(1) by (simp add: db_ok_def db_tables_sorted_def)
  have "tbl_last (tbl_put (block_num b) (sb_hash (sbs_block b)) (tb_BlockHashes d)) =
      Some (block_num b, sb_hash (sbs_block b))"
    unfolding tbl_last_Some [OF inv]
    using assms by (auto simp: table_simps db_ok_def less_imp_le)
  then show num: "latest_number (insert_block b st rs xs d) = Inr (block_num b)"
    by (simp add: latest_number_def db_simps)
  show "latest_hash (insert_block b st rs xs d) = Inr (sb_hash (sbs_block b))"
    unfolding latest_hash_def num by (simp add: db_simps table_simps)
qed

end
