(* ===== verification/Change_Index.thy ===== *)
theory Change_Index
  imports Integer_Set
begin

text \<open>
  The contract between the block writer and the historical state provider.  Storage, nonces
  and class hashes are indexed the same way: a change list per key holds the blocks that
  changed it, and a history table holds the value written by each block.  The locale
  \<open>change_index\<close> states what writing a block does to such a pair of tables; inside it the
  lookup of the historical provider is shown to return the last write at or before the
  requested block.
\<close>

section \<open>The last write at a block\<close>

definition last_write :: "('s \<Rightarrow> 'v option) \<Rightarrow> (block_number \<times> 's) list \<Rightarrow> block_number \<Rightarrow> 'v option" where
  "last_write w chain n =
     fold (\<lambda>(b, s) acc. if b \<le> n then (case w s of Some v \<Rightarrow> Some v | None \<Rightarrow> acc) else acc) chain None"

text \<open>The latest value, whatever the block.\<close>

definition latest_write :: "('s \<Rightarrow> 'v option) \<Rightarrow> (block_number \<times> 's) list \<Rightarrow> 'v option" where
  "latest_write w chain = fold (\<lambda>(b, s) acc. case w s of Some v \<Rightarrow> Some v | None \<Rightarrow> acc) chain None"

definition increasing :: "(block_number \<times> 's) list \<Rightarrow> bool" where
  "increasing chain \<longleftrightarrow> sorted_wrt (<) (map fst chain)"

lemma last_write_Nil [simp]: "last_write w [] n = None"
  by (simp add: last_write_def)

lemma last_write_snoc [simp]:
  "last_write w (chain @ [(b, s)]) n =
     (if b \<le> n then (case w s of Some v \<Rightarrow> Some v | None \<Rightarrow> last_write w chain n)
      else last_write w chain n)"
  by (simp add: last_write_def split: option.split)

lemma latest_write_Nil [simp]: "latest_write w [] = None"
  by (simp add: latest_write_def)

lemma latest_write_snoc [simp]:
  "latest_write w (chain @ [(b, s)]) = (case w s of Some v \<Rightarrow> Some v | None \<Rightarrow> latest_write w chain)"
  by (simp add: latest_write_def split: option.split)

lemma increasing_Nil [simp]: "increasing []"
  by (simp add: increasing_def)

lemma increasing_snoc [simp]:
  "increasing (chain @ [(b, s)]) \<longleftrightarrow> increasing chain \<and> (\<forall>e\<in>set chain. fst e < b)"
  by (auto simp: increasing_def sorted_wrt_append)

lemma latest_is_last:
  "\<forall>e\<in>set chain. fst e \<le> n \<Longrightarrow> last_write w chain n = latest_write w chain"
  by (induction chain rule: rev_induct) (auto split: option.splits)

section \<open>Change lists and history\<close>

definition writers :: "('s \<Rightarrow> 'v option) \<Rightarrow> (block_number \<times> 's) list \<Rightarrow> block_number set" where
  "writers w chain = {b. \<exists>s v. (b, s) \<in> set chain \<and> w s = Some v}"

lemma writers_Nil [simp]: "writers w [] = {}"
  by (simp add: writers_def)

lemma writers_snoc [simp]:
  "writers w (chain @ [(b, s)]) = (if w s = None then writers w chain else insert b (writers w chain))"
  by (auto simp: writers_def)

text \<open>The value found through the most recent change is the last write.\<close>

lemma last_write_recent:
  assumes "increasing chain" "iset_inv l" "set l = writers w chain"
    and "\<And>b s. (b, s) \<in> set chain \<Longrightarrow> h b = w s"
  shows "last_write w chain n =
    (case recent_change_from_block n l of Some b \<Rightarrow> h b | None \<Rightarrow> None)"
  using assms
proof (induction chain arbitrary: l rule: rev_induct)
  case Nil
  then show ?case by (simp add: recent_change_from_block_Max)
next
  case (snoc e chain)
  obtain b s where e: "e = (b, s)" by fastforce
  have less: "\<forall>x\<in>writers w chain. x < b"
    using snoc.prems(1) e by (force simp: writers_def)
  show ?case
  proof (cases "w s = None \<or> n < b")
    case True
    let ?l = "filter (\<lambda>x. x \<noteq> b) l"
    have set: "set ?l = writers w chain"
      using snoc.prems(3) e less by (cases "w s") auto
    have IH: "last_write w chain n = (case recent_change_from_block n ?l of Some b \<Rightarrow> h b | None \<Rightarrow> None)"
      using snoc.prems e set by (intro snoc.IH) auto
    have "{x \<in> set l. x \<le> n} = {x \<in> set ?l. x \<le> n}"
      using True snoc.prems(3) e less by (cases "w s") auto
    then have "recent_change_from_block n l = recent_change_from_block n ?l"
      using snoc.prems(2)
      by (auto simp: recent_change_from_block_Max simp del: set_filter cong: if_cong)
    then show ?thesis using IH True e by (auto split: option.splits)
  next
    case False
    then obtain v where v: "w s = Some v" by auto
    have "{x \<in> set l. x \<le> n} = insert b (writers w chain)"
      using snoc.prems(3) e v less False by auto
    moreover have "Max (insert b (writers w chain)) = b"
    proof (rule Max_eqI)
      show "finite (insert b (writers w chain))"
        using snoc.prems(3) e v by (metis List.finite_set writers_snoc option.distinct(1))
    qed (use less in auto)
    ultimately have "recent_change_from_block n l = Some b"
      using snoc.prems(2) False snoc.prems(3) e v by (auto simp: recent_change_from_block_Max)
    moreover have "h b = w s" using snoc.prems(4) e by simp
    ultimately show ?thesis using False e v by simp
  qed
qed

section \<open>The contract\<close>

text \<open>The database after writing the blocks of a chain in order.\<close>

definition build_chain :: "(block_number \<Rightarrow> 's \<Rightarrow> 'd \<Rightarrow> 'd) \<Rightarrow> 'd \<Rightarrow> (block_number \<times> 's) list \<Rightarrow> 'd" where
  "build_chain wr init chain = fold (\<lambda>(b, s). wr b s) chain init"

definition valid_chain :: "(block_number \<Rightarrow> 's \<Rightarrow> bool) \<Rightarrow> (block_number \<times> 's) list \<Rightarrow> bool" where
  "valid_chain valid chain \<longleftrightarrow> increasing chain \<and> (\<forall>e\<in>set chain. valid (fst e) (snd e))"

lemma build_chain_simps [simp]:
  "build_chain wr init [] = init"
  "build_chain wr init (chain @ [(b, s)]) = wr b s (build_chain wr init chain)"
  by (simp_all add: build_chain_def)

lemma valid_chain_snoc:
  "valid_chain valid (chain @ [(b, s)]) \<longleftrightarrow>
     valid_chain valid chain \<and> valid b s \<and> (\<forall>e\<in>set chain. fst e < b)"
  by (auto simp: valid_chain_def)

locale change_index =
  fixes ok :: "block_number \<Rightarrow> 'd \<Rightarrow> bool"
    and w :: "'s \<Rightarrow> 'k \<Rightarrow> 'v option"
    and valid :: "block_number \<Rightarrow> 's \<Rightarrow> bool"
    and wr :: "block_number \<Rightarrow> 's \<Rightarrow> 'd \<Rightarrow> 'd"
    and changes :: "'d \<Rightarrow> 'k \<Rightarrow> integer_set option"
    and entry :: "'d \<Rightarrow> block_number \<Rightarrow> 'k \<Rightarrow> 'v option"
    and empty :: 'd
  assumes ok_empty: "ok 0 empty"
    and ok_write: "ok n d \<Longrightarrow> n \<le> b \<Longrightarrow> valid b s \<Longrightarrow> ok (Suc b) (wr b s d)"
    and changes_empty: "changes empty k = None"
    and entry_empty: "entry empty b k = None"
    and changes_write: "ok n d \<Longrightarrow> n \<le> b \<Longrightarrow> valid b s \<Longrightarrow>
      changes (wr b s d) k =
        (if w s k = None then changes d k
         else Some (case changes d k of Some l \<Rightarrow> iset_insert b l | None \<Rightarrow> [b]))"
    and entry_write: "ok n d \<Longrightarrow> n \<le> b \<Longrightarrow> valid b s \<Longrightarrow>
      entry (wr b s d) b' k = (if b' = b then w s k else entry d b' k)"
begin

lemma build_ok:
  "valid_chain valid chain \<Longrightarrow> \<exists>n. ok n (build_chain wr empty chain) \<and> (\<forall>e\<in>set chain. fst e < n)
     \<and> (\<forall>b. (\<forall>e\<in>set chain. fst e < b) \<longrightarrow> n \<le> b)"
proof (induction chain rule: rev_induct)
  case Nil
  then show ?case using ok_empty by (auto simp: build_chain_simps)
next
  case (snoc e chain)
  obtain b s where e: "e = (b, s)" by fastforce
  from snoc obtain n where n: "ok n (build_chain wr empty chain)" "n \<le> b" "\<forall>e\<in>set chain. fst e < b" "valid b s"
    by (auto simp: valid_chain_snoc e)
  then have "ok (Suc b) (build_chain wr empty (chain @ [e]))"
    by (simp add: e build_chain_simps ok_write)
  then show ?case using n e by (intro exI [of _ "Suc b"]) (auto simp: less_Suc_eq_le Suc_le_eq less_imp_le)
qed

lemma changes_build:
  "valid_chain valid chain \<Longrightarrow>
   (case changes (build_chain wr empty chain) k of
      None \<Rightarrow> writers (\<lambda>s. w s k) chain = {}
    | Some l \<Rightarrow> iset_inv l \<and> set l = writers (\<lambda>s. w s k) chain)"
proof (induction chain rule: rev_induct)
  case Nil
  then show ?case by (simp add: build_chain_simps changes_empty)
next
  case (snoc e chain)
  obtain b s where e: "e = (b, s)" by fastforce
  from snoc.prems obtain n where n: "ok n (build_chain wr empty chain)" "n \<le> b"
    using build_ok [of chain] by (auto simp: valid_chain_snoc e)
  then have "changes (build_chain wr empty (chain @ [e])) k =
      (if w s k = None then changes (build_chain wr empty chain) k
       else Some (case changes (build_chain wr empty chain) k of Some l \<Rightarrow> iset_insert b l | None \<Rightarrow> [b]))"
    using snoc.prems by (simp add: e build_chain_simps changes_write valid_chain_snoc)
  then show ?case using snoc.IH snoc.prems
    by (auto simp: e valid_chain_snoc split: option.splits if_splits)
qed

lemma entry_build:
  "valid_chain valid chain \<Longrightarrow> (b, s) \<in> set chain \<Longrightarrow> entry (build_chain wr empty chain) b k = w s k"
proof (induction chain rule: rev_induct)
  case (snoc e chain)
  obtain b' s' where e: "e = (b', s')" by fastforce
  from snoc.prems obtain n where n: "ok n (build_chain wr empty chain)" "n \<le> b'" "valid b' s'"
    using build_ok [of chain] by (auto simp: valid_chain_snoc e)
  show ?case
  proof (cases "(b, s) \<in> set chain")
    case True
    then have "b \<noteq> b'" using snoc.prems by (auto simp: valid_chain_snoc e)
    then show ?thesis
      using snoc.IH snoc.prems(1) True n by (simp add: e build_chain_simps entry_write valid_chain_snoc)
  next
    case False
    then have "b = b'" "s = s'" using snoc.prems(2) e by auto
    then show ?thesis using n by (simp add: e build_chain_simps entry_write)
  qed
qed simp

text \<open>The lookup of the historical provider.\<close>

theorem historical_is_last_write:
  assumes "valid_chain valid chain"
  shows "(case changes (build_chain wr empty chain) k of
            None \<Rightarrow> None
          | Some l \<Rightarrow> (case recent_change_from_block n l of None \<Rightarrow> None
                        | Some b \<Rightarrow> entry (build_chain wr empty chain) b k)) =
    last_write (\<lambda>s. w s k) chain n"
proof (cases "changes (build_chain wr empty chain) k")
  case None
  then have "writers (\<lambda>s. w s k) chain = {}"
    using changes_build [OF assms, of k] by simp
  then have "last_write (\<lambda>s. w s k) chain n = None"
    by (induction chain rule: rev_induct) (auto simp: split_beta split: if_splits)
  with None show ?thesis by simp
next
  case (Some l)
  have "last_write (\<lambda>s. w s k) chain n =
      (case recent_change_from_block n l of Some b \<Rightarrow> entry (build_chain wr empty chain) b k | None \<Rightarrow> None)"
    using changes_build [OF assms, of k] Some assms
    by (intro last_write_recent) (auto simp: valid_chain_def entry_build [OF assms])
  with Some show ?thesis by (auto split: option.splits)
qed

text \<open>A recent change always has its history entry: the lookup never reports it missing.\<close>

theorem recent_change_has_entry:
  assumes "valid_chain valid chain" "changes (build_chain wr empty chain) k = Some l" "recent_change_from_block n l = Some b"
  shows "\<exists>v. entry (build_chain wr empty chain) b k = Some v"
proof -
  have l: "iset_inv l" "set l = writers (\<lambda>s. w s k) chain"
    using changes_build [OF assms(1), of k] assms(2) by auto
  then have "b \<in> set l"
    using recent_change_SomeD assms(3) by blast
  then obtain s v where "(b, s) \<in> set chain" "w s k = Some v"
    using l(2) by (auto simp: writers_def)
  then show ?thesis using entry_build [OF assms(1)] by fastforce
qed

end

end
