(* ===== verification/Db_History.thy ===== *)
theory Db_History
  imports Db_State
begin

text \<open>
  The state tables implement the chain of state updates.  The change lists and histories of
  storage, nonces and class hashes are three interpretations of \<open>change_index\<close> on the block
  writer; the historical provider then returns the last write at or before its block and
  never reports a missing entry, and the latest provider agrees with it at the tip.
\<close>

section \<open>Read-modify-write loops\<close>

lemma tbl_get_fold_modify:
  assumes "\<And>e t. step e t = tbl_put (f e) (u e (tbl_get t (f e))) t" "distinct (map f es)"
  shows "tbl_get (fold step es t) k =
    (case map_of (map (\<lambda>e. (f e, e)) es) k of Some e \<Rightarrow> Some (u e (tbl_get t k)) | None \<Rightarrow> tbl_get t k)"
  using assms(2)
proof (induction es arbitrary: t)
  case (Cons e es)
  have "k = f e \<Longrightarrow> map_of (map (\<lambda>e. (f e, e)) es) k = None"
    using Cons.prems by (auto simp: map_of_eq_None_iff image_iff)
  then show ?case
    using Cons by (auto simp: assms(1) table_simps split: option.split)
qed simp

lemma tbl_inv_fold_modify:
  assumes "\<And>e t. step e t = tbl_put (f e) (u e (tbl_get t (f e))) t" "tbl_inv t"
  shows "tbl_inv (fold step es t)"
  using assms(2) by (rule fold_keeps [rotated]) (simp add: assms(1))

lemma tbl_inv_distinct_fst: "tbl_inv t \<Longrightarrow> distinct (map fst t)"
  by (simp add: tbl_inv_def sorted_wrt_less_distinct)

text \<open>For an ordered map keyed by itself, looking an entry up yields the entry.\<close>

lemma map_of_keyed: "map_of (map (\<lambda>e. (fst e, e)) es) k = map_option (Pair k) (map_of es k)"
  by (induction es) auto

lemma tbl_get_fold_modify_map:
  assumes "\<And>e t. step e t = tbl_put (fst e) (u (snd e) (tbl_get t (fst e))) t" "tbl_inv es"
  shows "tbl_get (fold step es t) k =
    (case tbl_get es k of Some v \<Rightarrow> Some (u v (tbl_get t k)) | None \<Rightarrow> tbl_get t k)"
  using tbl_get_fold_modify [of step fst "\<lambda>e. u (snd e)" es t k] assms
  by (simp add: tbl_inv_distinct_fst map_of_keyed tbl_get_def split: option.split)

section \<open>Flattened storage updates\<close>

lemma set_flat_storage:
  "((a, k), v) \<in> set (flat_storage ss) \<longleftrightarrow> (\<exists>m. (a, m) \<in> set ss \<and> (k, v) \<in> set m)"
  by (force simp: flat_storage_def)

lemma flat_storage_sorted:
  "tbl_inv ss \<Longrightarrow> \<forall>e\<in>set ss. tbl_inv (snd e) \<Longrightarrow> tbl_inv (flat_storage ss)"
proof (induction ss)
  case (Cons e ss)
  obtain a m where e: "e = (a, m)" by fastforce
  have "sorted_wrt (<) (map fst (map (\<lambda>(k, v). ((a, k), v)) m))"
    using Cons.prems(2) e by (simp add: tbl_inv_def sorted_wrt_map split_beta)
  moreover have "tbl_inv (flat_storage ss)" using Cons by (cases e) auto
  moreover have "fst x < fst y"
    if "x \<in> set (map (\<lambda>(k, v). ((a, k), v)) m)" "y \<in> set (flat_storage ss)" for x y
  proof -
    obtain a' k' v' where y: "y = ((a', k'), v')" by (metis prod.exhaust)
    then have "a' \<in> tbl_keys ss" using that(2) by (force simp: set_flat_storage tbl_keys_def)
    then have "a < a'" using Cons.prems(1) e by simp
    then show ?thesis using that(1) y by (auto simp: less_prod_def)
  qed
  moreover have "flat_storage (e # ss) = map (\<lambda>(k, v). ((a, k), v)) m @ flat_storage ss"
    by (simp add: flat_storage_def e)
  ultimately show ?case
    unfolding tbl_inv_def by (simp only: map_append sorted_wrt_append) fastforce
qed (simp add: flat_storage_def)

lemma tbl_get_flat_storage:
  assumes "tbl_inv ss" "\<forall>e\<in>set ss. tbl_inv (snd e)"
  shows "tbl_get (flat_storage ss) ak = Option.bind (tbl_get ss (fst ak)) (\<lambda>m. tbl_get m (snd ak))"
proof -
  obtain a k where ak: "ak = (a, k)" by fastforce
  have "tbl_get (flat_storage ss) (a, k) = Some v \<longleftrightarrow>
      Option.bind (tbl_get ss a) (\<lambda>m. tbl_get m k) = Some v" for v
  proof -
    have "tbl_get (flat_storage ss) (a, k) = Some v \<longleftrightarrow> (\<exists>m. (a, m) \<in> set ss \<and> (k, v) \<in> set m)"
      by (simp add: tbl_inv_map_of_in flat_storage_sorted assms set_flat_storage)
    also have "\<dots> \<longleftrightarrow> (\<exists>m. tbl_get ss a = Some m \<and> tbl_get m k = Some v)"
      using assms by (metis tbl_inv_map_of_in snd_conv)
    finally show ?thesis by (auto simp: bind_eq_Some_conv)
  qed
  then show ?thesis using ak by (metis fst_conv not_None_eq snd_conv)
qed

lemma storage_write_flat:
  "updates_ok (bi_updates i) \<Longrightarrow> tbl_get (flat_storage (storage_updates (bi_updates i))) ak = storage_write i ak"
  by (simp add: updates_ok_def storage_write_def tbl_get_flat_storage)

section \<open>History tables\<close>

text \<open>A history table in which every block below \<open>n\<close> has at most one value per subkey.\<close>

definition history_ok :: "block_number \<Rightarrow> (block_number, ('s :: linorder) \<times> ('v :: linorder)) table \<Rightarrow> bool" where
  "history_ok n t \<longleftrightarrow> dup_inv t \<and> dup_functional t \<and> (\<forall>e\<in>set t. fst e < n)"

lemma history_ok_Nil [simp]: "history_ok n []"
  by (simp add: history_ok_def)

lemma set_fold_dup_put: "set (fold (dup_put b) es t) = Pair b ` set es \<union> set t"
  by (induction es arbitrary: t) auto

lemma history_ok_write:
  assumes "history_ok n t" "n \<le> b" "tbl_inv es"
  shows "history_ok (Suc b) (fold (dup_put b) es t)"
proof -
  have "dup_inv (fold (dup_put b) es t)"
    using assms(1) by (intro fold_keeps [of _ dup_inv]) (auto simp: history_ok_def)
  moreover have "dup_functional (fold (dup_put b) es t)"
  proof -
    have "v = v'" if "(s, v) \<in> set es" "(s, v') \<in> set es" for s v v'
      using that tbl_inv_map_of_in [OF assms(3)] by (metis option.inject)
    moreover have "(b, x) \<notin> set t" for x
      using assms(1,2) by (auto simp: history_ok_def)
    moreover have "dup_functional t" using assms(1) by (simp add: history_ok_def)
    ultimately show ?thesis
      unfolding dup_functional_def set_fold_dup_put by (auto; force)
  qed
  ultimately show ?thesis
    using assms unfolding history_ok_def set_fold_dup_put by auto
qed

lemma history_get_write:
  assumes "history_ok n t" "n \<le> b" "tbl_inv es"
  shows "dup_get (fold (dup_put b) es t) b' s = (if b' = b then tbl_get es s else dup_get t b' s)"
proof -
  have ok': "history_ok (Suc b) (fold (dup_put b) es t)" by (rule history_ok_write [OF assms])
  have fresh: "(b, x) \<notin> set t" for x using assms(1,2) by (auto simp: history_ok_def)
  have "dup_get (fold (dup_put b) es t) b' s = Some v \<longleftrightarrow>
      (if b' = b then tbl_get es s else dup_get t b' s) = Some v" for v
    using ok' assms(1,3) fresh
    by (auto simp: history_ok_def dup_get_iff set_fold_dup_put tbl_inv_map_of_in)
  then show ?thesis by (metis not_None_eq)
qed

lemma seek_of_dup_get: "dup_get t k s = Some v \<Longrightarrow> seek_by_key_subkey k s t = Some (s, v)"
  by (auto simp: dup_get_def split: option.splits if_splits)

section \<open>Storage\<close>

definition storage_index_ok :: "block_number \<Rightarrow> ('cls, 'info) db \<Rightarrow> bool" where
  "storage_index_ok n d \<longleftrightarrow> history_ok n (tb_StorageChangeHistory d)"

lemma iset_from_single [simp]: "iset_from [b] = [b]"
  by (simp add: iset_from_def iset_new_def)

interpretation storage_index: change_index storage_index_ok storage_write input_ok "\<lambda>n i. insert_input i"
  "\<lambda>d. tbl_get (tb_StorageChangeSet d)" "\<lambda>d. dup_get (tb_StorageChangeHistory d)" db_empty
proof (unfold_locales, goal_cases)
  case (2 n d b i)
  then show ?case
    by (simp add: storage_index_ok_def insert_input_def db_simps input_ok_def updates_ok_def
        flat_storage_sorted history_ok_write)
next
  case (5 n d b i ak)
  then have ok: "updates_ok (bi_updates i)" "bi_number i = b" by (simp_all add: input_ok_def)
  then have inv: "tbl_inv (flat_storage (storage_updates (bi_updates i)))"
    by (simp add: updates_ok_def flat_storage_sorted)
  show ?case
    unfolding insert_input_def insert_block_state_tables ok(2) storage_write_flat [OF ok(1), symmetric]
    by (subst tbl_get_fold_modify_map [where u = "\<lambda>_. update_block_list b"])
       (use inv in \<open>auto simp: change_list_step_def update_block_list_def split: option.split\<close>)
next
  case (6 n d b i b' ak)
  then have ok: "updates_ok (bi_updates i)" "bi_number i = b" by (simp_all add: input_ok_def)
  then have inv: "tbl_inv (flat_storage (storage_updates (bi_updates i)))"
    by (simp add: updates_ok_def flat_storage_sorted)
  show ?case
    unfolding insert_input_def insert_block_state_tables ok(2) storage_write_flat [OF ok(1), symmetric]
    using 6 inv by (intro history_get_write) (auto simp: storage_index_ok_def)
qed (simp_all add: storage_index_ok_def db_empty_def dup_get_def seek_by_key_subkey_def)

lemma historical_storage_lookup:
  assumes "inputs_ok is"
  shows "historical_storage (db_of is) n a k =
    Inr (last_write (\<lambda>i. storage_write i (a, k)) (numbered is) n)"
proof -
  note valid = inputs_ok_chain [OF assms]
  let ?d = "db_of is"
  note H = storage_index.historical_is_last_write [OF valid, of "(a, k)" n, folded db_of_build]
  show ?thesis
  proof (cases "Option.bind (tbl_get (tb_StorageChangeSet ?d) (a, k)) (recent_change_from_block n)")
    case None
    then show ?thesis using H by (auto simp: historical_storage_def bind_eq_None_conv split: option.splits)
  next
    case (Some b)
    then obtain l where l: "tbl_get (tb_StorageChangeSet ?d) (a, k) = Some l"
        "recent_change_from_block n l = Some b"
      by (auto simp: bind_eq_Some_conv)
    then obtain v where v: "dup_get (tb_StorageChangeHistory ?d) b (a, k) = Some v"
      using storage_index.recent_change_has_entry [OF valid, folded db_of_build] by blast
    then have "last_write (\<lambda>i. storage_write i (a, k)) (numbered is) n = Some v"
      using H l by simp
    then show ?thesis
      using Some by (simp add: historical_storage_def seek_of_dup_get [OF v])
  qed
qed

section \<open>Contract information\<close>

text \<open>Nonces and class hashes share one change-set row per contract; an empty list in it means
  that the contract never changed in that respect.\<close>

definition nonce_changes :: "('cls, 'info) db \<Rightarrow> contract_address \<Rightarrow> integer_set option" where
  "nonce_changes d a = Option.bind (tbl_get (tb_ContractInfoChangeSet d) a)
     (\<lambda>c. if nonce_change_list c = [] then None else Some (nonce_change_list c))"

definition class_changes :: "('cls, 'info) db \<Rightarrow> contract_address \<Rightarrow> integer_set option" where
  "class_changes d a = Option.bind (tbl_get (tb_ContractInfoChangeSet d) a)
     (\<lambda>c. if class_change_list c = [] then None else Some (class_change_list c))"

definition nonce_index_ok :: "block_number \<Rightarrow> ('cls, 'info) db \<Rightarrow> bool" where
  "nonce_index_ok n d \<longleftrightarrow> history_ok n (tb_NonceChangeHistory d)"

definition class_index_ok :: "block_number \<Rightarrow> ('cls, 'info) db \<Rightarrow> bool" where
  "class_index_ok n d \<longleftrightarrow> history_ok n (tb_ClassChangeHistory d)"

lemma change_set_after_insert:
  assumes "updates_ok (bi_updates i)"
  shows "tbl_get (tb_ContractInfoChangeSet (insert_input i d)) a =
    (let c1 = (case class_write i a of Some _ \<Rightarrow> Some (class_change_set (bi_number i) (tbl_get (tb_ContractInfoChangeSet d) a))
               | None \<Rightarrow> tbl_get (tb_ContractInfoChangeSet d) a)
     in case nonce_write i a of Some _ \<Rightarrow> Some (nonce_change_set (bi_number i) c1) | None \<Rightarrow> c1)"
proof -
  have inv: "tbl_inv (nonce_updates (bi_updates i))" "tbl_inv (deployed_contracts (bi_updates i))"
    using assms by (simp_all add: updates_ok_def)
  note get_nonce = tbl_get_fold_modify_map
    [of "nonce_list_step (bi_number i)" "\<lambda>_. nonce_change_set (bi_number i)", OF nonce_list_step_def inv(1)]
  note get_class = tbl_get_fold_modify_map
    [of "class_list_step (bi_number i)" "\<lambda>_. class_change_set (bi_number i)", OF class_list_step_def inv(2)]
  show ?thesis
    unfolding insert_input_def insert_block_state_tables get_nonce get_class Let_def
      nonce_write_def class_write_def ..
qed

lemma iset_insert_ne [simp]: "iset_insert n s \<noteq> []"
  by (cases s) auto

lemma nonce_changes_insert:
  assumes "updates_ok (bi_updates i)"
  shows "nonce_changes (insert_input i d) a =
    (if nonce_write i a = None then nonce_changes d a
     else Some (case nonce_changes d a of Some l \<Rightarrow> iset_insert (bi_number i) l | None \<Rightarrow> [bi_number i]))"
  unfolding nonce_changes_def change_set_after_insert [OF assms]
  by (auto simp: Let_def nonce_change_set_def class_change_set_def iset_new_def
      split: option.split Option.bind_split)

lemma class_changes_insert:
  assumes "updates_ok (bi_updates i)"
  shows "class_changes (insert_input i d) a =
    (if class_write i a = None then class_changes d a
     else Some (case class_changes d a of Some l \<Rightarrow> iset_insert (bi_number i) l | None \<Rightarrow> [bi_number i]))"
  unfolding class_changes_def change_set_after_insert [OF assms]
  by (auto simp: Let_def nonce_change_set_def class_change_set_def iset_new_def
      split: option.split Option.bind_split)

interpretation nonce_index: change_index nonce_index_ok nonce_write input_ok "\<lambda>n i. insert_input i"
  nonce_changes "\<lambda>d. dup_get (tb_NonceChangeHistory d)" db_empty
proof (unfold_locales, goal_cases)
  case (2 n d b i)
  then show ?case
    by (simp add: nonce_index_ok_def insert_input_def db_simps input_ok_def updates_ok_def history_ok_write)
next
  case (5 n d b i a)
  then show ?case using nonce_changes_insert [of i d a] by (auto simp: input_ok_def)
next
  case (6 n d b i b' a)
  then show ?case
    unfolding insert_input_def insert_block_state_tables nonce_write_def
    using history_get_write [of n "tb_NonceChangeHistory d" b "nonce_updates (bi_updates i)" b' a]
    by (auto simp: nonce_index_ok_def input_ok_def updates_ok_def)
qed (simp_all add: nonce_index_ok_def nonce_changes_def db_empty_def dup_get_def seek_by_key_subkey_def)

interpretation class_index: change_index class_index_ok class_write input_ok "\<lambda>n i. insert_input i"
  class_changes "\<lambda>d. dup_get (tb_ClassChangeHistory d)" db_empty
proof (unfold_locales, goal_cases)
  case (2 n d b i)
  then show ?case
    by (simp add: class_index_ok_def insert_input_def db_simps input_ok_def updates_ok_def history_ok_write)
next
  case (5 n d b i a)
  then show ?case using class_changes_insert [of i d a] by (auto simp: input_ok_def)
next
  case (6 n d b i b' a)
  then show ?case
    unfolding insert_input_def insert_block_state_tables class_write_def
    using history_get_write [of n "tb_ClassChangeHistory d" b "deployed_contracts (bi_updates i)" b' a]
    by (auto simp: class_index_ok_def input_ok_def updates_ok_def)
qed (simp_all add: class_index_ok_def class_changes_def db_empty_def dup_get_def seek_by_key_subkey_def)

lemma recent_change_Nil [simp]: "recent_change_from_block n [] = None"
  by (simp add: recent_change_from_block_def iset_rank_def)

lemma historical_nonce_lookup:
  assumes "inputs_ok is"
  shows "historical_nonce (db_of is) n a = Inr (last_write (\<lambda>i. nonce_write i a) (numbered is) n)"
proof -
  note valid = inputs_ok_chain [OF assms]
  let ?d = "db_of is"
  note H = nonce_index.historical_is_last_write [OF valid, of a n, folded db_of_build]
  have eq: "Option.bind (tbl_get (tb_ContractInfoChangeSet ?d) a)
      (\<lambda>c. recent_change_from_block n (nonce_change_list c)) =
      Option.bind (nonce_changes ?d a) (recent_change_from_block n)"
    by (auto simp: nonce_changes_def split: Option.bind_split)
  show ?thesis
  proof (cases "Option.bind (nonce_changes ?d a) (recent_change_from_block n)")
    case None
    then show ?thesis using H
      by (auto simp: historical_nonce_def eq bind_eq_None_conv split: option.splits)
  next
    case (Some b)
    then obtain l where l: "nonce_changes ?d a = Some l" "recent_change_from_block n l = Some b"
      by (auto simp: bind_eq_Some_conv)
    then obtain v where v: "dup_get (tb_NonceChangeHistory ?d) b a = Some v"
      using nonce_index.recent_change_has_entry [OF valid, folded db_of_build] by blast
    then have "last_write (\<lambda>i. nonce_write i a) (numbered is) n = Some v"
      using H l by simp
    then show ?thesis
      using Some by (simp add: historical_nonce_def eq seek_of_dup_get [OF v])
  qed
qed

lemma historical_class_hash_lookup:
  assumes "inputs_ok is"
  shows "historical_class_hash (db_of is) n a = Inr (last_write (\<lambda>i. class_write i a) (numbered is) n)"
proof -
  note valid = inputs_ok_chain [OF assms]
  let ?d = "db_of is"
  note H = class_index.historical_is_last_write [OF valid, of a n, folded db_of_build]
  have eq: "Option.bind (tbl_get (tb_ContractInfoChangeSet ?d) a)
      (\<lambda>c. recent_change_from_block n (class_change_list c)) =
      Option.bind (class_changes ?d a) (recent_change_from_block n)"
    by (auto simp: class_changes_def split: Option.bind_split)
  show ?thesis
  proof (cases "Option.bind (class_changes ?d a) (recent_change_from_block n)")
    case None
    then show ?thesis using H
      by (auto simp: historical_class_hash_def eq bind_eq_None_conv split: option.splits)
  next
    case (Some b)
    then obtain l where l: "class_changes ?d a = Some l" "recent_change_from_block n l = Some b"
      by (auto simp: bind_eq_Some_conv)
    then obtain v where v: "dup_get (tb_ClassChangeHistory ?d) b a = Some v"
      using class_index.recent_change_has_entry [OF valid, folded db_of_build] by blast
    then have "last_write (\<lambda>i. class_write i a) (numbered is) n = Some v"
      using H l by simp
    then show ?thesis
      using Some by (simp add: historical_class_hash_def eq seek_of_dup_get [OF v])
  qed
qed

section \<open>The latest state\<close>

definition storage_ok :: "('cls, 'info) db \<Rightarrow> bool" where
  "storage_ok d \<longleftrightarrow> dup_inv (tb_ContractStorage d) \<and> dup_functional (tb_ContractStorage d)"

lemma set_storage_upsert:
  assumes "dup_inv t" "dup_functional t"
  shows "set (storage_upsert a k v t) = insert (a, k, v) {e \<in> set t. \<not> (fst e = a \<and> fst (snd e) = k)}"
proof (cases "\<exists>v'. (a, k, v') \<in> set t")
  case True
  then obtain v' where v': "(a, k, v') \<in> set t" by blast
  then have "dup_get t a k = Some v'" using dup_get_iff [OF assms] by simp
  then have "seek_by_key_subkey a k t = Some (k, v')" by (rule seek_of_dup_get)
  then have up: "storage_upsert a k v t = dup_put a (k, v) (fst (dup_delete a (k, v') t))"
    by (simp add: storage_upsert_def)
  have uniq: "e = (a, k, v')" if "e \<in> set t" "fst e = a" "fst (snd e) = k" for e
    using that v' assms(2) unfolding dup_functional_def by force
  have "x \<in> {e \<in> set t. \<not> (fst e = a \<and> fst (snd e) = k)} \<longleftrightarrow> x \<in> set t - {(a, k, v')}" for x
    using uniq [of x] by (cases "x = (a, k, v')") auto
  then show ?thesis unfolding up set_dup_put set_dup_delete by blast
next
  case False
  then have none: "dup_get t a k = None" using dup_get_eq_None [OF assms(1)] by blast
  have "storage_upsert a k v t = dup_put a (k, v) t"
    using none by (auto simp: storage_upsert_def dup_get_def split: option.splits if_splits)
  then show ?thesis using False by force
qed

lemma storage_upsert_ok:
  assumes "dup_inv t" "dup_functional t"
  shows "dup_inv (storage_upsert a k v t)" "dup_functional (storage_upsert a k v t)"
proof -
  show "dup_inv (storage_upsert a k v t)"
    using assms(1) by (auto simp: storage_upsert_def Let_def split: option.split)
  show "dup_functional (storage_upsert a k v t)"
    using assms(2) unfolding dup_functional_def set_storage_upsert [OF assms] by auto
qed

lemma dup_get_storage_upsert:
  assumes "dup_inv t" "dup_functional t"
  shows "dup_get (storage_upsert a k v t) a' k' = (if a' = a \<and> k' = k then Some v else dup_get t a' k')"
proof -
  note ok = storage_upsert_ok [OF assms, of a k v]
  have "dup_get (storage_upsert a k v t) a' k' = Some x \<longleftrightarrow>
      (if a' = a \<and> k' = k then Some v else dup_get t a' k') = Some x" for x
    unfolding dup_get_iff [OF ok] set_storage_upsert [OF assms]
    using dup_get_iff [OF assms] by auto
  then show ?thesis by (metis not_None_eq)
qed

lemma storage_steps:
  assumes "dup_inv t" "dup_functional t" "distinct (map fst es)"
  shows "dup_inv (fold storage_step es t) \<and> dup_functional (fold storage_step es t)
    \<and> dup_get (fold storage_step es t) a k =
        (case map_of es (a, k) of Some v \<Rightarrow> Some v | None \<Rightarrow> dup_get t a k)"
  using assms
proof (induction es arbitrary: t)
  case (Cons e es)
  obtain a' k' v' where e: "e = ((a', k'), v')" by (metis prod.exhaust)
  have "map_of es (a', k') = None"
    using Cons.prems(3) e by (simp add: map_of_eq_None_iff)
  moreover note Cons.IH [of "storage_step e t"] storage_upsert_ok [OF Cons.prems(1,2), of a' k' v']
  ultimately show ?case using Cons.prems e
    by (auto simp: storage_step_def dup_get_storage_upsert split: option.splits)
qed simp

lemma latest_storage_dup_get: "latest_storage d a k = Inr (dup_get (tb_ContractStorage d) a k)"
  by (auto simp: latest_storage_def dup_get_def split: option.split)

lemma storage_insert:
  assumes "storage_ok d" "updates_ok (bi_updates i)"
  shows "storage_ok (insert_input i d) \<and>
    dup_get (tb_ContractStorage (insert_input i d)) a k =
      (case storage_write i (a, k) of Some v \<Rightarrow> Some v | None \<Rightarrow> dup_get (tb_ContractStorage d) a k)"
proof -
  have inv: "tbl_inv (flat_storage (storage_updates (bi_updates i)))"
    using assms(2) by (simp add: updates_ok_def flat_storage_sorted)
  show ?thesis
    using storage_steps [of "tb_ContractStorage d" "flat_storage (storage_updates (bi_updates i))" a k]
      assms tbl_inv_distinct_fst [OF inv] storage_write_flat [OF assms(2), of "(a, k)"]
    by (simp add: storage_ok_def insert_input_def db_simps tbl_get_def)
qed

lemma db_of_snoc: "db_of (is @ [i]) = insert_input i (db_of is)"
  by (simp add: db_of_def)

lemma numbered_snoc: "numbered (is @ [i]) = numbered is @ [(bi_number i, i)]"
  by (simp add: numbered_def)

lemma inputs_ok_snoc:
  "inputs_ok (is @ [i]) \<longleftrightarrow> inputs_ok is \<and> updates_ok (bi_updates i) \<and> (\<forall>j\<in>set is. bi_number j < bi_number i)"
  by (auto simp: inputs_ok_def sorted_wrt_append)

lemma latest_storage_lookup:
  "inputs_ok is \<Longrightarrow>
   storage_ok (db_of is) \<and>
   latest_storage (db_of is) a k = Inr (latest_write (\<lambda>i. storage_write i (a, k)) (numbered is))"
proof (induction "is" rule: rev_induct)
  case Nil
  then show ?case
    by (simp add: db_of_def db_empty_def storage_ok_def latest_storage_def seek_by_key_subkey_def numbered_def)
next
  case (snoc i "is")
  then show ?case
    using storage_insert [of "db_of is" i a k]
    by (auto simp: db_of_snoc numbered_snoc inputs_ok_snoc latest_storage_dup_get split: option.split)
qed

lemma info_insert:
  assumes "updates_ok (bi_updates i)"
  shows "tbl_get (tb_ContractInfo (insert_input i d)) a =
    (let c1 = (case class_write i a of Some c \<Rightarrow> Some (info_with_class c (tbl_get (tb_ContractInfo d) a))
               | None \<Rightarrow> tbl_get (tb_ContractInfo d) a)
     in case nonce_write i a of Some v \<Rightarrow> Some (info_with_nonce v c1) | None \<Rightarrow> c1)"
proof -
  have inv: "tbl_inv (nonce_updates (bi_updates i))" "tbl_inv (deployed_contracts (bi_updates i))"
    using assms by (simp_all add: updates_ok_def)
  note get_nonce = tbl_get_fold_modify_map [of nonce_info_step info_with_nonce, OF nonce_info_step_def inv(1)]
  note get_class = tbl_get_fold_modify_map [of class_info_step info_with_class, OF class_info_step_def inv(2)]
  show ?thesis
    unfolding insert_input_def insert_block_state_tables get_nonce get_class Let_def
      nonce_write_def class_write_def ..
qed

text \<open>The latest information of a contract: absent when the contract was never touched, with
  zero for the component that was never written.\<close>

lemma latest_info_lookup:
  "inputs_ok is \<Longrightarrow>
   tbl_get (tb_ContractInfo (db_of is)) a =
     (case (latest_write (\<lambda>i. nonce_write i a) (numbered is), latest_write (\<lambda>i. class_write i a) (numbered is)) of
        (None, None) \<Rightarrow> None
      | (n, c) \<Rightarrow> Some \<lparr>ci_nonce = (case n of Some v \<Rightarrow> v | None \<Rightarrow> 0),
                       ci_class_hash = (case c of Some v \<Rightarrow> v | None \<Rightarrow> 0)\<rparr>)"
proof (induction "is" rule: rev_induct)
  case Nil
  then show ?case by (simp add: db_of_def db_empty_def numbered_def)
next
  case (snoc i "is")
  then show ?case
    using info_insert [of i "db_of is" a]
    by (auto simp: db_of_snoc numbered_snoc inputs_ok_snoc Let_def info_with_nonce_def
        info_with_class_def contract_info_default_def split: option.split)
qed

section \<open>The factory\<close>

lemma headers_of_db: "tbl_keys (tb_Headers (db_of is)) = bi_number ` set is"
  by (induction "is" rule: rev_induct)
     (auto simp: db_of_def db_empty_def insert_input_def db_simps)

lemma db_ok_db_of:
  assumes "\<forall>i\<in>set is. length (bi_receipts i) \<le> length (sb_body (sbs_block (bi_block i)))
    \<and> length (bi_executions i) \<le> length (sb_body (sbs_block (bi_block i)))"
  shows "db_ok (db_of is)"
  using assms
proof (induction "is" rule: rev_induct)
  case Nil
  then show ?case by (simp add: db_of_def db_ok_empty)
next
  case (snoc i "is")
  then show ?case by (simp add: db_of_snoc insert_input_def db_ok_insert_block)
qed

lemma block_hashes_db_of:
  "tbl_inv (tb_BlockHashes (db_of is)) \<and> tbl_keys (tb_BlockHashes (db_of is)) = bi_number ` set is"
  by (induction "is" rule: rev_induct)
     (auto simp: db_of_def db_empty_def insert_input_def db_simps)

lemma latest_number_db_of:
  assumes "inputs_ok (is @ [i])"
  shows "latest_number (db_of (is @ [i])) = Inr (bi_number i)"
proof -
  have inv: "tbl_inv (tb_BlockHashes (db_of (is @ [i])))"
    using block_hashes_db_of by blast
  have "tbl_last (tb_BlockHashes (db_of (is @ [i]))) = Some (bi_number i, sb_hash (sbs_block (bi_block i)))"
    unfolding tbl_last_Some [OF inv]
    using assms block_hashes_db_of [of "is @ [i]"]
    by (auto simp: inputs_ok_snoc db_of_snoc insert_input_def db_simps table_simps less_imp_le)
  then show ?thesis by (simp add: latest_number_def)
qed

lemma numbered_bound: "inputs_ok (is @ [i]) \<Longrightarrow> \<forall>e\<in>set (numbered (is @ [i])). fst e \<le> bi_number i"
  by (auto simp: inputs_ok_snoc numbered_def less_imp_le)

end
