(* ===== verification/Db_Updates.thy ===== *)
theory Db_Updates
  imports Db_History
begin

text \<open>
  Reading the state update of a block back from the change tables: the maps that
  \<open>state_update\<close> rebuilds are the ones the writer was given.
\<close>

section \<open>Ordered maps are determined by their lookups\<close>

lemma tbl_set_eqI:
  assumes "tbl_inv t" "tbl_inv t'" "set t = set t'"
  shows "t = t'"
proof (rule map_sorted_distinct_set_unique [where f = fst])
  have "distinct (map fst t)" using assms(1) by (simp add: tbl_inv_def sorted_wrt_less_distinct)
  then show "inj_on fst (set t \<union> set t')" using assms(3) by (simp add: distinct_map)
qed (use assms in \<open>simp_all add: tbl_inv_def strict_sorted_iff\<close>)

lemma tbl_eqI:
  assumes "tbl_inv t" "tbl_inv t'" "\<And>k. tbl_get t k = tbl_get t' k"
  shows "t = t'"
proof (rule tbl_set_eqI [OF assms(1,2)])
  show "set t = set t'"
    using assms(3) tbl_inv_map_of_in [OF assms(1)] tbl_inv_map_of_in [OF assms(2)]
    by (metis subrelI subset_antisym)
qed

lemma collect_map_inv [simp]: "tbl_inv (collect_map es)"
  unfolding collect_map_def by (rule fold_keeps) (auto simp: split_beta)

lemma tbl_get_collect_map: "tbl_get (collect_map es) k = tbl_get (rev es) k"
proof -
  have "collect_map es = fold (\<lambda>e. tbl_put (fst e) (snd e)) es []"
    unfolding collect_map_def by (rule arg_cong [where f = "\<lambda>g. fold g es []"]) auto
  then show ?thesis
    using tbl.get_put_all [of es "[]" k] by (simp add: tbl_get_def [of "rev es"] split: option.split)
qed

lemma tbl_get_rev: "tbl_inv es \<Longrightarrow> tbl_get (rev es) k = tbl_get es k"
  by (simp add: tbl_get_def map_of_rev_distinct tbl_inv_distinct_fst)

lemma collect_map_id: "tbl_inv es \<Longrightarrow> collect_map es = es"
  by (rule tbl_eqI) (simp_all add: tbl_get_collect_map tbl_get_rev)

section \<open>The values of one block in a history table\<close>

lemma tbl_inv_sorted: "tbl_inv (es :: ('k :: linorder \<times> 'v :: linorder) list) \<Longrightarrow> sorted_wrt (<) es"
  unfolding tbl_inv_def by (induction es) (auto simp: less_prod_def)

lemma block_values_write:
  fixes es :: "('s :: linorder \<times> 'v :: linorder) list"
  assumes "history_ok n t" "n \<le> b" "tbl_inv es"
  shows "map snd (filter (\<lambda>e. fst e = b) (fold (dup_put b) es t)) = es"
proof -
  let ?vs = "map snd (filter (\<lambda>e. fst e = b) (fold (dup_put b) es t))"
  have "dup_inv (fold (dup_put b) es t)"
    using history_ok_write [OF assms] by (simp add: history_ok_def)
  then have "sorted_wrt (<) (filter (\<lambda>e. fst e = b) (fold (dup_put b) es t))"
    by (simp add: dup_inv_def sorted_wrt_filter)
  then have "sorted_wrt (<) ?vs"
    unfolding sorted_wrt_map by (rule sorted_wrt_mono_rel [rotated]) (auto simp: less_prod_def)
  moreover have "set ?vs = set es"
    using assms(1,2) by (force simp: set_fold_dup_put history_ok_def)
  ultimately show ?thesis
    using tbl_inv_sorted [OF assms(3)] by (metis strict_sorted_equal)
qed

lemma map_filter_Some [simp]: "List.map_filter Some xs = xs"
  by (induction xs) (simp_all add: List.map_filter_simps)

lemma dup_entries_filter: "dup_entries t k f = List.map_filter f (map snd (filter (\<lambda>e. fst e = k) t))"
  by (auto simp: dup_entries_def walk_dup_def List.map_filter_simps split: list.split)

lemma dup_entries_write:
  fixes es :: "('s :: linorder \<times> 'v :: linorder) list"
  assumes "history_ok n t" "n \<le> b" "tbl_inv es"
  shows "dup_entries (fold (dup_put b) es t) b Some = es"
  by (simp add: dup_entries_filter block_values_write [OF assms])

section \<open>Rebuilding the storage map\<close>

definition collect_step :: "contract_storage_entry
    \<Rightarrow> (contract_address, (storage_key, storage_value) table) table
    \<Rightarrow> (contract_address, (storage_key, storage_value) table) table" where
  "collect_step e m =
     tbl_put (fst (fst e)) (tbl_put (snd (fst e)) (snd e)
       (case tbl_get m (fst (fst e)) of Some inner \<Rightarrow> inner | None \<Rightarrow> [])) m"

lemma collect_storage_fold: "collect_storage es = fold collect_step es []"
  unfolding collect_storage_def
  by (rule arg_cong [where f = "\<lambda>g. fold g es []"]) (auto simp: fun_eq_iff collect_step_def)

definition nested_ok :: "(contract_address, (storage_key, storage_value) table) table \<Rightarrow> bool" where
  "nested_ok m \<longleftrightarrow> tbl_inv m \<and> (\<forall>e\<in>set m. tbl_inv (snd e) \<and> snd e \<noteq> [])"

definition nested_get :: "(contract_address, (storage_key, storage_value) table) table
    \<Rightarrow> contract_storage_key \<Rightarrow> storage_value option" where
  "nested_get m ak = Option.bind (tbl_get m (fst ak)) (\<lambda>i. tbl_get i (snd ak))"

lemma tbl_put_ne [simp]: "tbl_put k v t \<noteq> []"
  by (cases t) (auto split: if_splits)

lemma nested_ok_get: "nested_ok m \<Longrightarrow> tbl_get m a = Some i \<Longrightarrow> tbl_inv i \<and> i \<noteq> []"
  unfolding nested_ok_def using tbl_inv_map_of_in by fastforce

lemma nested_okI:
  assumes "tbl_inv m" "\<And>a i. tbl_get m a = Some i \<Longrightarrow> tbl_inv i \<and> i \<noteq> []"
  shows "nested_ok m"
  unfolding nested_ok_def using assms tbl_inv_map_of_in [OF assms(1)] by fastforce

lemma nested_ok_step: "nested_ok m \<Longrightarrow> nested_ok (collect_step e m)"
proof (rule nested_okI)
  assume m: "nested_ok m"
  then show "tbl_inv (collect_step e m)" by (simp add: collect_step_def nested_ok_def)
  fix a i assume "tbl_get (collect_step e m) a = Some i"
  then show "tbl_inv i \<and> i \<noteq> []"
    using nested_ok_get [OF m]
    by (auto simp: collect_step_def table_simps split: if_splits option.splits)
qed

lemma nested_get_step: "nested_get (collect_step e m) ak = (if ak = fst e then Some (snd e) else nested_get m ak)"
  by (cases ak; cases "fst e") (auto simp: nested_get_def collect_step_def table_simps split: option.split)

lemma collect_storage_ok: "nested_ok (collect_storage es)"
  unfolding collect_storage_fold
  by (rule fold_keeps [where P = nested_ok]) (simp_all add: nested_ok_step, simp add: nested_ok_def)

lemma nested_get_collect: "nested_get (collect_storage es) ak = tbl_get (rev es) ak"
proof -
  have "nested_get (fold collect_step es m) ak =
      (case map_of (rev es) ak of Some v \<Rightarrow> Some v | None \<Rightarrow> nested_get m ak)" for m
    by (induction es arbitrary: m) (auto simp: nested_get_step map_add_def split: option.splits if_splits)
  from this [of "[]"] show ?thesis
    by (simp add: collect_storage_fold nested_get_def tbl_get_def [of "rev es"] split: option.split)
qed

lemma nested_eqI:
  assumes "nested_ok m" "nested_ok m'" "\<And>ak. nested_get m ak = nested_get m' ak"
  shows "m = m'"
proof (rule tbl_eqI)
  show "tbl_inv m" "tbl_inv m'" using assms by (simp_all add: nested_ok_def)
  fix a
  have ex: "\<exists>k v. tbl_get i k = Some v" if "tbl_inv i" "i \<noteq> []" for i :: "(storage_key, storage_value) table"
    using that tbl_inv_map_of_in [OF that(1)] by (metis list.set_intros(1) neq_Nil_conv prod.exhaust)
  have dom: "tbl_get m1 a \<noteq> None \<Longrightarrow> tbl_get m2 a \<noteq> None"
    if n1: "nested_ok m1" and eq: "\<And>ak. nested_get m1 ak = nested_get m2 ak" for m1 m2
  proof -
    assume "tbl_get m1 a \<noteq> None"
    then obtain i k v where "tbl_get m1 a = Some i" "tbl_get i k = Some v"
      using ex nested_ok_get [OF n1] by blast
    then have "nested_get m2 (a, k) = Some v" using eq [of "(a, k)"] by (simp add: nested_get_def)
    then show ?thesis by (auto simp: nested_get_def bind_eq_Some_conv)
  qed
  show "tbl_get m a = tbl_get m' a"
  proof (cases "tbl_get m a")
    case None
    then show ?thesis using dom [OF assms(2)] assms(3) by (metis option.exhaust)
  next
    case (Some i)
    then obtain i' where i': "tbl_get m' a = Some i'"
      using dom [OF assms(1,3)] by blast
    have "tbl_get i k = tbl_get i' k" for k
      using assms(3) [of "(a, k)"] Some i' by (simp add: nested_get_def)
    then have "i = i'"
      using Some i' nested_ok_get assms(1,2) by (intro tbl_eqI) auto
    then show ?thesis using Some i' by simp
  qed
qed

lemma collect_flat_storage:
  assumes "nested_ok ss"
  shows "collect_storage (flat_storage ss) = ss"
proof (rule nested_eqI [OF collect_storage_ok assms])
  fix ak
  have inv: "tbl_inv ss" "\<forall>e\<in>set ss. tbl_inv (snd e)" using assms by (auto simp: nested_ok_def)
  have "tbl_inv (flat_storage ss)" by (rule flat_storage_sorted [OF inv])
  then show "nested_get (collect_storage (flat_storage ss)) ak = nested_get ss ak"
    by (simp add: nested_get_collect tbl_get_rev tbl_get_flat_storage [OF inv] nested_get_def [of ss])
qed

section \<open>Declarations\<close>

lemma set_fold_dup_put_key: "set (fold (\<lambda>e. dup_put b (f e)) es t) = (\<lambda>e. (b, f e)) ` set es \<union> set t"
  by (induction es arbitrary: t) auto

lemma map_of_rev_map_filter:
  "tbl_get (rev (List.map_filter (\<lambda>c. map_option (Pair c) (g c)) vs)) c = (if c \<in> set vs then g c else None)"
  by (induction vs) (auto simp: tbl_get_def List.map_filter_simps map_add_def split: option.splits if_splits)

definition declarations_ok :: "block_number \<Rightarrow> ('cls, 'info) db \<Rightarrow> bool" where
  "declarations_ok n d \<longleftrightarrow> dup_inv (tb_ClassDeclarations d) \<and> (\<forall>e\<in>set (tb_ClassDeclarations d). fst e < n)"

lemma declarations_after_insert:
  "set (tb_ClassDeclarations (insert_input i d)) =
     Pair (bi_number i) ` (tbl_keys (declared_classes (bi_updates i)) \<union> set (deprecated_declared_classes (bi_updates i)))
     \<union> set (tb_ClassDeclarations d)"
  unfolding insert_input_def insert_block_state_tables set_fold_dup_put set_fold_dup_put_key tbl_keys_def
  by auto

lemma declarations_ok_insert:
  assumes "declarations_ok n d" "n \<le> bi_number i"
  shows "declarations_ok (Suc (bi_number i)) (insert_input i d)"
proof -
  have "dup_inv (tb_ClassDeclarations (insert_input i d))"
    using assms(1) unfolding insert_input_def insert_block_state_tables declarations_ok_def
    by (intro fold_keeps [where P = dup_inv]) auto
  then show ?thesis
    using assms unfolding declarations_ok_def declarations_after_insert by auto
qed

lemma declarations_ok_db_of:
  "inputs_ok is \<Longrightarrow> \<forall>i\<in>set is. bi_number i < n \<Longrightarrow> declarations_ok n (db_of is)"
proof (induction "is" arbitrary: n rule: rev_induct)
  case Nil
  then show ?case by (simp add: db_of_def db_empty_def declarations_ok_def)
next
  case (snoc i "is")
  then have "declarations_ok (bi_number i) (db_of is)" by (simp add: inputs_ok_snoc)
  then have "declarations_ok (Suc (bi_number i)) (db_of (is @ [i]))"
    using declarations_ok_insert [of "bi_number i" "db_of is" i] by (simp add: db_of_snoc)
  then show ?case using snoc.prems(2) by (auto simp: declarations_ok_def)
qed

text \<open>The classes a block declared, in ascending order.\<close>

lemma declared_values:
  assumes "declarations_ok n d" "n \<le> bi_number i"
  defines "vs \<equiv> map snd (filter (\<lambda>e. fst e = bi_number i) (tb_ClassDeclarations (insert_input i d)))"
  shows "set vs = tbl_keys (declared_classes (bi_updates i)) \<union> set (deprecated_declared_classes (bi_updates i))"
    (is "_ = ?D")
proof -
  have "(bi_number i, c) \<notin> set (tb_ClassDeclarations d)" for c
    using assms(1,2) by (auto simp: declarations_ok_def)
  then show ?thesis unfolding vs_def by (force simp: declarations_after_insert)
qed

lemma compiled_after_insert:
  assumes "updates_ok (bi_updates i)"
  shows "tbl_get (tb_CompiledClassHashes (insert_input i d)) c =
    (case tbl_get (declared_classes (bi_updates i)) c of Some h \<Rightarrow> Some h
     | None \<Rightarrow> tbl_get (tb_CompiledClassHashes d) c)"
proof -
  have "distinct (map fst (declared_classes (bi_updates i)))"
    using assms by (simp add: updates_ok_def tbl_inv_distinct_fst)
  then show ?thesis
    unfolding insert_input_def insert_block_state_tables
    by (simp add: tbl.get_put_all_distinct tbl_get_def [of "declared_classes _"])
qed

text \<open>Deprecated classes have no compiled class hash.\<close>

definition deprecated_ok :: "('cls, 'info) db \<Rightarrow> state_updates \<Rightarrow> bool" where
  "deprecated_ok d s \<longleftrightarrow> (\<forall>c\<in>set (deprecated_declared_classes s).
     c \<notin> tbl_keys (declared_classes s) \<and> c \<notin> tbl_keys (tb_CompiledClassHashes d))"

lemma declared_in_block_inserted:
  assumes "declarations_ok n d" "n \<le> bi_number i" "updates_ok (bi_updates i)"
    and "deprecated_ok d (bi_updates i)"
  shows "declared_in_block (insert_input i d) (bi_number i) = declared_classes (bi_updates i)"
proof (rule tbl_eqI)
  show "tbl_inv (declared_in_block (insert_input i d) (bi_number i))"
    by (simp add: declared_in_block_def)
  show "tbl_inv (declared_classes (bi_updates i))" using assms(3) by (simp add: updates_ok_def)
  fix c
  show "tbl_get (declared_in_block (insert_input i d) (bi_number i)) c = tbl_get (declared_classes (bi_updates i)) c"
    unfolding declared_in_block_def dup_entries_filter tbl_get_collect_map map_of_rev_map_filter
      declared_values [OF assms(1,2)] compiled_after_insert [OF assms(3)]
    using assms(4) tbl_get_eq_None [of "declared_classes (bi_updates i)" c]
      tbl_get_eq_None [of "tb_CompiledClassHashes d" c]
    by (auto simp: deprecated_ok_def split: option.split dest: tbl_get_SomeD)
qed

lemma deprecated_in_block_inserted:
  assumes "declarations_ok n d" "n \<le> bi_number i" "updates_ok (bi_updates i)"
    and "deprecated_ok d (bi_updates i)"
  shows "deprecated_in_block (insert_input i d) (bi_number i) = deprecated_declared_classes (bi_updates i)"
proof -
  let ?C = "tb_CompiledClassHashes (insert_input i d)"
  let ?vs = "map snd (filter (\<lambda>e. fst e = bi_number i) (tb_ClassDeclarations (insert_input i d)))"
  let ?g = "\<lambda>c. if tbl_get ?C c = None then Some () else None"
  let ?m = "collect_map (List.map_filter (\<lambda>c. map_option (Pair c) (?g c)) ?vs)"
  have "(\<lambda>c. if tbl_get ?C c = None then Some (c, ()) else None) = (\<lambda>c. map_option (Pair c) (?g c))"
    by auto
  then have eq: "deprecated_in_block (insert_input i d) (bi_number i) = map fst ?m"
    by (simp only: deprecated_in_block_def dup_entries_filter)
  have "c \<in> tbl_keys ?m \<longleftrightarrow> c \<in> set (deprecated_declared_classes (bi_updates i))" for c
  proof -
    have "c \<in> tbl_keys ?m \<longleftrightarrow> tbl_get ?m c \<noteq> None" by (simp add: tbl_get_eq_None)
    also have "\<dots> \<longleftrightarrow> c \<in> set ?vs \<and> tbl_get ?C c = None"
      unfolding tbl_get_collect_map map_of_rev_map_filter by simp
    finally show ?thesis
      unfolding declared_values [OF assms(1,2)] compiled_after_insert [OF assms(3)]
      using assms(4) tbl_get_eq_None [of "declared_classes (bi_updates i)" c]
        tbl_get_eq_None [of "tb_CompiledClassHashes d" c]
      by (auto simp: deprecated_ok_def split: option.splits dest: tbl_get_SomeD)
  qed
  then have set: "set (map fst ?m) = set (deprecated_declared_classes (bi_updates i))"
    by (auto simp: tbl_keys_def)
  have sorted: "sorted_wrt (<) (map fst ?m)"
    using collect_map_inv unfolding tbl_inv_def .
  have "sorted_wrt (<) (deprecated_declared_classes (bi_updates i))"
    using assms(3) by (simp add: updates_ok_def)
  from strict_sorted_equal [OF this sorted set] show ?thesis unfolding eq .
qed

section \<open>The state update of the newest block\<close>

lemma index_bound:
  assumes "inputs_ok (is @ [i])"
  shows "\<exists>n. n \<le> bi_number i \<and> history_ok n (tb_StorageChangeHistory (db_of is))"
    "\<exists>n. n \<le> bi_number i \<and> history_ok n (tb_NonceChangeHistory (db_of is))"
    "\<exists>n. n \<le> bi_number i \<and> history_ok n (tb_ClassChangeHistory (db_of is))"
proof -
  have valid: "valid_chain input_ok (numbered is)"
    using assms by (simp add: inputs_ok_snoc inputs_ok_chain)
  have less: "\<forall>e\<in>set (numbered is). fst e < bi_number i"
    using assms by (auto simp: inputs_ok_snoc numbered_def)
  show "\<exists>n. n \<le> bi_number i \<and> history_ok n (tb_StorageChangeHistory (db_of is))"
    using storage_index.build_ok [OF valid] less unfolding db_of_build storage_index_ok_def by blast
  show "\<exists>n. n \<le> bi_number i \<and> history_ok n (tb_NonceChangeHistory (db_of is))"
    using nonce_index.build_ok [OF valid] less unfolding db_of_build nonce_index_ok_def by blast
  show "\<exists>n. n \<le> bi_number i \<and> history_ok n (tb_ClassChangeHistory (db_of is))"
    using class_index.build_ok [OF valid] less unfolding db_of_build class_index_ok_def by blast
qed

lemma state_update_inserted:
  assumes "inputs_ok (is @ [i])" "deprecated_ok (db_of is) (bi_updates i)"
    and "\<forall>e\<in>set (storage_updates (bi_updates i)). snd e \<noteq> []"
  shows "state_update (db_of (is @ [i])) (Num (bi_number i)) =
    Inr (Some ((bi_updates i)\<lparr>replaced_classes := []\<rparr>))"
proof -
  have ok: "updates_ok (bi_updates i)" and decl: "declarations_ok (bi_number i) (db_of is)"
    using assms(1) by (auto simp: inputs_ok_snoc intro: declarations_ok_db_of)
  then have inv: "tbl_inv (nonce_updates (bi_updates i))" "tbl_inv (deployed_contracts (bi_updates i))"
      "tbl_inv (flat_storage (storage_updates (bi_updates i)))"
      and nested: "nested_ok (storage_updates (bi_updates i))"
    using assms(3) by (auto simp: updates_ok_def flat_storage_sorted nested_ok_def)
  have entries:
    "dup_entries (tb_NonceChangeHistory (insert_input i (db_of is))) (bi_number i) Some = nonce_updates (bi_updates i)"
    "dup_entries (tb_ClassChangeHistory (insert_input i (db_of is))) (bi_number i) Some = deployed_contracts (bi_updates i)"
    "dup_entries (tb_StorageChangeHistory (insert_input i (db_of is))) (bi_number i) Some =
       flat_storage (storage_updates (bi_updates i))"
    using index_bound [OF assms(1)] inv
    unfolding insert_input_def insert_block_state_tables by (blast intro: dup_entries_write)+
  show ?thesis
    unfolding db_of_snoc state_update_def
    using inv nested
    by (simp add: entries collect_map_id collect_flat_storage ok decl assms(2)
        declared_in_block_inserted [OF decl order_refl ok assms(2)]
        deprecated_in_block_inserted [OF decl order_refl ok assms(2)])
qed

end
