(* ===== verification/Executor_Props.thy ===== *)
theory Executor_Props
  imports Executor Db_Updates Tx_Hash
begin

text \<open>
  Facts about the executor: when fees are charged, which transactions of a batch are
  recorded and with which receipts, the order of events and messages, and the state update
  of a block, which is the well-formed input that the storage theorems ask for.
\<close>

section \<open>Fee switches\<close>

definition offered :: "resource_bounds_mapping \<Rightarrow> nat" where
  "offered m = (case m of
      AllBounds b \<Rightarrow> max_amount (l1_gas b) * max_price_per_unit (l1_gas b)
        + max_amount (l2_gas b) * max_price_per_unit (l2_gas b)
        + max_amount (l1_data_gas b) * max_price_per_unit (l1_data_gas b)
    | L1Gas b \<Rightarrow> max_amount b * max_price_per_unit b)"

text \<open>A call tree in the order in which its calls are entered.\<close>

fun calls_preorder :: "call_info \<Rightarrow> call_info list" where
  "calls_preorder (CallInfo a es ms inner) = CallInfo a es ms inner # concat (map calls_preorder inner)"

definition own_events :: "call_info \<Rightarrow> event list" where
  "own_events c = map (\<lambda>(ks, ds). \<lparr>ev_from_address = ci_storage_address c, ev_keys = ks, ev_data = ds\<rparr>) (ci_events c)"

definition own_messages :: "call_info \<Rightarrow> message_to_l1 list" where
  "own_messages c = map (\<lambda>(a, p). \<lparr>msg_from_address = ci_storage_address c, msg_to_address = a, msg_payload = p\<rparr>)
     (ci_messages c)"

definition top_calls :: "exec_info \<Rightarrow> call_info list" where
  "top_calls i = List.map_filter (\<lambda>x. x)
     [xi_validate_call_info i, xi_execute_call_info i, xi_fee_transfer_call_info i]"

text \<open>The gas and the steps of the successful results.\<close>

definition gas_of_results :: "execution_result list \<Rightarrow> nat" where
  "gas_of_results rs = sum_list (map (\<lambda>r. gu_l1_gas (er_gas (resources_used r))) (List.map_filter result_receipt rs))"

definition steps_of_results :: "execution_result list \<Rightarrow> nat" where
  "steps_of_results rs =
     sum_list (map (\<lambda>r. n_steps (er_computation_resources (resources_used r))) (List.map_filter result_receipt rs))"

definition receipt_fits :: "'cls ptx \<Rightarrow> execution_result \<Rightarrow> bool" where
  "receipt_fits t r = (case r of Success rc i \<Rightarrow>
      receipt_type rc = executable_type (ewh_transaction t) \<and> receipt_events rc = events_from_exec_info i \<and>
      messages_sent rc = l2_to_l1_messages_from_exec_info i
    | Failed _ \<Rightarrow> True)"

text \<open>What a finished batch has recorded.\<close>

definition batch_recorded ::
    "('cls, 'st, 'bn) vm_processor \<Rightarrow> 'cls ptx list \<Rightarrow> nat \<Rightarrow> ('cls, 'st, 'bn) vm_processor \<Rightarrow> bool" where
  "batch_recorded p ts n p' \<longleftrightarrow> n \<le> length ts \<and>
     (\<exists>rs. length rs = n \<and>
       vp_transactions p' = vp_transactions p @ zip (map tx_with_hash_from (take n ts)) rs \<and>
       list_all2 receipt_fits (take n ts) rs \<and>
       l1_gas_used (vp_stats p') = l1_gas_used (vp_stats p) + gas_of_results rs \<and>
       cairo_steps_used (vp_stats p') = cairo_steps_used (vp_stats p) + steps_of_results rs)"

text \<open>The class a hash resolves to.\<close>

definition resolved :: "(class_hash \<Rightarrow> provider_error + 'cls option) \<Rightarrow> class_hash \<Rightarrow> 'cls option" where
  "resolved class h = (case class h of Inr c \<Rightarrow> c | Inl _ \<Rightarrow> None)"

text \<open>The maps of a difference have one entry per key.\<close>

definition state_maps_ok :: "state_maps \<Rightarrow> bool" where
  "state_maps_ok m \<longleftrightarrow> distinct (map fst (sm_nonces m)) \<and> distinct (map fst (sm_class_hashes m)) \<and>
     distinct (map fst (sm_storage m)) \<and> distinct (map fst (sm_compiled_class_hashes m))"

lemma bound_cost_word: "bound_cost b = of_nat (max_amount b * max_price_per_unit b)"
  by (simp add: bound_cost_def)

lemma of_nat_word_zero_iff: "(of_nat n :: 128 word) = 0 \<longleftrightarrow> 2 ^ 128 dvd n"
  by (simp add: word_of_nat_eq_0_iff)

lemma is_zero_resource_bounds_iff: "is_zero_resource_bounds m \<longleftrightarrow> 2 ^ 128 dvd offered m"
proof (cases m)
  case (AllBounds b)
  have "bound_cost (l1_gas b) + bound_cost (l2_gas b) + bound_cost (l1_data_gas b) = of_nat (offered m)"
    by (simp add: bound_cost_word offered_def AllBounds)
  then show ?thesis using of_nat_word_zero_iff [of "offered m"] by (simp add: AllBounds)
next
  case (L1Gas b)
  then show ?thesis
    using of_nat_word_zero_iff [of "offered m"] by (simp add: bound_cost_word offered_def)
qed

section \<open>Facts on receipts\<close>

lemma concat_map_concat: "concat (map f (concat xss)) = concat (map (\<lambda>xs. concat (map f xs)) xss)"
  by (induction xss) auto

lemma concat_map_cong: "(\<And>x. x \<in> set xs \<Longrightarrow> f x = g x) \<Longrightarrow> concat (map f xs) = concat (map g xs)"
  by (metis map_cong)

lemma get_events_recur_preorder: "get_events_recur c = concat (map own_events (calls_preorder c))"
proof (induction c rule: get_events_recur.induct)
  case (1 a es ms inner)
  have "concat (map get_events_recur inner) = concat (map own_events (concat (map calls_preorder inner)))"
    unfolding concat_map_concat map_map comp_def using 1 by (rule concat_map_cong)
  then show ?case by (simp add: own_events_def [of "CallInfo a es ms inner"])
qed

lemma get_messages_recur_preorder:
  "get_l2_to_l1_messages_recur c = concat (map own_messages (calls_preorder c))"
proof (induction c rule: get_l2_to_l1_messages_recur.induct)
  case (1 a es ms inner)
  have "concat (map get_l2_to_l1_messages_recur inner) =
      concat (map own_messages (concat (map calls_preorder inner)))"
    unfolding concat_map_concat map_map comp_def using 1 by (rule concat_map_cong)
  then show ?case by (simp add: own_messages_def [of "CallInfo a es ms inner"])
qed

lemma of_calls_top:
  "of_call f (xi_validate_call_info i) @ of_call f (xi_execute_call_info i) @ of_call f (xi_fee_transfer_call_info i)
   = concat (map f (top_calls i))"
  by (auto simp: of_call_def top_calls_def map_filter_simps split: option.split)

lemma build_receipt_simps:
  "receipt_type (build_receipt t fee i) = executable_type t"
  "receipt_events (build_receipt t fee i) = events_from_exec_info i"
  "messages_sent (build_receipt t fee i) = l2_to_l1_messages_from_exec_info i"
  "revert_reason (build_receipt t fee i) = xi_revert_error i"
  "receipt_fee (build_receipt t fee i) = fee"
  "gu_l1_gas (er_gas (resources_used (build_receipt t fee i))) = gu_l1_gas (xi_gas i)"
  by (auto simp: build_receipt_def Let_def get_receipt_resources_def split: executable_tx.split)

section \<open>Executing a batch\<close>

lemma transact_success:
  assumes "transact vm st ctx flags t bn = Some (st', bn', Inr (Success rc i))"
  shows "\<exists>fee. rc = build_receipt (ewh_transaction t) fee i"
  using assms
  by (auto simp: transact_def Let_def split: option.splits prod.splits sum.splits)

lemma transact_limits_state:
  assumes "transact vm st ctx flags t bn = Some (st', bn', Inl e)"
  shows "st' = st"
  using assms by (auto simp: transact_def Let_def split: option.splits prod.splits sum.splits)

lemma record_result_simps [simp]:
  "vp_state (record_result t r p) = vp_state p"
  "vp_bouncer (record_result t r p) = vp_bouncer p"
  "vp_block_info (record_result t r p) = vp_block_info p"
  "vp_flags (record_result t r p) = vp_flags p"
  "vp_transactions (record_result t r p) = vp_transactions p @ [(tx_with_hash_from t, r)]"
  by (auto simp: record_result_def Let_def split: execution_result.split)

lemma record_result_stats:
  "l1_gas_used (vp_stats (record_result t r p)) = l1_gas_used (vp_stats p) + gas_of_results [r]"
  "cairo_steps_used (vp_stats (record_result t r p)) = cairo_steps_used (vp_stats p) + steps_of_results [r]"
  by (auto simp: record_result_def Let_def gas_of_results_def steps_of_results_def map_filter_simps
      split: execution_result.split)

lemma results_append:
  "gas_of_results (xs @ ys) = gas_of_results xs + gas_of_results ys"
  "steps_of_results (xs @ ys) = steps_of_results xs + steps_of_results ys"
  by (auto simp: gas_of_results_def steps_of_results_def map_filter_def)

lemma receipt_fits_transact:
  "transact vm st ctx flags t bn = Some (st', bn', Inr r) \<Longrightarrow> receipt_fits t r"
  using transact_success [of vm st ctx flags t bn st' bn']
  by (cases r) (auto simp: receipt_fits_def build_receipt_simps)

lemma batch_recorded_0: "vp_transactions p' = vp_transactions p \<Longrightarrow> vp_stats p' = vp_stats p \<Longrightarrow> batch_recorded p ts 0 p'"
  by (auto simp: batch_recorded_def gas_of_results_def steps_of_results_def)

lemma batch_recorded_Suc:
  assumes rec: "batch_recorded (record_result t r q) ts n p'"
    and fits: "receipt_fits t r"
    and same: "vp_transactions q = vp_transactions p" "vp_stats q = vp_stats p"
  shows "batch_recorded p (t # ts) (Suc n) p'"
proof -
  obtain rs where rs: "length rs = n"
    "vp_transactions p' = vp_transactions (record_result t r q) @ zip (map tx_with_hash_from (take n ts)) rs"
    "list_all2 receipt_fits (take n ts) rs"
    "l1_gas_used (vp_stats p') = l1_gas_used (vp_stats (record_result t r q)) + gas_of_results rs"
    "cairo_steps_used (vp_stats p') = cairo_steps_used (vp_stats (record_result t r q)) + steps_of_results rs"
    and n: "n \<le> length ts"
    using rec unfolding batch_recorded_def by blast
  show ?thesis
    unfolding batch_recorded_def
    using rs n fits same results_append [of "[r]" rs]
    by (auto simp: record_result_stats intro!: exI [of _ "r # rs"])
qed

lemma execute_transactions_loop_recorded:
  assumes "execute_transactions_loop vm m p ts = Some (p', Inr (k, err))"
  shows "m \<le> k \<and> batch_recorded p ts (k - m) p' \<and>
    (err = None \<and> k - m = length ts \<or> err = Some LimitsExhausted \<and> k - m < length ts)"
  using assms
proof (induction ts arbitrary: m p)
  case Nil
  then show ?case by (auto intro: batch_recorded_0)
next
  case (Cons t ts)
  from Cons.prems obtain st' bn' r where
    tr: "transact vm (vp_state p) (vp_block_info p) (vp_flags p) t (Some (vp_bouncer p)) = Some (st', bn', r)"
    by (auto split: option.splits)
  let ?q = "p\<lparr>vp_state := st', vp_bouncer := (case bn' of Some b \<Rightarrow> b | None \<Rightarrow> vp_bouncer p)\<rparr>"
  show ?case
  proof (cases r)
    case (Inl e)
    then have "e = LimitsExhausted" "p' = ?q" "k = m" "err = Some LimitsExhausted"
      using Cons.prems tr by (auto simp: Let_def split: executor_error.splits)
    then show ?thesis by (auto intro: batch_recorded_0)
  next
    case (Inr res)
    then have step: "execute_transactions_loop vm (Suc m) (record_result t res ?q) ts = Some (p', Inr (k, err))"
      using Cons.prems tr by (simp add: Let_def)
    have "batch_recorded p (t # ts) (Suc (k - Suc m)) p'"
      using Cons.IH [OF step] receipt_fits_transact [OF tr [unfolded Inr]] batch_recorded_Suc by fastforce
    then show ?thesis using Cons.IH [OF step] by (auto simp: Suc_diff_Suc Suc_le_eq)
  qed
qed

section \<open>The state update\<close>

lemma btree_collect_inv [simp]: "tbl_inv (btree_collect es)"
  unfolding btree_collect_def by (rule tbl.invar_put_all) simp

lemma tbl_get_btree_collect: "distinct (map fst es) \<Longrightarrow> tbl_get (btree_collect es) k = map_of es k"
  unfolding btree_collect_def by (simp add: tbl.get_put_all_distinct split: option.split)

lemma storage_entry_insert_step: "storage_entry_insert = collect_step"
  by (intro ext) (auto simp: storage_entry_insert_def collect_step_def split: prod.split)

lemma fold_storage_entry_insert: "fold storage_entry_insert es [] = collect_storage es"
  by (simp add: storage_entry_insert_step collect_storage_fold)

lemma nested_get_storage:
  "distinct (map fst es) \<Longrightarrow> nested_get (fold storage_entry_insert es []) ak = map_of es ak"
  by (simp add: fold_storage_entry_insert nested_get_collect tbl_get_def map_of_rev_distinct)

lemma collect_declared_Cons:
  "collect_declared is_legacy class ((h, ch) # es) (cls, decl, depr) = (case resolved class h of
      None \<Rightarrow> None
    | Some c \<Rightarrow> collect_declared is_legacy class es
        (if is_legacy c then (tbl_put h c cls, decl, tbl_put h () depr)
         else (tbl_put h c cls, tbl_put h ch decl, depr)))"
  by (auto simp: resolved_def split: sum.split option.split)

lemma collect_declared_eq:
  "collect_declared is_legacy class es (cls, decl, depr) =
     (if \<forall>e\<in>set es. resolved class (fst e) \<noteq> None
      then Some
        (fold (\<lambda>e. tbl_put (fst e) (snd e)) (map (\<lambda>e. (fst e, the (resolved class (fst e)))) es) cls,
         fold (\<lambda>e. tbl_put (fst e) (snd e))
           (filter (\<lambda>e. \<not> is_legacy (the (resolved class (fst e)))) es) decl,
         fold (\<lambda>e. tbl_put (fst e) (snd e))
           (map (\<lambda>e. (fst e, ())) (filter (\<lambda>e. is_legacy (the (resolved class (fst e)))) es)) depr)
      else None)"
proof (induction es arbitrary: cls decl depr)
  case (Cons e es)
  obtain h ch where e: "e = (h, ch)" by fastforce
  show ?case
  proof (cases "resolved class h")
    case (Some c)
    then show ?thesis
      by (cases "is_legacy c") (simp_all add: e collect_declared_Cons Cons.IH del: collect_declared.simps)
  qed (simp add: e collect_declared_Cons del: collect_declared.simps)
qed simp

lemma map_of_filter_fst:
  "map_of (filter (\<lambda>e. P (fst e)) es) k = (if P k then map_of es k else None)"
  by (induction es) auto

lemma distinct_fst_filter: "distinct (map fst es) \<Longrightarrow> distinct (map fst (filter P es))"
  by (induction es) auto

lemma map_of_map_key: "map_of (map (\<lambda>e. (fst e, f (fst e))) es) k = (if k \<in> fst ` set es then Some (f k) else None)"
  by (induction es) auto

lemma state_update_parts:
  assumes "state_update_from_cached_state is_legacy class m = Some s"
  shows "nonce_updates (su_state_updates s) = btree_collect (sm_nonces m)"
    and "deployed_contracts (su_state_updates s) = btree_collect (sm_class_hashes m)"
    and "storage_updates (su_state_updates s) = fold storage_entry_insert (sm_storage m) []"
    and "declared_classes (su_state_updates s) = btree_collect
          (filter (\<lambda>e. \<not> is_legacy (the (resolved class (fst e)))) (sm_compiled_class_hashes m))"
    and "deprecated_declared_classes (su_state_updates s) = map fst (btree_collect (map (\<lambda>e. (fst e, ()))
          (filter (\<lambda>e. is_legacy (the (resolved class (fst e)))) (sm_compiled_class_hashes m))))"
    and "su_classes s = btree_collect (map (\<lambda>e. (fst e, the (resolved class (fst e)))) (sm_compiled_class_hashes m))"
    and "\<forall>e\<in>set (sm_compiled_class_hashes m). resolved class (fst e) \<noteq> None"
  using assms
  by (auto simp: state_update_from_cached_state_def collect_declared_eq btree_collect_def
      split: if_splits prod.splits)

lemma tbl_keys_btree_collect: "tbl_keys (btree_collect es) = fst ` set es"
proof -
  have "tbl_keys (fold (\<lambda>e. tbl_put (fst e) (snd e)) es t) = tbl_keys t \<union> fst ` set es" for t
    by (induction es arbitrary: t) auto
  from this [of "[]"] show ?thesis by (simp add: btree_collect_def)
qed

lemma storage_updates_nested: "nested_ok (fold storage_entry_insert es [])"
  by (simp add: fold_storage_entry_insert collect_storage_ok)

lemma state_update_ok:
  assumes "state_update_from_cached_state is_legacy class m = Some s"
  shows "updates_ok (su_state_updates s)"
proof -
  have "tbl_inv t \<Longrightarrow> sorted_wrt (<) (map fst t)" for t :: "(nat, unit) table"
    by (simp add: tbl_inv_def)
  then show ?thesis
    using storage_updates_nested [of "sm_storage m"]
    unfolding updates_ok_def state_update_parts [OF assms] by (auto simp: nested_ok_def)
qed

lemma map_of_resolved:
  assumes "\<forall>e\<in>set es. resolved class (fst e) \<noteq> None"
  shows "map_of (map (\<lambda>e. (fst e, the (resolved class (fst e)))) es) h =
     (if h \<in> fst ` set es then resolved class h else None)"
  using assms by (auto simp: map_of_map_key [where f = "\<lambda>h. the (resolved class h)"])

section \<open>Properties\<close>

text \<open>Concrete instances: an execution library that counts, and a difference with two classes.\<close>

definition sample_exec_info :: exec_info where
  "sample_exec_info = \<lparr>xi_validate_call_info = None,
     xi_execute_call_info = Some (CallInfo 5 [([1], [2])] [] [CallInfo 6 [([3], [4])] [] []]),
     xi_fee_transfer_call_info = None, xi_revert_error = None, xi_actual_fee = 0,
     xi_gas = \<lparr>gu_l2_gas = 7, gu_l1_gas = 8, gu_l1_data_gas = 9\<rparr>,
     xi_da_gas = \<lparr>dr_l1_gas = 0, dr_l1_data_gas = 0\<rparr>,
     xi_vm_resources = \<lparr>n_steps = 100, n_memory_holes = 0, builtin_instance_counter = []\<rparr>\<rparr>"

definition sample_vm :: "(bool, unit, nat, nat, unit) vm" where
  "sample_vm = \<lparr>vm_valid_address = (\<lambda>a. True), vm_compile = (\<lambda>c. Some ()),
     vm_execute = (\<lambda>st ctx x. (Suc st, Inr sample_exec_info)),
     vm_fee_type = (\<lambda>x. FeeStrk), vm_fee_by_gas = (\<lambda>i g ft tip. gu_l1_gas g),
     vm_try_update = (\<lambda>b st i. (b - 1, if b = 0 then Inl BlockFull else Inr ())),
     vm_error_text = \<lparr>text_of_fee = (\<lambda>e. [])\<rparr>\<rparr>"

definition sample_ptx :: "nat \<Rightarrow> nonce \<Rightarrow> bool ptx" where
  "sample_ptx h n = \<lparr>ewh_hash = h, ewh_transaction = ExInvoke (InvokeV3 (sample_invoke_v3\<lparr>iv3_nonce := n\<rparr>))\<rparr>"

definition sample_env :: block_env where
  "sample_env = \<lparr>be_number = 1, be_timestamp = 2, be_l2_gas_prices = gas_price_MIN,
     be_l1_gas_prices = gas_price_MIN, be_l1_data_gas_prices = gas_price_MIN, be_sequencer_address = 3\<rparr>"

definition sample_processor :: "nat \<Rightarrow> (bool, nat, nat) vm_processor" where
  "sample_processor b = vm_processor_new 0 sample_env execution_flags_default b"

definition sample_maps :: state_maps where
  "sample_maps = \<lparr>sm_nonces = [(2, 1), (1, 5)], sm_class_hashes = [(1, 9)],
     sm_storage = [((2, 7), 1), ((1, 4), 2), ((2, 3), 3)], sm_compiled_class_hashes = [(8, 80), (6, 60)]\<rparr>"

definition sample_class :: "class_hash \<Rightarrow> provider_error + bool option" where
  "sample_class h = Inr (Some (h = 6))"

text \<open>
  C26. The state update that the executor extracts for a block is well formed and says
  exactly what the execution library reported, whatever the order in which its hash maps
  are walked: every nonce, class hash and storage cell with its value and nothing else;
  every declared class, under its compiled class hash unless it is a legacy class, in the
  list of legacy classes if it is one, and with its source class.
\<close>

theorem executor_state_update:
  assumes maps: "state_maps_ok m"
    and ok: "state_update_from_cached_state is_legacy class m = Some s"
  shows "updates_ok (su_state_updates s) \<and>
    (\<forall>a. tbl_get (nonce_updates (su_state_updates s)) a = map_of (sm_nonces m) a) \<and>
    (\<forall>a. tbl_get (deployed_contracts (su_state_updates s)) a = map_of (sm_class_hashes m) a) \<and>
    (\<forall>a k. Option.bind (tbl_get (storage_updates (su_state_updates s)) a) (\<lambda>t. tbl_get t k) =
       map_of (sm_storage m) (a, k)) \<and>
    (\<forall>h. tbl_get (declared_classes (su_state_updates s)) h =
       (if is_legacy (the (resolved class h)) then None else map_of (sm_compiled_class_hashes m) h)) \<and>
    set (deprecated_declared_classes (su_state_updates s)) =
       {h \<in> fst ` set (sm_compiled_class_hashes m). is_legacy (the (resolved class h))} \<and>
    (\<forall>h. tbl_get (su_classes s) h =
       (if h \<in> fst ` set (sm_compiled_class_hashes m) then resolved class h else None))"
proof (intro conjI allI)
  note parts = state_update_parts [OF ok]
  have d: "distinct (map fst (sm_nonces m))" "distinct (map fst (sm_class_hashes m))"
    "distinct (map fst (sm_storage m))" "distinct (map fst (sm_compiled_class_hashes m))"
    using maps by (auto simp: state_maps_ok_def)
  show "updates_ok (su_state_updates s)" using ok by (rule state_update_ok)
  show "tbl_get (nonce_updates (su_state_updates s)) a = map_of (sm_nonces m) a"
    "tbl_get (deployed_contracts (su_state_updates s)) a = map_of (sm_class_hashes m) a" for a
    unfolding parts using d by (simp_all add: tbl_get_btree_collect)
  show "Option.bind (tbl_get (storage_updates (su_state_updates s)) a) (\<lambda>t. tbl_get t k) = map_of (sm_storage m) (a, k)" for a k
    unfolding parts using nested_get_storage [OF d(3), of "(a, k)"] by (simp add: nested_get_def)
  show "tbl_get (declared_classes (su_state_updates s)) h =
       (if is_legacy (the (resolved class h)) then None else map_of (sm_compiled_class_hashes m) h)" for h
    unfolding parts using distinct_fst_filter [OF d(4)]
    by (simp add: tbl_get_btree_collect map_of_filter_fst [where P = "\<lambda>h. \<not> is_legacy (the (resolved class h))"])
  show "set (deprecated_declared_classes (su_state_updates s)) =
       {h \<in> fst ` set (sm_compiled_class_hashes m). is_legacy (the (resolved class h))}"
    unfolding parts set_map tbl_keys_btree_collect [unfolded tbl_keys_def] by force
  show "tbl_get (su_classes s) h =
       (if h \<in> fst ` set (sm_compiled_class_hashes m) then resolved class h else None)" for h
    unfolding parts(6) using d(4) map_of_resolved [OF parts(7)] by (simp add: tbl_get_btree_collect comp_def)
qed

theorem executor_state_update_witness:
  "\<exists>s. state_update_from_cached_state id sample_class sample_maps = Some s \<and> updates_ok (su_state_updates s) \<and>
     tbl_get (declared_classes (su_state_updates s)) 8 = Some 80 \<and>
     set (deprecated_declared_classes (su_state_updates s)) = {6}"
proof -
  have maps: "state_maps_ok sample_maps" by (simp add: state_maps_ok_def sample_maps_def)
  obtain s where s: "state_update_from_cached_state id sample_class sample_maps = Some s"
    by (simp add: state_update_from_cached_state_def sample_maps_def sample_class_def)
  have r: "resolved sample_class h = Some (h = 6)" for h by (simp add: resolved_def sample_class_def)
  show ?thesis
    using executor_state_update [OF maps s] s
    by (auto simp: r sample_maps_def)
qed

text \<open>
  C28. A batch is executed in order and stops early only because the block is full: the
  returned count is the number of transactions recorded, these are the first ones of the
  batch in their order, each with a receipt of its own kind built from its execution, and
  the statistics grow by the gas and the steps of the successful ones.
\<close>

theorem execute_transactions_recorded:
  assumes "execute_transactions vm p ts = Some (p', Inr (n, err))"
  shows "(err = None \<and> n = length ts \<or> err = Some LimitsExhausted \<and> n < length ts) \<and>
    (\<exists>rs. length rs = n \<and>
       vp_transactions p' = vp_transactions p @ zip (map tx_with_hash_from (take n ts)) rs \<and>
       list_all2 receipt_fits (take n ts) rs \<and>
       l1_gas_used (vp_stats p') = l1_gas_used (vp_stats p) + gas_of_results rs \<and>
       cairo_steps_used (vp_stats p') = cairo_steps_used (vp_stats p) + steps_of_results rs)"
  using execute_transactions_loop_recorded [of vm 0 p ts p' n err] assms
  by (auto simp: execute_transactions_def batch_recorded_def)

theorem execute_transactions_recorded_witness:
  "\<exists>p' rs. execute_transactions sample_vm (sample_processor 1) [sample_ptx 10 0, sample_ptx 11 1] =
      Some (p', Inr (1, Some LimitsExhausted)) \<and>
    length rs = 1 \<and> vp_transactions p' = zip [tx_with_hash_from (sample_ptx 10 0)] rs \<and>
    l1_gas_used (vp_stats p') = gas_of_results rs"
proof -
  let ?p = "sample_processor 1" and ?ts = "[sample_ptx 10 0, sample_ptx 11 1]"
  obtain p' where p': "execute_transactions sample_vm ?p ?ts = Some (p', Inr (1, Some LimitsExhausted))"
    by (simp add: execute_transactions_def transact_def transact_inner_def to_executor_tx_def prepared_tx_def
        prepared_flags_def sample_ptx_def sample_vm_def sample_processor_def vm_processor_new_def
        record_result_def execution_flags_default_def Let_def with_fee_def sample_invoke_v3_def
        bound_cost_def sample_exec_info_def build_receipt_def)
  show ?thesis
    using execute_transactions_recorded [OF p'] p'
    by (auto simp: sample_processor_def vm_processor_new_def execution_stats_default_def)
qed

text \<open>
  The events and the messages of a receipt are those of the validation, execution and
  fee-transfer calls, in this order; within a call tree, a call's own come before those
  of the calls it makes, in the order in which the calls are entered, and each carries
  the address of the call that emitted it.
\<close>

theorem receipt_event_order:
  "receipt_events (build_receipt t fee i) = concat (map own_events (concat (map calls_preorder (top_calls i)))) \<and>
   messages_sent (build_receipt t fee i) = concat (map own_messages (concat (map calls_preorder (top_calls i)))) \<and>
   receipt_type (build_receipt t fee i) = executable_type t"
  unfolding concat_map_concat map_map comp_def get_events_recur_preorder [symmetric]
    get_messages_recur_preorder [symmetric]
  by (simp add: build_receipt_simps events_from_exec_info_def l2_to_l1_messages_from_exec_info_def of_calls_top)

text \<open>
  A version 3 transaction is executed without fees exactly when the fee it offers is a
  multiple of two to the 128, because the product of amount and price is computed in 128
  bits and wraps.  For offers below that bound this is the intended test for a zero
  offer; beyond it, a transaction can offer a positive fee and be charged none.
\<close>

theorem fee_skip_exact:
  "(skip_fee_on_zero_gas (ExInvoke (InvokeV3 t)) \<longleftrightarrow> 2 ^ 128 dvd offered (iv3_resource_bounds t)) \<and>
   (offered (iv3_resource_bounds t) < 2 ^ 128 \<longrightarrow>
      (skip_fee_on_zero_gas (ExInvoke (InvokeV3 t)) \<longleftrightarrow> offered (iv3_resource_bounds t) = 0)) \<and>
   (\<exists>b. max_amount b < 2 ^ 64 \<and> max_price_per_unit b < 2 ^ 128 \<and> offered (L1Gas b) > 0 \<and>
      is_zero_resource_bounds (L1Gas b))"
proof (intro conjI impI)
  show "skip_fee_on_zero_gas (ExInvoke (InvokeV3 t)) \<longleftrightarrow> 2 ^ 128 dvd offered (iv3_resource_bounds t)"
    by (simp add: is_zero_resource_bounds_iff)
  then show "skip_fee_on_zero_gas (ExInvoke (InvokeV3 t)) \<longleftrightarrow> offered (iv3_resource_bounds t) = 0"
    if "offered (iv3_resource_bounds t) < 2 ^ 128"
    using that nat_dvd_not_less by auto
  let ?b = "\<lparr>max_amount = 2 ^ 63, max_price_per_unit = 2 ^ 65\<rparr>"
  show "\<exists>b. max_amount b < 2 ^ 64 \<and> max_price_per_unit b < 2 ^ 128 \<and> offered (L1Gas b) > 0 \<and>
      is_zero_resource_bounds (L1Gas b)"
    by (rule exI [of _ ?b]) (simp add: is_zero_resource_bounds_iff offered_def del: is_zero_resource_bounds.simps)
qed

theorem fee_skip_exact_witness:
  "skip_fee_on_zero_gas (ExInvoke (InvokeV3 (sample_invoke_v3\<lparr>iv3_resource_bounds :=
     L1Gas \<lparr>max_amount = 0, max_price_per_unit = 5\<rparr>\<rparr>)))"
  using fee_skip_exact [of "sample_invoke_v3\<lparr>iv3_resource_bounds := L1Gas \<lparr>max_amount = 0, max_price_per_unit = 5\<rparr>\<rparr>"]
  by (simp add: offered_def)

end
