(* ===== verification/Pool_Properties.thy ===== *)
theory Pool_Properties
  imports Tx_Validator Executor_Props
begin

text \<open>
  What the pool and its validator promise.  The locale \<open>sound_pool\<close> is what the pool needs of
  its surroundings (a tree search that ends in a gap, a validator that returns the
  transaction it was given), \<open>arrival_pool\<close> adds an ordering that hands out growing
  priorities; both are interpreted for the pool of the node, \<^verbatim>\<open>TxPool\<close> of
  \<^verbatim>\<open>crates/pool/src/lib.rs\<close>: the stateful validator and first-come-first-serve ordering.
\<close>

section \<open>The pool of the node\<close>

definition node_deps ::
    "('cls, 'cmp, 'cfg, 'r) validation_vm \<Rightarrow>
     (('cls, tx_submission_nonce) pending_tx \<Rightarrow> ('cls, tx_submission_nonce) pending_tx list \<Rightarrow> nat) \<Rightarrow>
     ('l \<Rightarrow> tx_hash \<Rightarrow> 'l \<times> send_outcome) \<Rightarrow>
     ('s \<Rightarrow> ('cls, tx_submission_nonce) pending_tx \<Rightarrow> 's \<times> bool) \<Rightarrow>
     ('cls, tx_submission_nonce, ('cls, 'cfg) validator_state, fifo, 'l, 's, 'r, 'r boxed_error) pool_deps" where
  "node_deps vv search try_send send = \<lparr>pd_validate = tx_validate vv, pd_priority = fifo_priority,
     pd_search = search, pd_try_send = try_send, pd_send = send\<rparr>"

text \<open>Every transaction in the pool has the id of its transaction and a priority already handed out.\<close>

definition pool_inv :: "('o \<Rightarrow> 'p set) \<Rightarrow> ('cls, 'p, 'v, 'o, 'l, 's) pool \<Rightarrow> bool" where
  "pool_inv assigned p \<longleftrightarrow> (\<forall>x\<in>set (transactions p).
     pt_priority x \<in> assigned (pool_ordering p) \<and>
     pool_tx_nonce (ewh_transaction (pt_tx x)) = Some (id_nonce (pt_id x)) \<and>
     id_sender (pt_id x) = pool_tx_sender (ewh_transaction (pt_tx x)))"

definition fifo_assigned :: "fifo \<Rightarrow> tx_submission_nonce set" where
  "fifo_assigned f = {TxSubmissionNonce w |w. w < fifo_nonce f}"

definition fifo_left :: "fifo \<Rightarrow> nat \<Rightarrow> bool" where
  "fifo_left f n \<longleftrightarrow> unat (fifo_nonce f) + n < 2 ^ 64"

text \<open>Polling a stream a number of times; \<open>None\<close> when a poll does not deliver.\<close>

fun poll_times ::
    "('q \<Rightarrow> ('a option poll \<times> 'q) option) \<Rightarrow> nat \<Rightarrow> 'q \<Rightarrow> ('a list \<times> 'q) option" where
  "poll_times poll 0 q = Some ([], q)"
| "poll_times poll (Suc n) q = (case poll q of
      Some (Ready (Some t), q') \<Rightarrow> map_option (\<lambda>(ts, q''). (t # ts, q'')) (poll_times poll n q')
    | _ \<Rightarrow> None)"

text \<open>A receiver holds a queue: it delivers its head, or nothing when it is empty.\<close>

definition queue_receiver :: "('rx \<Rightarrow> 'a option poll \<times> 'rx) \<Rightarrow> ('rx \<Rightarrow> 'a list) \<Rightarrow> bool" where
  "queue_receiver poll_recv queue \<longleftrightarrow> (\<forall>rx. (case queue rx of
      [] \<Rightarrow> (\<forall>t. fst (poll_recv rx) \<noteq> Ready (Some t)) \<and> queue (snd (poll_recv rx)) = []
    | t # ts \<Rightarrow> fst (poll_recv rx) = Ready (Some t) \<and> queue (snd (poll_recv rx)) = ts))"

text \<open>What a subscription still has to deliver.\<close>

definition undelivered where
  "undelivered queue s = mset (sub_txs s) + mset (queue (sub_receiver s))"

section \<open>What the pool needs\<close>

locale sound_pool =
  fixes d :: "('cls, 'p :: linorder, 'v, 'o, 'l, 's, 'r, 'b) pool_deps"
  assumes slot: "btree_slot pending_cmp x xs (pd_search d x xs)"
    and keeps_tx: "pd_validate d v t = Some (v', Inr (Valid t')) \<Longrightarrow> t' = t"
begin

lemma add_accepted:
  assumes "add_transaction d now p t = Some (p', Inr h)"
  obtains v' n prio ord' x where
    "h = ewh_hash t" "pd_validate d (validator p) t = Some (v', Inr (Valid t))"
    "pool_tx_nonce (ewh_transaction t) = Some n"
    "pd_priority d (pool_ordering p) t = (prio, ord')"
    "x = \<lparr>pt_id = tx_id_new (pool_tx_sender (ewh_transaction t)) n, pt_tx = t, pt_priority = prio, pt_added_at = now\<rparr>"
    "transactions p' = btree_insert (pd_search d) x (transactions p)"
    "validator p' = v'" "pool_ordering p' = ord'"
    "mset (subscribers p') = mset (map fst (filter snd (map (\<lambda>s. pd_send d s x) (subscribers p))))"
    "mset (listeners p') = mset (map fst (filter (\<lambda>y. snd y \<noteq> Disconnected)
       (map (\<lambda>l. pd_try_send d l h) (listeners p))))"
proof -
  obtain n where n: "pool_tx_nonce (ewh_transaction t) = Some n"
    using assms by (cases "pool_tx_nonce (ewh_transaction t)") (simp_all add: add_transaction_def)
  obtain v' res where v: "pd_validate d (validator p) t = Some (v', res)"
    using assms n by (cases "pd_validate d (validator p) t") (auto simp: add_transaction_def)
  obtain t' where t': "res = Inr (Valid t')"
    using assms n v by (auto simp: add_transaction_def Let_def split: sum.splits validation_outcome.splits)
  with v keeps_tx have res: "pd_validate d (validator p) t = Some (v', Inr (Valid t))" by blast
  obtain prio ord' where pr: "pd_priority d (pool_ordering p) t = (prio, ord')" by fastforce
  define x where "x = \<lparr>pt_id = tx_id_new (pool_tx_sender (ewh_transaction t)) n, pt_tx = t, pt_priority = prio, pt_added_at = now\<rparr>"
  define q where "q = p\<lparr>validator := v', pool_ordering := ord', transactions := btree_insert (pd_search d) x (transactions p)\<rparr>"
  obtain q' where q': "notify (pd_try_send d) (pd_send d) q x = Some q'"
    and facts: "transactions q' = transactions q" "validator q' = validator q" "pool_ordering q' = pool_ordering q"
      "mset (subscribers q') = mset (map fst (filter snd (map (\<lambda>s. pd_send d s x) (subscribers q))))"
      "mset (listeners q') = mset (map fst (filter (\<lambda>y. snd y \<noteq> Disconnected)
         (map (\<lambda>l. pd_try_send d l (ewh_hash (pt_tx x))) (listeners q))))"
    by (rule notify_total)
  have "add_transaction d now p t = Some (q', Inr (ewh_hash t))"
    using n res pr q' by (simp add: add_transaction_def Let_def q_def x_def)
  with assms have "p' = q'" "h = ewh_hash t" by auto
  then show thesis using that n res pr facts by (simp add: q_def x_def)
qed

lemma add_rejected:
  assumes "add_transaction d now p t = Some (p', Inl e)"
  shows "p' = p\<lparr>validator := validator p'\<rparr>"
  using assms
  by (auto simp: add_transaction_def Let_def split: option.splits prod.splits sum.splits validation_outcome.splits)

lemma add_returns:
  assumes "pool_tx_nonce (ewh_transaction t) \<noteq> None" "pd_validate d (validator p) t \<noteq> None"
  shows "add_transaction d now p t \<noteq> None"
proof -
  obtain n v' res where n: "pool_tx_nonce (ewh_transaction t) = Some n"
    "pd_validate d (validator p) t = Some (v', res)" using assms by auto
  have "notify (pd_try_send d) (pd_send d) q x \<noteq> None" for q x
    using notify_total [of "pd_try_send d" "pd_send d" q x] by (metis option.distinct(1))
  then show ?thesis using n
    by (auto simp: add_transaction_def Let_def split: sum.split validation_outcome.split prod.split)
qed

end

locale arrival_pool = sound_pool d
  for d :: "('cls, 'p :: linorder, 'v, 'o, 'l, 's, 'r, 'b) pool_deps" +
  fixes assigned :: "'o \<Rightarrow> 'p set"
    and left :: "'o \<Rightarrow> nat \<Rightarrow> bool"
  assumes priority_grows: "left ord (Suc n) \<Longrightarrow> pd_priority d ord t = (prio, ord') \<Longrightarrow>
      left ord' n \<and> (\<forall>q\<in>assigned ord. q < prio) \<and> assigned ord' = insert prio (assigned ord)"
    and left_mono: "left ord (Suc n) \<Longrightarrow> left ord n"
begin

lemma add_appends:
  assumes add: "add_transaction d now p t = Some (p', Inr h)"
    and inv: "pool_inv assigned p" and left: "left (pool_ordering p) (Suc n)"
    and order: "\<And>x. x \<in> set (transactions p) \<Longrightarrow> in_nonce_order (pt_tx x) t"
  shows "map pt_tx (transactions p') = map pt_tx (transactions p) @ [t] \<and> pool_inv assigned p' \<and> left (pool_ordering p') n"
proof (rule add_accepted [OF add])
  fix v' m prio ord' x
  assume tx: "pool_tx_nonce (ewh_transaction t) = Some m"
    and pr: "pd_priority d (pool_ordering p) t = (prio, ord')"
    and x: "x = \<lparr>pt_id = tx_id_new (pool_tx_sender (ewh_transaction t)) m, pt_tx = t, pt_priority = prio, pt_added_at = now\<rparr>"
    and ts: "transactions p' = btree_insert (pd_search d) x (transactions p)" and ord: "pool_ordering p' = ord'"
  have grow: "left ord' n" "\<forall>q\<in>assigned (pool_ordering p). q < prio" "assigned ord' = insert prio (assigned (pool_ordering p))"
    using priority_grows [OF left pr] by auto
  have "pending_cmp x y = Greater" if y: "y \<in> set (transactions p)" for y
  proof -
    have "pt_priority y < prio" using inv y grow(2) by (auto simp: pool_inv_def)
    moreover have "id_nonce (pt_id y) \<le> m" if "id_sender (pt_id y) = pool_tx_sender (ewh_transaction t)"
      using inv y order [OF y] that tx by (auto simp: pool_inv_def in_nonce_order_def)
    ultimately show ?thesis by (auto simp: pending_cmp_Greater x tx_id_new_def)
  qed
  then have "pd_search d x (transactions p) = length (transactions p)"
    using btree_slot_end [OF slot] by blast
  then have "transactions p' = transactions p @ [x]" using ts by (simp add: btree_insert_def)
  then show ?thesis
    using inv grow ord tx by (auto simp: pool_inv_def x tx_id_new_def)
qed

lemma submit_appends:
  "submit_all d p ts = Some (p', rs) \<Longrightarrow> pool_inv assigned p \<Longrightarrow> left (pool_ordering p) (length ts) \<Longrightarrow>
   sorted_wrt in_nonce_order (map pt_tx (transactions p) @ accepted ts rs) \<Longrightarrow>
   map pt_tx (transactions p') = map pt_tx (transactions p) @ accepted ts rs \<and> length rs = length ts"
proof (induction ts arbitrary: p rs)
  case Nil
  then show ?case by (simp add: accepted_def)
next
  case (Cons nt ts)
  obtain now t where nt: "nt = (now, t)" by fastforce
  obtain q r where q: "add_transaction d now p t = Some (q, r)"
    using Cons.prems(1) by (cases "add_transaction d now p t") (auto simp: nt)
  obtain rs' where rs: "submit_all d q ts = Some (p', rs')" "rs = r # rs'"
    using Cons.prems(1) q by (auto simp: nt)
  show ?case
  proof (cases r)
    case (Inl e)
    have q': "transactions q = transactions p" "pool_ordering q = pool_ordering p"
      using add_rejected [OF q [unfolded Inl]] by (metis pool.select_convs pool.surjective pool.update_convs(4))+
    have acc: "accepted (nt # ts) rs = accepted ts rs'" by (simp add: accepted_def rs Inl)
    have "pool_inv assigned q" "left (pool_ordering q) (length ts)"
      using Cons.prems(2,3) q' left_mono by (auto simp: pool_inv_def)
    then show ?thesis using Cons.IH [OF rs(1)] Cons.prems(4) acc q' rs(2) by simp
  next
    case (Inr h)
    have acc: "accepted (nt # ts) rs = t # accepted ts rs'" by (simp add: accepted_def rs Inr nt)
    have app: "map pt_tx (transactions q) = map pt_tx (transactions p) @ [t] \<and> pool_inv assigned q \<and>
        left (pool_ordering q) (length ts)"
      using Cons.prems(2,3,4) acc
      by (intro add_appends [OF q [unfolded Inr]]) (auto simp: sorted_wrt_append)
    then show ?thesis using Cons.IH [OF rs(1)] Cons.prems(4) acc rs(2) by simp
  qed
qed

end

text \<open>The ordering of the node and its validator meet the contract.\<close>

lemma fifo_priority_grows:
  assumes "fifo_left f (Suc n)" "fifo_priority f t = (prio, f')"
  shows "fifo_left f' n \<and> (\<forall>q\<in>fifo_assigned f. q < prio) \<and> fifo_assigned f' = insert prio (fifo_assigned f)"
proof -
  have f': "f' = f\<lparr>fifo_nonce := fifo_nonce f + 1\<rparr>" "prio = TxSubmissionNonce (fifo_nonce f)"
    using assms(2) by (auto simp: fifo_priority_def fifo_assign_def)
  have fn: "fifo_nonce f' = fifo_nonce f + 1" by (simp add: f'(1))
  have lt: "unat (fifo_nonce f) + 1 < 2 ^ 64" using assms(1) by (simp add: fifo_left_def)
  then have u: "unat (fifo_nonce f + 1) = unat (fifo_nonce f) + 1"
    by (subst unat_add_lem [THEN iffD1]) auto
  have w: "w < fifo_nonce f + 1 \<longleftrightarrow> w < fifo_nonce f \<or> w = fifo_nonce f" for w
    unfolding word_less_nat_alt word_unat_eq_iff u by arith
  have "fifo_left f' n" using assms(1) unfolding fifo_left_def fn u by simp
  moreover have "\<forall>q\<in>fifo_assigned f. q < prio"
    unfolding fifo_assigned_def f'(2) less_tx_submission_nonce_def by auto
  moreover have "fifo_assigned f' = insert prio (fifo_assigned f)"
    unfolding fifo_assigned_def fn w f'(2) by blast
  ultimately show ?thesis by blast
qed

lemma node_pool_contract:
  assumes "\<And>x xs. btree_slot pending_cmp x xs (search x xs)"
  shows "arrival_pool (node_deps vv search try_send send) fifo_assigned fifo_left"
proof (unfold_locales, goal_cases)
  case (1 x xs)
  then show ?case using assms by (simp add: node_deps_def)
next
  case (2 v t v' t')
  then show ?case using tx_validate_keeps_tx by (auto simp: node_deps_def)
next
  case (3 ord n t prio ord')
  then show ?case using fifo_priority_grows [of ord n t prio ord'] by (simp add: node_deps_def)
next
  case (4 ord n)
  then show ?case by (simp add: fifo_left_def)
qed

lemmas node_pool_sound = arrival_pool.axioms(1) [OF node_pool_contract]

interpretation node_pool: arrival_pool "node_deps vv (btree_position pending_cmp) try_send send" fifo_assigned fifo_left
  for vv try_send send
  by (rule node_pool_contract) (rule btree_position_slot)

section \<open>Facts on the stream of pending transactions\<close>

lemma queue_receiver_at:
  "queue_receiver poll_recv queue \<Longrightarrow> (case queue rx of
      [] \<Rightarrow> (\<forall>t. fst (poll_recv rx) \<noteq> Ready (Some t)) \<and> queue (snd (poll_recv rx)) = []
    | t # ts \<Rightarrow> fst (poll_recv rx) = Ready (Some t) \<and> queue (snd (poll_recv rx)) = ts)"
  unfolding queue_receiver_def by blast

lemma queue_receiver_Cons:
  "queue_receiver poll_recv queue \<Longrightarrow> queue rx = t # ts \<Longrightarrow>
   \<exists>rx'. poll_recv rx = (Ready (Some t), rx') \<and> queue rx' = ts"
  by (drule queue_receiver_at [of _ _ rx]) (auto simp: prod_eq_iff intro!: exI [of _ "snd (poll_recv rx)"])

lemma queue_receiver_Nil:
  assumes "queue_receiver poll_recv queue" "queue rx = []"
  obtains r rx' where "poll_recv rx = (r, rx')" "\<And>t. r \<noteq> Ready (Some t)" "queue rx' = []"
proof -
  have "(\<forall>t. fst (poll_recv rx) \<noteq> Ready (Some t)) \<and> queue (snd (poll_recv rx)) = []"
    using queue_receiver_at [OF assms(1), of rx] assms(2) by simp
  then show thesis by (intro that [of "fst (poll_recv rx)" "snd (poll_recv rx)"]) auto
qed

lemma drain_total:
  assumes "queue_receiver poll_recv queue"
  shows "\<exists>txs' rx'. drain poll_recv search rx txs = Some (txs', rx') \<and>
    mset txs' = mset txs + mset (queue rx) \<and> queue rx' = []"
proof (induction "queue rx" arbitrary: rx txs)
  case Nil
  obtain r rx' where "poll_recv rx = (r, rx')" "\<And>t. r \<noteq> Ready (Some t)" "queue rx' = []"
    using queue_receiver_Nil [OF assms Nil [symmetric]] by blast
  then show ?case
    using Nil by (subst drain.simps) (auto split: poll.split option.split)
next
  case (Cons t ts)
  obtain rx1 where rx1: "poll_recv rx = (Ready (Some t), rx1)" "queue rx1 = ts"
    using queue_receiver_Cons [OF assms Cons(2) [symmetric]] by blast
  then show ?case
    using Cons(1) [of rx1 "btree_insert search t txs"] Cons(2) [symmetric] by (subst drain.simps) auto
qed

lemma subscription_poll_delivers:
  assumes q: "queue_receiver poll_recv queue" and ne: "undelivered queue s \<noteq> {#}"
  shows "\<exists>t s'. subscription_poll_next poll_recv search s = Some (Ready (Some t), s') \<and>
    undelivered queue s = add_mset t (undelivered queue s')"
proof (cases "sub_txs s")
  case (Cons t ts)
  then show ?thesis by (simp add: subscription_poll_next_def undelivered_def)
next
  case Nil
  then obtain t ts where qs: "queue (sub_receiver s) = t # ts"
    using ne by (cases "queue (sub_receiver s)") (auto simp: undelivered_def)
  obtain rx1 where rx1: "poll_recv (sub_receiver s) = (Ready (Some t), rx1)" "queue rx1 = ts"
    using queue_receiver_Cons [OF q qs] by blast
  obtain txs rx2 where d: "drain poll_recv search rx1 (btree_insert search t []) = Some (txs, rx2)"
    "mset txs = mset (btree_insert search t []) + mset ts" "queue rx2 = []"
    using drain_total [OF q, of search rx1 "btree_insert search t []"] rx1(2) by auto
  then obtain u us where us: "txs = u # us" by (cases txs) auto
  then show ?thesis using d rx1 qs Nil
    by (auto simp: subscription_poll_next_def undelivered_def)
qed

lemma poll_subscription_times:
  assumes "queue_receiver poll_recv queue"
  shows "pts_all q = [] \<Longrightarrow> n = size (undelivered queue (pts_subscription q)) \<Longrightarrow>
    \<exists>ys q'. poll_times (pending_poll_next poll_recv search) n q = Some (ys, q') \<and>
      mset ys = undelivered queue (pts_subscription q)"
proof (induction n arbitrary: q)
  case 0
  then show ?case by simp
next
  case (Suc n)
  then have "undelivered queue (pts_subscription q) \<noteq> {#}" by auto
  then obtain t s' where t: "subscription_poll_next poll_recv search (pts_subscription q) = Some (Ready (Some t), s')"
    "undelivered queue (pts_subscription q) = add_mset t (undelivered queue s')"
    using subscription_poll_delivers [OF assms] by blast
  let ?q = "q\<lparr>pts_subscription := s'\<rparr>"
  obtain ys q' where "poll_times (pending_poll_next poll_recv search) n ?q = Some (ys, q')"
    "mset ys = undelivered queue s'"
    using Suc.IH [of ?q] Suc.prems t(2) by auto
  moreover have "pending_poll_next poll_recv search q = Some (Ready (Some t), ?q)"
    using t(1) Suc.prems(1) by (simp add: pending_poll_next_def)
  ultimately show ?case using t(2) by auto
qed

lemma poll_snapshot_times:
  "poll_times (pending_poll_next poll_recv search) (length xs + n) (q\<lparr>pts_all := xs\<rparr>) =
     map_option (\<lambda>(ys, q'). (xs @ ys, q')) (poll_times (pending_poll_next poll_recv search) n (q\<lparr>pts_all := []\<rparr>))"
  by (induction xs) (auto simp: pending_poll_next_def option.map_comp comp_def split_beta map_option.identity)

section \<open>Facts on the validator\<close>

lemma account_nonce_update [simp]:
  "account_nonce (v\<lparr>vs_pool_nonces := (vs_pool_nonces v)(x \<mapsto> n)\<rparr>) a = (if a = x then Some n else account_nonce v a)"
  by (simp add: account_nonce_def split: option.split)

lemma tx_validate_nonce:
  assumes "tx_validate vv v t = Some (v', r)" "account_nonce v a = Some c"
  shows "account_nonce v' a = Some (if valid_of a r then (c + 1) mod stark_prime else c)"
  using assms(1)
proof (cases rule: tx_validate_cases)
  case declared
  then have "\<not> valid_of a r"
    using declare_check_not_Valid [of v t] by (auto simp: valid_of_def split: sum.split validation_outcome.split)
  then show ?thesis using declared assms(2) by simp
next
  case (valid n c')
  then show ?thesis using assms(2) by (auto simp: valid_of_def)
next
  case rejected
  then have "\<not> valid_of a r" by (auto simp: valid_of_def split: sum.split validation_outcome.split)
  then show ?thesis using rejected assms(2) by simp
qed (use assms(2) in \<open>auto simp: valid_of_def\<close>)

lemma validate_all_nonce:
  "validate_all (tx_validate vv) v ts = Some (v', rs) \<Longrightarrow> account_nonce v a = Some c \<Longrightarrow> c < stark_prime \<Longrightarrow>
   account_nonce v' a = Some ((c + length (filter (valid_of a) rs)) mod stark_prime)"
proof (induction ts arbitrary: v c rs)
  case Nil
  then show ?case by simp
next
  case (Cons t ts)
  obtain w r where w: "tx_validate vv v t = Some (w, r)"
    using Cons.prems(1) by (cases "tx_validate vv v t") auto
  obtain rs' where rs: "validate_all (tx_validate vv) w ts = Some (v', rs')" "rs = r # rs'"
    using Cons.prems(1) w by (cases "validate_all (tx_validate vv) w ts") auto
  let ?c = "if valid_of a r then (c + 1) mod stark_prime else c"
  have "account_nonce v' a = Some ((?c + length (filter (valid_of a) rs')) mod stark_prime)"
    using Cons.IH [OF rs(1) tx_validate_nonce [OF w Cons.prems(2)]] Cons.prems(3) by (simp add: stark_prime_def)
  then show ?case using rs(2) by (simp add: mod_add_left_eq)
qed

lemma validate_all_bounded:
  "validate_all (tx_validate vv) v ts = Some (v', rs) \<Longrightarrow> i < length ts \<Longrightarrow> rs ! i = Inr (Valid t) \<Longrightarrow>
   \<exists>w c n. validate_all (tx_validate vv) v (take i ts) = Some (w, take i rs) \<and>
     account_nonce w (pool_tx_sender (ewh_transaction t)) = Some c \<and>
     pool_tx_nonce (ewh_transaction t) = Some n \<and> n \<le> c \<and> t = ts ! i"
proof (induction ts arbitrary: v rs i)
  case Nil
  then show ?case by simp
next
  case (Cons u ts)
  obtain w r where w: "tx_validate vv v u = Some (w, r)"
    using Cons.prems(1) by (cases "tx_validate vv v u") auto
  obtain rs' where rs: "validate_all (tx_validate vv) w ts = Some (v', rs')" "rs = r # rs'"
    using Cons.prems(1) w by (cases "validate_all (tx_validate vv) w ts") auto
  show ?case
  proof (cases i)
    case 0
    then have "tx_validate vv v u = Some (w, Inr (Valid t))" using w rs Cons.prems(3) by simp
    then show ?thesis using 0
      by (cases rule: tx_validate_cases) (auto simp: declare_check_not_Valid)
  next
    case (Suc j)
    then show ?thesis using Cons.IH [OF rs(1), of j] Cons.prems w rs(2) by auto
  qed
qed

section \<open>Properties\<close>

text \<open>A library that accepts everything, a state in which every account has nonce zero, and idle channels.\<close>

definition sample_vv :: "(bool, unit, unit, unit) validation_vm" where
  "sample_vv = \<lparr>vv_valid_address = (\<lambda>a. True), vv_compile = (\<lambda>c. Some ()),
     vv_perform_validations = (\<lambda>st e cfg x. Inr ())\<rparr>"

definition sample_validator :: "(bool, unit) validator_state" where
  "sample_validator = tx_validator_new \<lparr>sr_nonce = (\<lambda>a. Inr None), sr_class = (\<lambda>h. Inr None)\<rparr>
     execution_flags_default () sample_env"

definition sample_deps where
  "sample_deps = node_deps sample_vv (btree_position pending_cmp) (\<lambda>(l :: unit) h. (l, Sent)) (\<lambda>(s :: unit) t. (s, True))"

lemmas sample_pool_defs = sample_deps_def node_deps_def sample_vv_def sample_validator_def tx_validator_new_def
  sample_ptx_def sample_invoke_v3_def tx_validate_def account_nonce_def declare_check_def stateful_validate_def
  to_executor_tx_def prepared_tx_def prepared_flags_def with_fee_def with_nonce_check_def
  with_account_validation_def execution_flags_default_def bound_cost_def skip_for_deploy_def Let_def

text \<open>
  C21. The pool of the node is first come, first served, whatever the shape of the tree it
  keeps its transactions in: after any series of submissions to a fresh pool whose
  accepted transactions come, per sender, in nonce order, the pool holds exactly the
  accepted transactions in the order in which they were submitted.  The counter that
  orders them does not wrap below two to the 64 submissions.
\<close>

theorem pool_first_come_first_served:
  assumes search: "\<And>x xs. btree_slot pending_cmp x xs (search x xs)"
    and run: "submit_all (node_deps vv search try_send send) (pool_new v fifo_new) ts = Some (p', rs)"
    and few: "length ts < 2 ^ 64"
    and order: "sorted_wrt in_nonce_order (accepted ts rs)"
  shows "map pt_tx (transactions p') = accepted ts rs"
  using arrival_pool.submit_appends [OF node_pool_contract [OF search] run] few order
  by (simp add: pool_new_def pool_inv_def fifo_left_def fifo_new_def)

theorem pool_first_come_first_served_witness:
  "\<exists>p' rs. submit_all sample_deps (pool_new sample_validator fifo_new)
       [(1, sample_ptx 10 0), (2, sample_ptx 11 1), (3, sample_ptx 12 5)] = Some (p', rs) \<and>
     map pt_tx (transactions p') = [sample_ptx 10 0, sample_ptx 11 1]"
proof -
  let ?ts = "[(1, sample_ptx 10 0), (2, sample_ptx 11 1), (3, sample_ptx 12 5)]"
  obtain p' rs where run: "submit_all sample_deps (pool_new sample_validator fifo_new) ?ts = Some (p', rs)"
    and acc: "accepted ?ts rs = [sample_ptx 10 0, sample_ptx 11 1]"
    by (simp add: sample_pool_defs add_transaction_def pool_new_def fifo_priority_def fifo_assign_def
        notify_def notify_listener_def notify_subscribers_def accepted_def stark_prime_def)
  have "sorted_wrt in_nonce_order [sample_ptx 10 0, sample_ptx 11 1]"
    by (simp add: in_nonce_order_def sample_ptx_def)
  then have "map pt_tx (transactions p') = accepted ?ts rs"
    using run acc unfolding sample_deps_def
    by (intro pool_first_come_first_served [where ts = ?ts and search = "btree_position pending_cmp"])
      (auto intro: btree_position_slot)
  then show ?thesis using run acc by auto
qed

text \<open>
  C35. Submitting a transaction to the pool of the node either accepts it or leaves the pool
  as it was.  When it is accepted its hash is returned, the pool holds one more
  transaction, which it then finds under the hash, and every listener and every subscriber
  has been sent the news exactly once, those whose channel is closed being dropped.  When
  it is rejected nothing but the state of the validator may have changed.  The submission
  itself never panics unless reading the nonce or validating does.
\<close>

theorem pool_submission:
  assumes search: "\<And>x xs. btree_slot pending_cmp x xs (search x xs)"
  shows "case add_transaction (node_deps vv search try_send send) now p t of
      None \<Rightarrow> pool_tx_nonce (ewh_transaction t) = None \<or> tx_validate vv (validator p) t = None
    | Some (p', Inl e) \<Rightarrow> p' = p\<lparr>validator := validator p'\<rparr>
    | Some (p', Inr h) \<Rightarrow> h = ewh_hash t \<and> pool_contains p' h \<and>
        (\<exists>x. pt_tx x = t \<and> mset (transactions p') = add_mset x (mset (transactions p)) \<and>
          mset (subscribers p') = mset (map fst (filter snd (map (\<lambda>s. send s x) (subscribers p))))) \<and>
        mset (listeners p') = mset (map fst (filter (\<lambda>y. snd y \<noteq> Disconnected)
          (map (\<lambda>l. try_send l h) (listeners p))))"
proof (cases "add_transaction (node_deps vv search try_send send) now p t")
  case None
  then show ?thesis
    using sound_pool.add_returns [OF node_pool_sound [OF search, of vv try_send send], of t p now]
    by (auto simp: node_deps_def simp del: not_None_eq)
next
  case (Some pr)
  obtain p' r where pr: "pr = (p', r)" by fastforce
  show ?thesis
  proof (cases r)
    case (Inl e)
    then show ?thesis
      using sound_pool.add_rejected [OF node_pool_sound [OF search] Some [unfolded pr Inl]] Some pr by simp
  next
    case (Inr h)
    have "h = ewh_hash t \<and> pool_contains p' h \<and>
        (\<exists>x. pt_tx x = t \<and> mset (transactions p') = add_mset x (mset (transactions p)) \<and>
          mset (subscribers p') = mset (map fst (filter snd (map (\<lambda>s. send s x) (subscribers p))))) \<and>
        mset (listeners p') = mset (map fst (filter (\<lambda>y. snd y \<noteq> Disconnected)
          (map (\<lambda>l. try_send l h) (listeners p))))"
    proof (rule sound_pool.add_accepted [OF node_pool_sound [OF search] Some [unfolded pr Inr]], goal_cases)
      case (1 v' n prio ord' x)
      then have "x \<in> set (transactions p')" "ewh_hash (pt_tx x) = h" by simp_all
      then have "pool_contains p' h"
        by (auto simp: pool_contains_def pool_get_def find_None_iff_set)
      moreover have "pt_tx x = t" using 1 by simp
      ultimately show ?case using 1 by (auto simp: node_deps_def)
    qed
    then show ?thesis unfolding Some pr Inr option.case prod.case sum.case .
  qed
qed

theorem pool_submission_witness:
  "\<exists>p'. add_transaction sample_deps 1 (add_listener () (pool_new sample_validator fifo_new)) (sample_ptx 10 0) =
      Some (p', Inr 10) \<and> pool_contains p' 10 \<and> mset (listeners p') = {#()#}"
proof -
  let ?p = "add_listener () (pool_new sample_validator fifo_new)"
  obtain p' where p': "add_transaction sample_deps 1 ?p (sample_ptx 10 0) = Some (p', Inr 10)"
    by (simp add: sample_pool_defs add_transaction_def pool_new_def fifo_priority_def fifo_assign_def
        notify_def notify_listener_def notify_subscribers_def add_listener_def swap_remove_def)
  then show ?thesis
    using pool_submission [where search = "btree_position pending_cmp" and vv = sample_vv and now = 1 and p = ?p
        and t = "sample_ptx 10 0" and try_send = "\<lambda>(l :: unit) h. (l, Sent)" and send = "\<lambda>(s :: unit) t. (s, True)"]
      btree_position_slot
    by (fastforce simp: sample_deps_def add_listener_def pool_new_def)
qed

text \<open>
  The stream of pending transactions loses nothing and makes nothing up: polled as often
  as there are transactions in its snapshot, in its buffer and in its channel, it delivers
  the snapshot in order and then each buffered or queued transaction exactly once, without
  ever reporting that it is waiting or closed in between.
\<close>

theorem pending_stream_complete:
  assumes queue: "queue_receiver poll_recv queue"
  shows "\<exists>ys q'. poll_times (pending_poll_next poll_recv search)
      (length (pts_all q) + length (sub_txs (pts_subscription q)) + length (queue (sub_receiver (pts_subscription q)))) q =
      Some (pts_all q @ ys, q') \<and>
    mset ys = mset (sub_txs (pts_subscription q)) + mset (queue (sub_receiver (pts_subscription q)))"
proof -
  let ?q = "q\<lparr>pts_all := []\<rparr>"
  let ?n = "size (undelivered queue (pts_subscription ?q))"
  obtain ys q' where ys: "poll_times (pending_poll_next poll_recv search) ?n ?q = Some (ys, q')"
    "mset ys = undelivered queue (pts_subscription ?q)"
    using poll_subscription_times [OF queue, of ?q ?n search] by auto
  have "q\<lparr>pts_all := pts_all q\<rparr> = q" by simp
  then have "poll_times (pending_poll_next poll_recv search) (length (pts_all q) + ?n) q = Some (pts_all q @ ys, q')"
    using poll_snapshot_times [of poll_recv search "pts_all q" ?n q] ys(1) by simp
  then show ?thesis using ys(2) by (auto simp: undelivered_def add.assoc)
qed

theorem pending_stream_complete_witness:
  "\<exists>ys q'. poll_times (pending_poll_next (\<lambda>rx. case rx of [] \<Rightarrow> (Pending, []) | t # ts \<Rightarrow> (Ready (Some t), ts))
        (btree_position pending_cmp)) 1
      \<lparr>pts_all = [], pts_subscription = \<lparr>sub_txs = [],
         sub_receiver = [\<lparr>pt_id = tx_id_new 1 0, pt_tx = sample_ptx 10 0, pt_priority = TxSubmissionNonce 0, pt_added_at = 0\<rparr>]\<rparr>\<rparr> =
      Some (ys, q') \<and> map (\<lambda>x. ewh_hash (pt_tx x)) ys = [10]"
proof -
  let ?t = "\<lparr>pt_id = tx_id_new 1 0, pt_tx = sample_ptx 10 0, pt_priority = TxSubmissionNonce 0, pt_added_at = 0\<rparr>"
  let ?recv = "\<lambda>rx. case rx of [] \<Rightarrow> (Pending, []) | t # ts \<Rightarrow> (Ready (Some t), ts)"
  have "queue_receiver ?recv (\<lambda>rx. rx)" by (auto simp: queue_receiver_def split: list.split)
  from pending_stream_complete [OF this, where search = "btree_position pending_cmp"
      and q = "\<lparr>pts_all = [], pts_subscription = \<lparr>sub_txs = [], sub_receiver = [?t]\<rparr>\<rparr>"]
  show ?thesis by (auto simp: sample_ptx_def)
qed

text \<open>
  C29. From a state in which none of its transactions has been accepted, the nonce that the
  validator expects of an account is the one the state holds for it, or zero, plus the number
  of its transactions accepted since, modulo the field prime; no other outcome moves it.  A transaction is accepted only if its nonce does not exceed the
  expected one at that moment.
\<close>

theorem validator_nonce_tracking:
  assumes run: "validate_all (tx_validate vv) v ts = Some (v', rs)"
    and state: "vs_pool_nonces v a = None" "sr_nonce (vs_state v) a = Inr s"
    and start: "c = (case s of None \<Rightarrow> 0 | Some n \<Rightarrow> n)" "c < stark_prime"
  shows "account_nonce v' a = Some ((c + length (filter (valid_of a) rs)) mod stark_prime) \<and>
    (\<forall>i < length ts. \<forall>t. rs ! i = Inr (Valid t) \<longrightarrow> t = ts ! i \<and>
       (pool_tx_sender (ewh_transaction t) = a \<longrightarrow>
        the (pool_tx_nonce (ewh_transaction t)) \<le> (c + length (filter (valid_of a) (take i rs))) mod stark_prime))"
proof (intro conjI allI impI)
  have first: "account_nonce v a = Some c" using state start(1) by (simp add: account_nonce_def split: option.splits)
  show "account_nonce v' a = Some ((c + length (filter (valid_of a) rs)) mod stark_prime)"
    using run first start(2) by (rule validate_all_nonce)
  fix i t assume i: "i < length ts" "rs ! i = Inr (Valid t)"
  from validate_all_bounded [OF run i] obtain w c' n where
    w: "validate_all (tx_validate vv) v (take i ts) = Some (w, take i rs)"
      "account_nonce w (pool_tx_sender (ewh_transaction t)) = Some c'"
      "pool_tx_nonce (ewh_transaction t) = Some n" "n \<le> c'" "t = ts ! i" by blast
  show "t = ts ! i" by (rule w(5))
  assume "pool_tx_sender (ewh_transaction t) = a"
  then show "the (pool_tx_nonce (ewh_transaction t)) \<le> (c + length (filter (valid_of a) (take i rs))) mod stark_prime"
    using validate_all_nonce [OF w(1) first start(2)] w(2,3,4) by simp
qed

theorem validator_nonce_tracking_witness:
  "\<exists>v' rs. validate_all (tx_validate sample_vv) sample_validator [sample_ptx 10 0, sample_ptx 11 1] = Some (v', rs) \<and>
     account_nonce v' (iv3_sender_address sample_invoke_v3) =
       Some (length (filter (valid_of (iv3_sender_address sample_invoke_v3)) rs) mod stark_prime)"
proof -
  obtain v' rs where run: "validate_all (tx_validate sample_vv) sample_validator [sample_ptx 10 0, sample_ptx 11 1] = Some (v', rs)"
    by (simp add: sample_pool_defs stark_prime_def)
  have "vs_pool_nonces sample_validator (iv3_sender_address sample_invoke_v3) = None"
    "sr_nonce (vs_state sample_validator) (iv3_sender_address sample_invoke_v3) = Inr None"
    by (simp_all add: sample_validator_def tx_validator_new_def)
  from validator_nonce_tracking [OF run this refl] run show ?thesis by (auto simp: stark_prime_def)
qed

text \<open>
  The comparison of pending transactions is not transitive, so a tree can place a transaction
  behind a later one of the same account: in a pool with a transaction of nonce 5 and one of
  another account, a newcomer of nonce 3 of the first account has two gaps it can end in.
\<close>

lemma btree_slot_ambiguous:
  fixes t :: "bool ptx"
  defines "mk \<equiv> \<lambda>s n k. \<lparr>pt_id = tx_id_new s n, pt_tx = t, pt_priority = TxSubmissionNonce k, pt_added_at = 0\<rparr>"
  shows "btree_slot pending_cmp (mk 1 3 2) [mk 1 5 0, mk 2 0 1] 0 \<and>
    btree_slot pending_cmp (mk 1 3 2) [mk 1 5 0, mk 2 0 1] 2"
  by (simp add: btree_slot_def mk_def pending_cmp_def tx_id_new_def not_equal_def cmp_def less_tx_submission_nonce_def)

end
