(* ===== verification/Mining.thy ===== *)
theory Mining
  imports Executor Db_State Block_Hash
begin

text \<open>
  Block production, \<^verbatim>\<open>crates/core/src/backend\<close>: the gas oracle, the environment of the next
  block, the commitments of a block and storing it.

  Merkle roots and the state tries belong to the \<^verbatim>\<open>bonsai\<close> library; they are the parameters
  \<open>cp_merkle_root\<close>, \<open>cp_trie_classes\<close> and \<open>cp_trie_contracts\<close>, the latter two with the state of the tries
  as an abstract value.  Counts of a header are 32-bit, timestamps 64-bit and gas prices
  128-bit, with the casts and the wrap-around written out.
\<close>

section \<open>Gas oracle\<close>

definition BUFFER_SIZE :: nat where "BUFFER_SIZE = 60"
definition ONE_GWEI :: nat where "ONE_GWEI = 1000000000"

type_synonym gas_price_buffer = "nat list"

definition add_sample :: "nat \<Rightarrow> gas_price_buffer \<Rightarrow> gas_price_buffer" where
  "add_sample s b = (if length b = BUFFER_SIZE then tl b else b) @ [s]"

definition buffer_average :: "gas_price_buffer \<Rightarrow> nat" where
  "buffer_average b = (if b = [] then 0 else (sum_list b mod 2 ^ 128) div length b)"

record sampled_prices =
  sp_gas_prices :: gas_price
  sp_data_gas_prices :: gas_price

datatype gas_oracle = FixedOracle gas_price gas_price | SampledOracle sampled_prices

fun current_gas_prices :: "gas_oracle \<Rightarrow> gas_price" where
  "current_gas_prices (FixedOracle g d) = g"
| "current_gas_prices (SampledOracle s) = sp_gas_prices s"

fun current_data_gas_prices :: "gas_oracle \<Rightarrow> gas_price" where
  "current_data_gas_prices (FixedOracle g d) = d"
| "current_data_gas_prices (SampledOracle s) = sp_data_gas_prices s"

definition sampled_starknet :: gas_oracle where
  "sampled_starknet = FixedOracle gas_price_MIN gas_price_MIN"

definition sampled_ethereum :: gas_oracle where
  "sampled_ethereum = SampledOracle \<lparr>sp_gas_prices = gas_price_MIN, sp_data_gas_prices = gas_price_MIN\<rparr>"

record fee_history =
  base_fee_per_gas :: "nat list"
  base_fee_per_blob_gas :: "nat list"

record gas_worker =
  gw_prices :: sampled_prices
  gw_gas_price_buffer :: gas_price_buffer
  gw_data_gas_price_buffer :: gas_price_buffer

text \<open>A missing blob fee is noticed after the gas sample has been added.\<close>

definition update_gas_price :: "fee_history \<Rightarrow> gas_worker \<Rightarrow> gas_worker \<times> (string + unit)" where
  "update_gas_price fh w =
     (if base_fee_per_gas fh = [] then (w, Inl ''Getting eth gas price'')
      else let w1 = w\<lparr>gw_gas_price_buffer := add_sample (last (base_fee_per_gas fh)) (gw_gas_price_buffer w)\<rparr> in
        if base_fee_per_blob_gas fh = [] then (w1, Inl ''Getting blob gas price'')
        else let w2 = w1\<lparr>gw_data_gas_price_buffer := add_sample (last (base_fee_per_blob_gas fh)) (gw_data_gas_price_buffer w1)\<rparr>;
                 g = (buffer_average (gw_gas_price_buffer w2) + ONE_GWEI) mod 2 ^ 128;
                 b = buffer_average (gw_data_gas_price_buffer w2) in
          (w2\<lparr>gw_prices := \<lparr>sp_gas_prices = \<lparr>gp_eth = g, gp_strk = g\<rparr>, sp_data_gas_prices = \<lparr>gp_eth = b, gp_strk = b\<rparr>\<rparr>\<rparr>,
           Inr ()))"

section \<open>The environment of the next block\<close>

record block_context_generator =
  block_timestamp_offset :: int
  next_block_start_time :: nat

definition block_context_generator_default :: block_context_generator where
  "block_context_generator_default = \<lparr>block_timestamp_offset = 0, next_block_start_time = 0\<rparr>"

text \<open>The reinterpretation of a 64-bit value as signed, and back.\<close>

definition as_i64 :: "int \<Rightarrow> int" where
  "as_i64 n = (n + 2 ^ 63) mod 2 ^ 64 - 2 ^ 63"

definition as_u64 :: "int \<Rightarrow> nat" where
  "as_u64 n = nat (n mod 2 ^ 64)"

definition update_block_gas_prices :: "gas_oracle \<Rightarrow> block_env \<Rightarrow> block_env" where
  "update_block_gas_prices ora e =
     e\<lparr>be_l1_gas_prices := current_gas_prices ora, be_l1_data_gas_prices := current_data_gas_prices ora\<rparr>"

definition update_block_env ::
    "nat \<Rightarrow> gas_oracle \<Rightarrow> block_context_generator \<Rightarrow> block_env \<Rightarrow> block_context_generator \<times> block_env" where
  "update_block_env now ora gen e =
     (let current = as_i64 (int now);
          (gen', timestamp) =
            (if next_block_start_time gen = 0
             then (gen, as_u64 (as_i64 (current + block_timestamp_offset gen)))
             else let t = next_block_start_time gen in
               (gen\<lparr>block_timestamp_offset := as_i64 (as_i64 (int t) - current), next_block_start_time := 0\<rparr>, t))
      in (gen', update_block_gas_prices ora
            (e\<lparr>be_number := (be_number e + 1) mod 2 ^ 64, be_timestamp := timestamp\<rparr>)))"

section \<open>Committing a block\<close>

record 'tr chain_params =
  cp_pos :: hash_fn
  cp_to_felt :: "string \<Rightarrow> felt"
  cp_keccak :: "string \<Rightarrow> felt"
  cp_merkle_root :: "felt list \<Rightarrow> felt"
  cp_trie_classes :: "'tr \<Rightarrow> block_number \<Rightarrow> (class_hash, compiled_class_hash) table \<Rightarrow> 'tr \<times> felt provider_result"
  cp_trie_contracts :: "'tr \<Rightarrow> block_number \<Rightarrow> state_updates \<Rightarrow> 'tr \<times> felt provider_result"

record uncommitted_block =
  ub_header :: partial_header
  ub_transactions :: "tx_with_hash list"
  ub_receipts :: "receipt_with_tx_hash list"
  ub_state_updates :: state_updates

definition compute_transaction_commitment :: "'tr chain_params \<Rightarrow> uncommitted_block \<Rightarrow> felt" where
  "compute_transaction_commitment cp b = cp_merkle_root cp (map twh_hash (ub_transactions b))"

definition compute_receipt_commitment :: "'tr chain_params \<Rightarrow> uncommitted_block \<Rightarrow> felt" where
  "compute_receipt_commitment cp b =
     cp_merkle_root cp (map (receipt_compute_hash (cp_pos cp) (cp_keccak cp)) (ub_receipts b))"

definition compute_state_diff_commitment :: "'tr chain_params \<Rightarrow> uncommitted_block \<Rightarrow> felt" where
  "compute_state_diff_commitment cp b = compute_state_diff_hash (cp_pos cp) (ub_state_updates b)"

definition event_hash :: "hash_fn \<Rightarrow> tx_hash \<Rightarrow> event \<Rightarrow> felt" where
  "event_hash pos t e = pos [t, ev_from_address e, pos (ev_keys e), pos (ev_data e)]"

definition block_events :: "uncommitted_block \<Rightarrow> (tx_hash \<times> event) list" where
  "block_events b = concat (map (\<lambda>r. map (\<lambda>e. (rwh_tx_hash r, e)) (receipt_events (rwh_receipt r))) (ub_receipts b))"

definition compute_event_commitment :: "'tr chain_params \<Rightarrow> uncommitted_block \<Rightarrow> felt" where
  "compute_event_commitment cp b =
     cp_merkle_root cp (map (\<lambda>(t, e). event_hash (cp_pos cp) t e) (block_events b))"

text \<open>The state root; a failing trie update is a panic, \<open>None\<close>.\<close>

definition compute_new_state_root :: "'tr chain_params \<Rightarrow> 'tr \<Rightarrow> uncommitted_block \<Rightarrow> ('tr \<times> felt) option" where
  "compute_new_state_root cp tr b =
     (case cp_trie_classes cp tr (ph_number (ub_header b)) (declared_classes (ub_state_updates b)) of
        (tr1, Inl _) \<Rightarrow> None
      | (tr1, Inr class_root) \<Rightarrow>
          (case cp_trie_contracts cp tr1 (ph_number (ub_header b)) (ub_state_updates b) of
             (tr2, Inl _) \<Rightarrow> None
           | (tr2, Inr contract_root) \<Rightarrow>
               Some (tr2, cp_pos cp [short_string ''STARKNET_STATE_V0'', contract_root, class_root])))"

definition commit_header :: "'tr chain_params \<Rightarrow> uncommitted_block \<Rightarrow> felt \<Rightarrow> header" where
  "commit_header cp b root =
     (let h = ub_header b in
      \<lparr>hd_parent_hash = ph_parent_hash h, hd_number = ph_number h,
       hd_state_diff_commitment = compute_state_diff_commitment cp b,
       hd_transactions_commitment = compute_transaction_commitment cp b,
       hd_receipts_commitment = compute_receipt_commitment cp b,
       hd_events_commitment = compute_event_commitment cp b,
       hd_state_root = root,
       hd_transaction_count = as_u32 (length (ub_transactions b)),
       hd_events_count = as_u32 (sum_list (map (\<lambda>r. as_u32 (length (receipt_events (rwh_receipt r)))) (ub_receipts b))),
       hd_state_diff_length = as_u32 (state_updates_len (ub_state_updates b)),
       hd_timestamp = ph_timestamp h, hd_sequencer_address = ph_sequencer_address h,
       hd_l1_gas_prices = ph_l1_gas_prices h, hd_l1_data_gas_prices = ph_l1_data_gas_prices h,
       hd_l2_gas_prices = ph_l2_gas_prices h, hd_l1_da_mode = ph_l1_da_mode h,
       hd_protocol_version = ph_protocol_version h\<rparr>)"

definition commit :: "'tr chain_params \<Rightarrow> 'tr \<Rightarrow> uncommitted_block \<Rightarrow> ('tr \<times> sealed_block) option" where
  "commit cp tr b = (case compute_new_state_root cp tr b of
      None \<Rightarrow> None
    | Some (tr', root) \<Rightarrow>
        (let h = commit_header cp b root in
         Some (tr', \<lparr>sb_hash = header_compute_hash (cp_pos cp) (cp_to_felt cp) h, sb_header = h,
                     sb_body = ub_transactions b\<rparr>)))"

definition STORED_BLOCK_HASH_BUFFER :: nat where "STORED_BLOCK_HASH_BUFFER = 10"

definition update_block_hash_registry_contract ::
    "('cls, 'info) db \<Rightarrow> block_number \<Rightarrow> state_updates \<Rightarrow> provider_error + state_updates" where
  "update_block_hash_registry_contract d n s =
     (if n \<ge> STORED_BLOCK_HASH_BUFFER
      then rbind (block_hash_by_num d (n - STORED_BLOCK_HASH_BUFFER)) (\<lambda>h.
        (let h = (case h of Some h \<Rightarrow> h | None \<Rightarrow> 0);
             storages = (case tbl_get (storage_updates s) 1 of Some t \<Rightarrow> t | None \<Rightarrow> [])
         in Inr (s\<lparr>storage_updates :=
              tbl_put 1 (tbl_put (n - STORED_BLOCK_HASH_BUFFER) h storages) (storage_updates s)\<rparr>)))
      else Inr s)"

text \<open>\<open>None\<close> is a panic; otherwise the sealed block with the state updates it was committed with.\<close>

definition commit_block ::
    "'tr chain_params \<Rightarrow> ('cls, 'info) db \<Rightarrow> 'tr \<Rightarrow> partial_header \<Rightarrow> tx_with_hash list \<Rightarrow>
     receipt_with_tx_hash list \<Rightarrow> state_updates \<Rightarrow>
     ('tr \<times> (provider_error + sealed_block \<times> state_updates)) option" where
  "commit_block cp d tr h txs receipts s =
     (case update_block_hash_registry_contract d (ph_number h) s of
        Inl e \<Rightarrow> Some (tr, Inl e)
      | Inr s' \<Rightarrow> (case commit cp tr \<lparr>ub_header = h, ub_transactions = txs, ub_receipts = receipts, ub_state_updates = s'\<rparr> of
          None \<Rightarrow> None
        | Some (tr', b) \<Rightarrow> Some (tr', Inr (b, s'))))"

definition commit_genesis_block ::
    "'tr chain_params \<Rightarrow> 'tr \<Rightarrow> partial_header \<Rightarrow> tx_with_hash list \<Rightarrow> receipt_with_tx_hash list \<Rightarrow>
     state_updates \<Rightarrow> ('tr \<times> sealed_block) option" where
  "commit_genesis_block cp tr h txs receipts s =
     commit cp tr \<lparr>ub_header = h, ub_transactions = txs, ub_receipts = receipts, ub_state_updates = s\<rparr>"

section \<open>Mining\<close>

record mined_block_outcome =
  mb_block_number :: block_number
  mb_txs :: "tx_hash list"
  mb_stats :: execution_stats

record ('cls, 'tr) backend =
  bk_db :: "('cls, exec_info) db"
  bk_trie :: 'tr
  bk_generator :: block_context_generator
  bk_oracle :: gas_oracle

text \<open>The successful transactions with their receipts and typed traces; \<open>None\<close> is the panic on
  a trace of an unsupported kind, which a receipt never has.\<close>

fun successful ::
    "(tx_with_hash \<times> execution_result) list \<Rightarrow>
     (tx_with_hash \<times> receipt_with_tx_hash \<times> exec_info typed_execution_info) list option" where
  "successful [] = Some []"
| "successful ((t, Success rc i) # xs) =
     (case typed_execution_info_new (receipt_type rc) i of
        None \<Rightarrow> None
      | Some ti \<Rightarrow> map_option (\<lambda>ys. (t, \<lparr>rwh_tx_hash = twh_hash t, rwh_receipt = rc\<rparr>, ti) # ys) (successful xs))"
| "successful ((t, Failed _) # xs) = successful xs"

definition mining_header :: "block_env \<Rightarrow> block_hash \<Rightarrow> partial_header" where
  "mining_header e parent = \<lparr>ph_parent_hash = parent, ph_number = be_number e, ph_timestamp = be_timestamp e,
     ph_sequencer_address = be_sequencer_address e, ph_l1_gas_prices = be_l1_gas_prices e,
     ph_l1_data_gas_prices = be_l1_data_gas_prices e, ph_l2_gas_prices = be_l2_gas_prices e,
     ph_l1_da_mode = Calldata, ph_protocol_version = CURRENT_STARKNET_VERSION\<rparr>"

definition do_mine_block ::
    "'tr chain_params \<Rightarrow> block_env \<Rightarrow> 'cls execution_output \<Rightarrow> ('cls, 'tr) backend \<Rightarrow>
     (('cls, 'tr) backend \<times> (provider_error + mined_block_outcome)) option" where
  "do_mine_block cp e out bk =
     (case successful (eo_transactions out) of
        None \<Rightarrow> None
      | Some items \<Rightarrow>
          (let txs = map fst items; receipts = map (fst \<circ> snd) items; traces = map (snd \<circ> snd) items in
           (case latest_hash (bk_db bk) of
              Inl err \<Rightarrow> Some (bk, Inl err)
            | Inr parent \<Rightarrow>
                (case commit_block cp (bk_db bk) (bk_trie bk) (mining_header e parent) txs receipts
                        (su_state_updates (eo_states out)) of
                   None \<Rightarrow> None
                 | Some (tr', Inl err) \<Rightarrow> Some (bk\<lparr>bk_trie := tr'\<rparr>, Inl err)
                 | Some (tr', Inr (b, s')) \<Rightarrow>
                     Some (bk\<lparr>bk_trie := tr',
                              bk_db := insert_block_with_states_and_receipts
                                \<lparr>sbs_block = b, sbs_status = AcceptedOnL2\<rparr>
                                ((eo_states out)\<lparr>su_state_updates := s'\<rparr>)
                                (map rwh_receipt receipts) traces (bk_db bk)\<rparr>,
                           Inr \<lparr>mb_block_number = hd_number (sb_header b), mb_txs = map twh_hash txs,
                                mb_stats = eo_stats out\<rparr>)))))"

definition execution_output_default :: "'cls execution_output" where
  "execution_output_default = \<lparr>eo_stats = execution_stats_default,
     eo_states = \<lparr>su_state_updates = \<lparr>nonce_updates = [], storage_updates = [], deployed_contracts = [],
       declared_classes = [], deprecated_declared_classes = [], replaced_classes = []\<rparr>, su_classes = []\<rparr>,
     eo_transactions = []\<rparr>"

definition mine_empty_block where
  "mine_empty_block cp e bk = do_mine_block cp e execution_output_default bk"

section \<open>Genesis\<close>

datatype genesis_error =
  GenesisProvider provider_error
| GenesisHashMismatch block_hash block_hash
| GenesisClassTrie
| GenesisContractTrie
| GenesisExecution

text \<open>What the initialisation reads of a development chain specification.\<close>

record 'cls dev_chain_spec =
  dev_genesis_number :: block_number
  dev_block :: block
  dev_state_updates :: "'cls state_updates_with_classes"

definition init_dev_genesis ::
    "'tr chain_params \<Rightarrow> 'cls dev_chain_spec \<Rightarrow> ('cls, 'tr) backend \<Rightarrow> ('cls, 'tr) backend \<times> (genesis_error + unit)" where
  "init_dev_genesis cp spec bk =
     (case block_hash_by_num (bk_db bk) (dev_genesis_number spec) of
        Inl e \<Rightarrow> (bk, Inl (GenesisProvider e))
      | Inr (Some local_hash) \<Rightarrow>
          (let genesis_hash = header_compute_hash (cp_pos cp) (cp_to_felt cp) (blk_header (dev_block spec)) in
           if local_hash \<noteq> genesis_hash then (bk, Inl (GenesisHashMismatch genesis_hash local_hash))
           else (bk, Inr ()))
      | Inr None \<Rightarrow>
          (let b = seal (cp_pos cp) (cp_to_felt cp) (dev_block spec);
               states = dev_state_updates spec;
               n = hd_number (sb_header b) in
           (case cp_trie_classes cp (bk_trie bk) n (declared_classes (su_state_updates states)) of
              (tr1, Inl _) \<Rightarrow> (bk\<lparr>bk_trie := tr1\<rparr>, Inl GenesisClassTrie)
            | (tr1, Inr class_root) \<Rightarrow>
                (case cp_trie_contracts cp tr1 n (su_state_updates states) of
                   (tr2, Inl _) \<Rightarrow> (bk\<lparr>bk_trie := tr2\<rparr>, Inl GenesisContractTrie)
                 | (tr2, Inr contract_root) \<Rightarrow>
                     (let root = cp_pos cp [short_string ''STARKNET_STATE_V0'', contract_root, class_root];
                          b = b\<lparr>sb_header := (sb_header b)\<lparr>hd_state_root := root\<rparr>\<rparr> in
                      (bk\<lparr>bk_trie := tr2,
                          bk_db := insert_block_with_states_and_receipts
                            \<lparr>sbs_block = b, sbs_status = AcceptedOnL1\<rparr> states [] [] (bk_db bk)\<rparr>,
                       Inr ()))))))"

definition block_env_default :: block_env where
  "block_env_default = \<lparr>be_number = 0, be_timestamp = 0, be_l2_gas_prices = gas_price_MIN,
     be_l1_gas_prices = gas_price_MIN, be_l1_data_gas_prices = gas_price_MIN, be_sequencer_address = 0\<rparr>"

record 'cls rollup_chain_spec =
  rollup_header :: partial_header
  rollup_body :: "'cls ptx list"

text \<open>
  Genesis of a rollup: its transactions are executed on the empty state.  On a database that
  has the block already the commitments are computed on a volatile trie (\<open>volatile\<close>, starting
  from \<open>empty_trie\<close>) and only the hash is compared.
\<close>

definition init_rollup_genesis ::
    "'tr chain_params \<Rightarrow> 'tr2 chain_params \<Rightarrow> 'tr2 \<Rightarrow> ('cls, 'cmp, 'st, 'bn, 'r) vm \<Rightarrow> execution_flags \<Rightarrow>
     ('cls \<Rightarrow> bool) \<Rightarrow> ('st \<Rightarrow> class_hash \<Rightarrow> provider_error + 'cls option) \<Rightarrow> ('st \<Rightarrow> state_maps) \<Rightarrow> 'st \<Rightarrow> 'bn \<Rightarrow>
     'cls rollup_chain_spec \<Rightarrow> ('cls, 'tr) backend \<Rightarrow> (('cls, 'tr) backend \<times> (genesis_error + unit)) option" where
  "init_rollup_genesis cp volatile empty_trie vm flags is_legacy base_class to_diff st0 bn spec bk =
     (let h = rollup_header spec in
      (case execute_block vm (vm_processor_new st0 block_env_default flags bn) h (rollup_body spec) of
         None \<Rightarrow> None
       | Some (p, Inl _) \<Rightarrow> Some (bk, Inl GenesisExecution)
       | Some (p, Inr _) \<Rightarrow> (case take_execution_output is_legacy base_class to_diff p of
           None \<Rightarrow> None
         | Some (_, out) \<Rightarrow> (case successful (eo_transactions out) of
             None \<Rightarrow> None
           | Some items \<Rightarrow>
               (let txs = map fst items; receipts = map (fst \<circ> snd) items; traces = map (snd \<circ> snd) items;
                    s = su_state_updates (eo_states out) in
                (case block_hash_by_num (bk_db bk) (ph_number h) of
                   Inl e \<Rightarrow> Some (bk, Inl (GenesisProvider e))
                 | Inr (Some local_hash) \<Rightarrow> (case commit_genesis_block volatile empty_trie h txs receipts s of
                     None \<Rightarrow> None
                   | Some (_, b) \<Rightarrow>
                       if sb_hash b \<noteq> local_hash then Some (bk, Inl (GenesisHashMismatch (sb_hash b) local_hash))
                       else Some (bk, Inr ()))
                 | Inr None \<Rightarrow> (case commit_genesis_block cp (bk_trie bk) h txs receipts s of
                     None \<Rightarrow> None
                   | Some (tr', b) \<Rightarrow>
                       Some (bk\<lparr>bk_trie := tr',
                                bk_db := insert_block_with_states_and_receipts
                                  \<lparr>sbs_block = b, sbs_status = AcceptedOnL2\<rparr> (eo_states out)
                                  (map rwh_receipt receipts) traces (bk_db bk)\<rparr>, Inr ()))))))))"

end
