(* ===== verification/Storage_Properties.thy ===== *)
theory Storage_Properties
  imports Db_Updates
begin

text \<open>
  The properties of the database provider: what the two state providers return, what the
  block and transaction getters return after a block is stored, and the invariant of every
  database the writers can produce.
\<close>

section \<open>Databases produced by the writers\<close>

inductive db_reach :: "('cls, 'info) db \<Rightarrow> bool" where
  reach_empty: "db_reach db_empty"
| reach_block: "db_reach d \<Longrightarrow> updates_ok (su_state_updates st) \<Longrightarrow>
    length rs \<le> length (sb_body (sbs_block b)) \<Longrightarrow> length xs \<le> length (sb_body (sbs_block b)) \<Longrightarrow>
    db_reach (insert_block_with_states_and_receipts b st rs xs d)"
| reach_nonce: "db_reach d \<Longrightarrow> db_reach (set_nonce a v d)"
| reach_storage: "db_reach d \<Longrightarrow> db_reach (set_storage a k v d)"
| reach_class_hash: "db_reach d \<Longrightarrow> db_reach (set_class_hash_of_contract a c d)"
| reach_class: "db_reach d \<Longrightarrow> db_reach (set_class h cls d)"
| reach_compiled: "db_reach d \<Longrightarrow> db_reach (set_compiled_class_hash_of_class_hash h ch d)"
| reach_checkpoint: "db_reach d \<Longrightarrow> db_reach (set_checkpoint stage n d)"

lemma db_ok_field_updates [simp]:
  "db_ok (set_nonce a v d) = db_ok d" "db_ok (set_storage a k v d) = db_ok d"
  "db_ok (set_class_hash_of_contract a c d) = db_ok d" "db_ok (set_class h cls d) = db_ok d"
  "db_ok (set_compiled_class_hash_of_class_hash h ch d) = db_ok d" "db_ok (set_checkpoint stage n d) = db_ok d"
  by (simp_all add: db_ok_def db_tables_sorted_def set_nonce_def set_storage_def
      set_class_hash_of_contract_def set_class_def set_compiled_class_hash_of_class_hash_def set_checkpoint_def)

lemma storage_ok_field_updates [simp]:
  "storage_ok (set_nonce a v d) = storage_ok d"
  "storage_ok (set_class_hash_of_contract a c d) = storage_ok d" "storage_ok (set_class h cls d) = storage_ok d"
  "storage_ok (set_compiled_class_hash_of_class_hash h ch d) = storage_ok d"
  "storage_ok (set_checkpoint stage n d) = storage_ok d"
  by (simp_all add: storage_ok_def set_nonce_def
      set_class_hash_of_contract_def set_class_def set_compiled_class_hash_of_class_hash_def set_checkpoint_def)

lemma storage_ok_set_storage: "storage_ok d \<Longrightarrow> storage_ok (set_storage a k v d)"
  by (simp add: storage_ok_def set_storage_def storage_upsert_ok)

lemma storage_ok_insert_block:
  assumes "storage_ok d" "updates_ok (su_state_updates st)"
  shows "storage_ok (insert_block b st rs xs d)"
  using storage_insert [of d "\<lparr>bi_block = b, bi_states = st, bi_receipts = rs, bi_executions = xs\<rparr>"] assms
  by (simp add: insert_input_def)

lemma reach_invariant: "db_reach d \<Longrightarrow> db_ok d \<and> storage_ok d"
proof (induction rule: db_reach.induct)
  case reach_empty
  then show ?case using db_ok_empty by (simp add: storage_ok_def) (simp add: db_empty_def)
qed (auto intro: db_ok_insert_block storage_ok_insert_block storage_ok_set_storage)

section \<open>Samples\<close>

definition sample_updates :: "nat \<Rightarrow> state_updates" where
  "sample_updates n =
     \<lparr>nonce_updates = [(1, n)], storage_updates = [(1, [(7, n + 5)])],
      deployed_contracts = (if n = 0 then [(1, 9)] else []), declared_classes = [(n + 20, 3)],
      deprecated_declared_classes = [n + 40], replaced_classes = []\<rparr>"

definition sample_tx :: "nat \<Rightarrow> tx_with_hash" where
  "sample_tx h = \<lparr>twh_hash = h, twh_transaction = Invoke (InvokeV3 sample_invoke_v3)\<rparr>"

definition sample_block :: "nat \<Rightarrow> sealed_block_with_status" where
  "sample_block n =
     \<lparr>sbs_block = \<lparr>sb_hash = 1000 + n, sb_header = header_default\<lparr>hd_number := n\<rparr>,
        sb_body = [sample_tx (10 * n + 1), sample_tx (10 * n + 2)]\<rparr>, sbs_status = AcceptedOnL2\<rparr>"

definition sample_input :: "nat \<Rightarrow> (unit, unit) block_input" where
  "sample_input n =
     \<lparr>bi_block = sample_block n,
      bi_states = \<lparr>su_state_updates = sample_updates n, su_classes = []\<rparr>,
      bi_receipts = [], bi_executions = []\<rparr>"

lemmas sample_defs = sample_input_def sample_block_def sample_updates_def header_default_def

lemma sample_inputs_ok: "inputs_ok [sample_input 0, sample_input 3, sample_input 4]"
  by (simp add: inputs_ok_def updates_ok_def sample_defs)

section \<open>Properties\<close>

text \<open>
  C1. The historical state provider implements the chain of state updates.  For a database
  filled by inserting blocks with increasing numbers, the storage value, nonce and class
  hash it reports at block \<open>n\<close> are exactly the last ones written by a block with number at
  most \<open>n\<close> (and absent if there was none); no lookup ends in a missing-entry error.
\<close>

theorem historical_state_refines_chain:
  assumes "inputs_ok is"
  shows "historical_storage (db_of is) n a k = Inr (last_write (\<lambda>i. storage_write i (a, k)) (numbered is) n)
    \<and> historical_nonce (db_of is) n a = Inr (last_write (\<lambda>i. nonce_write i a) (numbered is) n)
    \<and> historical_class_hash (db_of is) n a = Inr (last_write (\<lambda>i. class_write i a) (numbered is) n)"
  using assms by (simp add: historical_storage_lookup historical_nonce_lookup historical_class_hash_lookup)

lemma historical_state_refines_chain_witness:
  "historical_storage (db_of [sample_input 0, sample_input 3, sample_input 4]) 3 1 7 = Inr (Some 8)
   \<and> historical_nonce (db_of [sample_input 0, sample_input 3, sample_input 4]) 2 1 = Inr (Some 0)
   \<and> historical_class_hash (db_of [sample_input 0, sample_input 3, sample_input 4]) 4 1 = Inr (Some 9)"
  using historical_state_refines_chain [OF sample_inputs_ok, of 3 1 7]
    historical_state_refines_chain [OF sample_inputs_ok, of 2 1 7]
    historical_state_refines_chain [OF sample_inputs_ok, of 4 1 7]
  by (simp add: last_write_def numbered_def storage_write_def nonce_write_def class_write_def
      sample_defs tbl_get_def)

text \<open>
  C18. The state factory picks a provider that is right.  For every block number up to the
  newest block, \<open>historical\<close> returns a view, and the storage value of this view is the last
  write at or before that block, whether the view is the latest or a historical one; for a
  larger number it returns none.
\<close>

theorem state_factory_correct:
  assumes "inputs_ok (is @ [i])"
  shows "(n \<le> bi_number i \<longrightarrow>
      (\<exists>view. historical (db_of (is @ [i])) (Num n) = Inr (Some view)
        \<and> view_storage (db_of (is @ [i])) view a k =
            Inr (last_write (\<lambda>i. storage_write i (a, k)) (numbered (is @ [i])) n)))
    \<and> (bi_number i < n \<longrightarrow> historical (db_of (is @ [i])) (Num n) = Inr None)"
proof -
  let ?d = "db_of (is @ [i])"
  have latest: "view_storage ?d LatestState a k =
      Inr (last_write (\<lambda>i. storage_write i (a, k)) (numbered (is @ [i])) (bi_number i))"
    using latest_storage_lookup [OF assms]
    by (simp add: latest_is_last [OF numbered_bound [OF assms]])
  show ?thesis
    using latest historical_storage_lookup [OF assms, of n a k]
    by (auto simp: historical_def latest_number_db_of [OF assms])
qed

lemma state_factory_correct_witness:
  "\<exists>view. historical (db_of ([sample_input 0, sample_input 3] @ [sample_input 4])) (Num 3) = Inr (Some view)
     \<and> view_storage (db_of ([sample_input 0, sample_input 3] @ [sample_input 4])) view 1 7 = Inr (Some 8)"
  using state_factory_correct [of "[sample_input 0, sample_input 3]" "sample_input 4" 3 1 7] sample_inputs_ok
  by (simp add: last_write_def numbered_def storage_write_def sample_defs tbl_get_def)

text \<open>
  C23. At the newest block the latest provider agrees with the historical one.  Storage
  values are equal; nonces and class hashes are equal once an absent value is read as zero
  (the latest provider reports zero for the component of a known contract that was never
  written, the historical provider reports none).
\<close>

theorem latest_agrees_with_historical:
  assumes "inputs_ok (is @ [i])"
  shows "latest_storage (db_of (is @ [i])) a k = historical_storage (db_of (is @ [i])) (bi_number i) a k
    \<and> (\<exists>x y. latest_nonce (db_of (is @ [i])) a = Inr x
        \<and> historical_nonce (db_of (is @ [i])) (bi_number i) a = Inr y
        \<and> case_option 0 id x = case_option 0 id y \<and> (y \<noteq> None \<longrightarrow> x = y))
    \<and> (\<exists>x y. latest_class_hash (db_of (is @ [i])) a = Inr x
        \<and> historical_class_hash (db_of (is @ [i])) (bi_number i) a = Inr y
        \<and> case_option 0 id x = case_option 0 id y \<and> (y \<noteq> None \<longrightarrow> x = y))"
proof -
  let ?d = "db_of (is @ [i])"
  note last = latest_is_last [OF numbered_bound [OF assms]]
  note info = latest_info_lookup [OF assms, of a]
  show ?thesis
    unfolding historical_storage_lookup [OF assms] historical_nonce_lookup [OF assms]
      historical_class_hash_lookup [OF assms] last latest_nonce_def latest_class_hash_def info
    using latest_storage_lookup [OF assms]
    by (auto split: option.split)
qed

lemma latest_agrees_with_historical_witness:
  "latest_storage (db_of ([sample_input 0, sample_input 3] @ [sample_input 4])) 1 7 =
     historical_storage (db_of ([sample_input 0, sample_input 3] @ [sample_input 4])) (bi_number (sample_input 4)) 1 7"
  using latest_agrees_with_historical [of "[sample_input 0, sample_input 3]" "sample_input 4" 1 7] sample_inputs_ok
  by simp

text \<open>
  C14. Reading the state update of the newest block gives back what was written: nonces,
  storage, deployed contracts and both kinds of declarations, provided no storage map of the
  update is empty and the deprecated classes have no compiled class hash.  Replaced classes
  are the exception: they are not stored and come back empty.
\<close>

theorem state_update_roundtrip:
  assumes "inputs_ok (is @ [i])" "deprecated_ok (db_of is) (bi_updates i)"
    and "\<forall>e\<in>set (storage_updates (bi_updates i)). snd e \<noteq> []"
  shows "state_update (db_of (is @ [i])) (Num (bi_number i)) =
    Inr (Some ((bi_updates i)\<lparr>replaced_classes := []\<rparr>))"
  using assms by (rule state_update_inserted)

lemma state_update_roundtrip_witness:
  "state_update (db_of ([] @ [sample_input 3])) (Num (bi_number (sample_input 3))) =
     Inr (Some ((bi_updates (sample_input 3))\<lparr>replaced_classes := []\<rparr>))"
  by (rule state_update_roundtrip)
     (simp_all add: inputs_ok_def updates_ok_def deprecated_ok_def db_of_def db_empty_def sample_defs)

text \<open>
  C22. A stored block is read back unchanged.  After inserting a block its header and body
  are returned both by number and by hash, its status is the one given, and its receipts and
  traces are returned in order when there is one per transaction.
\<close>

theorem stored_block_roundtrip:
  fixes d :: "('cls, 'info) db" and st :: "'cls state_updates_with_classes"
  assumes "bid = Num (hd_number (sb_header (sbs_block b))) \<or> bid = Hash (sb_hash (sbs_block b))"
    and "length rs = length (sb_body (sbs_block b))" "length xs = length (sb_body (sbs_block b))"
  defines "d' \<equiv> insert_block_with_states_and_receipts b st rs xs d"
  shows "block_by_id d' bid = Inr (Some (unseal (sbs_block b)))
    \<and> block_status d' bid = Inr (Some (sbs_status b))
    \<and> receipts_by_block d' bid = Inr (Some rs)
    \<and> transaction_executions_by_block d' bid = Inr (Some xs)"
proof -
  have bid: "bid \<in> block_ids b" using assms(1) by (auto simp: block_ids_def)
  have "block_status d' bid = Inr (Some (sbs_status b))"
    unfolding d'_def block_status_def by (simp add: resolve_id_inserted [OF bid] db_simps table_simps)
  then show ?thesis
    unfolding d'_def using block_inserted [OF bid] receipts_inserted [OF bid assms(2)]
      traces_inserted [OF bid assms(3)] by blast
qed

definition sample_receipt :: receipt where
  "sample_receipt = RInvoke
     \<lparr>ir_fee = \<lparr>fi_l1_gas_price = 1, fi_l2_gas_price = 1, fi_l1_data_gas_price = 1, fi_overall_fee = 5, fi_unit = Fri\<rparr>,
      ir_events = [], ir_messages_sent = [], ir_revert_error = None,
      ir_execution_resources =
        \<lparr>er_gas = \<lparr>gu_l2_gas = 0, gu_l1_gas = 0, gu_l1_data_gas = 0\<rparr>,
         er_computation_resources = \<lparr>n_steps = 0, n_memory_holes = 0, builtin_instance_counter = []\<rparr>,
         er_da_resources = \<lparr>dr_l1_gas = 0, dr_l1_data_gas = 0\<rparr>\<rparr>\<rparr>"

lemma stored_block_roundtrip_witness:
  "block_by_id (insert_block_with_states_and_receipts (sample_block 0)
      \<lparr>su_state_updates = sample_updates 0, su_classes = []\<rparr>
      [sample_receipt, sample_receipt] [XInvoke (), XInvoke ()] (db_empty :: (unit, unit) db)) (Hash 1000) =
     Inr (Some (unseal (sbs_block (sample_block 0))))"
  using stored_block_roundtrip [of "Hash 1000" "sample_block 0" "[sample_receipt, sample_receipt]"
      "[XInvoke (), XInvoke ()]" "\<lparr>su_state_updates = sample_updates 0, su_classes = []\<rparr>" "db_empty :: (unit, unit) db"]
  by (simp add: sample_block_def)

text \<open>
  C15. Every database the writers can produce is well formed: the transaction tables are
  numbered contiguously from zero, each transaction has a hash and a block, receipts and
  traces belong to transactions, the four block tables have the same keys, block bodies lie
  within the transaction table, and the storage table holds one value per cell.
\<close>

theorem database_invariant:
  assumes "db_reach d"
  shows "db_ok d \<and> storage_ok d"
  using assms by (rule reach_invariant)

lemma database_invariant_witness:
  "db_ok (set_nonce 1 2 (insert_block_with_states_and_receipts (sample_block 0)
      \<lparr>su_state_updates = sample_updates 0, su_classes = []\<rparr> [] [] (db_empty :: (unit, unit) db)))"
proof -
  have "updates_ok (sample_updates 0)" by (simp add: updates_ok_def sample_updates_def)
  then show ?thesis
    by (intro database_invariant [THEN conjunct1] reach_nonce reach_block reach_empty) simp_all
qed

text \<open>
  The chain is append only.  Inserting a block into a well-formed database does not
  change what is read for any other block number, whatever the inserted block contains.
\<close>

theorem insert_keeps_other_blocks:
  assumes "db_ok d" "m \<noteq> hd_number (sb_header (sbs_block b))"
  shows "block_by_id (insert_block_with_states_and_receipts b st rs xs d) (Num m) = block_by_id d (Num m)"
  using assms by (rule block_kept)

lemma insert_keeps_other_blocks_witness:
  "block_by_id (insert_block_with_states_and_receipts (sample_block 1)
      \<lparr>su_state_updates = sample_updates 1, su_classes = []\<rparr> [] [] (db_of [sample_input 0])) (Num 0) =
     block_by_id (db_of [sample_input 0]) (Num 0)"
  by (rule insert_keeps_other_blocks)
     (auto intro: db_ok_db_of simp: sample_input_def sample_block_def)

text \<open>
  Lookups by transaction hash.  If the hashes of the inserted body are distinct and
  there is a receipt per transaction, then for the \<open>j\<close>-th transaction the provider returns
  the transaction, its receipt, its block and its status when asked for its hash.
\<close>

theorem transaction_lookup:
  fixes d :: "('cls, 'info) db" and st :: "'cls state_updates_with_classes"
    and xs :: "'info typed_execution_info list"
  assumes "distinct (map twh_hash (sb_body (sbs_block b)))" "j < length (sb_body (sbs_block b))"
    and "length rs = length (sb_body (sbs_block b))"
  defines "d' \<equiv> insert_block_with_states_and_receipts b st rs xs d"
    and "t \<equiv> sb_body (sbs_block b) ! j"
  shows "transaction_by_hash d' (twh_hash t) = Inr (Some t)
    \<and> receipt_by_hash d' (twh_hash t) = Inr (Some (rs ! j))
    \<and> transaction_block_num_and_hash d' (twh_hash t) =
        Inr (Some (hd_number (sb_header (sbs_block b)), sb_hash (sbs_block b)))
    \<and> transaction_status d' (twh_hash t) = Inr (Some (sbs_status b))"
proof -
  have num: "tbl_get (tb_TxNumbers d') (twh_hash t) = Some (tx_total d + j)"
    unfolding d'_def t_def by (rule TxNumbers_inserted [OF assms(1,2)])
  have "tbl_get (tb_Transactions d') (tx_total d + j) = Some (versioned_tx_from (twh_transaction t))"
      "tbl_get (tb_Receipts d') (tx_total d + j) = Some (rs ! j)"
      "tbl_get (tb_TxBlocks d') (tx_total d + j) = Some (hd_number (sb_header (sbs_block b)))"
    unfolding d'_def t_def using assms(2,3) by (simp_all add: db_simps)
  moreover have "tbl_get (tb_BlockHashes d') (hd_number (sb_header (sbs_block b))) = Some (sb_hash (sbs_block b))"
      "tbl_get (tb_BlockStatusses d') (hd_number (sb_header (sbs_block b))) = Some (sbs_status b)"
    unfolding d'_def by (simp_all add: db_simps table_simps)
  ultimately show ?thesis
    using num by (simp add: transaction_by_hash_def receipt_by_hash_def
        transaction_block_num_and_hash_def transaction_status_def)
qed

lemma transaction_lookup_witness:
  "transaction_by_hash (insert_block_with_states_and_receipts (sample_block 0)
      \<lparr>su_state_updates = sample_updates 0, su_classes = []\<rparr>
      [sample_receipt, sample_receipt] [] (db_empty :: (unit, unit) db)) 2 = Inr (Some (sample_tx 2))"
  using transaction_lookup [of "sample_block 0" 1 "[sample_receipt, sample_receipt]"
      "\<lparr>su_state_updates = sample_updates 0, su_classes = []\<rparr>" "[]" "db_empty :: (unit, unit) db"]
  by (simp add: sample_block_def sample_tx_def numeral_2_eq_2)

end
