(* ===== verification/Mining_Props.thy ===== *)
theory Mining_Props
  imports Mining Storage_Properties Executor_Props
begin

text \<open>
  Facts about block production: what a mined block contains and stores, that mined blocks
  form a chain, the block-hash registry, the gas price average and genesis.
\<close>

section \<open>Notions\<close>

text \<open>Every block names the hash of its predecessor when that is stored.\<close>

definition chain_linked :: "('cls, 'info) db \<Rightarrow> bool" where
  "chain_linked d \<longleftrightarrow> (\<forall>n hdr h. header_by_id d (Num (Suc n)) = Inr (Some hdr) \<longrightarrow>
     block_hash_by_num d n = Inr (Some h) \<longrightarrow> hd_parent_hash hdr = h)"

text \<open>The stored hash of every block above \<open>base\<close> is the hash of its stored header.\<close>

definition chain_sealed :: "'tr chain_params \<Rightarrow> block_number \<Rightarrow> ('cls, 'info) db \<Rightarrow> bool" where
  "chain_sealed cp base d \<longleftrightarrow> (\<forall>n hdr. base < n \<longrightarrow> header_by_id d (Num n) = Inr (Some hdr) \<longrightarrow>
     block_hash_by_num d n = Inr (Some (header_compute_hash (cp_pos cp) (cp_to_felt cp) hdr)))"

definition backend_ok :: "'tr chain_params \<Rightarrow> block_number \<Rightarrow> ('cls, 'tr) backend \<Rightarrow> bool" where
  "backend_ok cp base bk \<longleftrightarrow> db_ok (bk_db bk) \<and> storage_ok (bk_db bk) \<and> chain_linked (bk_db bk) \<and>
     chain_sealed cp base (bk_db bk) \<and> (\<exists>n \<ge> base. latest_number (bk_db bk) = Inr n)"

text \<open>Mining one block after the other, each for the number after the newest block.\<close>

inductive mining_reach :: "'tr chain_params \<Rightarrow> ('cls, 'tr) backend \<Rightarrow> ('cls, 'tr) backend \<Rightarrow> bool"
  for cp :: "'tr chain_params" and bk0 :: "('cls, 'tr) backend" where
  mining_start: "mining_reach cp bk0 bk0"
| mining_step: "mining_reach cp bk0 bk \<Longrightarrow> latest_number (bk_db bk) = Inr n \<Longrightarrow> be_number e = Suc n \<Longrightarrow>
    updates_ok (su_state_updates (eo_states out)) \<Longrightarrow> do_mine_block cp e out bk = Some (bk', r) \<Longrightarrow>
    mining_reach cp bk0 bk'"

text \<open>The successful entries of an execution.\<close>

definition success_pairs :: "(tx_with_hash \<times> execution_result) list \<Rightarrow> (tx_with_hash \<times> receipt) list" where
  "success_pairs xs = concat (map (\<lambda>(t, r). case r of Success rc i \<Rightarrow> [(t, rc)] | Failed _ \<Rightarrow> []) xs)"

text \<open>Their execution infos, each under the type of its receipt.\<close>

definition success_traces :: "(tx_with_hash \<times> execution_result) list \<Rightarrow> exec_info typed_execution_info option list" where
  "success_traces xs = concat (map (\<lambda>(t, r). case r of Success rc i \<Rightarrow> [typed_execution_info_new (receipt_type rc) i]
     | Failed _ \<Rightarrow> []) xs)"

text \<open>The worker of the gas oracle over a series of answers.\<close>

definition gas_worker_new :: gas_worker where
  "gas_worker_new = \<lparr>gw_prices = \<lparr>sp_gas_prices = gas_price_MIN, sp_data_gas_prices = gas_price_MIN\<rparr>,
     gw_gas_price_buffer = [], gw_data_gas_price_buffer = []\<rparr>"

definition gas_worker_run :: "fee_history list \<Rightarrow> gas_worker" where
  "gas_worker_run fhs = fold (\<lambda>fh w. fst (update_gas_price fh w)) fhs gas_worker_new"

definition newest_samples :: "nat list \<Rightarrow> nat list" where
  "newest_samples xs = drop (length xs - BUFFER_SIZE) xs"

section \<open>The parts of a mined block\<close>

lemma typed_execution_info_receipt: "typed_execution_info_new (receipt_type rc) i \<noteq> None"
  by (cases rc) auto

lemma successful_total:
  obtains items where "successful xs = Some items"
    and "map (\<lambda>(t, r, ti). (t, rwh_receipt r)) items = success_pairs xs"
    and "\<forall>(t, r, ti) \<in> set items. rwh_tx_hash r = twh_hash t"
    and "map (\<lambda>(t, r, ti). Some ti) items = success_traces xs"
proof -
  have "\<exists>items. successful xs = Some items \<and> map (\<lambda>(t, r, ti). (t, rwh_receipt r)) items = success_pairs xs
      \<and> (\<forall>(t, r, ti) \<in> set items. rwh_tx_hash r = twh_hash t) \<and> map (\<lambda>(t, r, ti). Some ti) items = success_traces xs"
  proof (induction xs rule: successful.induct)
    case (2 t rc i xs)
    obtain ti where ti: "typed_execution_info_new (receipt_type rc) i = Some ti"
      using typed_execution_info_receipt by fastforce
    from 2 [OF ti] show ?case using ti by (auto simp: success_pairs_def success_traces_def)
  qed (auto simp: success_pairs_def success_traces_def)
  then show thesis using that by blast
qed

lemma updates_ok_registry:
  assumes "updates_ok s" "update_block_hash_registry_contract d n s = Inr s'"
  shows "updates_ok s'"
proof (cases "n \<ge> STORED_BLOCK_HASH_BUFFER")
  case False
  then show ?thesis using assms by (simp add: update_block_hash_registry_contract_def)
next
  case True
  define old where "old = (case tbl_get (storage_updates s) 1 of Some t \<Rightarrow> t | None \<Rightarrow> [])"
  obtain h where s': "s' = s\<lparr>storage_updates := tbl_put 1 (tbl_put (n - STORED_BLOCK_HASH_BUFFER) h old) (storage_updates s)\<rparr>"
    using assms(2) True by (auto simp: update_block_hash_registry_contract_def block_hash_by_num_def Let_def old_def)
  have inv: "tbl_inv (storage_updates s)" using assms(1) by (simp add: updates_ok_def)
  have inner: "tbl_inv t" if "tbl_get (storage_updates s) a = Some t" for a t
  proof -
    have "(a, t) \<in> set (storage_updates s)" using that tbl_inv_map_of_in [OF inv] by simp
    then have "tbl_inv (snd (a, t))" using assms(1) unfolding updates_ok_def by blast
    then show ?thesis by simp
  qed
  then have "tbl_inv old" by (simp add: old_def split: option.split)
  have inv': "tbl_inv (storage_updates s')" using inv by (simp add: s')
  have "tbl_inv (snd e)" if "e \<in> set (storage_updates s')" for e
  proof -
    have "tbl_get (storage_updates s') (fst e) = Some (snd e)" using that inv' by (simp add: tbl_inv_map_of_in)
    then have "snd e = tbl_put (n - STORED_BLOCK_HASH_BUFFER) h old \<or> tbl_get (storage_updates s) (fst e) = Some (snd e)"
      by (auto simp: s' table_simps split: if_splits)
    then show ?thesis using tbl_inv_put [OF \<open>tbl_inv old\<close>] inner by metis
  qed
  then show ?thesis using assms(1) by (simp add: updates_ok_def s')
qed

text \<open>Everything a successful mining step does.\<close>

lemma do_mine_block_success:
  assumes "do_mine_block cp e out bk = Some (bk', Inr m)"
  obtains parent s' tr' root items b where
    "successful (eo_transactions out) = Some items"
    "latest_hash (bk_db bk) = Inr parent"
    "update_block_hash_registry_contract (bk_db bk) (be_number e) (su_state_updates (eo_states out)) = Inr s'"
    "b = (let u = \<lparr>ub_header = mining_header e parent, ub_transactions = map fst items,
            ub_receipts = map (fst \<circ> snd) items, ub_state_updates = s'\<rparr>; h = commit_header cp u root in
          \<lparr>sb_hash = header_compute_hash (cp_pos cp) (cp_to_felt cp) h, sb_header = h, sb_body = map fst items\<rparr>)"
    "bk' = bk\<lparr>bk_trie := tr', bk_db := insert_block_with_states_and_receipts
       \<lparr>sbs_block = b, sbs_status = AcceptedOnL2\<rparr> ((eo_states out)\<lparr>su_state_updates := s'\<rparr>)
       (map rwh_receipt (map (fst \<circ> snd) items)) (map (snd \<circ> snd) items) (bk_db bk)\<rparr>"
    "m = \<lparr>mb_block_number = be_number e, mb_txs = map twh_hash (map fst items), mb_stats = eo_stats out\<rparr>"
    "compute_new_state_root cp (bk_trie bk) \<lparr>ub_header = mining_header e parent, ub_transactions = map fst items,
       ub_receipts = map (fst \<circ> snd) items, ub_state_updates = s'\<rparr> = Some (tr', root)"
proof -
  obtain items where items: "successful (eo_transactions out) = Some items" by (rule successful_total)
  obtain parent where parent: "latest_hash (bk_db bk) = Inr parent"
    using assms items by (auto simp: do_mine_block_def Let_def split: sum.splits)
  obtain s' where s': "update_block_hash_registry_contract (bk_db bk) (be_number e) (su_state_updates (eo_states out)) = Inr s'"
    using assms items parent
    by (auto simp: do_mine_block_def commit_block_def mining_header_def Let_def split: sum.splits)
  let ?u = "\<lparr>ub_header = mining_header e parent, ub_transactions = map fst items,
            ub_receipts = map (fst \<circ> snd) items, ub_state_updates = s'\<rparr>"
  obtain tr' root where root: "compute_new_state_root cp (bk_trie bk) ?u = Some (tr', root)"
    using assms items parent s'
    by (auto simp: do_mine_block_def commit_block_def commit_def mining_header_def Let_def comp_def split: option.splits)
  show thesis
    using assms items parent s' root
    by (intro that [of items parent s' _ root tr'])
      (auto simp: do_mine_block_def commit_block_def commit_def mining_header_def commit_header_def Let_def comp_def)
qed

lemma do_mine_block_error:
  "do_mine_block cp e out bk = Some (bk', Inl err) \<Longrightarrow> bk_db bk' = bk_db bk"
  by (auto simp: do_mine_block_def Let_def split: option.splits sum.splits prod.splits)

section \<open>Extending the chain\<close>

lemma header_by_id_keys: "header_by_id d (Num m) = Inr (Some hdr) \<Longrightarrow> m \<in> tbl_keys (tb_Headers d)"
  by (auto simp: header_by_id_def rbind_Inr_iff dest: tbl_get_SomeD)

lemma header_by_id_other:
  "m \<noteq> block_num b \<Longrightarrow> header_by_id (insert_block b st rs xs d) (Num m) = header_by_id d (Num m)"
  by (simp add: header_by_id_def db_simps table_simps)

lemma block_hash_inserted:
  "block_hash_by_num (insert_block b st rs xs d) m =
     (if m = block_num b then Inr (Some (sb_hash (sbs_block b))) else block_hash_by_num d m)"
  by (simp add: block_hash_by_num_def db_simps table_simps)

lemma latest_number_bound:
  assumes "db_ok d" "latest_number d = Inr n" "m \<in> tbl_keys (tb_Headers d)"
  shows "m \<le> n"
proof -
  have inv: "tbl_inv (tb_BlockHashes d)" using assms(1) by (simp add: db_ok_def db_tables_sorted_def)
  obtain v where "tbl_last (tb_BlockHashes d) = Some (n, v)"
    using assms(2) by (auto simp: latest_number_def)
  then show ?thesis using assms(1,3) unfolding tbl_last_Some [OF inv] by (auto simp: db_ok_def)
qed

lemma latest_hash_number:
  "latest_hash d = Inr h \<Longrightarrow> latest_number d = Inr n \<Longrightarrow> block_hash_by_num d n = Inr (Some h)"
  by (simp add: latest_hash_def block_hash_by_num_def)

text \<open>A sealed block on top of the newest one keeps the chain in order.\<close>

lemma extend_chain:
  assumes ok: "db_ok d" "chain_linked d" "chain_sealed cp base d"
    and newest: "latest_number d = Inr n" "base \<le> n" and num: "block_num b = Suc n"
    and parent: "latest_hash d = Inr (hd_parent_hash (sb_header (sbs_block b)))"
    and hash: "sb_hash (sbs_block b) = header_compute_hash (cp_pos cp) (cp_to_felt cp) (sb_header (sbs_block b))"
  shows "chain_linked (insert_block b st rs xs d) \<and> chain_sealed cp base (insert_block b st rs xs d) \<and>
    latest_number (insert_block b st rs xs d) = Inr (Suc n)"
proof (intro conjI)
  let ?d = "insert_block b st rs xs d"
  have below: "m \<le> n" if "m \<in> tbl_keys (tb_Headers d)" for m
    using latest_number_bound [OF ok(1) newest(1) that] .
  have new: "header_by_id ?d (Num (Suc n)) = Inr (Some (sb_header (sbs_block b)))"
    using header_inserted [of "Num (Suc n)" b] num by (simp add: block_ids_def)
  show "chain_linked ?d"
    unfolding chain_linked_def
  proof (intro allI impI)
    fix m hdr h
    assume hdr: "header_by_id ?d (Num (Suc m)) = Inr (Some hdr)" and h: "block_hash_by_num ?d m = Inr (Some h)"
    show "hd_parent_hash hdr = h"
    proof (cases "m = n")
      case True
      have "block_hash_by_num d n = Inr (Some (hd_parent_hash (sb_header (sbs_block b))))"
        by (rule latest_hash_number [OF parent newest(1)])
      then show ?thesis using hdr new True num h by (simp add: block_hash_inserted)
    next
      case False
      then have hdr': "header_by_id d (Num (Suc m)) = Inr (Some hdr)"
        using hdr num by (simp add: header_by_id_other)
      then have "Suc m \<le> n" using header_by_id_keys below by blast
      then have "block_hash_by_num d m = Inr (Some h)" using h num by (simp add: block_hash_inserted)
      then show ?thesis using hdr' ok(2) by (simp add: chain_linked_def)
    qed
  qed
  show "chain_sealed cp base ?d"
    using ok(3) new hash num
    by (auto simp: chain_sealed_def block_hash_inserted header_by_id_other)
  show "latest_number ?d = Inr (Suc n)"
    using latest_number_insert(1) [OF ok(1), of b st rs xs] below num by (simp add: less_Suc_eq_le)
qed

lemma mined_block_facts:
  assumes "do_mine_block cp e out bk = Some (bk', Inr m)"
  obtains b st rs xs where "bk_db bk' = insert_block b st rs xs (bk_db bk)"
    "block_num b = be_number e" "latest_hash (bk_db bk) = Inr (hd_parent_hash (sb_header (sbs_block b)))"
    "sb_hash (sbs_block b) = header_compute_hash (cp_pos cp) (cp_to_felt cp) (sb_header (sbs_block b))"
    "length rs = length (sb_body (sbs_block b))" "length xs = length (sb_body (sbs_block b))"
    "updates_ok (su_state_updates (eo_states out)) \<Longrightarrow> updates_ok (su_state_updates st)"
    "map fst (success_pairs (eo_transactions out)) = sb_body (sbs_block b)"
    "map snd (success_pairs (eo_transactions out)) = rs" "sbs_status b = AcceptedOnL2"
    "mb_block_number m = be_number e" "mb_txs m = map twh_hash (sb_body (sbs_block b))" "mb_stats m = eo_stats out"
    "hd_transaction_count (sb_header (sbs_block b)) = as_u32 (length (sb_body (sbs_block b)))"
    "map Some xs = success_traces (eo_transactions out)"
proof (rule do_mine_block_success [OF assms], goal_cases)
  case (1 parent s' tr' root items b)
  obtain items' where items': "successful (eo_transactions out) = Some items'"
    "map (\<lambda>(t, r, ti). (t, rwh_receipt r)) items' = success_pairs (eo_transactions out)"
    "map (\<lambda>(t, r, ti). Some ti) items' = success_traces (eo_transactions out)"
    by (rule successful_total)
  have traces: "map Some (map (snd \<circ> snd) items) = success_traces (eo_transactions out)"
    using 1(2) items'(1) by (simp add: comp_def split_beta flip: items'(3))
  from 1(2) items' have "success_pairs (eo_transactions out) = map (\<lambda>(t, r, ti). (t, rwh_receipt r)) items" by simp
  then have "map fst (success_pairs (eo_transactions out)) = map fst items"
    "map snd (success_pairs (eo_transactions out)) = map rwh_receipt (map (fst \<circ> snd) items)"
    by (simp_all add: comp_def split_beta)
  then show ?case
    using 1(2-) updates_ok_registry [OF _ 1(4)] traces
    by (intro that [of "\<lparr>sbs_block = b, sbs_status = AcceptedOnL2\<rparr>" "(eo_states out)\<lparr>su_state_updates := s'\<rparr>"
          "map rwh_receipt (map (fst \<circ> snd) items)" "map (snd \<circ> snd) items"])
      (simp_all add: Let_def commit_header_def mining_header_def)
qed

lemma mine_preserves:
  assumes ok: "backend_ok cp base bk" and newest: "latest_number (bk_db bk) = Inr n" and num: "be_number e = Suc n"
    and out: "updates_ok (su_state_updates (eo_states out))" and mine: "do_mine_block cp e out bk = Some (bk', r)"
  shows "backend_ok cp base bk'"
proof (cases r)
  case (Inl err)
  then have "bk_db bk' = bk_db bk" using mine do_mine_block_error by blast
  then show ?thesis using ok by (simp add: backend_ok_def)
next
  case (Inr m)
  have base: "base \<le> n" using ok newest by (auto simp: backend_ok_def)
  show ?thesis
  proof (rule mined_block_facts [OF mine [unfolded Inr]], goal_cases)
    case (1 b st rs xs)
    have "chain_linked (bk_db bk') \<and> chain_sealed cp base (bk_db bk') \<and> latest_number (bk_db bk') = Inr (Suc n)"
      unfolding 1(1) by (rule extend_chain) (use ok newest base num 1 in \<open>simp_all add: backend_ok_def\<close>)
    moreover have "db_ok (bk_db bk')" "storage_ok (bk_db bk')"
      unfolding 1(1) using ok 1 out
      by (auto simp: backend_ok_def intro!: db_ok_insert_block storage_ok_insert_block)
    ultimately show ?case using base by (auto simp: backend_ok_def intro!: exI [of _ "Suc n"])
  qed
qed

section \<open>Facts on the registry, the oracle and genesis\<close>

lemma registry_entry:
  assumes "update_block_hash_registry_contract d n s = Inr s'" "n \<ge> STORED_BLOCK_HASH_BUFFER"
  shows "\<exists>t. tbl_get (storage_updates s') 1 = Some t \<and>
    tbl_get t (n - STORED_BLOCK_HASH_BUFFER) = Some (case tbl_get (tb_BlockHashes d) (n - STORED_BLOCK_HASH_BUFFER) of Some h \<Rightarrow> h | None \<Rightarrow> 0)"
  using assms by (auto simp: update_block_hash_registry_contract_def block_hash_by_num_def Let_def table_simps)

lemma newest_samples_snoc: "newest_samples (xs @ [x]) = add_sample x (newest_samples xs)"
proof (cases "length xs < BUFFER_SIZE")
  case True
  then show ?thesis by (simp add: newest_samples_def add_sample_def)
next
  case False
  then have "Suc (length xs) - BUFFER_SIZE = Suc (length xs - BUFFER_SIZE)" by simp
  then show ?thesis
    using False by (simp add: newest_samples_def add_sample_def drop_Suc tl_drop BUFFER_SIZE_def)
qed

lemma length_newest_samples: "length (newest_samples xs) = min (length xs) BUFFER_SIZE"
  by (simp add: newest_samples_def min_def)

lemma gas_worker_run_buffers:
  assumes "\<forall>fh\<in>set fhs. base_fee_per_gas fh \<noteq> [] \<and> base_fee_per_blob_gas fh \<noteq> []"
  shows "gw_gas_price_buffer (gas_worker_run fhs) = newest_samples (map (last \<circ> base_fee_per_gas) fhs) \<and>
    gw_data_gas_price_buffer (gas_worker_run fhs) = newest_samples (map (last \<circ> base_fee_per_blob_gas) fhs)"
  using assms
proof (induction fhs rule: rev_induct)
  case Nil
  then show ?case by (simp add: gas_worker_run_def gas_worker_new_def newest_samples_def)
next
  case (snoc fh fhs)
  then show ?case
    by (simp add: gas_worker_run_def newest_samples_snoc update_gas_price_def Let_def)
qed

lemma dev_genesis_fresh:
  assumes "block_hash_by_num (bk_db bk) (dev_genesis_number spec) = Inr None"
    and "init_dev_genesis cp spec bk = (bk', Inr ())"
  obtains root tr' where "bk' = bk\<lparr>bk_trie := tr', bk_db := insert_block
     \<lparr>sbs_block = \<lparr>sb_hash = header_compute_hash (cp_pos cp) (cp_to_felt cp) (blk_header (dev_block spec)),
        sb_header = (blk_header (dev_block spec))\<lparr>hd_state_root := root\<rparr>, sb_body = blk_body (dev_block spec)\<rparr>,
      sbs_status = AcceptedOnL1\<rparr> (dev_state_updates spec) [] [] (bk_db bk)\<rparr>"
  using assms
  by (auto simp: init_dev_genesis_def Let_def seal_def seal_with_hash_def split: prod.splits sum.splits)

section \<open>Properties\<close>

text \<open>A small instance: hashes that count, empty tries, and a database with a genesis block.\<close>

definition sample_cp :: "unit chain_params" where
  "sample_cp = \<lparr>cp_pos = length, cp_to_felt = (\<lambda>s. 0), cp_keccak = (\<lambda>s. 0), cp_merkle_root = length,
     cp_trie_classes = (\<lambda>tr n t. ((), Inr 0)), cp_trie_contracts = (\<lambda>tr n s. ((), Inr 0))\<rparr>"

definition sample_genesis :: sealed_block_with_status where
  "sample_genesis = \<lparr>sbs_block = \<lparr>sb_hash = 17, sb_header = header_default, sb_body = []\<rparr>, sbs_status = AcceptedOnL1\<rparr>"

definition sample_backend :: "(bool, unit) backend" where
  "sample_backend = \<lparr>bk_db = insert_block_with_states_and_receipts sample_genesis
       (eo_states execution_output_default) [] [] db_empty,
     bk_trie = (), bk_generator = block_context_generator_default, bk_oracle = sampled_starknet\<rparr>"

definition sample_output :: "bool execution_output" where
  "sample_output = execution_output_default\<lparr>eo_transactions :=
     [(sample_tx 5, Success sample_receipt sample_exec_info), (sample_tx 6, Failed (ExecError []))]\<rparr>"

lemma sample_updates_default: "updates_ok (su_state_updates (eo_states execution_output_default))"
  by (simp add: updates_ok_def execution_output_default_def)

lemma sample_backend_latest:
  "latest_number (bk_db sample_backend) = Inr 0" "latest_hash (bk_db sample_backend) = Inr 17"
  using latest_number_insert [OF db_ok_empty, of sample_genesis]
  by (simp_all add: sample_backend_def sample_genesis_def db_empty_def header_default_def)

lemma sample_backend_ok: "backend_ok sample_cp 0 sample_backend"
proof -
  have keys: "tbl_keys (tb_Headers (bk_db sample_backend)) = {0}"
    by (simp add: sample_backend_def sample_genesis_def db_simps db_empty_def header_default_def)
  have "db_ok (bk_db sample_backend)" "storage_ok (bk_db sample_backend)"
    unfolding sample_backend_def
    by (auto intro!: db_ok_insert_block storage_ok_insert_block db_ok_empty sample_updates_default)
      (simp add: storage_ok_def db_empty_def)
  moreover have "chain_linked (bk_db sample_backend)" "chain_sealed sample_cp 0 (bk_db sample_backend)"
    using header_by_id_keys [of "bk_db sample_backend"] keys by (fastforce simp: chain_linked_def chain_sealed_def)+
  ultimately show ?thesis using sample_backend_latest by (simp add: backend_ok_def)
qed

lemma sample_mines:
  obtains bk' m where "do_mine_block sample_cp sample_env sample_output sample_backend = Some (bk', Inr m)"
  using sample_backend_latest
  by (simp add: do_mine_block_def sample_output_def sample_receipt_def sample_env_def commit_block_def commit_def
      update_block_hash_registry_contract_def mining_header_def STORED_BLOCK_HASH_BUFFER_def
      compute_new_state_root_def sample_cp_def Let_def)

text \<open>
  C2. Mined blocks form a chain.  Starting from a well-formed database with at least one
  block, however many blocks are mined one after the other: the database stays well formed,
  every block above the first names the hash of its predecessor as its parent, and the
  hash under which a mined block is stored is the hash of its stored header.
\<close>

theorem mined_chain_linked:
  assumes "mining_reach cp bk0 bk" "backend_ok cp base bk0"
  shows "backend_ok cp base bk"
  using assms by (induction rule: mining_reach.induct) (auto intro: mine_preserves)

theorem mined_chain_linked_witness:
  "\<exists>bk. mining_reach sample_cp sample_backend bk \<and> bk \<noteq> sample_backend \<and> backend_ok sample_cp 0 bk"
proof -
  obtain bk' m where mine: "do_mine_block sample_cp sample_env sample_output sample_backend = Some (bk', Inr m)"
    by (rule sample_mines)
  have reach: "mining_reach sample_cp sample_backend bk'"
    by (rule mining_step [OF mining_start sample_backend_latest(1) _ _ mine])
      (use sample_updates_default in \<open>simp_all add: sample_env_def sample_output_def\<close>)
  have "latest_number (bk_db bk') \<noteq> latest_number (bk_db sample_backend)"
  proof (rule mined_block_facts [OF mine], goal_cases)
    case (1 b st rs xs)
    have "latest_number (bk_db bk') = Inr (Suc 0)"
      unfolding 1(1)
      using extend_chain [of "bk_db sample_backend" sample_cp 0 0 b st rs xs] sample_backend_ok 1 sample_backend_latest
      by (simp add: backend_ok_def sample_env_def)
    then show ?case using sample_backend_latest(1) by simp
  qed
  then show ?thesis using mined_chain_linked [OF reach sample_backend_ok] reach by auto
qed

text \<open>
  C16. A mined block holds the successful transactions of the execution, in order, and only
  those.  Asked for by its number or by the hash of its header, the block is read back with
  these transactions, and so are their receipts and their traces, each trace under the type
  of its receipt.  The block becomes the newest one, its header counts the transactions and
  names the block before it, and the reported outcome lists their hashes.
\<close>

theorem mined_block_contents:
  assumes ok: "backend_ok cp base bk" "latest_number (bk_db bk) = Inr n" "be_number e = Suc n"
    and mine: "do_mine_block cp e out bk = Some (bk', Inr m)"
  shows "\<exists>hdr h traces. h = header_compute_hash (cp_pos cp) (cp_to_felt cp) hdr \<and>
    map Some traces = success_traces (eo_transactions out) \<and>
    (\<forall>bid \<in> {Num (Suc n), Hash h}.
      block_by_id (bk_db bk') bid =
        Inr (Some \<lparr>blk_header = hdr, blk_body = map fst (success_pairs (eo_transactions out))\<rparr>) \<and>
      receipts_by_block (bk_db bk') bid = Inr (Some (map snd (success_pairs (eo_transactions out)))) \<and>
      transaction_executions_by_block (bk_db bk') bid = Inr (Some traces)) \<and>
    latest_number (bk_db bk') = Inr (Suc n) \<and> latest_hash (bk_db bk') = Inr h \<and>
    latest_hash (bk_db bk) = Inr (hd_parent_hash hdr) \<and>
    hd_transaction_count hdr = length (success_pairs (eo_transactions out)) mod 2 ^ 32 \<and>
    mb_block_number m = Suc n \<and> mb_txs m = map (twh_hash \<circ> fst) (success_pairs (eo_transactions out))"
proof (rule mined_block_facts [OF mine], goal_cases)
  case (1 b st rs xs)
  have above: "\<forall>k\<in>tbl_keys (tb_Headers (bk_db bk)). k < block_num b"
    using ok 1(2) latest_number_bound [of "bk_db bk" n] by (auto simp: backend_ok_def less_Suc_eq_le)
  have d: "db_ok (bk_db bk)" using ok(1) by (simp add: backend_ok_def)
  have len: "length (sb_body (sbs_block b)) = length (success_pairs (eo_transactions out))"
    using 1(8) by (metis length_map)
  have read: "block_by_id (bk_db bk') bid = Inr (Some (unseal (sbs_block b))) \<and>
      receipts_by_block (bk_db bk') bid = Inr (Some rs) \<and> transaction_executions_by_block (bk_db bk') bid = Inr (Some xs)"
    if "bid \<in> {Num (Suc n), Hash (sb_hash (sbs_block b))}" for bid
  proof -
    have bid: "bid \<in> block_ids b" using that 1(2) ok(3) by (auto simp: block_ids_def)
    show ?thesis
      unfolding 1(1) using block_inserted [OF bid] receipts_inserted [OF bid 1(5)] traces_inserted [OF bid 1(6)] by blast
  qed
  have latest: "latest_number (bk_db bk') = Inr (Suc n)" "latest_hash (bk_db bk') = Inr (sb_hash (sbs_block b))"
    unfolding 1(1) using latest_number_insert [OF d above] 1(2) ok(3) by simp_all
  show ?case
    using read latest 1(2-) ok(3) len
    by (intro exI [of _ "sb_header (sbs_block b)"] exI [of _ "sb_hash (sbs_block b)"] exI [of _ xs])
      (simp add: unseal_def as_u32_def map_map [symmetric] del: map_map)
qed

theorem mined_block_contents_witness:
  "\<exists>bk' m h. do_mine_block sample_cp sample_env sample_output sample_backend = Some (bk', Inr m) \<and>
     mb_txs m = [5] \<and> latest_number (bk_db bk') = Inr 1 \<and> latest_hash (bk_db bk') = Inr h \<and>
     (\<exists>traces. transaction_executions_by_block (bk_db bk') (Hash h) = Inr (Some traces) \<and>
        map Some traces = success_traces (eo_transactions sample_output))"
proof -
  obtain bk' m where mine: "do_mine_block sample_cp sample_env sample_output sample_backend = Some (bk', Inr m)"
    by (rule sample_mines)
  show ?thesis
    using mined_block_contents [OF sample_backend_ok sample_backend_latest(1) _ mine] mine
    by (auto simp: sample_env_def sample_output_def success_pairs_def sample_tx_def)
qed

text \<open>
  C30. The block-hash registry.  After mining block \<open>n\<close>, for \<open>n\<close> at least ten, the storage of the
  contract at address 1 holds the hash of block \<open>n\<close> minus ten under that number, in the newest
  state, and zero if that block is not in the database.
\<close>

theorem block_hash_registry:
  assumes ok: "storage_ok (bk_db bk)" "updates_ok (su_state_updates (eo_states out))"
    and mine: "do_mine_block cp e out bk = Some (bk', Inr m)"
    and late: "be_number e \<ge> 10"
  shows "latest_storage (bk_db bk') 1 (be_number e - 10) =
    Inr (Some (case tbl_get (tb_BlockHashes (bk_db bk)) (be_number e - 10) of Some h \<Rightarrow> h | None \<Rightarrow> 0))"
proof (rule do_mine_block_success [OF mine], goal_cases)
  case (1 parent s' tr' root items b)
  let ?i = "\<lparr>bi_block = \<lparr>sbs_block = b, sbs_status = AcceptedOnL2\<rparr>, bi_states = (eo_states out)\<lparr>su_state_updates := s'\<rparr>,
      bi_receipts = map rwh_receipt (map (fst \<circ> snd) items), bi_executions = map (snd \<circ> snd) items\<rparr>"
  have "updates_ok (bi_updates ?i)" using updates_ok_registry [OF ok(2) 1(3)] by simp
  note ins = storage_insert [OF ok(1) this, of 1 "be_number e - 10"]
  have "storage_write ?i (1, be_number e - 10) =
      Some (case tbl_get (tb_BlockHashes (bk_db bk)) (be_number e - 10) of Some h \<Rightarrow> h | None \<Rightarrow> 0)"
    using registry_entry [OF 1(3)] late by (auto simp: storage_write_def STORED_BLOCK_HASH_BUFFER_def)
  moreover have "bk_db bk' = insert_input ?i (bk_db bk)" using 1(5) by (simp add: insert_input_def)
  ultimately show ?case using ins by (simp add: latest_storage_dup_get)
qed

theorem block_hash_registry_witness:
  "\<exists>bk' m. do_mine_block sample_cp (sample_env\<lparr>be_number := 10\<rparr>) sample_output sample_backend = Some (bk', Inr m) \<and>
     latest_storage (bk_db bk') 1 0 = Inr (Some 17)"
proof -
  obtain bk' m where mine:
    "do_mine_block sample_cp (sample_env\<lparr>be_number := 10\<rparr>) sample_output sample_backend = Some (bk', Inr m)"
    using sample_backend_latest
    by (simp add: do_mine_block_def sample_output_def sample_receipt_def sample_env_def commit_block_def commit_def
        update_block_hash_registry_contract_def block_hash_by_num_def mining_header_def STORED_BLOCK_HASH_BUFFER_def
        compute_new_state_root_def sample_cp_def Let_def)
  have "storage_ok (bk_db sample_backend)" "updates_ok (su_state_updates (eo_states sample_output))"
    using sample_backend_ok sample_updates_default by (simp_all add: backend_ok_def sample_output_def)
  from block_hash_registry [OF this mine] show ?thesis
    using mine by (simp add: sample_backend_def sample_genesis_def db_simps db_empty_def header_default_def tbl_get_def)
qed

text \<open>
  The sampled gas price is the average over the newest samples, at most sixty of them,
  plus one gwei, and the data gas price is the plain average, as long as the sums fit into
  128 bits and every answer of the L1 node carries both fees.
\<close>

theorem gas_price_average:
  assumes complete: "\<forall>fh\<in>set fhs. base_fee_per_gas fh \<noteq> [] \<and> base_fee_per_blob_gas fh \<noteq> []" and some: "fhs \<noteq> []"
    and fits: "sum_list (newest_samples (map (last \<circ> base_fee_per_gas) fhs)) + ONE_GWEI < 2 ^ 128"
      "sum_list (newest_samples (map (last \<circ> base_fee_per_blob_gas) fhs)) < 2 ^ 128"
  shows "gp_eth (sp_gas_prices (gw_prices (gas_worker_run fhs))) =
      sum_list (newest_samples (map (last \<circ> base_fee_per_gas) fhs)) div min (length fhs) 60 + ONE_GWEI \<and>
    gp_eth (sp_data_gas_prices (gw_prices (gas_worker_run fhs))) =
      sum_list (newest_samples (map (last \<circ> base_fee_per_blob_gas) fhs)) div min (length fhs) 60"
proof -
  obtain fh fhs' where fhs: "fhs = fhs' @ [fh]" using some by (metis rev_exhaust)
  let ?w = "gas_worker_run fhs'" and ?g = "newest_samples (map (last \<circ> base_fee_per_gas) fhs)"
    and ?b = "newest_samples (map (last \<circ> base_fee_per_blob_gas) fhs)"
  have bufs: "add_sample (last (base_fee_per_gas fh)) (gw_gas_price_buffer ?w) = ?g"
    "add_sample (last (base_fee_per_blob_gas fh)) (gw_data_gas_price_buffer ?w) = ?b"
    using gas_worker_run_buffers [of fhs'] complete by (simp_all add: fhs newest_samples_snoc)
  have run: "gas_worker_run fhs = fst (update_gas_price fh ?w)" by (simp add: gas_worker_run_def fhs)
  have ne: "?g \<noteq> []" "?b \<noteq> []" using bufs by (auto simp: add_sample_def)
  have len: "length ?g = min (length fhs) 60" "length ?b = min (length fhs) 60"
    by (simp_all add: length_newest_samples BUFFER_SIZE_def)
  have avg: "buffer_average ?g = sum_list ?g div min (length fhs) 60" "buffer_average ?b = sum_list ?b div min (length fhs) 60"
    using fits ne by (simp_all add: buffer_average_def len)
  have "sum_list ?g div min (length fhs) 60 + ONE_GWEI < 2 ^ 128"
    using fits(1) div_le_dividend [of "sum_list ?g" "min (length fhs) 60"] by linarith
  then show ?thesis
    unfolding run using complete bufs avg by (simp add: fhs update_gas_price_def Let_def)
qed

theorem gas_price_average_witness:
  "gp_eth (sp_gas_prices (gw_prices (gas_worker_run
     [\<lparr>base_fee_per_gas = [9, 10], base_fee_per_blob_gas = [3]\<rparr>, \<lparr>base_fee_per_gas = [20], base_fee_per_blob_gas = [5]\<rparr>]))) =
   15 + ONE_GWEI"
  by (subst gas_price_average [THEN conjunct1])
    (simp_all add: newest_samples_def BUFFER_SIZE_def ONE_GWEI_def flip: numeral_2_eq_2)

text \<open>
  Initialising a development chain is idempotent.  After a successful initialisation of
  a database without the genesis block, initialising again changes nothing and succeeds.
  The stored hash is that of the specified header, while the stored header has the
  computed state root in it; so whenever that root is not the specified one, the hash
  under which genesis is stored is computed from a different header than the one stored.
\<close>

theorem dev_genesis_idempotent:
  assumes number: "hd_number (blk_header (dev_block spec)) = dev_genesis_number spec"
    and fresh: "block_hash_by_num (bk_db bk) (dev_genesis_number spec) = Inr None"
    and init: "init_dev_genesis cp spec bk = (bk', Inr ())"
  shows "init_dev_genesis cp spec bk' = (bk', Inr ()) \<and>
    block_hash_by_num (bk_db bk') (dev_genesis_number spec) =
      Inr (Some (header_compute_hash (cp_pos cp) (cp_to_felt cp) (blk_header (dev_block spec)))) \<and>
    (\<exists>root. header_by_id (bk_db bk') (Num (dev_genesis_number spec)) =
       Inr (Some ((blk_header (dev_block spec))\<lparr>hd_state_root := root\<rparr>)))"
proof (rule dev_genesis_fresh [OF fresh init], goal_cases)
  case (1 root tr')
  have hash: "block_hash_by_num (bk_db bk') (dev_genesis_number spec) =
      Inr (Some (header_compute_hash (cp_pos cp) (cp_to_felt cp) (blk_header (dev_block spec))))"
    using 1 number by (simp add: block_hash_inserted)
  moreover have "header_by_id (bk_db bk') (Num (dev_genesis_number spec)) =
      Inr (Some ((blk_header (dev_block spec))\<lparr>hd_state_root := root\<rparr>))"
    unfolding 1 using number by (simp add: header_inserted block_ids_def)
  ultimately show ?case by (auto simp: init_dev_genesis_def)
qed

theorem dev_genesis_idempotent_witness:
  "\<exists>bk'. init_dev_genesis sample_cp \<lparr>dev_genesis_number = 0, dev_block = \<lparr>blk_header = header_default, blk_body = []\<rparr>,
        dev_state_updates = eo_states execution_output_default\<rparr> (sample_backend\<lparr>bk_db := db_empty\<rparr>) = (bk', Inr ()) \<and>
     init_dev_genesis sample_cp \<lparr>dev_genesis_number = 0, dev_block = \<lparr>blk_header = header_default, blk_body = []\<rparr>,
        dev_state_updates = eo_states execution_output_default\<rparr> bk' = (bk', Inr ())"
proof -
  let ?spec = "\<lparr>dev_genesis_number = 0, dev_block = \<lparr>blk_header = header_default, blk_body = []\<rparr>,
        dev_state_updates = eo_states execution_output_default :: bool state_updates_with_classes\<rparr>"
  have fresh: "block_hash_by_num (bk_db (sample_backend\<lparr>bk_db := db_empty\<rparr>)) (dev_genesis_number ?spec) = Inr None"
    by (simp add: block_hash_by_num_def db_empty_def)
  obtain bk' where "init_dev_genesis sample_cp ?spec (sample_backend\<lparr>bk_db := db_empty\<rparr>) = (bk', Inr ())"
    using fresh by (simp add: init_dev_genesis_def sample_cp_def Let_def)
  from dev_genesis_idempotent [OF _ fresh this] this show ?thesis by (auto simp: header_default_def)
qed

end
