(* ===== verification/Block_Producer.thy ===== *)
theory Block_Producer
  imports Mining Tx_Validator
begin

text \<open>
  The block producers of \<^verbatim>\<open>crates/core/src/service/block_producer.rs\<close> and the task that drives
  them (\<^verbatim>\<open>service/mod.rs\<close>).

  Executions and mining run on a thread pool.  A spawned task is first \<open>Scheduled\<close>, runs at
  some later moment, and then is \<open>Done\<close> with its result until it is polled; executors are
  shared by handle, so that a task works on the executor it was given even if the producer
  has replaced it meanwhile.  The interleavings of submissions, polls, forced mining and task
  runs are the step relation \<open>ip_step\<close>.  A task that panics gives a cancelled join handle.  The
  permit is the raw mutex that the validator takes as well: a mining task waits for it and
  leaves it locked.  A task that finishes between its start and the poll that follows in the
  same call is the case of a poll, a run and a second poll whose timer has not fired.
\<close>

datatype 'e block_production_error =
  ProducerProvider provider_error
| ExecutionTaskCancelled
| TransactionExecutionError 'e

definition is_block_limit_exhausted :: "'b executor_error block_production_error \<Rightarrow> bool" where
  "is_block_limit_exhausted e \<longleftrightarrow> e = TransactionExecutionError LimitsExhausted"

record tx_with_outcome =
  two_tx :: tx_with_hash
  two_receipt :: receipt
  two_exec_info :: exec_info

text \<open>The surroundings of a producer.\<close>

record ('cls, 'cmp, 'st, 'bn, 'r, 'tr) producer_env =
  pe_vm :: "('cls, 'cmp, 'st, 'bn, 'r) vm"
  pe_cp :: "'tr chain_params"
  pe_is_legacy :: "'cls \<Rightarrow> bool"
  pe_base_class :: "'st \<Rightarrow> class_hash \<Rightarrow> provider_error + 'cls option"
  pe_to_diff :: "'st \<Rightarrow> state_maps"
  pe_flags :: execution_flags
  pe_bouncer :: 'bn
  pe_open_state :: "('cls, exec_info) db \<Rightarrow> 'st"
  pe_reader :: "'st \<Rightarrow> 'cls state_reader"

type_synonym 'r producer_error = "'r transaction_executor_error executor_error block_production_error"

definition tx_outcomes :: "(tx_with_hash \<times> execution_result) list \<Rightarrow> tx_with_outcome list" where
  "tx_outcomes xs = concat (map (\<lambda>(t, r). case r of
      Failed _ \<Rightarrow> []
    | Success rc i \<Rightarrow> [\<lparr>two_tx = t, two_receipt = rc, two_exec_info = i\<rparr>]) xs)"

section \<open>Operations of the interval producer\<close>

text \<open>\<^verbatim>\<open>execute_transactions\<close>: the new outcomes, and what did not fit into the block.\<close>

definition interval_execute_transactions ::
    "('cls, 'cmp, 'st, 'bn, 'r) vm \<Rightarrow> ('cls, 'st, 'bn) vm_processor \<Rightarrow> 'cls ptx list \<Rightarrow>
     (('cls, 'st, 'bn) vm_processor \<times> ('r producer_error + tx_with_outcome list \<times> 'cls ptx list option)) option" where
  "interval_execute_transactions vm p ts = (case execute_transactions vm p ts of
      None \<Rightarrow> None
    | Some (p', Inl e) \<Rightarrow> Some (p', Inl (TransactionExecutionError e))
    | Some (p', Inr (total_executed, is_full)) \<Rightarrow>
        (let txs = vp_transactions p'; results = tx_outcomes (drop (length txs - total_executed) txs) in
         Some (p', Inr (results, if is_full \<noteq> None then Some (drop total_executed ts) else None))))"

text \<open>\<^verbatim>\<open>do_mine\<close> after the permit has been taken.\<close>

definition interval_do_mine ::
    "('cls, 'cmp, 'st, 'bn, 'r, 'tr) producer_env \<Rightarrow> ('cls, 'st, 'bn) vm_processor \<Rightarrow> ('cls, 'tr) backend \<Rightarrow>
     (('cls, 'st, 'bn) vm_processor \<times> ('cls, 'tr) backend \<times> ('r producer_error + mined_block_outcome)) option" where
  "interval_do_mine pe p bk =
     (let e = executor_block_env (vp_block_info p) in
      (case take_execution_output (pe_is_legacy pe) (pe_base_class pe) (pe_to_diff pe) p of
         None \<Rightarrow> None
       | Some (p', out) \<Rightarrow> (case do_mine_block (pe_cp pe) e out bk of
           None \<Rightarrow> None
         | Some (bk', Inl err) \<Rightarrow> Some (p', bk', Inl (ProducerProvider err))
         | Some (bk', Inr m) \<Rightarrow> Some (p', bk', Inr m))))"

text \<open>The environment of the block after the newest one.\<close>

definition next_block_env ::
    "nat \<Rightarrow> ('cls, 'tr) backend \<Rightarrow> (('cls, 'tr) backend \<times> (provider_error + block_env)) option" where
  "next_block_env now bk = (case latest_number (bk_db bk) of
      Inl e \<Rightarrow> Some (bk, Inl e)
    | Inr n \<Rightarrow> (case block_env_at (bk_db bk) (Num n) of
        Inl e \<Rightarrow> Some (bk, Inl e)
      | Inr None \<Rightarrow> None
      | Inr (Some env) \<Rightarrow> (case update_block_env now (bk_oracle bk) (bk_generator bk) env of
          (gen, env') \<Rightarrow> Some (bk\<lparr>bk_generator := gen\<rparr>, Inr env'))))"

definition create_new_executor_for_next_block ::
    "('cls, 'cmp, 'st, 'bn, 'r, 'tr) producer_env \<Rightarrow> nat \<Rightarrow> ('cls, 'tr) backend \<Rightarrow>
     (('cls, 'tr) backend \<times> (provider_error + ('cls, 'st, 'bn) vm_processor)) option" where
  "create_new_executor_for_next_block pe now bk = (case next_block_env now bk of
      None \<Rightarrow> None
    | Some (bk', Inl e) \<Rightarrow> Some (bk', Inl e)
    | Some (bk', Inr env) \<Rightarrow>
        Some (bk', Inr (vm_processor_new (pe_open_state pe (bk_db bk')) env (pe_flags pe) (pe_bouncer pe))))"

section \<open>The interval producer\<close>

datatype ('cls, 'r) exec_task =
  ExecScheduled nat "'cls ptx list"
| ExecDone "('r producer_error + 'cls ptx list option) option"

datatype 'r mine_task =
  MineScheduled nat
| MineDone "('r producer_error + mined_block_outcome) option"

record ('cls, 'st, 'bn, 'r, 'tr, 'cfg) interval_producer =
  ip_block_time :: "nat option"
  ip_backend :: "('cls, 'tr) backend"
  ip_mining :: "'r mine_task option"
  ip_queued :: "'cls ptx list list"
  ip_executors :: "('cls, 'st, 'bn) vm_processor list"
  ip_executor :: nat
  ip_execution :: "('cls, 'r) exec_task option"
  ip_permit_locked :: bool
  ip_validator :: "('cls, 'cfg) validator_state"
  ip_timer :: bool
  ip_block_full :: bool

definition interval_new ::
    "('cls, 'cmp, 'st, 'bn, 'r, 'tr) producer_env \<Rightarrow> 'cfg \<Rightarrow> nat \<Rightarrow> ('cls, 'tr) backend \<Rightarrow> nat option \<Rightarrow>
     ('cls, 'st, 'bn, 'r, 'tr, 'cfg) interval_producer option" where
  "interval_new pe cfg now bk block_time = (case next_block_env now bk of
      Some (bk', Inr env) \<Rightarrow>
        (let p = vm_processor_new (pe_open_state pe (bk_db bk')) env (pe_flags pe) (pe_bouncer pe) in
         Some \<lparr>ip_block_time = block_time, ip_backend = bk', ip_mining = None, ip_queued = [],
           ip_executors = [p], ip_executor = 0, ip_execution = None, ip_permit_locked = False,
           ip_validator = tx_validator_new (pe_reader pe (vp_state p)) (pe_flags pe) cfg env,
           ip_timer = False, ip_block_full = False\<rparr>)
    | _ \<Rightarrow> None)"

definition interval_queue ::
    "'cls ptx list \<Rightarrow> ('cls, 'st, 'bn, 'r, 'tr, 'cfg) interval_producer \<Rightarrow> ('cls, 'st, 'bn, 'r, 'tr, 'cfg) interval_producer" where
  "interval_queue ts s = s\<lparr>ip_queued := ip_queued s @ [ts]\<rparr>"

text \<open>A thread picks up the scheduled execution.\<close>

definition run_execution ::
    "('cls, 'cmp, 'st, 'bn, 'r, 'tr) producer_env \<Rightarrow> ('cls, 'st, 'bn, 'r, 'tr, 'cfg) interval_producer \<Rightarrow>
     ('cls, 'st, 'bn, 'r, 'tr, 'cfg) interval_producer option" where
  "run_execution pe s = (case ip_execution s of
      Some (ExecScheduled h ts) \<Rightarrow> Some (case interval_execute_transactions (pe_vm pe) (ip_executors s ! h) ts of
          None \<Rightarrow> s\<lparr>ip_execution := Some (ExecDone None)\<rparr>
        | Some (p', Inl e) \<Rightarrow> s\<lparr>ip_executors := (ip_executors s)[h := p'], ip_execution := Some (ExecDone (Some (Inl e)))\<rparr>
        | Some (p', Inr (_, leftovers)) \<Rightarrow>
            s\<lparr>ip_executors := (ip_executors s)[h := p'], ip_execution := Some (ExecDone (Some (Inr leftovers)))\<rparr>)
    | _ \<Rightarrow> None)"

text \<open>A thread picks up the scheduled mining, once the permit is free.\<close>

definition run_mining ::
    "('cls, 'cmp, 'st, 'bn, 'r, 'tr) producer_env \<Rightarrow> ('cls, 'st, 'bn, 'r, 'tr, 'cfg) interval_producer \<Rightarrow>
     ('cls, 'st, 'bn, 'r, 'tr, 'cfg) interval_producer option" where
  "run_mining pe s = (case ip_mining s of
      Some (MineScheduled h) \<Rightarrow>
        if ip_permit_locked s then None
        else Some (let s = s\<lparr>ip_permit_locked := True\<rparr> in
          (case interval_do_mine pe (ip_executors s ! h) (ip_backend s) of
             None \<Rightarrow> s\<lparr>ip_mining := Some (MineDone None)\<rparr>
           | Some (p', bk', r) \<Rightarrow> s\<lparr>ip_executors := (ip_executors s)[h := p'], ip_backend := bk',
               ip_mining := Some (MineDone (Some r))\<rparr>))
    | _ \<Rightarrow> None)"

text \<open>The first part of a poll: close the block when the time is over or the block is full.\<close>

definition poll_timer ::
    "bool \<Rightarrow> ('cls, 'st, 'bn, 'r, 'tr, 'cfg) interval_producer \<Rightarrow> ('cls, 'st, 'bn, 'r, 'tr, 'cfg) interval_producer" where
  "poll_timer ready s =
     (if ip_timer s
      then (if (ready \<or> ip_block_full s) \<and> ip_mining s = None
            then s\<lparr>ip_timer := False, ip_block_full := False, ip_mining := Some (MineScheduled (ip_executor s))\<rparr>
            else s)
      else if ip_block_full s \<and> ip_mining s = None
      then s\<lparr>ip_mining := Some (MineScheduled (ip_executor s)), ip_block_full := False, ip_timer := False\<rparr>
      else s)"

text \<open>Start executing everything that is queued, unless something is already running.\<close>

definition spawn_execution ::
    "('cls, 'st, 'bn, 'r, 'tr, 'cfg) interval_producer \<Rightarrow> ('cls, 'st, 'bn, 'r, 'tr, 'cfg) interval_producer" where
  "spawn_execution s =
     (if ip_queued s \<noteq> [] \<and> ip_execution s = None \<and> ip_mining s = None
      then s\<lparr>ip_execution := Some (ExecScheduled (ip_executor s) (concat (ip_queued s))), ip_queued := [],
             ip_timer := (ip_timer s \<or> ip_block_time s \<noteq> None)\<rparr>
      else s)"

text \<open>
  The loop of a poll.  A task spawned in this poll is seen as running, so after a finished
  execution has been taken the loop body runs once more and is then left.
\<close>

definition poll_execution ::
    "('cls, 'st, 'bn, 'r, 'tr, 'cfg) interval_producer \<Rightarrow>
     ('cls, 'st, 'bn, 'r, 'tr, 'cfg) interval_producer \<times> 'r producer_error option" where
  "poll_execution s0 = (let s = spawn_execution s0 in
     (case ip_execution s of
        Some (ExecDone (Some (Inr (Some leftovers)))) \<Rightarrow>
          (s\<lparr>ip_execution := None, ip_block_full := True, ip_queued := leftovers # ip_queued s\<rparr>, None)
      | Some (ExecDone (Some (Inr None))) \<Rightarrow> (spawn_execution (s\<lparr>ip_execution := None\<rparr>), None)
      | Some (ExecDone (Some (Inl e))) \<Rightarrow> (s\<lparr>ip_execution := None\<rparr>, Some e)
      | Some (ExecDone None) \<Rightarrow> (s\<lparr>ip_execution := None\<rparr>, Some ExecutionTaskCancelled)
      | _ \<Rightarrow> (s, None)))"

text \<open>The last part: collect a mined block and open the next one.  \<open>None\<close> is a panic.\<close>

definition poll_mining ::
    "('cls, 'cmp, 'st, 'bn, 'r, 'tr) producer_env \<Rightarrow> nat \<Rightarrow> ('cls, 'st, 'bn, 'r, 'tr, 'cfg) interval_producer \<Rightarrow>
     (('cls, 'st, 'bn, 'r, 'tr, 'cfg) interval_producer \<times> ('r producer_error + mined_block_outcome) poll) option" where
  "poll_mining pe now s = (case ip_mining s of
      Some (MineDone None) \<Rightarrow> Some (s\<lparr>ip_mining := None\<rparr>, Ready (Inl ExecutionTaskCancelled))
    | Some (MineDone (Some outcome)) \<Rightarrow>
        (let s = s\<lparr>ip_mining := None\<rparr> in
         (case create_new_executor_for_next_block pe now (ip_backend s) of
            None \<Rightarrow> None
          | Some (bk', Inl e) \<Rightarrow> Some (s\<lparr>ip_backend := bk'\<rparr>, Ready (Inl (ProducerProvider e)))
          | Some (bk', Inr p) \<Rightarrow> (case latest_number (bk_db bk') of
              Inl e \<Rightarrow> Some (s\<lparr>ip_backend := bk'\<rparr>, Ready (Inl (ProducerProvider e)))
            | Inr n \<Rightarrow> (case block_env_at (bk_db bk') (Num n) of
                Inr (Some env) \<Rightarrow>
                  Some (s\<lparr>ip_backend := bk',
                          ip_validator := tx_validator_update (pe_reader pe (vp_state p)) env (ip_validator s),
                          ip_executors := ip_executors s @ [p], ip_executor := length (ip_executors s),
                          ip_permit_locked := False, ip_block_full := False\<rparr>, Ready outcome)
              | _ \<Rightarrow> None))))
    | _ \<Rightarrow> Some (s, Pending))"

definition interval_poll_next ::
    "('cls, 'cmp, 'st, 'bn, 'r, 'tr) producer_env \<Rightarrow> nat \<Rightarrow> bool \<Rightarrow> ('cls, 'st, 'bn, 'r, 'tr, 'cfg) interval_producer \<Rightarrow>
     (('cls, 'st, 'bn, 'r, 'tr, 'cfg) interval_producer \<times> ('r producer_error + mined_block_outcome) poll) option" where
  "interval_poll_next pe now ready s = (case poll_execution (poll_timer ready s) of
      (s', Some e) \<Rightarrow> Some (s', Ready (Inl e))
    | (s', None) \<Rightarrow> poll_mining pe now s')"

text \<open>
  Forced mining runs at once on the current executor.  \<open>None\<close> is a panic or, when the permit is
  taken, waiting for ever: the permit is only released by a poll, which the caller blocks.
\<close>

definition interval_force_mine ::
    "('cls, 'cmp, 'st, 'bn, 'r, 'tr) producer_env \<Rightarrow> nat \<Rightarrow> ('cls, 'st, 'bn, 'r, 'tr, 'cfg) interval_producer \<Rightarrow>
     ('cls, 'st, 'bn, 'r, 'tr, 'cfg) interval_producer option" where
  "interval_force_mine pe now s =
     (if ip_permit_locked s then None
      else (case interval_do_mine pe (ip_executors s ! ip_executor s) (ip_backend s) of
          None \<Rightarrow> None
        | Some (p', bk', Inl e) \<Rightarrow>
            Some (s\<lparr>ip_executors := (ip_executors s)[ip_executor s := p'], ip_backend := bk', ip_permit_locked := True\<rparr>)
        | Some (p', bk', Inr m) \<Rightarrow>
            (let s = s\<lparr>ip_executors := (ip_executors s)[ip_executor s := p'], ip_backend := bk'\<rparr> in
             (case create_new_executor_for_next_block pe now bk' of
                Some (bk'', Inr p) \<Rightarrow> (case latest_number (bk_db bk'') of
                    Inr n \<Rightarrow> (case block_env_at (bk_db bk'') (Num n) of
                        Inr (Some env) \<Rightarrow>
                          Some (s\<lparr>ip_backend := bk'',
                            ip_validator := tx_validator_update (pe_reader pe (vp_state p)) env (ip_validator s),
                            ip_executors := ip_executors s @ [p], ip_executor := length (ip_executors s)\<rparr>)
                      | _ \<Rightarrow> None)
                  | Inl _ \<Rightarrow> None)
              | _ \<Rightarrow> None))))"

section \<open>The instant producer\<close>

datatype ('cls, 'r) instant_task =
  InstantScheduled "'cls ptx list list"
| InstantDone "('r producer_error + mined_block_outcome \<times> tx_with_outcome list) option"

record ('cls, 'r, 'tr, 'cfg) instant_producer =
  np_backend :: "('cls, 'tr) backend"
  np_mining :: "('cls, 'r) instant_task option"
  np_queued :: "'cls ptx list list"
  np_validator :: "('cls, 'cfg) validator_state"

definition instant_new ::
    "('cls, 'cmp, 'st, 'bn, 'r, 'tr) producer_env \<Rightarrow> 'cfg \<Rightarrow> nat \<Rightarrow> ('cls, 'tr) backend \<Rightarrow>
     ('cls, 'r, 'tr, 'cfg) instant_producer option" where
  "instant_new pe cfg now bk = (case next_block_env now bk of
      Some (bk', Inr env) \<Rightarrow>
        Some \<lparr>np_backend = bk', np_mining = None, np_queued = [],
          np_validator = tx_validator_new (pe_reader pe (pe_open_state pe (bk_db bk'))) (pe_flags pe) cfg env\<rparr>
    | _ \<Rightarrow> None)"

text \<open>\<^verbatim>\<open>do_mine\<close>: execute everything that was queued and close the block.\<close>

definition instant_do_mine ::
    "('cls, 'cmp, 'st, 'bn, 'r, 'tr) producer_env \<Rightarrow> nat \<Rightarrow> ('cls, 'cfg) validator_state \<Rightarrow> ('cls, 'tr) backend \<Rightarrow>
     'cls ptx list list \<Rightarrow>
     (('cls, 'cfg) validator_state \<times> ('cls, 'tr) backend \<times>
      ('r producer_error + mined_block_outcome \<times> tx_with_outcome list)) option" where
  "instant_do_mine pe now v bk queued =
     (case next_block_env now bk of
        None \<Rightarrow> None
      | Some (bk1, Inl e) \<Rightarrow> Some (v, bk1, Inl (ProducerProvider e))
      | Some (bk1, Inr env) \<Rightarrow> (case latest_hash (bk_db bk1) of
          Inl e \<Rightarrow> Some (v, bk1, Inl (ProducerProvider e))
        | Inr parent \<Rightarrow>
            (let p = vm_processor_new (pe_open_state pe (bk_db bk1)) block_env_default (pe_flags pe) (pe_bouncer pe) in
             (case execute_block (pe_vm pe) p (mining_header env parent) (concat queued) of
                None \<Rightarrow> None
              | Some (p1, Inl e) \<Rightarrow> Some (v, bk1, Inl (TransactionExecutionError e))
              | Some (p1, Inr _) \<Rightarrow>
                  (case take_execution_output (pe_is_legacy pe) (pe_base_class pe) (pe_to_diff pe) p1 of
                     None \<Rightarrow> None
                   | Some (p2, out) \<Rightarrow> (case do_mine_block (pe_cp pe) env out bk1 of
                       None \<Rightarrow> None
                     | Some (bk2, Inl e) \<Rightarrow> Some (v, bk2, Inl (ProducerProvider e))
                     | Some (bk2, Inr m) \<Rightarrow> (case latest_number (bk_db bk2) of
                         Inl e \<Rightarrow> Some (v, bk2, Inl (ProducerProvider e))
                       | Inr n \<Rightarrow> (case block_env_at (bk_db bk2) (Num n) of
                           Inl e \<Rightarrow> Some (v, bk2, Inl (ProducerProvider e))
                         | Inr None \<Rightarrow> None
                         | Inr (Some env') \<Rightarrow>
                             Some (tx_validator_update (pe_reader pe (pe_open_state pe (bk_db bk2))) env' v, bk2,
                                   Inr (m, tx_outcomes (eo_transactions out)))))))))))"

definition instant_queue ::
    "'cls ptx list \<Rightarrow> ('cls, 'r, 'tr, 'cfg) instant_producer \<Rightarrow> ('cls, 'r, 'tr, 'cfg) instant_producer" where
  "instant_queue ts s = s\<lparr>np_queued := np_queued s @ [ts]\<rparr>"

text \<open>A thread picks up the scheduled mining; the permit is held for the duration of the run only.\<close>

definition run_instant ::
    "('cls, 'cmp, 'st, 'bn, 'r, 'tr) producer_env \<Rightarrow> nat \<Rightarrow> ('cls, 'r, 'tr, 'cfg) instant_producer \<Rightarrow>
     ('cls, 'r, 'tr, 'cfg) instant_producer option" where
  "run_instant pe now s = (case np_mining s of
      Some (InstantScheduled queued) \<Rightarrow> Some (case instant_do_mine pe now (np_validator s) (np_backend s) queued of
          None \<Rightarrow> s\<lparr>np_mining := Some (InstantDone None)\<rparr>
        | Some (v, bk, r) \<Rightarrow> s\<lparr>np_validator := v, np_backend := bk, np_mining := Some (InstantDone (Some r))\<rparr>)
    | _ \<Rightarrow> None)"

definition instant_poll_next ::
    "('cls, 'r, 'tr, 'cfg) instant_producer \<Rightarrow>
     ('cls, 'r, 'tr, 'cfg) instant_producer \<times> ('r producer_error + mined_block_outcome) poll" where
  "instant_poll_next s0 =
     (let s = (if np_queued s0 \<noteq> [] \<and> np_mining s0 = None
               then s0\<lparr>np_mining := Some (InstantScheduled (np_queued s0)), np_queued := []\<rparr> else s0) in
      (case np_mining s of
         Some (InstantDone (Some (Inr (m, _)))) \<Rightarrow> (s\<lparr>np_mining := None\<rparr>, Ready (Inr m))
       | Some (InstantDone (Some (Inl e))) \<Rightarrow> (s\<lparr>np_mining := None\<rparr>, Ready (Inl e))
       | Some (InstantDone None) \<Rightarrow> (s\<lparr>np_mining := None\<rparr>, Ready (Inl ExecutionTaskCancelled))
       | _ \<Rightarrow> (s, Pending)))"

definition instant_force_mine ::
    "('cls, 'cmp, 'st, 'bn, 'r, 'tr) producer_env \<Rightarrow> nat \<Rightarrow> ('cls, 'r, 'tr, 'cfg) instant_producer \<Rightarrow>
     ('cls, 'r, 'tr, 'cfg) instant_producer option" where
  "instant_force_mine pe now s =
     (if np_mining s = None
      then map_option (\<lambda>(v, bk, r :: 'r producer_error + mined_block_outcome \<times> tx_with_outcome list).
               s\<lparr>np_queued := [], np_validator := v, np_backend := bk\<rparr>)
             (instant_do_mine pe now (np_validator s) (np_backend s) (np_queued s))
      else Some s)"

section \<open>The producer behind its lock\<close>

datatype ('cls, 'st, 'bn, 'r, 'tr, 'cfg) block_producer_mode =
  Interval "('cls, 'st, 'bn, 'r, 'tr, 'cfg) interval_producer"
| Instant "('cls, 'r, 'tr, 'cfg) instant_producer"

fun producer_queue ::
    "'cls ptx list \<Rightarrow> ('cls, 'st, 'bn, 'r, 'tr, 'cfg) block_producer_mode \<Rightarrow>
     ('cls, 'st, 'bn, 'r, 'tr, 'cfg) block_producer_mode" where
  "producer_queue ts (Interval s) = Interval (interval_queue ts s)"
| "producer_queue ts (Instant s) = Instant (instant_queue ts s)"

fun producer_force_mine ::
    "('cls, 'cmp, 'st, 'bn, 'r, 'tr) producer_env \<Rightarrow> nat \<Rightarrow> ('cls, 'st, 'bn, 'r, 'tr, 'cfg) block_producer_mode \<Rightarrow>
     ('cls, 'st, 'bn, 'r, 'tr, 'cfg) block_producer_mode option" where
  "producer_force_mine pe now (Interval s) = map_option Interval (interval_force_mine pe now s)"
| "producer_force_mine pe now (Instant s) = map_option Instant (instant_force_mine pe now s)"

fun producer_poll_next ::
    "('cls, 'cmp, 'st, 'bn, 'r, 'tr) producer_env \<Rightarrow> nat \<Rightarrow> bool \<Rightarrow> ('cls, 'st, 'bn, 'r, 'tr, 'cfg) block_producer_mode \<Rightarrow>
     (('cls, 'st, 'bn, 'r, 'tr, 'cfg) block_producer_mode \<times> ('r producer_error + mined_block_outcome) poll) option" where
  "producer_poll_next pe now ready (Interval s) =
     map_option (\<lambda>(s', r). (Interval s', r)) (interval_poll_next pe now ready s)"
| "producer_poll_next pe now ready (Instant s) = (case instant_poll_next s of (s', r) \<Rightarrow> Some (Instant s', r))"

section \<open>The block production task\<close>

text \<open>\<^verbatim>\<open>TransactionMiner::poll\<close>: everything the stream has ready.\<close>

partial_function (option) collect_ready ::
    "('q \<Rightarrow> (('cls, 'p) pending_tx option poll \<times> 'q) option) \<Rightarrow> 'q \<Rightarrow> 'cls ptx list \<Rightarrow> ('cls ptx list \<times> 'q) option" where
  "collect_ready next_tx q acc = (case next_tx q of
      None \<Rightarrow> None
    | Some (Ready (Some t), q') \<Rightarrow> collect_ready next_tx q' (acc @ [pt_tx t])
    | Some (_, q') \<Rightarrow> Some (acc, q'))"

definition miner_poll ::
    "('q \<Rightarrow> (('cls, 'p) pending_tx option poll \<times> 'q) option) \<Rightarrow> 'q \<Rightarrow> ('cls ptx list poll \<times> 'q) option" where
  "miner_poll next_tx q = (case collect_ready next_tx q [] of
      None \<Rightarrow> None
    | Some (ts, q') \<Rightarrow> Some (if ts = [] then Pending else Ready ts, q'))"

datatype 'e task_turn = Again | Finished 'e | NoProgress

text \<open>
  One turn of the loops of \<^verbatim>\<open>BlockProductionTask::poll\<close>: a mined block is taken out of the pool,
  an error ends the task, and when the producer has nothing to report the stream is asked.
\<close>

definition service_turn ::
    "('cls, 'cmp, 'st, 'bn, 'r, 'tr) producer_env \<Rightarrow> nat \<Rightarrow> bool \<Rightarrow>
     ('q \<Rightarrow> (('cls, 'p) pending_tx option poll \<times> 'q) option) \<Rightarrow>
     ('cls, 'p, 'v, 'o, 'l, 's) pool \<Rightarrow> 'q \<Rightarrow> ('cls, 'st, 'bn, 'r, 'tr, 'cfg) block_producer_mode \<Rightarrow>
     (('cls, 'p, 'v, 'o, 'l, 's) pool \<times> 'q \<times> ('cls, 'st, 'bn, 'r, 'tr, 'cfg) block_producer_mode \<times>
      'r producer_error task_turn) option" where
  "service_turn pe now ready next_tx pl q s = (case producer_poll_next pe now ready s of
      None \<Rightarrow> None
    | Some (s', Ready (Inr m)) \<Rightarrow> Some (remove_transactions pl (mb_txs m), q, s', Again)
    | Some (s', Ready (Inl e)) \<Rightarrow> Some (pl, q, s', Finished e)
    | Some (s', Pending) \<Rightarrow> (case miner_poll next_tx q of
        None \<Rightarrow> None
      | Some (Ready ts, q') \<Rightarrow> Some (pl, q', producer_queue ts s', Again)
      | Some (Pending, q') \<Rightarrow> Some (pl, q', s', NoProgress)))"

end
