(* ===== verification/Producer_Props.thy ===== *)
theory Producer_Props
  imports Block_Producer Pool_Properties Mining_Props
begin

text \<open>
  What the interval producer keeps of the transactions handed to it and of the chain it
  extends, over every interleaving of submissions, polls, forced mining and task runs in
  which mining does not start while an execution is still to run; what goes wrong in the
  interleavings left out; and that the miner collects everything the pool has ready.
\<close>

section \<open>Notions\<close>

definition exec_idle :: "('cls, 'st, 'bn, 'r, 'tr, 'cfg) interval_producer \<Rightarrow> bool" where
  "exec_idle s \<longleftrightarrow> (case ip_execution s of Some (ExecScheduled h ts) \<Rightarrow> False | _ \<Rightarrow> True)"

text \<open>Transactions taken out of the queue whose execution has not put them anywhere yet.\<close>

definition in_flight :: "('cls, 'st, 'bn, 'r, 'tr, 'cfg) interval_producer \<Rightarrow> 'cls ptx list" where
  "in_flight s = (case ip_execution s of
      Some (ExecScheduled h ts) \<Rightarrow> ts
    | Some (ExecDone (Some (Inr (Some ts)))) \<Rightarrow> ts
    | _ \<Rightarrow> [])"

definition current_executor :: "('cls, 'st, 'bn, 'r, 'tr, 'cfg) interval_producer \<Rightarrow> ('cls, 'st, 'bn) vm_processor" where
  "current_executor s = ip_executors s ! ip_executor s"

text \<open>Every block is stored under the number in its header.\<close>

definition numbered :: "('cls, 'info) db \<Rightarrow> bool" where
  "numbered d \<longleftrightarrow> (\<forall>n hdr. header_by_id d (Num n) = Inr (Some hdr) \<longrightarrow> hd_number hdr = n)"

definition height_below :: "nat \<Rightarrow> ('cls, 'st, 'bn, 'r, 'tr, 'cfg) interval_producer \<Rightarrow> bool" where
  "height_below m s \<longleftrightarrow> (case latest_number (bk_db (ip_backend s)) of Inr n \<Rightarrow> n < m | Inl e \<Rightarrow> True)"

text \<open>
  Runs of the interval producer in which no task fails and mining and execution do not
  overlap, with the transactions submitted and the contents of the blocks mined so far.
\<close>

inductive producer_run ::
    "('cls, 'cmp, 'st, 'bn, 'r, 'tr) producer_env \<Rightarrow> ('cls, 'st, 'bn, 'r, 'tr, 'cfg) interval_producer \<Rightarrow>
     ('cls, 'st, 'bn, 'r, 'tr, 'cfg) interval_producer \<Rightarrow> 'cls ptx list \<Rightarrow> (tx_with_hash \<times> execution_result) list \<Rightarrow> bool"
  for pe :: "('cls, 'cmp, 'st, 'bn, 'r, 'tr) producer_env" and s0 :: "('cls, 'st, 'bn, 'r, 'tr, 'cfg) interval_producer" where
  run_start: "producer_run pe s0 s0 [] []"
| run_queue: "producer_run pe s0 s sub mined \<Longrightarrow> producer_run pe s0 (interval_queue ts s) (sub @ ts) mined"
| run_execute: "producer_run pe s0 s sub mined \<Longrightarrow> run_execution pe s = Some s' \<Longrightarrow>
    ip_execution s' = Some (ExecDone (Some (Inr rest))) \<Longrightarrow> producer_run pe s0 s' sub mined"
| run_mine: "producer_run pe s0 s sub mined \<Longrightarrow> ip_mining s = Some (MineScheduled h) \<Longrightarrow> run_mining pe s = Some s' \<Longrightarrow>
    ip_mining s' = Some (MineDone (Some (Inr m))) \<Longrightarrow>
    producer_run pe s0 s' sub (mined @ vp_transactions (ip_executors s ! h))"
| run_poll: "producer_run pe s0 s sub mined \<Longrightarrow> (ip_mining (poll_timer ready s) = ip_mining s \<or> exec_idle s) \<Longrightarrow>
    height_below (2 ^ 64 - 1) s \<Longrightarrow> interval_poll_next pe now ready s = Some (s', r) \<Longrightarrow> producer_run pe s0 s' sub mined"
| run_force: "producer_run pe s0 s sub mined \<Longrightarrow> ip_mining s = None \<Longrightarrow> exec_idle s \<Longrightarrow>
    height_below (2 ^ 64 - 2) s \<Longrightarrow> interval_force_mine pe now s = Some s' \<Longrightarrow> \<not> ip_permit_locked s' \<Longrightarrow>
    producer_run pe s0 s' sub (mined @ vp_transactions (current_executor s))"

text \<open>The transactions in the stored blocks \<open>a\<close> to \<open>b - 1\<close>, read back from the database in block order.\<close>

definition body_at :: "('cls, 'info) db \<Rightarrow> block_number \<Rightarrow> tx_with_hash list" where
  "body_at d n = (case block_by_id d (Num n) of Inr (Some b) \<Rightarrow> blk_body b | _ \<Rightarrow> [])"

definition stored_bodies :: "('cls, 'info) db \<Rightarrow> block_number \<Rightarrow> block_number \<Rightarrow> tx_with_hash list" where
  "stored_bodies d a b = concat (map (body_at d) [a..<b])"

text \<open>The invariant: tasks work on the current executor, and nothing overlaps.\<close>

definition tasks_ok :: "('cls, 'st, 'bn, 'r, 'tr, 'cfg) interval_producer \<Rightarrow> bool" where
  "tasks_ok s \<longleftrightarrow> ip_executor s < length (ip_executors s) \<and>
     (\<forall>h ts. ip_execution s = Some (ExecScheduled h ts) \<longrightarrow> h = ip_executor s \<and> ip_mining s = None) \<and>
     (\<forall>r. ip_execution s = Some (ExecDone r) \<longrightarrow> (\<exists>rest. r = Some (Inr rest))) \<and>
     (\<forall>h. ip_mining s = Some (MineScheduled h) \<longrightarrow> h = ip_executor s) \<and>
     (\<forall>r. ip_mining s = Some (MineDone r) \<longrightarrow> (\<exists>m. r = Some (Inr m)) \<and> vp_transactions (current_executor s) = [])"

definition in_order ::
    "('cls, 'st, 'bn, 'r, 'tr, 'cfg) interval_producer \<Rightarrow> 'cls ptx list \<Rightarrow> (tx_with_hash \<times> execution_result) list \<Rightarrow> bool" where
  "in_order s sub mined \<longleftrightarrow> map tx_with_hash_from sub =
     map fst mined @ map fst (vp_transactions (current_executor s)) @
     map tx_with_hash_from (in_flight s @ concat (ip_queued s))"

definition chain_ok ::
    "('cls, 'cmp, 'st, 'bn, 'r, 'tr) producer_env \<Rightarrow> block_number \<Rightarrow> ('cls, 'st, 'bn, 'r, 'tr, 'cfg) interval_producer \<Rightarrow> bool" where
  "chain_ok pe base s \<longleftrightarrow> backend_ok (pe_cp pe) base (ip_backend s) \<and> numbered (bk_db (ip_backend s)) \<and>
     (\<exists>n. latest_number (bk_db (ip_backend s)) = Inr n \<and>
        ((\<exists>r. ip_mining s = Some (MineDone r)) \<or> ctx_number (vp_block_info (current_executor s)) = Suc n))"

definition producer_ok ::
    "('cls, 'cmp, 'st, 'bn, 'r, 'tr) producer_env \<Rightarrow> block_number \<Rightarrow> ('cls, 'st, 'bn, 'r, 'tr, 'cfg) interval_producer \<Rightarrow>
     'cls ptx list \<Rightarrow> (tx_with_hash \<times> execution_result) list \<Rightarrow> bool" where
  "producer_ok pe base s sub mined \<longleftrightarrow> tasks_ok s \<and> in_order s sub mined \<and> chain_ok pe base s"

section \<open>The operations of the executor\<close>

lemma execute_transactions_loop_block_info:
  "execute_transactions_loop vm n p ts = Some (p', r) \<Longrightarrow> vp_block_info p' = vp_block_info p"
proof (induction ts arbitrary: n p)
  case (Cons t ts)
  then obtain st' bn' x where tr: "transact vm (vp_state p) (vp_block_info p) (vp_flags p) t (Some (vp_bouncer p)) = Some (st', bn', x)"
    by (auto split: option.splits)
  have rec: "vp_block_info (record_result t res q) = vp_block_info q" for res and q :: "('a, 'c, 'd) vm_processor"
    by (simp add: record_result_def Let_def split: execution_result.split option.split)
  show ?case
  proof (cases x)
    case (Inl e)
    then show ?thesis using Cons.prems tr by (cases e) (auto simp: Let_def)
  next
    case (Inr res)
    then show ?thesis using Cons.prems tr Cons.IH rec by (fastforce simp: Let_def)
  qed
qed simp

lemma interval_execute_Inr:
  assumes "interval_execute_transactions vm p ts = Some (p', Inr (outs, rest))"
  obtains rs where "vp_transactions p' = vp_transactions p @ zip (map tx_with_hash_from (take (length rs) ts)) rs"
    "length rs \<le> length ts" "vp_block_info p' = vp_block_info p"
    "(case rest of None \<Rightarrow> length rs = length ts | Some l \<Rightarrow> l = drop (length rs) ts)"
proof -
  obtain n err where run: "execute_transactions vm p ts = Some (p', Inr (n, err))"
    and rest: "rest = (if err \<noteq> None then Some (drop n ts) else None)"
    using assms by (auto simp: interval_execute_transactions_def Let_def split: option.splits sum.splits)
  have "batch_recorded p ts n p'" and full: "err = None \<and> n = length ts \<or> err = Some LimitsExhausted \<and> n < length ts"
    using execute_transactions_loop_recorded [of vm 0 p ts p' n err] run by (auto simp: execute_transactions_def)
  then obtain rs where "length rs = n" "vp_transactions p' = vp_transactions p @ zip (map tx_with_hash_from (take n ts)) rs"
    by (auto simp: batch_recorded_def)
  moreover have "vp_block_info p' = vp_block_info p"
    using run execute_transactions_loop_block_info by (auto simp: execute_transactions_def)
  ultimately show ?thesis using that [of rs] full rest by auto
qed

lemma interval_do_mine_Inr:
  assumes "interval_do_mine pe p bk = Some (p', bk', Inr m)"
  obtains out where "do_mine_block (pe_cp pe) (executor_block_env (vp_block_info p)) out bk = Some (bk', Inr m)"
    "eo_transactions out = vp_transactions p" "updates_ok (su_state_updates (eo_states out))"
    "vp_transactions p' = []"
proof -
  from assms obtain st where
    st: "state_update_from_cached_state (pe_is_legacy pe)
       (cached_class (pe_base_class pe (vp_state p)) (vp_declared_classes p)) (pe_to_diff pe (vp_state p)) = Some st"
    and mine: "do_mine_block (pe_cp pe) (executor_block_env (vp_block_info p))
       \<lparr>eo_stats = vp_stats p, eo_states = st, eo_transactions = vp_transactions p\<rparr> bk = Some (bk', Inr m)"
    and p': "vp_transactions p' = []"
    by (auto simp: interval_do_mine_def take_execution_output_def Let_def split: option.splits sum.splits)
  show ?thesis using that [OF mine] p' state_update_ok [OF st] by simp
qed

section \<open>The next block\<close>

lemma numbered_insert: "numbered d \<Longrightarrow> numbered (insert_block b st rs xs d)"
  unfolding numbered_def
proof (intro allI impI)
  fix n hdr
  assume num: "\<forall>n hdr. header_by_id d (Num n) = Inr (Some hdr) \<longrightarrow> hd_number hdr = n"
    and hdr: "header_by_id (insert_block b st rs xs d) (Num n) = Inr (Some hdr)"
  show "hd_number hdr = n"
  proof (cases "n = block_num b")
    case True
    then show ?thesis using hdr by (auto simp: header_by_id_def db_simps table_simps)
  next
    case False
    then show ?thesis using hdr num header_by_id_other [OF False, of st rs xs d] by simp
  qed
qed

lemma latest_entry:
  assumes "db_ok d" "latest_number d = Inr n"
  obtains h where "tbl_get (tb_BlockHashes d) n = Some h"
proof -
  have inv: "tbl_inv (tb_BlockHashes d)" using assms(1) by (simp add: db_ok_def db_tables_sorted_def)
  obtain v where "tbl_last (tb_BlockHashes d) = Some (n, v)" using assms(2) by (auto simp: latest_number_def)
  then show ?thesis using tbl_last_Some [OF inv, of n v] that by simp
qed

lemma latest_hash_exists: "db_ok d \<Longrightarrow> latest_number d = Inr n \<Longrightarrow> \<exists>h. latest_hash d = Inr h"
  using latest_entry [of d n] by (auto simp: latest_hash_def)

lemma latest_header:
  assumes "db_ok d" "latest_number d = Inr n"
  shows "\<exists>hdr. header_by_id d (Num n) = Inr (Some hdr)"
proof -
  obtain h where "tbl_get (tb_BlockHashes d) n = Some h" by (rule latest_entry [OF assms])
  then have "n \<in> tbl_keys (tb_Headers d)" using assms(1) by (auto simp: db_ok_def dest: tbl_get_SomeD)
  then obtain v where "tbl_get (tb_Headers d) n = Some v" by (metis option.exhaust tbl_get_eq_None)
  then show ?thesis by (simp add: header_by_id_def)
qed

lemma backend_ok_cong: "bk_db bk' = bk_db bk \<Longrightarrow> backend_ok cp base bk' = backend_ok cp base bk"
  by (simp add: backend_ok_def)

lemma next_executor:
  assumes ok: "backend_ok cp base bk" "numbered (bk_db bk)" and n: "latest_number (bk_db bk) = Inr n" "n < 2 ^ 64 - 1"
  obtains bk' p env where "create_new_executor_for_next_block pe now bk = Some (bk', Inr p)"
    "bk_db bk' = bk_db bk" "vp_transactions p = []" "ctx_number (vp_block_info p) = Suc n"
    "block_env_at (bk_db bk) (Num n) = Inr (Some env)"
proof -
  obtain hdr where hdr: "header_by_id (bk_db bk) (Num n) = Inr (Some hdr)"
    using latest_header n(1) ok(1) by (auto simp: backend_ok_def)
  then have "hd_number hdr = n" using ok(2) by (simp add: numbered_def)
  moreover obtain env where env: "block_env_at (bk_db bk) (Num n) = Inr (Some env)" "be_number env = hd_number hdr"
    using hdr by (simp add: block_env_at_def)
  ultimately have num: "(be_number env + 1) mod 2 ^ 64 = Suc n" using n(2) by simp
  obtain gen env' where upd: "update_block_env now (bk_oracle bk) (bk_generator bk) env = (gen, env')" by fastforce
  then have "be_number env' = Suc n"
    using num by (auto simp: update_block_env_def update_block_gas_prices_def Let_def split: prod.splits if_splits)
  moreover have "next_block_env now bk = Some (bk\<lparr>bk_generator := gen\<rparr>, Inr env')"
    using n(1) env(1) upd by (simp add: next_block_env_def)
  ultimately show ?thesis
    using env(1) by (intro that [of "bk\<lparr>bk_generator := gen\<rparr>" "vm_processor_new (pe_open_state pe (bk_db bk)) env' (pe_flags pe) (pe_bouncer pe)" env])
      (simp_all add: create_new_executor_for_next_block_def vm_processor_new_def block_info_of_env_def)
qed

lemma mined_backend:
  assumes ok: "backend_ok cp base bk" "numbered (bk_db bk)" and newest: "latest_number (bk_db bk) = Inr n" "be_number e = Suc n"
    and out: "updates_ok (su_state_updates (eo_states out))" and mine: "do_mine_block cp e out bk = Some (bk', Inr m)"
  shows "backend_ok cp base bk' \<and> numbered (bk_db bk') \<and> latest_number (bk_db bk') = Inr (Suc n)"
proof (rule mined_block_facts [OF mine], goal_cases)
  case (1 b st rs xs)
  have "latest_number (bk_db bk') = Inr (Suc n)"
    unfolding 1(1) using extend_chain [of "bk_db bk" cp base n b st rs xs] ok(1) newest 1
    by (auto simp: backend_ok_def)
  then show ?case
    using mine_preserves [OF ok(1) newest out mine] numbered_insert [OF ok(2), of b st rs xs] 1(1) by simp
qed

section \<open>Every step keeps the invariant\<close>

lemmas producer_defs = producer_ok_def tasks_ok_def in_order_def chain_ok_def current_executor_def in_flight_def

lemma queue_ok: "producer_ok pe base s sub mined \<Longrightarrow> producer_ok pe base (interval_queue ts s) (sub @ ts) mined"
  by (simp add: producer_defs interval_queue_def)

lemma execute_ok:
  assumes ok: "producer_ok pe base s sub mined" and run: "run_execution pe s = Some s'"
    and fin: "ip_execution s' = Some (ExecDone (Some (Inr rest)))"
  shows "producer_ok pe base s' sub mined"
proof -
  obtain h ts where task: "ip_execution s = Some (ExecScheduled h ts)"
    using run by (auto simp: run_execution_def split: option.splits exec_task.splits)
  then have h: "h = ip_executor s" "ip_mining s = None" "ip_executor s < length (ip_executors s)"
    using ok by (auto simp: producer_ok_def tasks_ok_def)
  obtain p' outs where ex: "interval_execute_transactions (pe_vm pe) (ip_executors s ! h) ts = Some (p', Inr (outs, rest))"
    and s': "s' = s\<lparr>ip_executors := (ip_executors s)[h := p'], ip_execution := Some (ExecDone (Some (Inr rest)))\<rparr>"
    using run fin task by (auto simp: run_execution_def split: option.splits sum.splits)
  obtain rs where rs: "vp_transactions p' = vp_transactions (ip_executors s ! h) @ zip (map tx_with_hash_from (take (length rs) ts)) rs"
      "length rs \<le> length ts" "vp_block_info p' = vp_block_info (ip_executors s ! h)"
      "case rest of None \<Rightarrow> length rs = length ts | Some l \<Rightarrow> l = drop (length rs) ts"
    by (rule interval_execute_Inr [OF ex])
  have "map tx_with_hash_from ts = map fst (zip (map tx_with_hash_from (take (length rs) ts)) rs) @
      map tx_with_hash_from (case rest of None \<Rightarrow> [] | Some l \<Rightarrow> l)"
    using rs(2,4) append_take_drop_id [of "length rs" ts]
    by (auto simp flip: map_append split: option.splits)
  then show ?thesis
    using ok task h rs by (auto simp: producer_defs s' split: option.splits)
qed

lemma mine_ok:
  assumes ok: "producer_ok pe base s sub mined" and task: "ip_mining s = Some (MineScheduled h)"
    and run: "run_mining pe s = Some s'" and fin: "ip_mining s' = Some (MineDone (Some (Inr m)))"
  shows "producer_ok pe base s' sub (mined @ vp_transactions (ip_executors s ! h))"
proof -
  have h: "h = ip_executor s" "ip_executor s < length (ip_executors s)"
    using ok task by (auto simp: producer_ok_def tasks_ok_def)
  obtain p' bk' where mine: "interval_do_mine pe (ip_executors s ! h) (ip_backend s) = Some (p', bk', Inr m)"
    and s': "s' = s\<lparr>ip_permit_locked := True, ip_executors := (ip_executors s)[h := p'], ip_backend := bk',
      ip_mining := Some (MineDone (Some (Inr m)))\<rparr>"
    using run task fin by (auto simp: run_mining_def Let_def split: if_splits option.splits)
  obtain out where out: "do_mine_block (pe_cp pe) (executor_block_env (vp_block_info (ip_executors s ! h))) out (ip_backend s) = Some (bk', Inr m)"
    "updates_ok (su_state_updates (eo_states out))" "vp_transactions p' = []"
    by (rule interval_do_mine_Inr [OF mine])
  have "backend_ok (pe_cp pe) base bk' \<and> numbered (bk_db bk') \<and> (\<exists>n. latest_number (bk_db bk') = Inr n)"
    using mined_backend [OF _ _ _ _ out(2,1)] ok task h by (auto simp: producer_defs executor_block_env_def)
  then show ?thesis
    using ok task h out(3) by (auto simp: producer_defs s' split: option.splits exec_task.splits)
qed

lemma poll_timer_ok:
  assumes "producer_ok pe base s sub mined" "ip_mining (poll_timer ready s) = ip_mining s \<or> exec_idle s"
  shows "producer_ok pe base (poll_timer ready s) sub mined \<and> ip_backend (poll_timer ready s) = ip_backend s"
  using assms by (auto simp: producer_defs poll_timer_def exec_idle_def split: if_splits)

lemma spawn_ok:
  assumes "producer_ok pe base s sub mined"
  shows "producer_ok pe base (spawn_execution s) sub mined \<and> ip_backend (spawn_execution s) = ip_backend s"
  using assms by (auto simp: producer_defs spawn_execution_def)

lemma taken_ok:
  assumes "producer_ok pe base s sub mined" "ip_execution s = Some (ExecDone (Some (Inr rest)))"
  shows "producer_ok pe base (case rest of
      None \<Rightarrow> s\<lparr>ip_execution := None\<rparr>
    | Some l \<Rightarrow> s\<lparr>ip_execution := None, ip_block_full := True, ip_queued := l # ip_queued s\<rparr>) sub mined"
  using assms by (auto simp: producer_defs split: option.splits)

lemma poll_execution_ok:
  assumes ok: "producer_ok pe base s sub mined"
  shows "snd (poll_execution s) = None \<and> producer_ok pe base (fst (poll_execution s)) sub mined \<and>
    ip_backend (fst (poll_execution s)) = ip_backend s"
proof -
  let ?s = "spawn_execution s"
  have sp: "producer_ok pe base ?s sub mined" "ip_backend ?s = ip_backend s" using spawn_ok [OF ok] by auto
  consider "\<forall>r. ip_execution ?s \<noteq> Some (ExecDone r)"
    | rest where "ip_execution ?s = Some (ExecDone (Some (Inr rest)))"
    using sp(1) unfolding producer_ok_def tasks_ok_def by metis
  then show ?thesis
  proof cases
    case 1
    then have "poll_execution s = (?s, None)"
      by (simp add: poll_execution_def Let_def split: option.split exec_task.split)
    then show ?thesis using sp by simp
  next
    case 2
    then show ?thesis
      using taken_ok [OF sp(1) 2] sp(2) spawn_ok [of pe base "?s\<lparr>ip_execution := None\<rparr>" sub mined]
      by (cases rest) (simp_all add: poll_execution_def Let_def)
  qed
qed

text \<open>Opening the next block after a mined one.\<close>

lemma reopened_ok:
  assumes order: "in_order s sub mined" "vp_transactions (current_executor s) = []" and idle: "exec_idle s"
    and exec: "\<forall>r. ip_execution s = Some (ExecDone r) \<longrightarrow> (\<exists>rest. r = Some (Inr rest))" and none: "ip_mining s = None"
    and chain: "backend_ok (pe_cp pe) base bk'" "numbered (bk_db bk')" "latest_number (bk_db bk') = Inr n"
    and p: "vp_transactions p = []" "ctx_number (vp_block_info p) = Suc n"
  shows "producer_ok pe base (s\<lparr>ip_backend := bk', ip_validator := v, ip_executors := ip_executors s @ [p],
    ip_executor := length (ip_executors s), ip_permit_locked := l, ip_block_full := f\<rparr>) sub mined"
  using assms by (auto simp: producer_defs exec_idle_def)

lemma poll_mining_ok:
  assumes ok: "producer_ok pe base s sub mined" and height: "height_below (2 ^ 64 - 1) s"
    and poll: "poll_mining pe now s = Some (s', r)"
  shows "producer_ok pe base s' sub mined"
proof (cases "\<exists>o'. ip_mining s = Some (MineDone o')")
  case False
  then have "s' = s" using poll by (auto simp: poll_mining_def split: option.splits mine_task.splits)
  then show ?thesis using ok by simp
next
  case True
  then obtain m where m: "ip_mining s = Some (MineDone (Some (Inr m)))"
    using ok unfolding producer_ok_def tasks_ok_def by blast
  obtain n where chain: "backend_ok (pe_cp pe) base (ip_backend s)" "numbered (bk_db (ip_backend s))"
    and n: "latest_number (bk_db (ip_backend s)) = Inr n" using ok by (auto simp: producer_ok_def chain_ok_def)
  have "n < 2 ^ 64 - 1" using height n by (simp add: height_below_def)
  then obtain bk' p env where new: "create_new_executor_for_next_block pe now (ip_backend s) = Some (bk', Inr p)"
    "bk_db bk' = bk_db (ip_backend s)" "vp_transactions p = []" "ctx_number (vp_block_info p) = Suc n"
    "block_env_at (bk_db (ip_backend s)) (Num n) = Inr (Some env)"
    by (rule next_executor [OF chain n, of pe now])
  let ?s = "s\<lparr>ip_mining := None\<rparr>"
  have "s' = ?s\<lparr>ip_backend := bk', ip_validator := tx_validator_update (pe_reader pe (vp_state p)) env (ip_validator ?s),
      ip_executors := ip_executors ?s @ [p], ip_executor := length (ip_executors ?s),
      ip_permit_locked := False, ip_block_full := False\<rparr>"
    using poll m new n by (simp add: poll_mining_def Let_def)
  moreover have "in_order ?s sub mined" "vp_transactions (current_executor ?s) = []" "exec_idle ?s"
    "\<forall>r. ip_execution ?s = Some (ExecDone r) \<longrightarrow> (\<exists>rest. r = Some (Inr rest))"
    using ok m by (auto simp: producer_defs exec_idle_def split: option.splits exec_task.splits)
  ultimately show ?thesis
    using reopened_ok [of ?s sub mined pe base bk' n p] chain n new backend_ok_cong [OF new(2)] by simp
qed

lemma poll_ok:
  assumes ok: "producer_ok pe base s sub mined" "ip_mining (poll_timer ready s) = ip_mining s \<or> exec_idle s"
    and height: "height_below (2 ^ 64 - 1) s" and poll: "interval_poll_next pe now ready s = Some (s', r)"
  shows "producer_ok pe base s' sub mined"
proof -
  have t: "producer_ok pe base (poll_timer ready s) sub mined" "ip_backend (poll_timer ready s) = ip_backend s"
    using poll_timer_ok [OF ok] by auto
  obtain s1 where s1: "poll_execution (poll_timer ready s) = (s1, None)" "producer_ok pe base s1 sub mined"
    "ip_backend s1 = ip_backend s"
    using poll_execution_ok [OF t(1)] t(2) by (cases "poll_execution (poll_timer ready s)") auto
  show ?thesis
    using poll_mining_ok [OF s1(2) _, of now s' r] poll s1 height by (simp add: interval_poll_next_def height_below_def)
qed

lemma force_ok:
  assumes ok: "producer_ok pe base s sub mined" and none: "ip_mining s = None" "exec_idle s"
    and height: "height_below (2 ^ 64 - 2) s" and force: "interval_force_mine pe now s = Some s'" "\<not> ip_permit_locked s'"
  shows "producer_ok pe base s' sub (mined @ vp_transactions (current_executor s))"
proof -
  obtain n where chain: "backend_ok (pe_cp pe) base (ip_backend s)" "numbered (bk_db (ip_backend s))"
    and n: "latest_number (bk_db (ip_backend s)) = Inr n" "ctx_number (vp_block_info (current_executor s)) = Suc n"
    using ok none(1) by (auto simp: producer_ok_def chain_ok_def)
  obtain p1 bk1 m where mine: "interval_do_mine pe (current_executor s) (ip_backend s) = Some (p1, bk1, Inr m)"
    and unlocked: "\<not> ip_permit_locked s"
    using force by (auto simp: interval_force_mine_def current_executor_def split: if_splits option.splits sum.splits)
  obtain out where out: "do_mine_block (pe_cp pe) (executor_block_env (vp_block_info (current_executor s))) out (ip_backend s) = Some (bk1, Inr m)"
    "updates_ok (su_state_updates (eo_states out))" "vp_transactions p1 = []"
    by (rule interval_do_mine_Inr [OF mine])
  have bk1: "backend_ok (pe_cp pe) base bk1" "numbered (bk_db bk1)" "latest_number (bk_db bk1) = Inr (Suc n)"
    using mined_backend [OF chain n(1) _ out(2,1)] n(2) by (auto simp: executor_block_env_def)
  have "Suc n < 2 ^ 64 - 1" using height n by (simp add: height_below_def)
  then obtain bk2 p env where new: "create_new_executor_for_next_block pe now bk1 = Some (bk2, Inr p)"
    "bk_db bk2 = bk_db bk1" "vp_transactions p = []" "ctx_number (vp_block_info p) = Suc (Suc n)"
    "block_env_at (bk_db bk1) (Num (Suc n)) = Inr (Some env)"
    by (rule next_executor [OF bk1, of pe now])
  let ?s = "s\<lparr>ip_executors := (ip_executors s)[ip_executor s := p1], ip_backend := bk1\<rparr>"
  have s': "s' = ?s\<lparr>ip_backend := bk2, ip_validator := tx_validator_update (pe_reader pe (vp_state p)) env (ip_validator ?s),
      ip_executors := ip_executors ?s @ [p], ip_executor := length (ip_executors ?s),
      ip_permit_locked := ip_permit_locked ?s, ip_block_full := ip_block_full ?s\<rparr>"
    using force mine unlocked new bk1(3) by (cases s) (auto simp: interval_force_mine_def current_executor_def Let_def)
  have "in_order ?s sub (mined @ vp_transactions (current_executor s))" "vp_transactions (current_executor ?s) = []"
    "exec_idle ?s" "\<forall>r. ip_execution ?s = Some (ExecDone r) \<longrightarrow> (\<exists>rest. r = Some (Inr rest))"
    using ok none out(3) by (auto simp: producer_defs exec_idle_def)
  then show ?thesis
    unfolding s' by (rule reopened_ok [where n = "Suc n"]) (use none bk1 new backend_ok_cong [OF new(2)] in simp_all)
qed

lemma producer_run_ok:
  "producer_run pe s0 s sub mined \<Longrightarrow> producer_ok pe base s0 [] [] \<Longrightarrow> producer_ok pe base s sub mined"
  by (induction rule: producer_run.induct)
    (blast intro: queue_ok execute_ok mine_ok poll_ok force_ok)+

lemma interval_new_ok:
  assumes new: "interval_new pe cfg now bk time = Some s" and ok: "backend_ok (pe_cp pe) base bk" "numbered (bk_db bk)"
    and n: "latest_number (bk_db bk) = Inr n" "n < 2 ^ 64 - 1"
  shows "producer_ok pe base s [] []"
proof -
  obtain bk' p env where ex: "create_new_executor_for_next_block pe now bk = Some (bk', Inr p)"
    "bk_db bk' = bk_db bk" "vp_transactions p = []" "ctx_number (vp_block_info p) = Suc n"
    by (rule next_executor [OF ok n, of pe now])
  then obtain env' where "next_block_env now bk = Some (bk', Inr env')"
    "p = vm_processor_new (pe_open_state pe (bk_db bk')) env' (pe_flags pe) (pe_bouncer pe)"
    by (auto simp: create_new_executor_for_next_block_def split: option.splits sum.splits)
  then show ?thesis
    using new ex ok n backend_ok_cong [OF ex(2)] by (auto simp: interval_new_def Let_def producer_defs)
qed

lemma interval_new_keeps_db:
  "interval_new pe cfg now bk time = Some s \<Longrightarrow> bk_db (ip_backend s) = bk_db bk"
  by (auto simp: interval_new_def next_block_env_def Let_def split: option.splits sum.splits prod.splits)

section \<open>Overlapping steps\<close>

lemma mined_body:
  assumes "do_mine_block cp e out bk = Some (bk', Inr m)"
  obtains hdr where "block_by_id (bk_db bk') (Num (be_number e)) =
    Inr (Some \<lparr>blk_header = hdr, blk_body = map fst (success_pairs (eo_transactions out))\<rparr>)"
    "latest_hash (bk_db bk) = Inr (hd_parent_hash hdr)"
proof (rule mined_block_facts [OF assms], goal_cases)
  case (1 b st rs xs)
  have "Num (be_number e) \<in> block_ids b" using 1(3) by (simp add: block_ids_def)
  then show ?case
    using 1 by (intro 1(1) [of "sb_header (sbs_block b)"]) (simp_all add: block_inserted unseal_def)
qed

lemma interval_do_mine_body:
  assumes "interval_do_mine pe p bk = Some (p', bk', Inr m)"
  obtains hdr where "block_by_id (bk_db bk') (Num (ctx_number (vp_block_info p))) =
    Inr (Some \<lparr>blk_header = hdr, blk_body = map fst (success_pairs (vp_transactions p))\<rparr>)"
    "latest_hash (bk_db bk) = Inr (hd_parent_hash hdr)" "vp_transactions p' = []" "vp_block_info p' = vp_block_info p"
proof (rule interval_do_mine_Inr [OF assms], goal_cases)
  case (1 out)
  obtain hdr where "block_by_id (bk_db bk') (Num (ctx_number (vp_block_info p))) =
      Inr (Some \<lparr>blk_header = hdr, blk_body = map fst (success_pairs (eo_transactions out))\<rparr>)"
    "latest_hash (bk_db bk) = Inr (hd_parent_hash hdr)"
    using mined_body [OF 1(2)] by (auto simp: executor_block_env_def)
  moreover have "vp_block_info p' = vp_block_info p"
    using assms by (auto simp: interval_do_mine_def take_execution_output_def Let_def split: option.splits sum.splits)
  ultimately show ?case using 1 that by simp
qed

lemma interval_force_mine_done:
  assumes "interval_force_mine pe now s = Some s'" "\<not> ip_permit_locked s'"
  obtains p1 bk1 m p where "interval_do_mine pe (current_executor s) (ip_backend s) = Some (p1, bk1, Inr m)"
    "bk_db (ip_backend s') = bk_db bk1" "ip_mining s' = ip_mining s" "ip_executor s' = length (ip_executors s)"
    "ip_executors s' = (ip_executors s)[ip_executor s := p1] @ [p]" "vp_transactions p = []"
proof -
  obtain p1 bk1 m where mine: "interval_do_mine pe (current_executor s) (ip_backend s) = Some (p1, bk1, Inr m)"
    and unlocked: "\<not> ip_permit_locked s"
    using assms by (auto simp: interval_force_mine_def current_executor_def split: if_splits option.splits sum.splits)
  obtain bk2 p where new: "create_new_executor_for_next_block pe now bk1 = Some (bk2, Inr p)"
    using assms mine unlocked
    by (auto simp: interval_force_mine_def current_executor_def Let_def split: option.splits sum.splits)
  then have "bk_db bk2 = bk_db bk1" "vp_transactions p = []"
    by (auto simp: create_new_executor_for_next_block_def next_block_env_def vm_processor_new_def
        split: option.splits sum.splits prod.splits)
  then show ?thesis
    using that [OF mine, of p] assms mine unlocked new
    by (auto simp: interval_force_mine_def current_executor_def Let_def split: option.splits sum.splits)
qed

section \<open>The stored blocks\<close>

lemma success_pairs_append: "success_pairs (xs @ ys) = success_pairs xs @ success_pairs ys"
  by (simp add: success_pairs_def)

lemma mined_bodies:
  assumes mine: "interval_do_mine pe p bk = Some (p', bk', Inr m)" and ok: "db_ok (bk_db bk)"
    and num: "ctx_number (vp_block_info p) = Suc n" and a: "a \<le> Suc n"
  shows "stored_bodies (bk_db bk') a (Suc (Suc n)) =
    stored_bodies (bk_db bk) a (Suc n) @ map fst (success_pairs (vp_transactions p))"
proof -
  obtain out where out: "do_mine_block (pe_cp pe) (executor_block_env (vp_block_info p)) out bk = Some (bk', Inr m)"
    by (rule interval_do_mine_Inr [OF mine])
  have "body_at (bk_db bk') i = body_at (bk_db bk) i" if "i \<noteq> Suc n" for i
  proof (rule mined_block_facts [OF out], goal_cases)
    case (1 b st rs xs)
    then show ?case using block_kept [OF ok, of i b st rs xs] that num by (simp add: body_at_def executor_block_env_def)
  qed
  then have "map (body_at (bk_db bk')) [a..<Suc n] = map (body_at (bk_db bk)) [a..<Suc n]"
    by (intro map_cong) auto
  moreover have "body_at (bk_db bk') (Suc n) = map fst (success_pairs (vp_transactions p))"
    by (rule interval_do_mine_body [OF mine]) (simp add: body_at_def num)
  moreover have "[a..<Suc (Suc n)] = [a..<Suc n] @ [Suc n]" using a by simp
  ultimately show ?thesis by (simp add: stored_bodies_def del: upt_Suc map_eq_conv)
qed

definition blocks_hold ::
    "block_number \<Rightarrow> ('cls, 'info) db \<Rightarrow> (tx_with_hash \<times> execution_result) list \<Rightarrow> bool" where
  "blocks_hold n d mined \<longleftrightarrow> (\<exists>k. latest_number d = Inr k \<and> n \<le> k \<and>
     stored_bodies d (Suc n) (Suc k) = map fst (success_pairs mined))"

lemma mine_holds:
  assumes hold: "blocks_hold n (bk_db bk) mined" and ok: "backend_ok (pe_cp pe) base bk" "numbered (bk_db bk)"
    and newest: "latest_number (bk_db bk) = Inr k" "ctx_number (vp_block_info p) = Suc k"
    and mine: "interval_do_mine pe p bk = Some (p', bk', Inr m)"
  shows "blocks_hold n (bk_db bk') (mined @ vp_transactions p)"
proof -
  obtain out where out: "do_mine_block (pe_cp pe) (executor_block_env (vp_block_info p)) out bk = Some (bk', Inr m)"
    "updates_ok (su_state_updates (eo_states out))"
    by (rule interval_do_mine_Inr [OF mine])
  have "latest_number (bk_db bk') = Inr (Suc k)"
    using mined_backend [OF ok newest(1) _ out(2,1)] newest(2) by (simp add: executor_block_env_def)
  moreover have "n \<le> k" "stored_bodies (bk_db bk) (Suc n) (Suc k) = map fst (success_pairs mined)"
    using hold newest(1) by (auto simp: blocks_hold_def)
  moreover have "db_ok (bk_db bk)" using ok(1) by (simp add: backend_ok_def)
  ultimately show ?thesis
    using mined_bodies [OF mine _ newest(2), of "Suc n"] by (simp add: blocks_hold_def success_pairs_append)
qed

lemma next_executor_keeps_db: "create_new_executor_for_next_block pe now bk = Some (bk', r) \<Longrightarrow> bk_db bk' = bk_db bk"
  by (auto simp: create_new_executor_for_next_block_def next_block_env_def split: option.splits sum.splits prod.splits)

lemma poll_keeps_db:
  assumes "interval_poll_next pe now ready s = Some (s', r)"
  shows "bk_db (ip_backend s') = bk_db (ip_backend s)"
proof -
  have t: "ip_backend (poll_timer ready s) = ip_backend s" by (simp add: poll_timer_def)
  have sp: "ip_backend (spawn_execution q) = ip_backend q" for q :: "('a, 'b, 'c, 'd, 'e, 'f) interval_producer"
    by (simp add: spawn_execution_def)
  have e: "ip_backend (fst (poll_execution q)) = ip_backend q" for q :: "('a, 'b, 'c, 'd, 'e, 'f) interval_producer"
    by (simp add: poll_execution_def Let_def sp split: option.split exec_task.split sum.split)
  have m: "bk_db (ip_backend q') = bk_db (ip_backend q)" if "poll_mining pe now q = Some (q', r)" for q q' r
    using that next_executor_keeps_db [of pe now "ip_backend q"]
    by (auto simp: poll_mining_def Let_def split: option.splits mine_task.splits sum.splits)
  obtain q x where q: "poll_execution (poll_timer ready s) = (q, x)" by fastforce
  then have "ip_backend q = ip_backend s" using e [of "poll_timer ready s"] t by simp
  then show ?thesis
    using assms q m [of q s' r] by (auto simp: interval_poll_next_def split: option.splits)
qed

lemma producer_run_blocks:
  "producer_run pe s0 s sub mined \<Longrightarrow> producer_ok pe base s0 [] [] \<Longrightarrow>
   latest_number (bk_db (ip_backend s0)) = Inr n \<Longrightarrow> blocks_hold n (bk_db (ip_backend s)) mined"
proof (induction rule: producer_run.induct)
  case run_start
  then show ?case by (simp add: blocks_hold_def stored_bodies_def success_pairs_def)
next
  case (run_queue s sub mined ts)
  then show ?case by (simp add: interval_queue_def)
next
  case (run_execute s sub mined s' rest)
  then have "ip_backend s' = ip_backend s"
    by (auto simp: run_execution_def split: option.splits exec_task.splits prod.splits sum.splits)
  then show ?case using run_execute by simp
next
  case (run_mine s sub mined h s' m)
  have ok: "producer_ok pe base s sub mined" using producer_run_ok run_mine by blast
  have h: "h = ip_executor s" using ok run_mine(2) by (simp add: producer_ok_def tasks_ok_def)
  obtain p' bk' where mine: "interval_do_mine pe (ip_executors s ! h) (ip_backend s) = Some (p', bk', Inr m)"
    "ip_backend s' = bk'"
    using run_mine(2-4) by (auto simp: run_mining_def Let_def split: if_splits option.splits)
  show ?case
    using mine_holds [OF run_mine.IH [OF run_mine.prems] _ _ _ _ mine(1), of base] ok h run_mine(2) mine(2)
    by (auto simp: producer_ok_def chain_ok_def current_executor_def)
next
  case (run_poll s sub mined ready now s' r)
  then show ?case using poll_keeps_db [OF run_poll(4)] by simp
next
  case (run_force s sub mined now s')
  have ok: "producer_ok pe base s sub mined" using producer_run_ok run_force by blast
  show ?case
  proof (rule interval_force_mine_done [OF run_force(5,6)], goal_cases)
    case (1 p1 bk1 m p)
    then show ?case
      using mine_holds [OF run_force.IH [OF run_force.prems] _ _ _ _ 1(1), of base] ok run_force(2)
      by (auto simp: producer_ok_def chain_ok_def)
  qed
qed

lemma force_succeeds:
  assumes mine: "interval_do_mine pe (current_executor s) (ip_backend s) = Some (p1, bk1, Inr m)" "\<not> ip_permit_locked s"
    and bk1: "backend_ok cp base bk1" "numbered (bk_db bk1)" "latest_number (bk_db bk1) = Inr n" "n < 2 ^ 64 - 1"
  obtains s1 where "interval_force_mine pe now s = Some s1" "\<not> ip_permit_locked s1"
proof (rule next_executor [OF bk1, of pe now], goal_cases)
  case (1 bk2 p env)
  then show ?case
    using mine bk1(3) that by (simp add: interval_force_mine_def current_executor_def Let_def)
qed

section \<open>Collecting transactions\<close>

lemma pending_poll_empty:
  assumes q: "queue_receiver poll_recv queue" and none: "pts_all q = []" "undelivered queue (pts_subscription q) = {#}"
  obtains r q' where "pending_poll_next poll_recv search q = Some (r, q')" "\<And>t. r \<noteq> Ready (Some t)"
    "pts_all q' = []" "undelivered queue (pts_subscription q') = {#}"
proof -
  have e: "sub_txs (pts_subscription q) = []" "queue (sub_receiver (pts_subscription q)) = []"
    using none(2) by (auto simp: undelivered_def)
  obtain r rx' where "poll_recv (sub_receiver (pts_subscription q)) = (r, rx')" "\<And>t. r \<noteq> Ready (Some t)" "queue rx' = []"
    using queue_receiver_Nil [OF q e(2)] by blast
  moreover then have "r = Pending \<or> r = Ready None" by (metis option.exhaust poll.exhaust)
  ultimately show ?thesis
    using none e that by (auto simp: pending_poll_next_def subscription_poll_next_def undelivered_def)
qed

lemma collect_subscription:
  assumes "queue_receiver poll_recv queue"
  shows "pts_all q = [] \<Longrightarrow> \<exists>ys q'. collect_ready (pending_poll_next poll_recv search) q acc = Some (acc @ map pt_tx ys, q') \<and>
    mset ys = undelivered queue (pts_subscription q) \<and> pts_all q' = [] \<and> undelivered queue (pts_subscription q') = {#}"
proof (induction "size (undelivered queue (pts_subscription q))" arbitrary: q acc)
  case 0
  obtain r q' where "pending_poll_next poll_recv search q = Some (r, q')" "\<And>t. r \<noteq> Ready (Some t)"
    "pts_all q' = []" "undelivered queue (pts_subscription q') = {#}"
    using pending_poll_empty [OF assms 0(2)] 0(1) by auto
  then show ?case using 0 by (subst collect_ready.simps) (auto split: poll.split option.split)
next
  case (Suc n)
  then have "undelivered queue (pts_subscription q) \<noteq> {#}" by auto
  then obtain t s' where t: "subscription_poll_next poll_recv search (pts_subscription q) = Some (Ready (Some t), s')"
    "undelivered queue (pts_subscription q) = add_mset t (undelivered queue s')"
    using subscription_poll_delivers [OF assms] by blast
  let ?q = "q\<lparr>pts_subscription := s'\<rparr>"
  have step: "pending_poll_next poll_recv search q = Some (Ready (Some t), ?q)"
    using t(1) Suc.prems(1) by (simp add: pending_poll_next_def)
  obtain ys q' where "collect_ready (pending_poll_next poll_recv search) ?q (acc @ [pt_tx t]) = Some ((acc @ [pt_tx t]) @ map pt_tx ys, q')"
    "mset ys = undelivered queue s'" "pts_all q' = []" "undelivered queue (pts_subscription q') = {#}"
    using Suc.hyps(1) [of ?q "acc @ [pt_tx t]"] Suc.prems Suc.hyps(2) t(2) by auto
  then show ?case
    using step t(2) by (subst collect_ready.simps) (auto intro!: exI [of _ "t # ys"])
qed

lemma collect_snapshot:
  "collect_ready (pending_poll_next poll_recv search) (q\<lparr>pts_all := xs\<rparr>) acc =
   collect_ready (pending_poll_next poll_recv search) (q\<lparr>pts_all := []\<rparr>) (acc @ map pt_tx xs)"
proof (induction xs arbitrary: acc)
  case (Cons x xs)
  then show ?case by (subst collect_ready.simps) (simp add: pending_poll_next_def [of _ _ "q\<lparr>pts_all := x # xs\<rparr>"])
qed simp

section \<open>A concrete producer\<close>

definition sample_pe :: "(bool, unit, nat, nat, unit, unit) producer_env" where
  "sample_pe = \<lparr>pe_vm = sample_vm, pe_cp = sample_cp, pe_is_legacy = id, pe_base_class = (\<lambda>st. sample_class),
     pe_to_diff = (\<lambda>st. \<lparr>sm_nonces = [], sm_class_hashes = [], sm_storage = [], sm_compiled_class_hashes = []\<rparr>),
     pe_flags = execution_flags_default, pe_bouncer = 1, pe_open_state = (\<lambda>d. 0),
     pe_reader = (\<lambda>st. \<lparr>sr_nonce = (\<lambda>a. Inr None), sr_class = sample_class\<rparr>)\<rparr>"

lemma sample_pe_cp [simp]: "pe_cp sample_pe = sample_cp"
  by (simp add: sample_pe_def)

lemma sample_pe_ok: "backend_ok (pe_cp sample_pe) 0 sample_backend" "(0::nat) < 2 ^ 64 - 1"
  by (simp_all add: sample_backend_ok)

lemma sample_numbered: "numbered (bk_db sample_backend)"
  unfolding sample_backend_def backend.simps
  by (rule numbered_insert) (simp add: numbered_def header_by_id_def db_empty_def)

lemma sample_start:
  obtains s0 :: "(bool, nat, nat, unit, unit, unit) interval_producer"
  where "interval_new sample_pe () now sample_backend (Some 5) = Some s0" "ip_queued s0 = []" "ip_execution s0 = None"
    "ip_mining s0 = None" "ip_executors s0 = [current_executor s0]" "ip_executor s0 = 0" "\<not> ip_permit_locked s0"
    "\<not> ip_block_full s0" "\<not> ip_timer s0" "ip_block_time s0 = Some 5"
    "vp_transactions (current_executor s0) = []" "vp_flags (current_executor s0) = execution_flags_default"
    "vp_bouncer (current_executor s0) = 1" "bk_db (ip_backend s0) = bk_db sample_backend"
proof -
  obtain bk' p env where ex: "create_new_executor_for_next_block sample_pe now sample_backend = Some (bk', Inr p)"
    "bk_db bk' = bk_db sample_backend" "vp_transactions p = []" "ctx_number (vp_block_info p) = Suc 0"
    by (rule next_executor [OF sample_backend_ok sample_numbered sample_backend_latest(1), of sample_pe now]) simp_all
  then obtain env' where env: "next_block_env now sample_backend = Some (bk', Inr env')"
    "p = vm_processor_new 0 env' execution_flags_default 1"
    by (auto simp: create_new_executor_for_next_block_def sample_pe_def split: option.splits sum.splits)
  then obtain s0 :: "(bool, nat, nat, unit, unit, unit) interval_producer"
    where s0: "interval_new sample_pe () now sample_backend (Some 5) = Some s0" by (simp add: interval_new_def Let_def)
  then show ?thesis
    using env ex by (intro that [of s0]) (auto simp: interval_new_def Let_def current_executor_def sample_pe_def vm_processor_new_def)
qed

lemma sample_execution:
  assumes "vp_flags p = execution_flags_default" "vp_bouncer p = 1"
  obtains p' r outs where "interval_execute_transactions sample_vm p [sample_ptx 10 0, sample_ptx 11 1] =
      Some (p', Inr (outs, Some [sample_ptx 11 1]))"
    "vp_transactions p' = vp_transactions p @ [(tx_with_hash_from (sample_ptx 10 0), r)]" "is_success r"
  using assms
  by (simp add: interval_execute_transactions_def execute_transactions_def transact_def transact_inner_def to_executor_tx_def
      prepared_tx_def prepared_flags_def sample_ptx_def sample_vm_def record_result_def execution_flags_default_def
      Let_def with_fee_def sample_invoke_v3_def bound_cost_def sample_exec_info_def build_receipt_def)

lemma sample_mining:
  assumes "latest_hash (bk_db bk) = Inr h" "ctx_number (vp_block_info p) = 1"
  obtains p' bk' m where "interval_do_mine sample_pe p bk = Some (p', bk', Inr m)"
proof -
  obtain st where "state_update_from_cached_state id (cached_class sample_class (vp_declared_classes p))
      \<lparr>sm_nonces = [], sm_class_hashes = [], sm_storage = [], sm_compiled_class_hashes = []\<rparr> = Some st"
    by (simp add: state_update_from_cached_state_def)
  moreover obtain items where "successful (vp_transactions p) = Some items" by (rule successful_total)
  ultimately show ?thesis
    using assms that
    by (simp add: interval_do_mine_def take_execution_output_def sample_pe_def Let_def do_mine_block_def commit_block_def
        commit_def update_block_hash_registry_contract_def mining_header_def STORED_BLOCK_HASH_BUFFER_def
        compute_new_state_root_def sample_cp_def executor_block_env_def)
qed

text \<open>Two transactions, of which only the first fits into the block; mining is about to run.\<close>

lemmas poll_parts = interval_poll_next_def poll_timer_def poll_execution_def spawn_execution_def poll_mining_def
  interval_queue_def Let_def

lemma sample_low:
  "bk_db (ip_backend s) = bk_db sample_backend \<Longrightarrow> height_below (2 ^ 64 - 1) s"
  using sample_backend_latest by (simp add: height_below_def)

lemma sample_full:
  obtains s0 s r where "interval_new sample_pe () 0 sample_backend (Some 5) = Some s0"
    "producer_run sample_pe s0 s [sample_ptx 10 0, sample_ptx 11 1] []"
    "ip_mining s = Some (MineScheduled 0)" "\<not> ip_permit_locked s" "ip_executor s = 0"
    "vp_transactions (ip_executors s ! 0) = [(tx_with_hash_from (sample_ptx 10 0), r)]"
    "ip_queued s = [[sample_ptx 11 1]]" "ip_execution s = None" "bk_db (ip_backend s) = bk_db sample_backend" "is_success r"
proof (rule sample_start [where now = 0], goal_cases)
  case (1 s0)
  note s0 = 1(2-)
  let ?ts = "[sample_ptx 10 0, sample_ptx 11 1]"
  let ?s1 = "interval_queue ?ts s0"
  let ?s2 = "?s1\<lparr>ip_execution := Some (ExecScheduled 0 ?ts), ip_queued := [], ip_timer := True\<rparr>"
  obtain p r outs where ex: "interval_execute_transactions sample_vm (current_executor s0) ?ts = Some (p, Inr (outs, Some [sample_ptx 11 1]))"
    "vp_transactions p = [(tx_with_hash_from (sample_ptx 10 0), r)]" "is_success r"
    using sample_execution [OF s0(12,13)] s0(11) by (metis append_Nil)
  let ?s3 = "?s2\<lparr>ip_executors := [p], ip_execution := Some (ExecDone (Some (Inr (Some [sample_ptx 11 1]))))\<rparr>"
  let ?s4 = "?s3\<lparr>ip_execution := None, ip_block_full := True, ip_queued := [[sample_ptx 11 1]]\<rparr>"
  let ?s5 = "?s4\<lparr>ip_timer := False, ip_block_full := False, ip_mining := Some (MineScheduled 0)\<rparr>"
  have exs: "ip_executors s0 ! 0 = current_executor s0" using s0(5) by (metis nth_Cons_0)
  have r1: "producer_run sample_pe s0 ?s1 ?ts []" using run_queue [OF run_start, of sample_pe s0 ?ts] by simp
  have "interval_poll_next sample_pe 0 False ?s1 = Some (?s2, Pending)" using s0 by (simp add: poll_parts)
  then have r2: "producer_run sample_pe s0 ?s2 ?ts []"
    by (rule run_poll [OF r1, rotated 2]) (use s0 in \<open>auto simp: poll_parts intro: sample_low [simplified]\<close>)
  have "run_execution sample_pe ?s2 = Some ?s3"
    using s0 ex exs by (simp add: run_execution_def sample_pe_def interval_queue_def)
  then have r3: "producer_run sample_pe s0 ?s3 ?ts []" by (rule run_execute [OF r2]) simp
  have "interval_poll_next sample_pe 0 False ?s3 = Some (?s4, Pending)" using s0 by (simp add: poll_parts)
  then have r4: "producer_run sample_pe s0 ?s4 ?ts []"
    by (rule run_poll [OF r3, rotated 2]) (use s0 in \<open>auto simp: poll_parts intro: sample_low [simplified]\<close>)
  have "interval_poll_next sample_pe 0 False ?s4 = Some (?s5, Pending)" using s0 by (simp add: poll_parts)
  then have r5: "producer_run sample_pe s0 ?s5 ?ts []"
    by (rule run_poll [OF r4, rotated 2]) (use s0 in \<open>auto simp: exec_idle_def poll_parts intro: sample_low [simplified]\<close>)
  show ?case by (rule 1(1) [OF s0(1) r5]) (use s0 ex in \<open>simp_all add: interval_queue_def\<close>)
qed

lemma sample_full_ok:
  assumes "interval_new sample_pe () 0 sample_backend (Some 5) = Some s0" "producer_run sample_pe s0 s sub mined"
  shows "producer_ok sample_pe 0 s sub mined"
  by (rule producer_run_ok [OF assms(2)], rule interval_new_ok [OF assms(1) _ sample_numbered sample_backend_latest(1)])
    (simp_all add: sample_backend_ok)

lemma sample_run:
  obtains s0 s r where "interval_new sample_pe () 0 sample_backend (Some 5) = Some s0"
    "producer_run sample_pe s0 s [sample_ptx 10 0, sample_ptx 11 1] [(tx_with_hash_from (sample_ptx 10 0), r)]"
    "ip_queued s = [[sample_ptx 11 1]]" "ip_execution s = None" "is_success r"
proof (rule sample_full, goal_cases)
  case (1 s0 s r)
  have "ctx_number (vp_block_info (ip_executors s ! 0)) = 1"
    using sample_full_ok [OF 1(2,3)] 1(4,6,10) sample_backend_latest by (auto simp: producer_ok_def chain_ok_def current_executor_def)
  then obtain p' bk' m where "interval_do_mine sample_pe (ip_executors s ! 0) (ip_backend s) = Some (p', bk', Inr m)"
    using sample_mining [of "ip_backend s" 17] 1(10) sample_backend_latest(2) by metis
  then have "run_mining sample_pe s = Some (s\<lparr>ip_permit_locked := True, ip_executors := (ip_executors s)[0 := p'],
      ip_backend := bk', ip_mining := Some (MineDone (Some (Inr m)))\<rparr>)"
    using 1 by (simp add: run_mining_def Let_def)
  from run_mine [OF 1(3,4) this] have run: "producer_run sample_pe s0 (s\<lparr>ip_permit_locked := True,
      ip_executors := (ip_executors s)[0 := p'], ip_backend := bk', ip_mining := Some (MineDone (Some (Inr m)))\<rparr>)
      [sample_ptx 10 0, sample_ptx 11 1] [(tx_with_hash_from (sample_ptx 10 0), r)]"
    using 1(7) by simp
  show ?case by (rule 1(1) [OF 1(2) run]) (use 1(8,9,11) in simp_all)
qed

lemma sample_mined_ok:
  assumes mine: "interval_do_mine sample_pe p bk = Some (p1, bk1, Inr m)"
    and "bk_db bk = bk_db sample_backend" "ctx_number (vp_block_info p) = 1"
  shows "backend_ok sample_cp 0 bk1 \<and> numbered (bk_db bk1) \<and> latest_number (bk_db bk1) = Inr 1"
proof (rule interval_do_mine_Inr [OF mine], goal_cases)
  case (1 out)
  from mined_backend [OF _ _ _ _ 1(3,1), of 0 0] show ?case
    using assms(2,3) backend_ok_cong [OF assms(2)] sample_backend_ok sample_numbered sample_backend_latest
    by (simp add: executor_block_env_def)
qed

lemma sample_forced:
  assumes new: "interval_new sample_pe () 0 sample_backend (Some 5) = Some s0" and run: "producer_run sample_pe s0 s sub []"
    and s: "ip_mining s = Some (MineScheduled 0)" "\<not> ip_permit_locked s" "bk_db (ip_backend s) = bk_db sample_backend"
  obtains s1 h where "interval_force_mine sample_pe 0 s = Some s1" "\<not> ip_permit_locked s1"
    "ctx_number (vp_block_info (current_executor s)) = 1" "latest_hash (bk_db (ip_backend s1)) = Inr h"
proof -
  have ok: "producer_ok sample_pe 0 s sub []" by (rule sample_full_ok [OF new run])
  have num: "ctx_number (vp_block_info (current_executor s)) = 1"
    using ok s sample_backend_latest by (auto simp: producer_ok_def chain_ok_def)
  obtain p1 bk1 m1 where mine: "interval_do_mine sample_pe (current_executor s) (ip_backend s) = Some (p1, bk1, Inr m1)"
    using sample_mining [OF _ num] s(3) sample_backend_latest(2) by metis
  have bk1: "backend_ok sample_cp 0 bk1 \<and> numbered (bk_db bk1) \<and> latest_number (bk_db bk1) = Inr 1"
    by (rule sample_mined_ok [OF mine s(3) num])
  obtain s1 where force: "interval_force_mine sample_pe 0 s = Some s1" "\<not> ip_permit_locked s1"
    using force_succeeds [OF mine s(2), of sample_cp 0 1 0] bk1 by auto
  have "bk_db (ip_backend s1) = bk_db bk1"
    using interval_force_mine_done [OF force] mine by (metis Pair_inject option.inject)
  then show ?thesis using that [OF force num] latest_hash_exists bk1 by (auto simp: backend_ok_def)
qed

text \<open>One transaction whose execution is still to run when the interval ends.\<close>

lemma sample_single:
  assumes "vp_flags p = execution_flags_default" "vp_bouncer p = 1"
  obtains p' outs where "interval_execute_transactions sample_vm p [sample_ptx 10 0] = Some (p', Inr (outs, None))"
  using assms
  by (simp add: interval_execute_transactions_def execute_transactions_def transact_def transact_inner_def to_executor_tx_def
      prepared_tx_def prepared_flags_def sample_ptx_def sample_vm_def record_result_def execution_flags_default_def
      Let_def with_fee_def sample_invoke_v3_def bound_cost_def sample_exec_info_def build_receipt_def)

lemma interval_do_mine_frame:
  "interval_do_mine pe p bk = Some (p', bk', r) \<Longrightarrow> vp_flags p' = vp_flags p \<and> vp_bouncer p' = vp_bouncer p"
  by (auto simp: interval_do_mine_def take_execution_output_def Let_def split: option.splits sum.splits)

lemma sample_expired:
  obtains s :: "(bool, nat, nat, unit, unit, unit) interval_producer"
  where "ip_execution s = Some (ExecScheduled 0 [sample_ptx 10 0])" "ip_mining s = None" "ip_timer s" "ip_executor s = 0"
    "ip_queued s = []" "\<not> ip_permit_locked s" "ip_executors s = [current_executor s]"
    "vp_flags (current_executor s) = execution_flags_default" "vp_bouncer (current_executor s) = 1"
    "bk_db (ip_backend s) = bk_db sample_backend" "ctx_number (vp_block_info (current_executor s)) = 1"
proof (rule sample_start [where now = 0], goal_cases)
  case (1 s0)
  have "ctx_number (vp_block_info (current_executor s0)) = 1"
    using sample_full_ok [OF 1(2) run_start] 1 sample_backend_latest by (auto simp: producer_ok_def chain_ok_def)
  moreover have "current_executor (s0\<lparr>ip_execution := e, ip_timer := True\<rparr>) = current_executor s0" for e
    by (simp add: current_executor_def)
  ultimately show ?case
    using 1(2-) by (intro 1(1) [of "s0\<lparr>ip_execution := Some (ExecScheduled 0 [sample_ptx 10 0]), ip_timer := True\<rparr>"]) simp_all
qed

section \<open>Properties\<close>

text \<open>
  C3. The interval producer loses, duplicates and reorders nothing.  In every run from a fresh
  producer in which no task fails and mining does not start while an execution has still to
  run, the transactions submitted so far are, in this order: those the miner took out of its
  executors, those executed in the open block, those being executed or left over from a full
  block, and those in the queue.  What the database then stores above the height \<open>n\<close> the
  producer started from, read back block by block, is exactly the transactions taken by the
  miner that did not fail in execution, in the order in which they were submitted.
\<close>

theorem interval_producer_in_order:
  assumes run: "producer_run pe s0 s sub mined" and start: "interval_new pe cfg now bk time = Some s0"
    and chain: "backend_ok (pe_cp pe) base bk" "numbered (bk_db bk)"
    and height: "latest_number (bk_db bk) = Inr n" "n < 2 ^ 64 - 1"
  shows "map tx_with_hash_from sub = map fst mined @ map fst (vp_transactions (current_executor s)) @
      map tx_with_hash_from (in_flight s @ concat (ip_queued s)) \<and>
    (\<exists>k. latest_number (bk_db (ip_backend s)) = Inr k \<and> n \<le> k \<and>
      stored_bodies (bk_db (ip_backend s)) (Suc n) (Suc k) = map fst (success_pairs mined))"
proof -
  have ok: "producer_ok pe base s0 [] []" by (rule interval_new_ok [OF start chain height])
  have "latest_number (bk_db (ip_backend s0)) = Inr n"
    using interval_new_keeps_db [OF start] height(1) by simp
  then show ?thesis
    using producer_run_ok [OF run ok] producer_run_blocks [OF run ok]
    by (auto simp: producer_ok_def in_order_def blocks_hold_def)
qed

theorem interval_producer_in_order_witness:
  "\<exists>(s0 :: (bool, nat, nat, unit, unit, unit) interval_producer) s r k. producer_run sample_pe s0 s [sample_ptx 10 0, sample_ptx 11 1] [(tx_with_hash_from (sample_ptx 10 0), r)] \<and>
     map tx_with_hash_from [sample_ptx 10 0, sample_ptx 11 1] =
       [tx_with_hash_from (sample_ptx 10 0)] @ map fst (vp_transactions (current_executor s)) @ [tx_with_hash_from (sample_ptx 11 1)] \<and>
     stored_bodies (bk_db (ip_backend s)) 1 (Suc k) = [tx_with_hash_from (sample_ptx 10 0)]"
proof (rule sample_run, goal_cases)
  case (1 s0 s r)
  from interval_producer_in_order [OF 1(2,1) sample_pe_ok(1) sample_numbered sample_backend_latest(1) sample_pe_ok(2)]
  show ?case using 1(2-) by (cases r) (auto simp: in_flight_def success_pairs_def)
qed

text \<open>
  C17. The interval producer extends the chain by one block at a time.  In the same runs the
  database stays well formed, its blocks stay linked by their parent hashes and stored under
  the hashes of their headers, and unless a mined block waits to be collected, the open
  block has the number after the newest one.
\<close>

theorem interval_producer_chain:
  assumes run: "producer_run pe s0 s sub mined" and start: "interval_new pe cfg now bk time = Some s0"
    and chain: "backend_ok (pe_cp pe) base bk" "numbered (bk_db bk)"
    and height: "latest_number (bk_db bk) = Inr n" "n < 2 ^ 64 - 1"
  shows "backend_ok (pe_cp pe) base (ip_backend s) \<and> (\<exists>n. latest_number (bk_db (ip_backend s)) = Inr n \<and>
    ((\<exists>r. ip_mining s = Some (MineDone r)) \<or> ctx_number (vp_block_info (current_executor s)) = Suc n))"
  using producer_run_ok [OF run interval_new_ok [OF start chain height]] by (simp add: producer_ok_def chain_ok_def)

theorem interval_producer_chain_witness:
  "\<exists>(s0 :: (bool, nat, nat, unit, unit, unit) interval_producer) s. producer_run sample_pe s0 s [sample_ptx 10 0, sample_ptx 11 1] [] \<and> backend_ok sample_cp 0 (ip_backend s) \<and>
     ctx_number (vp_block_info (current_executor s)) = 1"
proof (rule sample_full, goal_cases)
  case (1 s0 s r)
  from interval_producer_chain [OF 1(2,1) sample_pe_ok(1) sample_numbered sample_backend_latest(1) sample_pe_ok(2)]
  show ?case using 1(2-) sample_backend_latest by (intro exI [of _ s0] exI [of _ s]) auto
qed

text \<open>
  C39. The restriction on forced mining is needed: forced mining does not look whether mining
  has already been started.  When a mining task is waiting for the current executor, a
  forced block is stored with the executed transactions, and the task, when it runs, mines
  the same executor once more: under the same number the block is replaced by an empty one,
  whose parent is the block it replaces.
\<close>

theorem forced_mining_replaces_block:
  assumes task: "ip_mining s = Some (MineScheduled (ip_executor s))" "ip_executor s < length (ip_executors s)"
    and force: "interval_force_mine pe now s = Some s1" "\<not> ip_permit_locked s1"
    and run: "run_mining pe s1 = Some s2" "ip_mining s2 = Some (MineDone (Some (Inr m)))"
  shows "\<exists>hdr hdr'. block_by_id (bk_db (ip_backend s1)) (Num (ctx_number (vp_block_info (current_executor s)))) =
      Inr (Some \<lparr>blk_header = hdr, blk_body = map fst (success_pairs (vp_transactions (current_executor s)))\<rparr>) \<and>
    block_by_id (bk_db (ip_backend s2)) (Num (ctx_number (vp_block_info (current_executor s)))) =
      Inr (Some \<lparr>blk_header = hdr', blk_body = []\<rparr>) \<and>
    latest_hash (bk_db (ip_backend s1)) = Inr (hd_parent_hash hdr')"
proof (rule interval_force_mine_done [OF force], goal_cases)
  case (1 p1 bk1 m1 p)
  obtain hdr where first: "block_by_id (bk_db bk1) (Num (ctx_number (vp_block_info (current_executor s)))) =
      Inr (Some \<lparr>blk_header = hdr, blk_body = map fst (success_pairs (vp_transactions (current_executor s)))\<rparr>)"
    "vp_transactions p1 = []" "vp_block_info p1 = vp_block_info (current_executor s)"
    by (rule interval_do_mine_body [OF 1(1)])
  have "ip_executors s1 ! ip_executor s = p1" using 1(5) task(2) by (simp add: nth_append)
  then obtain p2 bk2 where again: "interval_do_mine pe p1 (ip_backend s1) = Some (p2, bk2, Inr m)" "ip_backend s2 = bk2"
    using run task 1(3) force(2) by (auto simp: run_mining_def Let_def split: option.splits)
  obtain hdr' where "block_by_id (bk_db bk2) (Num (ctx_number (vp_block_info p1))) =
      Inr (Some \<lparr>blk_header = hdr', blk_body = map fst (success_pairs (vp_transactions p1))\<rparr>)"
    "latest_hash (bk_db (ip_backend s1)) = Inr (hd_parent_hash hdr')"
    by (rule interval_do_mine_body [OF again(1)])
  then show ?case using first again(2) 1(2) by (simp add: success_pairs_def)
qed

theorem forced_mining_replaces_block_witness:
  "\<exists>(s :: (bool, nat, nat, unit, unit, unit) interval_producer) s1 s2 hdr hdr'.
     interval_force_mine sample_pe 0 s = Some s1 \<and> run_mining sample_pe s1 = Some s2 \<and>
     block_by_id (bk_db (ip_backend s1)) (Num 1) =
       Inr (Some \<lparr>blk_header = hdr, blk_body = map fst (success_pairs (vp_transactions (current_executor s)))\<rparr>) \<and>
     block_by_id (bk_db (ip_backend s2)) (Num 1) = Inr (Some \<lparr>blk_header = hdr', blk_body = []\<rparr>)"
proof (rule sample_full, goal_cases)
  case (1 s0 s r)
  have "ip_executor s < length (ip_executors s)"
    using sample_full_ok [OF 1(1,2)] by (simp add: producer_ok_def tasks_ok_def)
  moreover obtain s1 h where force: "interval_force_mine sample_pe 0 s = Some s1" "\<not> ip_permit_locked s1"
    "ctx_number (vp_block_info (current_executor s)) = 1" "latest_hash (bk_db (ip_backend s1)) = Inr h"
    by (rule sample_forced [OF 1(1,2,3,4,9)])
  moreover have "ctx_number (vp_block_info (ip_executors s1 ! 0)) = 1" "ip_mining s1 = Some (MineScheduled 0)"
    using interval_force_mine_done [OF force(1,2)] interval_do_mine_body 1(3,5) calculation
    by (metis (no_types, lifting) length_list_update nth_append nth_list_update_eq)+
  moreover then obtain p2 bk2 m where "interval_do_mine sample_pe (ip_executors s1 ! 0) (ip_backend s1) = Some (p2, bk2, Inr m)"
    using sample_mining [OF force(4)] by metis
  ultimately obtain s2 where "run_mining sample_pe s1 = Some s2" "ip_mining s2 = Some (MineDone (Some (Inr m)))"
    by (auto simp: run_mining_def Let_def)
  then show ?case
    using forced_mining_replaces_block [of s sample_pe 0 s1 s2 m] force 1(3,5) \<open>ip_executor s < length (ip_executors s)\<close>
    by auto
qed

text \<open>
  C40. The restriction on overlapping is needed as well: when the interval ends while an
  execution is still waiting for its thread, mining is started on the same executor.  If
  mining runs first, the block is closed without the waiting transactions, the producer goes
  on with a new executor, and the execution then works on the old one: its transactions are
  neither queued, nor in flight, nor in the open block, nor in the block that was mined.
\<close>

theorem overlapping_mining_drops_transactions:
  assumes start: "ip_execution s = Some (ExecScheduled (ip_executor s) ts)" "ip_mining s = None" "ip_timer s"
      "ip_executor s < length (ip_executors s)"
    and expired: "interval_poll_next pe now True s = Some (s1, r1)"
    and mine: "run_mining pe s1 = Some s2" "ip_mining s2 = Some (MineDone (Some (Inr m)))"
    and collected: "interval_poll_next pe now' False s2 = Some (s3, Ready (Inr m))"
    and exec: "run_execution pe s3 = Some s4" "ip_execution s4 = Some (ExecDone (Some (Inr None)))"
  shows "ip_queued s4 = ip_queued s \<and> in_flight s4 = [] \<and> vp_transactions (current_executor s4) = [] \<and>
    ip_executor s4 \<noteq> ip_executor s \<and> mb_txs m = map (twh_hash \<circ> fst) (success_pairs (vp_transactions (current_executor s))) \<and>
    map fst (vp_transactions (ip_executors s4 ! ip_executor s)) = map tx_with_hash_from ts"
proof -
  let ?h = "ip_executor s"
  have s1: "s1 = s\<lparr>ip_timer := False, ip_block_full := False, ip_mining := Some (MineScheduled ?h)\<rparr>"
    using expired start by (simp add: poll_parts)
  obtain p' bk' where do_mine: "interval_do_mine pe (ip_executors s ! ?h) (ip_backend s) = Some (p', bk', Inr m)"
    and s2: "s2 = s1\<lparr>ip_permit_locked := True, ip_executors := (ip_executors s)[?h := p'], ip_backend := bk',
      ip_mining := Some (MineDone (Some (Inr m)))\<rparr>"
    using mine s1 by (auto simp: run_mining_def Let_def split: if_splits option.splits)
  obtain out where out: "do_mine_block (pe_cp pe) (executor_block_env (vp_block_info (ip_executors s ! ?h))) out (ip_backend s) = Some (bk', Inr m)"
    "eo_transactions out = vp_transactions (ip_executors s ! ?h)" "vp_transactions p' = []"
    by (rule interval_do_mine_Inr [OF do_mine])
  have txs: "mb_txs m = map (twh_hash \<circ> fst) (success_pairs (vp_transactions (current_executor s)))"
    by (rule mined_block_facts [OF out(1)]) (simp add: out(2) current_executor_def flip: map_map)
  have s2': "ip_execution s2 = Some (ExecScheduled ?h ts)" "ip_queued s2 = ip_queued s" "ip_timer s2 = False" "ip_block_full s2 = False"
    using s1 s2 start by simp_all
  then have "poll_mining pe now' s2 = Some (s3, Ready (Inr m))"
    using collected mine(2) by (simp add: interval_poll_next_def poll_timer_def poll_execution_def spawn_execution_def Let_def)
  then obtain bk3 p v where s3: "create_new_executor_for_next_block pe now' (ip_backend s2) = Some (bk3, Inr p)"
    "s3 = s2\<lparr>ip_mining := None, ip_backend := bk3, ip_validator := v, ip_executors := ip_executors s2 @ [p],
      ip_executor := length (ip_executors s2), ip_permit_locked := False, ip_block_full := False\<rparr>"
    using mine(2) by (auto simp: poll_mining_def Let_def split: option.splits sum.splits)
  have p: "vp_transactions p = []"
    using s3(1) by (auto simp: create_new_executor_for_next_block_def vm_processor_new_def split: option.splits sum.splits)
  have stale: "ip_executors s3 ! ?h = p'" "length (ip_executors s2) = length (ip_executors s)"
    using s3(2) s2 start(4) by (simp_all add: nth_append)
  obtain p4 outs where ex: "interval_execute_transactions (pe_vm pe) p' ts = Some (p4, Inr (outs, None))"
    "s4 = s3\<lparr>ip_executors := (ip_executors s3)[?h := p4], ip_execution := Some (ExecDone (Some (Inr None)))\<rparr>"
    using exec s3(2) s2'(1) stale by (auto simp: run_execution_def split: option.splits sum.splits)
  have "map fst (vp_transactions p4) = map tx_with_hash_from ts"
    by (rule interval_execute_Inr [OF ex(1)]) (simp add: out(3))
  then show ?thesis
    using ex(2) s3(2) s2'(2) stale(2) p start(4) txs by (simp add: in_flight_def current_executor_def nth_append)
qed

theorem overlapping_mining_drops_transactions_witness:
  "\<exists>(s :: (bool, nat, nat, unit, unit, unit) interval_producer) s1 s2 s3 s4 m.
     ip_execution s = Some (ExecScheduled 0 [sample_ptx 10 0]) \<and> interval_poll_next sample_pe 0 True s = Some (s1, Pending) \<and>
     run_mining sample_pe s1 = Some s2 \<and> interval_poll_next sample_pe 0 False s2 = Some (s3, Ready (Inr m)) \<and>
     run_execution sample_pe s3 = Some s4 \<and> concat (ip_queued s4) = [] \<and> in_flight s4 = [] \<and>
     vp_transactions (current_executor s4) = []"
proof (rule sample_expired, goal_cases)
  case (1 s)
  let ?s1 = "s\<lparr>ip_timer := False, ip_block_full := False, ip_mining := Some (MineScheduled 0)\<rparr>"
  have e1: "interval_poll_next sample_pe 0 True s = Some (?s1, Pending)" using 1 by (simp add: poll_parts)
  obtain p' bk' m where mine: "interval_do_mine sample_pe (current_executor s) (ip_backend s) = Some (p', bk', Inr m)"
    using sample_mining [OF _ 1(11)] 1(10) sample_backend_latest(2) by metis
  let ?s2 = "?s1\<lparr>ip_permit_locked := True, ip_executors := [p'], ip_backend := bk', ip_mining := Some (MineDone (Some (Inr m)))\<rparr>"
  have "ip_executors s ! 0 = current_executor s" using 1(7) by (metis nth_Cons_0)
  then have e2: "run_mining sample_pe ?s1 = Some ?s2" using 1 mine by (simp add: run_mining_def Let_def)
  have bk': "backend_ok (pe_cp sample_pe) 0 bk'" "numbered (bk_db bk')" "latest_number (bk_db bk') = Inr 1"
    using sample_mined_ok [OF mine 1(10,11)] by simp_all
  show ?case
  proof (rule next_executor [OF bk', of sample_pe 0], goal_cases)
    case (2 bk3 p env)
    let ?s3 = "?s2\<lparr>ip_mining := None, ip_backend := bk3,
      ip_validator := tx_validator_update (pe_reader sample_pe (vp_state p)) env (ip_validator s),
      ip_executors := [p', p], ip_executor := 1, ip_permit_locked := False, ip_block_full := False\<rparr>"
    have e3: "interval_poll_next sample_pe 0 False ?s2 = Some (?s3, Ready (Inr m))"
      using 2 1 bk' by (simp add: poll_parts)
    obtain p4 outs where "interval_execute_transactions sample_vm p' [sample_ptx 10 0] = Some (p4, Inr (outs, None))"
      using sample_single [of p'] interval_do_mine_frame [OF mine] 1(8,9) by auto
    then have e4: "run_execution sample_pe ?s3 = Some (?s3\<lparr>ip_executors := [p4, p], ip_execution := Some (ExecDone (Some (Inr None)))\<rparr>)"
      using 1(1) by (simp add: run_execution_def sample_pe_def)
    have len: "ip_executor s < length (ip_executors s)" using 1(4,7) by (metis length_Cons zero_less_Suc)
    have e0: "ip_execution s = Some (ExecScheduled (ip_executor s) [sample_ptx 10 0])" using 1(1,4) by simp
    have "ip_mining ?s2 = Some (MineDone (Some (Inr m)))" by simp
    note dropped = overlapping_mining_drops_transactions [OF e0 1(2,3) len e1 e2 this e3 e4, simplified 1(5)]
    show ?case
      by (intro exI conjI, rule 1(1), rule e1, rule e2, rule e3, rule e4) (use dropped in simp_all)
  qed simp
qed

text \<open>
  C36. Collecting transactions from the pool ends and misses nothing: as long as the channel is
  a queue, one poll of the miner returns, hands over the whole snapshot in order followed by
  every buffered or queued transaction exactly once, leaves the stream empty, and reports
  that it is waiting exactly when there was nothing to hand over.
\<close>

theorem miner_poll_complete:
  assumes queue: "queue_receiver poll_recv queue"
  shows "\<exists>ys q'. miner_poll (pending_poll_next poll_recv search) q =
      Some (if pts_all q @ ys = [] then Pending else Ready (map pt_tx (pts_all q @ ys)), q') \<and>
    mset ys = mset (sub_txs (pts_subscription q)) + mset (queue (sub_receiver (pts_subscription q))) \<and>
    pts_all q' = [] \<and> sub_txs (pts_subscription q') = [] \<and> queue (sub_receiver (pts_subscription q')) = []"
proof -
  obtain ys q' where ys: "collect_ready (pending_poll_next poll_recv search) (q\<lparr>pts_all := []\<rparr>) (map pt_tx (pts_all q)) =
      Some (map pt_tx (pts_all q) @ map pt_tx ys, q')" "mset ys = undelivered queue (pts_subscription q)"
    "pts_all q' = []" "undelivered queue (pts_subscription q') = {#}"
    using collect_subscription [OF queue, of "q\<lparr>pts_all := []\<rparr>" search "map pt_tx (pts_all q)"] by auto
  have "q\<lparr>pts_all := pts_all q\<rparr> = q" by simp
  then have "collect_ready (pending_poll_next poll_recv search) q [] = Some (map pt_tx (pts_all q) @ map pt_tx ys, q')"
    using collect_snapshot [where q = q and xs = "pts_all q" and acc = "[]"] ys(1) by simp
  then show ?thesis
    using ys by (intro exI [of _ ys] exI [of _ q']) (simp add: miner_poll_def undelivered_def)
qed

theorem miner_poll_complete_witness:
  "\<exists>q'. miner_poll (pending_poll_next (\<lambda>rx. case rx of [] \<Rightarrow> (Pending, []) | t # ts \<Rightarrow> (Ready (Some t), ts))
        (btree_position pending_cmp))
      \<lparr>pts_all = [], pts_subscription = \<lparr>sub_txs = [],
         sub_receiver = [\<lparr>pt_id = tx_id_new 1 0, pt_tx = sample_ptx 10 0, pt_priority = TxSubmissionNonce 0, pt_added_at = 0\<rparr>]\<rparr>\<rparr> =
      Some (Ready [sample_ptx 10 0], q')"
proof -
  let ?t = "\<lparr>pt_id = tx_id_new 1 0, pt_tx = sample_ptx 10 0, pt_priority = TxSubmissionNonce 0, pt_added_at = 0\<rparr>"
  let ?recv = "\<lambda>rx. case rx of [] \<Rightarrow> (Pending, []) | t # ts \<Rightarrow> (Ready (Some t), ts)"
  have "queue_receiver ?recv (\<lambda>rx. rx)" by (auto simp: queue_receiver_def split: list.split)
  from miner_poll_complete [OF this, where search = "btree_position pending_cmp"
      and q = "\<lparr>pts_all = [], pts_subscription = \<lparr>sub_txs = [], sub_receiver = [?t]\<rparr>\<rparr>"]
  show ?thesis by auto
qed

end
