(* ===== verification/Api_Error.thy ===== *)
theory Api_Error
  imports Exec_Errors Num_Text
begin

text \<open>
  The errors of the Starknet API (\<^verbatim>\<open>crates/rpc/rpc-api/src/error/starknet.rs\<close>): the error
  values, their codes, and how errors of the storage layer, of continuation tokens and of
  the transaction pool are turned into them.  The display texts of the converted errors are
  arguments.
\<close>

datatype starknet_api_error =
  FailedToReceiveTxn
| ContractNotFound
| InvalidCallData
| BlockNotFound
| TxnHashNotFound
| InvalidTxnIndex
| ClassHashNotFound
| PageSizeTooBig nat nat
| NoBlocks
| InvalidContinuationToken
| ContractError string
| ApiTransactionExecutionError nat string
| InvalidContractClass
| ApiClassAlreadyDeclared
| InvalidTransactionNonce string
| InsufficientAccountBalance
| ApiValidationFailure string
| CompilationFailed string
| ContractClassSizeIsTooLarge
| ApiNonAccount
| DuplicateTransaction
| CompiledClassHashMismatch
| UnsupportedTransactionVersion
| UnsupportedContractClassVersion
| UnexpectedError string
| TooManyKeysInFilter
| FailedToFetchPendingTransactions
| StorageProofNotSupported block_number block_number
| ProofLimitExceeded nat nat
| EntrypointNotFound
| InsufficientResourcesForValidate

fun api_error_code :: "starknet_api_error \<Rightarrow> int" where
  "api_error_code FailedToReceiveTxn = 1"
| "api_error_code ContractNotFound = 20"
| "api_error_code EntrypointNotFound = 21"
| "api_error_code InvalidCallData = 22"
| "api_error_code BlockNotFound = 24"
| "api_error_code InvalidTxnIndex = 27"
| "api_error_code ClassHashNotFound = 28"
| "api_error_code TxnHashNotFound = 29"
| "api_error_code (PageSizeTooBig _ _) = 31"
| "api_error_code NoBlocks = 32"
| "api_error_code InvalidContinuationToken = 33"
| "api_error_code TooManyKeysInFilter = 34"
| "api_error_code FailedToFetchPendingTransactions = 38"
| "api_error_code (ContractError _) = 40"
| "api_error_code (ApiTransactionExecutionError _ _) = 41"
| "api_error_code (StorageProofNotSupported _ _) = 42"
| "api_error_code InvalidContractClass = 50"
| "api_error_code ApiClassAlreadyDeclared = 51"
| "api_error_code (InvalidTransactionNonce _) = 52"
| "api_error_code InsufficientResourcesForValidate = 53"
| "api_error_code InsufficientAccountBalance = 54"
| "api_error_code (ApiValidationFailure _) = 55"
| "api_error_code (CompilationFailed _) = 56"
| "api_error_code ContractClassSizeIsTooLarge = 57"
| "api_error_code ApiNonAccount = 58"
| "api_error_code DuplicateTransaction = 59"
| "api_error_code CompiledClassHashMismatch = 60"
| "api_error_code UnsupportedTransactionVersion = 61"
| "api_error_code UnsupportedContractClassVersion = 62"
| "api_error_code (UnexpectedError _) = 63"
| "api_error_code (ProofLimitExceeded _ _) = 1000"

datatype continuation_token_error = InvalidToken | ParseFailed parse_int_error

definition api_error_of_provider :: "(provider_error \<Rightarrow> string) \<Rightarrow> provider_error \<Rightarrow> starknet_api_error" where
  "api_error_of_provider text e = UnexpectedError (text e)"

fun api_error_of_token :: "(parse_int_error \<Rightarrow> string) \<Rightarrow> continuation_token_error \<Rightarrow> starknet_api_error" where
  "api_error_of_token text InvalidToken = InvalidContinuationToken"
| "api_error_of_token text (ParseFailed e) = UnexpectedError (text e)"

definition api_error_of_invalid_tx :: "('r invalid_transaction_error \<Rightarrow> string) \<Rightarrow> 'r invalid_transaction_error \<Rightarrow> starknet_api_error" where
  "api_error_of_invalid_tx text e = (case e of
      InsufficientFunds _ \<Rightarrow> InsufficientAccountBalance
    | ClassAlreadyDeclared _ \<Rightarrow> ApiClassAlreadyDeclared
    | InsufficientIntrinsicFee _ \<Rightarrow> InsufficientResourcesForValidate
    | NonAccount _ \<Rightarrow> ApiNonAccount
    | InvalidNonce _ _ _ \<Rightarrow> InvalidTransactionNonce (text e)
    | ValidationFailure _ _ reason \<Rightarrow> ApiValidationFailure reason)"

fun api_error_of_pool ::
    "('r invalid_transaction_error \<Rightarrow> string) \<Rightarrow> ('b \<Rightarrow> string) \<Rightarrow> ('r, 'b) pool_error \<Rightarrow> starknet_api_error" where
  "api_error_of_pool text internal (InvalidTransaction e) = api_error_of_invalid_tx text e"
| "api_error_of_pool text internal (Internal e) = UnexpectedError (internal e)"

end
