(* ===== verification/Events.thy ===== *)
theory Events
  imports Api_Error Executor
begin

text \<open>
  Event queries: \<^verbatim>\<open>crates/rpc/rpc/src/utils/events.rs\<close>, the continuation tokens of
  \<^verbatim>\<open>crates/primitives/src/event.rs\<close> and the handler in \<^verbatim>\<open>crates/rpc/rpc/src/starknet/mod.rs\<close>.

  A cursor names a block, a transaction of it and the number of matching events of that
  transaction that have been delivered.  Positions and page sizes are natural numbers: the
  one sum of a position and a page size that could leave the 64-bit range is only used when
  the page is full, and a full page of that size cannot be held in memory.
\<close>

section \<open>Filters and cursors\<close>

datatype event_error = InvalidCursor | EventProvider provider_error | EventOther string

datatype event_block_id = EvPending | EvNum block_number

record event_filter =
  flt_address :: "contract_address option"
  flt_keys :: "felt list list option"

record partial_cursor =
  pc_idx :: nat
  pc_event :: nat

record cursor =
  cu_block :: nat
  cu_txn :: partial_cursor

definition cursor_new :: "nat \<Rightarrow> nat \<Rightarrow> nat \<Rightarrow> cursor" where
  "cursor_new blk txn ev = \<lparr>cu_block = blk, cu_txn = \<lparr>pc_idx = txn, pc_event = ev\<rparr>\<rparr>"

definition cursor_new_block :: "nat \<Rightarrow> cursor" where
  "cursor_new_block blk = \<lparr>cu_block = blk, cu_txn = \<lparr>pc_idx = 0, pc_event = 0\<rparr>\<rparr>"

definition into_full :: "partial_cursor \<Rightarrow> block_number \<Rightarrow> cursor" where
  "into_full c blk = \<lparr>cu_block = blk, cu_txn = c\<rparr>"

record emitted_event =
  ee_block_hash :: "block_hash option"
  ee_block_number :: "block_number option"
  ee_keys :: "felt list"
  ee_data :: "felt list"
  ee_transaction_hash :: tx_hash
  ee_from_address :: contract_address

text \<open>\<^verbatim>\<open>FilteredEvents::next\<close>: the events it yields are the matching ones.\<close>

definition keys_match :: "felt list list \<Rightarrow> felt list \<Rightarrow> bool" where
  "keys_match filters ks =
     list_all (\<lambda>(i, keys). i < length ks \<and> (keys = [] \<or> List.member keys (ks ! i))) (List.enumerate 0 filters)"

definition event_matches :: "event_filter \<Rightarrow> event \<Rightarrow> bool" where
  "event_matches flt e \<longleftrightarrow>
     (case flt_address flt of None \<Rightarrow> True | Some a \<Rightarrow> a = ev_from_address e) \<and>
     (case flt_keys flt of None \<Rightarrow> True | Some filters \<Rightarrow> keys_match filters (ev_keys e))"

definition emit_event :: "block_number option \<Rightarrow> block_hash option \<Rightarrow> tx_hash \<Rightarrow> event \<Rightarrow> emitted_event" where
  "emit_event bn bh h e = \<lparr>ee_block_hash = bh, ee_block_number = bn, ee_keys = ev_keys e, ee_data = ev_data e,
     ee_transaction_hash = h, ee_from_address = ev_from_address e\<rparr>"

section \<open>Fetching\<close>

definition fetch_tx_events ::
    "nat \<Rightarrow> block_number option \<Rightarrow> block_hash option \<Rightarrow> nat \<Rightarrow> tx_hash \<Rightarrow> event list \<Rightarrow> event_filter \<Rightarrow> nat \<Rightarrow>
     emitted_event list \<Rightarrow> emitted_event list \<times> partial_cursor option" where
  "fetch_tx_events next_event_idx bn bh tx_idx h events flt chunk_size buffer =
     (let total_can_take = chunk_size - length buffer;
          filtered = take total_can_take (drop next_event_idx
            (List.enumerate 0 (map (emit_event bn bh h) (filter (event_matches flt) events))));
          total_events_traversed = next_event_idx + total_can_take;
          last_event_idx = (if filtered = [] then total_events_traversed else fst (last filtered));
          buffer = buffer @ map snd filtered
      in (buffer,
          if chunk_size \<le> length buffer
          then (let new_last_event = (if total_can_take = 0 then last_event_idx else last_event_idx + 1) in
                if new_last_event < length events then Some \<lparr>pc_idx = tx_idx, pc_event = new_last_event\<rparr> else None)
          else None))"

text \<open>The transactions of one block, from a position on.\<close>

fun fetch_block_txs ::
    "(nat \<Rightarrow> event list \<Rightarrow> nat option) \<Rightarrow> block_number option \<Rightarrow> block_hash option \<Rightarrow> event_filter \<Rightarrow> nat \<Rightarrow>
     (nat \<times> tx_hash \<times> event list) list \<Rightarrow> emitted_event list \<Rightarrow> emitted_event list \<times> partial_cursor option" where
  "fetch_block_txs next_event bn bh flt chunk [] buffer = (buffer, None)"
| "fetch_block_txs next_event bn bh flt chunk ((tx_idx, h, events) # rest) buffer =
     (case next_event tx_idx events of
        None \<Rightarrow> fetch_block_txs next_event bn bh flt chunk rest buffer
      | Some n \<Rightarrow> (case fetch_tx_events n bn bh tx_idx h events flt chunk buffer of
          (buffer', Some c) \<Rightarrow> (buffer', Some c)
        | (buffer', None) \<Rightarrow> fetch_block_txs next_event bn bh flt chunk rest buffer'))"

definition block_next_event :: "cursor \<Rightarrow> block_number \<Rightarrow> nat \<Rightarrow> event list \<Rightarrow> nat option" where
  "block_next_event c n tx_idx events =
     (if n = cu_block c \<and> tx_idx = pc_idx (cu_txn c)
      then (if pc_event (cu_txn c) < length events then Some (pc_event (cu_txn c)) else None)
      else Some 0)"

definition with_context :: "string \<Rightarrow> 'a option provider_result \<Rightarrow> event_error + 'a" where
  "with_context msg r = (case r of
      Inl e \<Rightarrow> Inl (EventProvider e)
    | Inr None \<Rightarrow> Inl (EventOther msg)
    | Inr (Some x) \<Rightarrow> Inr x)"

fun fetch_blocks ::
    "('cls, 'info) db \<Rightarrow> event_filter \<Rightarrow> nat \<Rightarrow> cursor \<Rightarrow> block_number list \<Rightarrow> emitted_event list \<Rightarrow>
     event_error + emitted_event list \<times> cursor option" where
  "fetch_blocks d flt chunk c [] buffer = Inr (buffer, None)"
| "fetch_blocks d flt chunk c (n # ns) buffer =
     rbind (with_context ''Missing block hash'' (block_hash_by_num d n)) (\<lambda>bh.
     rbind (with_context ''Missing receipts'' (receipts_by_block d (Num n))) (\<lambda>receipts.
     rbind (with_context ''Missing block body index'' (block_body_indices d (Num n))) (\<lambda>body_index.
     rbind (case transaction_hashes_in_range d (indices_range body_index) of Inl e \<Rightarrow> Inl (EventProvider e) | Inr hs \<Rightarrow> Inr hs)
       (\<lambda>tx_hashes.
         if n = cu_block c \<and> length receipts < pc_idx (cu_txn c) then fetch_blocks d flt chunk c ns buffer
         else (let total_tx_to_skip = (if n = cu_block c then pc_idx (cu_txn c) else 0) in
           (case fetch_block_txs (block_next_event c n) (Some n) (Some bh) flt chunk
                  (drop total_tx_to_skip (List.enumerate 0 (zip tx_hashes (map receipt_events receipts)))) buffer of
              (buffer', Some p) \<Rightarrow> Inr (buffer', Some (into_full p n))
            | (buffer', None) \<Rightarrow> fetch_blocks d flt chunk c ns buffer'))))))"

definition fetch_events_at_blocks ::
    "('cls, 'info) db \<Rightarrow> block_number \<Rightarrow> block_number \<Rightarrow> event_filter \<Rightarrow> nat \<Rightarrow> cursor option \<Rightarrow> emitted_event list \<Rightarrow>
     event_error + emitted_event list \<times> cursor option" where
  "fetch_events_at_blocks d first last_block flt chunk cur buffer =
     (let c = (case cur of Some c \<Rightarrow> c | None \<Rightarrow> cursor_new_block first) in
      fetch_blocks d flt chunk c [cu_block c..<Suc last_block] buffer)"

text \<open>The pending block, whose transactions are those of the open executor.\<close>

definition pending_next_event :: "cursor \<Rightarrow> nat \<Rightarrow> event list \<Rightarrow> nat option" where
  "pending_next_event c tx_idx events =
     (if tx_idx = pc_idx (cu_txn c)
      then (if length events < pc_event (cu_txn c) then None else Some (pc_event (cu_txn c)))
      else Some 0)"

definition pending_receipts :: "(tx_with_hash \<times> execution_result) list \<Rightarrow> (tx_hash \<times> event list) list" where
  "pending_receipts txs = List.map_filter (\<lambda>(t, res). map_option (\<lambda>rc. (twh_hash t, receipt_events rc)) (result_receipt res)) txs"

definition fetch_pending_events ::
    "('cls, 'st, 'bn) vm_processor \<Rightarrow> event_filter \<Rightarrow> nat \<Rightarrow> cursor option \<Rightarrow> emitted_event list \<Rightarrow>
     emitted_event list \<times> cursor" where
  "fetch_pending_events p flt chunk cur buffer =
     (let number = be_number (executor_block_env (vp_block_info p));
          txs = vp_transactions p;
          c = (case cur of Some c \<Rightarrow> c | None \<Rightarrow> cursor_new_block number)
      in (case fetch_block_txs (pending_next_event c) None None flt chunk
             (drop (pc_idx (cu_txn c)) (List.enumerate 0 (pending_receipts txs))) buffer of
            (buffer', Some c') \<Rightarrow> (buffer', into_full c' number)
          | (buffer', None) \<Rightarrow> (buffer', cursor_new number (length txs) 0)))"

section \<open>Continuation tokens\<close>

record continuation_token =
  ct_block_n :: nat
  ct_txn_n :: nat
  ct_event_n :: nat

definition into_rpc_cursor :: "cursor \<Rightarrow> continuation_token" where
  "into_rpc_cursor c = \<lparr>ct_block_n = cu_block c, ct_txn_n = pc_idx (cu_txn c), ct_event_n = pc_event (cu_txn c)\<rparr>"

definition cursor_from :: "continuation_token \<Rightarrow> cursor" where
  "cursor_from t = cursor_new (ct_block_n t) (ct_txn_n t) (ct_event_n t)"

definition token_number :: "string \<Rightarrow> continuation_token_error + nat" where
  "token_number s = (case from_str_radix 16 (2 ^ 64 - 1) s of Inl e \<Rightarrow> Inl (ParseFailed e) | Inr n \<Rightarrow> Inr n)"

definition token_parse :: "string \<Rightarrow> continuation_token_error + continuation_token" where
  "token_parse token = (case split_on (CHR '','') token of
      [a, b, c] \<Rightarrow>
        rbind (token_number a) (\<lambda>block_n. rbind (token_number b) (\<lambda>txn_n. rbind (token_number c) (\<lambda>event_n.
          Inr \<lparr>ct_block_n = block_n, ct_txn_n = txn_n, ct_event_n = event_n\<rparr>)))
    | _ \<Rightarrow> Inl InvalidToken)"

definition token_show :: "continuation_token \<Rightarrow> string" where
  "token_show t = show_hex (ct_block_n t) @ '','' @ show_hex (ct_txn_n t) @ '','' @ show_hex (ct_event_n t)"

datatype maybe_forked_token = ForkedToken string | LocalToken continuation_token

definition forked_token_parse :: "string \<Rightarrow> continuation_token_error + maybe_forked_token" where
  "forked_token_parse v =
     (if take 3 v = ''FK_'' then Inr (ForkedToken (drop 3 v)) else rbind (token_parse v) (\<lambda>t. Inr (LocalToken t)))"

fun to_token :: "maybe_forked_token \<Rightarrow> continuation_token option" where
  "to_token (LocalToken t) = Some t"
| "to_token (ForkedToken _) = None"

fun forked_token_show :: "maybe_forked_token \<Rightarrow> string" where
  "forked_token_show (LocalToken t) = token_show t"
| "forked_token_show (ForkedToken t) = ''FK_'' @ t"

section \<open>The handler\<close>

datatype block_id_or_tag = IdNumber block_number | IdHash block_hash | TagLatest | TagPending

text \<open>The provider knows no pending block, so that tag means the newest one.\<close>

fun convert_block_id :: "('cls, 'info) db \<Rightarrow> block_id_or_tag \<Rightarrow> block_number option provider_result" where
  "convert_block_id d (IdNumber n) = Inr (Some n)"
| "convert_block_id d (IdHash h) = block_number_by_hash d h"
| "convert_block_id d TagLatest = rbind (latest_number d) (\<lambda>n. Inr (Some n))"
| "convert_block_id d TagPending = rbind (latest_number d) (\<lambda>n. Inr (Some n))"

record events_page =
  ep_events :: "emitted_event list"
  ep_continuation_token :: "string option"

text \<open>
  The client of the chain a node is forked from (\<^verbatim>\<open>ForkedClient\<close>).  Its JSON-RPC provider is
  an argument: what it answers to an event query, and the number of the block with a hash,
  which is absent for the pending block.  Its errors are given after their conversion.
\<close>

datatype fork_error = ForkProvider starknet_api_error | BlockTagNotAllowed | BlockOutOfRange | UnexpectedPendingData

definition api_error_of_fork :: "fork_error \<Rightarrow> starknet_api_error" where
  "api_error_of_fork e = (case e of
      ForkProvider e \<Rightarrow> e
    | BlockOutOfRange \<Rightarrow> BlockNotFound
    | BlockTagNotAllowed \<Rightarrow> UnexpectedError ''Not allowed to use block tag as a block identifier''
    | UnexpectedPendingData \<Rightarrow> UnexpectedError ''Unexpected pending data'')"

record fork_client =
  fc_block :: block_number
  fc_get_events :: "block_number \<Rightarrow> block_number \<Rightarrow> contract_address option \<Rightarrow> felt list list option \<Rightarrow> string option \<Rightarrow> nat \<Rightarrow>
    starknet_api_error + events_page"
  fc_get_block_number :: "block_hash \<Rightarrow> starknet_api_error + block_number option"

definition forked_get_events ::
    "fork_client \<Rightarrow> block_number \<Rightarrow> block_number \<Rightarrow> contract_address option \<Rightarrow> felt list list option \<Rightarrow> string option \<Rightarrow> nat \<Rightarrow>
     fork_error + events_page" where
  "forked_get_events client from to addr keys token chunk =
     (if fc_block client < from \<or> fc_block client < to then Inl BlockOutOfRange
      else (case fc_get_events client from to addr keys token chunk of Inl e \<Rightarrow> Inl (ForkProvider e) | Inr p \<Rightarrow> Inr p))"

definition forked_block_number_by_hash :: "fork_client \<Rightarrow> block_hash \<Rightarrow> fork_error + block_number" where
  "forked_block_number_by_hash client h = (case fc_get_block_number client h of
      Inl e \<Rightarrow> Inl (ForkProvider e)
    | Inr None \<Rightarrow> Inl UnexpectedPendingData
    | Inr (Some n) \<Rightarrow> if fc_block client < n then Inl BlockOutOfRange else Inr n)"

definition lift_fork :: "fork_error + 'a \<Rightarrow> starknet_api_error + 'a" where
  "lift_fork r = (case r of Inl e \<Rightarrow> Inl (api_error_of_fork e) | Inr x \<Rightarrow> Inr x)"

record ('cls, 'st, 'bn) event_api =
  ea_db :: "('cls, exec_info) db"
  ea_fork :: "fork_client option"
  ea_pending :: "('cls, 'st, 'bn) vm_processor option"
  ea_max_event_page_size :: "nat option"
  ea_provider_text :: "provider_error \<Rightarrow> string"
  ea_parse_text :: "parse_int_error \<Rightarrow> string"

definition lift_provider :: "('cls, 'st, 'bn) event_api \<Rightarrow> 'a provider_result \<Rightarrow> starknet_api_error + 'a" where
  "lift_provider api r = (case r of Inl e \<Rightarrow> Inl (api_error_of_provider (ea_provider_text api) e) | Inr x \<Rightarrow> Inr x)"

definition api_error_of_event :: "('cls, 'st, 'bn) event_api \<Rightarrow> event_error \<Rightarrow> starknet_api_error" where
  "api_error_of_event api e = (case e of
      InvalidCursor \<Rightarrow> InvalidContinuationToken
    | EventProvider e \<Rightarrow> api_error_of_provider (ea_provider_text api) e
    | EventOther msg \<Rightarrow> UnexpectedError msg)"

definition resolve_event_block_id_if_forked ::
    "('cls, 'st, 'bn) event_api \<Rightarrow> block_id_or_tag \<Rightarrow> starknet_api_error + event_block_id" where
  "resolve_event_block_id_if_forked api bid = (case bid of
      TagPending \<Rightarrow> Inr EvPending
    | IdNumber n \<Rightarrow> Inr (EvNum n)
    | TagLatest \<Rightarrow> rbind (lift_provider api (convert_block_id (ea_db api) bid)) (\<lambda>num.
        (case num of Some n \<Rightarrow> Inr (EvNum n) | None \<Rightarrow> Inl BlockNotFound))
    | IdHash h \<Rightarrow> rbind (lift_provider api (convert_block_id (ea_db api) bid)) (\<lambda>num.
        (case num of
           Some n \<Rightarrow> Inr (EvNum n)
         | None \<Rightarrow> (case ea_fork api of
             Some client \<Rightarrow> rbind (lift_fork (forked_block_number_by_hash client h)) (\<lambda>n. Inr (EvNum n))
           | None \<Rightarrow> Inl BlockNotFound))))"

text \<open>
  The part of a range that lies on the forked chain.  The result is either a page to return at
  once, or the events fetched so far and the block to go on from.
\<close>

definition fetch_forked ::
    "('cls, 'st, 'bn) event_api \<Rightarrow> block_number \<Rightarrow> block_number option \<Rightarrow> event_filter \<Rightarrow> maybe_forked_token option \<Rightarrow> nat \<Rightarrow>
     starknet_api_error + (events_page + emitted_event list \<times> block_number)" where
  "fetch_forked api from_block to_block flt token chunk = (case ea_fork api of
      None \<Rightarrow> Inr (Inr ([], from_block))
    | Some client \<Rightarrow>
        (let forked_block = fc_block client;
             go_on = (\<lambda>events. Inr (Inr (events, forked_block + 1)));
             forked_token = (case token of
                 None \<Rightarrow> Some None
               | Some (LocalToken _) \<Rightarrow> None
               | Some (ForkedToken t) \<Rightarrow> Some (Some t))
         in if from_block \<le> forked_block
            then (let to = (case to_block of Some to \<Rightarrow> min to forked_block | None \<Rightarrow> forked_block) in
              (case forked_token of
                 None \<Rightarrow> go_on []
               | Some t \<Rightarrow> rbind (lift_fork (forked_get_events client from_block to (flt_address flt) (flt_keys flt) t chunk)) (\<lambda>page.
                   (case ep_continuation_token page of
                      Some t' \<Rightarrow> Inr (Inl \<lparr>ep_events = ep_events page,
                        ep_continuation_token = Some (forked_token_show (ForkedToken t'))\<rparr>)
                    | None \<Rightarrow> go_on (ep_events page)))))
            else go_on []))"

definition token_cursor :: "maybe_forked_token option \<Rightarrow> cursor option" where
  "token_cursor token = map_option cursor_from (Option.bind token to_token)"

definition cursor_token :: "cursor \<Rightarrow> string option" where
  "cursor_token c = Some (token_show (into_rpc_cursor c))"

definition events_inner ::
    "('cls, 'st, 'bn) event_api \<Rightarrow> block_id_or_tag \<Rightarrow> block_id_or_tag \<Rightarrow> event_filter \<Rightarrow> maybe_forked_token option \<Rightarrow> nat \<Rightarrow>
     starknet_api_error + events_page" where
  "events_inner api from_id to_id flt token chunk =
     rbind (resolve_event_block_id_if_forked api from_id) (\<lambda>from.
     rbind (resolve_event_block_id_if_forked api to_id) (\<lambda>to.
       let local = (\<lambda>events first last_block.
             (case fetch_events_at_blocks (ea_db api) first last_block flt chunk (token_cursor token) events of
                Inl e \<Rightarrow> Inl (api_error_of_event api e) | Inr x \<Rightarrow> Inr x));
           page = (\<lambda>events t. Inr \<lparr>ep_events = events, ep_continuation_token = t\<rparr>)
       in (case (from, to) of
         (EvNum from_n, EvNum to_n) \<Rightarrow>
           rbind (fetch_forked api from_n (Some to_n) flt token chunk) (\<lambda>forked.
             (case forked of
                Inl p \<Rightarrow> Inr p
              | Inr (events, first) \<Rightarrow> rbind (local events first to_n) (\<lambda>(events', c).
                  page events' (Option.bind c cursor_token))))
       | (EvNum from_n, EvPending) \<Rightarrow>
           rbind (fetch_forked api from_n None flt token chunk) (\<lambda>forked.
             (case forked of
                Inl p \<Rightarrow> Inr p
              | Inr (events, first) \<Rightarrow>
                  rbind (lift_provider api (latest_number (ea_db api))) (\<lambda>latest.
                  rbind (local events first latest) (\<lambda>(events', c).
                    (case c of
                       Some c \<Rightarrow> page events' (cursor_token c)
                     | None \<Rightarrow> (case ea_pending api of
                         Some executor \<Rightarrow> (case fetch_pending_events executor flt chunk (token_cursor token) events' of
                             (events'', c') \<Rightarrow> page events'' (cursor_token c'))
                       | None \<Rightarrow> page events' (cursor_token (cursor_new_block (latest + 1)))))))))
       | (EvPending, EvPending) \<Rightarrow>
           (case ea_pending api of
              Some executor \<Rightarrow> (case fetch_pending_events executor flt chunk (token_cursor token) [] of
                  (events', c') \<Rightarrow> page events' (cursor_token c'))
            | None \<Rightarrow> rbind (lift_provider api (latest_number (ea_db api))) (\<lambda>latest.
                page [] (cursor_token (cursor_new_block latest))))
       | (EvPending, EvNum _) \<Rightarrow> Inl (UnexpectedError ''Invalid block range; `from` block must be lower than `to`''))))"

text \<open>
  The request.  The test on the keys can never drop them, since a list of length one is not
  empty.
\<close>

definition get_events ::
    "('cls, 'st, 'bn) event_api \<Rightarrow> block_id_or_tag option \<Rightarrow> block_id_or_tag option \<Rightarrow> contract_address option \<Rightarrow>
     felt list list option \<Rightarrow> string option \<Rightarrow> nat \<Rightarrow> starknet_api_error + events_page" where
  "get_events api from_id to_id addr keys token chunk =
     rbind (case ea_max_event_page_size api of
        Some m \<Rightarrow> if m < chunk then Inl (PageSizeTooBig chunk m) else Inr ()
      | None \<Rightarrow> Inr ()) (\<lambda>_.
     let from = (case from_id of Some i \<Rightarrow> i | None \<Rightarrow> IdNumber 0);
         to = (case to_id of Some i \<Rightarrow> i | None \<Rightarrow> TagPending);
         keys = Option.bind keys (\<lambda>ks. if length ks = 1 \<and> ks = [] then None else Some ks)
     in rbind (case token of
          None \<Rightarrow> Inr None
        | Some t \<Rightarrow> (case forked_token_parse t of Inl e \<Rightarrow> Inl (api_error_of_token (ea_parse_text api) e) | Inr t' \<Rightarrow> Inr (Some t')))
        (\<lambda>t. events_inner api from to \<lparr>flt_address = addr, flt_keys = keys\<rparr> t chunk))"

end
