(* ===== verification/Event_Props.thy ===== *)
theory Event_Props
  imports Events Storage_Properties
begin

text \<open>
  Paging through the events of a range of blocks: the pages a client collects by following
  the continuation tokens are, put together, the matching events of the range.
\<close>

section \<open>Notions\<close>

text \<open>The transactions of a stored block with their events.\<close>

definition stored_events :: "('cls, 'info) db \<Rightarrow> block_number \<Rightarrow> (block_hash \<times> (tx_hash \<times> event list) list) option" where
  "stored_events d n = (case (tbl_get (tb_BlockHashes d) n, receipts_by_block d (Num n), block_body_indices d (Num n)) of
      (Some bh, Inr (Some rs), Inr (Some ix)) \<Rightarrow>
        Some (bh, zip (List.map_filter (tbl_get (tb_TxHashes d)) (indices_range ix)) (map receipt_events rs))
    | _ \<Rightarrow> None)"

definition matching :: "event_filter \<Rightarrow> block_number option \<Rightarrow> block_hash option \<Rightarrow> tx_hash \<Rightarrow> event list \<Rightarrow> emitted_event list" where
  "matching flt bn bh h evs = map (emit_event bn bh h) (filter (event_matches flt) evs)"

text \<open>The matching events of a block from a position on, and of a range of blocks.\<close>

definition events_from ::
    "event_filter \<Rightarrow> block_number option \<Rightarrow> block_hash option \<Rightarrow> nat \<Rightarrow> nat \<Rightarrow> (nat \<times> tx_hash \<times> event list) list \<Rightarrow> emitted_event list" where
  "events_from flt bn bh idx ev txs =
     concat (map (\<lambda>(i, h, evs). drop (if i = idx then ev else 0) (matching flt bn bh h evs)) txs)"

definition block_events_from :: "('cls, 'info) db \<Rightarrow> event_filter \<Rightarrow> block_number \<Rightarrow> partial_cursor \<Rightarrow> emitted_event list" where
  "block_events_from d flt n p = (case stored_events d n of
      None \<Rightarrow> []
    | Some (bh, txs) \<Rightarrow> events_from flt (Some n) (Some bh) (pc_idx p) (pc_event p) (drop (pc_idx p) (List.enumerate 0 txs)))"

definition events_in :: "('cls, 'info) db \<Rightarrow> event_filter \<Rightarrow> block_number \<Rightarrow> block_number \<Rightarrow> emitted_event list" where
  "events_in d flt a b = concat (map (\<lambda>n. block_events_from d flt n \<lparr>pc_idx = 0, pc_event = 0\<rparr>) [a..<Suc b])"

definition cursor_events :: "('cls, 'info) db \<Rightarrow> event_filter \<Rightarrow> block_number \<Rightarrow> cursor \<Rightarrow> emitted_event list" where
  "cursor_events d flt b c = (if cu_block c \<le> b then block_events_from d flt (cu_block c) (cu_txn c) else []) @
     events_in d flt (Suc (cu_block c)) b"

section \<open>One transaction\<close>

lemma map_snd_enumerate_slice: "map snd (take k (drop m (List.enumerate 0 xs))) = take k (drop m xs)"
  by (simp flip: take_map drop_map)

lemma last_enumerate_slice:
  assumes "take k (drop m (List.enumerate 0 xs)) \<noteq> []"
  shows "fst (last (take k (drop m (List.enumerate 0 xs)))) = m + length (take k (drop m xs)) - 1"
proof -
  let ?ys = "take k (drop m (List.enumerate 0 xs))"
  have len: "length ?ys = length (take k (drop m xs))" by simp
  have "fst (last ?ys) = fst (?ys ! (length ?ys - 1))" using assms by (simp add: last_conv_nth)
  also have "\<dots> = m + (length ?ys - 1)"
    using assms by (subst nth_take) (auto simp: nth_enumerate_eq)
  finally show ?thesis using assms len by (cases "length ?ys") auto
qed

lemma fetch_tx_events_eq:
  assumes "length buffer \<le> chunk"
  shows "fetch_tx_events m bn bh i h evs flt chunk buffer =
    (buffer @ take (chunk - length buffer) (drop m (matching flt bn bh h evs)),
     if chunk - length buffer \<le> length (drop m (matching flt bn bh h evs)) \<and> m + (chunk - length buffer) < length evs
     then Some \<lparr>pc_idx = i, pc_event = m + (chunk - length buffer)\<rparr> else None)"
proof -
  let ?k = "chunk - length buffer" and ?M = "matching flt bn bh h evs"
  let ?ys = "take ?k (drop m (List.enumerate 0 ?M))"
  have full: "chunk \<le> length buffer + length ?ys \<longleftrightarrow> ?k \<le> length (drop m ?M)" using assms by auto
  have pos: "(if ?k = 0 then (if ?ys = [] then m + ?k else fst (last ?ys)) else (if ?ys = [] then m + ?k else fst (last ?ys)) + 1) = m + ?k"
    if "?k \<le> length (drop m ?M)"
  proof (cases "?k = 0")
    case False
    then have "?ys \<noteq> []" using that by (auto simp: enumerate_eq_zip)
    then show ?thesis using False that last_enumerate_slice [of ?k m ?M] by (simp, arith)
  qed simp
  show ?thesis
    unfolding fetch_tx_events_def Let_def matching_def [symmetric] map_snd_enumerate_slice
    using full pos by (simp add: matching_def)
qed

section \<open>One block\<close>

lemma length_matching: "length (matching flt bn bh h evs) \<le> length evs"
  by (simp add: matching_def)

text \<open>
  The loop over transactions, for any rule that starts each of them at \<open>st\<close> or skips it when
  that is past its end: the buffer is filled up, and a cursor names what is left.
\<close>

definition started ::
    "(nat \<Rightarrow> nat) \<Rightarrow> event_filter \<Rightarrow> block_number option \<Rightarrow> block_hash option \<Rightarrow> (nat \<times> tx_hash \<times> event list) list \<Rightarrow> emitted_event list" where
  "started st flt bn bh L = concat (map (\<lambda>(i, h, evs). drop (st i) (matching flt bn bh h evs)) L)"

definition left_at ::
    "(nat \<Rightarrow> nat) \<Rightarrow> event_filter \<Rightarrow> block_number option \<Rightarrow> block_hash option \<Rightarrow> (nat \<times> tx_hash \<times> event list) list \<Rightarrow>
     partial_cursor \<Rightarrow> emitted_event list \<Rightarrow> bool" where
  "left_at st flt bn bh L p es \<longleftrightarrow> (\<exists>pre h evs post. L = pre @ (pc_idx p, h, evs) # post \<and> pc_event p < length evs \<and>
     es = drop (pc_event p) (matching flt bn bh h evs) @ started st flt bn bh post)"

lemma left_at_Cons: "left_at st flt bn bh L p es \<Longrightarrow> left_at st flt bn bh (x # L) p es"
  unfolding left_at_def by (metis append_Cons)

lemma left_at_hd:
  "m < length evs \<Longrightarrow> left_at st flt bn bh ((i, h, evs) # L) \<lparr>pc_idx = i, pc_event = m\<rparr>
     (drop m (matching flt bn bh h evs) @ started st flt bn bh L)"
  unfolding left_at_def by (intro exI [of _ "[]"]) auto

lemma fetch_block_txs_spec:
  assumes nx: "\<And>i evs. nx i evs = Some (st i) \<or> nx i evs = None \<and> length evs \<le> st i"
  shows "length buffer \<le> chunk \<Longrightarrow> fetch_block_txs nx bn bh flt chunk L buffer = (buffer', c) \<Longrightarrow>
    buffer' = buffer @ take (chunk - length buffer) (started st flt bn bh L) \<and>
    (case c of
       None \<Rightarrow> length (started st flt bn bh L) \<le> chunk - length buffer
     | Some p \<Rightarrow> length buffer' = chunk \<and> left_at st flt bn bh L p (drop (chunk - length buffer) (started st flt bn bh L)))"
proof (induction L arbitrary: buffer)
  case Nil
  then show ?case by (simp add: started_def)
next
  case (Cons x L)
  obtain i h evs where x: "x = (i, h, evs)" by (cases x)
  let ?M = "drop (st i) (matching flt bn bh h evs)" and ?k = "chunk - length buffer"
  have R: "started st flt bn bh (x # L) = ?M @ started st flt bn bh L" by (simp add: started_def x)
  consider (skip) "nx i evs = None" "?M = []" | (go) "nx i evs = Some (st i)"
    using nx [of i evs] length_matching [of flt bn bh h evs] by fastforce
  then show ?case
  proof cases
    case skip
    then have "fetch_block_txs nx bn bh flt chunk L buffer = (buffer', c)" using Cons.prems(2) x by simp
    from Cons.IH [OF Cons.prems(1) this] show ?thesis
      unfolding R skip(2) append_Nil by (cases c) (auto intro: left_at_Cons)
  next
    case go
    let ?b = "buffer @ take ?k ?M"
    show ?thesis
    proof (cases "?k \<le> length ?M \<and> st i + ?k < length evs")
      case True
      then have c: "buffer' = ?b" "c = Some \<lparr>pc_idx = i, pc_event = st i + ?k\<rparr>"
        using Cons.prems go x by (simp_all add: fetch_tx_events_eq)
      have z: "?k - length ?M = 0" using True by (simp only: diff_is_0_eq)
      have "take ?k (started st flt bn bh (x # L)) = take ?k ?M" unfolding R take_append z by simp
      moreover have "drop ?k (started st flt bn bh (x # L)) = drop (st i + ?k) (matching flt bn bh h evs) @ started st flt bn bh L"
        unfolding R drop_append z by (simp add: add.commute)
      moreover have "length ?b = chunk" using True Cons.prems(1) by auto
      ultimately show ?thesis
        unfolding c x using True left_at_hd [of "st i + ?k" evs st flt bn bh i h L] by (simp only: option.case partial_cursor.simps)
    next
      case False
      then have rest: "fetch_block_txs nx bn bh flt chunk L ?b = (buffer', c)"
        using Cons.prems go x by (auto simp: fetch_tx_events_eq split: if_splits)
      have len: "length ?b \<le> chunk" using Cons.prems(1) by simp
      have short: "length ?M \<le> ?k" using False length_matching [of flt bn bh h evs] by auto
      then have k: "chunk - length ?b = ?k - length ?M" "take ?k ?M = ?M" by simp_all
      show ?thesis
        using Cons.IH [OF len rest] short unfolding R k by (cases c) (auto intro: left_at_Cons)
    qed
  qed
qed

section \<open>A range of blocks\<close>

text \<open>All blocks of the range can be read and their positions fit into a token.\<close>

definition readable :: "('cls, 'info) db \<Rightarrow> block_number \<Rightarrow> bool" where
  "readable d n \<longleftrightarrow> n < 2 ^ 64 \<and> (\<exists>bh txs. stored_events d n = Some (bh, txs) \<and> length txs < 2 ^ 64 \<and>
     (\<forall>(h, evs) \<in> set txs. length evs < 2 ^ 64))"

lemma readable_reads:
  assumes "readable d n"
  obtains bh rs ix hs where "block_hash_by_num d n = Inr (Some bh)" "receipts_by_block d (Num n) = Inr (Some rs)"
    "block_body_indices d (Num n) = Inr (Some ix)" "transaction_hashes_in_range d (indices_range ix) = Inr hs"
    "stored_events d n = Some (bh, zip hs (map receipt_events rs))"
  using assms unfolding readable_def stored_events_def
  by (auto simp: block_hash_by_num_def transaction_hashes_in_range_def split: option.splits sum.splits prod.splits)

lemma block_next_event_start:
  "block_next_event c n i evs = Some (if n = cu_block c \<and> i = pc_idx (cu_txn c) then pc_event (cu_txn c) else 0) \<or>
   block_next_event c n i evs = None \<and> length evs \<le> (if n = cu_block c \<and> i = pc_idx (cu_txn c) then pc_event (cu_txn c) else 0)"
  by (simp add: block_next_event_def)

lemma drop_enumerate_split:
  assumes "drop m (List.enumerate 0 txs) = pre @ (i, x) # post"
  shows "m \<le> i \<and> i < length txs \<and> txs ! i = x \<and> drop i (List.enumerate 0 txs) = (i, x) # post \<and> (\<forall>(j, y) \<in> set post. i < j)"
proof -
  let ?j = "m + length pre"
  have post: "drop ?j (List.enumerate 0 txs) = (i, x) # post"
    using arg_cong [OF assms, of "drop (length pre)"] by (simp add: add.commute)
  have len: "?j < length txs" using arg_cong [OF post, of length] by simp
  then have "List.enumerate 0 txs ! ?j = (i, x)" using nth_via_drop [OF post] by simp
  then have i: "i = ?j" "txs ! i = x" using len by (auto simp: nth_enumerate_eq)
  have "post = drop (Suc ?j) (List.enumerate 0 txs)" using arg_cong [OF post, of "drop 1"] by (simp add: drop_Suc tl_drop)
  then have "\<forall>(j, y) \<in> set post. ?j < j"
    by (auto simp: in_set_conv_nth nth_enumerate_eq)
  then show ?thesis using post i len by auto
qed

lemma started_zero: "\<forall>(j, y) \<in> set L. st j = st' j \<Longrightarrow> started st flt bn bh L = started st' flt bn bh L"
  unfolding started_def by (intro arg_cong [where f = concat] map_cong) auto

lemma events_from_started: "events_from flt bn bh idx ev L = started (\<lambda>i. if i = idx then ev else 0) flt bn bh L"
  by (simp add: events_from_def started_def)

text \<open>What is left of a block after a cursor into it.\<close>

lemma left_at_cursor:
  assumes left: "left_at (\<lambda>i. if n = n0 \<and> i = idx then ev else 0) flt (Some n) (Some bh)
      (drop (if n = n0 then idx else 0) (List.enumerate 0 txs)) p es"
    and stored: "stored_events d n = Some (bh, txs)"
  shows "es = block_events_from d flt n p \<and> pc_idx p < length txs \<and> pc_event p < length (snd (txs ! pc_idx p))"
proof -
  let ?st = "\<lambda>i. if n = n0 \<and> i = idx then ev else 0"
  obtain pre h evs post where L: "drop (if n = n0 then idx else 0) (List.enumerate 0 txs) = pre @ (pc_idx p, h, evs) # post"
    "pc_event p < length evs" "es = drop (pc_event p) (matching flt (Some n) (Some bh) h evs) @ started ?st flt (Some n) (Some bh) post"
    using left unfolding left_at_def by blast
  note d = drop_enumerate_split [OF L(1)]
  have "started ?st flt (Some n) (Some bh) post = started (\<lambda>i. if i = pc_idx p then pc_event p else 0) flt (Some n) (Some bh) post"
    by (rule started_zero) (use d in \<open>auto split: if_splits\<close>)
  then show ?thesis
    using d L(2,3) stored by (simp add: block_events_from_def events_from_started started_def)
qed

definition block_rest :: "('cls, 'info) db \<Rightarrow> event_filter \<Rightarrow> cursor \<Rightarrow> block_number \<Rightarrow> emitted_event list" where
  "block_rest d flt c n = block_events_from d flt n (if n = cu_block c then cu_txn c else \<lparr>pc_idx = 0, pc_event = 0\<rparr>)"

definition token_fits :: "cursor \<Rightarrow> bool" where
  "token_fits c \<longleftrightarrow> cu_block c < 2 ^ 64 \<and> pc_idx (cu_txn c) < 2 ^ 64 \<and> pc_event (cu_txn c) < 2 ^ 64"

definition blocks_left ::
    "('cls, 'info) db \<Rightarrow> event_filter \<Rightarrow> cursor \<Rightarrow> block_number list \<Rightarrow> cursor \<Rightarrow> emitted_event list \<Rightarrow> bool" where
  "blocks_left d flt c ns q es \<longleftrightarrow> token_fits q \<and> (\<exists>pre post. ns = pre @ cu_block q # post \<and>
     es = block_events_from d flt (cu_block q) (cu_txn q) @ concat (map (block_rest d flt c) post))"

lemma blocks_left_Cons: "blocks_left d flt c ns q es \<Longrightarrow> blocks_left d flt c (n # ns) q es"
  unfolding blocks_left_def by (metis append_Cons)

lemma blocks_left_hd:
  "token_fits q \<Longrightarrow> blocks_left d flt c (cu_block q # ns) q
     (block_events_from d flt (cu_block q) (cu_txn q) @ concat (map (block_rest d flt c) ns))"
  unfolding blocks_left_def by (rule conjI, assumption, rule exI [of _ "[]"], rule exI [of _ ns]) simp

text \<open>The loop body for one readable block.\<close>

lemma fetch_blocks_step:
  assumes "readable d n" "length buffer \<le> chunk"
  obtains p where "fetch_blocks d flt chunk c (n # ns) buffer =
      (let buffer' = buffer @ take (chunk - length buffer) (block_rest d flt c n) in
       case p of Some q \<Rightarrow> Inr (buffer', Some (into_full q n)) | None \<Rightarrow> fetch_blocks d flt chunk c ns buffer')"
    "case p of
       None \<Rightarrow> length (block_rest d flt c n) \<le> chunk - length buffer
     | Some q \<Rightarrow> chunk - length buffer \<le> length (block_rest d flt c n) \<and> token_fits (into_full q n) \<and>
         drop (chunk - length buffer) (block_rest d flt c n) = block_events_from d flt n q"
proof (rule readable_reads [OF assms(1)], goal_cases)
  case (1 bh rs ix hs)
  let ?txs = "zip hs (map receipt_events rs)" and ?idx = "pc_idx (cu_txn c)" and ?ev = "pc_event (cu_txn c)"
  let ?st = "\<lambda>i. if n = cu_block c \<and> i = ?idx then ?ev else 0"
  let ?L = "drop (if n = cu_block c then ?idx else 0) (List.enumerate 0 ?txs)"
  have stored: "stored_events d n = Some (bh, ?txs)" by (rule 1(6))
  have rest: "block_rest d flt c n = started ?st flt (Some n) (Some bh) ?L"
  proof (cases "n = cu_block c")
    case False
    have "started (\<lambda>i. if i = 0 then pc_event \<lparr>pc_idx = 0, pc_event = 0\<rparr> else 0) flt (Some n) (Some bh) ?L =
        started ?st flt (Some n) (Some bh) ?L"
      using False by (intro started_zero) (simp split: prod.split)
    then show ?thesis using False stored by (simp add: block_rest_def block_events_from_def events_from_started)
  qed (use stored in \<open>simp add: block_rest_def block_events_from_def events_from_started\<close>)
  obtain b p where bp: "fetch_block_txs (block_next_event c n) (Some n) (Some bh) flt chunk ?L buffer = (b, p)" by fastforce
  note spec = fetch_block_txs_spec [where st = ?st, OF block_next_event_start assms(2) bp, folded rest]
  have skip: "?L = []" if "n = cu_block c" "length rs < ?idx" using that by simp
  have step: "fetch_blocks d flt chunk c (n # ns) buffer =
      (case p of Some q \<Rightarrow> Inr (b, Some (into_full q n)) | None \<Rightarrow> fetch_blocks d flt chunk c ns b)"
    using 1 bp skip by (cases "n = cu_block c \<and> length rs < ?idx") (auto simp: with_context_def Let_def split: option.split)
  show ?case
  proof (rule that [of p], goal_cases)
    case 1
    have b: "b = buffer @ take (chunk - length buffer) (block_rest d flt c n)" using spec by simp
    show ?case unfolding step b Let_def ..
  next
    case 2
    have "token_fits (into_full q n) \<and> drop (chunk - length buffer) (block_rest d flt c n) = block_events_from d flt n q"
      if "p = Some q" for q
    proof -
      have "left_at ?st flt (Some n) (Some bh) ?L q (drop (chunk - length buffer) (block_rest d flt c n))" using spec that by simp
      note left_at_cursor [OF this stored]
      moreover have "length ?txs < 2 ^ 64" "\<forall>(h, evs) \<in> set ?txs. length evs < 2 ^ 64" "n < 2 ^ 64"
        using assms(1) stored by (auto simp: readable_def)
      moreover then have "length (snd (?txs ! pc_idx q)) < 2 ^ 64" if "pc_idx q < length ?txs"
        using nth_mem [OF that] by (metis (no_types, lifting) case_prod_beta)
      ultimately show ?thesis by (auto simp: token_fits_def into_full_def)
    qed
    then show ?case using spec assms(2) by (cases p) auto
  qed
qed

lemma fetch_blocks_spec:
  "\<forall>n\<in>set ns. readable d n \<Longrightarrow> length buffer \<le> chunk \<Longrightarrow>
   \<exists>q. fetch_blocks d flt chunk c ns buffer = Inr (buffer @ take (chunk - length buffer) (concat (map (block_rest d flt c) ns)), q) \<and>
     (case q of
        None \<Rightarrow> length (concat (map (block_rest d flt c) ns)) \<le> chunk - length buffer
      | Some q \<Rightarrow> chunk - length buffer \<le> length (concat (map (block_rest d flt c) ns)) \<and>
          blocks_left d flt c ns q (drop (chunk - length buffer) (concat (map (block_rest d flt c) ns))))"
proof (induction ns arbitrary: buffer)
  case Nil
  then show ?case by simp
next
  case (Cons n ns)
  let ?k = "chunk - length buffer" and ?B = "block_rest d flt c n" and ?S = "concat (map (block_rest d flt c) ns)"
  have "readable d n" using Cons.prems(1) by simp
  then obtain p where step: "fetch_blocks d flt chunk c (n # ns) buffer = (let buffer' = buffer @ take ?k ?B in
       case p of Some q \<Rightarrow> Inr (buffer', Some (into_full q n)) | None \<Rightarrow> fetch_blocks d flt chunk c ns buffer')"
    and p: "case p of None \<Rightarrow> length ?B \<le> ?k
     | Some q \<Rightarrow> ?k \<le> length ?B \<and> token_fits (into_full q n) \<and> drop ?k ?B = block_events_from d flt n q"
    by (rule fetch_blocks_step [OF _ Cons.prems(2), where flt = flt and c = c and ns = ns])
  show ?case
  proof (cases p)
    case (Some q)
    then have k: "?k - length ?B = 0" and q: "token_fits (into_full q n)" "drop ?k ?B = block_events_from d flt n q"
      using p by (auto simp only: option.case diff_is_0_eq)
    have "blocks_left d flt c (n # ns) (into_full q n) (drop ?k ?B @ ?S)"
      using blocks_left_hd [OF q(1), of d flt c ns] q(2) by (simp add: into_full_def)
    then have "blocks_left d flt c (n # ns) (into_full q n) (drop ?k (?B @ ?S))" unfolding drop_append k by simp
    moreover have "take ?k (?B @ ?S) = take ?k ?B" unfolding take_append k by simp
    moreover have "?k \<le> length (?B @ ?S)" using p Some by simp
    ultimately show ?thesis
      unfolding step Let_def using Some by (intro exI [of _ "Some (into_full q n)"]) simp
  next
    case None
    let ?b = "buffer @ ?B"
    have len: "length ?B \<le> ?k" using p None by simp
    then have b: "length ?b \<le> chunk" "take ?k ?B = ?B" "chunk - length ?b = ?k - length ?B" using Cons.prems(2) by simp_all
    obtain q where "fetch_blocks d flt chunk c ns ?b = Inr (?b @ take (?k - length ?B) ?S, q)"
      "case q of None \<Rightarrow> length ?S \<le> ?k - length ?B
        | Some q \<Rightarrow> ?k - length ?B \<le> length ?S \<and> blocks_left d flt c ns q (drop (?k - length ?B) ?S)"
      using Cons.IH [OF _ b(1)] Cons.prems(1) unfolding b(3) by auto
    then show ?thesis
      unfolding step Let_def using None b len
      by (intro exI [of _ q]) (auto split: option.splits intro: blocks_left_Cons)
  qed
qed

lemma upt_split:
  assumes "[a..<Suc b] = pre @ m # post"
  shows "a \<le> m \<and> m \<le> b \<and> post = [Suc m..<Suc b]"
proof -
  have "m \<in> set [a..<Suc b]" using assms by simp
  moreover have "drop (Suc (length pre)) [a..<Suc b] = post" "[a..<Suc b] ! length pre = m" "length pre < length [a..<Suc b]"
    unfolding assms by simp_all
  ultimately show ?thesis by (auto simp: drop_upt simp del: upt_Suc)
qed

text \<open>One request: the next events from the cursor on, and a cursor to what is left.\<close>

lemma fetch_events_at_blocks_spec:
  assumes range: "\<forall>n\<in>{a..b}. readable d n" and c: "c = (case cur of Some c \<Rightarrow> c | None \<Rightarrow> cursor_new_block a)" "a \<le> cu_block c"
  shows "\<exists>q. fetch_events_at_blocks d a b flt chunk cur [] = Inr (take chunk (cursor_events d flt b c), q) \<and>
     (case q of
        None \<Rightarrow> length (cursor_events d flt b c) \<le> chunk
      | Some q \<Rightarrow> chunk \<le> length (cursor_events d flt b c) \<and> token_fits q \<and> a \<le> cu_block q \<and>
          cursor_events d flt b q = drop chunk (cursor_events d flt b c))"
proof -
  let ?ns = "[cu_block c..<Suc b]"
  have zero: "map (block_rest d flt c) [m..<Suc b] = map (\<lambda>n. block_events_from d flt n \<lparr>pc_idx = 0, pc_event = 0\<rparr>) [m..<Suc b]"
    if "cu_block c < m" for m
    using that by (intro map_cong) (auto simp: block_rest_def)
  have all: "concat (map (block_rest d flt c) ?ns) = cursor_events d flt b c"
  proof (cases "cu_block c \<le> b")
    case True
    then have "?ns = cu_block c # [Suc (cu_block c)..<Suc b]" by (simp add: upt_conv_Cons)
    then show ?thesis
      using True by (simp add: cursor_events_def events_in_def block_rest_def [of d flt c "cu_block c"] zero del: upt_Suc)
  qed (simp add: cursor_events_def events_in_def del: upt_Suc)
  have r: "\<forall>n\<in>set ?ns. readable d n" using range c(2) by auto
  obtain q where q: "fetch_blocks d flt chunk c ?ns [] = Inr (take chunk (cursor_events d flt b c), q)"
    "case q of None \<Rightarrow> length (cursor_events d flt b c) \<le> chunk
      | Some q \<Rightarrow> chunk \<le> length (cursor_events d flt b c) \<and> blocks_left d flt c ?ns q (drop chunk (cursor_events d flt b c))"
    using fetch_blocks_spec [OF r, of "[]" chunk flt c] unfolding all list.size(3) diff_zero append_Nil by blast
  have next_cursor: "token_fits q' \<and> a \<le> cu_block q' \<and> cursor_events d flt b q' = es" if left: "blocks_left d flt c ?ns q' es" for q' es
  proof -
    obtain pre post where "token_fits q'" "?ns = pre @ cu_block q' # post"
      "es = block_events_from d flt (cu_block q') (cu_txn q') @ concat (map (block_rest d flt c) post)"
      using left unfolding blocks_left_def by blast
    then show ?thesis
      using upt_split [of "cu_block c" b pre "cu_block q'" post] c(2)
      by (simp add: cursor_events_def events_in_def zero del: upt_Suc)
  qed
  have "fetch_events_at_blocks d a b flt chunk cur [] = fetch_blocks d flt chunk c ?ns []"
    unfolding fetch_events_at_blocks_def c(1) [symmetric] Let_def ..
  then show ?thesis
    unfolding q(1) using q(2) next_cursor by (intro exI [of _ q]) (cases q; auto simp del: upt_Suc)
qed

section \<open>Tokens\<close>

lemma hex_no_comma: "CHR '','' \<notin> set (show_hex n)"
proof
  assume "CHR '','' \<in> set (show_hex n)"
  then obtain d where "d < 16" "CHR '','' = digit_char d" using set_show_radix [of 16 n] by auto
  then have "char_digit (CHR '','') = Some d" using char_digit_digit_char [of d] by simp
  then show False by (simp add: char_digit_def)
qed

lemma hex_no_F: "take 3 (show_hex n @ s) \<noteq> ''FK_''"
proof
  assume eq: "take 3 (show_hex n @ s) = ''FK_''"
  obtain c cs where c: "show_hex n = c # cs" by (cases "show_hex n") auto
  then have "c = CHR ''F''" using eq by simp
  moreover obtain d where "d < 16" "c = digit_char d" using set_show_radix [of 16 n] c by auto
  ultimately have F: "char_digit (CHR ''F'') = Some d" "digit_char d = CHR ''F''" using char_digit_digit_char [of d] by simp_all
  then have "d = 15" by (simp add: char_digit_def)
  then show False using arg_cong [OF F(2), of "of_char :: char \<Rightarrow> nat"] by (simp add: digit_char_def)
qed

lemma token_number_show: "n < 2 ^ 64 \<Longrightarrow> token_number (show_hex n) = Inr n"
  using from_str_radix_show [of 16 n "2 ^ 64 - 1"] by (simp add: token_number_def)

lemma token_parse_show:
  assumes "ct_block_n t < 2 ^ 64" "ct_txn_n t < 2 ^ 64" "ct_event_n t < 2 ^ 64"
  shows "token_parse (token_show t) = Inr t"
  using assms
  by (simp add: token_parse_def token_show_def split_on_append [OF hex_no_comma] split_on_word [OF hex_no_comma] token_number_show)

lemma forked_token_parse_show:
  assumes "ct_block_n t < 2 ^ 64" "ct_txn_n t < 2 ^ 64" "ct_event_n t < 2 ^ 64"
  shows "forked_token_parse (token_show t) = Inr (LocalToken t)"
  using token_parse_show [OF assms] hex_no_F [of "ct_block_n t"] by (simp add: forked_token_parse_def token_show_def)

lemma cursor_token_roundtrip:
  "token_fits c \<Longrightarrow> cursor_token c = Some t \<Longrightarrow> \<exists>k. forked_token_parse t = Inr k \<and> token_cursor (Some k) = Some c"
  using forked_token_parse_show [of "into_rpc_cursor c"]
  by (auto simp: cursor_token_def token_fits_def into_rpc_cursor_def token_cursor_def cursor_from_def cursor_new_def)

section \<open>Following the tokens\<close>

text \<open>A client that asks for one page after the other until there is no token.\<close>

fun collect_pages :: "nat \<Rightarrow> (string option \<Rightarrow> 'e + events_page) \<Rightarrow> string option \<Rightarrow> emitted_event list list option" where
  "collect_pages 0 request token = None"
| "collect_pages (Suc fuel) request token = (case request token of
      Inl e \<Rightarrow> None
    | Inr page \<Rightarrow> (case ep_continuation_token page of
        None \<Rightarrow> Some [ep_events page]
      | Some t \<Rightarrow> map_option (\<lambda>ps. ep_events page # ps) (collect_pages fuel request (Some t))))"

text \<open>A request answered from local blocks.\<close>

lemma get_events_local:
  assumes api: "ea_fork api = None" "case ea_max_event_page_size api of None \<Rightarrow> True | Some m \<Rightarrow> chunk \<le> m"
    and range: "\<forall>n\<in>{a..b}. readable (ea_db api) n" and flt: "flt = \<lparr>flt_address = addr, flt_keys = keys\<rparr>"
    and token: "case token of None \<Rightarrow> c = cursor_new_block a
      | Some t \<Rightarrow> \<exists>k. forked_token_parse t = Inr k \<and> token_cursor (Some k) = Some c" "a \<le> cu_block c"
  shows "\<exists>q. get_events api (Some (IdNumber a)) (Some (IdNumber b)) addr keys token chunk =
      Inr \<lparr>ep_events = take chunk (cursor_events (ea_db api) flt b c), ep_continuation_token = Option.bind q cursor_token\<rparr> \<and>
     (case q of
        None \<Rightarrow> length (cursor_events (ea_db api) flt b c) \<le> chunk
      | Some q \<Rightarrow> chunk \<le> length (cursor_events (ea_db api) flt b c) \<and> token_fits q \<and> a \<le> cu_block q \<and>
          cursor_events (ea_db api) flt b q = drop chunk (cursor_events (ea_db api) flt b c))"
proof -
  have keys: "Option.bind keys (\<lambda>ks. if length ks = 1 \<and> ks = [] then None else Some ks) = keys" by (cases keys) auto
  obtain mt where mt: "(case token of None \<Rightarrow> Inr None | Some t \<Rightarrow> (case forked_token_parse t of
      Inl e \<Rightarrow> Inl (api_error_of_token (ea_parse_text api) e) | Inr t' \<Rightarrow> Inr (Some t'))) = Inr mt"
    "c = (case token_cursor mt of Some c \<Rightarrow> c | None \<Rightarrow> cursor_new_block a)"
    using token(1) by (cases token) (auto simp: token_cursor_def)
  obtain q where q: "fetch_events_at_blocks (ea_db api) a b flt chunk (token_cursor mt) [] =
      Inr (take chunk (cursor_events (ea_db api) flt b c), q)"
    "case q of
        None \<Rightarrow> length (cursor_events (ea_db api) flt b c) \<le> chunk
      | Some q \<Rightarrow> chunk \<le> length (cursor_events (ea_db api) flt b c) \<and> token_fits q \<and> a \<le> cu_block q \<and>
          cursor_events (ea_db api) flt b q = drop chunk (cursor_events (ea_db api) flt b c)"
    using fetch_events_at_blocks_spec [OF range mt(2) token(2)] by blast
  have "events_inner api (IdNumber a) (IdNumber b) flt mt chunk =
      Inr \<lparr>ep_events = take chunk (cursor_events (ea_db api) flt b c), ep_continuation_token = Option.bind q cursor_token\<rparr>"
    using q(1) api(1) by (simp add: events_inner_def resolve_event_block_id_if_forked_def fetch_forked_def Let_def)
  then show ?thesis
    using q(2) mt(1) api(2) keys flt by (intro exI [of _ q]) (simp add: get_events_def Let_def split: option.splits)
qed

lemma collect_pages_local:
  assumes api: "ea_fork api = None" "case ea_max_event_page_size api of None \<Rightarrow> True | Some m \<Rightarrow> chunk \<le> m"
    and range: "\<forall>n\<in>{a..b}. readable (ea_db api) n" and flt: "flt = \<lparr>flt_address = addr, flt_keys = keys\<rparr>" and chunk: "0 < chunk"
  shows "(case token of None \<Rightarrow> c = cursor_new_block a
      | Some t \<Rightarrow> \<exists>k. forked_token_parse t = Inr k \<and> token_cursor (Some k) = Some c) \<Longrightarrow> a \<le> cu_block c \<Longrightarrow>
    length (cursor_events (ea_db api) flt b c) < fuel \<Longrightarrow>
    \<exists>pages. collect_pages fuel (\<lambda>t. get_events api (Some (IdNumber a)) (Some (IdNumber b)) addr keys t chunk) token = Some pages \<and>
      concat pages = cursor_events (ea_db api) flt b c \<and> pages \<noteq> [] \<and> (\<forall>p\<in>set (butlast pages). length p = chunk) \<and>
      length (last pages) \<le> chunk"
proof (induction fuel arbitrary: token c)
  case 0
  then show ?case by simp
next
  case (Suc fuel)
  let ?E = "cursor_events (ea_db api) flt b c"
  let ?req = "\<lambda>t. get_events api (Some (IdNumber a)) (Some (IdNumber b)) addr keys t chunk"
  obtain q where q: "?req token = Inr \<lparr>ep_events = take chunk ?E, ep_continuation_token = Option.bind q cursor_token\<rparr>"
    "case q of None \<Rightarrow> length ?E \<le> chunk
      | Some q \<Rightarrow> chunk \<le> length ?E \<and> token_fits q \<and> a \<le> cu_block q \<and> cursor_events (ea_db api) flt b q = drop chunk ?E"
    using get_events_local [OF api range flt Suc.prems(1,2)] by blast
  show ?case
  proof (cases q)
    case None
    then show ?thesis using q by simp
  next
    case (Some c')
    then have c': "chunk \<le> length ?E" "token_fits c'" "a \<le> cu_block c'" "cursor_events (ea_db api) flt b c' = drop chunk ?E"
      using q(2) by auto
    obtain t where t: "cursor_token c' = Some t" by (simp add: cursor_token_def)
    have "length (cursor_events (ea_db api) flt b c') < fuel" using c' chunk Suc.prems(3) by simp
    then obtain pages where "collect_pages fuel ?req (Some t) = Some pages" "concat pages = drop chunk ?E" "pages \<noteq> []"
      "\<forall>p\<in>set (butlast pages). length p = chunk" "length (last pages) \<le> chunk"
      using Suc.IH [of c' "Some t"] cursor_token_roundtrip [OF c'(2) t] c'(3,4) by auto
    then show ?thesis using q(1) Some t c'(1) by simp
  qed
qed

lemma cursor_events_start: "a \<le> b \<Longrightarrow> cursor_events d flt b (cursor_new_block a) = events_in d flt a b"
  by (simp add: cursor_events_def cursor_new_block_def events_in_def upt_conv_Cons del: upt_Suc)

section \<open>A concrete chain\<close>

definition sample_event_receipt :: "felt list \<Rightarrow> receipt" where
  "sample_event_receipt ks = (case sample_receipt of
      RInvoke r \<Rightarrow> RInvoke (r\<lparr>ir_events := map (\<lambda>k. \<lparr>ev_from_address = 1, ev_keys = [k], ev_data = []\<rparr>) ks\<rparr>) | r \<Rightarrow> r)"

definition sample_event_api :: "(unit, unit, unit) event_api" where
  "sample_event_api = \<lparr>ea_db = insert_block_with_states_and_receipts (sample_block 0)
       \<lparr>su_state_updates = sample_updates 0, su_classes = []\<rparr> [sample_event_receipt [5, 6, 5], sample_event_receipt [5]] []
       (db_empty :: (unit, exec_info) db),
     ea_fork = None, ea_pending = None, ea_max_event_page_size = Some 10,
     ea_provider_text = (\<lambda>e. []), ea_parse_text = (\<lambda>e. [])\<rparr>"

definition sample_forked_api :: "(unit, unit, unit) event_api" where
  "sample_forked_api =
     (let api = insert_block_with_states_and_receipts (sample_block 1)
          \<lparr>su_state_updates = sample_updates 1, su_classes = []\<rparr> [sample_event_receipt [5], sample_event_receipt []] []
          (insert_block_with_states_and_receipts (sample_block 0)
            \<lparr>su_state_updates = sample_updates 0, su_classes = []\<rparr> [sample_event_receipt [], sample_event_receipt []] []
            (db_empty :: (unit, exec_info) db))
      in sample_event_api\<lparr>ea_db := api,
           ea_fork := Some \<lparr>fc_block = 0, fc_get_events = (\<lambda>_ _ _ _ _ _. Inl BlockNotFound), fc_get_block_number = (\<lambda>_. Inl BlockNotFound)\<rparr>\<rparr>)"

lemma sample_events_stored:
  "stored_events (ea_db sample_event_api) 0 = Some (1000,
     [(1, [\<lparr>ev_from_address = 1, ev_keys = [5], ev_data = []\<rparr>, \<lparr>ev_from_address = 1, ev_keys = [6], ev_data = []\<rparr>,
           \<lparr>ev_from_address = 1, ev_keys = [5], ev_data = []\<rparr>]),
      (2, [\<lparr>ev_from_address = 1, ev_keys = [5], ev_data = []\<rparr>])])"
  by code_simp

section \<open>Properties\<close>

text \<open>
  C4. Paging through events is complete.  On a node that is not forked, a client that asks for
  the events of a range of blocks with any filter and any positive page size the node allows,
  and then follows the continuation tokens, gets an answer every time and reaches the end
  after finitely many requests; the pages put together are exactly the matching events of
  the range in order, and every page but the last is full.
\<close>

theorem events_paging:
  assumes api: "ea_fork api = None" "case ea_max_event_page_size api of None \<Rightarrow> True | Some m \<Rightarrow> chunk \<le> m"
    and range: "\<forall>n\<in>{a..b}. readable (ea_db api) n" "a \<le> b" and chunk: "0 < chunk"
  shows "\<exists>pages. collect_pages (Suc (length (events_in (ea_db api) \<lparr>flt_address = addr, flt_keys = keys\<rparr> a b)))
      (\<lambda>t. get_events api (Some (IdNumber a)) (Some (IdNumber b)) addr keys t chunk) None = Some pages \<and>
    concat pages = events_in (ea_db api) \<lparr>flt_address = addr, flt_keys = keys\<rparr> a b \<and>
    (\<forall>p\<in>set (butlast pages). length p = chunk) \<and> length (last pages) \<le> chunk"
proof -
  have "a \<le> cu_block (cursor_new_block a)" by (simp add: cursor_new_block_def)
  from collect_pages_local [OF api range(1) refl chunk _ this, where token = None,
      unfolded cursor_events_start [OF range(2)] option.case, OF refl lessI]
  show ?thesis by blast
qed

theorem events_paging_witness:
  "\<exists>pages. collect_pages (Suc 3) (\<lambda>t. get_events sample_event_api (Some (IdNumber 0)) (Some (IdNumber 0)) (Some 1) (Some [[5]]) t 2) None =
       Some pages \<and> map ee_transaction_hash (concat pages) = [1, 1, 2] \<and> length (last pages) \<le> 2"
proof -
  let ?flt = "\<lparr>flt_address = Some 1, flt_keys = Some [[5]]\<rparr>"
  have "readable (ea_db sample_event_api) 0" by (simp add: readable_def sample_events_stored)
  then have range: "\<forall>n\<in>{0..0}. readable (ea_db sample_event_api) n" by simp
  have ev: "events_in (ea_db sample_event_api) ?flt 0 0 =
      map (\<lambda>h. \<lparr>ee_block_hash = Some 1000, ee_block_number = Some 0, ee_keys = [5], ee_data = [], ee_transaction_hash = h, ee_from_address = 1\<rparr>) [1, 1, 2]"
    by (simp add: events_in_def block_events_from_def sample_events_stored events_from_def matching_def event_matches_def
        keys_match_def emit_event_def)
  have "ea_fork sample_event_api = None" "case ea_max_event_page_size sample_event_api of None \<Rightarrow> True | Some m \<Rightarrow> 2 \<le> m"
    by (simp_all add: sample_event_api_def)
  from events_paging [of sample_event_api 2 0 0 "Some 1" "Some [[5]]", OF this range] obtain pages where
    "collect_pages (Suc 3) (\<lambda>t. get_events sample_event_api (Some (IdNumber 0)) (Some (IdNumber 0)) (Some 1) (Some [[5]]) t 2) None = Some pages"
    "concat pages = events_in (ea_db sample_event_api) ?flt 0 0" "length (last pages) \<le> 2"
    unfolding ev by (auto simp: numeral_3_eq_3 simp del: collect_pages.simps)
  then show ?thesis using ev by (intro exI [of _ pages]) simp
qed

text \<open>
  Printing a continuation token and parsing it back gives the token, for tokens of the
  node and for tokens of the chain it is forked from, and the two kinds are never confused.
\<close>

theorem continuation_token_roundtrip:
  assumes "case t of ForkedToken s \<Rightarrow> True | LocalToken k \<Rightarrow> ct_block_n k < 2 ^ 64 \<and> ct_txn_n k < 2 ^ 64 \<and> ct_event_n k < 2 ^ 64"
  shows "forked_token_parse (forked_token_show t) = Inr t"
  using assms forked_token_parse_show by (cases t) (auto simp: forked_token_parse_def)

theorem continuation_token_roundtrip_witness:
  "forked_token_parse (forked_token_show (LocalToken \<lparr>ct_block_n = 30, ct_txn_n = 255, ct_event_n = 4\<rparr>)) =
     Inr (LocalToken \<lparr>ct_block_n = 30, ct_txn_n = 255, ct_event_n = 4\<rparr>)"
  by (rule continuation_token_roundtrip) simp

text \<open>
  On a forked node the start of a range above the fork is ignored: two queries that differ
  only in the number of their first block, both above the fork block, are answered alike.  So a
  query that starts well above the fork is answered with the events of the earlier local blocks too.
\<close>

theorem forked_start_ignored:
  assumes fork: "ea_fork api = Some client" and above: "fc_block client < m" "fc_block client < n"
  shows "get_events api (Some (IdNumber m)) to addr keys token chunk = get_events api (Some (IdNumber n)) to addr keys token chunk"
proof -
  have "fetch_forked api m b flt t chunk = fetch_forked api n b flt t chunk" for b flt t
    using above by (simp add: fetch_forked_def fork)
  then show ?thesis
    by (simp add: get_events_def events_inner_def resolve_event_block_id_if_forked_def cong: option.case_cong)
qed

theorem forked_start_ignored_witness:
  "map_sum id (map ee_block_number \<circ> ep_events)
     (get_events sample_forked_api (Some (IdNumber 2)) (Some (IdNumber 1)) None None None 10) = Inr [Some 1]"
proof -
  have "ea_fork sample_forked_api = Some \<lparr>fc_block = 0, fc_get_events = (\<lambda>_ _ _ _ _ _. Inl BlockNotFound), fc_get_block_number = (\<lambda>_. Inl BlockNotFound)\<rparr>"
    by (simp add: sample_forked_api_def Let_def)
  then have "get_events sample_forked_api (Some (IdNumber 2)) (Some (IdNumber 1)) None None None 10 =
      get_events sample_forked_api (Some (IdNumber 1)) (Some (IdNumber 1)) None None None 10"
    by (rule forked_start_ignored) simp_all
  moreover have "map_sum id (map ee_block_number \<circ> ep_events)
     (get_events sample_forked_api (Some (IdNumber 1)) (Some (IdNumber 1)) None None None 10) = Inr [Some 1]"
    by code_simp
  ultimately show ?thesis by simp
qed

end
