(* ===== verification/Da_Encoding.thy ===== *)
theory Da_Encoding
  imports Block_Types Num_Text Db_Updates
begin

text \<open>
  Data availability encoding of state updates (\<^verbatim>\<open>crates/primitives/src/da/encoding.rs\<close>): the
  words a block's state update is published as, and reading them back.  The words are
  unbounded naturals (\<^verbatim>\<open>BigUint\<close>); reading a word as a field element reduces it.  Encoding is
  \<^const>\<open>None\<close> where the code panics.
\<close>

unbundle bit_operations_syntax

section \<open>Definitions\<close>

datatype encoding_error =
  MissingUpdatesCount
| MissingDeclarationsCount
| MissingAddress
| MissingMetadata
| MissingStorageKey
| MissingStorageValue
| MissingNewClassHash
| MissingDeclaredClassHash
| MissingDeclaredCompiledClassHash
| InvalidValue
| InvalidMetadata
| EncodingParseInt parse_int_error

record metadata =
  md_class_information_flag :: bool
  md_new_nonce :: "felt option"
  md_total_storage_updates :: nat

record contract_update =
  cup_metadata :: metadata
  cup_class_hash :: "class_hash option"
  cup_storage_updates :: "(storage_key, storage_value) table"

definition contract_update_default :: contract_update where
  "contract_update_default =
     \<lparr>cup_metadata = \<lparr>md_class_information_flag = False, md_new_nonce = None, md_total_storage_updates = 0\<rparr>,
      cup_class_hash = None, cup_storage_updates = []\<rparr>"

definition to_u64 :: "nat \<Rightarrow> nat option" where
  "to_u64 n = (if n < 2 ^ 64 then Some n else None)"

definition metadata_encode :: "metadata \<Rightarrow> nat option" where
  "metadata_encode m =
     (let word = (if md_class_information_flag m then 0 OR push_bit 128 1 else 0) in
      (case md_new_nonce m of
         None \<Rightarrow> Some (word OR md_total_storage_updates m)
       | Some nonce \<Rightarrow> (case to_u64 nonce of
           None \<Rightarrow> None
         | Some n \<Rightarrow> Some ((word OR push_bit 64 n) OR md_total_storage_updates m))))"

text \<open>The binary text of a word, filled with zeros to a width, and a range of it.\<close>

definition binary_text :: "nat \<Rightarrow> nat \<Rightarrow> string" where
  "binary_text width word = (let s = show_radix 2 word in replicate (width - length s) (CHR ''0'') @ s)"

definition str_get :: "nat \<Rightarrow> nat \<Rightarrow> string \<Rightarrow> string option" where
  "str_get i j s = (if j \<le> length s then Some (take (j - i) (drop i s)) else None)"

definition metadata_field :: "nat \<Rightarrow> nat \<Rightarrow> nat \<Rightarrow> string \<Rightarrow> encoding_error + nat" where
  "metadata_field i j bound bits = rbind (ok_or InvalidMetadata (str_get i j bits)) (\<lambda>s.
     (case from_str_radix 2 bound s of Inl e \<Rightarrow> Inl (EncodingParseInt e) | Inr n \<Rightarrow> Inr n))"

definition metadata_decode :: "nat \<Rightarrow> encoding_error + metadata" where
  "metadata_decode word =
     (let bits = binary_text 256 word in
      rbind (metadata_field 127 (127 + 1) (2 ^ 8 - 1) bits) (\<lambda>flag.
      rbind (metadata_field 128 (128 + 64) (2 ^ 64 - 1) bits) (\<lambda>nonce.
      rbind (metadata_field 192 (192 + 64) (2 ^ 64 - 1) bits) (\<lambda>total_updates.
        Inr \<lparr>md_class_information_flag = (flag = 1), md_new_nonce = (if nonce = 0 then None else Some nonce),
             md_total_storage_updates = total_updates\<rparr>))))"

definition contract_update_encode :: "contract_update \<Rightarrow> nat list option" where
  "contract_update_encode u = map_option (\<lambda>word.
     word # (case cup_class_hash u of Some h \<Rightarrow> [h] | None \<Rightarrow> []) @ flat_pairs (cup_storage_updates u))
     (metadata_encode (cup_metadata u))"

text \<open>The entry of a map, or the default where there is none (\<^verbatim>\<open>entry(..).or_default()\<close>).\<close>

definition update_entry ::
    "contract_address \<Rightarrow> (contract_update \<Rightarrow> contract_update) \<Rightarrow> (contract_address, contract_update) table \<Rightarrow>
     (contract_address, contract_update) table" where
  "update_entry addr f m =
     tbl_put addr (f (case tbl_get m addr of Some u \<Rightarrow> u | None \<Rightarrow> contract_update_default)) m"

definition with_nonce :: "nonce \<Rightarrow> contract_update \<Rightarrow> contract_update" where
  "with_nonce n u = u\<lparr>cup_metadata := (cup_metadata u)\<lparr>md_new_nonce := Some n\<rparr>\<rparr>"

definition with_class :: "class_hash \<Rightarrow> contract_update \<Rightarrow> contract_update" where
  "with_class h u = u\<lparr>cup_metadata := (cup_metadata u)\<lparr>md_class_information_flag := True\<rparr>, cup_class_hash := Some h\<rparr>"

definition with_storage :: "(storage_key, storage_value) table \<Rightarrow> contract_update \<Rightarrow> contract_update" where
  "with_storage s u = u\<lparr>cup_metadata := (cup_metadata u)\<lparr>md_total_storage_updates := length s\<rparr>, cup_storage_updates := s\<rparr>"

definition contract_updates :: "state_updates \<Rightarrow> (contract_address, contract_update) table" where
  "contract_updates value =
     fold (\<lambda>(addr, s). update_entry addr (with_storage s)) (storage_updates value)
       (fold (\<lambda>(addr, h). update_entry addr (with_class h)) (deployed_contracts value)
         (fold (\<lambda>(addr, n). update_entry addr (with_nonce n)) (nonce_updates value) []))"

fun encode_updates :: "(contract_address \<times> contract_update) list \<Rightarrow> nat list option" where
  "encode_updates [] = Some []"
| "encode_updates ((addr, u) # us) = (case contract_update_encode u of
      None \<Rightarrow> None
    | Some ws \<Rightarrow> map_option (\<lambda>rest. addr # ws @ rest) (encode_updates us))"

definition encode_state_updates :: "state_updates \<Rightarrow> nat list option" where
  "encode_state_updates value =
     (let us = contract_updates value in
      map_option (\<lambda>ws. length us # ws @ length (declared_classes value) # flat_pairs (declared_classes value))
        (encode_updates us))"

definition next_word :: "encoding_error \<Rightarrow> nat list \<Rightarrow> encoding_error + nat \<times> nat list" where
  "next_word e ws = (case ws of [] \<Rightarrow> Inl e | w # rest \<Rightarrow> Inr (w, rest))"

definition felt_from :: "nat \<Rightarrow> felt" where
  "felt_from n = n mod stark_prime"

text \<open>A number of key and value pairs, put into a map.\<close>

fun decode_pairs ::
    "encoding_error \<Rightarrow> encoding_error \<Rightarrow> nat \<Rightarrow> nat list \<Rightarrow> (felt, felt) table \<Rightarrow> encoding_error + (felt, felt) table \<times> nat list" where
  "decode_pairs e1 e2 0 ws m = Inr (m, ws)"
| "decode_pairs e1 e2 (Suc n) ws m =
     rbind (next_word e1 ws) (\<lambda>(k, ws1). rbind (next_word e2 ws1) (\<lambda>(v, ws2).
       decode_pairs e1 e2 n ws2 (tbl_put (felt_from k) (felt_from v) m)))"

definition decode_contract :: "nat list \<Rightarrow> state_updates \<Rightarrow> encoding_error + state_updates \<times> nat list" where
  "decode_contract ws st =
     rbind (next_word MissingAddress ws) (\<lambda>(a, ws1).
     rbind (next_word MissingMetadata ws1) (\<lambda>(w, ws2).
     rbind (metadata_decode w) (\<lambda>m.
     rbind (if md_class_information_flag m
            then rbind (next_word MissingNewClassHash ws2) (\<lambda>(h, ws3). Inr (Some (felt_from h), ws3))
            else Inr (None, ws2)) (\<lambda>(class_hash, ws3).
     rbind (decode_pairs MissingStorageKey MissingStorageValue (md_total_storage_updates m) ws3 []) (\<lambda>(storages, ws4).
       let address = felt_from a;
           st1 = (if storages = [] then st else st\<lparr>storage_updates := tbl_put address storages (storage_updates st)\<rparr>);
           st2 = (case md_new_nonce m of None \<Rightarrow> st1
                  | Some n \<Rightarrow> st1\<lparr>nonce_updates := tbl_put address n (nonce_updates st1)\<rparr>);
           st3 = (case class_hash of None \<Rightarrow> st2
                  | Some h \<Rightarrow> st2\<lparr>deployed_contracts := tbl_put address h (deployed_contracts st2)\<rparr>)
       in Inr (st3, ws4))))))"

fun decode_contracts :: "nat \<Rightarrow> nat list \<Rightarrow> state_updates \<Rightarrow> encoding_error + state_updates \<times> nat list" where
  "decode_contracts 0 ws st = Inr (st, ws)"
| "decode_contracts (Suc n) ws st = rbind (decode_contract ws st) (\<lambda>(st', ws'). decode_contracts n ws' st')"

definition state_updates_default :: state_updates where
  "state_updates_default = \<lparr>nonce_updates = [], storage_updates = [], deployed_contracts = [], declared_classes = [],
     deprecated_declared_classes = [], replaced_classes = []\<rparr>"

definition decode_state_updates :: "nat list \<Rightarrow> encoding_error + state_updates" where
  "decode_state_updates value =
     (if value = [] then Inr state_updates_default else
      rbind (next_word MissingUpdatesCount value) (\<lambda>(n, ws).
      rbind (ok_or InvalidValue (to_u64 n)) (\<lambda>total_updates.
      rbind (decode_contracts total_updates ws state_updates_default) (\<lambda>(st, ws1).
      rbind (next_word MissingDeclarationsCount ws1) (\<lambda>(k, ws2).
      rbind (ok_or InvalidValue (to_u64 k)) (\<lambda>total_declarations.
      rbind (decode_pairs MissingDeclaredClassHash MissingDeclaredCompiledClassHash total_declarations ws2 (declared_classes st))
        (\<lambda>(classes, _). Inr (st\<lparr>declared_classes := classes\<rparr>))))))))"

end
