(* ===== verification/Da_Props.thy ===== *)
theory Da_Props
  imports Da_Encoding Block_Hash
begin

text \<open>
  Facts about the data availability encoding: the binary text of a metadata word, the words
  of a contract update, and that decoding an encoded state update gives it back up to what
  the format leaves out.
\<close>

section \<open>Binary text\<close>

fun bin_digits :: "nat \<Rightarrow> nat \<Rightarrow> string" where
  "bin_digits 0 w = []"
| "bin_digits (Suc n) w = bin_digits n (w div 2) @ [digit_char (w mod 2)]"

lemma length_bin_digits [simp]: "length (bin_digits n w) = n"
  by (induction n arbitrary: w) auto

lemma bin_digits_add: "bin_digits (m + n) w = bin_digits m (w div 2 ^ n) @ bin_digits n w"
  by (induction n arbitrary: w) (auto simp: div_mult2_eq)

lemma bin_digits_zero: "bin_digits n 0 = replicate n (CHR ''0'')"
proof -
  have "digit_char 0 = CHR ''0''" by code_simp
  then show ?thesis by (induction n) (auto simp: replicate_append_same)
qed

lemma set_bin_digits: "set (bin_digits n w) \<subseteq> digit_char ` {..<2}"
  by (induction n arbitrary: w) auto

lemma show_radix_acc_bin:
  "w < fuel \<Longrightarrow> \<exists>m. show_radix_acc fuel 2 w [] = bin_digits (Suc m) w \<and> w < 2 ^ Suc m \<and> (m = 0 \<or> 2 ^ m \<le> w)"
proof (induction fuel arbitrary: w)
  case (Suc fuel)
  show ?case
  proof (cases "w < 2")
    case True
    then show ?thesis by (intro exI [of _ 0]) auto
  next
    case False
    then have "w div 2 < fuel" using Suc.prems by linarith
    from Suc.IH [OF this] obtain m where m: "show_radix_acc fuel 2 (w div 2) [] = bin_digits (Suc m) (w div 2)"
      "w div 2 < 2 ^ Suc m" "m = 0 \<or> 2 ^ m \<le> w div 2" by blast
    have "2 ^ Suc m \<le> w" using m(3) False by auto
    moreover have "w < 2 ^ Suc (Suc m)" using m(2) by simp
    ultimately show ?thesis
      using m(1) False by (intro exI [of _ "Suc m"]) (simp add: show_radix_acc_append [of _ _ _ "[_]"])
  qed
qed simp

lemma binary_text_bin:
  assumes "w < 2 ^ k" "0 < k"
  shows "binary_text k w = bin_digits k w"
proof -
  obtain m where m: "show_radix 2 w = bin_digits (Suc m) w" "w < 2 ^ Suc m" "m = 0 \<or> 2 ^ m \<le> w"
    using show_radix_acc_bin [of w "Suc w"] unfolding show_radix_def by blast
  have "m < k"
  proof (rule ccontr)
    assume "\<not> m < k"
    then have "(2 :: nat) ^ k \<le> 2 ^ m" by (intro power_increasing) auto
    moreover have "2 ^ m \<le> w" using m(3) \<open>\<not> m < k\<close> assms(2) by blast
    ultimately show False using assms(1) by linarith
  qed
  then have "bin_digits k w = bin_digits (k - Suc m) (w div 2 ^ Suc m) @ bin_digits (Suc m) w"
    using bin_digits_add [of "k - Suc m" "Suc m" w] by simp
  then show ?thesis
    using m(1,2) by (simp add: binary_text_def Let_def bin_digits_zero del: bin_digits.simps)
qed

lemma parse_bin_digits:
  "acc * 2 ^ n + w mod 2 ^ n \<le> bound \<Longrightarrow> parse_digits 2 bound acc (bin_digits n w) = Inr (acc * 2 ^ n + w mod 2 ^ n)"
proof (induction n arbitrary: w)
  case (Suc n)
  have w: "w mod 2 ^ Suc n = 2 * (w div 2 mod 2 ^ n) + w mod 2" by (simp add: mod_mult2_eq)
  then have "acc * 2 ^ n + w div 2 mod 2 ^ n \<le> bound" using Suc.prems by simp
  from Suc.IH [OF this] show ?case
    using Suc.prems w by (simp add: parse_digits_append char_digit_digit_char algebra_simps)
qed simp

lemma from_str_radix_bin_digits:
  assumes "0 < n" "2 ^ n \<le> Suc bound"
  shows "from_str_radix 2 bound (bin_digits n w) = Inr (w mod 2 ^ n)"
proof -
  obtain c cs where s: "bin_digits n w = c # cs" using assms(1) by (metis length_bin_digits list.exhaust list.size(3) not_less0)
  then have "c \<in> digit_char ` {..<2}" using set_bin_digits [of n w] by simp
  then have "c \<noteq> CHR ''+''" using digit_char_not_plus by auto
  moreover have "w mod 2 ^ n \<le> bound"
    using assms(2) mod_less_divisor [of "2 ^ n" w] by (metis less_Suc_eq_le less_le_trans zero_less_numeral zero_less_power)
  then have "parse_digits 2 bound 0 (bin_digits n w) = Inr (w mod 2 ^ n)" using parse_bin_digits [of 0 n w bound] by simp
  ultimately show ?thesis using s by (simp add: from_str_radix_def)
qed

lemma metadata_field_bin:
  assumes "w < 2 ^ 256" "i < j" "j \<le> 256" "2 ^ (j - i) \<le> Suc bound"
  shows "metadata_field i j bound (binary_text 256 w) = Inr (w div 2 ^ (256 - j) mod 2 ^ (j - i))"
proof -
  have "bin_digits 256 w = bin_digits i (w div 2 ^ (256 - j) div 2 ^ (j - i)) @ bin_digits (j - i) (w div 2 ^ (256 - j)) @
      bin_digits (256 - j) w"
    using bin_digits_add [of i "j - i" "w div 2 ^ (256 - j)"] bin_digits_add [of j "256 - j" w] assms(2,3) by simp
  then have "str_get i j (binary_text 256 w) = Some (bin_digits (j - i) (w div 2 ^ (256 - j)))"
    using assms by (simp add: str_get_def binary_text_bin)
  then show ?thesis using assms by (simp add: metadata_field_def from_str_radix_bin_digits)
qed

section \<open>Metadata\<close>

lemma or_shifted: "(t :: nat) < 2 ^ k \<Longrightarrow> push_bit k a OR t = a * 2 ^ k + t"
proof -
  assume t: "t < 2 ^ k"
  have "\<not> bit t n" if "k \<le> n" for n
    using t that by (metis bit_take_bit_iff leD take_bit_nat_eq_self)
  then have "push_bit k a AND t = 0" by (auto simp: bit_eq_iff bit_and_iff bit_push_bit_iff)
  then show ?thesis using disjunctive_add_eq_or [of "push_bit k a" t] by (simp add: push_bit_eq_mult)
qed

definition metadata_ok :: "metadata \<Rightarrow> bool" where
  "metadata_ok m \<longleftrightarrow> md_total_storage_updates m < 2 ^ 64 \<and> (case md_new_nonce m of None \<Rightarrow> True | Some n \<Rightarrow> n < 2 ^ 64)"

definition metadata_word :: "metadata \<Rightarrow> nat" where
  "metadata_word m = (of_bool (md_class_information_flag m) * 2 ^ 64 + (case md_new_nonce m of None \<Rightarrow> 0 | Some n \<Rightarrow> n)) * 2 ^ 64
     + md_total_storage_updates m"

lemma metadata_encode_word: "metadata_ok m \<Longrightarrow> metadata_encode m = Some (metadata_word m)"
proof -
  assume m: "metadata_ok m"
  let ?n = "case md_new_nonce m of None \<Rightarrow> 0 | Some n \<Rightarrow> n"
  have flag: "(if md_class_information_flag m then 0 OR push_bit 128 1 else (0 :: nat)) = push_bit 64 (push_bit 64 (of_bool (md_class_information_flag m)))"
    by (simp add: push_bit_push_bit)
  have n: "?n < 2 ^ 64" "md_total_storage_updates m < 2 ^ 64" using m by (auto simp: metadata_ok_def split: option.splits)
  have "(push_bit 64 (push_bit 64 (of_bool (md_class_information_flag m))) OR push_bit 64 ?n) OR md_total_storage_updates m =
      push_bit 64 (push_bit 64 (of_bool (md_class_information_flag m)) OR ?n) OR md_total_storage_updates m"
    by (simp only: push_bit_or)
  also have "\<dots> = metadata_word m"
    unfolding or_shifted [OF n(1)] or_shifted [OF n(2)] metadata_word_def ..
  finally show ?thesis
    using m unfolding metadata_encode_def flag Let_def metadata_ok_def to_u64_def by (auto split: option.splits)
qed

lemma metadata_word_less: "metadata_ok m \<Longrightarrow> metadata_word m < 2 ^ 256"
  by (auto simp: metadata_word_def metadata_ok_def split: option.splits)

lemma metadata_decode_word:
  assumes "metadata_ok m"
  shows "metadata_decode (metadata_word m) =
    Inr (m\<lparr>md_new_nonce := (if md_new_nonce m = Some 0 then None else md_new_nonce m)\<rparr>)"
proof -
  let ?n = "case md_new_nonce m of None \<Rightarrow> 0 | Some n \<Rightarrow> n"
  have n: "?n < 2 ^ 64" "md_total_storage_updates m < 2 ^ 64" using assms by (auto simp: metadata_ok_def split: option.splits)
  have d1: "metadata_word m div 2 ^ 64 = of_bool (md_class_information_flag m) * 2 ^ 64 + ?n"
    unfolding metadata_word_def using n(2) by (subst div_mult_self3) simp_all
  have "metadata_word m div 2 ^ 128 = metadata_word m div 2 ^ 64 div 2 ^ 64"
    by (simp add: div_mult2_eq [symmetric] power_add [symmetric])
  also have "\<dots> = of_bool (md_class_information_flag m)"
    unfolding d1 using n(1) by (subst div_mult_self3) simp_all
  finally have d2: "metadata_word m div 2 ^ 128 = of_bool (md_class_information_flag m)" .
  have m0: "metadata_word m mod 2 ^ 64 = md_total_storage_updates m"
    unfolding metadata_word_def using n(2) by (subst mod_mult_self3) (rule mod_less)
  have f: "metadata_field 127 (127 + 1) (2 ^ 8 - 1) (binary_text 256 (metadata_word m)) = Inr (of_bool (md_class_information_flag m))"
    using metadata_field_bin [OF metadata_word_less [OF assms], of 127 128 "2 ^ 8 - 1"] d2 by simp
  have g: "metadata_field 128 (128 + 64) (2 ^ 64 - 1) (binary_text 256 (metadata_word m)) = Inr ?n"
    using metadata_field_bin [OF metadata_word_less [OF assms], of 128 192 "2 ^ 64 - 1"] d1 n(1) by simp
  have h: "metadata_field 192 (192 + 64) (2 ^ 64 - 1) (binary_text 256 (metadata_word m)) = Inr (md_total_storage_updates m)"
    using metadata_field_bin [OF metadata_word_less [OF assms], of 192 256 "2 ^ 64 - 1"] m0 by simp
  show ?thesis
    unfolding metadata_decode_def Let_def f g h by (cases m) (auto split: option.splits)
qed

section \<open>Contract updates\<close>

definition pairs_ok :: "(felt \<times> felt) list \<Rightarrow> bool" where
  "pairs_ok es \<longleftrightarrow> tbl_inv es \<and> length es < 2 ^ 64 \<and> (\<forall>(k, v)\<in>set es. k < stark_prime \<and> v < stark_prime)"

lemma felt_from_id [simp]: "n < stark_prime \<Longrightarrow> felt_from n = n"
  by (simp add: felt_from_def)

lemma decode_pairs_flat:
  "\<forall>(k, v)\<in>set es. k < stark_prime \<and> v < stark_prime \<Longrightarrow>
   decode_pairs e1 e2 (length es) (flat_pairs es @ ws) m = Inr (fold (\<lambda>e. tbl_put (fst e) (snd e)) es m, ws)"
  by (induction es arbitrary: m) (auto simp: flat_pairs_Cons next_word_def, simp add: flat_pairs_def)

lemma fold_put_id: "tbl_inv es \<Longrightarrow> fold (\<lambda>e. tbl_put (fst e) (snd e)) es [] = es"
proof (rule tbl_eqI)
  assume es: "tbl_inv es"
  then have "distinct (map fst es)" by (simp add: tbl_inv_def sorted_wrt_less_distinct)
  from tbl.get_put_all_distinct [OF this, of "[]"]
  show "tbl_get (fold (\<lambda>e. tbl_put (fst e) (snd e)) es []) k = tbl_get es k" for k
    by (simp add: tbl_get_def [of es] split: option.split)
qed (simp_all add: tbl.invar_put_all)

lemma tbl_get_Cons: "tbl_get ((a, b) # es) k = (if k = a then Some b else tbl_get es k)"
  by (simp add: tbl_get_def)

lemma tbl_get_fresh: "k \<notin> fst ` set es \<Longrightarrow> tbl_get es k = None"
  by (simp add: tbl_get_def map_of_eq_None_iff)

definition update_ok :: "contract_update \<Rightarrow> bool" where
  "update_ok u \<longleftrightarrow> metadata_ok (cup_metadata u) \<and> pairs_ok (cup_storage_updates u) \<and>
     md_total_storage_updates (cup_metadata u) = length (cup_storage_updates u) \<and>
     md_class_information_flag (cup_metadata u) = (cup_class_hash u \<noteq> None) \<and>
     (\<forall>h. cup_class_hash u = Some h \<longrightarrow> h < stark_prime)"

definition put_opt :: "'k \<Rightarrow> 'v option \<Rightarrow> ('k :: linorder, 'v) table \<Rightarrow> ('k, 'v) table" where
  "put_opt k v t = (case v of None \<Rightarrow> t | Some x \<Rightarrow> tbl_put k x t)"

definition update_storage :: "contract_update \<Rightarrow> (storage_key, storage_value) table option" where
  "update_storage u = (if cup_storage_updates u = [] then None else Some (cup_storage_updates u))"

definition update_nonce :: "contract_update \<Rightarrow> nonce option" where
  "update_nonce u = (if md_new_nonce (cup_metadata u) = Some 0 then None else md_new_nonce (cup_metadata u))"

definition apply_update :: "contract_address \<times> contract_update \<Rightarrow> state_updates \<Rightarrow> state_updates" where
  "apply_update e st = st\<lparr>storage_updates := put_opt (fst e) (update_storage (snd e)) (storage_updates st),
     nonce_updates := put_opt (fst e) (update_nonce (snd e)) (nonce_updates st),
     deployed_contracts := put_opt (fst e) (cup_class_hash (snd e)) (deployed_contracts st)\<rparr>"

lemma decode_contract_encode:
  assumes u: "update_ok u" "contract_update_encode u = Some ws" and a: "a < stark_prime"
  shows "decode_contract (a # ws @ rest) st = Inr (apply_update (a, u) st, rest)"
proof -
  have m: "metadata_ok (cup_metadata u)" using u(1) by (simp add: update_ok_def)
  have ws: "ws = metadata_word (cup_metadata u) # (case cup_class_hash u of Some h \<Rightarrow> [h] | None \<Rightarrow> []) @ flat_pairs (cup_storage_updates u)"
    using u(2) by (simp add: contract_update_encode_def metadata_encode_word [OF m])
  have s: "decode_pairs MissingStorageKey MissingStorageValue (length (cup_storage_updates u)) (flat_pairs (cup_storage_updates u) @ rest) [] =
      Inr (cup_storage_updates u, rest)"
    using u(1) by (simp add: decode_pairs_flat fold_put_id update_ok_def pairs_ok_def)
  show ?thesis
    using u(1) a s unfolding ws decode_contract_def
    by (cases "cup_class_hash u")
      (auto simp: next_word_def metadata_decode_word [OF m] update_ok_def apply_update_def put_opt_def update_storage_def
        update_nonce_def Let_def split: option.split)
qed

lemma decode_contracts_encode:
  "\<forall>(a, u)\<in>set us. a < stark_prime \<and> update_ok u \<Longrightarrow> encode_updates us = Some ws \<Longrightarrow>
   decode_contracts (length us) (ws @ rest) st = Inr (fold apply_update us st, rest)"
  by (induction us arbitrary: ws st) (auto simp: decode_contract_encode [where rest = "_ @ _", simplified] split: option.splits)

lemma encode_updates_ok: "\<forall>(a, u)\<in>set us. update_ok u \<Longrightarrow> \<exists>ws. encode_updates us = Some ws"
  by (induction us) (auto simp: contract_update_encode_def update_ok_def metadata_encode_word)

lemma get_put_opt: "tbl_get (put_opt k v t) k' = (if k' = k \<and> v \<noteq> None then v else tbl_get t k')"
  by (auto simp: put_opt_def table_simps split: option.split)

lemma inv_put_opt [simp]: "tbl_inv t \<Longrightarrow> tbl_inv (put_opt k v t)"
  by (simp add: put_opt_def split: option.split)

lemma fold_put_opt:
  assumes step: "\<And>e st. prj (f e st) = put_opt (fst e) (sel (snd e)) (prj st)"
  shows "distinct (map fst es) \<Longrightarrow> tbl_get (prj (fold f es st)) k =
      (case Option.bind (tbl_get es k) sel of None \<Rightarrow> tbl_get (prj st) k | Some v \<Rightarrow> Some v)"
    and "tbl_inv (prj st) \<Longrightarrow> tbl_inv (prj (fold f es st))"
proof (induction es arbitrary: st)
  case (Cons e es)
  {
    case 1
    then show ?case using Cons(1) [of "f e st"]
      by (cases e; cases "k = fst e") (auto simp: step get_put_opt tbl_get_Cons tbl_get_fresh split: option.split)
  next
    case 2
    then show ?case using Cons(2) [of "f e st"] by (simp add: step)
  }
qed simp_all

section \<open>Collecting the updates of a contract\<close>

lemma get_update_entry:
  "tbl_get (update_entry a f m) k =
     (if k = a then Some (f (case tbl_get m a of Some u \<Rightarrow> u | None \<Rightarrow> contract_update_default)) else tbl_get m k)"
  by (simp add: update_entry_def table_simps)

lemma fold_update_entry:
  "distinct (map fst es) \<Longrightarrow> tbl_get (fold (\<lambda>(a, x). update_entry a (f x)) es m) k =
     (case tbl_get es k of
        None \<Rightarrow> tbl_get m k
      | Some x \<Rightarrow> Some (f x (case tbl_get m k of Some u \<Rightarrow> u | None \<Rightarrow> contract_update_default)))"
proof (induction es arbitrary: m)
  case (Cons e es)
  then show ?case
    by (cases e; cases "k = fst e") (auto simp: get_update_entry tbl_get_Cons tbl_get_fresh split: option.split)
qed simp

lemma fold_update_entry_inv: "tbl_inv m \<Longrightarrow> tbl_inv (fold (\<lambda>(a, x). update_entry a (f x)) es m)"
  by (induction es arbitrary: m) (auto simp: update_entry_def)

lemma contract_updates_inv [simp]: "tbl_inv (contract_updates su)"
  by (simp add: contract_updates_def fold_update_entry_inv)

text \<open>What the format can hold: maps of field elements, with 64-bit nonces and counts.\<close>

definition da_encodable :: "state_updates \<Rightarrow> bool" where
  "da_encodable su \<longleftrightarrow>
     tbl_inv (nonce_updates su) \<and> (\<forall>(a, n)\<in>set (nonce_updates su). a < stark_prime \<and> n < 2 ^ 64) \<and>
     tbl_inv (storage_updates su) \<and> (\<forall>(a, s)\<in>set (storage_updates su). a < stark_prime \<and> pairs_ok s) \<and>
     pairs_ok (deployed_contracts su) \<and> pairs_ok (declared_classes su) \<and>
     length (nonce_updates su) + length (storage_updates su) + length (deployed_contracts su) < 2 ^ 64"

lemma tbl_distinct: "tbl_inv t \<Longrightarrow> distinct (map fst t)"
  by (simp add: tbl_inv_def sorted_wrt_less_distinct)

lemma get_contract_updates:
  assumes "da_encodable su"
  shows "tbl_get (contract_updates su) a =
    (let n = tbl_get (nonce_updates su) a; h = tbl_get (deployed_contracts su) a; s = tbl_get (storage_updates su) a in
     if n = None \<and> h = None \<and> s = None then None
     else Some \<lparr>cup_metadata = \<lparr>md_class_information_flag = (h \<noteq> None), md_new_nonce = n,
              md_total_storage_updates = length (case s of None \<Rightarrow> [] | Some s \<Rightarrow> s)\<rparr>,
            cup_class_hash = h, cup_storage_updates = (case s of None \<Rightarrow> [] | Some s \<Rightarrow> s)\<rparr>)"
proof -
  have d: "distinct (map fst (nonce_updates su))" "distinct (map fst (deployed_contracts su))" "distinct (map fst (storage_updates su))"
    using assms by (auto simp: da_encodable_def pairs_ok_def intro: tbl_distinct)
  show ?thesis
    unfolding contract_updates_def fold_update_entry [OF d(1)] fold_update_entry [OF d(2)] fold_update_entry [OF d(3)] Let_def
    by (cases "tbl_get (nonce_updates su) a"; cases "tbl_get (deployed_contracts su) a"; cases "tbl_get (storage_updates su) a")
      (simp_all add: with_nonce_def with_class_def with_storage_def contract_update_default_def)
qed

lemma encodable_get:
  assumes "da_encodable su"
  shows "tbl_get (nonce_updates su) a = Some n \<Longrightarrow> a < stark_prime \<and> n < 2 ^ 64"
    and "tbl_get (storage_updates su) a = Some s \<Longrightarrow> a < stark_prime \<and> pairs_ok s"
    and "tbl_get (deployed_contracts su) a = Some h \<Longrightarrow> a < stark_prime \<and> h < stark_prime"
  using assms tbl_inv_map_of_in [of "nonce_updates su" a n] tbl_inv_map_of_in [of "storage_updates su" a s]
    tbl_inv_map_of_in [of "deployed_contracts su" a h]
  by (auto simp: da_encodable_def pairs_ok_def)

lemma contract_updates_ok:
  assumes su: "da_encodable su" and e: "(a, u) \<in> set (contract_updates su)"
  shows "a < stark_prime \<and> update_ok u"
proof -
  have "tbl_get (contract_updates su) a = Some u" using e tbl_inv_map_of_in [OF contract_updates_inv] by blast
  then show ?thesis
    using encodable_get [OF su, of a]
    by (auto simp: get_contract_updates [OF su] Let_def update_ok_def metadata_ok_def pairs_ok_def split: if_splits option.splits)
qed

lemma tbl_keys_get: "k \<in> tbl_keys t \<longleftrightarrow> tbl_get t k \<noteq> None"
  by (simp add: tbl_get_eq_None)

lemma card_tbl_keys: "card (tbl_keys t) \<le> length t"
  unfolding tbl_keys_def by (metis card_length length_map list.set_map)

lemma length_contract_updates:
  assumes "da_encodable su"
  shows "length (contract_updates su) < 2 ^ 64"
proof -
  have "tbl_keys (contract_updates su) = tbl_keys (nonce_updates su) \<union> tbl_keys (storage_updates su) \<union> tbl_keys (deployed_contracts su)"
    by (auto simp: tbl_keys_get get_contract_updates [OF assms] Let_def split: if_splits)
  then have "card (tbl_keys (contract_updates su)) \<le>
      card (tbl_keys (nonce_updates su)) + card (tbl_keys (storage_updates su)) + card (tbl_keys (deployed_contracts su))"
    by (metis card_Un_le add_le_mono1 le_trans)
  then show ?thesis
    using assms card_tbl_keys [of "nonce_updates su"] card_tbl_keys [of "storage_updates su"] card_tbl_keys [of "deployed_contracts su"]
      tbl_entries_card [OF contract_updates_inv [of su]]
    unfolding da_encodable_def tbl_entries_def by linarith
qed

lemma tbl_get_filter_value:
  "tbl_inv t \<Longrightarrow> tbl_get (filter (\<lambda>e. P (snd e)) t) k = (case tbl_get t k of None \<Rightarrow> None | Some v \<Rightarrow> if P v then Some v else None)"
proof (induction t)
  case (Cons e t)
  then have "fst e \<notin> fst ` set (filter (\<lambda>e. P (snd e)) t)" using tbl_distinct [OF Cons.prems] by auto
  then show ?case using Cons by (cases e) (auto simp: tbl_get_Cons tbl_get_fresh split: option.split)
qed simp

text \<open>What is left of a state update after a trip through the format.\<close>

definition da_visible :: "state_updates \<Rightarrow> state_updates" where
  "da_visible su = su\<lparr>nonce_updates := filter (\<lambda>e. snd e \<noteq> 0) (nonce_updates su),
     storage_updates := filter (\<lambda>e. snd e \<noteq> []) (storage_updates su),
     deprecated_declared_classes := [], replaced_classes := []\<rparr>"

lemma apply_update_fields [simp]:
  "storage_updates (apply_update e st) = put_opt (fst e) (update_storage (snd e)) (storage_updates st)"
  "nonce_updates (apply_update e st) = put_opt (fst e) (update_nonce (snd e)) (nonce_updates st)"
  "deployed_contracts (apply_update e st) = put_opt (fst e) (cup_class_hash (snd e)) (deployed_contracts st)"
  "declared_classes (apply_update e st) = declared_classes st"
  "deprecated_declared_classes (apply_update e st) = deprecated_declared_classes st"
  "replaced_classes (apply_update e st) = replaced_classes st"
  by (simp_all add: apply_update_def)

lemma fold_apply_update_other [simp]:
  "declared_classes (fold apply_update us st) = declared_classes st"
  "deprecated_declared_classes (fold apply_update us st) = deprecated_declared_classes st"
  "replaced_classes (fold apply_update us st) = replaced_classes st"
  by (induction us arbitrary: st) auto

lemma applied_field:
  assumes step: "\<And>e st. prj (apply_update e st) = put_opt (fst e) (sel (snd e)) (prj st)"
    and start: "prj state_updates_default = []" and t: "tbl_inv t"
    and get: "\<And>k. Option.bind (tbl_get (contract_updates su) k) sel = tbl_get t k"
  shows "prj (fold apply_update (contract_updates su) state_updates_default) = t"
proof (rule tbl_eqI [OF _ t])
  note fold = fold_put_opt [where f = apply_update and es = "contract_updates su" and st = state_updates_default and prj = prj, OF step]
  show "tbl_inv (prj (fold apply_update (contract_updates su) state_updates_default))"
    by (rule fold(2)) (simp add: start)
  show "tbl_get (prj (fold apply_update (contract_updates su) state_updates_default)) k = tbl_get t k" for k
    unfolding fold(1) [OF tbl_distinct [OF contract_updates_inv [of su]]] get start by (simp split: option.split)
qed

lemma applied_contract_updates:
  assumes su: "da_encodable su"
  shows "fold apply_update (contract_updates su) state_updates_default = (da_visible su)\<lparr>declared_classes := []\<rparr>"
proof -
  let ?st = "fold apply_update (contract_updates su) state_updates_default"
  note get = get_contract_updates [OF su] Let_def
  have inv: "tbl_inv (nonce_updates su)" "tbl_inv (storage_updates su)" "tbl_inv (deployed_contracts su)"
    using su by (auto simp: da_encodable_def pairs_ok_def)
  have "nonce_updates ?st = filter (\<lambda>e. snd e \<noteq> 0) (nonce_updates su)"
  proof (rule applied_field)
    show "Option.bind (tbl_get (contract_updates su) k) update_nonce = tbl_get (filter (\<lambda>e. snd e \<noteq> 0) (nonce_updates su)) k" for k
      unfolding tbl_get_filter_value [where P = "\<lambda>n. n \<noteq> 0", OF inv(1)] get by (cases "tbl_get (nonce_updates su) k") (auto simp: update_nonce_def)
  qed (use inv in \<open>auto simp: state_updates_default_def\<close>)
  moreover have "storage_updates ?st = filter (\<lambda>e. snd e \<noteq> []) (storage_updates su)"
  proof (rule applied_field)
    show "Option.bind (tbl_get (contract_updates su) k) update_storage = tbl_get (filter (\<lambda>e. snd e \<noteq> []) (storage_updates su)) k" for k
      unfolding tbl_get_filter_value [where P = "\<lambda>s. s \<noteq> []", OF inv(2)] get by (cases "tbl_get (storage_updates su) k") (auto simp: update_storage_def)
  qed (use inv in \<open>auto simp: state_updates_default_def\<close>)
  moreover have "deployed_contracts ?st = deployed_contracts su"
  proof (rule applied_field)
    show "Option.bind (tbl_get (contract_updates su) k) cup_class_hash = tbl_get (deployed_contracts su) k" for k
      unfolding get by (cases "tbl_get (deployed_contracts su) k") auto
  qed (use inv in \<open>auto simp: state_updates_default_def\<close>)
  ultimately show ?thesis by (simp add: da_visible_def state_updates_default_def)
qed

section \<open>Property\<close>

text \<open>
  C8. A published state update can be read back.  Encoding a state update whose maps hold
  field elements, with nonces and counts of at most 64 bits, succeeds, and decoding the words
  gives the state update without what the format cannot express: a nonce that was set to zero,
  contracts with an empty storage update, replaced classes and deprecated declared classes.
\<close>

theorem da_roundtrip:
  assumes "da_encodable su"
  shows "\<exists>words. encode_state_updates su = Some words \<and> decode_state_updates words = Inr (da_visible su)"
proof -
  have ok: "\<forall>(a, u)\<in>set (contract_updates su). a < stark_prime \<and> update_ok u" using contract_updates_ok [OF assms] by blast
  then obtain ws where ws: "encode_updates (contract_updates su) = Some ws" using encode_updates_ok [of "contract_updates su"] by blast
  have c: "pairs_ok (declared_classes su)" using assms by (simp add: da_encodable_def)
  then have "decode_pairs MissingDeclaredClassHash MissingDeclaredCompiledClassHash (length (declared_classes su))
      (flat_pairs (declared_classes su)) [] = Inr (declared_classes su, [])"
    using decode_pairs_flat [of "declared_classes su" _ _ "[]" "[]"] by (simp add: pairs_ok_def fold_put_id)
  then show ?thesis
    using c length_contract_updates [OF assms] applied_contract_updates [OF assms] ws
    by (simp add: encode_state_updates_def decode_state_updates_def next_word_def to_u64_def pairs_ok_def
        decode_contracts_encode [OF ok ws] Let_def da_visible_def)
qed

definition sample_da :: state_updates where
  "sample_da = \<lparr>nonce_updates = [(1, 5), (2, 0)], storage_updates = [(1, [(100, 200)]), (3, [])], deployed_contracts = [(3, 7)],
     declared_classes = [(8, 9)], deprecated_declared_classes = [4], replaced_classes = [(6, 7)]\<rparr>"

theorem da_roundtrip_witness:
  "\<exists>words. encode_state_updates sample_da = Some words \<and> decode_state_updates words =
     Inr \<lparr>nonce_updates = [(1, 5)], storage_updates = [(1, [(100, 200)])], deployed_contracts = [(3, 7)],
       declared_classes = [(8, 9)], deprecated_declared_classes = [], replaced_classes = []\<rparr>"
proof -
  have "da_encodable sample_da" by (simp add: da_encodable_def sample_da_def pairs_ok_def stark_prime_def)
  from da_roundtrip [OF this] show ?thesis by (simp add: da_visible_def sample_da_def)
qed

end
