(* ===== verification/Da_Blob.thy ===== *)
theory Da_Blob
  imports Da_Props
begin

text \<open>
  Blobs (\<^verbatim>\<open>crates/primitives/src/da/math.rs\<close>, \<^verbatim>\<open>blob.rs\<close>, \<^verbatim>\<open>eip4844.rs\<close>, \<^verbatim>\<open>serde.rs\<close>): the values of a blob
  are the values of a polynomial at the powers of a root of unity, taken in bit-reversed
  order.  The transform evaluates the polynomial at every point; the inverse halves the
  problem, splitting the polynomial into its even and odd coefficients.  An index out of
  range, a subtraction below zero and an endless recursion are \<^const>\<open>None\<close>.
\<close>

section \<open>Definitions\<close>

text \<open>\<^verbatim>\<open>BigUint::modpow\<close>, by repeated squaring.\<close>

function mod_pow :: "nat \<Rightarrow> nat \<Rightarrow> nat \<Rightarrow> nat" where
  "mod_pow b e p =
     (if e = 0 then 1 mod p
      else let h = mod_pow (b * b mod p) (e div 2) p in if odd e then b * h mod p else h)"
  by pat_completeness auto

termination
  by (relation "measure (\<lambda>(b, e, p). e)") auto

definition div_mod :: "nat \<Rightarrow> nat \<Rightarrow> nat \<Rightarrow> nat" where
  "div_mod a b p = a * mod_pow b (p - 2) p mod p"

definition fft :: "nat list \<Rightarrow> nat list \<Rightarrow> nat \<Rightarrow> nat list option" where
  "fft elements xs p =
     (let n = length elements in
      if length xs < n then None
      else Some (map (\<lambda>i. fold (\<lambda>j value. (value * xs ! i + elements ! j) mod p) (rev [0..<n]) 0) [0..<n]))"

text \<open>One pass over neighbouring values \<open>a\<close> and \<open>b\<close>, with every other point \<open>x\<close>.\<close>

fun butterflies :: "nat \<Rightarrow> nat list \<Rightarrow> nat list \<Rightarrow> (nat list \<times> nat list \<times> nat list) option" where
  "butterflies p (a # b # arr) xs = (case xs of
      [] \<Rightarrow> None
    | x # xs' \<Rightarrow>
        if a < b \<and> p < b - a then None
        else (case butterflies p arr (drop 1 xs') of
          None \<Rightarrow> None
        | Some (res0, res1, new_xs) \<Rightarrow>
            (let diff = (if a < b then p - (b - a) else a - b) in
             Some (div_mod (a + b) 2 p # res0, div_mod diff (2 * x) p # res1, mod_pow x 2 p # new_xs))))"
| "butterflies p _ xs = Some ([], [], [])"

fun interleave :: "nat \<Rightarrow> nat list \<Rightarrow> nat list \<Rightarrow> nat list option" where
  "interleave 0 ys zs = Some []"
| "interleave (Suc n) (y # ys) (z # zs) = map_option (\<lambda>r. y # z # r) (interleave n ys zs)"
| "interleave (Suc n) _ _ = None"

partial_function (option) ifft :: "nat list \<Rightarrow> nat list \<Rightarrow> nat \<Rightarrow> nat list option" where
  "ifft arr xs p =
     (if length arr = 1 then Some arr
      else Option.bind (butterflies p arr xs) (\<lambda>(res0, res1, new_xs).
        Option.bind (ifft res0 new_xs p) (\<lambda>merged_res0.
        Option.bind (ifft res1 new_xs p) (\<lambda>merged_res1.
          interleave (length arr div 2) merged_res0 merged_res1))))"

definition BLOB_LEN :: nat where
  "BLOB_LEN = 4096"

definition BLS_MODULUS :: nat where
  "BLS_MODULUS = 52435875175126190479447740508185965837690552500527637822603658699938581184513"

definition GENERATOR :: nat where
  "GENERATOR = 39033254847818212395286706435128746857159659164139250548781411570340225835782"

text \<open>The bits of an index, as text, in reverse.  The reversed text has as many digits as the width, so the bound is never met.\<close>

definition bit_reverse :: "nat \<Rightarrow> nat \<Rightarrow> nat option" where
  "bit_reverse width i =
     (case from_str_radix 2 (2 ^ width - 1) (rev (binary_text width i)) of Inl _ \<Rightarrow> None | Inr n \<Rightarrow> Some n)"

definition evaluation_points :: "nat \<Rightarrow> nat \<Rightarrow> nat \<Rightarrow> nat \<Rightarrow> nat list option" where
  "evaluation_points len width generator p =
     those (map (\<lambda>i. map_option (\<lambda>e. mod_pow generator e p) (bit_reverse width i)) [0..<len])"

definition recover :: "nat list \<Rightarrow> nat list option" where
  "recover data = Option.bind (evaluation_points BLOB_LEN 12 GENERATOR BLS_MODULUS) (\<lambda>xs. ifft data xs BLS_MODULUS)"

definition transform :: "nat list \<Rightarrow> nat list option" where
  "transform data = Option.bind (evaluation_points BLOB_LEN 12 GENERATOR BLS_MODULUS) (\<lambda>xs. fft data xs BLS_MODULUS)"

section \<open>Modular arithmetic\<close>

lemma mod_pow_eq: "mod_pow b e p = b ^ e mod p"
proof (induction b e p rule: mod_pow.induct)
  case (1 b e p)
  show ?case
  proof (cases "e = 0")
    case False
    then have "mod_pow (b * b mod p) (e div 2) p = (b * b) ^ (e div 2) mod p" using 1 by (simp add: power_mod)
    moreover have "b ^ e = (if odd e then b * (b * b) ^ (e div 2) else (b * b) ^ (e div 2))"
      by (cases "odd e") (auto elim!: oddE evenE simp: power_mult power2_eq_square)
    ultimately show ?thesis using False by (subst mod_pow.simps) (simp add: Let_def mod_mult_right_eq)
  qed (subst mod_pow.simps, simp)
qed

declare mod_pow.simps [simp del]

definition peval :: "nat list \<Rightarrow> nat \<Rightarrow> nat" where
  "peval cs x = foldr (\<lambda>c v. c + x * v) cs 0"

lemma peval_simps [simp]: "peval [] x = 0" "peval (c # cs) x = c + x * peval cs x"
  by (simp_all add: peval_def)

lemma horner_step: "fold (\<lambda>j v. (v * x + cs ! j) mod p) (rev [0..<length cs]) 0 = peval cs x mod p"
proof (induction cs)
  case (Cons c cs)
  have "rev [0..<length (c # cs)] = map Suc (rev [0..<length cs]) @ [0]"
    by (simp add: upt_conv_Cons map_Suc_upt [symmetric] rev_map del: upt_Suc)
  moreover have "(c + x * (peval cs x mod p)) mod p = (c + x * peval cs x) mod p" by (metis mod_add_right_eq mod_mult_right_eq)
  ultimately show ?case
    using Cons by (simp add: fold_map comp_def algebra_simps del: upt_Suc)
qed simp

lemma fft_peval: "length cs \<le> length xs \<Longrightarrow> fft cs xs p = Some (map (\<lambda>x. peval cs x mod p) (take (length cs) xs))"
  by (simp add: fft_def horner_step not_less) (auto intro: nth_equalityI)

lemma peval_mod_cong: "x mod p = y mod p \<Longrightarrow> peval cs x mod p = peval cs y mod p"
proof (induction cs)
  case (Cons c cs)
  then have "x * peval cs x mod p = y * peval cs y mod p" by (metis mod_mult_cong)
  then show ?case by (simp, metis mod_add_right_eq)
qed simp

lemma interleave_Some: "n \<le> length ys \<Longrightarrow> n \<le> length zs \<Longrightarrow> \<exists>cs. interleave n ys zs = Some cs"
proof (induction n ys zs rule: interleave.induct)
qed auto

lemma peval_interleave:
  "interleave (length ys) ys zs = Some cs \<Longrightarrow> length zs = length ys \<Longrightarrow> peval cs x = peval ys (x * x) + x * peval zs (x * x)"
proof (induction "length ys" ys zs arbitrary: cs rule: interleave.induct)
  case (2 n y ys z zs)
  then show ?case by (auto simp: algebra_simps)
qed auto

lemma length_interleave: "interleave n ys zs = Some cs \<Longrightarrow> length cs = 2 * n \<and> set cs \<subseteq> set ys \<union> set zs"
proof (induction n ys zs arbitrary: cs rule: interleave.induct)
  case (2 n y ys z zs)
  then show ?case by fastforce
qed auto

section \<open>The inverse transform\<close>

text \<open>
  The points of every level of the recursion: neighbours are opposite, twice a point can be
  divided by, and the squares of every other point are the points of the next level.
\<close>

fun points_ok :: "nat \<Rightarrow> nat \<Rightarrow> nat list \<Rightarrow> bool" where
  "points_ok p 0 xs \<longleftrightarrow> length xs = 1"
| "points_ok p (Suc k) xs \<longleftrightarrow> length xs = 2 * 2 ^ k \<and>
     (\<forall>i < 2 ^ k. p dvd xs ! (2 * i) + xs ! (2 * i + 1) \<and> (2 * xs ! (2 * i)) ^ (p - 1) mod p = 1) \<and>
     points_ok p k (map (\<lambda>i. xs ! (2 * i) ^ 2 mod p) [0..<2 ^ k])"

lemma butterflies_Some:
  "length arr = 2 * n \<Longrightarrow> length xs = 2 * n \<Longrightarrow> \<forall>a\<in>set arr. a < p \<Longrightarrow>
   butterflies p arr xs = Some
     (map (\<lambda>i. div_mod (arr ! (2 * i) + arr ! (2 * i + 1)) 2 p) [0..<n],
      map (\<lambda>i. div_mod (if arr ! (2 * i) < arr ! (2 * i + 1) then p - (arr ! (2 * i + 1) - arr ! (2 * i))
                       else arr ! (2 * i) - arr ! (2 * i + 1)) (2 * xs ! (2 * i)) p) [0..<n],
      map (\<lambda>i. xs ! (2 * i) ^ 2 mod p) [0..<n])"
proof (induction n arbitrary: arr xs)
  case (Suc n)
  obtain a b arr' where arr: "arr = a # b # arr'" using Suc.prems(1) by (cases arr; cases "tl arr") auto
  obtain x y xs' where xs: "xs = x # y # xs'" using Suc.prems(2) by (cases xs; cases "tl xs") auto
  have up: "[0..<Suc n] = 0 # map Suc [0..<n]" by (simp add: upt_conv_Cons map_Suc_upt del: upt_Suc)
  have "b - a < p" using Suc.prems(3) arr by auto
  then show ?case
    using Suc.IH [of arr' xs'] Suc.prems unfolding arr xs up
    by (simp add: comp_def mod_pow_eq)
qed simp

text \<open>Halving and dividing, as equations in the integers modulo \<open>p\<close>.\<close>

lemma inverse_pow: "2 \<le> (p :: nat) \<Longrightarrow> b ^ (p - 1) mod p = 1 \<Longrightarrow> b * (b ^ (p - 2) mod p) mod p = 1"
  by (metis Suc_1 Suc_diff_Suc Suc_le_lessD diff_Suc_1' mod_mult_right_eq power_Suc)

lemma dvd_of_mod_one: "(x :: nat) mod p = 1 \<Longrightarrow> int p dvd int x - 1"
  by (metis int_ops(2) mod_eq_dvd_iff of_nat_mod mod_mod_trivial)

lemma mod_eq_of_dvd: "int p dvd int x - int y \<Longrightarrow> x mod p = (y :: nat) mod p"
  by (metis mod_eq_dvd_iff of_nat_eq_iff of_nat_mod)

lemma dvd_mod_self: "int p dvd int (x mod p) - int x"
  by (simp add: mod_eq_dvd_iff [symmetric] of_nat_mod)

lemma dvd_diffE: "(q :: int) dvd x - y \<Longrightarrow> \<exists>k. x = y + q * k"
  by (metis add.commute diff_add_cancel dvdE)

lemma dvd_halve: "(q :: int) dvd 2 * w \<Longrightarrow> q dvd 2 * h - 1 \<Longrightarrow> q dvd w"
proof -
  assume q: "q dvd 2 * w" "q dvd 2 * h - 1"
  have "q dvd h * (2 * w) - (2 * h - 1) * w" by (rule dvd_diff [OF dvd_mult [OF q(1)] dvd_mult2 [OF q(2)]])
  then show ?thesis by (simp add: algebra_simps)
qed

lemma butterfly_value:
  assumes p: "2 \<le> p" "2 ^ (p - 1) mod p = 1" "(2 * x) ^ (p - 1) mod p = 1" and ab: "a < p" "b < p"
    and z: "int p dvd int z - s * int x" "s = 1 \<or> s = - 1"
  shows "(div_mod (a + b) 2 p + z * div_mod (if a < b then p - (b - a) else a - b) (2 * x) p) mod p = (if s = 1 then a else b)"
proof -
  let ?h = "int (2 ^ (p - 2) mod p)" and ?g = "int ((2 * x) ^ (p - 2) mod p)"
  let ?d = "if a < b then p - (b - a) else a - b"
  let ?u = "div_mod (a + b) 2 p" and ?v = "div_mod ?d (2 * x) p"
  have h: "int p dvd 2 * ?h - 1" using dvd_of_mod_one [OF inverse_pow [OF p(1,2)]] by simp
  have g: "int p dvd 2 * int x * ?g - 1" using dvd_of_mod_one [OF inverse_pow [OF p(1,3)]] by simp
  have d: "int p dvd int ?d - (int a - int b)" using ab by (auto simp: of_nat_diff)
  have u: "int p dvd int ?u - (int a + int b) * ?h"
    using dvd_mod_self [of p "(a + b) * (2 ^ (p - 2) mod p)"] by (simp add: div_mod_def mod_pow_eq)
  have v: "int p dvd int ?v - int ?d * ?g"
    using dvd_mod_self [of p "?d * ((2 * x) ^ (p - 2) mod p)"] by (simp add: div_mod_def mod_pow_eq)
  obtain kh kg kd ku kv kz where k: "2 * ?h = 1 + int p * kh" "2 * int x * ?g = 1 + int p * kg" "int ?d = int a - int b + int p * kd"
    "int ?u = (int a + int b) * ?h + int p * ku" "int ?v = int ?d * ?g + int p * kv" "int z = s * int x + int p * kz"
    using dvd_diffE [OF h] dvd_diffE [OF g] dvd_diffE [OF d] dvd_diffE [OF u] dvd_diffE [OF v] dvd_diffE [OF z(1)] by metis
  have "int p dvd 2 * (int ?u + int z * int ?v) - ((int a + int b) + s * (int a - int b))"
  proof -
    have "2 * (int ?u + int z * int ?v) - ((int a + int b) + s * (int a - int b)) =
        (int a + int b) * (2 * ?h - 1) + 2 * int p * ku + s * ((int a - int b) * (2 * int x * ?g - 1) + int p * kd * (2 * int x * ?g))
        + 2 * s * int x * int p * kv + 2 * int p * kz * int ?v"
      unfolding k(4,6) k(5) k(3) by (simp add: algebra_simps)
    also have "\<dots> = int p * ((int a + int b) * kh + 2 * ku + s * ((int a - int b) * kg + kd * (1 + int p * kg)) + 2 * s * int x * kv + 2 * kz * int ?v)"
      unfolding k(1,2) by (simp add: algebra_simps)
    finally show ?thesis by simp
  qed
  then have "int p dvd 2 * (int ?u + int z * int ?v - (if s = 1 then int a else int b))" using z(2) by (auto simp: algebra_simps)
  then have "int p dvd int ?u + int z * int ?v - (if s = 1 then int a else int b)" using h by (rule dvd_halve)
  then have "int p dvd int (?u + z * ?v) - int (if s = 1 then a else b)" by (simp split: if_splits)
  then show ?thesis using mod_eq_of_dvd [of p "?u + z * ?v" "if s = 1 then a else b"] ab by auto
qed

lemma points_length: "points_ok p k xs \<Longrightarrow> length xs = 2 ^ k"
  by (cases k) auto

lemma peval_square: "int p dvd int z - s * int x \<Longrightarrow> s = 1 \<or> s = - 1 \<Longrightarrow> z * z mod p = x ^ 2 mod p mod p"
proof -
  assume "int p dvd int z - s * int x" and s: "s = 1 \<or> s = - 1"
  then obtain k where k: "int z = s * int x + int p * k" using dvd_diffE by blast
  have "int (z * z) - int (x ^ 2) = int p * (2 * s * int x * k + int p * k * k)"
    using s by (auto simp: k power2_eq_square algebra_simps)
  then have "int p dvd int (z * z) - int (x ^ 2)" by simp
  then show ?thesis using mod_eq_of_dvd by simp
qed

lemma ifft_correct:
  "points_ok p k xs \<Longrightarrow> 2 \<le> p \<Longrightarrow> 2 ^ (p - 1) mod p = 1 \<Longrightarrow> length arr = 2 ^ k \<Longrightarrow> \<forall>a\<in>set arr. a < p \<Longrightarrow>
   \<exists>cs. ifft arr xs p = Some cs \<and> length cs = 2 ^ k \<and> (\<forall>c\<in>set cs. c < p) \<and> map (\<lambda>x. peval cs x mod p) xs = arr"
proof (induction k arbitrary: arr xs)
  case 0
  then obtain a x where "arr = [a]" "xs = [x]" by (auto simp: length_Suc_conv)
  with 0 show ?case by (subst ifft.simps) auto
next
  case (Suc k)
  define r0 r1 nx where "r0 = map (\<lambda>i. div_mod (arr ! (2 * i) + arr ! (2 * i + 1)) 2 p) [0..<2 ^ k]"
    and "r1 = map (\<lambda>i. div_mod (if arr ! (2 * i) < arr ! (2 * i + 1) then p - (arr ! (2 * i + 1) - arr ! (2 * i))
                else arr ! (2 * i) - arr ! (2 * i + 1)) (2 * xs ! (2 * i)) p) [0..<2 ^ k]"
    and "nx = map (\<lambda>i. xs ! (2 * i) ^ 2 mod p) [0..<2 ^ k]"
  note defs = r0_def r1_def nx_def
  have len: "length arr = 2 * 2 ^ k" "length xs = 2 * 2 ^ k" using Suc.prems by auto
  have bf: "butterflies p arr xs = Some (r0, r1, nx)" unfolding defs using len Suc.prems(5) by (rule butterflies_Some)
  have "points_ok p k nx" "\<forall>a\<in>set r0. a < p" "\<forall>a\<in>set r1. a < p" "length r0 = 2 ^ k" "length r1 = 2 ^ k"
    using Suc.prems(1,2) by (auto simp: defs div_mod_def)
  with Suc.IH [of nx] Suc.prems(2,3) obtain c0 c1 where
    c0: "ifft r0 nx p = Some c0" "length c0 = 2 ^ k" "\<forall>c\<in>set c0. c < p" "map (\<lambda>x. peval c0 x mod p) nx = r0" and
    c1: "ifft r1 nx p = Some c1" "length c1 = 2 ^ k" "\<forall>c\<in>set c1. c < p" "map (\<lambda>x. peval c1 x mod p) nx = r1" by blast
  obtain cs where cs: "interleave (2 ^ k) c0 c1 = Some cs" using interleave_Some [of "2 ^ k" c0 c1] c0(2) c1(2) by auto
  have "ifft arr xs p = Some cs" using bf c0(1) c1(1) cs len by (subst ifft.simps) simp
  moreover have "peval cs z mod p = arr ! j" if z: "z = xs ! j" and j: "j < 2 * 2 ^ k" for z j
  proof -
    let ?i = "j div 2"
    have i: "?i < 2 ^ k" using j by linarith
    have ar: "arr ! (2 * ?i) < p" "arr ! (2 * ?i + 1) < p" using Suc.prems(5) len(1) i by (auto intro!: nth_mem)
    obtain s :: int where s: "int p dvd int z - s * int (xs ! (2 * ?i))" "s = 1 \<or> s = - 1" "(if s = 1 then 2 * ?i else 2 * ?i + 1) = j"
    proof (cases "even j")
      case True
      then show ?thesis using that [of 1] z by simp
    next
      case False
      have "int p dvd int (xs ! (2 * ?i) + xs ! (2 * ?i + 1))"
        unfolding int_dvd_int_iff using Suc.prems(1) i by simp
      then show ?thesis using that [of "- 1"] z False by (simp add: algebra_simps)
    qed
    have sq: "z * z mod p = nx ! ?i mod p" using peval_square [OF s(1,2)] i by (simp add: nx_def)
    have "peval c0 (z * z) mod p = r0 ! ?i" "peval c1 (z * z) mod p = r1 ! ?i"
      using arg_cong [OF c0(4), of "\<lambda>l. l ! ?i"] arg_cong [OF c1(4), of "\<lambda>l. l ! ?i"] i
        peval_mod_cong [OF sq, of c0] peval_mod_cong [OF sq, of c1] by (simp_all add: nx_def)
    moreover have "peval cs z = peval c0 (z * z) + z * peval c1 (z * z)"
      using peval_interleave [of c0 c1 cs z] cs c0(2) c1(2) by simp
    ultimately have "peval cs z mod p = (r0 ! ?i + z * (r1 ! ?i)) mod p"
      using mod_add_eq [of "peval c0 (z * z)" p "z * peval c1 (z * z)"] mod_mult_right_eq [of z "peval c1 (z * z)" p]
        mod_add_right_eq [of "r0 ! ?i" "z * (r1 ! ?i)" p] by simp
    also have "\<dots> = (if s = 1 then arr ! (2 * ?i) else arr ! (2 * ?i + 1))"
    proof -
      have "r0 ! ?i = div_mod (arr ! (2 * ?i) + arr ! (2 * ?i + 1)) 2 p"
        "r1 ! ?i = div_mod (if arr ! (2 * ?i) < arr ! (2 * ?i + 1) then p - (arr ! (2 * ?i + 1) - arr ! (2 * ?i))
           else arr ! (2 * ?i) - arr ! (2 * ?i + 1)) (2 * xs ! (2 * ?i)) p" using i by (simp_all add: defs)
      moreover have "(2 * xs ! (2 * ?i)) ^ (p - 1) mod p = 1" using Suc.prems(1) i by simp
      ultimately show ?thesis using butterfly_value [OF Suc.prems(2,3) _ ar s(1,2)] by simp
    qed
    finally show ?thesis using s(3) by (simp split: if_splits)
  qed
  then have "map (\<lambda>x. peval cs x mod p) xs = arr" using len by (intro nth_equalityI) auto
  ultimately show ?case
    using length_interleave [OF cs] c0(3) c1(3) by (intro exI [of _ cs]) auto
qed

section \<open>The points\<close>

fun brev :: "nat \<Rightarrow> nat \<Rightarrow> nat" where
  "brev 0 i = 0"
| "brev (Suc k) i = (i mod 2) * 2 ^ k + brev k (i div 2)"

lemma brev_less: "brev k i < 2 ^ k"
proof (induction k arbitrary: i)
  case (Suc k)
  show ?case using Suc [of "i div 2"] by (cases "even i") (simp_all add: odd_iff_mod_2_eq_one)
qed simp

lemma parse_rev_digits:
  "acc * 2 ^ k + brev k i \<le> bound \<Longrightarrow> parse_digits 2 bound acc (rev (bin_digits k i)) = Inr (acc * 2 ^ k + brev k i)"
proof (induction k arbitrary: acc i)
  case (Suc k)
  have "(acc * 2 + i mod 2) * 2 ^ k + brev k (i div 2) \<le> bound" using Suc.prems by (simp add: algebra_simps)
  moreover from this have "acc * 2 + i mod 2 \<le> bound"
    by (metis add_leD1 le_trans mult_le_mono2 nat_mult_1_right one_le_numeral one_le_power)
  ultimately show ?case using Suc.IH [of "acc * 2 + i mod 2" "i div 2"] by (simp add: char_digit_digit_char algebra_simps)
qed simp

lemma bit_reverse_brev:
  assumes "0 < k" "i < 2 ^ k"
  shows "bit_reverse k i = Some (brev k i)"
proof -
  obtain c cs where s: "rev (bin_digits k i) = c # cs" using assms(1) by (metis length_bin_digits length_rev list.exhaust list.size(3) not_less0)
  then have "c \<in> set (bin_digits k i)" by (metis list.set_intros(1) set_rev)
  then have "c \<in> digit_char ` {..<2}" using set_bin_digits [of k i] by blast
  then have "c \<noteq> CHR ''+''" using digit_char_not_plus by auto
  moreover have "parse_digits 2 (2 ^ k - 1) 0 (rev (bin_digits k i)) = Inr (brev k i)"
    using parse_rev_digits [of 0 k i "2 ^ k - 1"] brev_less [of k i] by simp
  ultimately show ?thesis using s by (simp add: bit_reverse_def binary_text_bin [OF assms(2,1)] from_str_radix_def)
qed

definition unit_points :: "nat \<Rightarrow> nat \<Rightarrow> nat \<Rightarrow> nat list" where
  "unit_points k g p = map (\<lambda>i. g ^ brev k i mod p) [0..<2 ^ k]"

lemma length_unit_points [simp]: "length (unit_points k g p) = 2 ^ k"
  by (simp add: unit_points_def)

lemma evaluation_points_unit: "0 < k \<Longrightarrow> evaluation_points (2 ^ k) k g p = Some (unit_points k g p)"
  unfolding evaluation_points_def unit_points_def by (rule those_map_Some) (simp add: bit_reverse_brev mod_pow_eq)

lemma unit_points_ok:
  "(0 < k \<longrightarrow> g ^ 2 ^ (k - 1) mod p = p - 1) \<Longrightarrow> g ^ (p - 1) mod p = 1 \<Longrightarrow> 2 ^ (p - 1) mod p = 1 \<Longrightarrow> 2 \<le> p \<Longrightarrow>
   points_ok p k (unit_points k g p)"
proof (induction k arbitrary: g)
  case (Suc k)
  have nth: "unit_points (Suc k) g p ! (2 * i) = g ^ brev k i mod p"
    "unit_points (Suc k) g p ! (2 * i + 1) = g ^ (2 ^ k + brev k i) mod p" if "i < 2 ^ k" for i
    using that by (simp_all add: unit_points_def)
  have "p dvd g ^ brev k i mod p + g ^ (2 ^ k + brev k i) mod p" for i
  proof -
    have "(g ^ brev k i mod p + g ^ (2 ^ k + brev k i) mod p) mod p = (g ^ brev k i * (1 + g ^ 2 ^ k mod p)) mod p"
      by (simp add: power_add distrib_left mod_simps mult.commute) (metis mod_add_right_eq mod_mult_right_eq)
    also have "\<dots> = 0" using Suc.prems(1,4) by simp
    finally show ?thesis by presburger
  qed
  moreover have "(2 * (g ^ brev k i mod p)) ^ (p - 1) mod p = 1" for i
  proof -
    have "(2 * (g ^ brev k i mod p)) ^ (p - 1) mod p = (2 * g ^ brev k i) ^ (p - 1) mod p"
      using power_mod [of "2 * (g ^ brev k i mod p)" p "p - 1"] power_mod [of "2 * g ^ brev k i" p "p - 1"]
      by (simp only: mod_mult_right_eq)
    also have "\<dots> = 2 ^ (p - 1) * (g ^ (p - 1)) ^ brev k i mod p"
      by (simp add: power_mult_distrib power_mult [symmetric] mult.commute)
    also have "\<dots> = (2 ^ (p - 1) mod p) * ((g ^ (p - 1) mod p) ^ brev k i mod p) mod p"
      by (simp only: power_mod mod_mult_eq)
    finally show ?thesis using Suc.prems(2,3,4) by simp
  qed
  moreover have "map (\<lambda>i. unit_points (Suc k) g p ! (2 * i) ^ 2 mod p) [0..<2 ^ k] = unit_points k (g ^ 2) p"
    using nth(1) by (auto simp: unit_points_def power_mod power_mult [symmetric] mult.commute)
  moreover have "points_ok p k (unit_points k (g ^ 2) p)"
  proof (rule Suc.IH)
    show "0 < k \<longrightarrow> (g ^ 2) ^ 2 ^ (k - 1) mod p = p - 1"
      using Suc.prems(1) by (auto simp: power_mult [symmetric] power_Suc [symmetric] simp del: power_Suc)
    show "(g ^ 2) ^ (p - 1) mod p = 1"
      using power_mod [of "g ^ (p - 1)" p 2] Suc.prems(2,4) by (simp add: power_mult [symmetric] mult.commute)
  qed (use Suc.prems in auto)
  ultimately show ?case unfolding points_ok.simps by (auto simp: nth simp del: One_nat_def)
qed (simp add: unit_points_def)

section \<open>Property\<close>

definition residues :: "nat \<Rightarrow> nat \<Rightarrow> nat list set" where
  "residues p n = {xs. length xs = n \<and> set xs \<subseteq> {..<p}}"

lemma finite_residues: "finite (residues p n)"
  using finite_lists_length_eq [of "{..<p}" n] by (simp add: residues_def conj_commute)

text \<open>A map with a left inverse on a finite set also is one.\<close>

lemma finite_inverse:
  assumes fin: "finite S" and f: "\<And>x. x \<in> S \<Longrightarrow> f x \<in> S" and g: "\<And>x. x \<in> S \<Longrightarrow> g (f x) = x" and x: "x \<in> S"
  shows "f (g x) = x \<and> g x \<in> S"
proof -
  have "inj_on f S" using g by (metis inj_on_inverseI)
  then have "f ` S = S" using fin f by (intro endo_inj_surj) auto
  then obtain y where "y \<in> S" "x = f y" using x by blast
  then show ?thesis using g by simp
qed

text \<open>
  C27. The two blob transforms are inverse to each other: let \<open>g\<close> be a root of unity of order a
  power of two modulo \<open>p\<close>, and let the powers that division relies on be one (as they are for a
  prime).  For a list of as many residues as there are points, the inverse transform returns,
  and evaluating its result at the bit-reversed powers of \<open>g\<close> gives the list back; and the
  inverse transform of the values of any such list of coefficients is that list.
\<close>

theorem blob_transforms_inverse:
  assumes modulus: "2 \<le> p" "2 ^ (p - 1) mod p = 1" and root: "g ^ (p - 1) mod p = 1" "g ^ 2 ^ (k - 1) mod p = p - 1" "0 < k"
    and points: "evaluation_points (2 ^ k) k g p = Some xs"
    and data: "length data = 2 ^ k" "\<forall>a\<in>set data. a < p"
  shows "(\<exists>coeffs. ifft data xs p = Some coeffs \<and> fft coeffs xs p = Some data) \<and>
    (\<exists>values. fft data xs p = Some values \<and> ifft values xs p = Some data)"
proof -
  have ok: "points_ok p k xs" and xs: "length xs = 2 ^ k"
    using unit_points_ok [of k g p] modulus root points evaluation_points_unit [of k g p] points_length by auto
  define f g' where "f = (\<lambda>arr. the (ifft arr xs p))" and "g' = (\<lambda>cs. map (\<lambda>x. peval cs x mod p) xs)"
  have fwd: "ifft arr xs p = Some (f arr)" "f arr \<in> residues p (2 ^ k)" "g' (f arr) = arr" if "arr \<in> residues p (2 ^ k)" for arr
  proof -
    have "length arr = 2 ^ k" "\<forall>a\<in>set arr. a < p" using that by (auto simp: residues_def)
    from ifft_correct [OF ok modulus this] obtain cs where cs: "ifft arr xs p = Some cs" "length cs = 2 ^ k" "\<forall>c\<in>set cs. c < p"
      "map (\<lambda>x. peval cs x mod p) xs = arr" by blast
    then show "ifft arr xs p = Some (f arr)" "f arr \<in> residues p (2 ^ k)" "g' (f arr) = arr"
      by (simp_all add: f_def g'_def residues_def subset_iff)
  qed
  have fft: "fft cs xs p = Some (g' cs)" if "cs \<in> residues p (2 ^ k)" for cs
    using fft_peval [of cs xs p] xs that by (simp add: residues_def g'_def)
  have d: "data \<in> residues p (2 ^ k)" using data by (auto simp: residues_def)
  have inverse: "f (g' data) = data \<and> g' data \<in> residues p (2 ^ k)"
    by (rule finite_inverse [OF finite_residues fwd(2,3) d])
  show ?thesis using fwd(1,2) [OF d] fwd(3) [OF d] fwd(1) [of "g' data"] fft [of "f data"] fft [OF d] inverse by simp
qed

theorem blob_transforms_inverse_witness:
  "\<exists>xs. evaluation_points 8 3 2 17 = Some xs \<and> xs = [1, 16, 4, 13, 2, 15, 8, 9] \<and>
     (\<exists>coeffs. ifft [3, 1, 4, 1, 5, 9, 2, 6] xs 17 = Some coeffs \<and> fft coeffs xs 17 = Some [3, 1, 4, 1, 5, 9, 2, 6])"
proof -
  have "evaluation_points (2 ^ 3) 3 2 17 = Some [1, 16, 4, 13, 2, 15, 8, 9]" by code_simp
  from blob_transforms_inverse [OF _ _ _ _ _ this, of "[3, 1, 4, 1, 5, 9, 2, 6]"] this show ?thesis by simp
qed

end
