(* ===== verification/Feeder_Gateway.thy ===== *)
theory Feeder_Gateway
  imports Db_State
begin

text \<open>
  The types of the feeder gateway and their conversion to the types of the node
  (\<^verbatim>\<open>crates/feeder-gateway/src/types\<close>, \<^verbatim>\<open>client.rs\<close>).  The HTTP requests and the JSON format are not
  modelled: what the gateway answers is an argument of the definitions that ask it.  Errors of
  the HTTP library and of the sequencer are represented by their texts.
\<close>

section \<open>Answers\<close>

datatype gateway_error = GwNetwork string | GwSequencer string | GwInvalidHeaderValue string | RateLimited

fun is_rate_limited :: "gateway_error \<Rightarrow> bool" where
  "is_rate_limited RateLimited = True"
| "is_rate_limited _ = False"

record raw_bounds_mapping =
  rb_l1_gas :: resource_bounds
  rb_l2_gas :: resource_bounds
  rb_l1_data_gas :: "resource_bounds option"

record raw_l1_handler_tx =
  rl_nonce :: "nonce option"
  rl_version :: felt
  rl_calldata :: "felt list"
  rl_contract_address :: contract_address
  rl_entry_point_selector :: felt

record raw_invoke_tx =
  ri_sender_address :: contract_address
  ri_nonce :: "nonce option"
  ri_entry_point_selector :: "felt option"
  ri_calldata :: "felt list"
  ri_signature :: "felt list"
  ri_max_fee :: "nat option"
  ri_resource_bounds :: "raw_bounds_mapping option"
  ri_tip :: "nat option"
  ri_paymaster_data :: "felt list option"
  ri_account_deployment_data :: "felt list option"
  ri_nonce_da_mode :: "da_mode option"
  ri_fee_da_mode :: "da_mode option"
  ri_version :: felt

record raw_declare_tx =
  rd_sender_address :: contract_address
  rd_nonce :: felt
  rd_signature :: "felt list"
  rd_class_hash :: class_hash
  rd_compiled_class_hash :: "compiled_class_hash option"
  rd_max_fee :: "nat option"
  rd_resource_bounds :: "raw_bounds_mapping option"
  rd_tip :: "nat option"
  rd_paymaster_data :: "felt list option"
  rd_account_deployment_data :: "felt list option"
  rd_nonce_da_mode :: "da_mode option"
  rd_fee_da_mode :: "da_mode option"
  rd_version :: felt

record raw_deploy_account_tx =
  ra_nonce :: nonce
  ra_signature :: "felt list"
  ra_class_hash :: class_hash
  ra_contract_address :: "contract_address option"
  ra_contract_address_salt :: felt
  ra_constructor_calldata :: "felt list"
  ra_max_fee :: "nat option"
  ra_resource_bounds :: "raw_bounds_mapping option"
  ra_tip :: "nat option"
  ra_paymaster_data :: "felt list option"
  ra_nonce_da_mode :: "da_mode option"
  ra_fee_da_mode :: "da_mode option"
  ra_version :: felt

datatype typed_transaction =
  GwDeploy deploy_tx
| GwDeclare raw_declare_tx
| GwL1Handler raw_l1_handler_tx
| GwInvokeFunction raw_invoke_tx
| GwDeployAccount raw_deploy_account_tx

record confirmed_transaction =
  ctx_hash :: tx_hash
  ctx_tx :: typed_transaction

datatype tx_try_from_error =
  UnsupportedVersion tx_type felt
| MissingTip
| MissingPaymasterData
| MissingEntryPointSelector
| MissingNonce
| MissingMaxFee
| MissingResourceBounds
| MissingAccountDeploymentData
| MissingNonceDA
| MissingFeeDA
| MissingTxCompiledClassHash

text \<open>The fields of a receipt that the node reads.\<close>

record confirmed_receipt =
  cr_revert_error :: "string option"
  cr_l2_to_l1_messages :: "message_to_l1 list"
  cr_events :: "event list"
  cr_actual_fee :: felt

datatype gw_block_status = GwPending | GwAborted | GwReverted | GwAcceptedOnL2 | GwAcceptedOnL1

record resource_price =
  rp_price_in_fri :: felt
  rp_price_in_wei :: felt

record gw_block =
  gb_block_hash :: "block_hash option"
  gb_block_number :: "block_number option"
  gb_parent_block_hash :: block_hash
  gb_timestamp :: nat
  gb_sequencer_address :: "contract_address option"
  gb_state_root :: "felt option"
  gb_transaction_commitment :: "felt option"
  gb_event_commitment :: "felt option"
  gb_status :: gw_block_status
  gb_l1_da_mode :: l1_da_mode
  gb_l2_gas_price :: resource_price
  gb_l1_gas_price :: resource_price
  gb_l1_data_gas_price :: resource_price
  gb_transactions :: "confirmed_transaction list"
  gb_transaction_receipts :: "confirmed_receipt list"
  gb_starknet_version :: "protocol_version option"

record gw_state_diff =
  sd_storage_diffs :: "(contract_address, (storage_key \<times> storage_value) list) table"
  sd_deployed_contracts :: "(contract_address \<times> class_hash) list"
  sd_old_declared_contracts :: "felt list"
  sd_declared_classes :: "(class_hash \<times> compiled_class_hash) list"
  sd_nonces :: "(contract_address, nonce) table"
  sd_replaced_classes :: "(contract_address \<times> class_hash) list"

record state_update_with_block =
  sub_state_diff :: gw_state_diff
  sub_block :: gw_block

section \<open>Conversion\<close>

definition raw_bounds_into :: "raw_bounds_mapping \<Rightarrow> resource_bounds_mapping" where
  "raw_bounds_into b = (case rb_l1_data_gas b of
      Some l1_data \<Rightarrow> AllBounds \<lparr>l1_gas = rb_l1_gas b, l2_gas = rb_l2_gas b, l1_data_gas = l1_data\<rparr>
    | None \<Rightarrow> L1Gas (rb_l1_gas b))"

definition invoke_tx_try_from :: "raw_invoke_tx \<Rightarrow> tx_try_from_error + invoke_tx" where
  "invoke_tx_try_from value =
     (if ri_version value = 0 then
        rbind (ok_or MissingMaxFee (ri_max_fee value)) (\<lambda>max_fee.
        rbind (ok_or MissingEntryPointSelector (ri_entry_point_selector value)) (\<lambda>selector.
          Inr (InvokeV0 \<lparr>iv0_contract_address = ri_sender_address value, iv0_entry_point_selector = selector,
            iv0_calldata = ri_calldata value, iv0_signature = ri_signature value, iv0_max_fee = max_fee\<rparr>)))
      else if ri_version value = 1 then
        rbind (ok_or MissingNonce (ri_nonce value)) (\<lambda>nonce.
        rbind (ok_or MissingMaxFee (ri_max_fee value)) (\<lambda>max_fee.
          Inr (InvokeV1 \<lparr>iv1_chain_id = chain_id_default, iv1_sender_address = ri_sender_address value, iv1_nonce = nonce,
            iv1_calldata = ri_calldata value, iv1_signature = ri_signature value, iv1_max_fee = max_fee\<rparr>)))
      else if ri_version value = 3 then
        rbind (ok_or MissingTip (ri_tip value)) (\<lambda>tip.
        rbind (ok_or MissingPaymasterData (ri_paymaster_data value)) (\<lambda>paymaster_data.
        rbind (ok_or MissingResourceBounds (ri_resource_bounds value)) (\<lambda>bounds.
        rbind (ok_or MissingAccountDeploymentData (ri_account_deployment_data value)) (\<lambda>deployment_data.
        rbind (ok_or MissingNonceDA (ri_nonce_da_mode value)) (\<lambda>nonce_da.
        rbind (ok_or MissingFeeDA (ri_fee_da_mode value)) (\<lambda>fee_da.
        rbind (ok_or MissingNonce (ri_nonce value)) (\<lambda>nonce.
          Inr (InvokeV3 \<lparr>iv3_chain_id = chain_id_default, iv3_sender_address = ri_sender_address value, iv3_nonce = nonce,
            iv3_calldata = ri_calldata value, iv3_signature = ri_signature value, iv3_resource_bounds = raw_bounds_into bounds,
            iv3_tip = tip, iv3_paymaster_data = paymaster_data, iv3_account_deployment_data = deployment_data,
            iv3_nonce_da_mode = nonce_da, iv3_fee_da_mode = fee_da\<rparr>))))))))
      else Inl (UnsupportedVersion TInvoke (ri_version value)))"

definition declare_tx_try_from :: "raw_declare_tx \<Rightarrow> tx_try_from_error + declare_tx" where
  "declare_tx_try_from value =
     (if rd_version value = 0 then
        rbind (ok_or MissingMaxFee (rd_max_fee value)) (\<lambda>max_fee.
          Inr (DeclareV0 \<lparr>dv0_chain_id = chain_id_default, dv0_sender_address = rd_sender_address value,
            dv0_signature = rd_signature value, dv0_class_hash = rd_class_hash value, dv0_max_fee = max_fee\<rparr>))
      else if rd_version value = 1 then
        rbind (ok_or MissingMaxFee (rd_max_fee value)) (\<lambda>max_fee.
          Inr (DeclareV1 \<lparr>dv1_chain_id = chain_id_default, dv1_sender_address = rd_sender_address value, dv1_nonce = rd_nonce value,
            dv1_signature = rd_signature value, dv1_class_hash = rd_class_hash value, dv1_max_fee = max_fee\<rparr>))
      else if rd_version value = 2 then
        rbind (ok_or MissingTxCompiledClassHash (rd_compiled_class_hash value)) (\<lambda>compiled.
        rbind (ok_or MissingMaxFee (rd_max_fee value)) (\<lambda>max_fee.
          Inr (DeclareV2 \<lparr>dv2_chain_id = chain_id_default, dv2_sender_address = rd_sender_address value, dv2_nonce = rd_nonce value,
            dv2_signature = rd_signature value, dv2_class_hash = rd_class_hash value, dv2_compiled_class_hash = compiled,
            dv2_max_fee = max_fee\<rparr>)))
      else if rd_version value = 3 then
        rbind (ok_or MissingResourceBounds (rd_resource_bounds value)) (\<lambda>bounds.
        rbind (ok_or MissingTip (rd_tip value)) (\<lambda>tip.
        rbind (ok_or MissingPaymasterData (rd_paymaster_data value)) (\<lambda>paymaster_data.
        rbind (ok_or MissingAccountDeploymentData (rd_account_deployment_data value)) (\<lambda>deployment_data.
        rbind (ok_or MissingNonceDA (rd_nonce_da_mode value)) (\<lambda>nonce_da.
        rbind (ok_or MissingFeeDA (rd_fee_da_mode value)) (\<lambda>fee_da.
        rbind (ok_or MissingTxCompiledClassHash (rd_compiled_class_hash value)) (\<lambda>compiled.
          Inr (DeclareV3 \<lparr>dv3_chain_id = chain_id_default, dv3_sender_address = rd_sender_address value, dv3_nonce = rd_nonce value,
            dv3_signature = rd_signature value, dv3_class_hash = rd_class_hash value, dv3_compiled_class_hash = compiled,
            dv3_resource_bounds = raw_bounds_into bounds, dv3_tip = tip, dv3_paymaster_data = paymaster_data,
            dv3_account_deployment_data = deployment_data, dv3_nonce_da_mode = nonce_da, dv3_fee_da_mode = fee_da\<rparr>))))))))
      else Inl (UnsupportedVersion TDeclare (rd_version value)))"

definition deploy_account_tx_try_from :: "raw_deploy_account_tx \<Rightarrow> tx_try_from_error + deploy_account_tx" where
  "deploy_account_tx_try_from value =
     (let address = (case ra_contract_address value of Some a \<Rightarrow> a | None \<Rightarrow> 0) in
      if ra_version value = 1 then
        rbind (ok_or MissingMaxFee (ra_max_fee value)) (\<lambda>max_fee.
          Inr (DeployAccountV1 \<lparr>da1_chain_id = chain_id_default, da1_nonce = ra_nonce value, da1_signature = ra_signature value,
            da1_class_hash = ra_class_hash value, da1_contract_address = address,
            da1_contract_address_salt = ra_contract_address_salt value,
            da1_constructor_calldata = ra_constructor_calldata value, da1_max_fee = max_fee\<rparr>))
      else if ra_version value = 3 then
        rbind (ok_or MissingResourceBounds (ra_resource_bounds value)) (\<lambda>bounds.
        rbind (ok_or MissingTip (ra_tip value)) (\<lambda>tip.
        rbind (ok_or MissingPaymasterData (ra_paymaster_data value)) (\<lambda>paymaster_data.
        rbind (ok_or MissingNonceDA (ra_nonce_da_mode value)) (\<lambda>nonce_da.
        rbind (ok_or MissingFeeDA (ra_fee_da_mode value)) (\<lambda>fee_da.
          Inr (DeployAccountV3 \<lparr>da3_chain_id = chain_id_default, da3_nonce = ra_nonce value, da3_signature = ra_signature value,
            da3_class_hash = ra_class_hash value, da3_contract_address = address,
            da3_contract_address_salt = ra_contract_address_salt value,
            da3_constructor_calldata = ra_constructor_calldata value, da3_resource_bounds = raw_bounds_into bounds,
            da3_tip = tip, da3_paymaster_data = paymaster_data, da3_nonce_da_mode = nonce_da, da3_fee_da_mode = fee_da\<rparr>))))))
      else Inl (UnsupportedVersion TDeployAccount (ra_version value)))"

definition l1_handler_tx_from :: "raw_l1_handler_tx \<Rightarrow> l1_handler_tx" where
  "l1_handler_tx_from value = \<lparr>l1h_nonce = (case rl_nonce value of Some n \<Rightarrow> n | None \<Rightarrow> 0), l1h_chain_id = chain_id_default,
     l1h_paid_fee_on_l1 = 0, l1h_version = rl_version value, l1h_message_hash = 0, l1h_calldata = rl_calldata value,
     l1h_contract_address = rl_contract_address value, l1h_entry_point_selector = rl_entry_point_selector value\<rparr>"

definition tx_try_from :: "confirmed_transaction \<Rightarrow> tx_try_from_error + tx_with_hash" where
  "tx_try_from c =
     rbind (case ctx_tx c of
        GwDeploy t \<Rightarrow> Inr (Deploy t)
      | GwDeclare t \<Rightarrow> rbind (declare_tx_try_from t) (\<lambda>t'. Inr (Declare t'))
      | GwL1Handler t \<Rightarrow> Inr (L1Handler (l1_handler_tx_from t))
      | GwInvokeFunction t \<Rightarrow> rbind (invoke_tx_try_from t) (\<lambda>t'. Inr (Invoke t'))
      | GwDeployAccount t \<Rightarrow> rbind (deploy_account_tx_try_from t) (\<lambda>t'. Inr (DeployAccount t')))
     (\<lambda>t. Inr \<lparr>twh_hash = ctx_hash c, twh_transaction = t\<rparr>)"

text \<open>Lists of pairs become maps, in which a later pair for a key replaces an earlier one.\<close>

definition pairs_map :: "('k :: linorder \<times> 'v) list \<Rightarrow> ('k, 'v) table" where
  "pairs_map es = fold (\<lambda>e. tbl_put (fst e) (snd e)) es []"

definition state_updates_from :: "gw_state_diff \<Rightarrow> state_updates" where
  "state_updates_from value =
     \<lparr>nonce_updates = sd_nonces value,
      storage_updates = map (\<lambda>(addr, diffs). (addr, pairs_map diffs)) (sd_storage_diffs value),
      deployed_contracts = pairs_map (sd_deployed_contracts value),
      declared_classes = pairs_map (sd_declared_classes value),
      deprecated_declared_classes = sorted_list_of_set (set (sd_old_declared_contracts value)),
      replaced_classes = pairs_map (sd_replaced_classes value)\<rparr>"

end
