(* ===== verification/Sync_Stages.thy ===== *)
theory Sync_Stages
  imports Feeder_Gateway
begin

text \<open>
  Syncing: the stages (\<^verbatim>\<open>crates/sync/stage\<close>) that download blocks and classes from the feeder
  gateway and store them, and the pipeline (\<^verbatim>\<open>crates/sync/pipeline\<close>) that runs them up to a tip.

  The answers of the gateway depend on the attempt they are given at, so that rate limiting can
  come and go; how often a request is tried again is the retry policy of a library and an
  argument, as is the conversion of a downloaded class.  A stage changes the database and
  reports success or an error; \<^const>\<open>None\<close> is a panic.
\<close>

section \<open>Downloading\<close>

record ('gcls, 'cls, 'ce) gateway =
  gw_state_update_with_block :: "nat \<Rightarrow> block_number \<Rightarrow> gateway_error + state_update_with_block"
  gw_get_class :: "nat \<Rightarrow> class_hash \<Rightarrow> block_number \<Rightarrow> gateway_error + 'gcls"
  gw_convert_class :: "'gcls \<Rightarrow> 'ce + 'cls"
  gw_retries :: nat

datatype 'ce classes_error =
  MissingBlockDeclaredClasses block_number
| ClassesGateway gateway_error
| ClassesConversion 'ce

datatype 'ce stage_error =
  StageProvider provider_error
| StageBlocks gateway_error
| StageClasses "'ce classes_error"
| StageOther tx_try_from_error

text \<open>A request is repeated while its error allows it and attempts are left.\<close>

fun retry_when :: "('e \<Rightarrow> bool) \<Rightarrow> nat \<Rightarrow> nat \<Rightarrow> (nat \<Rightarrow> 'e + 'a) \<Rightarrow> 'e + 'a" where
  "retry_when again n k request = (case request k of
      Inr x \<Rightarrow> Inr x
    | Inl e \<Rightarrow> (case n of
        0 \<Rightarrow> Inl e
      | Suc n' \<Rightarrow> if again e then retry_when again n' (Suc k) request else Inl e))"

definition fetch_block_range ::
    "('gcls, 'cls, 'ce) gateway \<Rightarrow> nat \<Rightarrow> block_number \<Rightarrow> block_number \<Rightarrow> gateway_error + state_update_with_block list" where
  "fetch_block_range gw attempt from to = collect_results (map (gw_state_update_with_block gw attempt) [from..<Suc to])"

definition fetch_blocks_with_retry ::
    "('gcls, 'cls, 'ce) gateway \<Rightarrow> block_number \<Rightarrow> block_number \<Rightarrow> gateway_error + state_update_with_block list" where
  "fetch_blocks_with_retry gw from to =
     retry_when is_rate_limited (gw_retries gw) 0 (\<lambda>attempt. fetch_block_range gw attempt from to)"

function download_batches ::
    "('gcls, 'cls, 'ce) gateway \<Rightarrow> nat \<Rightarrow> block_number \<Rightarrow> block_number \<Rightarrow> gateway_error + state_update_with_block list" where
  "download_batches gw batch_size batch_start to =
     (if batch_size = 0 \<or> to < batch_start then Inr []
      else rbind (fetch_blocks_with_retry gw batch_start (min (batch_start + batch_size - 1) to)) (\<lambda>batch.
           rbind (download_batches gw batch_size (batch_start + batch_size) to) (\<lambda>rest. Inr (batch @ rest))))"
  by pat_completeness auto

termination
  by (relation "measure (\<lambda>(gw, batch_size, batch_start, to). Suc to - batch_start)") auto

text \<open>Stepping through a range by zero panics.\<close>

definition download_blocks ::
    "('gcls, 'cls, 'ce) gateway \<Rightarrow> nat \<Rightarrow> block_number \<Rightarrow> block_number \<Rightarrow> (gateway_error + state_update_with_block list) option" where
  "download_blocks gw batch_size from to =
     (if batch_size = 0 then None else Some (download_batches gw batch_size from to))"

section \<open>The block stage\<close>

definition to_gas_prices :: "resource_price \<Rightarrow> gas_price option" where
  "to_gas_prices prices =
     (if rp_price_in_fri prices < 2 ^ 128 then Some \<lparr>gp_eth = rp_price_in_fri prices, gp_strk = rp_price_in_fri prices\<rparr> else None)"

fun finality_of :: "gw_block_status \<Rightarrow> finality_status option" where
  "finality_of GwAcceptedOnL2 = Some AcceptedOnL2"
| "finality_of GwAcceptedOnL1 = Some AcceptedOnL1"
| "finality_of _ = None"

definition default_resources :: execution_resources where
  "default_resources = \<lparr>er_gas = \<lparr>gu_l2_gas = 0, gu_l1_gas = 0, gu_l1_data_gas = 0\<rparr>,
     er_computation_resources = \<lparr>n_steps = 0, n_memory_holes = 0, builtin_instance_counter = []\<rparr>,
     er_da_resources = \<lparr>dr_l1_gas = 0, dr_l1_data_gas = 0\<rparr>\<rparr>"

definition receipt_from :: "confirmed_receipt \<Rightarrow> tx_with_hash \<Rightarrow> receipt option" where
  "receipt_from r t =
     (if cr_actual_fee r < 2 ^ 128 then
        (let fee = \<lparr>fi_l1_gas_price = 0, fi_l2_gas_price = 0, fi_l1_data_gas_price = 0, fi_overall_fee = cr_actual_fee r,
               fi_unit = (if 3 \<le> tx_version (twh_transaction t) then Fri else Wei)\<rparr>
         in (case twh_transaction t of
            Invoke _ \<Rightarrow> Some (RInvoke \<lparr>ir_fee = fee, ir_events = cr_events r, ir_messages_sent = cr_l2_to_l1_messages r,
              ir_revert_error = cr_revert_error r, ir_execution_resources = default_resources\<rparr>)
          | Declare _ \<Rightarrow> Some (RDeclare \<lparr>dr_fee = fee, dr_events = cr_events r, dr_messages_sent = cr_l2_to_l1_messages r,
              dr_revert_error = cr_revert_error r, dr_execution_resources = default_resources\<rparr>)
          | L1Handler _ \<Rightarrow> Some (RL1Handler \<lparr>lr_fee = fee, lr_events = cr_events r, lr_message_hash = 0,
              lr_messages_sent = cr_l2_to_l1_messages r, lr_revert_error = cr_revert_error r,
              lr_execution_resources = default_resources\<rparr>)
          | DeployAccount _ \<Rightarrow> Some (RDeployAccount \<lparr>ar_fee = fee, ar_events = cr_events r,
              ar_messages_sent = cr_l2_to_l1_messages r, ar_revert_error = cr_revert_error r,
              ar_execution_resources = default_resources, ar_contract_address = 0\<rparr>)
          | Deploy _ \<Rightarrow> None))
      else None)"

definition or_default :: "felt option \<Rightarrow> felt" where
  "or_default x = (case x of Some v \<Rightarrow> v | None \<Rightarrow> 0)"

definition synced_header :: "gw_block \<Rightarrow> nat \<Rightarrow> gas_price \<Rightarrow> gas_price \<Rightarrow> gas_price \<Rightarrow> header" where
  "synced_header b num_txs l1 l2 l1_data =
     \<lparr>hd_parent_hash = gb_parent_block_hash b, hd_number = or_default (gb_block_number b), hd_state_diff_commitment = 0,
      hd_transactions_commitment = or_default (gb_transaction_commitment b), hd_receipts_commitment = 0,
      hd_events_commitment = or_default (gb_event_commitment b), hd_state_root = or_default (gb_state_root b),
      hd_transaction_count = as_u32 num_txs, hd_events_count = 0, hd_state_diff_length = 0, hd_timestamp = gb_timestamp b,
      hd_sequencer_address = or_default (gb_sequencer_address b), hd_l1_gas_prices = l1, hd_l1_data_gas_prices = l1_data,
      hd_l2_gas_prices = l2, hd_l1_da_mode = gb_l1_da_mode b,
      hd_protocol_version = (case gb_starknet_version b of Some v \<Rightarrow> v | None \<Rightarrow> version_default)\<rparr>"

definition extract_block_data ::
    "state_update_with_block \<Rightarrow>
     (tx_try_from_error + sealed_block_with_status \<times> receipt list \<times> 'cls state_updates_with_classes) option" where
  "extract_block_data data =
     (let b = sub_block data in
      Option.bind (finality_of (gb_status b)) (\<lambda>status.
        (case collect_results (map tx_try_from (gb_transactions b)) of
           Inl e \<Rightarrow> Some (Inl e)
         | Inr transactions \<Rightarrow>
             Option.bind (those (map (\<lambda>(r, t). receipt_from r t) (zip (gb_transaction_receipts b) transactions))) (\<lambda>receipts.
             Option.bind (to_gas_prices (gb_l1_gas_price b)) (\<lambda>l1.
             Option.bind (to_gas_prices (gb_l2_gas_price b)) (\<lambda>l2.
             Option.bind (to_gas_prices (gb_l1_data_gas_price b)) (\<lambda>l1_data.
               Some (Inr
                 (\<lparr>sbs_block = \<lparr>sb_hash = or_default (gb_block_hash b),
                     sb_header = synced_header b (length transactions) l1 l2 l1_data, sb_body = transactions\<rparr>,
                   sbs_status = status\<rparr>,
                  receipts,
                  \<lparr>su_state_updates = state_updates_from (sub_state_diff data), su_classes = []\<rparr>)))))))))"

fun store_blocks ::
    "state_update_with_block list \<Rightarrow> ('cls, 'info) db \<Rightarrow> (('cls, 'info) db \<times> ('ce stage_error + unit)) option" where
  "store_blocks [] d = Some (d, Inr ())"
| "store_blocks (b # bs) d = (case extract_block_data b of
      None \<Rightarrow> None
    | Some (Inl e) \<Rightarrow> Some (d, Inl (StageOther e))
    | Some (Inr (blk, receipts, state_updates)) \<Rightarrow>
        store_blocks bs (insert_block_with_states_and_receipts blk state_updates receipts [] d))"

definition blocks_execute ::
    "('gcls, 'cls, 'ce) gateway \<Rightarrow> nat \<Rightarrow> block_number \<Rightarrow> block_number \<Rightarrow> ('cls, 'info) db \<Rightarrow>
     (('cls, 'info) db \<times> ('ce stage_error + unit)) option" where
  "blocks_execute gw batch_size from to d = (case download_blocks gw batch_size from to of
      None \<Rightarrow> None
    | Some (Inl e) \<Rightarrow> Some (d, Inl (StageBlocks e))
    | Some (Inr blocks) \<Rightarrow> store_blocks blocks d)"

section \<open>The class stage\<close>

definition fetch_class ::
    "('gcls, 'cls, 'ce) gateway \<Rightarrow> nat \<Rightarrow> block_number \<Rightarrow> class_hash \<Rightarrow> 'ce classes_error + 'cls" where
  "fetch_class gw attempt block hash = (case gw_get_class gw attempt hash block of
      Inl e \<Rightarrow> Inl (ClassesGateway e)
    | Inr c \<Rightarrow> (case gw_convert_class gw c of Inl e \<Rightarrow> Inl (ClassesConversion e) | Inr cls \<Rightarrow> Inr cls))"

fun classes_rate_limited :: "'ce classes_error \<Rightarrow> bool" where
  "classes_rate_limited (ClassesGateway e) = is_rate_limited e"
| "classes_rate_limited _ = False"

definition fetch_classes_with_retry ::
    "('gcls, 'cls, 'ce) gateway \<Rightarrow> class_hash list \<Rightarrow> block_number \<Rightarrow> 'ce classes_error + 'cls list" where
  "fetch_classes_with_retry gw classes block =
     retry_when classes_rate_limited (gw_retries gw) 0 (\<lambda>attempt. collect_results (map (fetch_class gw attempt block) classes))"

function chunk_list :: "nat \<Rightarrow> 'a list \<Rightarrow> 'a list list" where
  "chunk_list k xs = (if k = 0 \<or> xs = [] then [] else take k xs # chunk_list k (drop k xs))"
  by pat_completeness auto

termination
  by (relation "measure (\<lambda>(k, xs). length xs)") auto

definition download_classes ::
    "('gcls, 'cls, 'ce) gateway \<Rightarrow> nat \<Rightarrow> class_hash list \<Rightarrow> block_number \<Rightarrow> ('ce classes_error + 'cls list) option" where
  "download_classes gw batch_size hashes block =
     (if batch_size = 0 then None
      else Some (rbind (collect_results (map (\<lambda>chunk. fetch_classes_with_retry gw chunk block) (chunk_list batch_size hashes)))
        (\<lambda>batches. Inr (concat batches))))"

fun collect_classes ::
    "('gcls, 'cls, 'ce) gateway \<Rightarrow> nat \<Rightarrow> ('cls, 'info) db \<Rightarrow> block_number list \<Rightarrow>
     ('ce stage_error + (class_hash \<times> 'cls) list) option" where
  "collect_classes gw batch_size d [] = Some (Inr [])"
| "collect_classes gw batch_size d (block # blocks) = (case declared_classes_of d (Num block) of
      Inl e \<Rightarrow> Some (Inl (StageProvider e))
    | Inr None \<Rightarrow> Some (Inl (StageClasses (MissingBlockDeclaredClasses block)))
    | Inr (Some declared) \<Rightarrow>
        (let class_hashes = map fst declared in
         (case download_classes gw batch_size class_hashes block of
            None \<Rightarrow> None
          | Some (Inl e) \<Rightarrow> Some (Inl (StageClasses e))
          | Some (Inr artifacts) \<Rightarrow>
              map_option (\<lambda>r. rbind r (\<lambda>rest. Inr (zip class_hashes artifacts @ rest)))
                (collect_classes gw batch_size d blocks))))"

definition classes_execute ::
    "('gcls, 'cls, 'ce) gateway \<Rightarrow> nat \<Rightarrow> block_number \<Rightarrow> block_number \<Rightarrow> ('cls, 'info) db \<Rightarrow>
     (('cls, 'info) db \<times> ('ce stage_error + unit)) option" where
  "classes_execute gw batch_size from to d = (case collect_classes gw batch_size d [from..<Suc to] of
      None \<Rightarrow> None
    | Some (Inl e) \<Rightarrow> Some (d, Inl e)
    | Some (Inr classes) \<Rightarrow> Some (fold (\<lambda>(hash, cls). set_class hash cls) classes d, Inr ()))"

section \<open>The pipeline\<close>

record ('cls, 'info, 'ce) stage =
  stage_id :: string
  stage_execute :: "block_number \<Rightarrow> block_number \<Rightarrow> ('cls, 'info) db \<Rightarrow> (('cls, 'info) db \<times> ('ce stage_error + unit)) option"

datatype 'ce pipeline_error = PipelineStage "'ce stage_error" | PipelineProvider provider_error

definition blocks_stage :: "('gcls, 'cls, 'ce) gateway \<Rightarrow> nat \<Rightarrow> ('cls, 'info, 'ce) stage" where
  "blocks_stage gw batch_size = \<lparr>stage_id = ''Blocks'', stage_execute = blocks_execute gw batch_size\<rparr>"

definition classes_stage :: "('gcls, 'cls, 'ce) gateway \<Rightarrow> nat \<Rightarrow> ('cls, 'info, 'ce) stage" where
  "classes_stage gw batch_size = \<lparr>stage_id = ''Classes'', stage_execute = classes_execute gw batch_size\<rparr>"

fun run_stages ::
    "block_number \<Rightarrow> ('cls, 'info, 'ce) stage list \<Rightarrow> ('cls, 'info) db \<Rightarrow>
     (('cls, 'info) db \<times> ('ce pipeline_error + block_number)) option" where
  "run_stages to [] d = Some (d, Inr to)"
| "run_stages to (s # ss) d = (case checkpoint d (stage_id s) of
      Inl e \<Rightarrow> Some (d, Inl (PipelineProvider e))
    | Inr c \<Rightarrow>
        (let ckpt = (case c of Some n \<Rightarrow> n | None \<Rightarrow> 0) in
         if to \<le> ckpt then (if ss = [] then Some (d, Inr ckpt) else run_stages to ss d)
         else (case stage_execute s (ckpt + 1) to d of
            None \<Rightarrow> None
          | Some (d', Inl e) \<Rightarrow> Some (d', Inl (PipelineStage e))
          | Some (d', Inr _) \<Rightarrow> run_stages to ss (set_checkpoint (stage_id s) to d'))))"

text \<open>The index of the last stage of an empty list underflows.\<close>

definition run_once_until ::
    "block_number \<Rightarrow> ('cls, 'info, 'ce) stage list \<Rightarrow> ('cls, 'info) db \<Rightarrow>
     (('cls, 'info) db \<times> ('ce pipeline_error + block_number)) option" where
  "run_once_until to stages d = (if stages = [] then None else run_stages to stages d)"

text \<open>The inner loop, for one tip.  It returns the chunk it has come to.\<close>

partial_function (option) run_until_tip ::
    "nat \<Rightarrow> ('cls, 'info, 'ce) stage list \<Rightarrow> block_number \<Rightarrow> block_number \<Rightarrow> ('cls, 'info) db \<Rightarrow>
     (('cls, 'info) db \<times> ('ce pipeline_error + block_number)) option" where
  "run_until_tip chunk_size stages tip current_chunk_tip d =
     Option.bind (run_once_until (min current_chunk_tip tip) stages d) (\<lambda>(d', r).
       (case r of
          Inl e \<Rightarrow> Some (d', Inl e)
        | Inr last_block_processed \<Rightarrow>
            if tip \<le> last_block_processed then Some (d', Inr current_chunk_tip)
            else run_until_tip chunk_size stages tip (min (last_block_processed + chunk_size) tip) d'))"

text \<open>
  The outer loop.  After the chunks of a tip it waits until the tip changes; it would only end when all
  senders of the channel were dropped, and the pipeline keeps one of them itself.  So for the values
  of the tip that it has seen so far the loop either waits for the next one, at the chunk it
  has come to, or has returned an error.
\<close>

datatype 'ce pipeline_outcome =
  WaitingForTip block_number
| RunFailed "'ce pipeline_error"

fun run_tips ::
    "nat \<Rightarrow> ('cls, 'info, 'ce) stage list \<Rightarrow> block_number \<Rightarrow> block_number option list \<Rightarrow> ('cls, 'info) db \<Rightarrow>
     (('cls, 'info) db \<times> 'ce pipeline_outcome) option" where
  "run_tips chunk_size stages current_chunk_tip [] d = Some (d, WaitingForTip current_chunk_tip)"
| "run_tips chunk_size stages current_chunk_tip (None # tips) d = run_tips chunk_size stages current_chunk_tip tips d"
| "run_tips chunk_size stages current_chunk_tip (Some tip # tips) d =
     (case run_until_tip chunk_size stages tip current_chunk_tip d of
        None \<Rightarrow> None
      | Some (d', Inl e) \<Rightarrow> Some (d', RunFailed e)
      | Some (d', Inr c) \<Rightarrow> run_tips chunk_size stages c tips d')"

text \<open>The tip is looked at once before the first wait, and then after every change.\<close>

definition pipeline_run ::
    "nat \<Rightarrow> ('cls, 'info, 'ce) stage list \<Rightarrow> block_number option \<Rightarrow> block_number option list \<Rightarrow> ('cls, 'info) db \<Rightarrow>
     (('cls, 'info) db \<times> 'ce pipeline_outcome) option" where
  "pipeline_run chunk_size stages tip changes d = run_tips chunk_size stages chunk_size (tip # changes) d"

end
