(* ===== verification/Sync_Props.thy ===== *)
theory Sync_Props
  imports Sync_Stages Storage_Properties
begin

text \<open>
  Syncing reaches its tip.  What the pipeline asks of its stages is a locale: a stage that is
  run on the blocks after those it has processed, when the stages before it have processed
  them, succeeds and has then processed them too, and does not undo the work of the others.
  The locale shows that the pipeline returns and has processed everything up to the tips; the
  block and class stages are an instance of it.
\<close>

definition stage_checkpoint_of :: "('cls, 'info) db \<Rightarrow> ('cls, 'info, 'ce) stage \<Rightarrow> block_number" where
  "stage_checkpoint_of d s = (case tbl_get (tb_StageCheckpoints d) (stage_id s) of Some c \<Rightarrow> sc_block c | None \<Rightarrow> 0)"

lemma stage_checkpoint_set:
  "stage_checkpoint_of (set_checkpoint i n d) s = (if stage_id s = i then n else stage_checkpoint_of d s)"
  by (simp add: stage_checkpoint_of_def set_checkpoint_def table_simps)

lemma run_stages_Cons:
  "run_stages to (s # ss) d =
     (if to \<le> stage_checkpoint_of d s
      then (if ss = [] then Some (d, Inr (stage_checkpoint_of d s)) else run_stages to ss d)
      else (case stage_execute s (stage_checkpoint_of d s + 1) to d of
         None \<Rightarrow> None
       | Some (d', Inl e) \<Rightarrow> Some (d', Inl (PipelineStage e))
       | Some (d', Inr _) \<Rightarrow> run_stages to ss (set_checkpoint (stage_id s) to d')))"
  by (simp add: checkpoint_def stage_checkpoint_of_def Let_def split: option.split)

declare run_stages.simps(2) [simp del]

text \<open>Every stage has processed the blocks up to its checkpoint.\<close>

definition stages_consistent ::
    "('cls, 'info, 'ce) stage list \<Rightarrow> (nat \<Rightarrow> block_number \<Rightarrow> ('cls, 'info) db \<Rightarrow> bool) \<Rightarrow> (('cls, 'info) db \<Rightarrow> bool) \<Rightarrow>
     ('cls, 'info) db \<Rightarrow> bool" where
  "stages_consistent stages synced invar d \<longleftrightarrow> invar d \<and> (\<forall>i < length stages. synced i (stage_checkpoint_of d (stages ! i)) d)"

section \<open>The pipeline over stages that keep their contract\<close>

locale staged_sync =
  fixes stages :: "('cls, 'info, 'ce) stage list"
    and synced :: "nat \<Rightarrow> block_number \<Rightarrow> ('cls, 'info) db \<Rightarrow> bool"
    and inv :: "('cls, 'info) db \<Rightarrow> bool"
    and head_block :: block_number
  assumes some_stage: "stages \<noteq> []" and ids: "distinct (map stage_id stages)"
    and synced_mono: "synced i n d \<Longrightarrow> m \<le> n \<Longrightarrow> synced i m d"
    and execute: "inv d \<Longrightarrow> i < length stages \<Longrightarrow> c < t \<Longrightarrow> t \<le> head_block \<Longrightarrow> synced i c d \<Longrightarrow> \<forall>j < i. synced j t d \<Longrightarrow>
      \<exists>d'. stage_execute (stages ! i) (c + 1) t d = Some (d', Inr ()) \<and> inv d' \<and> synced i t d' \<and>
        (\<forall>j < length stages. \<forall>n. j \<noteq> i \<longrightarrow> synced j n d \<longrightarrow> synced j n d') \<and> tb_StageCheckpoints d' = tb_StageCheckpoints d"
    and inv_checkpoint: "inv d \<Longrightarrow> inv (set_checkpoint s n d)"
    and synced_checkpoint: "synced j n d \<Longrightarrow> synced j n (set_checkpoint s m d)"
begin

abbreviation ckpt :: "('cls, 'info) db \<Rightarrow> nat \<Rightarrow> block_number" where
  "ckpt d i \<equiv> stage_checkpoint_of d (stages ! i)"

abbreviation consistent :: "('cls, 'info) db \<Rightarrow> bool" where
  "consistent \<equiv> stages_consistent stages synced inv"

lemmas consistent_def = stages_consistent_def [of stages synced inv]

lemma run_stage:
  assumes d: "consistent d" and i: "i < length stages" and t: "ckpt d i < t" "t \<le> head_block" and prev: "\<forall>j < i. t \<le> ckpt d j"
  obtains d' where "stage_execute (stages ! i) (ckpt d i + 1) t d = Some (d', Inr ())"
    and "consistent (set_checkpoint (stage_id (stages ! i)) t d')"
    and "\<And>j. j < length stages \<Longrightarrow> ckpt (set_checkpoint (stage_id (stages ! i)) t d') j = (if j = i then t else ckpt d j)"
proof -
  have "\<forall>j < i. synced j t d" using d prev i synced_mono by (metis consistent_def less_trans)
  then obtain d' where d': "stage_execute (stages ! i) (ckpt d i + 1) t d = Some (d', Inr ())" "inv d'" "synced i t d'"
    "\<forall>j < length stages. \<forall>n. j \<noteq> i \<longrightarrow> synced j n d \<longrightarrow> synced j n d'" "tb_StageCheckpoints d' = tb_StageCheckpoints d"
    using execute [of d i "ckpt d i" t] d i t by (auto simp: consistent_def)
  have ck: "ckpt (set_checkpoint (stage_id (stages ! i)) t d') j = (if j = i then t else ckpt d j)" if "j < length stages" for j
    using nth_eq_iff_index_eq [OF ids, of j i] that i d'(5)
    by (auto simp: stage_checkpoint_set) (simp add: stage_checkpoint_of_def)
  moreover have "consistent (set_checkpoint (stage_id (stages ! i)) t d')"
    using d d'(2,3,4) ck by (auto simp: consistent_def intro: inv_checkpoint synced_checkpoint)
  ultimately show ?thesis using that d'(1) by blast
qed

lemma run_stages_from:
  "i \<le> length stages \<Longrightarrow> consistent d \<Longrightarrow> t \<le> head_block \<Longrightarrow> \<forall>j < i. t \<le> ckpt d j \<Longrightarrow>
   \<exists>d' r. run_stages t (drop i stages) d = Some (d', Inr r) \<and> consistent d' \<and>
     (\<forall>j < length stages. ckpt d' j = max (ckpt d j) (if i \<le> j then t else 0)) \<and>
     (i < length stages \<longrightarrow> r = max (ckpt d (length stages - 1)) t)"
proof (induction "length stages - i" arbitrary: i d)
  case 0
  then show ?case by simp
next
  case (Suc k)
  then have i: "i < length stages" by linarith
  have k: "k = length stages - Suc i" "Suc i \<le> length stages" using Suc.hyps(2) i by simp_all
  have drop: "drop i stages = stages ! i # drop (Suc i) stages" using i by (simp add: Cons_nth_drop_Suc)
  have last: "drop (Suc i) stages = [] \<longleftrightarrow> i = length stages - 1" using i by auto
  show ?case
  proof (cases "t \<le> ckpt d i")
    case skip: True
    then have "\<forall>j < Suc i. t \<le> ckpt d j" using Suc.prems(4) by (simp add: less_Suc_eq)
    from Suc.hyps(1) [OF k Suc.prems(2,3) this] obtain d' r where
      IH: "run_stages t (drop (Suc i) stages) d = Some (d', Inr r)" "consistent d'"
        "\<forall>j < length stages. ckpt d' j = max (ckpt d j) (if Suc i \<le> j then t else 0)"
        "Suc i < length stages \<longrightarrow> r = max (ckpt d (length stages - 1)) t" by blast
    have ck: "\<forall>j < length stages. ckpt d' j = max (ckpt d j) (if i \<le> j then t else 0)" using IH(3) skip by (auto simp: le_Suc_eq not_less_eq_eq)
    show ?thesis
    proof (cases "drop (Suc i) stages = []")
      case True
      then have "run_stages t (drop i stages) d = Some (d, Inr (ckpt d i))" "d' = d" using skip IH(1) by (simp_all add: drop run_stages_Cons)
      moreover have "ckpt d i = max (ckpt d (length stages - 1)) t" using skip last True by (simp add: max_absorb1)
      ultimately show ?thesis using ck IH(2) by blast
    next
      case False
      then have "run_stages t (drop i stages) d = Some (d', Inr r)" using skip IH(1) by (simp add: drop run_stages_Cons)
      moreover have "r = max (ckpt d (length stages - 1)) t" using IH(4) False by simp
      ultimately show ?thesis using ck IH(2) by blast
    qed
  next
    case False
    then obtain d1 where d1: "stage_execute (stages ! i) (ckpt d i + 1) t d = Some (d1, Inr ())"
      "consistent (set_checkpoint (stage_id (stages ! i)) t d1)"
      "\<And>j. j < length stages \<Longrightarrow> ckpt (set_checkpoint (stage_id (stages ! i)) t d1) j = (if j = i then t else ckpt d j)"
      using run_stage [OF Suc.prems(2) i _ Suc.prems(3,4)] by auto
    let ?d1 = "set_checkpoint (stage_id (stages ! i)) t d1"
    have "\<forall>j < Suc i. t \<le> ckpt ?d1 j" using Suc.prems(4) d1(3) i by (auto simp: less_Suc_eq)
    from Suc.hyps(1) [OF k d1(2) Suc.prems(3) this] obtain d' r where
      IH: "run_stages t (drop (Suc i) stages) ?d1 = Some (d', Inr r)" "consistent d'"
        "\<forall>j < length stages. ckpt d' j = max (ckpt ?d1 j) (if Suc i \<le> j then t else 0)"
        "Suc i < length stages \<longrightarrow> r = max (ckpt ?d1 (length stages - 1)) t" by blast
    have "\<forall>j < length stages. ckpt d' j = max (ckpt d j) (if i \<le> j then t else 0)" using IH(3) d1(3) False by (auto simp: Suc_le_eq le_less)
    moreover have "r = max (ckpt d (length stages - 1)) t"
    proof (cases "Suc i < length stages")
      case True
      then have "length stages - 1 \<noteq> i" by simp
      then show ?thesis using True IH(4) d1(3) [of "length stages - 1"] by simp
    next
      case last': False
      then have "length stages - 1 = i" using i by simp
      then show ?thesis using last' IH(1) False i by (simp add: not_less max_def)
    qed
    moreover have "run_stages t (drop i stages) d = Some (d', Inr r)" using IH(1) False d1(1) by (simp add: drop run_stages_Cons)
    ultimately show ?thesis using IH(2) by blast
  qed
qed

lemma run_once:
  assumes "consistent d" "t \<le> head_block"
  obtains d' where "run_once_until t stages d = Some (d', Inr (max (ckpt d (length stages - 1)) t))" "consistent d'"
    "\<And>j. j < length stages \<Longrightarrow> ckpt d' j = max (ckpt d j) t"
  using run_stages_from [of 0 d t] assms some_stage by (auto simp: run_once_until_def)

lemma run_until_tip_reaches:
  "0 < chunk \<Longrightarrow> tip \<le> head_block \<Longrightarrow> consistent d \<Longrightarrow> \<forall>j < length stages. ckpt d (length stages - 1) \<le> ckpt d j \<Longrightarrow>
   \<exists>d' c'. run_until_tip chunk stages tip c d = Some (d', Inr c') \<and> consistent d' \<and>
     (\<forall>j < length stages. ckpt d' j = max (ckpt d j) tip)"
proof (induction "tip - c" arbitrary: c d rule: less_induct)
  case less
  let ?L = "length stages - 1"
  have len: "?L < length stages" using some_stage by simp
  have "min c tip \<le> head_block" using less.prems(2) by simp
  then obtain d1 where d1: "run_once_until (min c tip) stages d = Some (d1, Inr (max (ckpt d ?L) (min c tip)))" "consistent d1"
    "\<And>j. j < length stages \<Longrightarrow> ckpt d1 j = max (ckpt d j) (min c tip)" using run_once less.prems(3) by blast
  let ?last = "max (ckpt d ?L) (min c tip)"
  show ?case
  proof (cases "tip \<le> ?last")
    case True
    have "ckpt d1 j = max (ckpt d j) tip" if "j < length stages" for j
      using d1(3) [OF that] True less.prems(4) that by (auto simp: max_def min_def split: if_splits)
    then show ?thesis using True d1(1,2) by (subst run_until_tip.simps) auto
  next
    case False
    let ?c' = "min (?last + chunk) tip"
    have "tip - ?c' < tip - c" using False less.prems(1) by (auto simp: min_def max_def split: if_splits)
    moreover have "\<forall>j < length stages. ckpt d1 ?L \<le> ckpt d1 j"
      using less.prems(4) d1(3) len by (metis max.mono order_refl)
    ultimately obtain d' c' where IH: "run_until_tip chunk stages tip ?c' d1 = Some (d', Inr c')" "consistent d'"
      "\<forall>j < length stages. ckpt d' j = max (ckpt d1 j) tip"
      using less.hyps [of ?c' d1] less.prems(1,2) d1(2) by blast
    have "\<forall>j < length stages. ckpt d' j = max (ckpt d j) tip" using IH(3) d1(3) by auto
    then show ?thesis using IH(1,2) d1(1) False by (subst run_until_tip.simps) auto
  qed
qed

lemma run_tips_reaches:
  "0 < chunk \<Longrightarrow> \<forall>tip. Some tip \<in> set tips \<longrightarrow> tip \<le> head_block \<Longrightarrow> consistent d \<Longrightarrow>
   \<forall>j < length stages. ckpt d (length stages - 1) \<le> ckpt d j \<Longrightarrow>
   \<exists>d' c'. run_tips chunk stages c tips d = Some (d', WaitingForTip c') \<and> consistent d' \<and>
     (\<forall>j < length stages. ckpt d j \<le> ckpt d' j \<and> (\<forall>tip. Some tip \<in> set tips \<longrightarrow> tip \<le> ckpt d' j))"
proof (induction tips arbitrary: c d)
  case (Cons tip tips)
  show ?case
  proof (cases tip)
    case None
    then show ?thesis using Cons.IH [OF Cons.prems(1) _ Cons.prems(3,4)] Cons.prems(2) by auto
  next
    case (Some t)
    then obtain d1 c1 where d1: "run_until_tip chunk stages t c d = Some (d1, Inr c1)" "consistent d1"
      "\<forall>j < length stages. ckpt d1 j = max (ckpt d j) t"
      using run_until_tip_reaches [OF Cons.prems(1) _ Cons.prems(3,4), of t c] Cons.prems(2) by auto
    have len: "length stages - 1 < length stages" using some_stage by simp
    have "\<forall>j < length stages. ckpt d1 (length stages - 1) \<le> ckpt d1 j" using Cons.prems(4) d1(3) len by (metis max.mono order_refl)
    then obtain d' c' where "run_tips chunk stages c1 tips d1 = Some (d', WaitingForTip c')" "consistent d'"
      "\<forall>j < length stages. ckpt d1 j \<le> ckpt d' j \<and> (\<forall>tip. Some tip \<in> set tips \<longrightarrow> tip \<le> ckpt d' j)"
      using Cons.IH [OF Cons.prems(1) _ d1(2), of c1] Cons.prems(2) by auto
    moreover have "\<forall>j < length stages. ckpt d j \<le> ckpt d1 j \<and> t \<le> ckpt d1 j" using d1(3) by simp
    ultimately show ?thesis using d1(1) Some by (intro exI [of _ d'] exI [of _ c']) (auto intro: order_trans)
  qed
qed simp

end

section \<open>The gateway\<close>

text \<open>
  A gateway that serves the blocks up to a number, and their classes: a request is answered or
  rate limited, and no longer limited at the last attempt; a block converts, has the number
  that was asked for, and a receipt for every transaction.
\<close>

definition serves_blocks ::
    "('gcls, 'cls, 'ce) gateway \<Rightarrow> block_number \<Rightarrow> (block_number \<Rightarrow> sealed_block_with_status) \<Rightarrow> (block_number \<Rightarrow> receipt list) \<Rightarrow>
     (block_number \<Rightarrow> state_updates) \<Rightarrow> bool" where
  "serves_blocks gw head_block block receipts updates \<longleftrightarrow> (\<forall>n. 1 \<le> n \<and> n \<le> head_block \<longrightarrow>
     (\<exists>data. (\<forall>k. gw_state_update_with_block gw k n = Inr data \<or> k < gw_retries gw \<and> gw_state_update_with_block gw k n = Inl RateLimited) \<and>
        extract_block_data data = Some (Inr (block n, receipts n, \<lparr>su_state_updates = updates n, su_classes = [] :: (class_hash, 'cls) table\<rparr>))) \<and>
     hd_number (sb_header (sbs_block (block n))) = n \<and> length (receipts n) = length (sb_body (sbs_block (block n))))"

definition serves_classes :: "('gcls, 'cls, 'ce) gateway \<Rightarrow> (class_hash \<Rightarrow> 'cls) \<Rightarrow> bool" where
  "serves_classes gw cls \<longleftrightarrow> (\<forall>k h n.
     (\<exists>c. gw_get_class gw k h n = Inr c \<and> gw_convert_class gw c = Inr (cls h)) \<or>
     k < gw_retries gw \<and> gw_get_class gw k h n = Inl RateLimited)"

lemma collect_results_cases:
  assumes "\<forall>x\<in>set xs. f x = Inr (g x) \<or> f x = Inl e"
  shows "collect_results (map f xs) = Inr (map g xs) \<or> collect_results (map f xs) = Inl e"
  using assms by (induction xs) auto

lemma retry_when_served:
  assumes served: "\<And>k. request k = Inr x \<or> k < m \<and> (\<exists>e. request k = Inl e \<and> again e)"
  shows "n + k = m \<Longrightarrow> retry_when again n k request = Inr x"
proof (induction n arbitrary: k)
  case 0
  then show ?case using served [of k] by auto
next
  case (Suc n)
  then show ?case using served [of k] Suc.IH [of "Suc k"] by auto
qed

declare retry_when.simps [simp del]

lemma collect_results_batches: "(\<And>x. x \<in> set xs \<Longrightarrow> f x = Inr (g x)) \<Longrightarrow> collect_results (map f xs) = Inr (map g xs)"
  by (induction xs) auto

lemma served_batch:
  assumes "\<forall>x\<in>set xs. \<forall>k. f k x = Inr (g x) \<or> k < m \<and> f k x = Inl e" "again e"
  shows "retry_when again m 0 (\<lambda>k. collect_results (map (f k) xs)) = Inr (map g xs)"
proof (rule retry_when_served)
  show "collect_results (map (f k) xs) = Inr (map g xs) \<or> k < m \<and> (\<exists>e. collect_results (map (f k) xs) = Inl e \<and> again e)" for k
  proof (cases "k < m")
    case True
    then show ?thesis using assms collect_results_cases [of xs "f k" g e] by blast
  next
    case False
    then have "f k x = Inr (g x)" if "x \<in> set xs" for x using assms(1) that by blast
    then show ?thesis using collect_results_batches [of xs "f k" g] by blast
  qed
qed simp

lemma concat_chunk_list: "0 < k \<Longrightarrow> concat (chunk_list k xs) = xs"
proof (induction k xs rule: chunk_list.induct)
  case (1 k xs)
  then show ?case by (subst chunk_list.simps) auto
qed

declare chunk_list.simps [simp del]

lemma download_served:
  assumes served: "\<And>a b. lo \<le> a \<Longrightarrow> b \<le> to \<Longrightarrow> fetch_blocks_with_retry gw a b = Inr (map data [a..<Suc b])"
    and bsz: "0 < bsz"
  shows "lo \<le> start \<Longrightarrow> download_batches gw bsz start to = Inr (map data [start..<Suc to])"
proof (induction "Suc to - start" arbitrary: start rule: less_induct)
  case less
  show ?case
  proof (cases "to < start")
    case True
    then show ?thesis by (subst download_batches.simps) simp
  next
    case False
    let ?b = "min (start + bsz - 1) to"
    have "download_batches gw bsz (start + bsz) to = Inr (map data [start + bsz..<Suc to])"
      using less False bsz by simp
    moreover have "[start..<Suc to] = [start..<Suc ?b] @ [start + bsz..<Suc to]"
    proof (cases "start + bsz \<le> to")
      case True
      then have "Suc ?b = start + bsz" using bsz by simp
      then show ?thesis using upt_add_eq_append [of start "start + bsz" "Suc to - (start + bsz)"] True by simp
    next
      case beyond: False
      then have "Suc ?b = Suc to" using bsz by (simp add: min_def) linarith
      then show ?thesis using beyond by simp
    qed
    ultimately show ?thesis
      using False bsz served [of start ?b] less.prems by (subst download_batches.simps) (simp del: upt_Suc)
  qed
qed

declare download_batches.simps [simp del]

section \<open>The block and class stages\<close>

lemma fetch_served:
  assumes "serves_blocks gw head_block block receipts updates" "1 \<le> a" "b \<le> head_block"
  defines "data \<equiv> \<lambda>n. THE x. gw_state_update_with_block gw (gw_retries gw) n = Inr x"
  shows "fetch_blocks_with_retry gw a b = Inr (map data [a..<Suc b])"
  unfolding fetch_blocks_with_retry_def fetch_block_range_def
proof (rule served_batch [where e = RateLimited])
  show "\<forall>n\<in>set [a..<Suc b]. \<forall>k. gw_state_update_with_block gw k n = Inr (data n) \<or>
      k < gw_retries gw \<and> gw_state_update_with_block gw k n = Inl RateLimited"
  proof (intro ballI allI)
    fix n k assume "n \<in> set [a..<Suc b]"
    then have "1 \<le> n \<and> n \<le> head_block" using assms(2,3) by auto
    then obtain x where x: "\<forall>k. gw_state_update_with_block gw k n = Inr x \<or> k < gw_retries gw \<and> gw_state_update_with_block gw k n = Inl RateLimited"
      using assms(1) unfolding serves_blocks_def by blast
    then have "gw_state_update_with_block gw (gw_retries gw) n = Inr x" by blast
    then have "data n = x" by (simp add: data_def)
    then show "gw_state_update_with_block gw k n = Inr (data n) \<or> k < gw_retries gw \<and> gw_state_update_with_block gw k n = Inl RateLimited"
      using x by simp
  qed
qed simp

definition store_served :: "(block_number \<Rightarrow> sealed_block_with_status) \<Rightarrow> (block_number \<Rightarrow> receipt list) \<Rightarrow> (block_number \<Rightarrow> state_updates) \<Rightarrow>
    block_number \<Rightarrow> ('cls, 'info) db \<Rightarrow> ('cls, 'info) db" where
  "store_served block receipts updates n =
     insert_block (block n) \<lparr>su_state_updates = updates n, su_classes = []\<rparr> (receipts n) []"

lemma blocks_execute_served:
  assumes gw: "serves_blocks (gw :: ('gcls, 'cls, 'ce) gateway) head_block block receipts updates" and range: "1 \<le> a" "b \<le> head_block" "0 < bsz"
  shows "blocks_execute gw bsz a b (d :: ('cls, 'info) db) = Some (fold (store_served block receipts updates) [a..<Suc b] d, Inr ())"
proof -
  define data where "data = (\<lambda>n. THE x. gw_state_update_with_block gw (gw_retries gw) n = Inr x)"
  have "download_batches gw bsz a b = Inr (map data [a..<Suc b])"
  proof (rule download_served [where lo = a, OF _ range(3) order_refl])
    fix i j assume "a \<le> i" "j \<le> b"
    then show "fetch_blocks_with_retry gw i j = Inr (map data [i..<Suc j])"
      unfolding data_def using fetch_served [OF gw, of i j] range(1,2) by simp
  qed
  moreover have "extract_block_data (data n) = Some (Inr (block n, receipts n, \<lparr>su_state_updates = updates n, su_classes = [] :: (class_hash, 'cls) table\<rparr>))"
    if n: "1 \<le> n" "n \<le> head_block" for n
  proof -
    obtain x where x: "\<forall>k. gw_state_update_with_block gw k n = Inr x \<or> k < gw_retries gw \<and> gw_state_update_with_block gw k n = Inl RateLimited"
      "extract_block_data x = Some (Inr (block n, receipts n, \<lparr>su_state_updates = updates n, su_classes = [] :: (class_hash, 'cls) table\<rparr>))"
      using gw n unfolding serves_blocks_def by blast
    then have "gw_state_update_with_block gw (gw_retries gw) n = Inr x" by blast
    then show ?thesis using x(2) by (simp add: data_def)
  qed
  then have "\<forall>n\<in>set ns. 1 \<le> n \<and> n \<le> head_block \<Longrightarrow>
      store_blocks (map data ns) d = Some (fold (store_served block receipts updates) ns d, Inr ())" for ns and d :: "('cls, 'info) db"
    by (induction ns arbitrary: d) (auto simp: store_served_def)
  from this [of "[a..<Suc b]" d] have "store_blocks (map data [a..<Suc b]) d = Some (fold (store_served block receipts updates) [a..<Suc b] d, Inr ())"
    using range by (simp del: upt_Suc)
  ultimately show ?thesis using range(3) by (simp add: blocks_execute_def download_blocks_def del: upt_Suc)
qed

text \<open>What a database must hold to have processed blocks and classes.\<close>

definition block_synced :: "(block_number \<Rightarrow> sealed_block_with_status) \<Rightarrow> (block_number \<Rightarrow> state_updates) \<Rightarrow> block_number \<Rightarrow> ('cls, 'info) db \<Rightarrow> bool" where
  "block_synced block updates n d \<longleftrightarrow> block_by_id d (Num n) = Inr (Some (unseal (sbs_block (block n)))) \<and>
     (\<forall>c\<in>tbl_keys (declared_classes (updates n)). (n, c) \<in> set (tb_ClassDeclarations d) \<and> c \<in> tbl_keys (tb_CompiledClassHashes d))"

definition classes_synced :: "(class_hash \<Rightarrow> 'cls) \<Rightarrow> (block_number \<Rightarrow> state_updates) \<Rightarrow> block_number \<Rightarrow> ('cls, 'info) db \<Rightarrow> bool" where
  "classes_synced cls updates n d \<longleftrightarrow> (\<forall>c\<in>tbl_keys (declared_classes (updates n)). tbl_get (tb_Classes d) c = Some (cls c))"

lemma tbl_keys_put_all: "tbl_keys (fold (\<lambda>e. tbl_put (fst e) (snd e)) es t) = tbl_keys es \<union> tbl_keys t"
proof (induction es arbitrary: t)
  case (Cons e es)
  then show ?case by (cases e) auto
qed simp

lemma set_dup_put_all: "set (fold (\<lambda>x. dup_put k (f x)) xs t) = (\<lambda>x. (k, f x)) ` set xs \<union> set t"
  by (induction xs arbitrary: t) auto

lemma set_dup_put_keys: "set (fold (dup_put k) xs t) = Pair k ` set xs \<union> set t"
  by (induction xs arbitrary: t) auto

lemma declared_after_insert:
  "tbl_keys (tb_CompiledClassHashes (insert_block b st rs xs d)) =
     tbl_keys (declared_classes (su_state_updates st)) \<union> tbl_keys (tb_CompiledClassHashes d)"
  "set (tb_ClassDeclarations d) \<subseteq> set (tb_ClassDeclarations (insert_block b st rs xs d))"
  "c \<in> tbl_keys (declared_classes (su_state_updates st)) \<Longrightarrow>
     (block_num b, c) \<in> set (tb_ClassDeclarations (insert_block b st rs xs d))"
  by (simp_all add: db_simps tbl_keys_put_all set_dup_put_all set_dup_put_keys) (auto simp: tbl_keys_def)

lemma block_synced_insert:
  fixes d :: "('cls, 'info) db"
  assumes gw: "serves_blocks gw head_block block receipts updates" and n: "1 \<le> n" "n \<le> head_block" and ok: "db_ok d"
  shows "block_synced block updates n (store_served block receipts updates n d)"
    and "block_synced block updates m d \<Longrightarrow> block_synced block updates m (store_served block receipts updates n d)"
    and "db_ok (store_served block receipts updates n d)"
    and "tb_Classes (store_served block receipts updates n d) = tb_Classes d"
    and "tb_StageCheckpoints (store_served block receipts updates n d) = tb_StageCheckpoints d"
proof -
  have b: "block_num (block n) = n" "length (receipts n) = length (sb_body (sbs_block (block n)))"
    using gw n unfolding serves_blocks_def by blast+
  let ?st = "\<lparr>su_state_updates = updates n, su_classes = []\<rparr> :: 'cls state_updates_with_classes"
  have "(n, c) \<in> set (tb_ClassDeclarations (store_served block receipts updates n d))" if "c \<in> tbl_keys (declared_classes (updates n))" for c
    using declared_after_insert(3) [of c ?st "block n" "receipts n" "[]" d] b(1) that by (simp add: store_served_def)
  then show new: "block_synced block updates n (store_served block receipts updates n d)"
    using b(1) block_inserted [of "Num n" "block n" ?st "receipts n" "[]" d]
    by (auto simp: block_synced_def store_served_def block_ids_def declared_after_insert(1))
  show "block_synced block updates m (store_served block receipts updates n d)" if "block_synced block updates m d"
  proof (cases "m = n")
    case False
    then show ?thesis
      using that block_kept [OF ok, of m "block n" ?st "receipts n" "[]"] b(1) declared_after_insert(2) [of d "block n" ?st "receipts n" "[]"]
      by (auto simp: block_synced_def store_served_def declared_after_insert(1) subset_iff)
  qed (use new in simp)
  show "db_ok (store_served block receipts updates n d)" unfolding store_served_def by (rule db_ok_insert_block) (use ok b(2) in simp_all)
  show "tb_Classes (store_served block receipts updates n d) = tb_Classes d"
    "tb_StageCheckpoints (store_served block receipts updates n d) = tb_StageCheckpoints d"
    by (simp_all add: store_served_def db_simps)
qed

lemma store_range:
  assumes gw: "serves_blocks gw head_block block receipts updates"
  shows "\<forall>n\<in>set ns. 1 \<le> n \<and> n \<le> head_block \<Longrightarrow> db_ok d \<Longrightarrow>
    db_ok (fold (store_served block receipts updates) ns d) \<and>
    (\<forall>m. m \<in> set ns \<or> block_synced block updates m d \<longrightarrow> block_synced block updates m (fold (store_served block receipts updates) ns d)) \<and>
    tb_Classes (fold (store_served block receipts updates) ns d) = tb_Classes d \<and>
    tb_StageCheckpoints (fold (store_served block receipts updates) ns d) = tb_StageCheckpoints d"
proof (induction ns arbitrary: d)
  case (Cons n ns)
  then have n: "1 \<le> n" "n \<le> head_block" by auto
  note ins = block_synced_insert [OF gw n Cons.prems(2)]
  show ?case using Cons.IH [of "store_served block receipts updates n d"] Cons.prems(1) ins by auto
qed simp

lemma set_map_filter_Some: "set (List.map_filter f xs) = {y. \<exists>x\<in>set xs. f x = Some y}"
  by (induction xs) (auto simp: List.map_filter_simps split: option.splits)

lemma declared_in_block_keys:
  "c \<in> tbl_keys (declared_in_block d n) \<longleftrightarrow> (n, c) \<in> set (tb_ClassDeclarations d) \<and> c \<in> tbl_keys (tb_CompiledClassHashes d)"
proof -
  have "tbl_keys (collect_map es) = fst ` set es" for es :: "(class_hash \<times> compiled_class_hash) list"
  proof -
    have "(\<lambda>(k :: class_hash, v :: compiled_class_hash). tbl_put k v) = (\<lambda>e. tbl_put (fst e) (snd e))" by auto
    then show ?thesis using tbl_keys_put_all [of es "[]"] by (simp add: collect_map_def tbl_keys_def)
  qed
  then have "c \<in> tbl_keys (declared_in_block d n) \<longleftrightarrow> (n, c) \<in> set (tb_ClassDeclarations d) \<and> tbl_get (tb_CompiledClassHashes d) c \<noteq> None"
    unfolding declared_in_block_def dup_entries_filter by (force simp: set_map_filter_Some)
  then show ?thesis by (simp add: tbl_get_eq_None)
qed

lemma fold_set_class:
  "fold (\<lambda>(h, c). set_class h c) es d = d\<lparr>tb_Classes := fold (\<lambda>e. tbl_put (fst e) (snd e)) es (tb_Classes d)\<rparr>"
  by (induction es arbitrary: d) (auto simp: set_class_def)

lemma get_put_named: "c \<in> set hs \<or> tbl_get t c = Some (f c) \<Longrightarrow>
    tbl_get (fold (\<lambda>e. tbl_put (fst e) (snd e)) (map (\<lambda>h. (h, f h)) hs) t) c = Some (f c)"
proof (induction hs arbitrary: t)
  case (Cons h hs)
  have "c \<in> set hs \<or> tbl_get (tbl_put h (f h) t) c = Some (f c)" using Cons.prems by (auto simp: table_simps)
  then show ?case using Cons.IH by simp
qed simp

lemma fetch_classes_served:
  assumes "serves_classes gw cls"
  shows "fetch_classes_with_retry gw hs n = Inr (map cls hs)"
  unfolding fetch_classes_with_retry_def
proof (rule served_batch [where e = "ClassesGateway RateLimited"])
  show "\<forall>h\<in>set hs. \<forall>k. fetch_class gw k n h = Inr (cls h) \<or> k < gw_retries gw \<and> fetch_class gw k n h = Inl (ClassesGateway RateLimited)"
  proof (intro ballI allI)
    fix h k
    show "fetch_class gw k n h = Inr (cls h) \<or> k < gw_retries gw \<and> fetch_class gw k n h = Inl (ClassesGateway RateLimited)"
      using assms unfolding serves_classes_def fetch_class_def by (elim allE [of _ k] allE [of _ h] allE [of _ n]) auto
  qed
qed simp

lemma download_classes_served:
  assumes "serves_classes gw cls" "0 < csz"
  shows "download_classes gw csz hs n = Some (Inr (map cls hs))"
proof -
  have "collect_results (map (\<lambda>chunk. fetch_classes_with_retry gw chunk n) (chunk_list csz hs)) = Inr (map (map cls) (chunk_list csz hs))"
    by (rule collect_results_batches) (rule fetch_classes_served [OF assms(1)])
  then show ?thesis using assms(2) concat_chunk_list [OF assms(2), of hs] by (simp add: download_classes_def map_concat [symmetric])
qed

lemma classes_execute_served:
  assumes "serves_classes gw cls" "0 < csz"
  shows "classes_execute gw csz a b d = Some (d\<lparr>tb_Classes := fold (\<lambda>e. tbl_put (fst e) (snd e))
    (map (\<lambda>h. (h, cls h)) (concat (map (\<lambda>n. map fst (declared_in_block d n)) [a..<Suc b]))) (tb_Classes d)\<rparr>, Inr ())"
proof -
  have "declared_classes_of d (Num n) = Inr (Some (declared_in_block d n))" for n
    by (simp add: declared_classes_of_def)
  moreover have "zip hs (map cls hs) = map (\<lambda>h. (h, cls h)) hs" for hs by (induction hs) auto
  ultimately have "collect_classes gw csz d ns = Some (Inr (map (\<lambda>h. (h, cls h)) (concat (map (\<lambda>n. map fst (declared_in_block d n)) ns))))" for ns
    by (induction ns) (simp_all add: download_classes_served [OF assms])
  then show ?thesis by (simp add: classes_execute_def fold_set_class del: upt_Suc)
qed

lemma block_by_id_cong:
  assumes "tb_Headers d' = tb_Headers d" "tb_BlockBodyIndices d' = tb_BlockBodyIndices d" "tb_Transactions d' = tb_Transactions d"
    "tb_TxHashes d' = tb_TxHashes d"
  shows "block_by_id d' (Num n) = block_by_id d (Num n)"
proof -
  have r: "transaction_in_range d' r = transaction_in_range d r" for r by (rule transaction_in_range_cong) (simp_all add: assms)
  have "block_body_indices d' (Num n) = block_body_indices d (Num n)" by (simp add: block_body_indices_def assms)
  then have t: "transactions_by_block d' (Num n) = transactions_by_block d (Num n)" unfolding transactions_by_block_def by (simp only: r)
  have h: "header_by_id d' (Num n) = header_by_id d (Num n)" by (simp add: header_by_id_def assms)
  show ?thesis unfolding block_by_id_def t h ..
qed

lemma block_synced_cong:
  "block_synced block updates n (d\<lparr>tb_Classes := c\<rparr>) = block_synced block updates n d"
  "block_synced block updates n (set_checkpoint s m d) = block_synced block updates n d"
  using block_by_id_cong [of "d\<lparr>tb_Classes := c\<rparr>" d n] block_by_id_cong [of "set_checkpoint s m d" d n]
  by (simp_all add: block_synced_def set_checkpoint_def)

lemma tb_Classes_checkpoint [simp]: "tb_Classes (set_checkpoint s m d) = tb_Classes d"
  by (simp add: set_checkpoint_def)

definition sync_inv where
  "sync_inv gw bsz csz head_block block receipts updates cls d \<longleftrightarrow>
     serves_blocks gw head_block block receipts updates \<and> serves_classes gw cls \<and> 0 < bsz \<and> 0 < csz \<and> db_ok d"

definition sync_upto ::
    "(block_number \<Rightarrow> sealed_block_with_status) \<Rightarrow> (block_number \<Rightarrow> state_updates) \<Rightarrow> (class_hash \<Rightarrow> 'cls) \<Rightarrow>
     nat \<Rightarrow> block_number \<Rightarrow> ('cls, 'info) db \<Rightarrow> bool" where
  "sync_upto block updates cls i n d \<longleftrightarrow>
     (\<forall>m. 1 \<le> m \<and> m \<le> n \<longrightarrow> (if i = 0 then block_synced block updates m d else classes_synced cls updates m d))"

interpretation sync: staged_sync "[blocks_stage gw bsz, classes_stage gw csz]" "sync_upto block updates cls"
  "sync_inv gw bsz csz head_block block receipts updates cls" head_block
  for gw :: "('gcls, 'cls, 'ce) gateway" and bsz csz head_block block receipts updates cls
proof (unfold_locales, goal_cases)
  case (4 d i c t)
  then have gw: "serves_blocks gw head_block block receipts updates" "serves_classes gw cls" "0 < bsz" "0 < csz" "db_ok d"
    by (auto simp: sync_inv_def)
  show ?case
  proof (cases "i = 0")
    case True
    let ?d' = "fold (store_served block receipts updates) [c + 1..<Suc t] d"
    have "\<forall>n\<in>set [c + 1..<Suc t]. 1 \<le> n \<and> n \<le> head_block" using 4(4) by auto
    note st = store_range [OF gw(1) this gw(5)]
    have "sync_upto block updates cls 0 t ?d'"
      using 4(5) st True by (auto simp: sync_upto_def simp del: upt_Suc) (metis atLeastLessThan_iff less_Suc_eq_le not_less_eq_eq set_upt Suc_eq_plus1)
    moreover have "stage_execute ([blocks_stage gw bsz, classes_stage gw csz] ! i) (c + 1) t d = Some (?d', Inr ())"
      using blocks_execute_served [OF gw(1) _ 4(4) gw(3), of "c + 1" d] True by (simp add: blocks_stage_def del: upt_Suc)
    ultimately show ?thesis
      using st gw True by (intro exI [of _ ?d']) (auto simp: sync_inv_def sync_upto_def classes_synced_def simp del: upt_Suc)
  next
    case False
    then have i: "i = 1" using 4(2) by simp
    let ?hs = "concat (map (\<lambda>n. map fst (declared_in_block d n)) [c + 1..<Suc t])"
    let ?d' = "d\<lparr>tb_Classes := fold (\<lambda>e. tbl_put (fst e) (snd e)) (map (\<lambda>h. (h, cls h)) ?hs) (tb_Classes d)\<rparr>"
    have "classes_synced cls updates m ?d'" if m: "1 \<le> m" "m \<le> t" for m
    proof -
      have "h \<in> set ?hs \<or> tbl_get (tb_Classes d) h = Some (cls h)" if h: "h \<in> tbl_keys (declared_classes (updates m))" for h
      proof (cases "m \<le> c")
        case True
        then show ?thesis using 4(5) m(1) h i by (auto simp: sync_upto_def classes_synced_def)
      next
        case above: False
        have "block_synced block updates m d" using 4(6) m i by (auto simp: sync_upto_def)
        then have "h \<in> tbl_keys (declared_in_block d m)" using h by (simp add: block_synced_def declared_in_block_keys)
        then show ?thesis using above m by (auto simp: tbl_keys_def simp del: upt_Suc)
      qed
      then show ?thesis using get_put_named [of _ ?hs "tb_Classes d" cls] by (simp add: classes_synced_def del: upt_Suc)
    qed
    moreover have "db_ok ?d'" using gw(5) by (simp add: db_ok_def db_tables_sorted_def)
    moreover have "stage_execute ([blocks_stage gw bsz, classes_stage gw csz] ! i) (c + 1) t d = Some (?d', Inr ())"
      using classes_execute_served [OF gw(2,4), of "c + 1" t d] i by (simp add: classes_stage_def del: upt_Suc)
    ultimately show ?thesis
      using gw i by (intro exI [of _ ?d']) (auto simp: sync_inv_def sync_upto_def block_synced_cong simp del: upt_Suc)
  qed
qed (auto simp: blocks_stage_def classes_stage_def sync_upto_def sync_inv_def block_synced_cong classes_synced_def)

section \<open>Property\<close>

text \<open>
  C5. Syncing reaches its tip.  Let the gateway serve every block from one up to a head, and the
  classes, answering each request or limiting its rate, but not at the last attempt.  Let the
  pipeline of the block stage and the class stage be started on a well-formed database without
  checkpoints, with positive batch and chunk sizes.  Whatever tips up to the head it has seen so far,
  it gets through the chunks of every one of them without an error and waits for the next tip.  The
  database is then well formed, every block from number one up to every tip seen is stored as the
  gateway has it, and so is every class it declares with a compiled class hash.  Block zero is
  never asked for: an absent checkpoint counts as zero, and a stage starts after its checkpoint.
\<close>

theorem sync_reaches_tip:
  assumes gw: "serves_blocks gw head_block block receipts updates" "serves_classes gw cls"
    and sizes: "0 < bsz" "0 < csz" "0 < chunk" and d: "db_ok d" "tb_StageCheckpoints d = []"
    and tips: "\<forall>tip. Some tip \<in> set (tip0 # changes) \<longrightarrow> tip \<le> head_block"
  shows "\<exists>d' c. pipeline_run chunk [blocks_stage gw bsz, classes_stage gw csz] tip0 changes d = Some (d', WaitingForTip c) \<and> db_ok d' \<and>
    (\<forall>tip n. Some tip \<in> set (tip0 # changes) \<and> 1 \<le> n \<and> n \<le> tip \<longrightarrow>
       block_by_id d' (Num n) = Inr (Some (unseal (sbs_block (block n)))) \<and>
       (\<forall>c\<in>tbl_keys (declared_classes (updates n)). tbl_get (tb_Classes d') c = Some (cls c)))"
proof -
  let ?stages = "[blocks_stage gw bsz, classes_stage gw csz]" and ?tips = "tip0 # changes"
  let ?ok = "stages_consistent ?stages (sync_upto block updates cls) (sync_inv gw bsz csz head_block block receipts updates cls)"
  have ck: "stage_checkpoint_of d s = 0" for s using d(2) by (simp add: stage_checkpoint_of_def)
  have "?ok d"
    using gw sizes d(1) by (simp add: stages_consistent_def sync_inv_def ck sync_upto_def)
  from sync.run_tips_reaches [OF sizes(3) tips this, of chunk] obtain d' c where
    run: "pipeline_run chunk ?stages tip0 changes d = Some (d', WaitingForTip c)" and ok: "?ok d'"
    and reach: "\<forall>j < length ?stages. \<forall>tip. Some tip \<in> set ?tips \<longrightarrow> tip \<le> stage_checkpoint_of d' (?stages ! j)"
    by (auto simp: ck pipeline_run_def simp del: run_tips.simps)
  have "sync_upto block updates cls j tip d'" if "Some tip \<in> set ?tips" "j < 2" for j tip
    using ok reach that sync.synced_mono [of block updates cls j "stage_checkpoint_of d' (?stages ! j)" d' tip]
    by (auto simp: stages_consistent_def)
  from this [of _ 0] this [of _ 1] show ?thesis
    using run ok by (auto simp: stages_consistent_def sync_inv_def sync_upto_def block_synced_def classes_synced_def simp del: list.set)
qed

definition sample_gw_data :: "block_number \<Rightarrow> state_update_with_block" where
  "sample_gw_data n =
     (let price = \<lparr>rp_price_in_fri = 1, rp_price_in_wei = 1\<rparr> in
      \<lparr>sub_state_diff = \<lparr>sd_storage_diffs = [], sd_deployed_contracts = [], sd_old_declared_contracts = [],
         sd_declared_classes = [(n + 100, n + 200)], sd_nonces = [], sd_replaced_classes = []\<rparr>,
       sub_block = \<lparr>gb_block_hash = Some (n + 1000), gb_block_number = Some n, gb_parent_block_hash = n + 999, gb_timestamp = n,
         gb_sequencer_address = None, gb_state_root = None, gb_transaction_commitment = None, gb_event_commitment = None,
         gb_status = GwAcceptedOnL2, gb_l1_da_mode = Calldata, gb_l2_gas_price = price, gb_l1_gas_price = price,
         gb_l1_data_gas_price = price, gb_transactions = [], gb_transaction_receipts = [], gb_starknet_version = None\<rparr>\<rparr>)"

definition sample_gateway :: "(nat, nat, unit) gateway" where
  "sample_gateway = \<lparr>gw_state_update_with_block = (\<lambda>k n. if k = 0 then Inl RateLimited else Inr (sample_gw_data n)),
     gw_get_class = (\<lambda>k h n. Inr h), gw_convert_class = Inr, gw_retries = 1\<rparr>"

definition sample_synced_block :: "block_number \<Rightarrow> sealed_block_with_status" where
  "sample_synced_block n = (case extract_block_data (sample_gw_data n) :: (tx_try_from_error + _ \<times> _ \<times> nat state_updates_with_classes) option of
     Some (Inr (b, _, _)) \<Rightarrow> b | _ \<Rightarrow> sample_block n)"

lemma sample_gateway_serves:
  "serves_blocks sample_gateway 3 sample_synced_block (\<lambda>n. []) (\<lambda>n. state_updates_from (sub_state_diff (sample_gw_data n)))"
  "serves_classes sample_gateway (\<lambda>h. h)"
  by (auto simp: serves_blocks_def serves_classes_def sample_gateway_def sample_synced_block_def extract_block_data_def
      sample_gw_data_def Let_def to_gas_prices_def synced_header_def or_default_def intro!: exI [of _ "sample_gw_data _"])

theorem sync_reaches_tip_witness:
  "\<exists>d' c. pipeline_run 1 [blocks_stage sample_gateway 2, classes_stage sample_gateway 2] None [Some 2, Some 3] (db_empty :: (nat, unit) db) =
       Some (d', WaitingForTip c) \<and> db_ok d' \<and> tbl_get (tb_Classes d') 103 = Some 103"
proof -
  have "tb_StageCheckpoints (db_empty :: (nat, unit) db) = []" by (simp add: db_empty_def)
  from sync_reaches_tip [OF sample_gateway_serves _ _ _ db_ok_empty this, of 2 2 1 None "[Some 2, Some 3]"]
  obtain d' c where d': "pipeline_run 1 [blocks_stage sample_gateway 2, classes_stage sample_gateway 2] None [Some 2, Some 3] (db_empty :: (nat, unit) db) =
       Some (d', WaitingForTip c)" "db_ok d'"
    "\<And>tip n. Some tip \<in> set [None, Some 2, Some 3] \<Longrightarrow> 1 \<le> n \<Longrightarrow> n \<le> tip \<Longrightarrow>
       \<forall>c\<in>tbl_keys (declared_classes (state_updates_from (sub_state_diff (sample_gw_data n)))). tbl_get (tb_Classes d') c = Some c"
    by auto
  from d'(1,2) d'(3) [of 3 3] show ?thesis by (auto simp: sample_gw_data_def state_updates_from_def pairs_map_def Let_def)
qed

end
