(* ===== verification/Fork_Backend.thy ===== *)
theory Fork_Backend
  imports Block_Types Fork_Errors
begin

text \<open>
  The backend of a forked node (\<^verbatim>\<open>crates/storage/fork/src/lib.rs\<close>): a thread that turns the
  requests of its clients into calls to the remote chain, one call per distinct request, and
  hands every answer to all clients that wait for it.

  The state is the record \<open>fork_backend\<close>.  A channel for one answer is identified by a number, its
  \<^verbatim>\<open>OneshotSender\<close>; what the backend sends is the list of pairs of such a number and a
  response.  The JSON-RPC provider is not part of the repository: it is the parameter
  \<open>rpc_provider\<close>, which says for a moment in time what polling the future of a call gives,
  nothing while it is pending.  The channel of incoming requests is the list of requests that
  were sent and not yet received; whether a bounded channel has room for one more is an
  argument of the client.
\<close>

section \<open>Requests and responses\<close>

datatype 'rc backend_response =
  NonceResponse "backend_error + nonce"
| StorageResponse "backend_error + storage_value"
| ClassHashAtResponse "backend_error + class_hash"
| ClassAtResponse "backend_error + 'rc"

type_synonym sender = nat

record 'p request =
  rq_payload :: 'p
  rq_sender :: sender

datatype backend_request =
  NonceRequest "contract_address request"
| ClassRequest "class_hash request"
| ClassHashRequest "contract_address request"
| StorageRequest "(contract_address \<times> storage_key) request"

datatype backend_request_identifier =
  NonceId contract_address
| ClassId class_hash
| ClassHashId contract_address
| StorageId "contract_address \<times> storage_key"

section \<open>Calls to the remote chain\<close>

text \<open>The futures the backend creates, by the provider method they await.\<close>

datatype rpc_call =
  GetNonce block_hash_or_number felt
| GetStorageAt felt storage_key block_hash_or_number
| GetClassHashAt block_hash_or_number felt
| GetClass block_hash_or_number class_hash

record 'rc rpc_provider =
  rpc_get_nonce :: "block_hash_or_number \<Rightarrow> felt \<Rightarrow> (starknet_provider_error + nonce) option"
  rpc_get_storage_at :: "felt \<Rightarrow> storage_key \<Rightarrow> block_hash_or_number \<Rightarrow> (starknet_provider_error + storage_value) option"
  rpc_get_class_hash_at :: "block_hash_or_number \<Rightarrow> felt \<Rightarrow> (starknet_provider_error + class_hash) option"
  rpc_get_class :: "block_hash_or_number \<Rightarrow> class_hash \<Rightarrow> (starknet_provider_error + 'rc) option"

definition backend_result :: "starknet_provider_error + 'a \<Rightarrow> backend_error + 'a" where
  "backend_result r = (case r of Inl e \<Rightarrow> Inl (StarknetProvider e) | Inr a \<Rightarrow> Inr a)"

fun poll_call :: "'rc rpc_provider \<Rightarrow> rpc_call \<Rightarrow> 'rc backend_response option" where
  "poll_call p (GetNonce block a) = map_option (NonceResponse \<circ> backend_result) (rpc_get_nonce p block a)"
| "poll_call p (GetStorageAt a key block) = map_option (StorageResponse \<circ> backend_result) (rpc_get_storage_at p a key block)"
| "poll_call p (GetClassHashAt block a) = map_option (ClassHashAtResponse \<circ> backend_result) (rpc_get_class_hash_at p block a)"
| "poll_call p (GetClass block h) = map_option (ClassAtResponse \<circ> backend_result) (rpc_get_class p block h)"

section \<open>The backend\<close>

record fork_backend =
  be_block :: block_hash_or_number
  be_request_dedup_map :: "backend_request_identifier \<rightharpoonup> sender list"
  be_pending_requests :: "(backend_request_identifier \<times> rpc_call) list"
  be_queued_requests :: "backend_request list"
  be_incoming :: "backend_request list"
  be_clients :: nat

definition backend_new :: "block_hash_or_number \<Rightarrow> fork_backend" where
  "backend_new block =
     \<lparr>be_block = block, be_request_dedup_map = Map.empty, be_pending_requests = [],
      be_queued_requests = [], be_incoming = [], be_clients = 1\<rparr>"

definition dedup_request :: "backend_request_identifier \<Rightarrow> sender \<Rightarrow> rpc_call \<Rightarrow> fork_backend \<Rightarrow> fork_backend" where
  "dedup_request req_key sender rpc_call_future b =
     (case be_request_dedup_map b req_key of
        None \<Rightarrow> b\<lparr>be_pending_requests := be_pending_requests b @ [(req_key, rpc_call_future)],
                  be_request_dedup_map := (be_request_dedup_map b)(req_key \<mapsto> [sender])\<rparr>
      | Some sender_vec \<Rightarrow> b\<lparr>be_request_dedup_map := (be_request_dedup_map b)(req_key \<mapsto> sender_vec @ [sender])\<rparr>)"

fun handle_requests :: "backend_request \<Rightarrow> fork_backend \<Rightarrow> fork_backend" where
  "handle_requests (NonceRequest r) b =
     dedup_request (NonceId (rq_payload r)) (rq_sender r) (GetNonce (be_block b) (rq_payload r)) b"
| "handle_requests (StorageRequest r) b =
     dedup_request (StorageId (rq_payload r)) (rq_sender r)
       (GetStorageAt (fst (rq_payload r)) (snd (rq_payload r)) (be_block b)) b"
| "handle_requests (ClassHashRequest r) b =
     dedup_request (ClassHashId (rq_payload r)) (rq_sender r) (GetClassHashAt (be_block b) (rq_payload r)) b"
| "handle_requests (ClassRequest r) b =
     dedup_request (ClassId (rq_payload r)) (rq_sender r) (GetClass (be_block b) (rq_payload r)) b"

text \<open>
  The loop over the pending requests, from the last index down.  It panics, the result is
  none, when a finished call has no senders.
\<close>

fun poll_requests ::
    "'rc rpc_provider \<Rightarrow> nat \<Rightarrow> fork_backend \<Rightarrow> (sender \<times> 'rc backend_response) list
     \<Rightarrow> (fork_backend \<times> (sender \<times> 'rc backend_response) list) option" where
  "poll_requests p 0 b out = Some (b, out)"
| "poll_requests p (Suc n) b out =
     (case swap_remove n (be_pending_requests b) of
        None \<Rightarrow> None
      | Some ((fut_key, fut), rest) \<Rightarrow>
          (case poll_call p fut of
             None \<Rightarrow> poll_requests p n (b\<lparr>be_pending_requests := rest @ [(fut_key, fut)]\<rparr>) out
           | Some res \<Rightarrow>
               (case be_request_dedup_map b fut_key of
                  None \<Rightarrow> None
                | Some sender_vec \<Rightarrow>
                    poll_requests p n
                      (b\<lparr>be_pending_requests := rest,
                         be_request_dedup_map := (be_request_dedup_map b)(fut_key := None)\<rparr>)
                      (out @ map (\<lambda>s. (s, res)) sender_vec))))"

definition handle_queued :: "fork_backend \<Rightarrow> fork_backend" where
  "handle_queued b = fold handle_requests (be_queued_requests b) (b\<lparr>be_queued_requests := []\<rparr>)"

definition receive_incoming :: "fork_backend \<Rightarrow> fork_backend" where
  "receive_incoming b =
     b\<lparr>be_queued_requests := be_queued_requests b @ be_incoming b, be_incoming := []\<rparr>"

text \<open>
  One iteration of the loop of \<^verbatim>\<open>poll\<close>, and the loop.  The backend resolves when the channel is
  exhausted, which is when no client is left; otherwise it yields once no request is queued.
  The provider of round \<open>n\<close> is \<open>ps n\<close>.
\<close>

datatype poll_state = PollReady | PollPending

definition poll_round ::
    "'rc rpc_provider \<Rightarrow> fork_backend \<Rightarrow> (poll_state \<times> fork_backend \<times> (sender \<times> 'rc backend_response) list) option" where
  "poll_round p b =
     (let b1 = receive_incoming (handle_queued b) in
      if be_clients b1 = 0 then Some (PollReady, b1, [])
      else map_option (Pair PollPending) (poll_requests p (length (be_pending_requests b1)) b1 []))"


lemma handle_requests_queue [simp]:
  "be_queued_requests (handle_requests r b) = be_queued_requests b"
  "be_incoming (handle_requests r b) = be_incoming b"
  "be_clients (handle_requests r b) = be_clients b"
  "be_block (handle_requests r b) = be_block b"
  by (cases r; simp add: dedup_request_def split: option.split)+

lemma fold_handle_queue [simp]:
  "be_queued_requests (fold handle_requests rs b) = be_queued_requests b"
  "be_incoming (fold handle_requests rs b) = be_incoming b"
  "be_clients (fold handle_requests rs b) = be_clients b"
  "be_block (fold handle_requests rs b) = be_block b"
  by (induction rs arbitrary: b) simp_all

lemma handle_queued_fields [simp]:
  "be_queued_requests (handle_queued b) = []" "be_incoming (handle_queued b) = be_incoming b"
  "be_clients (handle_queued b) = be_clients b" "be_block (handle_queued b) = be_block b"
  by (simp_all add: handle_queued_def)

lemma receive_incoming_fields [simp]:
  "be_queued_requests (receive_incoming b) = be_queued_requests b @ be_incoming b"
  "be_incoming (receive_incoming b) = []" "be_clients (receive_incoming b) = be_clients b"
  "be_block (receive_incoming b) = be_block b" "be_pending_requests (receive_incoming b) = be_pending_requests b"
  "be_request_dedup_map (receive_incoming b) = be_request_dedup_map b"
  by (simp_all add: receive_incoming_def)

lemma poll_requests_fields:
  "poll_requests p n b out = Some (b', out') \<Longrightarrow>
   be_queued_requests b' = be_queued_requests b \<and> be_incoming b' = be_incoming b
   \<and> be_clients b' = be_clients b \<and> be_block b' = be_block b"
  by (induction p n b out rule: poll_requests.induct) (auto simp: Let_def split: prod.splits option.splits)

lemma poll_round_fields:
  assumes "poll_round p b = Some (st, b', out)"
  shows "be_queued_requests b' = be_incoming b" "be_incoming b' = []" "be_clients b' = be_clients b"
    "be_block b' = be_block b" "st = PollReady \<longleftrightarrow> be_clients b = 0"
  using assms by (auto simp: poll_round_def Let_def dest: poll_requests_fields split: if_splits)

function backend_poll ::
    "(nat \<Rightarrow> 'rc rpc_provider) \<Rightarrow> nat \<Rightarrow> fork_backend \<Rightarrow> (sender \<times> 'rc backend_response) list
     \<Rightarrow> (poll_state \<times> fork_backend \<times> (sender \<times> 'rc backend_response) list) option" where
  "backend_poll ps n b out =
     (case poll_round (ps n) b of
        None \<Rightarrow> None
      | Some (PollReady, b', out') \<Rightarrow> Some (PollReady, b', out @ out')
      | Some (PollPending, b', out') \<Rightarrow>
          if be_queued_requests b' = [] then Some (PollPending, b', out @ out')
          else backend_poll ps (Suc n) b' (out @ out'))"
  by pat_completeness auto
termination
  by (relation "measure (\<lambda>(ps, n, b, out). 2 * length (be_incoming b) + length (be_queued_requests b))")
    (auto simp: poll_round_fields)

declare backend_poll.simps [simp del]

section \<open>The client\<close>

fun request_of :: "backend_request_identifier \<Rightarrow> sender \<Rightarrow> backend_request" where
  "request_of (NonceId a) s = NonceRequest \<lparr>rq_payload = a, rq_sender = s\<rparr>"
| "request_of (ClassId h) s = ClassRequest \<lparr>rq_payload = h, rq_sender = s\<rparr>"
| "request_of (ClassHashId a) s = ClassHashRequest \<lparr>rq_payload = a, rq_sender = s\<rparr>"
| "request_of (StorageId ak) s = StorageRequest \<lparr>rq_payload = ak, rq_sender = s\<rparr>"

text \<open>Sending a request: \<^verbatim>\<open>try_send\<close> fails when the channel has no room.\<close>

definition client_request :: "bool \<Rightarrow> backend_request \<Rightarrow> fork_backend \<Rightarrow> backend_client_error + fork_backend" where
  "client_request room req b =
     (if room then Inr (b\<lparr>be_incoming := be_incoming b @ [req]\<rparr>) else Inl FailedSendRequest)"

text \<open>
  Waiting for the answer while the backend thread is polled.  The result is none while the
  client still waits after the polls given; when the thread is gone the channel is closed.
\<close>

fun client_recv ::
    "(nat \<Rightarrow> 'rc rpc_provider) list \<Rightarrow> sender \<Rightarrow> fork_backend
     \<Rightarrow> (backend_client_error + 'rc backend_response) option" where
  "client_recv [] s b = None"
| "client_recv (ps # pss) s b =
     (case backend_poll ps 0 b [] of
        None \<Rightarrow> Some (Inl FailedReceiveResult)
      | Some (st, b', out) \<Rightarrow>
          (case map_of out s of
             Some res \<Rightarrow> Some (Inr res)
           | None \<Rightarrow> if st = PollReady then Some (Inl FailedReceiveResult) else client_recv pss s b'))"

definition client_call ::
    "bool \<Rightarrow> (nat \<Rightarrow> 'rc rpc_provider) list \<Rightarrow> sender \<Rightarrow> fork_backend \<Rightarrow> backend_request_identifier
     \<Rightarrow> (backend_client_error + 'rc backend_response) option" where
  "client_call room pss s b k =
     (case client_request room (request_of k s) b of
        Inl e \<Rightarrow> Some (Inl e)
      | Inr b' \<Rightarrow> client_recv pss s b')"

text \<open>A client, as the getters use it: what a call for an identifier returns.\<close>

type_synonym 'rc backend_client = "backend_request_identifier \<Rightarrow> backend_client_error + 'rc backend_response"

fun handle_not_found_err :: "backend_error + 'a \<Rightarrow> backend_client_error + 'a option" where
  "handle_not_found_err (Inr v) = Inr (Some v)"
| "handle_not_found_err (Inl (StarknetProvider RpcContractNotFound)) = Inr None"
| "handle_not_found_err (Inl (StarknetProvider RpcClassHashNotFound)) = Inr None"
| "handle_not_found_err (Inl e) = Inl (BackendError e)"

definition client_get_nonce :: "'rc backend_client \<Rightarrow> contract_address \<Rightarrow> backend_client_error + nonce option" where
  "client_get_nonce client address =
     rbind (client (NonceId address)) (\<lambda>response.
       case response of NonceResponse res \<Rightarrow> handle_not_found_err res | _ \<Rightarrow> Inl UnexpectedResponse)"

definition client_get_storage ::
    "'rc backend_client \<Rightarrow> contract_address \<Rightarrow> storage_key \<Rightarrow> backend_client_error + storage_value option" where
  "client_get_storage client address key =
     rbind (client (StorageId (address, key))) (\<lambda>response.
       case response of StorageResponse res \<Rightarrow> handle_not_found_err res | _ \<Rightarrow> Inl UnexpectedResponse)"

definition client_get_class_hash_at :: "'rc backend_client \<Rightarrow> contract_address \<Rightarrow> backend_client_error + class_hash option" where
  "client_get_class_hash_at client address =
     rbind (client (ClassHashId address)) (\<lambda>response.
       case response of ClassHashAtResponse res \<Rightarrow> handle_not_found_err res | _ \<Rightarrow> Inl UnexpectedResponse)"

text \<open>
  A remote class is converted twice, from the type of the provider and from the type of the
  RPC; both conversions are the argument \<open>to_class\<close>, which fails with \<open>ClassConversion\<close> or
  \<open>ClassCompilation\<close>.  Compiling a class and hashing the result is the argument
  \<open>compiled_hash\<close>.
\<close>

definition client_get_class_at ::
    "('rc \<Rightarrow> backend_client_error + 'cls) \<Rightarrow> 'rc backend_client \<Rightarrow> class_hash \<Rightarrow> backend_client_error + 'cls option" where
  "client_get_class_at to_class client class_hash =
     rbind (client (ClassId class_hash)) (\<lambda>response.
       case response of
         ClassAtResponse res \<Rightarrow>
           rbind (handle_not_found_err res) (\<lambda>found.
             case found of
               Some class \<Rightarrow> rbind (to_class class) (\<lambda>class. Inr (Some class))
             | None \<Rightarrow> Inr None)
       | _ \<Rightarrow> Inl UnexpectedResponse)"

definition client_get_compiled_class_hash ::
    "('rc \<Rightarrow> backend_client_error + 'cls) \<Rightarrow> ('cls \<Rightarrow> backend_client_error + compiled_class_hash) \<Rightarrow>
     'rc backend_client \<Rightarrow> class_hash \<Rightarrow> backend_client_error + compiled_class_hash option" where
  "client_get_compiled_class_hash to_class compiled_hash client class_hash =
     rbind (client_get_class_at to_class client class_hash) (\<lambda>found.
       case found of
         Some class \<Rightarrow> rbind (compiled_hash class) (\<lambda>h. Inr (Some h))
       | None \<Rightarrow> Inr None)"

end
