(* ===== verification/Fork_State.thy ===== *)
theory Fork_State
  imports Fork_Backend Db_Updates
begin

text \<open>
  The state providers of a forked node (\<^verbatim>\<open>crates/storage/provider/src/providers/fork/state.rs\<close>).
  A read looks in the local database first and asks the remote chain when there is nothing; the
  provider of the latest state stores what it got in the local tables.

  A provider holds a read transaction from the moment it was created, so it takes two
  databases: \<open>view\<close>, the snapshot it reads, and the current database that it updates.
\<close>

section \<open>The latest state\<close>

definition forked_latest_class ::
    "('rc \<Rightarrow> backend_client_error + 'cls) \<Rightarrow> 'rc backend_client \<Rightarrow> ('cls, 'info) db \<Rightarrow> class_hash \<Rightarrow> ('cls, 'info) db
     \<Rightarrow> 'cls option provider_result \<times> ('cls, 'info) db" where
  "forked_latest_class to_class client view hash d =
     (case latest_class view hash of
        Inl e \<Rightarrow> (Inl e, d)
      | Inr (Some class) \<Rightarrow> (Inr (Some class), d)
      | Inr None \<Rightarrow>
          (case client_get_class_at to_class client hash of
             Inl e \<Rightarrow> (Inl (ForkedBackend1 e), d)
           | Inr (Some class) \<Rightarrow> (Inr (Some class), d\<lparr>tb_Classes := tbl_put hash class (tb_Classes d)\<rparr>)
           | Inr None \<Rightarrow> (Inr None, d)))"

definition forked_latest_compiled_class_hash ::
    "('rc \<Rightarrow> backend_client_error + 'cls) \<Rightarrow> ('cls \<Rightarrow> backend_client_error + compiled_class_hash) \<Rightarrow> 'rc backend_client
     \<Rightarrow> ('cls, 'info) db \<Rightarrow> class_hash \<Rightarrow> ('cls, 'info) db
     \<Rightarrow> compiled_class_hash option provider_result \<times> ('cls, 'info) db" where
  "forked_latest_compiled_class_hash to_class hash_class client view hash d =
     (case latest_compiled_class_hash view hash of
        Inl e \<Rightarrow> (Inl e, d)
      | Inr (Some compiled_hash) \<Rightarrow> (Inr (Some compiled_hash), d)
      | Inr None \<Rightarrow>
          (case client_get_compiled_class_hash to_class hash_class client hash of
             Inl e \<Rightarrow> (Inl (ForkedBackend1 e), d)
           | Inr (Some compiled_hash) \<Rightarrow>
               (Inr (Some compiled_hash), d\<lparr>tb_CompiledClassHashes := tbl_put hash compiled_hash (tb_CompiledClassHashes d)\<rparr>)
           | Inr None \<Rightarrow> (Inr None, d)))"

definition forked_latest_nonce ::
    "'rc backend_client \<Rightarrow> ('cls, 'info) db \<Rightarrow> contract_address \<Rightarrow> ('cls, 'info) db
     \<Rightarrow> nonce option provider_result \<times> ('cls, 'info) db" where
  "forked_latest_nonce client view address d =
     (case latest_nonce view address of
        Inl e \<Rightarrow> (Inl e, d)
      | Inr (Some nonce) \<Rightarrow> (Inr (Some nonce), d)
      | Inr None \<Rightarrow>
          (case client_get_nonce client address of
             Inl e \<Rightarrow> (Inl (ForkedBackend1 e), d)
           | Inr None \<Rightarrow> (Inr None, d)
           | Inr (Some nonce) \<Rightarrow>
               (case client_get_class_hash_at client address of
                  Inl e \<Rightarrow> (Inl (ForkedBackend1 e), d)
                | Inr None \<Rightarrow> (Inl (MissingContractClassHash address), d)
                | Inr (Some class_hash) \<Rightarrow>
                    (Inr (Some nonce),
                     d\<lparr>tb_ContractInfo := tbl_put address \<lparr>ci_nonce = nonce, ci_class_hash = class_hash\<rparr> (tb_ContractInfo d)\<rparr>))))"

definition forked_latest_class_hash ::
    "'rc backend_client \<Rightarrow> ('cls, 'info) db \<Rightarrow> contract_address \<Rightarrow> ('cls, 'info) db
     \<Rightarrow> class_hash option provider_result \<times> ('cls, 'info) db" where
  "forked_latest_class_hash client view address d =
     (case latest_class_hash view address of
        Inl e \<Rightarrow> (Inl e, d)
      | Inr (Some class_hash) \<Rightarrow> (Inr (Some class_hash), d)
      | Inr None \<Rightarrow>
          (case client_get_class_hash_at client address of
             Inl e \<Rightarrow> (Inl (ForkedBackend1 e), d)
           | Inr None \<Rightarrow> (Inr None, d)
           | Inr (Some class_hash) \<Rightarrow>
               (case client_get_nonce client address of
                  Inl e \<Rightarrow> (Inl (ForkedBackend1 e), d)
                | Inr None \<Rightarrow> (Inl (MissingContractNonce address), d)
                | Inr (Some nonce) \<Rightarrow>
                    (Inr (Some class_hash),
                     d\<lparr>tb_ContractInfo := tbl_put address \<lparr>ci_nonce = nonce, ci_class_hash = class_hash\<rparr> (tb_ContractInfo d)\<rparr>))))"

definition forked_latest_storage ::
    "'rc backend_client \<Rightarrow> ('cls, 'info) db \<Rightarrow> contract_address \<Rightarrow> storage_key \<Rightarrow> ('cls, 'info) db
     \<Rightarrow> storage_value option provider_result \<times> ('cls, 'info) db" where
  "forked_latest_storage client view address key d =
     (case latest_storage view address key of
        Inl e \<Rightarrow> (Inl e, d)
      | Inr (Some value) \<Rightarrow> (Inr (Some value), d)
      | Inr None \<Rightarrow>
          (case client_get_storage client address key of
             Inl e \<Rightarrow> (Inl (ForkedBackend1 e), d)
           | Inr None \<Rightarrow> (Inr None, d)
           | Inr (Some value) \<Rightarrow>
               (Inr (Some value), d\<lparr>tb_ContractStorage := dup_put address (key, value) (tb_ContractStorage d)\<rparr>)))"

section \<open>The state at a block\<close>

text \<open>
  The historical provider opens a write transaction for what it fetched and drops it without
  committing; a dropped transaction leaves the database as it was.
\<close>

definition drop_tx :: "('cls, 'info) db \<Rightarrow> ('cls, 'info) db \<Rightarrow> ('cls, 'info) db" where
  "drop_tx committed written = committed"

definition forked_historical_class ::
    "('rc \<Rightarrow> backend_client_error + 'cls) \<Rightarrow> 'rc backend_client \<Rightarrow> ('cls, 'info) db \<Rightarrow> block_number \<Rightarrow> class_hash
     \<Rightarrow> ('cls, 'info) db \<Rightarrow> 'cls option provider_result \<times> ('cls, 'info) db" where
  "forked_historical_class to_class client view block hash d =
     (case historical_class view block hash of
        Inl e \<Rightarrow> (Inl e, d)
      | Inr (Some class) \<Rightarrow> (Inr (Some class), d)
      | Inr None \<Rightarrow>
          (case client_get_class_at to_class client hash of
             Inl e \<Rightarrow> (Inl (ForkedBackend1 e), d)
           | Inr (Some class) \<Rightarrow> (Inr (Some class), drop_tx d (d\<lparr>tb_Classes := tbl_put hash class (tb_Classes d)\<rparr>))
           | Inr None \<Rightarrow> (Inr None, d)))"

definition forked_historical_compiled_class_hash ::
    "('rc \<Rightarrow> backend_client_error + 'cls) \<Rightarrow> ('cls \<Rightarrow> backend_client_error + compiled_class_hash) \<Rightarrow> 'rc backend_client
     \<Rightarrow> ('cls, 'info) db \<Rightarrow> block_number \<Rightarrow> class_hash \<Rightarrow> ('cls, 'info) db
     \<Rightarrow> compiled_class_hash option provider_result \<times> ('cls, 'info) db" where
  "forked_historical_compiled_class_hash to_class hash_class client view block hash d =
     (case historical_compiled_class_hash view block hash of
        Inl e \<Rightarrow> (Inl e, d)
      | Inr (Some compiled_hash) \<Rightarrow> (Inr (Some compiled_hash), d)
      | Inr None \<Rightarrow>
          (case client_get_compiled_class_hash to_class hash_class client hash of
             Inl e \<Rightarrow> (Inl (ForkedBackend1 e), d)
           | Inr (Some compiled_hash) \<Rightarrow>
               (Inr (Some compiled_hash),
                drop_tx d (d\<lparr>tb_CompiledClassHashes := tbl_put hash compiled_hash (tb_CompiledClassHashes d)\<rparr>))
           | Inr None \<Rightarrow> (Inr None, d)))"

definition forked_historical_nonce ::
    "'rc backend_client \<Rightarrow> ('cls, 'info) db \<Rightarrow> block_number \<Rightarrow> contract_address \<Rightarrow> ('cls, 'info) db
     \<Rightarrow> nonce option provider_result \<times> ('cls, 'info) db" where
  "forked_historical_nonce client view block address d =
     (case historical_nonce view block address of
        Inl e \<Rightarrow> (Inl e, d)
      | Inr (Some nonce) \<Rightarrow> (Inr (Some nonce), d)
      | Inr None \<Rightarrow>
          (case client_get_nonce client address of
             Inl e \<Rightarrow> (Inl (ForkedBackend1 e), d)
           | Inr None \<Rightarrow> (Inr None, d)
           | Inr (Some nonce) \<Rightarrow>
               (Inr (Some nonce),
                drop_tx d (d\<lparr>tb_NonceChangeHistory := dup_put block (address, nonce) (tb_NonceChangeHistory d)\<rparr>))))"

definition forked_historical_class_hash ::
    "'rc backend_client \<Rightarrow> ('cls, 'info) db \<Rightarrow> block_number \<Rightarrow> contract_address \<Rightarrow> ('cls, 'info) db
     \<Rightarrow> class_hash option provider_result \<times> ('cls, 'info) db" where
  "forked_historical_class_hash client view block address d =
     (case historical_class_hash view block address of
        Inl e \<Rightarrow> (Inl e, d)
      | Inr (Some class_hash) \<Rightarrow> (Inr (Some class_hash), d)
      | Inr None \<Rightarrow>
          (case client_get_class_hash_at client address of
             Inl e \<Rightarrow> (Inl (ForkedBackend1 e), d)
           | Inr None \<Rightarrow> (Inr None, d)
           | Inr (Some class_hash) \<Rightarrow>
               (Inr (Some class_hash),
                drop_tx d (d\<lparr>tb_ClassChangeHistory := dup_put block (address, class_hash) (tb_ClassChangeHistory d)\<rparr>))))"

definition forked_historical_storage ::
    "'rc backend_client \<Rightarrow> ('cls, 'info) db \<Rightarrow> block_number \<Rightarrow> contract_address \<Rightarrow> storage_key \<Rightarrow> ('cls, 'info) db
     \<Rightarrow> storage_value option provider_result \<times> ('cls, 'info) db" where
  "forked_historical_storage client view block address key d =
     (case historical_storage view block address key of
        Inl e \<Rightarrow> (Inl e, d)
      | Inr (Some value) \<Rightarrow> (Inr (Some value), d)
      | Inr None \<Rightarrow>
          (case client_get_storage client address key of
             Inl e \<Rightarrow> (Inl (ForkedBackend1 e), d)
           | Inr None \<Rightarrow> (Inr None, d)
           | Inr (Some value) \<Rightarrow>
               (let block_list = iset_insert block (case tbl_get (tb_StorageChangeSet view) (address, key) of
                      Some l \<Rightarrow> l | None \<Rightarrow> []);
                    d1 = drop_tx d (d\<lparr>tb_StorageChangeSet := tbl_put (address, key) block_list (tb_StorageChangeSet d)\<rparr>);
                    d2 = drop_tx d1 (d1\<lparr>tb_StorageChangeHistory :=
                           dup_put block ((address, key), value) (tb_StorageChangeHistory d1)\<rparr>)
                in (Inr (Some value), d2))))"

text \<open>The state factory; it resolves the block in the local database only.\<close>

definition forked_historical :: "('cls, 'info) db \<Rightarrow> block_hash_or_number \<Rightarrow> state_view option provider_result" where
  "forked_historical d block_id =
     rbind (case block_id of
              Hash hash \<Rightarrow> rbind (block_number_by_hash d hash) (\<lambda>number. Inr (Inr number))
            | Num num \<Rightarrow>
                rbind (latest_number d) (\<lambda>latest_num.
                  if num < latest_num then Inr (Inr (Some num))
                  else if latest_num < num then Inr (Inl None)
                  else Inr (Inl (Some LatestState))))
       (\<lambda>r. case r of
          Inl view \<Rightarrow> Inr view
        | Inr None \<Rightarrow> Inr None
        | Inr (Some block) \<Rightarrow> Inr (Some (HistoricalState block)))"

lemma forked_historical_eq: "forked_historical d bid = historical d bid"
  by (cases bid; cases "latest_number d")
    (auto simp: forked_historical_def historical_def block_number_by_hash_def split: option.split)

end
