(* ===== verification/Fork_Backend_Props.thy ===== *)
theory Fork_Backend_Props
  imports Fork_Backend
begin

text \<open>
  The requests of a forked node: no two calls for the same data are in flight, no request is
  lost or answered twice, every answer is what the remote chain said for that request, and
  when the remote chain answers one poll of the backend leaves nobody waiting.
\<close>

section \<open>What the backend owes\<close>

fun request_id :: "backend_request \<Rightarrow> backend_request_identifier" where
  "request_id (NonceRequest r) = NonceId (rq_payload r)"
| "request_id (ClassRequest r) = ClassId (rq_payload r)"
| "request_id (ClassHashRequest r) = ClassHashId (rq_payload r)"
| "request_id (StorageRequest r) = StorageId (rq_payload r)"

fun request_sender :: "backend_request \<Rightarrow> sender" where
  "request_sender (NonceRequest r) = rq_sender r"
| "request_sender (ClassRequest r) = rq_sender r"
| "request_sender (ClassHashRequest r) = rq_sender r"
| "request_sender (StorageRequest r) = rq_sender r"

definition request_owner :: "backend_request \<Rightarrow> sender \<times> backend_request_identifier" where
  "request_owner r = (request_sender r, request_id r)"

fun call_for :: "block_hash_or_number \<Rightarrow> backend_request_identifier \<Rightarrow> rpc_call" where
  "call_for block (NonceId a) = GetNonce block a"
| "call_for block (ClassId h) = GetClass block h"
| "call_for block (ClassHashId a) = GetClassHashAt block a"
| "call_for block (StorageId ak) = GetStorageAt (fst ak) (snd ak) block"

lemma handle_requests_dedup:
  "handle_requests r b = dedup_request (request_id r) (request_sender r) (call_for (be_block b) (request_id r)) b"
  by (cases r) simp_all

lemma request_of_owner [simp]: "request_owner (request_of k s) = (s, k)"
  by (cases k) (simp_all add: request_owner_def)

definition owing :: "backend_request_identifier \<Rightarrow> sender list \<Rightarrow> (sender \<times> backend_request_identifier) multiset" where
  "owing k ss = mset (map (\<lambda>s. (s, k)) ss)"

lemma owing_fst [simp]: "image_mset fst (owing k ss) = mset ss"
  by (simp add: owing_def multiset.map_comp comp_def)

definition waiting :: "(backend_request_identifier \<rightharpoonup> sender list) \<Rightarrow> (sender \<times> backend_request_identifier) multiset" where
  "waiting m = (\<Sum>k\<in>dom m. owing k (the (m k)))"

lemma waiting_empty [simp]: "waiting Map.empty = {#}"
  by (simp add: waiting_def)

lemma waiting_remove:
  assumes "finite (dom m)" "m k = Some ss"
  shows "waiting m = owing k ss + waiting (m(k := None))"
proof -
  have "waiting m = owing k ss + (\<Sum>k\<in>dom m - {k}. owing k (the (m k)))"
    unfolding waiting_def using assms by (subst sum.remove [of _ k]) auto
  also have "(\<Sum>k\<in>dom m - {k}. owing k (the (m k))) = waiting (m(k := None))"
    unfolding waiting_def by (rule sum.cong) auto
  finally show ?thesis .
qed

lemma waiting_update:
  assumes "finite (dom m)"
  shows "waiting (m(k \<mapsto> ss)) = owing k ss + waiting (m(k := None))"
  using waiting_remove [of "m(k \<mapsto> ss)" k ss] assms by simp

definition backend_inv :: "fork_backend \<Rightarrow> bool" where
  "backend_inv b \<longleftrightarrow> distinct (map fst (be_pending_requests b))
     \<and> dom (be_request_dedup_map b) = fst ` set (be_pending_requests b)
     \<and> (\<forall>e\<in>set (be_pending_requests b). snd e = call_for (be_block b) (fst e))"

lemma backend_inv_finite: "backend_inv b \<Longrightarrow> finite (dom (be_request_dedup_map b))"
  by (simp add: backend_inv_def)

definition owed :: "fork_backend \<Rightarrow> (sender \<times> backend_request_identifier) multiset" where
  "owed b = waiting (be_request_dedup_map b)
     + mset (map request_owner (be_queued_requests b)) + mset (map request_owner (be_incoming b))"

lemma backend_inv_new [simp]: "backend_inv (backend_new block)" "owed (backend_new block) = {#}"
  by (simp_all add: backend_inv_def backend_new_def owed_def)

lemma backend_inv_handle: "backend_inv b \<Longrightarrow> backend_inv (handle_requests r b)"
  by (auto simp: backend_inv_def handle_requests_dedup dedup_request_def split: option.splits)

lemma waiting_handle:
  assumes "backend_inv b"
  shows "waiting (be_request_dedup_map (handle_requests r b)) =
    waiting (be_request_dedup_map b) + {#request_owner r#}"
proof (cases "be_request_dedup_map b (request_id r)")
  case None
  then have "(be_request_dedup_map b)(request_id r := None) = be_request_dedup_map b" by (simp add: fun_upd_idem)
  then show ?thesis
    using None waiting_update [OF backend_inv_finite [OF assms], of "request_id r" "[request_sender r]"]
    by (simp add: handle_requests_dedup dedup_request_def owing_def request_owner_def)
next
  case (Some ss)
  then show ?thesis
    using waiting_update [OF backend_inv_finite [OF assms], of "request_id r" "ss @ [request_sender r]"]
      waiting_remove [OF backend_inv_finite [OF assms] Some]
    by (simp add: handle_requests_dedup dedup_request_def owing_def request_owner_def)
qed

lemma handle_fold:
  "backend_inv b \<Longrightarrow> backend_inv (fold handle_requests rs b)
    \<and> waiting (be_request_dedup_map (fold handle_requests rs b)) =
        waiting (be_request_dedup_map b) + mset (map request_owner rs)"
  by (induction rs arbitrary: b) (simp_all add: backend_inv_handle waiting_handle)

lemma handle_queued_owed:
  assumes "backend_inv b"
  shows "backend_inv (receive_incoming (handle_queued b))"
    "owed (receive_incoming (handle_queued b)) = owed b"
proof -
  have "backend_inv (b\<lparr>be_queued_requests := []\<rparr>)" using assms by (simp add: backend_inv_def)
  from handle_fold [OF this, of "be_queued_requests b"]
  show "backend_inv (receive_incoming (handle_queued b))"
    "owed (receive_incoming (handle_queued b)) = owed b"
    by (simp_all add: backend_inv_def handle_queued_def owed_def)
qed

section \<open>Polling the calls\<close>

text \<open>The invariant depends on the pending calls only as a multiset.\<close>

lemma backend_inv_permute:
  assumes "backend_inv b" "mset xs = mset (be_pending_requests b)"
  shows "backend_inv (b\<lparr>be_pending_requests := xs\<rparr>)"
proof -
  have "distinct (map fst xs) = distinct (map fst (be_pending_requests b))"
    using assms(2) by (intro mset_eq_imp_distinct_iff) simp
  then show ?thesis using assms(1) mset_eq_setD [OF assms(2)] unfolding backend_inv_def by simp
qed

lemma backend_inv_finish:
  assumes "backend_inv b" "mset (be_pending_requests b) = add_mset (k, c) (mset xs)"
  shows "backend_inv (b\<lparr>be_pending_requests := xs, be_request_dedup_map := (be_request_dedup_map b)(k := None)\<rparr>)"
proof -
  have "mset ((k, c) # xs) = mset (be_pending_requests b)" using assms(2) by simp
  from backend_inv_permute [OF assms(1) this] show ?thesis
    by (auto simp: backend_inv_def)
qed

definition answered ::
    "'rc rpc_provider \<Rightarrow> block_hash_or_number \<Rightarrow> (sender \<times> backend_request_identifier) multiset \<Rightarrow>
     (sender \<times> 'rc backend_response) list \<Rightarrow> bool" where
  "answered p block owners out \<longleftrightarrow>
     (\<forall>e\<in>set out. \<exists>k. (fst e, k) \<in># owners \<and> poll_call p (call_for block k) = Some (snd e))"

lemma answered_append:
  "answered p block A xs \<Longrightarrow> answered p block B ys \<Longrightarrow> answered p block (A + B) (xs @ ys)"
  by (auto simp: answered_def)

lemma answered_owing:
  "poll_call p (call_for block k) = Some res \<Longrightarrow> answered p block (owing k ss) (map (\<lambda>s. (s, res)) ss)"
  by (auto simp: answered_def owing_def)

lemma poll_requests_ok:
  assumes "backend_inv b" "n \<le> length (be_pending_requests b)"
    "\<forall>e\<in>set (drop n (be_pending_requests b)). poll_call p (snd e) = None"
  shows "\<exists>b' out'. poll_requests p n b out = Some (b', out @ out') \<and> backend_inv b'
    \<and> mset (be_pending_requests b') =
        filter_mset (\<lambda>e. poll_call p (snd e) = None) (mset (be_pending_requests b))
    \<and> (\<exists>fin. waiting (be_request_dedup_map b) = waiting (be_request_dedup_map b') + fin
        \<and> image_mset fst fin = mset (map fst out') \<and> answered p (be_block b) fin out')"
  using assms
proof (induction n arbitrary: b out)
  case 0
  then have "filter_mset (\<lambda>e. poll_call p (snd e) = None) (mset (be_pending_requests b)) = mset (be_pending_requests b)"
    by (simp add: filter_mset_eq_conv)
  with 0 show ?case by (intro exI [of _ b] exI [of _ "[]"]) (simp add: answered_def)
next
  case (Suc n)
  let ?xs = "be_pending_requests b" and ?m = "be_request_dedup_map b"
  obtain k c where kc: "?xs ! n = (k, c)" by (metis surj_pair)
  have n: "n < length ?xs" using Suc.prems(2) by simp
  obtain rest where sr: "swap_remove n ?xs = Some ((k, c), rest)" and ms: "mset ?xs = add_mset (k, c) (mset rest)"
    and len: "length rest = length ?xs - 1" and "set (drop n rest) \<subseteq> set (drop (Suc n) ?xs)"
    using swap_remove_split [OF n] unfolding kc by blast
  then have dr: "\<forall>e\<in>set (drop n rest). poll_call p (snd e) = None" using Suc.prems(3) by blast
  show ?case
  proof (cases "poll_call p c")
    case None
    let ?b = "b\<lparr>be_pending_requests := rest @ [(k, c)]\<rparr>"
    have "backend_inv ?b" using Suc.prems(1) ms by (intro backend_inv_permute) simp_all
    moreover have "\<forall>e\<in>set (drop n (be_pending_requests ?b)). poll_call p (snd e) = None"
      using dr None n len by auto
    ultimately show ?thesis
      using Suc.IH [of ?b out] n len ms None by (simp add: sr)
  next
    case (Some res)
    have "k \<in> dom ?m" using Suc.prems(1) n kc unfolding backend_inv_def by (metis fst_conv image_eqI nth_mem)
    then obtain ss where ss: "?m k = Some ss" by blast
    have c: "c = call_for (be_block b) k" using Suc.prems(1) n kc unfolding backend_inv_def by (metis fst_conv nth_mem snd_conv)
    define b1 where "b1 = b\<lparr>be_pending_requests := rest, be_request_dedup_map := ?m(k := None)\<rparr>"
    have b1: "be_pending_requests b1 = rest" "be_request_dedup_map b1 = ?m(k := None)" "be_block b1 = be_block b"
      by (simp_all add: b1_def)
    have "backend_inv b1" using backend_inv_finish [OF Suc.prems(1) ms] by (simp add: b1_def)
    moreover have "n \<le> length (be_pending_requests b1)" using n len by (simp add: b1)
    ultimately obtain b' out' d where ih:
      "poll_requests p n b1 (out @ map (\<lambda>s. (s, res)) ss) = Some (b', (out @ map (\<lambda>s. (s, res)) ss) @ out')"
      "backend_inv b'" "mset (be_pending_requests b') = filter_mset (\<lambda>e. poll_call p (snd e) = None) (mset rest)"
      "waiting (?m(k := None)) = waiting (be_request_dedup_map b') + d"
      "image_mset fst d = mset (map fst out')" "answered p (be_block b) d out'"
      using Suc.IH [of b1 "out @ map (\<lambda>s. (s, res)) ss"] dr unfolding b1 by blast
    have "answered p (be_block b) (owing k ss + d) (map (\<lambda>s. (s, res)) ss @ out')"
      using ih(6) Some c by (intro answered_append answered_owing) simp_all
    moreover have "image_mset fst (owing k ss + d) = mset (map fst (map (\<lambda>s. (s, res)) ss @ out'))"
      using ih(5) by (simp add: comp_def)
    moreover have "waiting ?m = waiting (be_request_dedup_map b') + (owing k ss + d)"
      using waiting_remove [OF backend_inv_finite [OF Suc.prems(1)] ss] ih(4) by simp
    moreover have "poll_requests p (Suc n) b out = Some (b', out @ (map (\<lambda>s. (s, res)) ss @ out'))"
      using ih(1) by (simp add: sr Some ss b1_def)
    moreover have "mset (be_pending_requests b') = filter_mset (\<lambda>e. poll_call p (snd e) = None) (mset ?xs)"
      using ih(3) ms Some by simp
    ultimately show ?thesis using ih(2) by blast
  qed
qed


lemma poll_round_ok:
  assumes "backend_inv b"
  shows "\<exists>st b' out fin. poll_round p b = Some (st, b', out) \<and> backend_inv b'
    \<and> owed b = owed b' + fin \<and> image_mset fst fin = mset (map fst out) \<and> answered p (be_block b) fin out
    \<and> (st = PollPending \<longrightarrow> (\<forall>e\<in>set (be_pending_requests b'). poll_call p (snd e) = None))"
proof -
  define b1 where "b1 = receive_incoming (handle_queued b)"
  note ok = handle_queued_owed [OF assms, folded b1_def]
  have blk: "be_block b1 = be_block b" by (simp add: b1_def)
  show ?thesis
  proof (cases "be_clients b1 = 0")
    case True
    then have "poll_round p b = Some (PollReady, b1, [])" by (simp add: poll_round_def b1_def)
    then show ?thesis using ok by (auto simp: answered_def)
  next
    case False
    from poll_requests_ok [of b1 "length (be_pending_requests b1)" p "[]"] ok
    obtain b' out fin where r: "poll_requests p (length (be_pending_requests b1)) b1 [] = Some (b', out)"
      "backend_inv b'"
      "mset (be_pending_requests b') = filter_mset (\<lambda>e. poll_call p (snd e) = None) (mset (be_pending_requests b1))"
      "waiting (be_request_dedup_map b1) = waiting (be_request_dedup_map b') + fin"
      "image_mset fst fin = mset (map fst out)" "answered p (be_block b1) fin out"
      by auto
    have "owed b1 = owed b' + fin"
      using r(4) poll_requests_fields [OF r(1)] by (simp add: owed_def)
    moreover have "poll_round p b = Some (PollPending, b', out)"
      using r(1) False by (simp add: poll_round_def b1_def Let_def)
    moreover have "set_mset (mset (be_pending_requests b')) \<subseteq> {e. poll_call p (snd e) = None}"
      unfolding r(3) by auto
    ultimately show ?thesis using r(2,5,6) ok(2) blk
      by (intro exI [of _ PollPending] exI [of _ b'] exI [of _ out] exI [of _ fin]) auto
  qed
qed

section \<open>One poll with an answering remote\<close>

lemma no_pending_no_waiting:
  assumes "backend_inv b" "be_pending_requests b = []"
  shows "be_request_dedup_map b = Map.empty"
  using assms by (simp add: backend_inv_def)

lemma backend_poll_ready:
  assumes "backend_inv b" "be_clients b > 0" "\<And>n c. poll_call (ps n) c \<noteq> None"
  shows "\<exists>b' out'. backend_poll ps n b out = Some (PollPending, b', out @ out')
    \<and> be_pending_requests b' = [] \<and> owed b' = {#} \<and> image_mset fst (owed b) = mset (map fst out')
    \<and> (\<forall>e\<in>set out'. \<exists>k m. (fst e, k) \<in># owed b \<and> poll_call (ps m) (call_for (be_block b) k) = Some (snd e))"
  using assms
proof (induction ps n b out rule: backend_poll.induct)
  case (1 ps n b out)
  from poll_round_ok [OF "1.prems"(1), of "ps n"] obtain st b' out' fin where
    r: "poll_round (ps n) b = Some (st, b', out')" "backend_inv b'" "owed b = owed b' + fin"
      "image_mset fst fin = mset (map fst out')" "answered (ps n) (be_block b) fin out'"
      "st = PollPending \<Longrightarrow> \<forall>e\<in>set (be_pending_requests b'). poll_call (ps n) (snd e) = None"
    by blast
  note fields = poll_round_fields [OF r(1)]
  have st: "st = PollPending" using fields(5) "1.prems"(2) by (cases st) simp_all
  have none: "be_pending_requests b' = []"
    using r(6) [OF st] "1.prems"(3) by (cases "be_pending_requests b'") auto
  then have owed': "owed b' = mset (map request_owner (be_queued_requests b'))"
    using no_pending_no_waiting [OF r(2)] fields(2) by (simp add: owed_def)
  have ans: "\<forall>e\<in>set out'. \<exists>k m. (fst e, k) \<in># owed b \<and> poll_call (ps m) (call_for (be_block b) k) = Some (snd e)"
    using r(5) unfolding answered_def r(3) by (meson union_iff)
  show ?case
  proof (cases "be_queued_requests b' = []")
    case True
    then have "backend_poll ps n b out = Some (PollPending, b', out @ out')"
      using r(1) st by (simp add: backend_poll.simps)
    then show ?thesis using True none owed' r(3,4) ans by auto
  next
    case False
    have "be_clients b' > 0" using fields(3) "1.prems"(2) by simp
    with "1.IH" [OF r(1) refl st refl False r(2) _ "1.prems"(3)] obtain b'' out'' where
      ih: "backend_poll ps (Suc n) b' (out @ out') = Some (PollPending, b'', (out @ out') @ out'')"
        "be_pending_requests b'' = []" "owed b'' = {#}" "image_mset fst (owed b') = mset (map fst out'')"
        "\<forall>e\<in>set out''. \<exists>k m. (fst e, k) \<in># owed b' \<and> poll_call (ps m) (call_for (be_block b') k) = Some (snd e)"
      by blast
    have "backend_poll ps n b out = Some (PollPending, b'', out @ (out' @ out''))"
      using r(1) st False ih(1) by (simp add: backend_poll.simps [of ps n b])
    moreover have "image_mset fst (owed b) = mset (map fst (out' @ out''))"
      using r(3,4) ih(4) by simp
    moreover have "\<forall>e\<in>set (out' @ out''). \<exists>k m. (fst e, k) \<in># owed b \<and> poll_call (ps m) (call_for (be_block b) k) = Some (snd e)"
      using ans ih(5) fields(4) r(3) by (metis Un_iff set_append union_iff)
    ultimately show ?thesis using ih(2,3) by blast
  qed
qed

section \<open>Runs\<close>

text \<open>
  Everything that can happen to a backend, in any order: a client sends a request with a new
  answer channel, a client is cloned or dropped, and a round of the loop of \<^verbatim>\<open>poll\<close> runs with
  one of the providers \<open>P\<close>.  A run is described by the requests sent, the backend and the
  answers given.
\<close>

inductive fork_run ::
    "'rc rpc_provider set \<Rightarrow> block_hash_or_number \<Rightarrow> (sender \<times> backend_request_identifier) list \<Rightarrow> fork_backend
     \<Rightarrow> (sender \<times> 'rc backend_response) list \<Rightarrow> bool" for P block where
  run_new: "fork_run P block [] (backend_new block) []"
| run_send: "fork_run P block sent b ans \<Longrightarrow> s \<notin> fst ` set sent \<Longrightarrow>
    client_request room (request_of k s) b = Inr b' \<Longrightarrow> fork_run P block (sent @ [(s, k)]) b' ans"
| run_clients: "fork_run P block sent b ans \<Longrightarrow> fork_run P block sent (b\<lparr>be_clients := n\<rparr>) ans"
| run_round: "fork_run P block sent b ans \<Longrightarrow> p \<in> P \<Longrightarrow> poll_round p b = Some (st, b', out) \<Longrightarrow>
    fork_run P block sent b' (ans @ out)"

lemma client_request_ok:
  assumes "client_request room (request_of k s) b = Inr b'"
  shows "backend_inv b' = backend_inv b" "owed b' = owed b + {#(s, k)#}" "be_block b' = be_block b"
    "be_clients b' = be_clients b"
proof -
  have b': "b' = b\<lparr>be_incoming := be_incoming b @ [request_of k s]\<rparr>"
    using assms by (simp add: client_request_def split: if_splits)
  show "backend_inv b' = backend_inv b" "owed b' = owed b + {#(s, k)#}" "be_block b' = be_block b"
    "be_clients b' = be_clients b"
    by (simp_all add: b' backend_inv_def owed_def)
qed

definition answers_from ::
    "'rc rpc_provider set \<Rightarrow> block_hash_or_number \<Rightarrow> (sender \<times> backend_request_identifier) list \<Rightarrow>
     (sender \<times> 'rc backend_response) list \<Rightarrow> bool" where
  "answers_from P block sent ans \<longleftrightarrow>
     (\<forall>e\<in>set ans. \<exists>k. \<exists>p\<in>P. (fst e, k) \<in> set sent \<and> poll_call p (call_for block k) = Some (snd e))"

lemma answers_from_append [simp]:
  "answers_from P block sent (xs @ ys) \<longleftrightarrow> answers_from P block sent xs \<and> answers_from P block sent ys"
  by (auto simp: answers_from_def)

lemma answers_from_more: "answers_from P block sent ans \<Longrightarrow> answers_from P block (sent @ later) ans"
  by (fastforce simp: answers_from_def)

lemma fork_run_inv:
  assumes "fork_run P block sent b ans"
  shows "backend_inv b \<and> be_block b = block \<and> distinct (map fst sent)
    \<and> set_mset (owed b) \<subseteq> set sent
    \<and> mset (map fst sent) = image_mset fst (owed b) + mset (map fst ans)
    \<and> answers_from P block sent ans"
  using assms
proof (induction rule: fork_run.induct)
  case run_new
  then show ?case by (simp add: answers_from_def) (simp add: backend_new_def)
next
  case (run_send sent b ans s room k b')
  then show ?case
    using client_request_ok [OF run_send.hyps(3)] by (auto simp: answers_from_more)
next
  case (run_clients sent b ans n)
  then show ?case by (simp add: backend_inv_def owed_def)
next
  case (run_round sent b ans p st b' out)
  with poll_round_ok [of b p] obtain fin where f: "backend_inv b'" "owed b = owed b' + fin"
    "image_mset fst fin = mset (map fst out)" "answered p (be_block b) fin out" by auto
  have "answers_from P block sent out"
    using f(2,4) run_round unfolding answers_from_def answered_def by fastforce
  with f run_round poll_round_fields(4) [OF run_round.hyps(3)] show ?case by auto
qed

lemma client_call_ready:
  assumes "backend_inv b" "be_clients b > 0" "\<And>n c. poll_call (ps n) c \<noteq> None" "s \<notin> fst ` set_mset (owed b)"
  shows "\<exists>n res. client_call True (ps # pss) s b k = Some (Inr res)
    \<and> poll_call (ps n) (call_for (be_block b) k) = Some res"
proof -
  define b1 where "b1 = b\<lparr>be_incoming := be_incoming b @ [request_of k s]\<rparr>"
  have req: "client_request True (request_of k s) b = Inr b1" by (simp add: client_request_def b1_def)
  note ok = client_request_ok [OF req]
  from backend_poll_ready [of b1 ps 0 "[]"] assms(1-3) ok obtain b' out where
    p: "backend_poll ps 0 b1 [] = Some (PollPending, b', out)" "image_mset fst (owed b1) = mset (map fst out)"
      "\<forall>e\<in>set out. \<exists>k m. (fst e, k) \<in># owed b1 \<and> poll_call (ps m) (call_for (be_block b) k) = Some (snd e)"
    by auto
  have "s \<in># image_mset fst (owed b1)" by (simp add: ok(2))
  then have "s \<in> set (map fst out)" unfolding p(2) by simp
  then obtain res where res: "map_of out s = Some res" by (metis list.set_map map_of_eq_None_iff not_None_eq)
  then have "(s, res) \<in> set out" by (rule map_of_SomeD)
  with p(3) obtain k' m where "(s, k') \<in># owed b1" "poll_call (ps m) (call_for (be_block b) k') = Some res" by fastforce
  moreover from this have "k' = k" using assms(4) by (auto simp: ok(2) image_iff)
  ultimately show ?thesis using p(1) res by (auto simp: client_call_def req)
qed

section \<open>The property\<close>

text \<open>
  C7. The fork backend answers every request exactly once with what the remote chain said.  In
  every run, whatever the order of requests, clones, drops and polls: no two calls in flight
  are for the same data, each answer channel is either still owed an answer or has got exactly
  one, every answer is the response of the remote chain, at the pinned block, to the request
  that was sent on that channel, and no poll panics.  When the remote chain answers and a client
  is alive, one poll returns with every request answered and no call in flight, and a call made
  then by a client returns the answer for its own request.
\<close>

theorem fork_backend_answers:
  assumes "fork_run P block sent b ans"
  shows "distinct (map fst (be_pending_requests b))
    \<and> distinct (map fst sent) \<and> mset (map fst sent) = image_mset fst (owed b) + mset (map fst ans)
    \<and> (\<forall>s res. (s, res) \<in> set ans \<longrightarrow>
        (\<exists>k. \<exists>p\<in>P. (s, k) \<in> set sent \<and> poll_call p (call_for block k) = Some res))
    \<and> poll_round p b \<noteq> None
    \<and> (be_clients b > 0 \<and> (\<forall>n c. poll_call (ps n) c \<noteq> None) \<longrightarrow>
        (\<exists>b' out. backend_poll ps 0 b [] = Some (PollPending, b', out) \<and> be_pending_requests b' = []
          \<and> mset (map fst (ans @ out)) = mset (map fst sent))
        \<and> (s \<notin> fst ` set sent \<longrightarrow> (\<exists>n res. client_call True (ps # pss) s b k = Some (Inr res)
          \<and> poll_call (ps n) (call_for block k) = Some res)))"
proof -
  note inv = fork_run_inv [OF assms]
  have "\<exists>b' out. backend_poll ps 0 b [] = Some (PollPending, b', out) \<and> be_pending_requests b' = []
      \<and> mset (map fst (ans @ out)) = mset (map fst sent)"
    if "be_clients b > 0" "\<forall>n c. poll_call (ps n) c \<noteq> None"
    using backend_poll_ready [of b ps 0 "[]"] that inv by fastforce
  moreover have "\<exists>n res. client_call True (ps # pss) s b k = Some (Inr res)
      \<and> poll_call (ps n) (call_for block k) = Some res"
    if "be_clients b > 0" "\<forall>n c. poll_call (ps n) c \<noteq> None" "s \<notin> fst ` set sent"
    using client_call_ready [of b ps s pss k] that inv by blast
  moreover have "poll_round p b \<noteq> None" using poll_round_ok [of b p] inv by fastforce
  moreover have "\<exists>k. \<exists>p\<in>P. (s, k) \<in> set sent \<and> poll_call p (call_for block k) = Some res" if "(s, res) \<in> set ans" for s res
    using inv that unfolding answers_from_def by (metis fst_conv snd_conv)
  moreover have "distinct (map fst (be_pending_requests b))" using inv by (simp add: backend_inv_def)
  ultimately show ?thesis using inv by blast
qed

text \<open>Two clients ask for the same nonce and one for a storage value, before the first poll.\<close>

definition sample_remote :: "unit rpc_provider" where
  "sample_remote =
     \<lparr>rpc_get_nonce = \<lambda>block a. Some (Inr 5), rpc_get_storage_at = \<lambda>a key block. Some (Inr key),
      rpc_get_class_hash_at = \<lambda>block a. Some (Inl RpcContractNotFound),
      rpc_get_class = \<lambda>block h. Some (Inl RpcClassHashNotFound)\<rparr>"

definition sample_fork_backend :: fork_backend where
  "sample_fork_backend = (backend_new (Num 3))\<lparr>be_incoming :=
     [request_of (NonceId 1) 0, request_of (StorageId (1, 7)) 1, request_of (NonceId 1) 2]\<rparr>"

lemma sample_fork_backend_run:
  "fork_run {sample_remote} (Num 3) [(0, NonceId 1), (1, StorageId (1, 7)), (2, NonceId 1)] sample_fork_backend []"
proof -
  let ?b0 = "backend_new (Num 3)"
  let ?b1 = "?b0\<lparr>be_incoming := [request_of (NonceId 1) 0]\<rparr>"
  let ?b2 = "?b0\<lparr>be_incoming := [request_of (NonceId 1) 0, request_of (StorageId (1, 7)) 1]\<rparr>"
  have "fork_run {sample_remote} (Num 3) ([] @ [(0, NonceId 1)]) ?b1 []"
    by (rule run_send [of _ _ _ ?b0 _ _ True]) (simp_all add: run_new client_request_def, simp add: backend_new_def)
  then have "fork_run {sample_remote} (Num 3) ([(0, NonceId 1)] @ [(1, StorageId (1, 7))]) ?b2 []"
    by (intro run_send [of _ _ _ ?b1 _ _ True]) (simp_all add: client_request_def)
  then have "fork_run {sample_remote} (Num 3) ([(0, NonceId 1), (1, StorageId (1, 7))] @ [(2, NonceId 1)]) sample_fork_backend []"
    by (intro run_send [of _ _ _ ?b2 _ _ True]) (simp_all add: client_request_def sample_fork_backend_def)
  then show ?thesis by simp
qed

lemma fork_backend_answers_witness:
  "(\<exists>b' out. backend_poll (\<lambda>n. sample_remote) 0 sample_fork_backend [] = Some (PollPending, b', out)
      \<and> be_pending_requests b' = [] \<and> mset (map fst out) = {#0, 1, 2#})
   \<and> (\<exists>n res. client_call True [\<lambda>n. sample_remote] 9 sample_fork_backend (NonceId 1) = Some (Inr res)
      \<and> poll_call sample_remote (GetNonce (Num 3) 1) = Some res)"
proof -
  note th = fork_backend_answers [OF sample_fork_backend_run, of sample_remote "\<lambda>n. sample_remote" 9 "[]" "NonceId 1"]
  have "poll_call sample_remote c \<noteq> None" for c by (cases c) (simp_all add: sample_remote_def)
  moreover have "be_clients sample_fork_backend > 0" by (simp add: sample_fork_backend_def backend_new_def)
  ultimately have "\<exists>b' out. backend_poll (\<lambda>n. sample_remote) 0 sample_fork_backend [] = Some (PollPending, b', out)
      \<and> be_pending_requests b' = [] \<and>
      mset (map fst ([] @ out)) = mset (map fst [(0, NonceId 1), (1, StorageId (1, 7)), (2, NonceId 1)])"
    and "\<exists>n res. client_call True [\<lambda>n. sample_remote] 9 sample_fork_backend (NonceId 1) = Some (Inr res)
      \<and> poll_call sample_remote (call_for (Num 3) (NonceId 1)) = Some res"
    using th by auto
  then show ?thesis by simp
qed

end
