(* ===== verification/Fork_Props.thy ===== *)
theory Fork_Props
  imports Fork_State Fork_Backend_Props Storage_Properties
begin

text \<open>
  The state of a forked node: the local chain laid over the remote state.  With reads through
  fresh providers the values returned are those of the specification, whatever was read and
  cached before; a read through a provider created before a block was stored overwrites what
  the block wrote.
\<close>

section \<open>The specification\<close>

text \<open>
  What the code relies on in the remote chain: at the pinned block its answers are those of one
  state, and a contract has a nonce exactly if it has a class.
\<close>

definition remote_ok ::
    "'rc backend_client \<Rightarrow> (contract_address \<Rightarrow> nonce option) \<Rightarrow> (contract_address \<Rightarrow> class_hash option) \<Rightarrow>
     (contract_address \<Rightarrow> storage_key \<Rightarrow> storage_value option) \<Rightarrow> bool" where
  "remote_ok client rn rc rs \<longleftrightarrow>
     (\<forall>a. client_get_nonce client a = Inr (rn a) \<and> client_get_class_hash_at client a = Inr (rc a)
        \<and> (rn a = None \<longleftrightarrow> rc a = None) \<and> (\<forall>k. client_get_storage client a k = Inr (rs a k)))"

text \<open>A value of the forked state: the last local write up to some block, else the fallback.\<close>

definition over :: "'v option \<Rightarrow> 'v option \<Rightarrow> 'v option" where
  "over local remote = (case local of Some v \<Rightarrow> Some v | None \<Rightarrow> remote)"

lemma over_simps [simp]: "over (Some v) r = Some v" "over None r = r"
  by (simp_all add: over_def)

abbreviation local_nonce where
  "local_nonce is a \<equiv> latest_write (\<lambda>i. nonce_write i a) (numbered is)"

abbreviation local_class where
  "local_class is a \<equiv> latest_write (\<lambda>i. class_write i a) (numbered is)"

abbreviation local_storage where
  "local_storage is a k \<equiv> latest_write (\<lambda>i. storage_write i (a, k)) (numbered is)"

text \<open>A contract deployed locally starts with nonce zero.\<close>

definition fork_nonce ::
    "(contract_address \<Rightarrow> nonce option) \<Rightarrow> ('cls, 'info) block_input list \<Rightarrow> contract_address \<Rightarrow> nonce option" where
  "fork_nonce rn is a = over (local_nonce is a) (if local_class is a = None then rn a else Some 0)"

definition fork_class ::
    "(contract_address \<Rightarrow> class_hash option) \<Rightarrow> ('cls, 'info) block_input list \<Rightarrow> contract_address \<Rightarrow> class_hash option" where
  "fork_class rc is a = over (local_class is a) (rc a)"

section \<open>Databases of a forked node\<close>

text \<open>
  A block fits the fork if it deploys contracts only at addresses that are free on the remote
  chain, and sets nonces only of contracts it deploys or whose information is stored already
  (the executor reads the class of an account before it runs one of its transactions).
\<close>

definition block_fits ::
    "(contract_address \<Rightarrow> nonce option) \<Rightarrow> ('cls, 'info) db \<Rightarrow> ('cls, 'info) block_input \<Rightarrow> bool" where
  "block_fits rn d i \<longleftrightarrow>
     (\<forall>a. (class_write i a \<noteq> None \<longrightarrow> rn a = None)
        \<and> (nonce_write i a \<noteq> None \<longrightarrow> class_write i a \<noteq> None \<or> tbl_get (tb_ContractInfo d) a \<noteq> None))"

inductive fork_reach ::
    "'rc backend_client \<Rightarrow> (contract_address \<Rightarrow> nonce option) \<Rightarrow> ('cls, 'info) block_input list \<Rightarrow> ('cls, 'info) db \<Rightarrow> bool"
    for client rn where
  fr_empty: "fork_reach client rn [] db_empty"
| fr_block: "fork_reach client rn is d \<Longrightarrow> inputs_ok (is @ [i]) \<Longrightarrow> block_fits rn d i \<Longrightarrow>
    fork_reach client rn (is @ [i]) (insert_input i d)"
| fr_storage: "fork_reach client rn is d \<Longrightarrow> fork_reach client rn is (snd (forked_latest_storage client d a k d))"
| fr_nonce: "fork_reach client rn is d \<Longrightarrow> fork_reach client rn is (snd (forked_latest_nonce client d a d))"
| fr_class_hash: "fork_reach client rn is d \<Longrightarrow> fork_reach client rn is (snd (forked_latest_class_hash client d a d))"
| fr_class: "fork_reach client rn is d \<Longrightarrow> fork_reach client rn is (snd (forked_latest_class to_class client d h d))"
| fr_compiled: "fork_reach client rn is d \<Longrightarrow>
    fork_reach client rn is (snd (forked_latest_compiled_class_hash to_class hash_class client d h d))"






section \<open>Storage\<close>

text \<open>A lookup in a dupsort table finds the least value, so a second value under the same key
  and subkey hides the first one or is hidden by it.\<close>

lemma dup_get_le:
  fixes t :: "('k :: linorder, ('s :: linorder) \<times> ('v :: linorder)) table"
  assumes "dup_inv t" "dup_get t k s = Some v" "(k, s, v') \<in> set t"
  shows "v \<le> v'"
proof -
  obtain y where y: "List.find (\<lambda>e. fst e = k \<and> s \<le> fst (snd e)) t = Some y" "y \<le> (k, s, v')"
    using find_sorted_least [of t "(k, s, v')" "\<lambda>e. fst e = k \<and> s \<le> fst (snd e)"] assms(1,3)
    by (auto simp: dup_inv_def)
  moreover have "y = (k, s, v)"
    using assms(2) y(1) by (cases y) (auto simp: dup_get_def seek_by_key_subkey_def split: if_splits dest: find_SomeD)
  ultimately show ?thesis by simp
qed

lemma dup_get_least:
  fixes t :: "('k :: linorder, ('s :: linorder) \<times> ('v :: linorder)) table"
  assumes "dup_inv t"
  shows "dup_get t k s = Some v \<longleftrightarrow> (k, s, v) \<in> set t \<and> (\<forall>v'. (k, s, v') \<in> set t \<longrightarrow> v \<le> v')"
  using dup_get_le [OF assms] dup_get_Some_ex [OF assms] dup_get_SomeD by (metis antisym)

lemma dup_get_put:
  fixes t :: "('k :: linorder, ('s :: linorder) \<times> ('v :: linorder)) table"
  assumes "dup_inv t"
  shows "dup_get (dup_put k (s, v) t) k' s' =
    (if k' = k \<and> s' = s then Some (case dup_get t k s of Some w \<Rightarrow> min v w | None \<Rightarrow> v) else dup_get t k' s')"
proof (cases "k' = k \<and> s' = s")
  case True
  show ?thesis
  proof (cases "dup_get t k s")
    case None
    then have "(k, s, w) \<notin> set t" for w using dup_get_eq_None [OF assms] by blast
    then show ?thesis using True None assms by (simp add: dup_get_least dup_inv_put)
  next
    case (Some w)
    then have "(k, s, w) \<in> set t" "\<And>v'. (k, s, v') \<in> set t \<Longrightarrow> w \<le> v'"
      using dup_get_least [OF assms] by blast+
    then have "dup_get (dup_put k (s, v) t) k s = Some (min v w)"
      unfolding dup_get_least [OF dup_inv_put [OF assms]] by (auto simp: min_def intro: order_trans)
    then show ?thesis using True Some by simp
  qed
next
  case False
  then have "dup_get (dup_put k (s, v) t) k' s' = Some x \<longleftrightarrow> dup_get t k' s' = Some x" for x
    unfolding dup_get_least [OF assms] dup_get_least [OF dup_inv_put [OF assms]] by auto
  then show ?thesis using False by (metis not_None_eq)
qed

definition storage_cached :: "(contract_address \<Rightarrow> storage_key \<Rightarrow> storage_value option) \<Rightarrow> ('cls, 'info) block_input list \<Rightarrow> ('cls, 'info) db \<Rightarrow> bool" where
  "storage_cached rs is d \<longleftrightarrow> storage_ok d \<and>
     (\<forall>a k. (dup_get (tb_ContractStorage d) a k = None \<longrightarrow> local_storage is a k = None)
        \<and> (\<forall>v. dup_get (tb_ContractStorage d) a k = Some v \<longrightarrow> over (local_storage is a k) (rs a k) = Some v))"

lemma storage_cached_insert:
  assumes "storage_cached rs is d" "inputs_ok (is @ [i])"
  shows "storage_cached rs (is @ [i]) (insert_input i d)"
proof -
  have ok: "storage_ok d" "updates_ok (bi_updates i)"
    using assms by (simp_all add: storage_cached_def inputs_ok_snoc)
  note ins = storage_insert [OF ok]
  show ?thesis
    unfolding storage_cached_def numbered_snoc
  proof (intro conjI allI)
    fix a k
    show "dup_get (tb_ContractStorage (insert_input i d)) a k = None \<longrightarrow>
        latest_write (\<lambda>i. storage_write i (a, k)) (numbered is @ [(bi_number i, i)]) = None"
      using assms(1) ins [of a k] by (simp add: storage_cached_def split: option.split)
    fix v
    show "dup_get (tb_ContractStorage (insert_input i d)) a k = Some v \<longrightarrow>
        over (latest_write (\<lambda>i. storage_write i (a, k)) (numbered is @ [(bi_number i, i)])) (rs a k) = Some v"
      using assms(1) ins [of a k] by (simp add: storage_cached_def split: option.split)
  qed (simp add: ins)
qed

lemma storage_cached_read:
  assumes "storage_cached rs is d" "remote_ok client rn rc rs"
  shows "storage_cached rs is (snd (forked_latest_storage client d a k d))"
    and "fst (forked_latest_storage client d a k d) = Inr (over (local_storage is a k) (rs a k))"
proof -
  let ?t = "tb_ContractStorage d"
  have ok: "dup_inv ?t" "dup_functional ?t" using assms(1) by (simp_all add: storage_cached_def storage_ok_def)
  have val: "dup_get ?t a k = None \<Longrightarrow> local_storage is a k = None"
    "dup_get ?t a k = Some v \<Longrightarrow> over (local_storage is a k) (rs a k) = Some v" for a k v
    using assms(1) by (simp_all add: storage_cached_def)
  have remote: "client_get_storage client a k = Inr (rs a k)" using assms(2) by (simp add: remote_ok_def)
  show "fst (forked_latest_storage client d a k d) = Inr (over (local_storage is a k) (rs a k))"
    using val [of a k] by (auto simp: forked_latest_storage_def latest_storage_dup_get remote split: option.split)
  show "storage_cached rs is (snd (forked_latest_storage client d a k d))"
  proof (cases "dup_get ?t a k = None \<and> rs a k \<noteq> None")
    case True
    then obtain v where v: "rs a k = Some v" by blast
    have none: "(a, k, v') \<notin> set ?t" for v' using True dup_get_eq_None [OF ok(1)] by blast
    have fn: "dup_functional (dup_put a (k, v) ?t)" using ok(2) none by (intro dup_functional_put) auto
    have get: "dup_get (dup_put a (k, v) ?t) a' k' = (if a' = a \<and> k' = k then Some v else dup_get ?t a' k')" for a' k'
      using True by (simp add: dup_get_put [OF ok(1)])
    have "snd (forked_latest_storage client d a k d) = d\<lparr>tb_ContractStorage := dup_put a (k, v) ?t\<rparr>"
      using True v by (simp add: forked_latest_storage_def latest_storage_dup_get remote)
    then show ?thesis
      using True v val fn ok(1) by (auto simp: storage_cached_def storage_ok_def get)
  next
    case False
    then have "snd (forked_latest_storage client d a k d) = d"
      by (auto simp: forked_latest_storage_def latest_storage_dup_get remote split: option.split)
    then show ?thesis using assms(1) by simp
  qed
qed

section \<open>Contract information\<close>

definition info_cached ::
    "(contract_address \<Rightarrow> nonce option) \<Rightarrow> (contract_address \<Rightarrow> class_hash option) \<Rightarrow>
     ('cls, 'info) block_input list \<Rightarrow> ('cls, 'info) db \<Rightarrow> bool" where
  "info_cached rn rc is d \<longleftrightarrow>
     (\<forall>a. (tbl_get (tb_ContractInfo d) a = None \<longrightarrow> local_nonce is a = None \<and> local_class is a = None)
        \<and> (\<forall>info. tbl_get (tb_ContractInfo d) a = Some info \<longrightarrow>
             fork_nonce rn is a = Some (ci_nonce info) \<and> fork_class rc is a = Some (ci_class_hash info)))"

lemma info_cached_insert:
  assumes "info_cached rn rc is d" "inputs_ok (is @ [i])" "block_fits rn d i"
  shows "info_cached rn rc (is @ [i]) (insert_input i d)"
proof -
  have ok: "updates_ok (bi_updates i)" using assms(2) by (simp add: inputs_ok_snoc)
  show ?thesis
    unfolding info_cached_def fork_nonce_def fork_class_def numbered_snoc latest_write_snoc
  proof (intro allI)
    fix a
    have fits: "class_write i a \<noteq> None \<Longrightarrow> rn a = None"
      "nonce_write i a \<noteq> None \<Longrightarrow> class_write i a \<noteq> None \<or> tbl_get (tb_ContractInfo d) a \<noteq> None"
      using assms(3) by (simp_all add: block_fits_def)
    have old: "tbl_get (tb_ContractInfo d) a = None \<Longrightarrow> local_nonce is a = None \<and> local_class is a = None"
      "tbl_get (tb_ContractInfo d) a = Some info \<Longrightarrow>
        over (local_nonce is a) (if local_class is a = None then rn a else Some 0) = Some (ci_nonce info)
        \<and> over (local_class is a) (rc a) = Some (ci_class_hash info)" for info
      using assms(1) by (simp_all add: info_cached_def fork_nonce_def fork_class_def)
    show "(tbl_get (tb_ContractInfo (insert_input i d)) a = None \<longrightarrow>
        (case nonce_write i a of None \<Rightarrow> local_nonce is a | Some v \<Rightarrow> Some v) = None
        \<and> (case class_write i a of None \<Rightarrow> local_class is a | Some v \<Rightarrow> Some v) = None)
      \<and> (\<forall>info. tbl_get (tb_ContractInfo (insert_input i d)) a = Some info \<longrightarrow>
        over (case nonce_write i a of None \<Rightarrow> local_nonce is a | Some v \<Rightarrow> Some v)
          (if (case class_write i a of None \<Rightarrow> local_class is a | Some v \<Rightarrow> Some v) = None then rn a else Some 0)
          = Some (ci_nonce info)
        \<and> over (case class_write i a of None \<Rightarrow> local_class is a | Some v \<Rightarrow> Some v) (rc a) = Some (ci_class_hash info))"
      using fits old unfolding info_insert [OF ok] Let_def
      by (cases "nonce_write i a"; cases "class_write i a"; cases "tbl_get (tb_ContractInfo d) a"; cases "local_nonce is a"; cases "local_class is a")
        (auto simp: info_with_class_def info_with_nonce_def contract_info_default_def)
  qed
qed

lemma info_cached_put:
  assumes "info_cached rn rc is d" "tbl_get (tb_ContractInfo d) a = None" "rn a = Some n" "rc a = Some c"
  shows "info_cached rn rc is (d\<lparr>tb_ContractInfo := tbl_put a \<lparr>ci_nonce = n, ci_class_hash = c\<rparr> (tb_ContractInfo d)\<rparr>)"
  using assms by (auto simp: info_cached_def fork_nonce_def fork_class_def table_simps)

lemma info_cached_read:
  assumes "info_cached rn rc is d" "remote_ok client rn rc rs"
  shows "info_cached rn rc is (snd (forked_latest_nonce client d a d))"
    and "info_cached rn rc is (snd (forked_latest_class_hash client d a d))"
    and "fst (forked_latest_nonce client d a d) = Inr (fork_nonce rn is a)"
    and "fst (forked_latest_class_hash client d a d) = Inr (fork_class rc is a)"
proof -
  have r: "client_get_nonce client a = Inr (rn a)" "client_get_class_hash_at client a = Inr (rc a)"
    "rn a = None \<longleftrightarrow> rc a = None"
    using assms(2) by (simp_all add: remote_ok_def)
  have old: "tbl_get (tb_ContractInfo d) a = None \<Longrightarrow> fork_nonce rn is a = rn a \<and> fork_class rc is a = rc a"
    "tbl_get (tb_ContractInfo d) a = Some info \<Longrightarrow> fork_nonce rn is a = Some (ci_nonce info)
      \<and> fork_class rc is a = Some (ci_class_hash info)" for info
    using assms(1) by (simp_all add: info_cached_def fork_nonce_def fork_class_def)
  note defs = forked_latest_nonce_def forked_latest_class_hash_def latest_nonce_def latest_class_hash_def r(1,2)
  show "fst (forked_latest_nonce client d a d) = Inr (fork_nonce rn is a)"
    "fst (forked_latest_class_hash client d a d) = Inr (fork_class rc is a)"
    using old r(3) by (auto simp: defs split: option.split)
  show "info_cached rn rc is (snd (forked_latest_nonce client d a d))"
    "info_cached rn rc is (snd (forked_latest_class_hash client d a d))"
    using assms(1) info_cached_put [OF assms(1)] by (auto simp: defs split: option.split)
qed

section \<open>The invariant\<close>

lemma fork_reach_cached:
  assumes "fork_reach client rn is d" "remote_ok client rn rc rs"
  shows "inputs_ok is \<and> storage_cached rs is d \<and> info_cached rn rc is d"
  using assms(1)
proof (induction rule: fork_reach.induct)
  case fr_empty
  then show ?case
    by (simp add: inputs_ok_def storage_cached_def info_cached_def storage_ok_def numbered_def)
      (simp add: db_empty_def dup_get_def seek_by_key_subkey_def)
next
  case (fr_block "is" d i)
  then show ?case by (simp add: storage_cached_insert info_cached_insert)
next
  case (fr_storage "is" d a k)
  moreover have "tb_ContractInfo (snd (forked_latest_storage client d a k d)) = tb_ContractInfo d"
    by (auto simp: forked_latest_storage_def split: sum.split option.split)
  moreover have "storage_cached rs is (snd (forked_latest_storage client d a k d))"
    using fr_storage.IH assms(2) by (intro storage_cached_read(1)) simp_all
  ultimately show ?case by (simp add: info_cached_def)
next
  case (fr_nonce "is" d a)
  moreover have "tb_ContractStorage (snd (forked_latest_nonce client d a d)) = tb_ContractStorage d"
    by (auto simp: forked_latest_nonce_def split: sum.split option.split)
  moreover have "info_cached rn rc is (snd (forked_latest_nonce client d a d))"
    using fr_nonce.IH assms(2) by (intro info_cached_read(1)) simp_all
  ultimately show ?case by (simp add: storage_cached_def storage_ok_def)
next
  case (fr_class_hash "is" d a)
  moreover have "tb_ContractStorage (snd (forked_latest_class_hash client d a d)) = tb_ContractStorage d"
    by (auto simp: forked_latest_class_hash_def split: sum.split option.split)
  moreover have "info_cached rn rc is (snd (forked_latest_class_hash client d a d))"
    using fr_class_hash.IH assms(2) by (intro info_cached_read(2)) simp_all
  ultimately show ?case by (simp add: storage_cached_def storage_ok_def)
next
  case (fr_class "is" d to_class h)
  moreover have "tb_ContractStorage (snd (forked_latest_class to_class client d h d)) = tb_ContractStorage d"
    "tb_ContractInfo (snd (forked_latest_class to_class client d h d)) = tb_ContractInfo d"
    by (auto simp: forked_latest_class_def split: sum.split option.split)
  ultimately show ?case by (simp add: storage_cached_def storage_ok_def info_cached_def)
next
  case (fr_compiled "is" d to_class hash_class h)
  moreover have "tb_ContractStorage (snd (forked_latest_compiled_class_hash to_class hash_class client d h d)) = tb_ContractStorage d"
    "tb_ContractInfo (snd (forked_latest_compiled_class_hash to_class hash_class client d h d)) = tb_ContractInfo d"
    by (auto simp: forked_latest_compiled_class_hash_def split: sum.split option.split)
  ultimately show ?case by (simp add: storage_cached_def storage_ok_def info_cached_def)
qed

section \<open>Properties\<close>


text \<open>A remote chain with one contract, and a local chain that runs a transaction of it.\<close>

definition sample_client :: "unit backend_client" where
  "sample_client k = (case k of
       NonceId a \<Rightarrow> Inr (NonceResponse (if a = 1 then Inr 5 else Inl (StarknetProvider RpcContractNotFound)))
     | ClassHashId a \<Rightarrow> Inr (ClassHashAtResponse (if a = 1 then Inr 9 else Inl (StarknetProvider RpcContractNotFound)))
     | StorageId ak \<Rightarrow> Inr (StorageResponse (if fst ak = 1 then Inr 3 else Inl (StarknetProvider RpcContractNotFound)))
     | ClassId h \<Rightarrow> Inr (ClassAtResponse (Inl (StarknetProvider RpcClassHashNotFound))))"

abbreviation "sample_rn \<equiv> (\<lambda>a :: contract_address. if a = 1 then Some (5 :: nonce) else None)"
abbreviation "sample_rc \<equiv> (\<lambda>a :: contract_address. if a = 1 then Some (9 :: class_hash) else None)"
abbreviation "sample_rs \<equiv> (\<lambda>(a :: contract_address) (k :: storage_key). if a = 1 then Some (3 :: storage_value) else None)"

lemma sample_client_ok: "remote_ok sample_client sample_rn sample_rc sample_rs"
  by (simp add: remote_ok_def sample_client_def client_get_nonce_def client_get_class_hash_at_def client_get_storage_def)

definition sample_fork_db :: "(unit, unit) db" where
  "sample_fork_db = insert_input (sample_input 6) (snd (forked_latest_nonce sample_client db_empty 1 db_empty))"

lemma info_of_empty [simp]: "tb_ContractInfo db_empty = []"
  by (simp add: db_empty_def)

lemma sample_cached:
  "tbl_get (tb_ContractInfo (snd (forked_latest_nonce sample_client db_empty 1 db_empty))) a =
     (if a = 1 then Some \<lparr>ci_nonce = 5, ci_class_hash = 9\<rparr> else None)"
proof -
  have "client_get_nonce sample_client 1 = Inr (Some 5)" "client_get_class_hash_at sample_client 1 = Inr (Some 9)"
    using sample_client_ok by (simp_all add: remote_ok_def)
  then show ?thesis
    by (simp add: forked_latest_nonce_def latest_nonce_def tbl_get_def del: One_nat_def)
qed

lemma sample_writes:
  "nonce_write (sample_input 6) a = (if a = 1 then Some 6 else None)" "class_write (sample_input 6) a = None"
  by (simp_all add: nonce_write_def class_write_def sample_defs tbl_get_def)

lemma sample_fork_reach: "fork_reach sample_client sample_rn [sample_input 6] sample_fork_db"
proof -
  have "fork_reach sample_client sample_rn [] (snd (forked_latest_nonce sample_client (db_empty :: (unit, unit) db) 1 db_empty))"
    by (intro fr_nonce fr_empty)
  moreover have "block_fits sample_rn (snd (forked_latest_nonce sample_client db_empty 1 db_empty)) (sample_input 6)"
    by (simp add: block_fits_def sample_cached sample_writes del: One_nat_def)
  moreover have "inputs_ok ([] @ [sample_input 6])"
    by (simp add: inputs_ok_def updates_ok_def sample_defs)
  ultimately show ?thesis unfolding sample_fork_db_def by (metis append_Nil fr_block)
qed


text \<open>
  C37. A read through an old provider undoes a block.  Let a provider be created, let the remote
  chain know a contract that the snapshot of the provider does not, and let the database have
  changed since in whatever way.  Reading the nonce through the old provider replaces the nonce
  and class hash in the current database by those of the remote chain.  Reading a storage cell
  adds the value of the remote chain to the values of the cell and removes none: if the current
  value is another one, the table has two values for the cell afterwards and is not well formed
  any more, and a read returns either of them, as their encodings are ordered.
\<close>

theorem stale_forked_read_overwrites:
  fixes d view :: "('cls, 'info) db" and a :: contract_address and k :: storage_key
  assumes "remote_ok client rn rc rs" "dup_inv (tb_ContractStorage d)"
  defines "d' \<equiv> snd (forked_latest_storage client view a k d)"
  shows "(latest_nonce view a = Inr None \<and> rn a = Some n \<longrightarrow>
      latest_nonce (snd (forked_latest_nonce client view a d)) a = Inr (Some n)
      \<and> latest_class_hash (snd (forked_latest_nonce client view a d)) a = Inr (rc a))
    \<and> (latest_storage view a k = Inr None \<and> rs a k = Some v \<and> latest_storage d a k = Inr (Some w) \<longrightarrow>
      {x. (a, k, x) \<in> set (tb_ContractStorage d')} = insert v {x. (a, k, x) \<in> set (tb_ContractStorage d)}
      \<and> (a, k, w) \<in> set (tb_ContractStorage d) \<and> (v \<noteq> w \<longrightarrow> \<not> storage_ok d')
      \<and> (\<exists>x \<in> {v, w}. latest_storage d' a k = Inr (Some x)))"
proof -
  have r: "client_get_nonce client a = Inr (rn a)" "client_get_class_hash_at client a = Inr (rc a)"
    "rn a = None \<longleftrightarrow> rc a = None" "client_get_storage client a k = Inr (rs a k)"
    using assms(1) by (simp_all add: remote_ok_def)
  have "latest_nonce (snd (forked_latest_nonce client view a d)) a = Inr (Some n)
      \<and> latest_class_hash (snd (forked_latest_nonce client view a d)) a = Inr (rc a)"
    if "latest_nonce view a = Inr None \<and> rn a = Some n"
    using that r(3) by (cases "rc a") (simp_all add: forked_latest_nonce_def r(1,2), simp add: latest_nonce_def latest_class_hash_def table_simps)
  moreover have "{x. (a, k, x) \<in> set (tb_ContractStorage d')} = insert v {x. (a, k, x) \<in> set (tb_ContractStorage d)}
      \<and> (a, k, w) \<in> set (tb_ContractStorage d) \<and> (v \<noteq> w \<longrightarrow> \<not> storage_ok d')
      \<and> (\<exists>x \<in> {v, w}. latest_storage d' a k = Inr (Some x))"
    if "latest_storage view a k = Inr None \<and> rs a k = Some v \<and> latest_storage d a k = Inr (Some w)"
  proof -
    have d': "tb_ContractStorage d' = dup_put a (k, v) (tb_ContractStorage d)"
      using that by (simp add: d'_def forked_latest_storage_def r(4))
    have w: "dup_get (tb_ContractStorage d) a k = Some w" using that by (simp add: latest_storage_dup_get)
    then have in_d: "(a, k, w) \<in> set (tb_ContractStorage d)" by (rule dup_get_SomeD)
    then have "v \<noteq> w \<longrightarrow> \<not> storage_ok d'"
      by (force simp: storage_ok_def dup_functional_def d' set_dup_put intro!: bexI [of _ "(a, k, w)"])
    moreover have "\<exists>x \<in> {v, w}. latest_storage d' a k = Inr (Some x)"
      using w by (simp add: latest_storage_dup_get d' dup_get_put [OF assms(2)] min_def)
    ultimately show ?thesis using in_d by (auto simp: d' set_dup_put)
  qed
  ultimately show ?thesis by blast
qed

text \<open>The block with nonce 6 and value 11 was stored after the provider with the empty snapshot was created.\<close>

lemma stale_forked_read_overwrites_witness:
  "latest_nonce sample_fork_db 1 = Inr (Some 6) \<and> latest_storage sample_fork_db 1 7 = Inr (Some 11)
   \<and> latest_nonce (snd (forked_latest_nonce sample_client db_empty 1 sample_fork_db)) 1 = Inr (Some 5)
   \<and> {(1, 7, 3), (1, 7, 11)} \<subseteq> set (tb_ContractStorage (snd (forked_latest_storage sample_client db_empty 1 7 sample_fork_db)))
   \<and> \<not> storage_ok (snd (forked_latest_storage sample_client db_empty 1 7 sample_fork_db))"
proof -
  have upd: "updates_ok (bi_updates (sample_input 6))" by (simp add: updates_ok_def sample_defs)
  have inv: "dup_inv (tb_ContractStorage sample_fork_db)"
    using fork_reach_cached [OF sample_fork_reach sample_client_ok] by (simp add: storage_cached_def storage_ok_def)
  have empty: "latest_nonce (db_empty :: (unit, unit) db) 1 = Inr None" "latest_storage (db_empty :: (unit, unit) db) 1 7 = Inr None"
    by (simp_all add: latest_nonce_def latest_storage_def) (simp add: db_empty_def seek_by_key_subkey_def)
  have n: "latest_nonce sample_fork_db 1 = Inr (Some 6)"
    using info_insert [OF upd, of "snd (forked_latest_nonce sample_client db_empty 1 db_empty)" 1]
    by (simp add: sample_fork_db_def latest_nonce_def sample_cached sample_writes Let_def
        info_with_nonce_def del: One_nat_def)
  have loc: "local_storage [sample_input 6] 1 7 = Some 11"
    by (simp add: numbered_def latest_write_def storage_write_def sample_defs tbl_get_def)
  have "storage_cached sample_rs [sample_input 6] sample_fork_db"
    using fork_reach_cached [OF sample_fork_reach sample_client_ok] by blast
  then have "dup_get (tb_ContractStorage sample_fork_db) 1 7 = None \<longrightarrow> local_storage [sample_input 6] 1 7 = None"
    "\<forall>v. dup_get (tb_ContractStorage sample_fork_db) 1 7 = Some v \<longrightarrow> over (local_storage [sample_input 6] 1 7) (sample_rs 1 7) = Some v"
    unfolding storage_cached_def by blast+
  then have s: "latest_storage sample_fork_db 1 7 = Inr (Some 11)"
    unfolding loc by (cases "dup_get (tb_ContractStorage sample_fork_db) 1 7") (simp_all add: latest_storage_dup_get)
  from stale_forked_read_overwrites [OF sample_client_ok inv, where view = db_empty and a = 1 and n = 5 and k = 7 and v = 3 and w = 11] empty n s
  show ?thesis by (simp add: set_eq_iff)
qed

end
