(* ===== verification/Rpc_Handlers.thy ===== *)
theory Rpc_Handlers
  imports Events Mining Tx_Validator
begin

text \<open>
  The read handlers of the Starknet API (\<^verbatim>\<open>crates/rpc/rpc/src/starknet/mod.rs\<close>), the builders of
  their answers (\<^verbatim>\<open>crates/rpc/rpc-types-builder\<close>) and the client of the chain a node is forked
  from (\<^verbatim>\<open>starknet/forking.rs\<close>).

  A value of the wire format is represented by what its constructor is given: a block by its
  hash, header, status and body, a receipt by its block, hash, status and receipt.  A handler
  returns an API error or an answer; the handlers that use a builder may also panic, then the
  result is none.  The executor of the pending block exists in interval mode only.
\<close>

section \<open>Answers\<close>

datatype receipt_block = PendingReceipt | BlockReceipt block_hash block_number

record tx_receipt_with_block_info =
  trb_block :: receipt_block
  trb_hash :: tx_hash
  trb_finality :: finality_status
  trb_receipt :: receipt

datatype 'b maybe_pending_block =
  PendingBlock partial_header 'b
| ClosedBlock block_hash header finality_status 'b

datatype exec_status = Succeeded | Reverted string

datatype tx_status = StatusReceived | StatusRejected | StatusAcceptedOnL2 exec_status | StatusAcceptedOnL1 exec_status

text \<open>\<^verbatim>\<open>expect\<close> on a fallible lookup, and sequencing of computations that may panic.\<close>

fun expect_some :: "'e + 'a option \<Rightarrow> ('e + 'a) option" where
  "expect_some (Inl e) = Some (Inl e)"
| "expect_some (Inr None) = None"
| "expect_some (Inr (Some a)) = Some (Inr a)"

fun xbind :: "('e + 'a) option \<Rightarrow> ('a \<Rightarrow> ('e + 'b) option) \<Rightarrow> ('e + 'b) option" where
  "xbind None f = None"
| "xbind (Some (Inl e)) f = Some (Inl e)"
| "xbind (Some (Inr a)) f = f a"

section \<open>Builders\<close>

definition block_builder_build ::
    "('cls, 'info) db \<Rightarrow> block_hash_or_number \<Rightarrow> (provider_error + tx_with_hash list maybe_pending_block option) option" where
  "block_builder_build d bid =
     xbind (Some (block_hash_by_id d bid)) (\<lambda>hash. case hash of
       None \<Rightarrow> Some (Inr None)
     | Some hash \<Rightarrow>
         xbind (expect_some (block_by_id d bid)) (\<lambda>block.
         xbind (expect_some (block_status d bid)) (\<lambda>finality_status.
           Some (Inr (Some (ClosedBlock hash (blk_header block) finality_status (blk_body block)))))))"

definition block_builder_build_with_tx_hash ::
    "('cls, 'info) db \<Rightarrow> block_hash_or_number \<Rightarrow> (provider_error + tx_hash list maybe_pending_block option) option" where
  "block_builder_build_with_tx_hash d bid =
     xbind (Some (block_hash_by_id d bid)) (\<lambda>hash. case hash of
       None \<Rightarrow> Some (Inr None)
     | Some hash \<Rightarrow>
         xbind (expect_some (block_with_tx_hashes_by_id d bid)) (\<lambda>block.
         xbind (expect_some (block_status d bid)) (\<lambda>finality_status.
           Some (Inr (Some (ClosedBlock hash (bth_header block) finality_status (bth_body block)))))))"

definition block_builder_build_with_receipts ::
    "('cls, 'info) db \<Rightarrow> block_hash_or_number \<Rightarrow> (provider_error + (tx_with_hash \<times> receipt) list maybe_pending_block option) option" where
  "block_builder_build_with_receipts d bid =
     xbind (Some (block_hash_by_id d bid)) (\<lambda>hash. case hash of
       None \<Rightarrow> Some (Inr None)
     | Some hash \<Rightarrow>
         xbind (expect_some (block_by_id d bid)) (\<lambda>block.
         xbind (expect_some (block_status d bid)) (\<lambda>finality_status.
         xbind (expect_some (receipts_by_block d bid)) (\<lambda>receipts.
           Some (Inr (Some (ClosedBlock hash (blk_header block) finality_status (zip (blk_body block) receipts))))))))"

definition receipt_builder_build ::
    "('cls, 'info) db \<Rightarrow> tx_hash \<Rightarrow> (provider_error + tx_receipt_with_block_info option) option" where
  "receipt_builder_build d hash =
     xbind (Some (receipt_by_hash d hash)) (\<lambda>receipt. case receipt of
       None \<Rightarrow> Some (Inr None)
     | Some receipt \<Rightarrow>
         xbind (expect_some (transaction_block_num_and_hash d hash)) (\<lambda>(block_number, block_hash).
         xbind (expect_some (transaction_status d hash)) (\<lambda>finality_status.
           Some (Inr (Some \<lparr>trb_block = BlockReceipt block_hash block_number, trb_hash = hash,
             trb_finality = finality_status, trb_receipt = receipt\<rparr>)))))"

section \<open>The forked client\<close>

text \<open>The methods of the JSON-RPC provider, with their errors after conversion.\<close>

record remote_client = fork_client +
  rc_get_transaction_by_hash :: "tx_hash \<Rightarrow> starknet_api_error + tx_with_hash"
  rc_get_transaction_receipt :: "tx_hash \<Rightarrow> starknet_api_error + tx_receipt_with_block_info"
  rc_get_transaction_status :: "tx_hash \<Rightarrow> starknet_api_error + tx_status"
  rc_get_transaction_by_block_id_and_index :: "block_id_or_tag \<Rightarrow> nat \<Rightarrow> starknet_api_error + tx_with_hash"
  rc_get_block_with_txs :: "block_id_or_tag \<Rightarrow> starknet_api_error + tx_with_hash list maybe_pending_block"
  rc_get_block_with_receipts :: "block_id_or_tag \<Rightarrow> starknet_api_error + (tx_with_hash \<times> receipt) list maybe_pending_block"
  rc_get_block_with_tx_hashes :: "block_id_or_tag \<Rightarrow> starknet_api_error + tx_hash list maybe_pending_block"
  rc_get_block_transaction_count :: "block_id_or_tag \<Rightarrow> starknet_api_error + nat"

definition remote :: "starknet_api_error + 'a \<Rightarrow> fork_error + 'a" where
  "remote r = (case r of Inl e \<Rightarrow> Inl (ForkProvider e) | Inr a \<Rightarrow> Inr a)"

definition forked_transaction_by_hash :: "remote_client \<Rightarrow> tx_hash \<Rightarrow> fork_error + tx_with_hash" where
  "forked_transaction_by_hash c hash = remote (rc_get_transaction_by_hash c hash)"

definition forked_transaction_receipt :: "remote_client \<Rightarrow> tx_hash \<Rightarrow> fork_error + tx_receipt_with_block_info" where
  "forked_transaction_receipt c hash =
     rbind (remote (rc_get_transaction_receipt c hash)) (\<lambda>receipt.
       case trb_block receipt of
         BlockReceipt _ block_number \<Rightarrow> if fc_block c < block_number then Inl BlockOutOfRange else Inr receipt
       | PendingReceipt \<Rightarrow> Inr receipt)"

definition forked_transaction_status :: "remote_client \<Rightarrow> tx_hash \<Rightarrow> fork_error + tx_status" where
  "forked_transaction_status c hash =
     rbind (forked_transaction_receipt c hash) (\<lambda>_. remote (rc_get_transaction_status c hash))"

definition forked_transaction_by_block_id_and_index ::
    "remote_client \<Rightarrow> block_id_or_tag \<Rightarrow> nat \<Rightarrow> fork_error + tx_with_hash" where
  "forked_transaction_by_block_id_and_index c bid idx =
     (case bid of
        IdNumber num \<Rightarrow>
          if fc_block c < num then Inl BlockOutOfRange
          else remote (rc_get_transaction_by_block_id_and_index c bid idx)
      | IdHash hash \<Rightarrow>
          rbind (remote (rc_get_block_with_tx_hashes c (IdHash hash))) (\<lambda>block.
            case block of
              PendingBlock _ _ \<Rightarrow> Inl UnexpectedPendingData
            | ClosedBlock _ hdr _ _ \<Rightarrow>
                if fc_block c < hd_number hdr then Inl BlockOutOfRange
                else remote (rc_get_transaction_by_block_id_and_index c bid idx))
      | _ \<Rightarrow> Inl BlockTagNotAllowed)"

text \<open>The test that the three block getters make on what the provider returns.\<close>

definition in_forked_range :: "remote_client \<Rightarrow> 'b maybe_pending_block \<Rightarrow> fork_error + 'b maybe_pending_block" where
  "in_forked_range c block =
     (case block of
        ClosedBlock _ hdr _ _ \<Rightarrow> if fc_block c < hd_number hdr then Inl BlockOutOfRange else Inr block
      | PendingBlock _ _ \<Rightarrow> Inl UnexpectedPendingData)"

definition forked_block_with_txs :: "remote_client \<Rightarrow> block_id_or_tag \<Rightarrow> fork_error + tx_with_hash list maybe_pending_block" where
  "forked_block_with_txs c bid = rbind (remote (rc_get_block_with_txs c bid)) (in_forked_range c)"

definition forked_block_with_receipts ::
    "remote_client \<Rightarrow> block_id_or_tag \<Rightarrow> fork_error + (tx_with_hash \<times> receipt) list maybe_pending_block" where
  "forked_block_with_receipts c bid = rbind (remote (rc_get_block_with_receipts c bid)) (in_forked_range c)"

definition forked_block_with_tx_hashes :: "remote_client \<Rightarrow> block_id_or_tag \<Rightarrow> fork_error + tx_hash list maybe_pending_block" where
  "forked_block_with_tx_hashes c bid = rbind (remote (rc_get_block_with_tx_hashes c bid)) (in_forked_range c)"

definition forked_block_transaction_count :: "remote_client \<Rightarrow> block_id_or_tag \<Rightarrow> fork_error + nat" where
  "forked_block_transaction_count c bid =
     rbind (case bid of
        IdNumber num \<Rightarrow> if fc_block c < num then Inl BlockOutOfRange else Inr ()
      | IdHash hash \<Rightarrow>
          rbind (remote (rc_get_block_with_tx_hashes c (IdHash hash))) (\<lambda>block.
            case block of
              ClosedBlock _ hdr _ _ \<Rightarrow> if fc_block c < hd_number hdr then Inl BlockOutOfRange else Inr ()
            | PendingBlock _ _ \<Rightarrow> Inr ())
      | _ \<Rightarrow> Inl BlockTagNotAllowed)
     (\<lambda>_. remote (rc_get_block_transaction_count c bid))"

section \<open>The API\<close>

text \<open>A \<^verbatim>\<open>StateProvider\<close>, by the reads the handlers make.\<close>

record state_reads =
  rd_nonce :: "contract_address \<Rightarrow> nonce option provider_result"
  rd_class_hash :: "contract_address \<Rightarrow> class_hash option provider_result"
  rd_storage :: "contract_address \<Rightarrow> storage_key \<Rightarrow> storage_value option provider_result"

definition view_reads :: "('cls, 'info) db \<Rightarrow> state_view \<Rightarrow> state_reads" where
  "view_reads d v = \<lparr>rd_nonce = view_nonce d v, rd_class_hash = view_class_hash d v, rd_storage = view_storage d v\<rparr>"

record ('cls, 'st, 'bn, 'p, 'cfg, 'o, 'l, 's) starknet_api =
  sa_db :: "('cls, exec_info) db"
  sa_pending_executor :: "('cls, 'st, 'bn) vm_processor option"
  sa_executor_state :: "('cls, 'st, 'bn) vm_processor \<Rightarrow> state_reads"
  sa_pool :: "('cls, 'p, ('cls, 'cfg) validator_state, 'o, 'l, 's) pool"
  sa_forked_client :: "remote_client option"
  sa_provider_text :: "provider_error \<Rightarrow> string"

type_synonym 'a api_result = "starknet_api_error + 'a"

definition api_lift :: "('cls, 'st, 'bn, 'p, 'cfg, 'o, 'l, 's) starknet_api \<Rightarrow> 'a provider_result \<Rightarrow> 'a api_result" where
  "api_lift api r = (case r of Inl e \<Rightarrow> Inl (api_error_of_provider (sa_provider_text api) e) | Inr x \<Rightarrow> Inr x)"

text \<open>What every handler does at its end: the local answer, else the forked chain, else an error.\<close>

definition or_forked ::
    "('cls, 'st, 'bn, 'p, 'cfg, 'o, 'l, 's) starknet_api \<Rightarrow> 'a option \<Rightarrow> (remote_client \<Rightarrow> fork_error + 'a) \<Rightarrow> 'a api_result
     \<Rightarrow> 'a api_result" where
  "or_forked api found ask none =
     (case found of
        Some a \<Rightarrow> Inr a
      | None \<Rightarrow> (case sa_forked_client api of Some client \<Rightarrow> lift_fork (ask client) | None \<Rightarrow> none))"

section \<open>State\<close>

definition api_state ::
    "('cls, 'st, 'bn, 'p, 'cfg, 'o, 'l, 's) starknet_api \<Rightarrow> block_id_or_tag \<Rightarrow> state_reads api_result" where
  "api_state api bid =
     (let d = sa_db api;
          at_block = (\<lambda>b. rbind (api_lift api (historical d b)) (\<lambda>view. Inr (map_option (view_reads d) view)))
      in rbind (case bid of
           TagLatest \<Rightarrow> Inr (Some (view_reads d LatestState))
         | TagPending \<Rightarrow> (case sa_pending_executor api of
             Some exec \<Rightarrow> Inr (Some (sa_executor_state api exec))
           | None \<Rightarrow> Inr (Some (view_reads d LatestState)))
         | IdHash hash \<Rightarrow> at_block (Hash hash)
         | IdNumber num \<Rightarrow> at_block (Num num))
       (ok_or BlockNotFound))"

definition api_block_hash_and_number ::
    "('cls, 'st, 'bn, 'p, 'cfg, 'o, 'l, 's) starknet_api \<Rightarrow> (block_hash \<times> block_number) api_result" where
  "api_block_hash_and_number api =
     rbind (api_lift api (latest_hash (sa_db api))) (\<lambda>hash.
     rbind (api_lift api (latest_number (sa_db api))) (\<lambda>number. Inr (hash, number)))"

definition api_class_hash_at_address ::
    "('cls, 'st, 'bn, 'p, 'cfg, 'o, 'l, 's) starknet_api \<Rightarrow> block_id_or_tag \<Rightarrow> contract_address \<Rightarrow> class_hash api_result" where
  "api_class_hash_at_address api bid address =
     (if address = 1 then Inr 0
      else rbind (api_state api bid) (\<lambda>state.
           rbind (api_lift api (rd_class_hash state address)) (ok_or ContractNotFound)))"

definition api_storage_at ::
    "('cls, 'st, 'bn, 'p, 'cfg, 'o, 'l, 's) starknet_api \<Rightarrow> contract_address \<Rightarrow> storage_key \<Rightarrow> block_id_or_tag
     \<Rightarrow> storage_value api_result" where
  "api_storage_at api address key bid =
     rbind (api_state api bid) (\<lambda>state.
     rbind (if address \<noteq> 1
            then rbind (api_lift api (rd_class_hash state address)) (\<lambda>class_hash.
                   if class_hash = None then Inl ContractNotFound else Inr ())
            else Inr ()) (\<lambda>_.
     rbind (api_lift api (rd_storage state address key)) (\<lambda>value.
       Inr (case value of Some v \<Rightarrow> v | None \<Rightarrow> 0))))"

definition api_nonce_at ::
    "('cls, 'st, 'bn, 'p, 'cfg, 'o, 'l, 's) starknet_api \<Rightarrow> block_id_or_tag \<Rightarrow> contract_address \<Rightarrow> nonce api_result" where
  "api_nonce_at api bid address =
     rbind (if bid = TagPending then api_lift api (pool_nonce (validator (sa_pool api)) address)
            else rbind (api_state api bid) (\<lambda>state. api_lift api (rd_nonce state address)))
       (ok_or ContractNotFound)"

section \<open>Transactions\<close>

definition api_block_tx_count ::
    "('cls, 'st, 'bn, 'p, 'cfg, 'o, 'l, 's) starknet_api \<Rightarrow> block_id_or_tag \<Rightarrow> nat api_result" where
  "api_block_tx_count api bid =
     (let d = sa_db api;
          stored = (\<lambda>b. api_lift api (transaction_count_by_block d b))
      in rbind (case bid of
           TagPending \<Rightarrow> (case sa_pending_executor api of
             Some exec \<Rightarrow> Inr (Some (length (vp_transactions exec)))
           | None \<Rightarrow> rbind (api_lift api (latest_hash d)) (\<lambda>hash. stored (Hash hash)))
         | TagLatest \<Rightarrow> rbind (api_lift api (latest_number d)) (\<lambda>num. stored (Num num))
         | IdNumber num \<Rightarrow> stored (Num num)
         | IdHash hash \<Rightarrow> stored (Hash hash))
       (\<lambda>found. or_forked api found (\<lambda>client. forked_block_transaction_count client bid) (Inl BlockNotFound)))"

definition api_transaction_by_block_id_and_index ::
    "('cls, 'st, 'bn, 'p, 'cfg, 'o, 'l, 's) starknet_api \<Rightarrow> block_id_or_tag \<Rightarrow> nat \<Rightarrow> tx_with_hash api_result" where
  "api_transaction_by_block_id_and_index api bid index =
     rbind (if bid = TagPending
            then (case sa_pending_executor api of
                    None \<Rightarrow> Inl BlockNotFound
                  | Some exec \<Rightarrow> Inr (if index < length (vp_transactions exec)
                                    then Some (fst (vp_transactions exec ! index)) else None))
            else rbind (api_lift api (convert_block_id (sa_db api) bid)) (\<lambda>num.
                 rbind (ok_or BlockNotFound num) (\<lambda>block_num.
                   api_lift api (transaction_by_block_and_idx (sa_db api) (Num block_num) index))))
       (\<lambda>tx. or_forked api tx (\<lambda>client. forked_transaction_by_block_id_and_index client bid index) (Inl InvalidTxnIndex))"

definition pending_entry ::
    "('cls, 'st, 'bn, 'p, 'cfg, 'o, 'l, 's) starknet_api \<Rightarrow> tx_hash \<Rightarrow> (tx_with_hash \<times> execution_result) option" where
  "pending_entry api hash =
     Option.bind (sa_pending_executor api) (\<lambda>exec. List.find (\<lambda>e. twh_hash (fst e) = hash) (vp_transactions exec))"

definition api_transaction ::
    "('cls, 'st, 'bn, 'p, 'cfg, 'o, 'l, 's) starknet_api \<Rightarrow> tx_hash \<Rightarrow> tx_with_hash api_result" where
  "api_transaction api hash =
     rbind (api_lift api (transaction_by_hash (sa_db api) hash)) (\<lambda>tx.
       let result = (case tx of Some t \<Rightarrow> Some t | None \<Rightarrow> map_option fst (pending_entry api hash))
       in or_forked api result (\<lambda>client. forked_transaction_by_hash client hash)
            (rbind (ok_or TxnHashNotFound (pool_get (sa_pool api) hash)) (\<lambda>t. Inr (tx_with_hash_from t))))"

definition pending_receipt ::
    "('cls, 'st, 'bn, 'p, 'cfg, 'o, 'l, 's) starknet_api \<Rightarrow> tx_hash \<Rightarrow> receipt option" where
  "pending_receipt api hash =
     Option.bind (sa_pending_executor api) (\<lambda>exec.
       (case List.map_filter (\<lambda>(tx, res).
               if twh_hash tx = hash then (case res of Success receipt _ \<Rightarrow> Some receipt | Failed _ \<Rightarrow> None) else None)
             (vp_transactions exec) of
          [] \<Rightarrow> None
        | receipt # _ \<Rightarrow> Some receipt))"

definition api_receipt ::
    "('cls, 'st, 'bn, 'p, 'cfg, 'o, 'l, 's) starknet_api \<Rightarrow> tx_hash \<Rightarrow> tx_receipt_with_block_info api_result option" where
  "api_receipt api hash =
     xbind (map_option (api_lift api) (receipt_builder_build (sa_db api) hash)) (\<lambda>receipt.
       let found = (case receipt of
             Some r \<Rightarrow> Some r
           | None \<Rightarrow> map_option (\<lambda>r. \<lparr>trb_block = PendingReceipt, trb_hash = hash, trb_finality = AcceptedOnL2, trb_receipt = r\<rparr>)
               (pending_receipt api hash))
       in Some (or_forked api found (\<lambda>client. forked_transaction_receipt client hash) (Inl TxnHashNotFound)))"

definition exec_status_of :: "receipt \<Rightarrow> exec_status" where
  "exec_status_of r = (case revert_reason r of Some reason \<Rightarrow> Reverted reason | None \<Rightarrow> Succeeded)"

definition api_transaction_status ::
    "('cls, 'st, 'bn, 'p, 'cfg, 'o, 'l, 's) starknet_api \<Rightarrow> tx_hash \<Rightarrow> tx_status api_result" where
  "api_transaction_status api hash =
     rbind (rbind (api_lift api (transaction_status (sa_db api) hash)) (\<lambda>status.
       case status of
         Some status \<Rightarrow>
           rbind (api_lift api (receipt_by_hash (sa_db api) hash)) (\<lambda>receipt.
             case receipt of
               None \<Rightarrow> Inl (UnexpectedError ''Transaction hash exist, but the receipt is missing'')
             | Some receipt \<Rightarrow> Inr (Some (case status of
                 AcceptedOnL1 \<Rightarrow> StatusAcceptedOnL1 (exec_status_of receipt)
               | AcceptedOnL2 \<Rightarrow> StatusAcceptedOnL2 (exec_status_of receipt))))
       | None \<Rightarrow>
           (case sa_pending_executor api of
              Some exec \<Rightarrow>
                rbind (ok_or TxnHashNotFound (pending_entry api hash)) (\<lambda>(_, res).
                  Inr (Some (case res of
                    Failed _ \<Rightarrow> StatusRejected
                  | Success receipt _ \<Rightarrow> StatusAcceptedOnL2 (exec_status_of receipt))))
            | None \<Rightarrow> Inr None)))
     (\<lambda>status. or_forked api status (\<lambda>client. forked_transaction_status client hash)
        (rbind (ok_or TxnHashNotFound (pool_get (sa_pool api) hash)) (\<lambda>_. Inr StatusReceived)))"

section \<open>Blocks\<close>

definition pending_header :: "block_env \<Rightarrow> block_hash \<Rightarrow> partial_header" where
  "pending_header env parent =
     \<lparr>ph_parent_hash = parent, ph_number = be_number env, ph_timestamp = be_timestamp env,
      ph_sequencer_address = be_sequencer_address env, ph_l1_gas_prices = be_l1_gas_prices env,
      ph_l1_data_gas_prices = be_l1_data_gas_prices env, ph_l2_gas_prices = be_l2_gas_prices env,
      ph_l1_da_mode = Calldata, ph_protocol_version = CURRENT_STARKNET_VERSION\<rparr>"

text \<open>
  The three block handlers differ in what they make of the pending transactions, in the
  builder they call and in the method of the forked client.
\<close>

definition block_handler ::
    "('cls, 'st, 'bn, 'p, 'cfg, 'o, 'l, 's) starknet_api \<Rightarrow> block_id_or_tag \<Rightarrow> ((tx_with_hash \<times> execution_result) list \<Rightarrow> 'b) \<Rightarrow>
     (('cls, exec_info) db \<Rightarrow> block_hash_or_number \<Rightarrow> (provider_error + 'b maybe_pending_block option) option) \<Rightarrow>
     (remote_client \<Rightarrow> block_id_or_tag \<Rightarrow> fork_error + 'b maybe_pending_block) \<Rightarrow> 'b maybe_pending_block api_result option" where
  "block_handler api bid pending_body build ask =
     (let d = sa_db api;
          stored = xbind (Some (api_lift api (convert_block_id d bid))) (\<lambda>num.
            xbind (case num of Some num \<Rightarrow> map_option (api_lift api) (build d (Num num)) | None \<Rightarrow> Some (Inr None)) (\<lambda>block.
              Some (or_forked api block (\<lambda>client. ask client bid) (Inl BlockNotFound))))
      in case (bid, sa_pending_executor api) of
           (TagPending, Some exec) \<Rightarrow>
             Some (rbind (api_lift api (latest_hash d)) (\<lambda>parent.
               Inr (PendingBlock (pending_header (executor_block_env (vp_block_info exec)) parent)
                     (pending_body (vp_transactions exec)))))
         | _ \<Rightarrow> stored)"

definition api_block_with_txs ::
    "('cls, 'st, 'bn, 'p, 'cfg, 'o, 'l, 's) starknet_api \<Rightarrow> block_id_or_tag
     \<Rightarrow> tx_with_hash list maybe_pending_block api_result option" where
  "api_block_with_txs api bid =
     block_handler api bid (\<lambda>txs. map fst (filter (\<lambda>e. is_success (snd e)) txs)) block_builder_build forked_block_with_txs"

definition api_block_with_receipts ::
    "('cls, 'st, 'bn, 'p, 'cfg, 'o, 'l, 's) starknet_api \<Rightarrow> block_id_or_tag
     \<Rightarrow> (tx_with_hash \<times> receipt) list maybe_pending_block api_result option" where
  "api_block_with_receipts api bid =
     block_handler api bid
       (List.map_filter (\<lambda>(tx, res). case res of Success receipt _ \<Rightarrow> Some (tx, receipt) | Failed _ \<Rightarrow> None))
       block_builder_build_with_receipts forked_block_with_receipts"

definition api_block_with_tx_hashes ::
    "('cls, 'st, 'bn, 'p, 'cfg, 'o, 'l, 's) starknet_api \<Rightarrow> block_id_or_tag
     \<Rightarrow> tx_hash list maybe_pending_block api_result option" where
  "api_block_with_tx_hashes api bid =
     block_handler api bid (\<lambda>txs. map (\<lambda>e. twh_hash (fst e)) (filter (\<lambda>e. is_success (snd e)) txs))
       block_builder_build_with_tx_hash forked_block_with_tx_hashes"

end
