(* ===== verification/Rpc_Props.thy ===== *)
theory Rpc_Props
  imports Rpc_Handlers Mining_Props Pool_Properties
begin

text \<open>
  What clients read.  The handlers agree with each other and with the database on every stored
  block, the pending block that is shown is the block that is mined, and the status of a
  transaction that waits in the pool depends on the mode of the node.
\<close>

section \<open>Stored blocks\<close>

text \<open>
  The database holds block \<open>b\<close> with its receipts \<open>rs\<close>, its transactions being numbered from
  \<open>off\<close>; and the hashes of its transactions lead to these numbers.
\<close>

definition stores :: "('cls, 'info) db \<Rightarrow> tx_number \<Rightarrow> sealed_block_with_status \<Rightarrow> receipt list \<Rightarrow> bool" where
  "stores d off b rs \<longleftrightarrow>
     tbl_get (tb_BlockHashes d) (block_num b) = Some (sb_hash (sbs_block b))
     \<and> tbl_get (tb_BlockNumbers d) (sb_hash (sbs_block b)) = Some (block_num b)
     \<and> tbl_get (tb_Headers d) (block_num b) = Some (versioned_header_from (sb_header (sbs_block b)))
     \<and> tbl_get (tb_BlockStatusses d) (block_num b) = Some (sbs_status b)
     \<and> tbl_get (tb_BlockBodyIndices d) (block_num b) = Some \<lparr>tx_offset = off, tx_count = length (sb_body (sbs_block b))\<rparr>
     \<and> (\<forall>j < length (sb_body (sbs_block b)).
          tbl_get (tb_Transactions d) (off + j) = Some (versioned_tx_from (twh_transaction (sb_body (sbs_block b) ! j)))
          \<and> tbl_get (tb_TxHashes d) (off + j) = Some (twh_hash (sb_body (sbs_block b) ! j))
          \<and> tbl_get (tb_TxBlocks d) (off + j) = Some (block_num b)
          \<and> tbl_get (tb_Receipts d) (off + j) = Some (rs ! j))"

definition finds_txs :: "('cls, 'info) db \<Rightarrow> tx_number \<Rightarrow> sealed_block_with_status \<Rightarrow> bool" where
  "finds_txs d off b \<longleftrightarrow> (\<forall>j < length (sb_body (sbs_block b)).
     tbl_get (tb_TxNumbers d) (twh_hash (sb_body (sbs_block b) ! j)) = Some (off + j))"

lemma stores_inserted:
  "length rs = length (sb_body (sbs_block b)) \<Longrightarrow> stores (insert_block b st rs xs d) (tx_total d) b rs"
  by (simp add: stores_def db_simps table_simps)

lemma finds_inserted:
  "distinct (map twh_hash (sb_body (sbs_block b))) \<Longrightarrow> finds_txs (insert_block b st rs xs d) (tx_total d) b"
  by (simp add: finds_txs_def TxNumbers_inserted)

text \<open>Another block is one with another number and another hash and no transaction in common.\<close>

definition other_block :: "sealed_block_with_status \<Rightarrow> sealed_block_with_status \<Rightarrow> bool" where
  "other_block b b' \<longleftrightarrow> block_num b' \<noteq> block_num b \<and> sb_hash (sbs_block b') \<noteq> sb_hash (sbs_block b) \<and>
     twh_hash ` set (sb_body (sbs_block b')) \<inter> twh_hash ` set (sb_body (sbs_block b)) = {}"

lemma stores_kept:
  assumes ok: "db_ok d" and b: "stores d off b rs" and other: "other_block b b'"
  shows "stores (insert_block b' st' rs' xs' d) off b rs"
proof -
  have "off + length (sb_body (sbs_block b)) \<le> tx_total d"
    using ok b by (fastforce simp: stores_def db_ok_def)
  then show ?thesis using b other by (simp add: stores_def other_block_def db_simps table_simps)
qed

lemma finds_kept:
  assumes b: "finds_txs d off b" and other: "other_block b b'"
  shows "finds_txs (insert_block b' st' rs' xs' d) off b"
  unfolding finds_txs_def
proof (intro allI impI)
  fix j assume j: "j < length (sb_body (sbs_block b))"
  let ?h = "twh_hash (sb_body (sbs_block b) ! j)"
  let ?es = "map (\<lambda>e. (twh_hash (snd e), fst e)) (List.enumerate (tx_total d) (sb_body (sbs_block b')))"
  have "?h \<in> twh_hash ` set (sb_body (sbs_block b))" using j by simp
  then have "?h \<notin> twh_hash ` set (sb_body (sbs_block b'))" using other unfolding other_block_def by blast
  then have "?h \<notin> fst ` set (rev ?es)" by (auto simp: in_set_enumerate_eq)
  then have "map_of (rev ?es) ?h = None" by (simp add: map_of_eq_None_iff)
  then show "tbl_get (tb_TxNumbers (insert_block b' st' rs' xs' d)) ?h = Some (off + j)"
    using b j by (simp add: insert_block_tx_tables tbl.get_put_all_keyed finds_txs_def)
qed

text \<open>What the writers may do after a block was stored: store other blocks, and write states.\<close>

inductive later_writes :: "sealed_block_with_status \<Rightarrow> ('cls, 'info) db \<Rightarrow> ('cls, 'info) db \<Rightarrow> bool"
  for b :: sealed_block_with_status and d0 :: "('cls, 'info) db" where
  later_start: "later_writes b d0 d0"
| later_block: "later_writes b d0 d \<Longrightarrow> other_block b b' \<Longrightarrow> length rs \<le> length (sb_body (sbs_block b')) \<Longrightarrow>
    length xs \<le> length (sb_body (sbs_block b')) \<Longrightarrow>
    later_writes b d0 (insert_block_with_states_and_receipts b' st rs xs d)"
| later_nonce: "later_writes b d0 d \<Longrightarrow> later_writes b d0 (set_nonce a v d)"
| later_storage: "later_writes b d0 d \<Longrightarrow> later_writes b d0 (set_storage a k v d)"
| later_class_hash: "later_writes b d0 d \<Longrightarrow> later_writes b d0 (set_class_hash_of_contract a c d)"
| later_class: "later_writes b d0 d \<Longrightarrow> later_writes b d0 (set_class h cls d)"
| later_compiled: "later_writes b d0 d \<Longrightarrow> later_writes b d0 (set_compiled_class_hash_of_class_hash h ch d)"
| later_checkpoint: "later_writes b d0 d \<Longrightarrow> later_writes b d0 (set_checkpoint stage n d)"

lemmas state_writers = set_nonce_def set_storage_def set_class_hash_of_contract_def set_class_def
  set_compiled_class_hash_of_class_hash_def set_checkpoint_def

lemma later_keeps:
  assumes "later_writes b d0 d" "db_ok d0" "stores d0 off b rs" "finds_txs d0 off b"
  shows "db_ok d \<and> stores d off b rs \<and> finds_txs d off b"
  using assms
proof (induction rule: later_writes.induct)
  case (later_block d b' rs xs st)
  then show ?case using db_ok_insert_block stores_kept finds_kept by blast
qed (simp_all add: stores_def finds_txs_def, simp_all add: state_writers)

lemma xbind_simps [simp]: "xbind (Some (Inr a)) f = f a" "map_option (api_lift api) (Some r) = Some (api_lift api r)"
  by simp_all

lemma api_lift_Inr [simp]: "api_lift api (Inr a) = Inr a"
  by (simp add: api_lift_def)

lemma or_forked_Some [simp]: "or_forked api (Some a) ask none = Inr a"
  by (simp add: or_forked_def)

section \<open>Reading a stored block\<close>

lemma resolve_stored: "stores d off b rs \<Longrightarrow> bid \<in> block_ids b \<Longrightarrow> resolve_id d bid = Some (block_num b)"
  by (auto simp: stores_def block_ids_def)

lemma indices_stored:
  "stores d off b rs \<Longrightarrow> bid \<in> block_ids b \<Longrightarrow>
   block_body_indices d bid = Inr (Some \<lparr>tx_offset = off, tx_count = length (sb_body (sbs_block b))\<rparr>)"
  by (simp add: block_body_indices_def resolve_stored) (simp add: stores_def)

lemma row_range:
  assumes "\<And>j. j < length ys \<Longrightarrow> f (off + j) = Some (ys ! j)"
  shows "List.map_filter f [off..<off + length ys] = ys"
proof -
  have "f x = Some (ys ! (x - off))" if "x \<in> set [off..<off + length ys]" for x
    using assms [of "x - off"] that by auto
  then have "List.map_filter f [off..<off + length ys] = map (\<lambda>i. ys ! (i - off)) [off..<off + length ys]"
    by (rule map_filter_all_Some)
  then show ?thesis by (simp add: map_nth_upt)
qed

lemma block_stored:
  assumes st: "stores d off b rs" and bid: "bid \<in> block_ids b"
  shows "block_by_id d bid = Inr (Some (unseal (sbs_block b)))"
proof -
  let ?body = "sb_body (sbs_block b)"
  have rows: "tbl_get (tb_Transactions d) i = Some (versioned_tx_from (twh_transaction (?body ! (i - off)))) \<and>
      tbl_get (tb_TxHashes d) i = Some (twh_hash (?body ! (i - off)))" if "i \<in> set [off..<off + length ?body]" for i
  proof -
    have "i = off + (i - off)" "i - off < length ?body" using that by auto
    then show ?thesis using st unfolding stores_def by metis
  qed
  have "transaction_in_range d [off..<off + length ?body] = Inr (map (\<lambda>i. ?body ! (i - off)) [off..<off + length ?body])"
    by (rule transaction_in_range_total) (use rows in blast)+
  moreover have "header_by_id d bid = Inr (Some (sb_header (sbs_block b)))"
    using st by (simp add: header_by_id_def resolve_stored [OF st bid]) (simp add: stores_def)
  ultimately show ?thesis
    by (simp add: block_by_id_def transactions_by_block_def indices_stored [OF st bid] indices_range_def map_nth_upt unseal_def)
qed

lemma details_stored:
  assumes st: "stores d off b rs" and bid: "bid \<in> block_ids b" and rs: "length rs = length (sb_body (sbs_block b))"
  shows "block_status d bid = Inr (Some (sbs_status b))"
    "receipts_by_block d bid = Inr (Some rs)"
    "block_with_tx_hashes_by_id d bid =
      Inr (Some \<lparr>bth_header = sb_header (sbs_block b), bth_body = map twh_hash (sb_body (sbs_block b))\<rparr>)"
proof -
  show "block_status d bid = Inr (Some (sbs_status b))"
    using st by (simp add: block_status_def resolve_stored [OF st bid]) (simp add: stores_def)
  have "List.map_filter (tbl_get (tb_Receipts d)) [off..<off + length rs] = rs"
    by (rule row_range) (use st rs in \<open>simp add: stores_def\<close>)
  then show "receipts_by_block d bid = Inr (Some rs)"
    by (simp add: receipts_by_block_def indices_stored [OF st bid] flip: rs)
  have "List.map_filter (tbl_get (tb_TxHashes d)) [off..<off + length (map twh_hash (sb_body (sbs_block b)))] =
      map twh_hash (sb_body (sbs_block b))"
    by (rule row_range) (use st in \<open>simp add: stores_def\<close>)
  then show "block_with_tx_hashes_by_id d bid =
      Inr (Some \<lparr>bth_header = sb_header (sbs_block b), bth_body = map twh_hash (sb_body (sbs_block b))\<rparr>)"
    using st by (simp add: block_with_tx_hashes_by_id_def resolve_stored [OF st bid])
      (simp add: stores_def indices_range_def transaction_hashes_in_range_def)
qed

lemma indexed_stored:
  assumes "stores d off b rs" "bid \<in> block_ids b" "j < length (sb_body (sbs_block b))"
  shows "transaction_by_block_and_idx d bid j = Inr (Some (sb_body (sbs_block b) ! j))"
  using assms by (simp add: transaction_by_block_and_idx_def indices_stored Let_def) (simp add: stores_def)

lemma hash_stored:
  assumes "stores d off b rs" "finds_txs d off b" "j < length (sb_body (sbs_block b))"
  defines "t \<equiv> sb_body (sbs_block b) ! j"
  shows "transaction_by_hash d (twh_hash t) = Inr (Some t)
    \<and> receipt_by_hash d (twh_hash t) = Inr (Some (rs ! j))
    \<and> transaction_block_num_and_hash d (twh_hash t) = Inr (Some (block_num b, sb_hash (sbs_block b)))
    \<and> transaction_status d (twh_hash t) = Inr (Some (sbs_status b))"
  using assms by (simp add: stores_def finds_txs_def transaction_by_hash_def receipt_by_hash_def
      transaction_block_num_and_hash_def transaction_status_def)

lemma builders_stored:
  assumes st: "stores d off b rs" and rs: "length rs = length (sb_body (sbs_block b))"
  shows "block_builder_build d (Num (block_num b)) =
      Some (Inr (Some (ClosedBlock (sb_hash (sbs_block b)) (sb_header (sbs_block b)) (sbs_status b) (sb_body (sbs_block b)))))"
    "block_builder_build_with_tx_hash d (Num (block_num b)) =
      Some (Inr (Some (ClosedBlock (sb_hash (sbs_block b)) (sb_header (sbs_block b)) (sbs_status b)
        (map twh_hash (sb_body (sbs_block b))))))"
    "block_builder_build_with_receipts d (Num (block_num b)) =
      Some (Inr (Some (ClosedBlock (sb_hash (sbs_block b)) (sb_header (sbs_block b)) (sbs_status b)
        (zip (sb_body (sbs_block b)) rs))))"
proof -
  have bid: "Num (block_num b) \<in> block_ids b" by (simp add: block_ids_def)
  have hash: "block_hash_by_id d (Num (block_num b)) = Inr (Some (sb_hash (sbs_block b)))"
    using st by (simp add: stores_def block_hash_by_num_def)
  note reads = hash block_stored [OF st bid] details_stored [OF st bid rs] unseal_def
  show "block_builder_build d (Num (block_num b)) =
      Some (Inr (Some (ClosedBlock (sb_hash (sbs_block b)) (sb_header (sbs_block b)) (sbs_status b) (sb_body (sbs_block b)))))"
    unfolding block_builder_build_def by (simp del: block_hash_by_id.simps add: reads)
  show "block_builder_build_with_tx_hash d (Num (block_num b)) =
      Some (Inr (Some (ClosedBlock (sb_hash (sbs_block b)) (sb_header (sbs_block b)) (sbs_status b)
        (map twh_hash (sb_body (sbs_block b))))))"
    unfolding block_builder_build_with_tx_hash_def by (simp del: block_hash_by_id.simps add: reads)
  show "block_builder_build_with_receipts d (Num (block_num b)) =
      Some (Inr (Some (ClosedBlock (sb_hash (sbs_block b)) (sb_header (sbs_block b)) (sbs_status b)
        (zip (sb_body (sbs_block b)) rs))))"
    unfolding block_builder_build_with_receipts_def by (simp del: block_hash_by_id.simps add: reads)
qed

text \<open>A request names a stored block by number or by hash.\<close>

definition names_block :: "block_id_or_tag \<Rightarrow> sealed_block_with_status \<Rightarrow> bool" where
  "names_block bid b \<longleftrightarrow> bid = IdNumber (block_num b) \<or> bid = IdHash (sb_hash (sbs_block b))"

lemma convert_named: "names_block bid b \<Longrightarrow> stores d off b rs \<Longrightarrow> convert_block_id d bid = Inr (Some (block_num b))"
  by (auto simp: names_block_def block_number_by_hash_def stores_def)

lemma block_handler_named:
  assumes "names_block bid b" "stores (sa_db api) off b rs" "build (sa_db api) (Num (block_num b)) = Some (Inr (Some block))"
  shows "block_handler api bid body build ask = Some (Inr block)"
proof -
  have "bid \<noteq> TagPending" using assms(1) by (auto simp: names_block_def)
  then have "block_handler api bid body build ask =
      xbind (Some (api_lift api (convert_block_id (sa_db api) bid))) (\<lambda>num.
        xbind (case num of Some num \<Rightarrow> map_option (api_lift api) (build (sa_db api) (Num num)) | None \<Rightarrow> Some (Inr None)) (\<lambda>block.
          Some (or_forked api block (\<lambda>client. ask client bid) (Inl BlockNotFound))))"
    by (cases bid) (simp_all add: block_handler_def Let_def)
  then show ?thesis by (simp add: assms(3) convert_named [OF assms(1,2)])
qed

lemma blocks_named:
  assumes "names_block bid b" "stores (sa_db api) off b rs" "length rs = length (sb_body (sbs_block b))"
  shows "api_block_with_txs api bid =
      Some (Inr (ClosedBlock (sb_hash (sbs_block b)) (sb_header (sbs_block b)) (sbs_status b) (sb_body (sbs_block b))))"
    "api_block_with_tx_hashes api bid =
      Some (Inr (ClosedBlock (sb_hash (sbs_block b)) (sb_header (sbs_block b)) (sbs_status b) (map twh_hash (sb_body (sbs_block b)))))"
    "api_block_with_receipts api bid =
      Some (Inr (ClosedBlock (sb_hash (sbs_block b)) (sb_header (sbs_block b)) (sbs_status b) (zip (sb_body (sbs_block b)) rs)))"
  unfolding api_block_with_txs_def api_block_with_tx_hashes_def api_block_with_receipts_def
  using builders_stored [OF assms(2,3)]
  by (auto intro!: block_handler_named [OF assms(1,2)])

lemma tx_count_named:
  assumes "names_block bid b" "stores (sa_db api) off b rs"
  shows "api_block_tx_count api bid = Inr (length (sb_body (sbs_block b)))"
proof -
  have "Num (block_num b) \<in> block_ids b" "Hash (sb_hash (sbs_block b)) \<in> block_ids b" by (simp_all add: block_ids_def)
  then show ?thesis
    using assms by (auto simp: names_block_def api_block_tx_count_def transaction_count_by_block_def
        indices_stored [OF assms(2)] Let_def)
qed

section \<open>The pending block\<close>

lemma pending_bodies:
  "map fst (filter (\<lambda>e. is_success (snd e)) xs) = map fst (success_pairs xs)"
  "List.map_filter (\<lambda>(tx, res). case res of Success receipt _ \<Rightarrow> Some (tx, receipt) | Failed _ \<Rightarrow> None) xs = success_pairs xs"
proof (induction xs)
  case (Cons x xs)
  obtain t r where "x = (t, r)" by (cases x)
  with Cons show "map fst (filter (\<lambda>e. is_success (snd e)) (x # xs)) = map fst (success_pairs (x # xs))"
    "List.map_filter (\<lambda>(tx, res). case res of Success receipt _ \<Rightarrow> Some (tx, receipt) | Failed _ \<Rightarrow> None) (x # xs) = success_pairs (x # xs)"
    by (cases r; simp add: success_pairs_def List.map_filter_simps)+
qed (simp_all add: success_pairs_def List.map_filter_simps)

lemma pending_blocks:
  assumes "sa_pending_executor api = Some exec" "latest_hash (sa_db api) = Inr parent"
  defines "hdr \<equiv> pending_header (executor_block_env (vp_block_info exec)) parent"
    and "pairs \<equiv> success_pairs (vp_transactions exec)"
  shows "api_block_with_txs api TagPending = Some (Inr (PendingBlock hdr (map fst pairs)))"
    "api_block_with_tx_hashes api TagPending = Some (Inr (PendingBlock hdr (map twh_hash (map fst pairs))))"
    "api_block_with_receipts api TagPending = Some (Inr (PendingBlock hdr pairs))"
proof -
  have "map (\<lambda>e. twh_hash (fst e)) (filter (\<lambda>e. is_success (snd e)) xs) = map twh_hash (map fst (success_pairs xs))" for xs
    unfolding pending_bodies(1) [symmetric] by simp
  then show "api_block_with_txs api TagPending = Some (Inr (PendingBlock hdr (map fst pairs)))"
    "api_block_with_tx_hashes api TagPending = Some (Inr (PendingBlock hdr (map twh_hash (map fst pairs))))"
    "api_block_with_receipts api TagPending = Some (Inr (PendingBlock hdr pairs))"
    using assms(1,2) by (simp_all add: api_block_with_txs_def api_block_with_tx_hashes_def api_block_with_receipts_def
        block_handler_def pending_bodies hdr_def pairs_def del: map_map)
qed

text \<open>The part of a header that a pending block has.\<close>

definition header_start :: "header \<Rightarrow> partial_header" where
  "header_start h =
     \<lparr>ph_parent_hash = hd_parent_hash h, ph_number = hd_number h, ph_timestamp = hd_timestamp h,
      ph_sequencer_address = hd_sequencer_address h, ph_l1_gas_prices = hd_l1_gas_prices h,
      ph_l1_data_gas_prices = hd_l1_data_gas_prices h, ph_l2_gas_prices = hd_l2_gas_prices h,
      ph_l1_da_mode = hd_l1_da_mode h, ph_protocol_version = hd_protocol_version h\<rparr>"

lemma header_start_commit: "header_start (commit_header cp u root) = ub_header u"
  by (simp add: header_start_def commit_header_def Let_def)

lemma pending_header_mining: "pending_header e parent = mining_header e parent"
  by (simp add: pending_header_def mining_header_def)

section \<open>Properties\<close>

text \<open>
  C10. The read handlers agree on every stored block.  After a block was inserted into a well-formed
  database, and whatever other blocks and states were written since, the handlers, asked by number or by
  hash and whatever the fork, the pending block and the pool hold, return the block with its
  transactions, with their hashes and with their receipts, the number of its transactions, each
  transaction by its index and by its hash, and for each transaction the receipt with the hash
  and number of the block and the status that the block status and the receipt say; none of
  them panics.  The other blocks differ from it in number and hash and share no transaction.
\<close>

theorem rpc_reads_agree:
  fixes api :: "('cls, 'st, 'bn, 'p, 'cfg, 'o, 'l, 's) starknet_api"
  assumes d: "db_ok d" and db: "later_writes b (insert_block_with_states_and_receipts b st rs xs d) (sa_db api)"
    and bid: "names_block bid b" and rs: "length rs = length (sb_body (sbs_block b))"
    and xs: "length xs \<le> length (sb_body (sbs_block b))" and body: "distinct (map twh_hash (sb_body (sbs_block b)))"
  shows "api_block_with_txs api bid =
      Some (Inr (ClosedBlock (sb_hash (sbs_block b)) (sb_header (sbs_block b)) (sbs_status b) (sb_body (sbs_block b))))
    \<and> api_block_with_tx_hashes api bid =
      Some (Inr (ClosedBlock (sb_hash (sbs_block b)) (sb_header (sbs_block b)) (sbs_status b) (map twh_hash (sb_body (sbs_block b)))))
    \<and> api_block_with_receipts api bid =
      Some (Inr (ClosedBlock (sb_hash (sbs_block b)) (sb_header (sbs_block b)) (sbs_status b) (zip (sb_body (sbs_block b)) rs)))
    \<and> api_block_tx_count api bid = Inr (length (sb_body (sbs_block b)))
    \<and> (\<forall>j < length (sb_body (sbs_block b)). let t = sb_body (sbs_block b) ! j in
        api_transaction_by_block_id_and_index api bid j = Inr t
        \<and> api_transaction api (twh_hash t) = Inr t
        \<and> api_receipt api (twh_hash t) = Some (Inr
            \<lparr>trb_block = BlockReceipt (sb_hash (sbs_block b)) (block_num b), trb_hash = twh_hash t,
             trb_finality = sbs_status b, trb_receipt = rs ! j\<rparr>)
        \<and> api_transaction_status api (twh_hash t) = Inr (case sbs_status b of
            AcceptedOnL1 \<Rightarrow> StatusAcceptedOnL1 (exec_status_of (rs ! j))
          | AcceptedOnL2 \<Rightarrow> StatusAcceptedOnL2 (exec_status_of (rs ! j))))"
proof -
  have st: "stores (sa_db api) (tx_total d) b rs" and find: "finds_txs (sa_db api) (tx_total d) b"
    using later_keeps [OF db db_ok_insert_block [OF d _ xs] stores_inserted [OF rs] finds_inserted [OF body]] rs by auto
  have "api_transaction_by_block_id_and_index api bid j = Inr (sb_body (sbs_block b) ! j)"
    if "j < length (sb_body (sbs_block b))" for j
  proof -
    have "Num (block_num b) \<in> block_ids b" by (simp add: block_ids_def)
    moreover have "bid \<noteq> TagPending" using bid by (auto simp: names_block_def)
    ultimately show ?thesis
      by (simp add: api_transaction_by_block_id_and_index_def convert_named [OF bid st] indexed_stored [OF st] that)
  qed
  moreover have "api_transaction api (twh_hash t) = Inr t
      \<and> api_receipt api (twh_hash t) = Some (Inr
          \<lparr>trb_block = BlockReceipt (sb_hash (sbs_block b)) (block_num b), trb_hash = twh_hash t,
           trb_finality = sbs_status b, trb_receipt = rs ! j\<rparr>)
      \<and> api_transaction_status api (twh_hash t) = Inr (case sbs_status b of
          AcceptedOnL1 \<Rightarrow> StatusAcceptedOnL1 (exec_status_of (rs ! j))
        | AcceptedOnL2 \<Rightarrow> StatusAcceptedOnL2 (exec_status_of (rs ! j)))"
    if "j < length (sb_body (sbs_block b))" "t = sb_body (sbs_block b) ! j" for j t
    using hash_stored [OF st find that(1), folded that(2)]
    by (simp add: api_transaction_def api_receipt_def receipt_builder_build_def api_transaction_status_def Let_def)
  ultimately show ?thesis
    using tx_count_named [OF bid st] blocks_named [OF bid st rs] by (simp add: Let_def)
qed

text \<open>
  A node in interval mode with a pending block of one successful and one failed transaction, a
  transaction in the pool, and no fork.  Its database got block 4 and a nonce after block 3.
\<close>

definition sample_exec :: "(bool, unit, unit) vm_processor" where
  "sample_exec = (vm_processor_new () sample_env execution_flags_default ())\<lparr>vp_transactions := eo_transactions sample_output\<rparr>"

definition sample_api :: "(bool, unit, unit, nat, unit, unit, unit, unit) starknet_api" where
  "sample_api =
     \<lparr>sa_db = set_nonce 7 1 (insert_block_with_states_and_receipts (sample_block 4) (eo_states execution_output_default) [] []
        (insert_block_with_states_and_receipts (sample_block 3) (eo_states execution_output_default)
          [sample_receipt, sample_receipt] [] db_empty)),
      sa_pending_executor = Some sample_exec,
      sa_executor_state = (\<lambda>_. view_reads (db_empty :: (unit, unit) db) LatestState),
      sa_pool = \<lparr>transactions = [\<lparr>pt_id = tx_id_new 1 0, pt_tx = sample_ptx 10 0, pt_priority = 0, pt_added_at = 0\<rparr>],
        listeners = [], subscribers = [], validator = sample_validator, pool_ordering = ()\<rparr>,
      sa_forked_client = None, sa_provider_text = (\<lambda>_. [])\<rparr>"

lemma rpc_reads_agree_witness:
  "api_block_tx_count sample_api (IdHash 1003) = Inr 2
   \<and> api_block_with_tx_hashes sample_api (IdNumber 3) =
       Some (Inr (ClosedBlock 1003 (sb_header (sbs_block (sample_block 3))) AcceptedOnL2 [31, 32]))
   \<and> api_transaction_status sample_api 32 = Inr (StatusAcceptedOnL2 Succeeded)"
proof -
  have body: "sb_body (sbs_block (sample_block 3)) = [sample_tx 31, sample_tx 32]" "sb_hash (sbs_block (sample_block 3)) = 1003"
    "sbs_status (sample_block 3) = AcceptedOnL2" by (simp_all add: sample_block_def)
  have other: "other_block (sample_block 3) (sample_block 4)" by (simp add: other_block_def sample_block_def sample_tx_def)
  have db: "later_writes (sample_block 3) (insert_block_with_states_and_receipts (sample_block 3)
      (eo_states execution_output_default) [sample_receipt, sample_receipt] [] db_empty) (sa_db sample_api)"
    by (simp add: sample_api_def later_nonce later_block [OF later_start other])
  have named: "names_block (IdHash 1003) (sample_block 3)" "names_block (IdNumber 3) (sample_block 3)"
    by (simp_all add: names_block_def sample_block_def)
  have ok: "length [sample_receipt, sample_receipt] = length (sb_body (sbs_block (sample_block 3)))"
    "length [] \<le> length (sb_body (sbs_block (sample_block 3)))"
    "distinct (map twh_hash (sb_body (sbs_block (sample_block 3))))" by (simp_all add: body sample_tx_def)
  note agree = rpc_reads_agree [OF db_ok_empty db _ ok]
  have "\<forall>j < length (sb_body (sbs_block (sample_block 3))). api_transaction_status sample_api (twh_hash (sb_body (sbs_block (sample_block 3)) ! j)) =
      Inr (StatusAcceptedOnL2 (exec_status_of ([sample_receipt, sample_receipt] ! j)))"
    using agree [OF named(1)] by (simp add: Let_def body)
  from this [rule_format, of 1] have "api_transaction_status sample_api 32 = Inr (StatusAcceptedOnL2 Succeeded)"
    by (simp add: body sample_tx_def exec_status_of_def) (simp add: sample_receipt_def)
  then show ?thesis
    using agree [OF named(1)] agree [OF named(2)] by (simp add: body sample_tx_def)
qed

text \<open>
  C9. The pending block that clients see is the block that is mined.  When the open block is mined
  from the transactions of the pending executor and its environment, the block stored has the
  parent, number, timestamp, sequencer, prices, availability mode and version that the pending
  block showed, and the same transactions, hashes and receipts.
\<close>

theorem pending_block_is_mined:
  fixes api :: "('cls, 'st, 'bn, 'p, 'cfg, 'o, 'l, 's) starknet_api"
  assumes exec: "sa_pending_executor api = Some exec" "sa_db api = bk_db bk"
    and out: "eo_transactions out = vp_transactions exec"
    and mine: "do_mine_block cp (executor_block_env (vp_block_info exec)) out bk = Some (bk', Inr m)"
  defines "num \<equiv> be_number (executor_block_env (vp_block_info exec))"
  shows "\<exists>hash hdr txs receipts.
    api_block_with_txs api TagPending = Some (Inr (PendingBlock (header_start hdr) txs))
    \<and> api_block_with_tx_hashes api TagPending = Some (Inr (PendingBlock (header_start hdr) (map twh_hash txs)))
    \<and> api_block_with_receipts api TagPending = Some (Inr (PendingBlock (header_start hdr) receipts))
    \<and> api_block_with_txs (api\<lparr>sa_db := bk_db bk'\<rparr>) (IdNumber num) = Some (Inr (ClosedBlock hash hdr AcceptedOnL2 txs))
    \<and> api_block_with_tx_hashes (api\<lparr>sa_db := bk_db bk'\<rparr>) (IdNumber num) =
        Some (Inr (ClosedBlock hash hdr AcceptedOnL2 (map twh_hash txs)))
    \<and> api_block_with_receipts (api\<lparr>sa_db := bk_db bk'\<rparr>) (IdNumber num) =
        Some (Inr (ClosedBlock hash hdr AcceptedOnL2 receipts))"
proof (rule do_mine_block_success [OF mine], goal_cases)
  case (1 parent s' tr' root items b)
  let ?e = "executor_block_env (vp_block_info exec)"
  let ?b = "\<lparr>sbs_block = b, sbs_status = AcceptedOnL2\<rparr>" and ?rs = "map rwh_receipt (map (fst \<circ> snd) items)"
  obtain items' where items': "successful (eo_transactions out) = Some items'"
    "map (\<lambda>(t, r, ti). (t, rwh_receipt r)) items' = success_pairs (eo_transactions out)"
    by (rule successful_total)
  with 1(1) have pairs: "success_pairs (vp_transactions exec) = map (\<lambda>(t, r, ti). (t, rwh_receipt r)) items"
    by (simp add: out)
  have b: "sb_body b = map fst items" "header_start (sb_header b) = pending_header ?e parent" "hd_number (sb_header b) = num"
    by (simp_all add: 1(4) Let_def header_start_commit pending_header_mining num_def)
      (simp add: commit_header_def mining_header_def Let_def)
  have txs: "map fst (success_pairs (vp_transactions exec)) = map fst items"
    "success_pairs (vp_transactions exec) = zip (map fst items) ?rs"
    by (simp_all add: pairs comp_def split_beta zip_map_map zip_same_conv_map)
  have named: "names_block (IdNumber num) ?b" by (simp add: names_block_def b(3))
  have len: "length ?rs = length (sb_body (sbs_block ?b))" by (simp add: b(1))
  have db: "stores (sa_db (api\<lparr>sa_db := bk_db bk'\<rparr>)) (tx_total (bk_db bk)) ?b ?rs"
    using stores_inserted [OF len] 1(5) by simp
  have "latest_hash (sa_db api) = Inr parent" using 1(2) exec(2) by simp
  note pending = pending_blocks [OF exec(1) this, folded b(2), unfolded txs(1)]
  show ?case
    using pending blocks_named [OF named db len] b(1) txs(2)
    by (intro exI [of _ "sb_hash b"] exI [of _ "sb_header b"] exI [of _ "map fst items"] exI [of _ "zip (map fst items) ?rs"]) simp
qed

lemma pending_block_is_mined_witness:
  "\<exists>bk' m hash hdr. do_mine_block sample_cp (executor_block_env (vp_block_info sample_exec)) sample_output sample_backend = Some (bk', Inr m)
     \<and> api_block_with_tx_hashes (sample_api\<lparr>sa_db := bk_db sample_backend\<rparr>) TagPending =
         Some (Inr (PendingBlock (header_start hdr) [5]))
     \<and> api_block_with_tx_hashes (sample_api\<lparr>sa_db := bk_db bk'\<rparr>) (IdNumber 1) =
         Some (Inr (ClosedBlock hash hdr AcceptedOnL2 [5]))"
proof -
  let ?api = "sample_api\<lparr>sa_db := bk_db sample_backend\<rparr>"
  have env: "executor_block_env (vp_block_info sample_exec) = sample_env"
    by (simp add: sample_exec_def vm_processor_new_def executor_block_env_def block_info_of_env_def sample_env_def)
  obtain bk' m where mine: "do_mine_block sample_cp sample_env sample_output sample_backend = Some (bk', Inr m)"
    by (rule sample_mines)
  have exec: "sa_pending_executor ?api = Some sample_exec" "eo_transactions sample_output = vp_transactions sample_exec"
    by (simp_all add: sample_api_def sample_exec_def)
  have pairs: "map fst (success_pairs (vp_transactions sample_exec)) = [sample_tx 5]"
    by (simp add: success_pairs_def sample_exec_def sample_output_def)
  obtain hash hdr txs receipts where
    r: "api_block_with_txs ?api TagPending = Some (Inr (PendingBlock (header_start hdr) txs))"
      "api_block_with_tx_hashes ?api TagPending = Some (Inr (PendingBlock (header_start hdr) (map twh_hash txs)))"
      "api_block_with_tx_hashes (?api\<lparr>sa_db := bk_db bk'\<rparr>) (IdNumber 1) =
        Some (Inr (ClosedBlock hash hdr AcceptedOnL2 (map twh_hash txs)))"
    using pending_block_is_mined [OF exec(1) _ exec(2), of sample_backend sample_cp bk' m] mine env
    by (auto simp: sample_env_def)
  have "txs = [sample_tx 5]"
    using r(1) pending_blocks(1) [OF exec(1)] sample_backend_latest(2) pairs by auto
  with r(2,3) mine env show ?thesis by (auto simp: sample_tx_def)
qed

text \<open>
  The status of a waiting transaction.  For a transaction that is in the pool but neither in a
  stored block nor in the pending one, on a node that is not forked, the transaction handler
  returns the transaction.  The status handler reports that it was received only if there is
  no pending executor; in interval mode it answers that the hash is unknown.
\<close>

theorem pooled_transaction_status:
  fixes api :: "('cls, 'st, 'bn, 'p, 'cfg, 'o, 'l, 's) starknet_api"
  assumes "tbl_get (tb_TxNumbers (sa_db api)) hash = None" "pending_entry api hash = None"
    and "pool_get (sa_pool api) hash = Some t" "sa_forked_client api = None"
  shows "api_transaction api hash = Inr (tx_with_hash_from t)
    \<and> api_transaction_status api hash =
        (if sa_pending_executor api = None then Inr StatusReceived else Inl TxnHashNotFound)"
  using assms by (cases "sa_pending_executor api")
    (simp_all add: api_transaction_def api_transaction_status_def transaction_by_hash_def transaction_status_def or_forked_def Let_def)

lemma pooled_transaction_status_witness:
  "api_transaction sample_api 10 = Inr (tx_with_hash_from (sample_ptx 10 0))
   \<and> api_transaction_status sample_api 10 = Inl TxnHashNotFound
   \<and> api_transaction_status (sample_api\<lparr>sa_pending_executor := None\<rparr>) 10 = Inr StatusReceived"
proof -
  have "tbl_get (tb_TxNumbers (sa_db sample_api)) 10 = None"
    by (simp add: sample_api_def sample_block_def sample_tx_def insert_block_tx_tables set_nonce_def table_simps) (simp add: db_empty_def)
  moreover have "pending_entry sample_api 10 = None" "pending_entry (sample_api\<lparr>sa_pending_executor := None\<rparr>) 10 = None"
    by (simp_all add: pending_entry_def sample_api_def sample_exec_def sample_output_def sample_tx_def)
  moreover have "pool_get (sa_pool sample_api) 10 = Some (sample_ptx 10 0)"
    by (simp add: pool_get_def sample_api_def sample_ptx_def)
  moreover have "sa_forked_client sample_api = None" "sa_pending_executor sample_api \<noteq> None"
    by (simp_all add: sample_api_def)
  ultimately show ?thesis
    using pooled_transaction_status [of sample_api 10] pooled_transaction_status [of "sample_api\<lparr>sa_pending_executor := None\<rparr>" 10]
    by simp
qed

end
