(* ===== verification/Trie_Db.thy ===== *)
theory Trie_Db
  imports Db_History Bytes_Be
begin

text \<open>
  The database of the state tries: keys and history entries
  (\<^verbatim>\<open>crates/storage/db/src/models/trie.rs\<close>), the live trie database with its snapshots
  (\<^verbatim>\<open>storage/db/src/trie/mod.rs\<close>) and the read-only database of a snapshot
  (\<^verbatim>\<open>trie/snapshot.rs\<close>).  The trie library calls these operations; every node it writes between
  two commits is collected in a write cache, and a commit stores the cache under its block.

  An \<open>expect\<close> that fails and an \<open>unimplemented\<close> method are \<open>None\<close>.
\<close>

section \<open>Keys and history entries\<close>

datatype trie_database_key_type = TrieKey | FlatKey | TrieLogKey

fun key_type_code :: "trie_database_key_type \<Rightarrow> nat" where
  "key_type_code TrieKey = 0"
| "key_type_code FlatKey = 1"
| "key_type_code TrieLogKey = 2"

definition key_type_try_from :: "nat \<Rightarrow> nat + trie_database_key_type" where
  "key_type_try_from b =
     (if b = 0 then Inr TrieKey else if b = 1 then Inr FlatKey else if b = 2 then Inr TrieLogKey else Inl b)"

datatype trie_database_key = TrieDatabaseKey (tk_type: trie_database_key_type) (tk_key: bytes)

text \<open>The length is written as one byte.\<close>

definition trie_key_encode :: "trie_database_key \<Rightarrow> bytes" where
  "trie_key_encode k = key_type_code (tk_type k) # length (tk_key k) mod 256 # tk_key k"

definition trie_key_decode :: "bytes \<Rightarrow> trie_database_key option" where
  "trie_key_decode bs =
     (if length bs < 2 then None
      else case key_type_try_from (bs ! 0) of
        Inl _ \<Rightarrow> None
      | Inr t \<Rightarrow>
          (let key_len = bs ! 1
           in if length bs < 2 + key_len then None
              else Some (TrieDatabaseKey t (take key_len (drop 2 bs)))))"

text \<open>The serialisation of values belongs to the postcard library.\<close>

definition trie_entry_compress :: "(bytes \<Rightarrow> 'e + bytes) \<Rightarrow> trie_database_key \<times> bytes \<Rightarrow> 'e + bytes" where
  "trie_entry_compress compress e = rbind (compress (snd e)) (\<lambda>v. Inr (trie_key_encode (fst e) @ v))"

definition trie_entry_decompress ::
    "(bytes \<Rightarrow> 'e + bytes) \<Rightarrow> bytes \<Rightarrow> ('e + trie_database_key \<times> bytes) option" where
  "trie_entry_decompress decompress bs =
     (case trie_key_decode bs of
        None \<Rightarrow> None
      | Some key \<Rightarrow>
          (let key_bytes_length = 1 + 1 + length (tk_key key)
           in Some (rbind (decompress (drop key_bytes_length bs)) (\<lambda>value. Inr (key, value)))))"

text \<open>The storage engine orders keys by their encoding.\<close>

lemma trie_key_encode_inj: "trie_key_encode k = trie_key_encode k' \<Longrightarrow> k = k'"
  by (cases k; cases k'; cases "tk_type k"; cases "tk_type k'") (auto simp: trie_key_encode_def)

instantiation trie_database_key :: linorder
begin

definition less_eq_trie_database_key :: "trie_database_key \<Rightarrow> trie_database_key \<Rightarrow> bool" where
  "less_eq_trie_database_key k k' \<longleftrightarrow> trie_key_encode k \<le> trie_key_encode k'"

definition less_trie_database_key :: "trie_database_key \<Rightarrow> trie_database_key \<Rightarrow> bool" where
  "less_trie_database_key k k' \<longleftrightarrow> trie_key_encode k < trie_key_encode k'"

instance
  by standard (auto simp: less_eq_trie_database_key_def less_trie_database_key_def intro: trie_key_encode_inj)

end

section \<open>The live database\<close>

text \<open>The keys of the trie library.\<close>

datatype database_key = DbTrie bytes | DbFlat bytes | DbTrieLog bytes

fun db_key_as_slice :: "database_key \<Rightarrow> bytes" where
  "db_key_as_slice (DbTrie bs) = bs"
| "db_key_as_slice (DbFlat bs) = bs"
| "db_key_as_slice (DbTrieLog bs) = bs"

fun to_db_key :: "database_key \<Rightarrow> trie_database_key" where
  "to_db_key (DbFlat bs) = TrieDatabaseKey FlatKey bs"
| "to_db_key (DbTrie bs) = TrieDatabaseKey TrieKey bs"
| "to_db_key (DbTrieLog bs) = TrieDatabaseKey TrieLogKey bs"

text \<open>A trie is stored in three tables: nodes, history by block, and change lists by key.\<close>

record trie_tables =
  tt_nodes :: "(trie_database_key, bytes) table"
  tt_history :: "(block_number, trie_database_key \<times> bytes) table"
  tt_changeset :: "(trie_database_key, integer_set) table"

definition trie_tables_empty :: trie_tables where
  "trie_tables_empty = \<lparr>tt_nodes = [], tt_history = [], tt_changeset = []\<rparr>"

definition trie_db_get :: "trie_tables \<Rightarrow> database_key \<Rightarrow> bytes option" where
  "trie_db_get t key = tbl_get (tt_nodes t) (to_db_key key)"

definition trie_db_contains :: "trie_tables \<Rightarrow> database_key \<Rightarrow> bool" where
  "trie_db_contains t key = (tbl_get (tt_nodes t) (to_db_key key) \<noteq> None)"

record trie_db_mut =
  td_tx :: trie_tables
  td_write_cache :: "(trie_database_key, bytes) table"

definition trie_db_new :: "trie_tables \<Rightarrow> trie_db_mut" where
  "trie_db_new t = \<lparr>td_tx = t, td_write_cache = []\<rparr>"

definition trie_remove_by_prefix :: "database_key \<Rightarrow> trie_db_mut \<Rightarrow> trie_db_mut" where
  "trie_remove_by_prefix key db =
     (let t = td_tx db;
          keys_to_remove = map fst (filter (\<lambda>e. take (length (db_key_as_slice key)) (tk_key (fst e)) = db_key_as_slice key)
            (tbl_walk None (tt_nodes t)))
      in db\<lparr>td_tx := t\<lparr>tt_nodes := fold (\<lambda>k ns. fst (tbl_delete k ns)) keys_to_remove (tt_nodes t)\<rparr>\<rparr>)"

definition trie_insert :: "database_key \<Rightarrow> bytes \<Rightarrow> trie_db_mut \<Rightarrow> trie_db_mut \<times> bytes option" where
  "trie_insert key value db =
     (let k = to_db_key key; t = td_tx db; old_value = tbl_get (tt_nodes t) k
      in (db\<lparr>td_tx := t\<lparr>tt_nodes := tbl_put k value (tt_nodes t)\<rparr>,
            td_write_cache := tbl_put k value (td_write_cache db)\<rparr>, old_value))"

definition trie_remove :: "database_key \<Rightarrow> trie_db_mut \<Rightarrow> trie_db_mut \<times> bytes option" where
  "trie_remove key db =
     (let k = to_db_key key; t = td_tx db; old_value = tbl_get (tt_nodes t) k
      in (db\<lparr>td_tx := t\<lparr>tt_nodes := fst (tbl_delete k (tt_nodes t))\<rparr>\<rparr>, old_value))"

text \<open>
  A commit drains the cache, a hash map: \<open>order\<close> is the order in which it yields its entries.
\<close>

definition snapshot_entry :: "block_number \<Rightarrow> trie_database_key \<times> bytes \<Rightarrow> trie_tables \<Rightarrow> trie_tables" where
  "snapshot_entry block_number entry t =
     (let changes = (case tbl_get (tt_changeset t) (fst entry) of Some l \<Rightarrow> l | None \<Rightarrow> iset_new)
      in t\<lparr>tt_changeset := tbl_put (fst entry) (iset_insert block_number changes) (tt_changeset t),
           tt_history := dup_put block_number entry (tt_history t)\<rparr>)"

type_synonym hash_order = "(trie_database_key \<times> bytes) list \<Rightarrow> (trie_database_key \<times> bytes) list"

definition trie_snapshot :: "hash_order \<Rightarrow> block_number \<Rightarrow> trie_db_mut \<Rightarrow> trie_db_mut" where
  "trie_snapshot order block_number db =
     db\<lparr>td_tx := fold (snapshot_entry block_number) (order (td_write_cache db)) (td_tx db), td_write_cache := []\<rparr>"

section \<open>The database of a snapshot\<close>

definition snapshot_get :: "trie_tables \<Rightarrow> block_number \<Rightarrow> database_key \<Rightarrow> bytes option option" where
  "snapshot_get t snapshot_id key =
     (let k = to_db_key key
      in case Option.bind (tbl_get (tt_changeset t) k) (recent_change_from_block snapshot_id) of
           Some num \<Rightarrow>
             (case seek_by_key_subkey num k (tt_history t) of
                None \<Rightarrow> None
              | Some (key', value) \<Rightarrow> Some (if key' = k then Some value else None))
         | None \<Rightarrow> Some None)"

section \<open>Codecs\<close>

lemma key_type_roundtrip [simp]: "key_type_try_from (key_type_code t) = Inr t"
  by (cases t) (simp_all add: key_type_try_from_def)

lemma trie_key_decode_encode: "length (tk_key k) < 256 \<Longrightarrow> trie_key_decode (trie_key_encode k @ rest) = Some k"
  by (cases k) (simp add: trie_key_decode_def trie_key_encode_def Let_def)

lemma append_less_lex:
  fixes xs :: "'a :: linorder list"
  assumes "length xs = length xs'" "xs \<noteq> xs'"
  shows "xs @ ys < xs' @ ys' \<longleftrightarrow> xs < xs'"
  using assms by (induction xs xs' rule: list_induct2) auto

lemma trie_key_encode_less:
  assumes "length (tk_key k) < 256" "length (tk_key k') < 256" "k \<noteq> k'"
  shows "trie_key_encode k @ v < trie_key_encode k' @ v' \<longleftrightarrow> k < k'"
proof (cases "length (tk_key k) = length (tk_key k')")
  case True
  then show ?thesis
    using assms(3) trie_key_encode_inj unfolding less_trie_database_key_def
    by (intro append_less_lex) (auto simp: trie_key_encode_def)
next
  case False
  then show ?thesis
    using assms(1,2) by (auto simp: less_trie_database_key_def trie_key_encode_def)
qed

end
