(* ===== verification/Trie_Props.thy ===== *)
theory Trie_Props
  imports Trie_Db
begin

text \<open>
  Snapshots of the state tries.  The history and the change lists of a trie agree in every
  reachable state, and a snapshot returns the last value that a commit at or before its block
  wrote.
\<close>

section \<open>Last writes when several commits share a block\<close>

lemma writers_finite [simp]: "finite (writers w chain)"
proof -
  have "writers w chain \<subseteq> fst ` set chain" by (force simp: writers_def)
  then show ?thesis by (rule finite_subset) simp
qed

lemma last_write_Max:
  assumes "sorted (map fst chain)" "\<And>b s v. (b, s) \<in> set chain \<Longrightarrow> w s = Some v \<Longrightarrow> h b = Some v"
  shows "last_write w chain n =
    (if \<exists>b\<in>writers w chain. b \<le> n then h (Max {b \<in> writers w chain. b \<le> n}) else None)"
  using assms
proof (induction chain rule: rev_induct)
  case (snoc e chain)
  obtain b s where e: "e = (b, s)" by fastforce
  have le: "\<forall>x\<in>writers w chain. x \<le> b"
    using snoc.prems(1) by (force simp: e sorted_append writers_def)
  have IH: "last_write w chain n = (if \<exists>b\<in>writers w chain. b \<le> n then h (Max {b \<in> writers w chain. b \<le> n}) else None)"
    using snoc.prems by (intro snoc.IH) (auto simp: sorted_append)
  show ?case
  proof (cases "w s")
    case None
    then show ?thesis using IH by (simp add: e)
  next
    case (Some v)
    show ?thesis
    proof (cases "b \<le> n")
      case True
      have "Max {x \<in> insert b (writers w chain). x \<le> n} = b"
        using le True by (intro Max_eqI) auto
      then show ?thesis using True Some snoc.prems(2) [of b s v] by (simp add: e)
    next
      case False
      then have "{x \<in> insert b (writers w chain). x \<le> n} = {x \<in> writers w chain. x \<le> n}" by auto
      then show ?thesis using False Some IH by (simp add: e)
    qed
  qed
qed simp

section \<open>The invariant of the tables\<close>

definition changed_at :: "trie_tables \<Rightarrow> trie_database_key \<Rightarrow> block_number set" where
  "changed_at t k = {b. \<exists>v. (b, k, v) \<in> set (tt_history t)}"

definition change_list :: "trie_tables \<Rightarrow> trie_database_key \<Rightarrow> integer_set" where
  "change_list t k = (case tbl_get (tt_changeset t) k of Some l \<Rightarrow> l | None \<Rightarrow> [])"

definition trie_tables_ok :: "trie_tables \<Rightarrow> bool" where
  "trie_tables_ok t \<longleftrightarrow>
     tbl_inv (tt_nodes t) \<and> tbl_inv (tt_changeset t) \<and> dup_inv (tt_history t) \<and> dup_functional (tt_history t)
     \<and> (\<forall>k. iset_inv (change_list t k) \<and> set (change_list t k) = changed_at t k)"

lemma trie_tables_ok_empty [simp]: "trie_tables_ok trie_tables_empty"
  by (simp add: trie_tables_ok_def trie_tables_empty_def dup_inv_def changed_at_def change_list_def tbl_get_def)

lemma trie_tables_ok_nodes: "trie_tables_ok t \<Longrightarrow> tbl_inv ns \<Longrightarrow> trie_tables_ok (t\<lparr>tt_nodes := ns\<rparr>)"
  by (simp add: trie_tables_ok_def changed_at_def change_list_def)

lemma finite_changed_at [simp]: "finite (changed_at t k)"
proof -
  have "changed_at t k \<subseteq> fst ` set (tt_history t)" by (force simp: changed_at_def)
  then show ?thesis by (rule finite_subset) simp
qed

text \<open>A snapshot never panics: it returns the entry of the newest change at or before its block.\<close>

lemma snapshot_get_newest:
  assumes "trie_tables_ok t"
  shows "snapshot_get t n key = Some (if \<exists>b\<in>changed_at t (to_db_key key). b \<le> n
    then dup_get (tt_history t) (Max {b \<in> changed_at t (to_db_key key). b \<le> n}) (to_db_key key) else None)"
proof -
  let ?k = "to_db_key key"
  have l: "iset_inv (change_list t ?k)" "set (change_list t ?k) = changed_at t ?k"
    using assms by (simp_all add: trie_tables_ok_def)
  have recent: "Option.bind (tbl_get (tt_changeset t) ?k) (recent_change_from_block n) =
      recent_change_from_block n (change_list t ?k)"
    by (simp add: change_list_def recent_change_from_block_def iset_rank_def split: option.split)
  show ?thesis
  proof (cases "\<exists>b\<in>changed_at t ?k. b \<le> n")
    case False
    then show ?thesis using l by (simp add: snapshot_get_def recent recent_change_from_block_Max)
  next
    case True
    let ?m = "Max {b \<in> changed_at t ?k. b \<le> n}"
    have "?m \<in> {b \<in> changed_at t ?k. b \<le> n}" using True by (intro Max_in) auto
    then obtain v where v: "(?m, ?k, v) \<in> set (tt_history t)" by (auto simp: changed_at_def)
    then have get: "dup_get (tt_history t) ?m ?k = Some v"
      using assms by (simp add: trie_tables_ok_def dup_get_iff)
    then have "seek_by_key_subkey ?m ?k (tt_history t) = Some (?k, v)" by (rule seek_of_dup_get)
    then show ?thesis
      using l True get by (simp add: snapshot_get_def recent recent_change_from_block_Max)
  qed
qed

section \<open>Commits\<close>

lemma snapshot_entry_fields [simp]:
  "tt_nodes (snapshot_entry n e t) = tt_nodes t"
  "set (tt_history (snapshot_entry n e t)) = insert (n, e) (set (tt_history t))"
  by (simp_all add: snapshot_entry_def Let_def)

lemma snapshot_entry_ok:
  assumes "trie_tables_ok t" "\<And>v'. (n, k, v') \<in> set (tt_history t) \<Longrightarrow> v' = v"
  shows "trie_tables_ok (snapshot_entry n (k, v) t)"
proof -
  let ?t = "snapshot_entry n (k, v) t"
  have lists: "change_list ?t k' = (if k' = k then iset_insert n (change_list t k) else change_list t k')" for k'
    by (auto simp: change_list_def snapshot_entry_def Let_def table_simps iset_new_def split: option.split)
  have "changed_at ?t k' = (if k' = k then insert n (changed_at t k) else changed_at t k')" for k'
    by (auto simp: changed_at_def)
  with lists have "\<forall>k'. iset_inv (change_list ?t k') \<and> set (change_list ?t k') = changed_at ?t k'"
    using assms(1) by (simp add: trie_tables_ok_def)
  moreover have "dup_functional (tt_history ?t)"
    using assms by (simp add: snapshot_entry_def Let_def trie_tables_ok_def dup_functional_put)
  ultimately show ?thesis
    using assms(1) by (simp add: trie_tables_ok_def) (simp add: snapshot_entry_def Let_def)
qed

lemma fold_snapshot_entry:
  assumes "trie_tables_ok t" "distinct (map fst es)"
    "\<And>k v v'. (k, v) \<in> set es \<Longrightarrow> (n, k, v') \<in> set (tt_history t) \<Longrightarrow> v' = v"
  shows "trie_tables_ok (fold (snapshot_entry n) es t)
    \<and> set (tt_history (fold (snapshot_entry n) es t)) = Pair n ` set es \<union> set (tt_history t)
    \<and> tt_nodes (fold (snapshot_entry n) es t) = tt_nodes t"
  using assms
proof (induction es arbitrary: t)
  case (Cons e es)
  obtain k v where e: "e = (k, v)" by (cases e)
  let ?t = "snapshot_entry n e t"
  have ok: "trie_tables_ok ?t" using Cons.prems by (auto simp: e intro!: snapshot_entry_ok)
  have "v' = v''" if "(k', v'') \<in> set es" "(n, k', v') \<in> set (tt_history ?t)" for k' v' v''
    using that Cons.prems(2,3) by (force simp: e)
  from Cons.IH [OF ok _ this] Cons.prems(2) show ?case by auto
qed simp

text \<open>The tables hold exactly the writes of a list of commits.\<close>

definition represents :: "(block_number \<times> (trie_database_key, bytes) table) list \<Rightarrow> trie_tables \<Rightarrow> bool" where
  "represents log t \<longleftrightarrow> trie_tables_ok t
     \<and> set (tt_history t) = {(b, k, v). \<exists>w. (b, w) \<in> set log \<and> tbl_get w k = Some v}"

text \<open>
  Commits come in block order; several of them may share a block (the storage tries of one
  block do) as long as they do not write different values under one key.
\<close>

definition commits_ok :: "(block_number \<times> (trie_database_key, bytes) table) list \<Rightarrow> bool" where
  "commits_ok log \<longleftrightarrow> sorted (map fst log)
     \<and> (\<forall>e\<in>set log. \<forall>e'\<in>set log. fst e = fst e' \<longrightarrow>
          (\<forall>k\<in>tbl_keys (snd e) \<inter> tbl_keys (snd e'). tbl_get (snd e) k = tbl_get (snd e') k))"

lemma commits_ok_same:
  assumes "commits_ok log" "(b, w) \<in> set log" "(b, w') \<in> set log" "tbl_get w k = Some v" "tbl_get w' k = Some v'"
  shows "v = v'"
proof -
  have "k \<in> tbl_keys w \<inter> tbl_keys w'"
    using assms(4,5) tbl_get_eq_None [of w k] tbl_get_eq_None [of w' k] by auto
  then have "tbl_get w k = tbl_get w' k"
    using assms(1-3) unfolding commits_ok_def by (metis fst_conv snd_conv)
  with assms(4,5) show ?thesis by simp
qed

lemma commits_ok_append: "commits_ok (log @ log') \<Longrightarrow> commits_ok log"
  by (auto simp: commits_ok_def sorted_append)

lemma represents_changed: "represents log t \<Longrightarrow> changed_at t k = writers (\<lambda>w. tbl_get w k) log"
  by (auto simp: represents_def changed_at_def writers_def)

lemma represents_snapshot:
  assumes "represents log t" "commits_ok log"
  shows "snapshot_get t n key = Some (last_write (\<lambda>w. tbl_get w (to_db_key key)) log n)"
proof -
  let ?k = "to_db_key key"
  have ok: "trie_tables_ok t" using assms(1) by (simp add: represents_def)
  have "dup_get (tt_history t) b ?k = Some v" if "(b, w) \<in> set log" "tbl_get w ?k = Some v" for b w v
    using that assms(1) ok by (auto simp: represents_def trie_tables_ok_def dup_get_iff)
  then show ?thesis
    unfolding snapshot_get_newest [OF ok] represents_changed [OF assms(1)]
    using assms(2) by (subst last_write_Max [of _ _ "\<lambda>b. dup_get (tt_history t) b ?k"]) (auto simp: commits_ok_def)
qed

section \<open>Runs\<close>

text \<open>
  What the trie library does with the database.  A block opens a new database on the same
  transaction, and what was not committed then is not part of any snapshot.
\<close>

datatype trie_op = OpInsert database_key bytes | OpRemove database_key | OpRemovePrefix database_key | OpOpen | OpCommit block_number

fun trie_step :: "hash_order \<Rightarrow> trie_op \<Rightarrow> trie_db_mut \<Rightarrow> trie_db_mut" where
  "trie_step order (OpInsert key value) db = fst (trie_insert key value db)"
| "trie_step order (OpRemove key) db = fst (trie_remove key db)"
| "trie_step order (OpRemovePrefix key) db = trie_remove_by_prefix key db"
| "trie_step order OpOpen db = trie_db_new (td_tx db)"
| "trie_step order (OpCommit n) db = trie_snapshot order n db"

definition trie_run :: "hash_order \<Rightarrow> trie_op list \<Rightarrow> trie_db_mut \<Rightarrow> trie_db_mut" where
  "trie_run order ops db = fold (trie_step order) ops db"

lemma trie_run_simps [simp]:
  "trie_run order [] db = db" "trie_run order (op # ops) db = trie_run order ops (trie_step order op db)"
  by (simp_all add: trie_run_def)

text \<open>The commits of a run, each with what was inserted since the one before.\<close>

fun commit_log :: "(trie_database_key, bytes) table \<Rightarrow> trie_op list \<Rightarrow> (block_number \<times> (trie_database_key, bytes) table) list" where
  "commit_log cache [] = []"
| "commit_log cache (OpInsert key value # ops) = commit_log (tbl_put (to_db_key key) value cache) ops"
| "commit_log cache (OpOpen # ops) = commit_log [] ops"
| "commit_log cache (OpCommit n # ops) = (n, cache) # commit_log [] ops"
| "commit_log cache (OpRemove _ # ops) = commit_log cache ops"
| "commit_log cache (OpRemovePrefix _ # ops) = commit_log cache ops"

lemma fold_delete_inv: "tbl_inv t \<Longrightarrow> tbl_inv (fold (\<lambda>k ns. fst (tbl_delete k ns)) ks t)"
  by (induction ks arbitrary: t) auto

lemma represents_nodes: "represents log t \<Longrightarrow> tbl_inv ns \<Longrightarrow> represents log (t\<lparr>tt_nodes := ns\<rparr>)"
  by (simp add: represents_def trie_tables_ok_nodes)

lemma represents_commit:
  assumes "represents log t" "commits_ok (log @ [(n, cache)])" "tbl_inv cache" "mset (order cache) = mset cache"
  shows "represents (log @ [(n, cache)]) (fold (snapshot_entry n) (order cache) t)"
proof -
  have set: "set (order cache) = set cache" using assms(4) by (metis set_mset_mset)
  have dist: "distinct (map fst (order cache))"
    using tbl_inv_distinct_fst [OF assms(3)] assms(4) by (metis mset_map mset_eq_imp_distinct_iff)
  have "v' = v" if entry: "(k, v) \<in> set (order cache)" "(n, k, v') \<in> set (tt_history t)" for k v v'
  proof -
    obtain w where "(n, w) \<in> set log" "tbl_get w k = Some v'" using entry(2) assms(1) by (auto simp: represents_def)
    moreover have "tbl_get cache k = Some v" using entry(1) set tbl_inv_map_of_in [OF assms(3)] by metis
    ultimately show ?thesis using commits_ok_same [OF assms(2), of n w cache k v' v] by simp
  qed
  from fold_snapshot_entry [of t "order cache" n, OF _ dist this] assms(1)
  have "trie_tables_ok (fold (snapshot_entry n) (order cache) t)"
    "set (tt_history (fold (snapshot_entry n) (order cache) t)) = Pair n ` set cache \<union> set (tt_history t)"
    by (simp_all add: represents_def set)
  moreover have "(k, v) \<in> set cache \<longleftrightarrow> tbl_get cache k = Some v" for k v
    using tbl_inv_map_of_in [OF assms(3)] by metis
  ultimately show ?thesis using assms(1) by (auto simp: represents_def)
qed

lemma run_represents:
  assumes "\<And>xs. mset (order xs) = mset xs"
    and "represents log (td_tx db)" "tbl_inv (td_write_cache db)" "commits_ok (log @ commit_log (td_write_cache db) ops)"
  shows "represents (log @ commit_log (td_write_cache db) ops) (td_tx (trie_run order ops db))"
  using assms(2-)
proof (induction ops arbitrary: log db)
  case (Cons op ops)
  have nodes: "tbl_inv (tt_nodes (td_tx db))" using Cons.prems(1) by (simp add: represents_def trie_tables_ok_def)
  show ?case
  proof (cases op)
    case (OpCommit n)
    have "commits_ok (log @ [(n, td_write_cache db)])"
      using Cons.prems(3) commits_ok_append [of "log @ [(n, td_write_cache db)]"] by (simp add: OpCommit)
    then have "represents (log @ [(n, td_write_cache db)]) (td_tx (trie_snapshot order n db))"
      using represents_commit Cons.prems(1,2) assms(1) by (simp add: trie_snapshot_def)
    from Cons.IH [OF this] Cons.prems(3) show ?thesis
      by (simp add: OpCommit trie_snapshot_def)
  qed (use Cons.IH [of log "trie_step order op db"] Cons.prems nodes in
      \<open>simp_all add: trie_insert_def trie_remove_def trie_remove_by_prefix_def trie_db_new_def Let_def
        represents_nodes fold_delete_inv\<close>)
qed (simp add: trie_run_def)

text \<open>Runs without removals in which every insertion is committed before the database is opened again.\<close>

fun only_inserts :: "(trie_database_key, bytes) table \<Rightarrow> trie_op list \<Rightarrow> bool" where
  "only_inserts cache [] = (cache = [])"
| "only_inserts cache (OpInsert key value # ops) = only_inserts (tbl_put (to_db_key key) value cache) ops"
| "only_inserts cache (OpOpen # ops) = (cache = [] \<and> only_inserts [] ops)"
| "only_inserts cache (OpCommit n # ops) = only_inserts [] ops"
| "only_inserts cache (OpRemove _ # ops) = False"
| "only_inserts cache (OpRemovePrefix _ # ops) = False"

lemma run_live:
  assumes "only_inserts (td_write_cache db) ops"
    and "\<And>k. tbl_get (tt_nodes (td_tx db)) k =
      (case tbl_get (td_write_cache db) k of Some v \<Rightarrow> Some v | None \<Rightarrow> latest_write (\<lambda>w. tbl_get w k) log)"
  shows "tbl_get (tt_nodes (td_tx (trie_run order ops db))) k =
    latest_write (\<lambda>w. tbl_get w k) (log @ commit_log (td_write_cache db) ops)"
  using assms
proof (induction ops arbitrary: log db)
  case Nil
  then show ?case by (simp add: trie_run_def tbl_get_def)
next
  case (Cons op ops)
  have commit: "tt_nodes (fold (snapshot_entry n) es t) = tt_nodes t" for n es t
    by (induction es arbitrary: t) simp_all
  show ?case
  proof (cases op)
    case (OpInsert key v)
    then show ?thesis
      using Cons.IH [of "trie_step order op db" log] Cons.prems by (simp add: trie_insert_def Let_def table_simps)
  next
    case (OpCommit n)
    then show ?thesis
      using Cons.IH [of "trie_step order op db" "log @ [(n, td_write_cache db)]"] Cons.prems
      by (simp add: trie_snapshot_def commit tbl_get_def [of "[]"])
  next
    case OpOpen
    then show ?thesis
      using Cons.IH [of "trie_step order op db" log] Cons.prems by (simp add: trie_db_new_def)
  qed (use Cons.prems in simp_all)
qed

section \<open>Properties\<close>

text \<open>
  C12. Trie snapshots refine the log of commits.  Whatever the trie library inserts, removes and
  commits, in whatever order the write cache is drained, the snapshot at a block returns for
  each key the value that the last commit at or before the block wrote, and it never panics;
  removals are not recorded.  If nothing is removed and everything is committed, the snapshot
  at the newest block is the live trie.
\<close>

theorem trie_snapshots_refine_commits:
  assumes "\<And>xs. mset (order xs) = mset xs" "commits_ok (commit_log [] ops)"
  defines "t \<equiv> td_tx (trie_run order ops (trie_db_new trie_tables_empty))"
  shows "snapshot_get t n key = Some (last_write (\<lambda>w. tbl_get w (to_db_key key)) (commit_log [] ops) n)
    \<and> (only_inserts [] ops \<and> (\<forall>e\<in>set (commit_log [] ops). fst e \<le> n) \<longrightarrow> snapshot_get t n key = Some (trie_db_get t key))"
proof -
  let ?db = "trie_db_new trie_tables_empty" and ?k = "to_db_key key"
  have start: "represents [] (td_tx ?db)" "td_write_cache ?db = []"
    by (simp_all add: trie_db_new_def represents_def) (simp add: trie_tables_empty_def)
  have rep: "represents (commit_log [] ops) t"
    using run_represents [of order "[]" ?db ops] assms(1,2) start by (simp add: t_def)
  have "only_inserts [] ops \<Longrightarrow> trie_db_get t key = latest_write (\<lambda>w. tbl_get w ?k) (commit_log [] ops)"
    using run_live [of ?db ops "[]" order ?k] start(2)
    by (simp add: t_def trie_db_get_def) (simp add: trie_db_new_def trie_tables_empty_def tbl_get_def)
  then show ?thesis
    using represents_snapshot [OF rep assms(2)] by (auto simp: latest_is_last)
qed

text \<open>Two commits; the node of the first is removed before the second.\<close>

definition sample_trie_ops :: "trie_op list" where
  "sample_trie_ops = [OpInsert (DbFlat [1]) [9], OpInsert (DbTrie [1]) [4], OpCommit 1, OpOpen,
     OpInsert (DbFlat [2]) [7], OpRemove (DbFlat [1]), OpCommit 3]"

lemmas sample_trie_key_defs = less_trie_database_key_def trie_key_encode_def

lemma sample_commits:
  "commit_log [] sample_trie_ops =
     [(1, [(TrieDatabaseKey TrieKey [1], [4]), (TrieDatabaseKey FlatKey [1], [9])]), (3, [(TrieDatabaseKey FlatKey [2], [7])])]"
  by (simp add: sample_trie_ops_def sample_trie_key_defs)

lemma trie_snapshots_refine_commits_witness:
  "(let t = td_tx (trie_run rev sample_trie_ops (trie_db_new trie_tables_empty)) in
     snapshot_get t 0 (DbFlat [1]) = Some None \<and> snapshot_get t 2 (DbFlat [1]) = Some (Some [9])
     \<and> snapshot_get t 3 (DbFlat [1]) = Some (Some [9]) \<and> trie_db_get t (DbFlat [1]) = None
     \<and> snapshot_get t 3 (DbFlat [2]) = Some (Some [7]))"
proof -
  have ok: "commits_ok (commit_log [] sample_trie_ops)" by (simp add: sample_commits commits_ok_def)
  have order: "mset (rev xs) = mset xs" for xs :: "(trie_database_key \<times> bytes) list" by simp
  have "trie_db_get (td_tx (trie_run rev sample_trie_ops (trie_db_new trie_tables_empty))) (DbFlat [1]) = None"
    by (simp add: sample_trie_ops_def trie_db_get_def trie_run_def trie_insert_def trie_remove_def trie_snapshot_def
        trie_db_new_def Let_def table_simps sample_trie_key_defs)
  then show ?thesis
    using trie_snapshots_refine_commits [where order = rev, OF order ok, of 0 "DbFlat [1]"]
      trie_snapshots_refine_commits [where order = rev, OF order ok, of 2 "DbFlat [1]"]
      trie_snapshots_refine_commits [where order = rev, OF order ok, of 3 "DbFlat [1]"]
      trie_snapshots_refine_commits [where order = rev, OF order ok, of 3 "DbFlat [2]"]
    by (simp add: sample_commits last_write_def tbl_get_def Let_def)
qed

end
