(* ===== verification/Db_Prune.thy ===== *)
theory Db_Prune
  imports Trie_Props
begin

text \<open>
  The pruning command of the node binary (\<^verbatim>\<open>bin/katana/src/cli/db/prune.rs\<close>): it deletes the
  history of the state tries, all of it or all but the last blocks, and announces before how
  many entries it will delete.  Opening the database and the progress bars are left out; the
  prompt is a function from what it shows to the answer.
\<close>

record state_tries =
  classes_trie :: trie_tables
  contracts_trie :: trie_tables
  storages_trie :: trie_tables

datatype prune_mode = PruneLatest | KeepLastN nat

record prune_args =
  pa_latest :: bool
  pa_keep_last_n :: "nat option"
  pa_skip_confirmation :: bool

definition prune_mode_of :: "prune_args \<Rightarrow> prune_mode option" where
  "prune_mode_of args =
     (if pa_latest args then Some PruneLatest
      else case pa_keep_last_n args of Some blocks \<Rightarrow> Some (KeepLastN blocks) | None \<Rightarrow> None)"

definition get_latest_block_number :: "('cls, 'info) db \<Rightarrow> block_number" where
  "get_latest_block_number d = (case tbl_last (tb_Headers d) of Some (num, _) \<Rightarrow> num | None \<Rightarrow> 0)"

section \<open>Deleting\<close>

definition prune_all_history :: "state_tries \<Rightarrow> state_tries" where
  "prune_all_history s =
     (let s = s\<lparr>classes_trie := (classes_trie s)\<lparr>tt_history := tbl_clear (tt_history (classes_trie s))\<rparr>\<rparr>;
          s = s\<lparr>contracts_trie := (contracts_trie s)\<lparr>tt_history := tbl_clear (tt_history (contracts_trie s))\<rparr>\<rparr>;
          s = s\<lparr>storages_trie := (storages_trie s)\<lparr>tt_history := tbl_clear (tt_history (storages_trie s))\<rparr>\<rparr>;
          s = s\<lparr>classes_trie := (classes_trie s)\<lparr>tt_changeset := tbl_clear (tt_changeset (classes_trie s))\<rparr>\<rparr>;
          s = s\<lparr>contracts_trie := (contracts_trie s)\<lparr>tt_changeset := tbl_clear (tt_changeset (contracts_trie s))\<rparr>\<rparr>
      in s\<lparr>storages_trie := (storages_trie s)\<lparr>tt_changeset := tbl_clear (tt_changeset (storages_trie s))\<rparr>\<rparr>)"

text \<open>
  The cursor stands on the first entry.  Deleting the duplicates of its key leaves it before the
  first entry of the rest, which \<open>next\<close> then yields.
\<close>

function prune_history_entries :: "block_number \<Rightarrow> (block_number, 'v) table \<Rightarrow> (block_number, 'v) table" where
  "prune_history_entries cutoff_block [] = []"
| "prune_history_entries cutoff_block ((current_block, v) # t) =
     (if current_block \<le> cutoff_block
      then prune_history_entries cutoff_block (filter (\<lambda>e. fst e \<noteq> current_block) ((current_block, v) # t))
      else (current_block, v) # t)"
  by pat_completeness auto

termination
  by (relation "measure (\<lambda>(c, t). length t)") (auto simp: less_Suc_eq_le)

definition prune_history_table :: "block_number \<Rightarrow> trie_tables \<Rightarrow> trie_tables" where
  "prune_history_table cutoff_block t = t\<lparr>tt_history := prune_history_entries cutoff_block (tt_history t)\<rparr>"

definition PRUNE_BATCH_SIZE :: nat where
  "PRUNE_BATCH_SIZE = 1000"

type_synonym changeset_update = "trie_database_key \<times> integer_set option"

fun apply_changeset_update :: "changeset_update \<Rightarrow> (trie_database_key, integer_set) table \<Rightarrow> (trie_database_key, integer_set) table" where
  "apply_changeset_update (key, Some block_list) t = tbl_put key block_list t"
| "apply_changeset_update (key, None) t = fst (tbl_delete key t)"

text \<open>One entry of the walk: its update is queued, and a full queue is written out.\<close>

fun prune_changeset_entry ::
    "block_number \<Rightarrow> trie_database_key \<times> integer_set \<Rightarrow> (trie_database_key, integer_set) table \<times> changeset_update list
     \<Rightarrow> (trie_database_key, integer_set) table \<times> changeset_update list" where
  "prune_changeset_entry cutoff_block (key, block_list) (t, keys) =
     (let (block_list', total_blocks_removed) = iset_remove_range 0 cutoff_block block_list;
          keys' = (if total_blocks_removed > 0
            then keys @ [(key, if iset_select block_list' 0 = None then None else Some block_list')] else keys)
      in if PRUNE_BATCH_SIZE \<le> length keys' then (fold apply_changeset_update keys' t, []) else (t, keys'))"

definition prune_changeset_table :: "block_number \<Rightarrow> trie_tables \<Rightarrow> trie_tables" where
  "prune_changeset_table cutoff_block t =
     (let (changeset, keys) = fold (prune_changeset_entry cutoff_block) (tbl_walk None (tt_changeset t)) (tt_changeset t, [])
      in t\<lparr>tt_changeset := fold apply_changeset_update keys changeset\<rparr>)"

definition prune_keep_last_n :: "block_number \<Rightarrow> state_tries \<Rightarrow> state_tries" where
  "prune_keep_last_n cutoff_block s =
     (if cutoff_block = 0 then s
      else let s = s\<lparr>classes_trie := prune_history_table cutoff_block (classes_trie s)\<rparr>;
               s = s\<lparr>contracts_trie := prune_history_table cutoff_block (contracts_trie s)\<rparr>;
               s = s\<lparr>storages_trie := prune_history_table cutoff_block (storages_trie s)\<rparr>;
               s = s\<lparr>classes_trie := prune_changeset_table cutoff_block (classes_trie s)\<rparr>;
               s = s\<lparr>contracts_trie := prune_changeset_table cutoff_block (contracts_trie s)\<rparr>
           in s\<lparr>storages_trie := prune_changeset_table cutoff_block (storages_trie s)\<rparr>)"

definition prune_database :: "('cls, 'info) db \<Rightarrow> prune_mode \<Rightarrow> state_tries \<Rightarrow> string + state_tries" where
  "prune_database d mode s =
     (let latest_block = get_latest_block_number d
      in case mode of
           PruneLatest \<Rightarrow> Inr (prune_all_history s)
         | KeepLastN blocks \<Rightarrow>
             if blocks = 0 then Inl ''Number of blocks to keep must be greater than 0''
             else if latest_block < blocks then Inr s
             else let cutoff_block = latest_block - blocks
                  in if cutoff_block = 0 then Inr s else Inr (prune_keep_last_n cutoff_block s))"

section \<open>Announcing\<close>

type_synonym pruning_stats = "(string \<times> nat) list"

definition count_all_historical_deletions :: "state_tries \<Rightarrow> pruning_stats" where
  "count_all_historical_deletions s =
     [(''ClassesTrieHistory'', tbl_entries (tt_history (classes_trie s))),
      (''ContractsTrieHistory'', tbl_entries (tt_history (contracts_trie s))),
      (''StoragesTrieHistory'', tbl_entries (tt_history (storages_trie s))),
      (''ClassesTrieChangeSet'', tbl_entries (tt_changeset (classes_trie s))),
      (''ContractsTrieChangeSet'', tbl_entries (tt_changeset (contracts_trie s))),
      (''StoragesTrieChangeSet'', tbl_entries (tt_changeset (storages_trie s)))]"

definition count_history_table_deletions :: "block_number \<Rightarrow> trie_tables \<Rightarrow> nat" where
  "count_history_table_deletions cutoff_block t =
     fold (\<lambda>(block, _) n. if block \<le> cutoff_block then n + 1 else n) (tbl_walk None (tt_history t)) 0"

definition count_changeset_table_deletions :: "block_number \<Rightarrow> trie_tables \<Rightarrow> nat" where
  "count_changeset_table_deletions cutoff_block t =
     fold (\<lambda>(_, block_list) n. case iset_max block_list of
         Some num \<Rightarrow> if num \<le> cutoff_block then n + 1 else n
       | None \<Rightarrow> n) (tbl_walk None (tt_changeset t)) 0"

definition count_keep_last_n_deletions :: "('cls, 'info) db \<Rightarrow> nat \<Rightarrow> state_tries \<Rightarrow> pruning_stats" where
  "count_keep_last_n_deletions d keep_last_n s =
     (let cutoff_block = get_latest_block_number d - keep_last_n
      in if cutoff_block = 0 then []
         else [(''ClassesTrieHistory'', count_history_table_deletions cutoff_block (classes_trie s)),
               (''ContractsTrieHistory'', count_history_table_deletions cutoff_block (contracts_trie s)),
               (''StoragesTrieHistory'', count_history_table_deletions cutoff_block (storages_trie s)),
               (''ClassesTrieChangeSet'', count_changeset_table_deletions cutoff_block (classes_trie s)),
               (''ContractsTrieChangeSet'', count_changeset_table_deletions cutoff_block (contracts_trie s)),
               (''StoragesTrieChangeSet'', count_changeset_table_deletions cutoff_block (storages_trie s))])"

fun collect_pruning_stats :: "('cls, 'info) db \<Rightarrow> prune_mode \<Rightarrow> state_tries \<Rightarrow> pruning_stats" where
  "collect_pruning_stats d PruneLatest s = count_all_historical_deletions s"
| "collect_pruning_stats d (KeepLastN blocks) s = count_keep_last_n_deletions d blocks s"

text \<open>The prompt shows the number of tables and the sum of the entries.\<close>

type_synonym prune_prompt = "nat \<Rightarrow> nat \<Rightarrow> prune_mode \<Rightarrow> string + bool"

definition show_confirmation_prompt :: "prune_prompt \<Rightarrow> pruning_stats \<Rightarrow> prune_mode \<Rightarrow> string + bool" where
  "show_confirmation_prompt prompt stats mode = prompt (length stats) (sum_list (map snd stats)) mode"

definition prune_execute ::
    "prune_prompt \<Rightarrow> ('cls, 'info) db \<Rightarrow> prune_args \<Rightarrow> state_tries \<Rightarrow> (string + state_tries) option" where
  "prune_execute prompt d args s =
     (case prune_mode_of args of
        None \<Rightarrow> None
      | Some mode \<Rightarrow> Some (
          rbind (if pa_skip_confirmation args then Inr True
                 else show_confirmation_prompt prompt (collect_pruning_stats d mode s) mode) (\<lambda>confirmed.
            if confirmed then prune_database d mode s else Inr s)))"

end
