(* ===== verification/Prune_Props.thy ===== *)
theory Prune_Props
  imports Db_Prune Db_Updates
begin

text \<open>
  What pruning does to the tries.  It forgets the commits of the deleted blocks and nothing
  else, the announced number of entries is the number deleted, and a node that no kept block
  wrote disappears from the snapshots of the kept blocks.
\<close>

section \<open>History tables\<close>

lemma dup_inv_sorted_keys: "dup_inv t \<Longrightarrow> sorted (map fst t)"
  by (induction t) (auto simp: dup_inv_def less_prod_def less_imp_le)

lemma prune_history_entries_filter:
  "sorted (map fst t) \<Longrightarrow> prune_history_entries c t = filter (\<lambda>e. c < fst e) t"
proof (induction c t rule: prune_history_entries.induct)
  case (2 c b v t)
  show ?case
  proof (cases "b \<le> c")
    case True
    have "sorted (map fst (filter (\<lambda>e. fst e \<noteq> b) ((b, v) # t)))"
      using "2.prems" by (intro sorted_filter) simp
    moreover have "filter (\<lambda>e. c < fst e \<and> fst e \<noteq> b) t = filter (\<lambda>e. c < fst e) t"
      using True by (intro filter_cong) auto
    ultimately show ?thesis using "2.IH" True by (simp add: conj_commute)
  next
    case False
    then show ?thesis using "2.prems" by (auto intro!: filter_True [symmetric])
  qed
qed simp

section \<open>Change lists\<close>

definition changeset_update :: "block_number \<Rightarrow> trie_database_key \<times> integer_set \<Rightarrow> changeset_update option" where
  "changeset_update c e =
     (let l = filter (\<lambda>m. c < m) (snd e)
      in if l = snd e then None else Some (fst e, if l = [] then None else Some l))"

lemma prune_changeset_entry_update:
  "fold apply_changeset_update (snd (prune_changeset_entry c e (t, keys))) (fst (prune_changeset_entry c e (t, keys))) =
     fold apply_changeset_update (keys @ List.map_filter (changeset_update c) [e]) t"
proof (cases e)
  case (Pair k l)
  have "filter (\<lambda>m. \<not> m \<le> c) l = l \<longleftrightarrow> \<not> length (filter (\<lambda>m. m \<le> c) l) > 0"
    by (simp add: filter_id_conv filter_empty_conv)
  then show ?thesis
    by (auto simp: Pair changeset_update_def iset_remove_range_def iset_select_def Let_def List.map_filter_simps not_le)
qed

lemma fold_prune_changeset:
  "(let (t', keys') = fold (prune_changeset_entry c) es (t, keys) in fold apply_changeset_update keys' t') =
     fold apply_changeset_update (keys @ List.map_filter (changeset_update c) es) t"
proof (induction es arbitrary: t keys)
  case (Cons e es)
  obtain t1 keys1 where step: "prune_changeset_entry c e (t, keys) = (t1, keys1)" by fastforce
  have "fold apply_changeset_update keys1 t1 = fold apply_changeset_update (keys @ List.map_filter (changeset_update c) [e]) t"
    using prune_changeset_entry_update [of c e t keys] by (simp add: step)
  moreover have "List.map_filter (changeset_update c) (e # es) = List.map_filter (changeset_update c) [e] @ List.map_filter (changeset_update c) es"
    by (simp add: List.map_filter_simps split: option.split)
  ultimately show ?case using Cons.IH [of t1 keys1] by (simp add: step)
qed (simp add: List.map_filter_simps)

lemma fold_changeset_updates:
  assumes "distinct (map fst us)"
  shows "tbl_get (fold apply_changeset_update us t) k = (case map_of us k of Some l \<Rightarrow> l | None \<Rightarrow> tbl_get t k)"
  using assms
proof (induction us arbitrary: t)
  case (Cons u us)
  obtain k' l where u: "u = (k', l)" by (cases u)
  have "map_of us k' = None" using Cons.prems by (simp add: u map_of_eq_None_iff)
  then show ?case using Cons by (cases l) (auto simp: u table_simps split: option.split)
qed simp

lemma map_of_map_filter_keyed:
  assumes "distinct (map fst t)" "\<And>k l x. f (k, l) = Some x \<Longrightarrow> fst x = k"
  shows "map_of (List.map_filter f t) k = Option.bind (map_of t k) (\<lambda>l. map_option snd (f (k, l)))"
  using assms(1)
proof (induction t)
  case (Cons e t)
  obtain k' l where e: "e = (k', l)" by (cases e)
  show ?case
  proof (cases "f e")
    case None
    moreover have "k = k' \<Longrightarrow> map_of t k = None" using Cons.prems by (simp add: e map_of_eq_None_iff)
    ultimately show ?thesis using Cons by (auto simp: e List.map_filter_simps)
  next
    case (Some x)
    then have "fst x = k'" using assms(2) by (simp add: e)
    then show ?thesis using Cons Some by (cases x) (auto simp: e List.map_filter_simps)
  qed
qed (simp add: List.map_filter_simps)

lemma map_filter_keyed:
  assumes "\<And>e x. f e = Some x \<Longrightarrow> fst x = fst e"
  shows "map fst (List.map_filter f t) = map fst (filter (\<lambda>e. f e \<noteq> None) t)"
  using assms by (induction t) (auto simp: List.map_filter_simps split: option.split)

definition kept_changes :: "block_number \<Rightarrow> trie_database_key \<times> integer_set \<Rightarrow> (trie_database_key \<times> integer_set) option" where
  "kept_changes c e =
     (let l = filter (\<lambda>m. c < m) (snd e) in if l = [] \<and> snd e \<noteq> [] then None else Some (fst e, l))"

lemma keyed_updates:
  "changeset_update c e = Some x \<Longrightarrow> fst x = fst e" "kept_changes c e = Some y \<Longrightarrow> fst y = fst e"
  by (auto simp: changeset_update_def kept_changes_def Let_def split: if_splits)

lemma get_updates:
  assumes "distinct (map fst t)"
  shows "map_of (List.map_filter (changeset_update c) t) k = Option.bind (map_of t k) (\<lambda>l. map_option snd (changeset_update c (k, l)))"
    "map_of (List.map_filter (kept_changes c) t) k = Option.bind (map_of t k) (\<lambda>l. map_option snd (kept_changes c (k, l)))"
  by (rule map_of_map_filter_keyed [OF assms]; drule keyed_updates; simp)+

lemma fold_updates_inv: "tbl_inv t \<Longrightarrow> tbl_inv (fold apply_changeset_update us t)"
proof (induction us arbitrary: t)
  case (Cons u us)
  obtain k l where "u = (k, l)" by (cases u)
  with Cons show ?case by (cases l) auto
qed simp

lemma prune_changeset_table_eq:
  assumes "tbl_inv (tt_changeset t)"
  shows "prune_changeset_table c t = t\<lparr>tt_changeset := List.map_filter (kept_changes c) (tt_changeset t)\<rparr>"
proof -
  let ?cs = "tt_changeset t" and ?us = "List.map_filter (changeset_update c) (tt_changeset t)"
  have dist: "distinct (map fst ?cs)" by (rule tbl_inv_distinct_fst [OF assms])
  have "map fst ?us = map fst (filter (\<lambda>e. changeset_update c e \<noteq> None) ?cs)"
    by (rule map_filter_keyed [OF keyed_updates(1)])
  then have us: "distinct (map fst ?us)" using dist by (simp add: distinct_map_filter)
  have inv: "tbl_inv (List.map_filter (kept_changes c) ?cs)"
  proof -
    have "map fst (List.map_filter (kept_changes c) ?cs) = map fst (filter (\<lambda>e. kept_changes c e \<noteq> None) ?cs)"
      by (rule map_filter_keyed [OF keyed_updates(2)])
    then show ?thesis using tbl_inv_filter [OF assms] by (simp add: tbl_inv_def)
  qed
  have "tbl_get (fold apply_changeset_update ?us ?cs) k = tbl_get (List.map_filter (kept_changes c) ?cs) k" for k
    unfolding fold_changeset_updates [OF us]
    unfolding tbl_get_def get_updates [OF dist]
    by (cases "map_of ?cs k") (auto simp: changeset_update_def kept_changes_def Let_def)
  then have "fold apply_changeset_update ?us ?cs = List.map_filter (kept_changes c) ?cs"
    by (rule tbl_eqI [OF fold_updates_inv [OF assms] inv])
  then show ?thesis
    using fold_prune_changeset [of c ?cs ?cs "[]"]
    by (simp add: prune_changeset_table_def tbl_walk_def split_beta Let_def)
qed

section \<open>Tries\<close>

definition prune_trie :: "block_number \<Rightarrow> trie_tables \<Rightarrow> trie_tables" where
  "prune_trie c t = prune_changeset_table c (prune_history_table c t)"

lemma prune_trie_fields:
  assumes "trie_tables_ok t"
  shows "tt_nodes (prune_trie c t) = tt_nodes t" "tt_history (prune_trie c t) = filter (\<lambda>e. c < fst e) (tt_history t)"
    "tt_changeset (prune_trie c t) = List.map_filter (kept_changes c) (tt_changeset t)"
  using assms by (simp_all add: prune_trie_def trie_tables_ok_def prune_changeset_table_eq prune_history_table_def
      prune_history_entries_filter dup_inv_sorted_keys)

lemma prune_trie_ok:
  assumes "trie_tables_ok t"
  shows "trie_tables_ok (prune_trie c t)"
proof -
  let ?t = "prune_trie c t"
  have cs: "tbl_inv (tt_changeset t)" using assms by (simp add: trie_tables_ok_def)
  have dist: "distinct (map fst (tt_changeset t))" by (rule tbl_inv_distinct_fst [OF cs])
  have "change_list ?t k = filter (\<lambda>m. c < m) (change_list t k)" for k
    using get_updates(2) [OF dist, of c k]
    by (cases "map_of (tt_changeset t) k")
      (auto simp: change_list_def prune_trie_fields [OF assms] tbl_get_def kept_changes_def Let_def)
  moreover have "changed_at ?t k = {b \<in> changed_at t k. c < b}" for k
    by (auto simp: changed_at_def prune_trie_fields [OF assms])
  ultimately have "iset_inv (change_list ?t k) \<and> set (change_list ?t k) = changed_at ?t k" for k
    using assms by (auto simp: trie_tables_ok_def)
  moreover have "tbl_inv (tt_changeset ?t)"
    using tbl_inv_filter [OF cs] map_filter_keyed [of "kept_changes c" "tt_changeset t", OF keyed_updates(2)]
    by (simp add: prune_trie_fields [OF assms] tbl_inv_def)
  moreover have "dup_functional (tt_history ?t)"
    using assms dup_functional_subset [of "tt_history t"] by (auto simp: trie_tables_ok_def prune_trie_fields [OF assms])
  ultimately show ?thesis
    using assms by (simp add: trie_tables_ok_def prune_trie_fields [OF assms])
qed

lemma prune_trie_represents:
  assumes "represents log t"
  shows "represents (filter (\<lambda>e. c < fst e) log) (prune_trie c t)"
  using assms prune_trie_ok [of t c] by (auto simp: represents_def prune_trie_fields)

lemma commits_ok_filter: "commits_ok log \<Longrightarrow> commits_ok (filter P log)"
  by (auto simp: commits_ok_def sorted_filter)

lemma prune_keep_last_n_tries:
  "c \<noteq> 0 \<Longrightarrow> prune_keep_last_n c s =
     \<lparr>classes_trie = prune_trie c (classes_trie s), contracts_trie = prune_trie c (contracts_trie s),
      storages_trie = prune_trie c (storages_trie s)\<rparr>"
  by (simp add: prune_keep_last_n_def prune_trie_def Let_def)

text \<open>All of the history is cleared.\<close>

definition clear_trie :: "trie_tables \<Rightarrow> trie_tables" where
  "clear_trie t = t\<lparr>tt_history := [], tt_changeset := []\<rparr>"

lemma prune_all_history_tries:
  "prune_all_history s =
     \<lparr>classes_trie = clear_trie (classes_trie s), contracts_trie = clear_trie (contracts_trie s),
      storages_trie = clear_trie (storages_trie s)\<rparr>"
  by (simp add: prune_all_history_def clear_trie_def tbl_clear_def Let_def)

lemma clear_trie_represents: "represents log t \<Longrightarrow> represents [] (clear_trie t)"
  by (auto simp: represents_def clear_trie_def trie_tables_ok_def dup_inv_def change_list_def changed_at_def tbl_get_def)

section \<open>Counts\<close>

lemma fold_count: "fold (\<lambda>e n. if P e then n + 1 else n) t (m :: nat) = m + length (filter P t)"
  by (induction t arbitrary: m) auto

lemma count_history: "count_history_table_deletions c t = length (filter (\<lambda>e. fst e \<le> c) (tt_history t))"
  using fold_count [of "\<lambda>e. fst e \<le> c" "tt_history t" 0]
  by (simp add: count_history_table_deletions_def tbl_walk_def case_prod_unfold)

lemma count_changeset:
  assumes "\<forall>e\<in>set (tt_changeset t). iset_inv (snd e)"
  shows "count_changeset_table_deletions c t = length (filter (\<lambda>e. kept_changes c e = None) (tt_changeset t))"
proof -
  have "(case iset_max (snd e) of Some num \<Rightarrow> if num \<le> c then n + 1 else n | None \<Rightarrow> n) =
      (if kept_changes c e = None then n + 1 else n)" if "e \<in> set (tt_changeset t)" for e and n :: nat
  proof -
    have "Max (set (snd e)) \<le> c \<longleftrightarrow> (\<forall>x\<in>set (snd e). x \<le> c)" if "snd e \<noteq> []"
      using that by (intro Max_le_iff) simp_all
    then show ?thesis
      using assms that by (auto simp: iset_max_Max kept_changes_def Let_def filter_empty_conv not_less)
  qed
  then have "count_changeset_table_deletions c t = fold (\<lambda>e n. if kept_changes c e = None then n + 1 else n) (tt_changeset t) 0"
    unfolding count_changeset_table_deletions_def tbl_walk_def by (auto simp: split_beta intro!: fold_cong)
  then show ?thesis by (simp add: fold_count)
qed

definition trie_entries :: "trie_tables \<Rightarrow> nat" where
  "trie_entries t = tbl_entries (tt_history t) + tbl_entries (tt_changeset t)"

lemma length_map_filter: "length (List.map_filter f t) + length (filter (\<lambda>e. f e = None) t) = length t"
  by (induction t) (auto simp: List.map_filter_simps split: option.split)

lemma length_filter_split: "length (filter P t) + length (filter (\<lambda>e. \<not> P e) t) = length t"
  by (induction t) auto

lemma prune_trie_count:
  assumes "trie_tables_ok t"
  shows "count_history_table_deletions c t + count_changeset_table_deletions c t + trie_entries (prune_trie c t) = trie_entries t"
proof -
  have "iset_inv (snd e)" if "e \<in> set (tt_changeset t)" for e
  proof -
    have "tbl_get (tt_changeset t) (fst e) = Some (snd e)"
      using that assms tbl_inv_map_of_in [of "tt_changeset t" "fst e" "snd e"] by (simp add: trie_tables_ok_def)
    then have "change_list t (fst e) = snd e" by (simp add: change_list_def)
    with assms show ?thesis unfolding trie_tables_ok_def by metis
  qed
  then show ?thesis
    using length_filter_split [of "\<lambda>e. fst e \<le> c" "tt_history t"] length_map_filter [of "kept_changes c" "tt_changeset t"]
    by (simp add: count_history count_changeset trie_entries_def tbl_entries_def prune_trie_fields [OF assms] not_le)
qed

section \<open>Properties\<close>

text \<open>The blocks whose history a pruning run keeps.\<close>

fun retained :: "prune_mode \<Rightarrow> block_number \<Rightarrow> block_number \<Rightarrow> bool" where
  "retained PruneLatest tip b = False"
| "retained (KeepLastN blocks) tip b = (tip \<le> blocks \<or> tip - blocks < b)"

abbreviation trie_parts :: "(state_tries \<Rightarrow> trie_tables) set" where
  "trie_parts \<equiv> {classes_trie, contracts_trie, storages_trie}"

lemma prune_database_represents:
  assumes "prune_database d mode s = Inr s'" "p \<in> trie_parts" "represents log (p s)"
  shows "represents (filter (\<lambda>e. retained mode (get_latest_block_number d) (fst e)) log) (p s') \<and> tt_nodes (p s') = tt_nodes (p s)"
proof (cases mode)
  case PruneLatest
  then have "p s' = clear_trie (p s)" using assms(1,2) by (auto simp: prune_database_def prune_all_history_tries)
  then show ?thesis using clear_trie_represents [OF assms(3)] by (simp add: PruneLatest) (simp add: clear_trie_def)
next
  case (KeepLastN blocks)
  let ?tip = "get_latest_block_number d"
  have ok: "trie_tables_ok (p s)" using assms(3) by (simp add: represents_def)
  show ?thesis
  proof (cases "?tip \<le> blocks")
    case True
    then have "s' = s" using assms(1) by (auto simp: prune_database_def KeepLastN Let_def split: if_splits)
    then show ?thesis using assms(3) True by (simp add: KeepLastN)
  next
    case False
    then have "p s' = prune_trie (?tip - blocks) (p s)"
      using assms(1,2) by (auto simp: prune_database_def KeepLastN Let_def prune_keep_last_n_tries split: if_splits)
    then show ?thesis
      using prune_trie_represents [OF assms(3), of "?tip - blocks"] False
      by (simp add: KeepLastN prune_trie_fields [OF ok])
  qed
qed

text \<open>A database whose newest block is 4, with commits at the blocks 1 and 3.\<close>

definition sample_prune_db :: "(bool, unit) db" where
  "sample_prune_db = db_empty\<lparr>tb_Headers := [(4, versioned_header_from header_default)]\<rparr>"

definition sample_tries :: state_tries where
  "sample_tries = \<lparr>classes_trie = td_tx (trie_run rev sample_trie_ops (trie_db_new trie_tables_empty)),
     contracts_trie = trie_tables_empty, storages_trie = trie_tables_empty\<rparr>"

lemma sample_tip: "get_latest_block_number sample_prune_db = 4"
  by (simp add: get_latest_block_number_def sample_prune_db_def tbl_last_def)

lemma sample_tries_represent:
  "represents (commit_log [] sample_trie_ops) (classes_trie sample_tries)" "commits_ok (commit_log [] sample_trie_ops)"
proof -
  show ok: "commits_ok (commit_log [] sample_trie_ops)" by (simp add: sample_commits commits_ok_def)
  have "represents [] trie_tables_empty" by (simp add: represents_def) (simp add: trie_tables_empty_def)
  then show "represents (commit_log [] sample_trie_ops) (classes_trie sample_tries)"
    using run_represents [of rev "[]" "trie_db_new trie_tables_empty" sample_trie_ops] ok
    by (simp add: trie_db_new_def sample_tries_def)
qed

lemma sample_pruned: "prune_database sample_prune_db (KeepLastN 2) sample_tries = Inr (prune_keep_last_n 2 sample_tries)"
  by (simp add: prune_database_def sample_tip)

text \<open>
  C20. Pruning forgets the commits of the blocks it does not keep and nothing else.  After a run
  in either mode, a snapshot of any of the three tries at any block returns the last value
  written by a kept commit at or before that block, without a panic, and the live trie is
  unchanged.
\<close>

theorem prune_forgets_commits:
  assumes "prune_database d mode s = Inr s'" "p \<in> trie_parts" "represents log (p s)" "commits_ok log"
  shows "snapshot_get (p s') n key = Some (last_write (\<lambda>w. tbl_get w (to_db_key key))
      (filter (\<lambda>e. retained mode (get_latest_block_number d) (fst e)) log) n)
    \<and> trie_db_get (p s') key = trie_db_get (p s) key"
  using prune_database_represents [OF assms(1-3)] represents_snapshot commits_ok_filter [OF assms(4)]
  by (simp add: trie_db_get_def)

lemma prune_forgets_commits_witness:
  "snapshot_get (classes_trie (prune_keep_last_n 2 sample_tries)) 2 (DbFlat [1]) = Some None
   \<and> snapshot_get (classes_trie (prune_keep_last_n 2 sample_tries)) 4 (DbFlat [2]) = Some (Some [7])"
  using prune_forgets_commits [where p = classes_trie, OF sample_pruned _ sample_tries_represent, of 2 "DbFlat [1]"]
    prune_forgets_commits [where p = classes_trie, OF sample_pruned _ sample_tries_represent, of 4 "DbFlat [2]"]
  by (simp add: sample_commits sample_tip last_write_def tbl_get_def)

text \<open>
  C38. Pruning all but the last blocks damages the blocks it keeps: a node that was written at or
  before the cutoff and not since is gone from every snapshot, also of the kept blocks, in
  which it was before.
\<close>

theorem prune_drops_unchanged_nodes:
  assumes "prune_database d (KeepLastN blocks) s = Inr s'" "p \<in> trie_parts" "represents log (p s)" "commits_ok log"
    and "get_latest_block_number d - blocks < n" "snapshot_get (p s) n key = Some (Some v)"
    and "\<forall>b\<in>writers (\<lambda>w. tbl_get w (to_db_key key)) log. b \<le> get_latest_block_number d - blocks"
    and "blocks < get_latest_block_number d"
  shows "retained (KeepLastN blocks) (get_latest_block_number d) n \<and> snapshot_get (p s') n key = Some None"
proof -
  let ?w = "\<lambda>w. tbl_get w (to_db_key key)"
  let ?log = "filter (\<lambda>e. retained (KeepLastN blocks) (get_latest_block_number d) (fst e)) log"
  have rep: "represents ?log (p s')" using prune_database_represents [OF assms(1-3)] by blast
  have "writers ?w ?log = {}" using assms(7,8) by (fastforce simp: writers_def)
  then have "changed_at (p s') (to_db_key key) = {}" by (simp add: represents_changed [OF rep])
  then show ?thesis
    using assms(5) rep by (simp add: represents_def snapshot_get_newest)
qed

lemma prune_drops_unchanged_nodes_witness:
  "snapshot_get (classes_trie sample_tries) 3 (DbFlat [1]) = Some (Some [9])
   \<and> snapshot_get (classes_trie (prune_keep_last_n 2 sample_tries)) 3 (DbFlat [1]) = Some None"
proof -
  have before: "snapshot_get (classes_trie sample_tries) 3 (DbFlat [1]) = Some (Some [9])"
    unfolding represents_snapshot [OF sample_tries_represent] by (simp add: sample_commits last_write_def tbl_get_def)
  have "\<forall>b\<in>writers (\<lambda>w. tbl_get w (to_db_key (DbFlat [1]))) (commit_log [] sample_trie_ops). b \<le> 2"
    by (auto simp: sample_commits writers_def tbl_get_def)
  then show ?thesis
    using prune_drops_unchanged_nodes [where p = classes_trie, OF sample_pruned _ sample_tries_represent _ before] before by (simp add: sample_tip)
qed

text \<open>
  The prompt announces exactly what is deleted: when a run succeeds, the sum of the announced
  numbers is the number of entries by which the history and change-list tables shrink.
\<close>

theorem prune_stats_exact:
  assumes "\<forall>p\<in>trie_parts. trie_tables_ok (p s)" "prune_database d mode s = Inr s'"
  shows "sum_list (map snd (collect_pruning_stats d mode s))
      + (trie_entries (classes_trie s') + trie_entries (contracts_trie s') + trie_entries (storages_trie s')) =
    trie_entries (classes_trie s) + trie_entries (contracts_trie s) + trie_entries (storages_trie s)"
proof (cases mode)
  case PruneLatest
  then show ?thesis
    using assms(2) by (auto simp: prune_database_def prune_all_history_tries count_all_historical_deletions_def
        trie_entries_def clear_trie_def tbl_entries_def)
next
  case (KeepLastN blocks)
  let ?c = "get_latest_block_number d - blocks"
  show ?thesis
  proof (cases "?c = 0")
    case True
    then have "s' = s" using assms(2) by (auto simp: prune_database_def KeepLastN Let_def split: if_splits)
    then show ?thesis using True by (simp add: KeepLastN count_keep_last_n_deletions_def)
  next
    case False
    then have "s' = prune_keep_last_n ?c s" using assms(2) by (auto simp: prune_database_def KeepLastN Let_def split: if_splits)
    then show ?thesis
      using False assms(1) prune_trie_count [of "classes_trie s" ?c] prune_trie_count [of "contracts_trie s" ?c]
        prune_trie_count [of "storages_trie s" ?c]
      by (simp add: KeepLastN count_keep_last_n_deletions_def prune_keep_last_n_tries Let_def)
  qed
qed

lemma prune_stats_exact_witness:
  "sum_list (map snd (collect_pruning_stats sample_prune_db (KeepLastN 2) sample_tries)) = 4
   \<and> trie_entries (classes_trie sample_tries) = 6
   \<and> trie_entries (classes_trie (prune_keep_last_n 2 sample_tries)) = 2"
proof -
  let ?s' = "prune_keep_last_n 2 sample_tries"
  have ok: "trie_tables_ok (classes_trie sample_tries)" using sample_tries_represent by (simp add: represents_def)
  then have tries: "\<forall>p\<in>trie_parts. trie_tables_ok (p sample_tries)" by (simp add: sample_tries_def)
  have t: "classes_trie sample_tries =
      \<lparr>tt_nodes = [(TrieDatabaseKey TrieKey [1], [4]), (TrieDatabaseKey FlatKey [2], [7])],
       tt_history = [(1, TrieDatabaseKey TrieKey [1], [4]), (1, TrieDatabaseKey FlatKey [1], [9]), (3, TrieDatabaseKey FlatKey [2], [7])],
       tt_changeset = [(TrieDatabaseKey TrieKey [1], [1]), (TrieDatabaseKey FlatKey [1], [1]), (TrieDatabaseKey FlatKey [2], [3])]\<rparr>"
    by (simp add: sample_tries_def sample_trie_ops_def trie_db_new_def trie_tables_empty_def trie_insert_def trie_remove_def
        trie_snapshot_def snapshot_entry_def iset_new_def tbl_delete_def tbl_get_def sample_trie_key_defs Let_def)
  have "trie_entries (classes_trie sample_tries) = 6" by (simp add: t trie_entries_def tbl_entries_def)
  moreover have "trie_entries (classes_trie ?s') = 2"
    using prune_trie_fields [OF ok, of 2]
    by (simp add: prune_keep_last_n_tries trie_entries_def tbl_entries_def) (simp add: t kept_changes_def List.map_filter_simps)
  moreover have "trie_entries (contracts_trie ?s') = 0" "trie_entries (storages_trie ?s') = 0"
    "trie_entries (contracts_trie sample_tries) = 0" "trie_entries (storages_trie sample_tries) = 0"
    using prune_trie_fields [OF trie_tables_ok_empty, of 2]
    by (simp_all add: prune_keep_last_n_tries sample_tries_def trie_entries_def tbl_entries_def)
      (simp_all add: trie_tables_empty_def List.map_filter_simps)
  ultimately show ?thesis using prune_stats_exact [OF tries sample_pruned] by simp
qed

end
