(* ===== verification/State_Trie.thy ===== *)
theory State_Trie
  imports Db_Updates Bytes_Be
begin

text \<open>
  The state tries: the shim over the trie library and the classes, contracts and storages tries
  (\<^verbatim>\<open>crates/trie\<close>), the writer of the database provider
  (\<^verbatim>\<open>storage/provider/src/providers/db/trie.rs\<close>) and the writer for the genesis block
  (\<^verbatim>\<open>GenesisTrieWriter\<close> in \<^verbatim>\<open>crates/core/src/backend/mod.rs\<close>).

  The library (bonsai-trie) is a record of functions: a trie is opened on a database, changed,
  committed, and asked for the root of an identifier.  The type of the library has the hash of its
  nodes as a parameter: the classes trie is an instance with Poseidon, the contracts and storages
  tries are instances with Pedersen, so every operation takes the instance it works with.  Its own failures, on which the shim
  panics, are not represented.  \<open>trie_lib_ok\<close> states what the code relies on: a trie is a map from
  paths to values with zero for an absent leaf, a commit makes the changes visible to tries
  opened later, and the root is a function of the contents.
\<close>

section \<open>The library and the shim\<close>

type_synonym trie_path = "bool list"

record ('db, 'tr) trie_lib =
  tl_empty :: 'db
  tl_open :: "'db \<Rightarrow> 'tr"
  tl_insert :: "bytes \<Rightarrow> trie_path \<Rightarrow> felt \<Rightarrow> 'tr \<Rightarrow> 'tr"
  tl_commit :: "block_number \<Rightarrow> 'tr \<Rightarrow> 'tr"
  tl_db :: "'tr \<Rightarrow> 'db"
  tl_root :: "bytes \<Rightarrow> 'tr \<Rightarrow> felt"

record trie_hashes =
  th_pedersen :: "felt \<Rightarrow> felt \<Rightarrow> felt"
  th_poseidon :: "felt \<Rightarrow> felt \<Rightarrow> felt"

text \<open>The bits of a byte string, the most significant one first.\<close>

definition byte_bits :: "nat \<Rightarrow> bool list" where
  "byte_bits b = map (bit b) (rev [0..<8])"

definition bytes_bits :: "bytes \<Rightarrow> bool list" where
  "bytes_bits bs = concat (map byte_bits bs)"

text \<open>The key of a leaf: the bits of the felt without the first five.\<close>

definition bonsai_path :: "felt \<Rightarrow> trie_path" where
  "bonsai_path key = drop 5 (bytes_bits (felt_to_bytes_be key))"

definition bonsai_insert :: "('db, 'tr) trie_lib \<Rightarrow> bytes \<Rightarrow> felt \<Rightarrow> felt \<Rightarrow> 'tr \<Rightarrow> 'tr" where
  "bonsai_insert lib id' key value tr = tl_insert lib id' (bonsai_path key) value tr"

definition compute_merkle_root :: "('db, 'tr) trie_lib \<Rightarrow> felt list \<Rightarrow> felt" where
  "compute_merkle_root lib values =
     (let tr = fold (\<lambda>(i, value). tl_insert lib [49] (bytes_bits (be_bytes 8 i)) value)
            (List.enumerate 0 values) (tl_open lib (tl_empty lib))
      in tl_root lib [49] (tl_commit lib 0 tr))"

definition compute_contract_state_hash :: "trie_hashes \<Rightarrow> class_hash \<Rightarrow> felt \<Rightarrow> nonce \<Rightarrow> felt" where
  "compute_contract_state_hash H class_hash storage_root nonce =
     th_pedersen H (th_pedersen H (th_pedersen H class_hash storage_root) nonce) 0"

definition compute_classes_trie_value :: "trie_hashes \<Rightarrow> compiled_class_hash \<Rightarrow> felt" where
  "compute_classes_trie_value H compiled_class_hash =
     th_poseidon H (short_string ''CONTRACT_CLASS_LEAF_V0'') compiled_class_hash"

definition classes_identifier :: bytes where
  "classes_identifier = map of_char ''classes''"

definition contracts_identifier :: bytes where
  "contracts_identifier = map of_char ''contracts''"

definition classes_trie_insert :: "('db, 'tr) trie_lib \<Rightarrow> trie_hashes \<Rightarrow> class_hash \<times> compiled_class_hash \<Rightarrow> 'tr \<Rightarrow> 'tr" where
  "classes_trie_insert lib H e = bonsai_insert lib classes_identifier (fst e) (compute_classes_trie_value H (snd e))"

definition contracts_trie_insert :: "('db, 'tr) trie_lib \<Rightarrow> contract_address \<times> felt \<Rightarrow> 'tr \<Rightarrow> 'tr" where
  "contracts_trie_insert lib e = bonsai_insert lib contracts_identifier (fst e) (snd e)"

definition storages_trie_insert :: "('db, 'tr) trie_lib \<Rightarrow> contract_address \<Rightarrow> storage_key \<times> storage_value \<Rightarrow> 'tr \<Rightarrow> 'tr" where
  "storages_trie_insert lib address e = bonsai_insert lib (felt_to_bytes_be address) (fst e) (snd e)"

section \<open>The writer of the database provider\<close>

record 'db trie_dbs =
  sd_classes :: 'db
  sd_contracts :: 'db
  sd_storages :: 'db

record contract_leaf =
  cl_class_hash :: "felt option"
  cl_storage_root :: "felt option"
  cl_nonce :: "felt option"

definition contract_leaf_default :: contract_leaf where
  "contract_leaf_default = \<lparr>cl_class_hash = None, cl_storage_root = None, cl_nonce = None\<rparr>"

definition trie_insert_declared_classes ::
    "('db, 'tr) trie_lib \<Rightarrow> trie_hashes \<Rightarrow> block_number \<Rightarrow> (class_hash, compiled_class_hash) table \<Rightarrow> 'db trie_dbs
     \<Rightarrow> 'db trie_dbs \<times> felt provider_result" where
  "trie_insert_declared_classes lib H block_number updates s =
     (let tr = tl_commit lib block_number (fold (classes_trie_insert lib H) updates (tl_open lib (sd_classes s)))
      in (s\<lparr>sd_classes := tl_db lib tr\<rparr>, Inr (tl_root lib classes_identifier tr)))"

text \<open>\<^verbatim>\<open>entry(address).or_default()\<close> on the map of leaves.\<close>

definition leaf_entry :: "(contract_leaf \<Rightarrow> contract_leaf) \<Rightarrow> contract_address \<Rightarrow> (contract_address, contract_leaf) table
    \<Rightarrow> (contract_address, contract_leaf) table" where
  "leaf_entry f address m = tbl_put address (f (case tbl_get m address of Some leaf \<Rightarrow> leaf | None \<Rightarrow> contract_leaf_default)) m"

definition commit_storage :: "('db, 'tr) trie_lib \<Rightarrow> block_number \<Rightarrow> contract_address \<times> (storage_key, storage_value) table \<Rightarrow> 'db \<Rightarrow> 'db" where
  "commit_storage lib block_number e db =
     tl_db lib (tl_commit lib block_number (fold (storages_trie_insert lib (fst e)) (snd e) (tl_open lib db)))"

definition contract_leafs :: "state_updates \<Rightarrow> (contract_address, contract_leaf) table" where
  "contract_leafs u =
     (let m = fold (\<lambda>(address, _). tbl_put address contract_leaf_default) (storage_updates u) [];
          m = fold (\<lambda>(address, nonce). leaf_entry (\<lambda>l. l\<lparr>cl_nonce := Some nonce\<rparr>) address) (nonce_updates u) m;
          m = fold (\<lambda>(address, class_hash). leaf_entry (\<lambda>l. l\<lparr>cl_class_hash := Some class_hash\<rparr>) address) (deployed_contracts u) m
      in fold (\<lambda>(address, class_hash). leaf_entry (\<lambda>l. l\<lparr>cl_class_hash := Some class_hash\<rparr>) address) (replaced_classes u) m)"

text \<open>The provider is read even when the leaf has the value; an error is a panic.\<close>

definition contract_state_leaf_hash ::
    "trie_hashes \<Rightarrow> ('cls, 'info) db \<Rightarrow> contract_address \<Rightarrow> contract_leaf \<Rightarrow> felt option" where
  "contract_state_leaf_hash H d address leaf =
     (case (latest_nonce d address, latest_class_hash d address, cl_storage_root leaf) of
        (Inr stored_nonce, Inr stored_class, Some storage_root) \<Rightarrow>
          (let nonce = (case cl_nonce leaf of Some n \<Rightarrow> n | None \<Rightarrow> (case stored_nonce of Some n \<Rightarrow> n | None \<Rightarrow> 0));
               class_hash = (case cl_class_hash leaf of Some c \<Rightarrow> c | None \<Rightarrow> (case stored_class of Some c \<Rightarrow> c | None \<Rightarrow> 0))
           in Some (compute_contract_state_hash H class_hash storage_root nonce))
      | _ \<Rightarrow> None)"

text \<open>The leaves are in a hash map: \<open>order\<close> is the order in which it yields them.\<close>

type_synonym leaf_order = "(contract_address \<times> contract_leaf) list \<Rightarrow> (contract_address \<times> contract_leaf) list"

definition trie_insert_contract_updates ::
    "('db, 'tr) trie_lib \<Rightarrow> trie_hashes \<Rightarrow> leaf_order \<Rightarrow> ('cls, 'info) db \<Rightarrow> block_number \<Rightarrow> state_updates \<Rightarrow> 'db trie_dbs
     \<Rightarrow> ('db trie_dbs \<times> felt provider_result) option" where
  "trie_insert_contract_updates lib H order d block_number u s =
     (let storages = fold (commit_storage lib block_number) (storage_updates u) (sd_storages s);
          storage_root = (\<lambda>address. tl_root lib (felt_to_bytes_be address) (tl_open lib storages))
      in case those (map (\<lambda>(address, leaf). map_option (Pair address)
                 (contract_state_leaf_hash H d address (leaf\<lparr>cl_storage_root := Some (storage_root address)\<rparr>)))
               (order (contract_leafs u))) of
           None \<Rightarrow> None
         | Some leaf_hashes \<Rightarrow>
             (let tr = tl_commit lib block_number (fold (contracts_trie_insert lib) leaf_hashes (tl_open lib (sd_contracts s)))
              in Some (s\<lparr>sd_storages := storages, sd_contracts := tl_db lib tr\<rparr>, Inr (tl_root lib contracts_identifier tr))))"

section \<open>The writer for the genesis block\<close>

definition genesis_leafs :: "('db, 'tr) trie_lib \<Rightarrow> block_number \<Rightarrow> state_updates \<Rightarrow> (contract_address, contract_leaf) table" where
  "genesis_leafs lib block_number u =
     (let m = fold (\<lambda>(address, nonce). leaf_entry (\<lambda>l. l\<lparr>cl_nonce := Some nonce\<rparr>) address) (nonce_updates u) [];
          m = fold (\<lambda>(address, class_hash). leaf_entry (\<lambda>l. l\<lparr>cl_class_hash := Some class_hash\<rparr>) address) (deployed_contracts u) m;
          m = fold (\<lambda>(address, class_hash). leaf_entry (\<lambda>l. l\<lparr>cl_class_hash := Some class_hash\<rparr>) address) (replaced_classes u) m
      in fold (\<lambda>(address, storage_entries).
           let tr = tl_commit lib block_number (fold (storages_trie_insert lib address) storage_entries (tl_open lib (tl_empty lib)));
               storage_root = tl_root lib (felt_to_bytes_be address) tr
           in leaf_entry (\<lambda>l. l\<lparr>cl_storage_root := Some storage_root\<rparr>) address) (storage_updates u) m)"

definition genesis_insert_contract_updates ::
    "('db, 'tr) trie_lib \<Rightarrow> trie_hashes \<Rightarrow> leaf_order \<Rightarrow> block_number \<Rightarrow> state_updates \<Rightarrow> felt provider_result option" where
  "genesis_insert_contract_updates lib H order block_number u =
     (case those (map (\<lambda>(address, leaf). case cl_class_hash leaf of
             None \<Rightarrow> None
           | Some class_hash \<Rightarrow>
               (let nonce = (case cl_nonce leaf of Some n \<Rightarrow> n | None \<Rightarrow> 0);
                    storage_root = (case cl_storage_root leaf of Some r \<Rightarrow> r | None \<Rightarrow> 0)
                in Some (address, compute_contract_state_hash H class_hash storage_root nonce)))
         (order (genesis_leafs lib block_number u))) of
        None \<Rightarrow> None
      | Some leaf_hashes \<Rightarrow>
          (let tr = tl_commit lib block_number (fold (contracts_trie_insert lib) leaf_hashes (tl_open lib (tl_empty lib)))
           in Some (Inr (tl_root lib contracts_identifier tr))))"

definition genesis_insert_declared_classes ::
    "('db, 'tr) trie_lib \<Rightarrow> trie_hashes \<Rightarrow> block_number \<Rightarrow> (class_hash, compiled_class_hash) table \<Rightarrow> felt provider_result" where
  "genesis_insert_declared_classes lib H block_number updates =
     Inr (tl_root lib classes_identifier
       (tl_commit lib block_number (fold (classes_trie_insert lib H) updates (tl_open lib (tl_empty lib)))))"

section \<open>Paths\<close>

lemma length_byte_bits [simp]: "length (byte_bits b) = 8"
  by (simp add: byte_bits_def)

lemma bytes_bits_be: "bytes_bits (be_bytes w n) = map (bit n) (rev [0..<8 * w])"
proof (induction w arbitrary: n)
  case (Suc w)
  have "bit (n div 256) i = bit n (i + 8)" for i
    using bit_drop_bit_eq [of 8 n] by (simp add: drop_bit_eq_div fun_eq_iff add.commute)
  then have high: "map (bit (n div 256)) (rev [0..<8 * w]) = map (bit n) (rev [8..<8 * w + 8])"
    by (simp add: map_add_upt [of 8, symmetric] rev_map comp_def)
  have low: "byte_bits (n mod 256) = map (bit n) (rev [0..<8])"
  proof -
    have "bit (n mod 256) i = bit n i" if "i < 8" for i
      using that bit_take_bit_iff [of 8 n i] by (simp add: take_bit_eq_mod)
    then show ?thesis by (auto simp: byte_bits_def)
  qed
  have "rev [0..<8 * Suc w] = rev [8..<8 * w + 8] @ rev [0..<8]"
    using upt_add_eq_append [of 0 8 "8 * w"] by (simp add: add.commute)
  then show ?case using Suc [of "n div 256"] high low by (simp add: bytes_bits_def)
qed (simp add: bytes_bits_def)

lemma bonsai_path_bits: "bonsai_path k = map (bit k) (rev [0..<251])"
proof -
  have "[0..<251] @ [251..<256] = [0..<256::nat]" using upt_add_eq_append [of 0 251 5] by simp
  then have "rev [0..<256::nat] = rev [251..<256] @ rev [0..<251]" by (metis rev_append)
  then have "drop 5 (map (bit k) (rev [0..<256])) = map (bit k) (rev [0..<251])" by simp
  then show ?thesis unfolding bonsai_path_def felt_to_bytes_be_def bytes_bits_be by simp
qed

definition path_key :: "trie_path \<Rightarrow> felt" where
  "path_key p = horner_sum of_bool 2 (rev p)"

lemma length_bonsai_path [simp]: "length (bonsai_path k) = 251"
  by (simp add: bonsai_path_bits)

lemma path_key_path: "path_key (bonsai_path k) = k mod 2 ^ 251"
  unfolding path_key_def bonsai_path_bits rev_map rev_rev_ident horner_sum_bit_eq_take_bit
  by (simp add: take_bit_eq_mod)

lemma bonsai_path_inj: "k < 2 ^ 251 \<Longrightarrow> k' < 2 ^ 251 \<Longrightarrow> bonsai_path k = bonsai_path k' \<longleftrightarrow> k = k'"
  using path_key_path by (metis mod_less)

lemma bonsai_path_key: "length p = 251 \<Longrightarrow> bonsai_path (path_key p) = p"
  unfolding bonsai_path_bits path_key_def
  by (rule nth_equalityI) (auto simp: rev_nth bit_horner_sum_bit_iff)

lemma path_key_less: "length p = 251 \<Longrightarrow> path_key p < 2 ^ 251"
  using path_key_path [of "path_key p"] bonsai_path_key [of p] by (metis mod_less_divisor zero_less_numeral zero_less_power)

end
