(* ===== verification/State_Trie_Props.thy ===== *)
theory State_Trie_Props
  imports State_Trie
begin

text \<open>
  The state root commits to the state.  Under the documented behaviour of the trie library, the
  contents of the three tries after any chain of blocks are a function of the state that the
  database provider serves, and so are the roots the writer returns.
\<close>

section \<open>What the code relies on\<close>

text \<open>
  The classes trie hashes its nodes with Poseidon, the contracts and storages tries with Pedersen:
  they are two instances of the library, which may have different root functions.  The classes trie
  is the instance \<open>clib\<close> with \<open>cstored\<close>, \<open>cview\<close> and \<open>croot\<close> below, the others are
  \<open>lib\<close> with \<open>stored\<close>, \<open>view\<close> and \<open>mroot\<close>.
\<close>

definition trie_lib_ok ::
    "('db, 'tr) trie_lib \<Rightarrow> ('db \<Rightarrow> bytes \<Rightarrow> trie_path \<Rightarrow> felt) \<Rightarrow> ('tr \<Rightarrow> bytes \<Rightarrow> trie_path \<Rightarrow> felt) \<Rightarrow> ((trie_path \<Rightarrow> felt) \<Rightarrow> felt) \<Rightarrow> bool" where
  "trie_lib_ok lib stored view mroot \<longleftrightarrow>
     stored (tl_empty lib) = (\<lambda>_ _. 0)
     \<and> (\<forall>db. view (tl_open lib db) = stored db)
     \<and> (\<forall>i p v tr. view (tl_insert lib i p v tr) = (view tr)(i := (view tr i)(p := v)))
     \<and> (\<forall>n tr. stored (tl_db lib (tl_commit lib n tr)) = view tr)
     \<and> (\<forall>i db. tl_root lib i (tl_open lib db) = mroot (stored db i))
     \<and> (\<forall>i n tr. tl_root lib i (tl_commit lib n tr) = mroot (view tr i))"

lemma trie_lib_okD:
  assumes "trie_lib_ok lib stored view mroot"
  shows "stored (tl_empty lib) = (\<lambda>_ _. 0)" "view (tl_open lib db) = stored db"
    "view (tl_insert lib i p v tr) = (view tr)(i := (view tr i)(p := v))"
    "stored (tl_db lib (tl_commit lib n tr)) = view tr"
    "tl_root lib i (tl_open lib db) = mroot (stored db i)" "tl_root lib i (tl_commit lib n tr) = mroot (view tr i)"
  using assms by (simp_all add: trie_lib_ok_def)

text \<open>The contents of a trie after inserting a map of keys below the height of the trie.\<close>

definition overlay :: "(felt \<rightharpoonup> felt) \<Rightarrow> (trie_path \<Rightarrow> felt) \<Rightarrow> trie_path \<Rightarrow> felt" where
  "overlay m c p = (if length p = 251 then (case m (path_key p) of Some v \<Rightarrow> v | None \<Rightarrow> c p) else c p)"

lemma fold_bonsai_insert:
  assumes "trie_lib_ok lib stored view mroot" "\<And>e. ins e = bonsai_insert lib i (f e) (g e)"
    and "distinct (map f es)" "\<forall>e\<in>set es. f e < 2 ^ 251"
  shows "view (fold ins es tr) = (view tr)(i := overlay (map_of (map (\<lambda>e. (f e, g e)) es)) (view tr i))"
  using assms(3,4)
proof (induction es arbitrary: tr)
  case Nil
  then show ?case by (simp add: overlay_def fun_eq_iff)
next
  case (Cons e es)
  let ?m = "map_of (map (\<lambda>e. (f e, g e)) es)"
  have none: "?m (f e) = None" using Cons.prems(1) by (auto simp: map_of_eq_None_iff)
  have "overlay ?m ((view tr i)(bonsai_path (f e) := g e)) p = overlay (?m(f e \<mapsto> g e)) (view tr i) p" for p
  proof (cases "length p = 251 \<and> path_key p = f e")
    case True
    then have "p = bonsai_path (f e)" using bonsai_path_key by metis
    then show ?thesis using True none by (simp add: overlay_def)
  next
    case False
    then have "p \<noteq> bonsai_path (f e)" using Cons.prems(2) by (auto simp: path_key_path)
    then show ?thesis using False by (auto simp: overlay_def split: option.split)
  qed
  then have "overlay ?m ((view tr i)(bonsai_path (f e) := g e)) = overlay (?m(f e \<mapsto> g e)) (view tr i)" by (rule ext)
  moreover have "view (fold ins es (ins e tr)) = (view (ins e tr))(i := overlay ?m (view (ins e tr) i))"
    using Cons.prems by (intro Cons.IH) simp_all
  moreover have "view (ins e tr) = (view tr)(i := (view tr i)(bonsai_path (f e) := g e))"
    by (simp only: assms(2) bonsai_insert_def trie_lib_okD [OF assms(1)])
  ultimately show ?case by (simp only: fold_simps list.map map_of.simps fst_conv snd_conv fun_upd_same fun_upd_upd)
qed

lemma felt_to_bytes_inj: "a < 2 ^ 251 \<Longrightarrow> b < 2 ^ 251 \<Longrightarrow> felt_to_bytes_be a = felt_to_bytes_be b \<longleftrightarrow> a = b"
proof -
  assume "a < 2 ^ 251" "b < 2 ^ 251"
  moreover have "(2 :: nat) ^ 251 \<le> 256 ^ 32" by simp
  ultimately have "a < 256 ^ 32" "b < 256 ^ 32" by linarith+
  then show ?thesis unfolding felt_to_bytes_be_def by (rule be_bytes_inj)
qed

section \<open>Storage tries\<close>

lemma commit_storage_stored:
  assumes "trie_lib_ok lib stored view mroot" "tbl_inv (snd e)" "\<forall>x\<in>set (snd e). fst x < 2 ^ 251"
  shows "stored (commit_storage lib n e db) =
    (stored db)(felt_to_bytes_be (fst e) := overlay (tbl_get (snd e)) (stored db (felt_to_bytes_be (fst e))))"
  using fold_bonsai_insert [OF assms(1), of "storages_trie_insert lib (fst e)" "felt_to_bytes_be (fst e)" fst snd "snd e"]
    assms(2,3) tbl_inv_distinct_fst [OF assms(2)]
  by (simp add: commit_storage_def trie_lib_okD [OF assms(1)] storages_trie_insert_def tbl_get_def [abs_def])

lemma fold_commit_storage:
  assumes lib: "trie_lib_ok lib stored view mroot" and "distinct (map fst es)"
    and "\<forall>e\<in>set es. fst e < 2 ^ 251 \<and> tbl_inv (snd e) \<and> (\<forall>x\<in>set (snd e). fst x < 2 ^ 251)" and a: "a < 2 ^ 251"
  shows "stored (fold (commit_storage lib n) es db) (felt_to_bytes_be a) =
    overlay (\<lambda>k. Option.bind (map_of es a) (\<lambda>m. tbl_get m k)) (stored db (felt_to_bytes_be a))"
  using assms(2,3)
proof (induction es arbitrary: db)
  case Nil
  then show ?case by (simp add: overlay_def fun_eq_iff)
next
  case (Cons e es)
  have e: "stored (commit_storage lib n e db) =
      (stored db)(felt_to_bytes_be (fst e) := overlay (tbl_get (snd e)) (stored db (felt_to_bytes_be (fst e))))"
    using Cons.prems by (intro commit_storage_stored [OF lib]) simp_all
  have IH: "stored (fold (commit_storage lib n) es (commit_storage lib n e db)) (felt_to_bytes_be a) =
      overlay (\<lambda>k. Option.bind (map_of es a) (\<lambda>m. tbl_get m k)) (stored (commit_storage lib n e db) (felt_to_bytes_be a))"
    using Cons by simp
  have fst_e: "fst e < 2 ^ 251" using Cons.prems by simp
  show ?case
  proof (cases "fst e = a")
    case True
    then have "map_of es a = None" using Cons.prems(1) by (auto simp: map_of_eq_None_iff)
    then show ?thesis
      using IH True by (simp add: e overlay_def fun_eq_iff)
  next
    case False
    then show ?thesis
      using IH felt_to_bytes_inj [OF a fst_e] by (simp add: e)
  qed
qed

section \<open>Leaves\<close>

definition or_zero :: "felt option \<Rightarrow> felt" where
  "or_zero x = (case x of Some v \<Rightarrow> v | None \<Rightarrow> 0)"

text \<open>The contracts that a state update touches, and the leaf that its map holds for them.\<close>

definition updated_contracts :: "state_updates \<Rightarrow> contract_address set" where
  "updated_contracts u = tbl_keys (storage_updates u) \<union> tbl_keys (nonce_updates u) \<union> tbl_keys (deployed_contracts u)"

lemma leaf_steps:
  assumes "distinct (map fst es)"
  shows "tbl_get (fold (\<lambda>(address, x). leaf_entry (f x) address) es m) a =
    (case tbl_get es a of
       Some x \<Rightarrow> Some (f x (case tbl_get m a of Some leaf \<Rightarrow> leaf | None \<Rightarrow> contract_leaf_default))
     | None \<Rightarrow> tbl_get m a)"
proof -
  have "tbl_get (fold (\<lambda>(address, x). leaf_entry (f x) address) es m) a =
      (case map_of (map (\<lambda>e. (fst e, e)) es) a of
         Some e \<Rightarrow> Some (f (snd e) (case tbl_get m a of Some leaf \<Rightarrow> leaf | None \<Rightarrow> contract_leaf_default))
       | None \<Rightarrow> tbl_get m a)"
    using assms by (intro tbl_get_fold_modify) (auto simp: leaf_entry_def)
  moreover have "map_of (map (\<lambda>e. (fst e, e)) es) a = map_option (Pair a) (map_of es a)"
    by (induction es) auto
  ultimately show ?thesis by (cases "map_of es a") (simp_all add: tbl_get_def [of es])
qed

lemma leaf_steps_inv: "tbl_inv m \<Longrightarrow> tbl_inv (fold (\<lambda>(address, x). leaf_entry (f x) address) es m)"
  by (rule fold_keeps [of _ tbl_inv]) (auto simp: leaf_entry_def)

lemma default_steps:
  "tbl_get (fold (\<lambda>(address, _). tbl_put address v) es m) a = (if a \<in> tbl_keys es then Some v else tbl_get m a)"
  by (induction es arbitrary: m) (auto simp: table_simps)

lemma contract_leafs_get:
  assumes "updates_ok u" "replaced_classes u = []"
  shows "tbl_inv (contract_leafs u)"
    "tbl_get (contract_leafs u) a = (if a \<in> updated_contracts u
       then Some \<lparr>cl_class_hash = tbl_get (deployed_contracts u) a, cl_storage_root = None, cl_nonce = tbl_get (nonce_updates u) a\<rparr>
       else None)"
proof -
  have d: "distinct (map fst (nonce_updates u))" "distinct (map fst (deployed_contracts u))"
    using assms(1) by (simp_all add: updates_ok_def tbl_inv_distinct_fst)
  show "tbl_inv (contract_leafs u)"
    unfolding contract_leafs_def Let_def
    by (intro leaf_steps_inv fold_keeps [of _ tbl_inv]) auto
  have keys: "a \<in> tbl_keys t \<longleftrightarrow> tbl_get t a \<noteq> None" for t :: "(felt, felt) table"
    using tbl_get_eq_None [of t a] by simp
  show "tbl_get (contract_leafs u) a = (if a \<in> updated_contracts u
       then Some \<lparr>cl_class_hash = tbl_get (deployed_contracts u) a, cl_storage_root = None, cl_nonce = tbl_get (nonce_updates u) a\<rparr>
       else None)"
    unfolding contract_leafs_def Let_def assms(2) fold_simps leaf_steps [OF d(1)] leaf_steps [OF d(2)] default_steps updated_contracts_def
    by (auto simp: keys contract_leaf_default_def split: option.split)
qed

lemma contract_leafs_keys:
  assumes "updates_ok u" "replaced_classes u = []"
  shows "tbl_keys (contract_leafs u) = updated_contracts u"
proof (rule set_eqI)
  fix a
  show "a \<in> tbl_keys (contract_leafs u) \<longleftrightarrow> a \<in> updated_contracts u"
    using tbl_get_eq_None [of "contract_leafs u" a] by (auto simp: contract_leafs_get(2) [OF assms] split: if_splits)
qed

section \<open>The contents that the state determines\<close>

definition storage_contents :: "('cls, 'info) db \<Rightarrow> contract_address \<Rightarrow> trie_path \<Rightarrow> felt" where
  "storage_contents d a p =
     (if length p = 251 then (case latest_storage d a (path_key p) of Inr v \<Rightarrow> or_zero v | Inl _ \<Rightarrow> 0) else 0)"

definition stored_nonce :: "('cls, 'info) db \<Rightarrow> contract_address \<Rightarrow> felt" where
  "stored_nonce d a = (case latest_nonce d a of Inr n \<Rightarrow> or_zero n | Inl _ \<Rightarrow> 0)"

definition stored_class :: "('cls, 'info) db \<Rightarrow> contract_address \<Rightarrow> felt" where
  "stored_class d a = (case latest_class_hash d a of Inr c \<Rightarrow> or_zero c | Inl _ \<Rightarrow> 0)"

definition state_leaf :: "trie_hashes \<Rightarrow> ((trie_path \<Rightarrow> felt) \<Rightarrow> felt) \<Rightarrow> ('cls, 'info) db \<Rightarrow> contract_address \<Rightarrow> felt" where
  "state_leaf H mroot d a = compute_contract_state_hash H (stored_class d a) (mroot (storage_contents d a)) (stored_nonce d a)"

definition contract_contents ::
    "trie_hashes \<Rightarrow> ((trie_path \<Rightarrow> felt) \<Rightarrow> felt) \<Rightarrow> contract_address set \<Rightarrow> ('cls, 'info) db \<Rightarrow> trie_path \<Rightarrow> felt" where
  "contract_contents H mroot A d p = (if length p = 251 \<and> path_key p \<in> A then state_leaf H mroot d (path_key p) else 0)"

definition class_contents :: "trie_hashes \<Rightarrow> ('cls, 'info) db \<Rightarrow> trie_path \<Rightarrow> felt" where
  "class_contents H d p =
     (if length p = 251
      then (case latest_compiled_class_hash d (path_key p) of
              Inr c \<Rightarrow> or_zero (map_option (compute_classes_trie_value H) c) | Inl _ \<Rightarrow> 0)
      else 0)"

definition tries_match ::
    "('db \<Rightarrow> bytes \<Rightarrow> trie_path \<Rightarrow> felt) \<Rightarrow> ('db \<Rightarrow> bytes \<Rightarrow> trie_path \<Rightarrow> felt) \<Rightarrow> trie_hashes
     \<Rightarrow> ((trie_path \<Rightarrow> felt) \<Rightarrow> felt) \<Rightarrow> contract_address set \<Rightarrow> ('cls, 'info) db \<Rightarrow> 'db trie_dbs \<Rightarrow> bool" where
  "tries_match cstored stored H mroot A d s \<longleftrightarrow>
     (\<forall>a < 2 ^ 251. stored (sd_storages s) (felt_to_bytes_be a) = storage_contents d a)
     \<and> stored (sd_contracts s) contracts_identifier = contract_contents H mroot A d
     \<and> cstored (sd_classes s) classes_identifier = class_contents H d"

text \<open>The keys fit into the height of the tries.\<close>

definition keys_fit :: "state_updates \<Rightarrow> bool" where
  "keys_fit u \<longleftrightarrow> (\<forall>a\<in>updated_contracts u. a < 2 ^ 251)
     \<and> (\<forall>e\<in>set (storage_updates u). \<forall>x\<in>set (snd e). fst x < 2 ^ 251) \<and> (\<forall>c\<in>tbl_keys (declared_classes u). c < 2 ^ 251)"

text \<open>The same over the tables.\<close>

lemma contents_tables:
  "storage_contents d a p = (if length p = 251 then or_zero (dup_get (tb_ContractStorage d) a (path_key p)) else 0)"
  "stored_nonce d a = or_zero (map_option ci_nonce (tbl_get (tb_ContractInfo d) a))"
  "stored_class d a = or_zero (map_option ci_class_hash (tbl_get (tb_ContractInfo d) a))"
  "class_contents H d p =
     (if length p = 251 then or_zero (map_option (compute_classes_trie_value H) (tbl_get (tb_CompiledClassHashes d) (path_key p))) else 0)"
  by (simp_all add: storage_contents_def stored_nonce_def stored_class_def class_contents_def latest_storage_dup_get
      latest_nonce_def latest_class_hash_def latest_compiled_class_hash_def)

lemma or_zero_simps [simp]: "or_zero None = 0" "or_zero (Some v) = v"
  by (simp_all add: or_zero_def)

lemma storages_after:
  assumes lib: "trie_lib_ok lib stored view mroot" and u: "updates_ok (bi_updates i)" "keys_fit (bi_updates i)"
    and d: "storage_ok d" "stored db (felt_to_bytes_be a) = storage_contents d a" and a: "a < 2 ^ 251"
  shows "stored (fold (commit_storage lib n) (storage_updates (bi_updates i)) db) (felt_to_bytes_be a) =
    storage_contents (insert_input i d) a"
proof -
  let ?su = "storage_updates (bi_updates i)"
  have "distinct (map fst ?su)" using u(1) by (simp add: updates_ok_def tbl_inv_distinct_fst)
  moreover have "\<forall>e\<in>set ?su. fst e < 2 ^ 251 \<and> tbl_inv (snd e) \<and> (\<forall>x\<in>set (snd e). fst x < 2 ^ 251)"
    using u by (auto simp: updates_ok_def keys_fit_def updated_contracts_def tbl_keys_def)
  ultimately have "stored (fold (commit_storage lib n) ?su db) (felt_to_bytes_be a) =
      overlay (\<lambda>k. Option.bind (map_of ?su a) (\<lambda>m. tbl_get m k)) (storage_contents d a)"
    unfolding d(2) [symmetric] by (rule fold_commit_storage [OF lib _ _ a])
  also have "\<dots> = storage_contents (insert_input i d) a"
    using storage_insert [OF d(1) u(1), of a]
    by (auto simp: fun_eq_iff overlay_def contents_tables storage_write_def tbl_get_def [of ?su] split: option.split)
  finally show ?thesis .
qed

lemma info_after:
  assumes "updates_ok (bi_updates i)"
  shows "stored_nonce (insert_input i d) a = (case nonce_write i a of Some v \<Rightarrow> v | None \<Rightarrow> stored_nonce d a)"
    "stored_class (insert_input i d) a = (case class_write i a of Some c \<Rightarrow> c | None \<Rightarrow> stored_class d a)"
  by (simp_all add: contents_tables info_insert [OF assms] Let_def info_with_class_def info_with_nonce_def
      contract_info_default_def split: option.split)

lemma leaf_hash_after:
  assumes "updates_ok (bi_updates i)" "leaf = \<lparr>cl_class_hash = class_write i a, cl_storage_root = r, cl_nonce = nonce_write i a\<rparr>"
  shows "contract_state_leaf_hash H d a (leaf\<lparr>cl_storage_root := Some (mroot (storage_contents (insert_input i d) a))\<rparr>) =
    Some (state_leaf H mroot (insert_input i d) a)"
  unfolding contract_state_leaf_hash_def latest_nonce_def latest_class_hash_def state_leaf_def info_after [OF assms(1)]
  by (simp add: assms(2) contents_tables or_zero_def Let_def option.map_sel split: option.split)

lemma leaf_unchanged:
  assumes "storage_ok d" "updates_ok (bi_updates i)" "a \<notin> updated_contracts (bi_updates i)"
  shows "state_leaf H mroot (insert_input i d) a = state_leaf H mroot d a"
proof -
  have none: "tbl_get (storage_updates (bi_updates i)) a = None" "nonce_write i a = None" "class_write i a = None"
    using assms(3) by (simp_all add: updated_contracts_def nonce_write_def class_write_def tbl_get_eq_None)
  then have "storage_contents (insert_input i d) a = storage_contents d a"
    using storage_insert [OF assms(1,2), of a] by (simp add: contents_tables storage_write_def fun_eq_iff)
  with none show ?thesis by (simp add: state_leaf_def info_after [OF assms(2)])
qed

section \<open>One block\<close>

lemma map_of_keyed_pairs: "map_of (map (\<lambda>(a, _). (a, h a)) xs) a = (if a \<in> fst ` set xs then Some (h a) else None)"
  by (induction xs) auto

lemma map_of_map_values: "map_of (map (\<lambda>e. (fst e, f (snd e))) xs) a = map_option f (map_of xs a)"
  by (induction xs) auto

lemma leaf_hashes_after:
  assumes u: "updates_ok (bi_updates i)" "replaced_classes (bi_updates i) = []"
    and order: "mset (order (contract_leafs (bi_updates i))) = mset (contract_leafs (bi_updates i))"
    and root: "\<And>a. a \<in> updated_contracts (bi_updates i) \<Longrightarrow> root a = mroot (storage_contents (insert_input i d) a)"
  shows "those (map (\<lambda>(address, leaf). map_option (Pair address)
      (contract_state_leaf_hash H d address (leaf\<lparr>cl_storage_root := Some (root address)\<rparr>))) (order (contract_leafs (bi_updates i)))) =
    Some (map (\<lambda>(a, _). (a, state_leaf H mroot (insert_input i d) a)) (order (contract_leafs (bi_updates i))))"
proof (rule those_map_Some, rule ballI)
  fix e assume e: "e \<in> set (order (contract_leafs (bi_updates i)))"
  obtain a leaf where al: "e = (a, leaf)" by (cases e)
  have "(a, leaf) \<in> set (contract_leafs (bi_updates i))" using e al mset_eq_setD [OF order] by simp
  then have "tbl_get (contract_leafs (bi_updates i)) a = Some leaf"
    using tbl_inv_map_of_in [OF contract_leafs_get(1) [OF u]] by metis
  then have "a \<in> updated_contracts (bi_updates i)"
    "leaf = \<lparr>cl_class_hash = class_write i a, cl_storage_root = None, cl_nonce = nonce_write i a\<rparr>"
    by (simp_all add: contract_leafs_get(2) [OF u] class_write_def nonce_write_def split: if_splits)
  then show "(case e of (address, leaf) \<Rightarrow> map_option (Pair address)
      (contract_state_leaf_hash H d address (leaf\<lparr>cl_storage_root := Some (root address)\<rparr>))) =
      Some (case e of (a, _) \<Rightarrow> (a, state_leaf H mroot (insert_input i d) a))"
    using leaf_hash_after [OF u(1), of leaf a None H d mroot] root [of a] by (simp add: al)
qed

lemma contract_updates_step:
  assumes lib: "trie_lib_ok lib stored view mroot" and order: "\<And>xs. mset (order xs) = mset xs"
    and u: "updates_ok (bi_updates i)" "replaced_classes (bi_updates i) = []" "keys_fit (bi_updates i)"
    and d: "storage_ok d" "\<forall>a < 2 ^ 251. stored (sd_storages s) (felt_to_bytes_be a) = storage_contents d a"
      "stored (sd_contracts s) contracts_identifier = contract_contents H mroot A d"
  defines "A' \<equiv> A \<union> updated_contracts (bi_updates i)" and "d' \<equiv> insert_input i d"
  obtains s' where "trie_insert_contract_updates lib H order d n (bi_updates i) s = Some (s', Inr (mroot (contract_contents H mroot A' d')))"
    "sd_classes s' = sd_classes s" "stored (sd_contracts s') contracts_identifier = contract_contents H mroot A' d'"
    "\<forall>a < 2 ^ 251. stored (sd_storages s') (felt_to_bytes_be a) = storage_contents d' a"
proof -
  let ?u = "bi_updates i" and ?st = "fold (commit_storage lib n) (storage_updates (bi_updates i)) (sd_storages s)"
  let ?xs = "order (contract_leafs ?u)"
  let ?hashes = "map (\<lambda>(a, _). (a, state_leaf H mroot d' a)) ?xs"
  let ?tr = "fold (contracts_trie_insert lib) ?hashes (tl_open lib (sd_contracts s))"
  have st: "stored ?st (felt_to_bytes_be a) = storage_contents d' a" if "a < 2 ^ 251" for a
    using storages_after [OF lib u(1,3) d(1) _ that] d(2) that by (simp add: d'_def)
  have fit: "\<forall>a\<in>updated_contracts ?u. a < 2 ^ 251" using u(3) by (simp add: keys_fit_def)
  have keys: "fst ` set ?xs = updated_contracts ?u"
    using contract_leafs_keys [OF u(1,2)] mset_eq_setD [OF order, of "contract_leafs ?u"] by (simp add: tbl_keys_def)
  have dist: "distinct (map fst ?hashes)"
    using tbl_inv_distinct_fst [OF contract_leafs_get(1) [OF u(1,2)]] order [of "contract_leafs ?u"]
    by (simp add: comp_def split_beta) (metis mset_eq_imp_distinct_iff mset_map)
  have hashes: "those (map (\<lambda>(address, leaf). map_option (Pair address) (contract_state_leaf_hash H d address
      (leaf\<lparr>cl_storage_root := Some (tl_root lib (felt_to_bytes_be address) (tl_open lib ?st))\<rparr>))) ?xs) = Some ?hashes"
    unfolding d'_def using fit st
    by (intro leaf_hashes_after [where order = order, OF u(1,2) order]) (simp add: trie_lib_okD [OF lib] d'_def)
  have "fst ` set ?hashes = updated_contracts ?u" using keys by force
  then have small: "\<forall>e\<in>set ?hashes. fst e < 2 ^ 251" using fit by blast
  have "view ?tr contracts_identifier = overlay (map_of ?hashes) (stored (sd_contracts s) contracts_identifier)"
    using fold_bonsai_insert [OF lib, of "contracts_trie_insert lib" contracts_identifier fst snd ?hashes, OF _ dist small]
    by (simp add: contracts_trie_insert_def trie_lib_okD [OF lib])
  also have "\<dots> = contract_contents H mroot A' d'"
    using leaf_unchanged [OF d(1) u(1)]
    by (auto simp: fun_eq_iff overlay_def map_of_keyed_pairs keys d(3) contract_contents_def A'_def d'_def)
  finally have view: "view ?tr contracts_identifier = contract_contents H mroot A' d'" .
  show thesis
    by (rule that [of "s\<lparr>sd_storages := ?st, sd_contracts := tl_db lib (tl_commit lib n ?tr)\<rparr>"])
      (simp_all add: trie_insert_contract_updates_def hashes [unfolded trie_lib_okD(5) [OF lib]] Let_def trie_lib_okD [OF lib] view st)
qed

lemma classes_step:
  assumes lib: "trie_lib_ok lib stored view mroot" and u: "updates_ok (bi_updates i)" "keys_fit (bi_updates i)"
    and "stored (sd_classes s) classes_identifier = class_contents H d"
  obtains db where "trie_insert_declared_classes lib H n (declared_classes (bi_updates i)) s =
      (s\<lparr>sd_classes := db\<rparr>, Inr (mroot (class_contents H (insert_input i d))))"
    "stored db classes_identifier = class_contents H (insert_input i d)"
proof -
  let ?dc = "declared_classes (bi_updates i)"
  let ?tr = "fold (classes_trie_insert lib H) ?dc (tl_open lib (sd_classes s))"
  have dist: "distinct (map fst ?dc)" using u(1) by (simp add: updates_ok_def tbl_inv_distinct_fst)
  have fit: "\<forall>e\<in>set ?dc. fst e < 2 ^ 251" using u(2) by (auto simp: keys_fit_def tbl_keys_def)
  have "map_of (map (\<lambda>e. (fst e, compute_classes_trie_value H (snd e))) ?dc) c =
      map_option (compute_classes_trie_value H) (tbl_get ?dc c)" for c
    unfolding tbl_get_def by (rule map_of_map_values)
  then have "view ?tr classes_identifier = class_contents H (insert_input i d)"
    using fold_bonsai_insert [OF lib, of "classes_trie_insert lib H" classes_identifier fst "\<lambda>e. compute_classes_trie_value H (snd e)" ?dc] dist fit
      compiled_after_insert [OF u(1), of d]
    by (auto simp: classes_trie_insert_def trie_lib_okD [OF lib] assms(4) fun_eq_iff overlay_def contents_tables split: option.split)
  then show thesis
    by (intro that [of "tl_db lib (tl_commit lib n ?tr)"])
      (simp_all add: trie_insert_declared_classes_def Let_def trie_lib_okD [OF lib])
qed

section \<open>Chains\<close>

text \<open>A block is written as the backend does: the tries first, then the tables.\<close>

definition write_block ::
    "('db, 'tc) trie_lib \<Rightarrow> ('db, 'tr) trie_lib \<Rightarrow> trie_hashes \<Rightarrow> leaf_order \<Rightarrow> ('cls, 'info) block_input \<Rightarrow> ('cls, 'info) db \<times> 'db trie_dbs
     \<Rightarrow> (('cls, 'info) db \<times> 'db trie_dbs \<times> felt provider_result \<times> felt provider_result) option" where
  "write_block clib lib H order i ds =
     (case trie_insert_declared_classes clib H (bi_number i) (declared_classes (bi_updates i)) (snd ds) of
        (s, class_root) \<Rightarrow>
          (case trie_insert_contract_updates lib H order (fst ds) (bi_number i) (bi_updates i) s of
             None \<Rightarrow> None
           | Some (s', contract_root) \<Rightarrow> Some (insert_input i (fst ds), s', class_root, contract_root)))"

fun write_blocks ::
    "('db, 'tc) trie_lib \<Rightarrow> ('db, 'tr) trie_lib \<Rightarrow> trie_hashes \<Rightarrow> leaf_order \<Rightarrow> ('cls, 'info) block_input list \<Rightarrow> ('cls, 'info) db \<times> 'db trie_dbs
     \<Rightarrow> (('cls, 'info) db \<times> 'db trie_dbs) option" where
  "write_blocks clib lib H order [] ds = Some ds"
| "write_blocks clib lib H order (i # is) ds =
     (case write_block clib lib H order i ds of
        None \<Rightarrow> None
      | Some (d, s, _, _) \<Rightarrow> write_blocks clib lib H order is (d, s))"

definition tries_empty :: "('db, 'tc) trie_lib \<Rightarrow> ('db, 'tr) trie_lib \<Rightarrow> 'db trie_dbs" where
  "tries_empty clib lib = \<lparr>sd_classes = tl_empty clib, sd_contracts = tl_empty lib, sd_storages = tl_empty lib\<rparr>"

lemma write_block_step:
  assumes clib: "trie_lib_ok clib cstored cview croot" and lib: "trie_lib_ok lib stored view mroot" and order: "\<And>xs. mset (order xs) = mset xs"
    and u: "updates_ok (bi_updates i)" "replaced_classes (bi_updates i) = []" "keys_fit (bi_updates i)"
    and d: "storage_ok d" "tries_match cstored stored H mroot A d s"
  defines "A' \<equiv> A \<union> updated_contracts (bi_updates i)" and "d' \<equiv> insert_input i d"
  obtains s' where "write_block clib lib H order i (d, s) =
      Some (d', s', Inr (croot (class_contents H d')), Inr (mroot (contract_contents H mroot A' d')))"
    "tries_match cstored stored H mroot A' d' s'"
proof -
  obtain db where db: "trie_insert_declared_classes clib H (bi_number i) (declared_classes (bi_updates i)) s =
      (s\<lparr>sd_classes := db\<rparr>, Inr (croot (class_contents H d')))" "cstored db classes_identifier = class_contents H d'"
    using classes_step [OF clib u(1,3), of s H d "bi_number i"] d(2) unfolding d'_def tries_match_def by metis
  obtain s' where s': "trie_insert_contract_updates lib H order d (bi_number i) (bi_updates i) (s\<lparr>sd_classes := db\<rparr>) =
      Some (s', Inr (mroot (contract_contents H mroot A' d')))" "sd_classes s' = db"
    "stored (sd_contracts s') contracts_identifier = contract_contents H mroot A' d'"
    "\<forall>a < 2 ^ 251. stored (sd_storages s') (felt_to_bytes_be a) = storage_contents d' a"
    using contract_updates_step [OF lib order u d(1), of "s\<lparr>sd_classes := db\<rparr>" H A "bi_number i"] d(2)
    unfolding A'_def d'_def tries_match_def by auto
  show thesis
    by (rule that [of s']) (simp_all add: write_block_def db(1) s' tries_match_def db(2) d'_def [symmetric])
qed

definition touched :: "('cls, 'info) block_input list \<Rightarrow> contract_address set" where
  "touched is = (\<Union>i\<in>set is. updated_contracts (bi_updates i))"

definition blocks_fit :: "('cls, 'info) block_input list \<Rightarrow> bool" where
  "blocks_fit is \<longleftrightarrow> inputs_ok is \<and> (\<forall>i\<in>set is. replaced_classes (bi_updates i) = [] \<and> keys_fit (bi_updates i))"

lemma write_blocks_snoc:
  "write_blocks clib lib H order (is @ [i]) ds =
     (case write_blocks clib lib H order is ds of None \<Rightarrow> None | Some ds' \<Rightarrow>
        map_option (\<lambda>(d, s, _, _). (d, s)) (write_block clib lib H order i ds'))"
  by (induction "is" arbitrary: ds) (auto split: option.split prod.split)

lemma tries_match_empty:
  assumes "trie_lib_ok clib cstored cview croot" "trie_lib_ok lib stored view mroot"
  shows "tries_match cstored stored H mroot {} (db_of []) (tries_empty clib lib)"
  by (auto simp: tries_match_def tries_empty_def trie_lib_okD [OF assms(1)] trie_lib_okD [OF assms(2)] contents_tables contract_contents_def
      contents_tables fun_eq_iff db_of_def db_empty_def tbl_get_def dup_get_def seek_by_key_subkey_def)

lemma write_blocks_match:
  assumes clib: "trie_lib_ok clib cstored cview croot" and lib: "trie_lib_ok lib stored view mroot" and order: "\<And>xs. mset (order xs) = mset xs" and "blocks_fit is"
  shows "\<exists>s. write_blocks clib lib H order is (db_empty, tries_empty clib lib) = Some (db_of is, s)
    \<and> tries_match cstored stored H mroot (touched is) (db_of is) s"
  using assms(4)
proof (induction "is" rule: rev_induct)
  case Nil
  then show ?case using tries_match_empty [OF clib lib] by (simp add: db_of_def touched_def)
next
  case (snoc i "is")
  have u: "updates_ok (bi_updates i)" "replaced_classes (bi_updates i) = []" "keys_fit (bi_updates i)" "inputs_ok is"
    using snoc.prems by (auto simp: blocks_fit_def inputs_ok_snoc)
  obtain s where s: "write_blocks clib lib H order is (db_empty, tries_empty clib lib) = Some (db_of is, s)"
    "tries_match cstored stored H mroot (touched is) (db_of is) s"
    using snoc by (auto simp: blocks_fit_def inputs_ok_snoc)
  have "storage_ok (db_of is)" using latest_storage_lookup [OF u(4)] by blast
  from write_block_step [OF clib lib order u(1-3) this s(2)] obtain s' where
    "write_block clib lib H order i (db_of is, s) = Some (insert_input i (db_of is), s',
      Inr (croot (class_contents H (insert_input i (db_of is)))),
      Inr (mroot (contract_contents H mroot (touched is \<union> updated_contracts (bi_updates i)) (insert_input i (db_of is)))))"
    "tries_match cstored stored H mroot (touched is \<union> updated_contracts (bi_updates i)) (insert_input i (db_of is)) s'"
    by blast
  then show ?case
    using s(1) by (simp add: write_blocks_snoc db_of_snoc touched_def Un_commute)
qed

section \<open>The genesis writer\<close>

definition genesis_root :: "('db, 'tr) trie_lib \<Rightarrow> block_number \<Rightarrow> contract_address \<times> (storage_key, storage_value) table \<Rightarrow> felt" where
  "genesis_root lib n e =
     tl_root lib (felt_to_bytes_be (fst e)) (tl_commit lib n (fold (storages_trie_insert lib (fst e)) (snd e) (tl_open lib (tl_empty lib))))"

lemma genesis_leafs_get:
  assumes "updates_ok u" "replaced_classes u = []"
  shows "tbl_inv (genesis_leafs lib n u)"
    "tbl_get (genesis_leafs lib n u) a = (if a \<in> updated_contracts u
       then Some \<lparr>cl_class_hash = tbl_get (deployed_contracts u) a,
         cl_storage_root = map_option (\<lambda>es. genesis_root lib n (a, es)) (tbl_get (storage_updates u) a),
         cl_nonce = tbl_get (nonce_updates u) a\<rparr>
       else None)"
proof -
  have d: "distinct (map fst (nonce_updates u))" "distinct (map fst (deployed_contracts u))" "distinct (map fst (storage_updates u))"
    using assms(1) by (simp_all add: updates_ok_def tbl_inv_distinct_fst)
  have leafs: "genesis_leafs lib n u =
      fold (\<lambda>(address, root). leaf_entry (\<lambda>l. l\<lparr>cl_storage_root := Some root\<rparr>) address)
        (map (\<lambda>e. (fst e, genesis_root lib n e)) (storage_updates u))
      (fold (\<lambda>(address, class_hash). leaf_entry (\<lambda>l. l\<lparr>cl_class_hash := Some class_hash\<rparr>) address) (deployed_contracts u)
      (fold (\<lambda>(address, nonce). leaf_entry (\<lambda>l. l\<lparr>cl_nonce := Some nonce\<rparr>) address) (nonce_updates u) []))"
    by (simp add: genesis_leafs_def genesis_root_def Let_def assms(2) fold_map comp_def case_prod_unfold)
  have roots: "tbl_get (map (\<lambda>e. (fst e, genesis_root lib n e)) es) a = map_option (\<lambda>m. genesis_root lib n (a, m)) (tbl_get es a)" for es
    by (induction es) (auto simp: tbl_get_def)
  have d3: "distinct (map fst (map (\<lambda>e. (fst e, genesis_root lib n e)) (storage_updates u)))"
    using d(3) by (simp add: comp_def)
  show "tbl_inv (genesis_leafs lib n u)" unfolding leafs by (intro leaf_steps_inv) simp
  have keys: "a \<in> tbl_keys t \<longleftrightarrow> tbl_get t a \<noteq> None" for t :: "(felt, 'v) table"
    using tbl_get_eq_None [of t a] by simp
  show "tbl_get (genesis_leafs lib n u) a = (if a \<in> updated_contracts u
       then Some \<lparr>cl_class_hash = tbl_get (deployed_contracts u) a,
         cl_storage_root = map_option (\<lambda>es. genesis_root lib n (a, es)) (tbl_get (storage_updates u) a),
         cl_nonce = tbl_get (nonce_updates u) a\<rparr>
       else None)"
    unfolding leafs leaf_steps [OF d3] leaf_steps [OF d(2)] leaf_steps [OF d(1)] roots updated_contracts_def
    by (auto simp: keys contract_leaf_default_def tbl_get_def [of "[]"] split: option.split)
qed

text \<open>A state update as the only block.\<close>

definition genesis_input :: "state_updates \<Rightarrow> (unit, unit) block_input" where
  "genesis_input u =
     \<lparr>bi_block = \<lparr>sbs_block = \<lparr>sb_hash = 0, sb_header = header_default, sb_body = []\<rparr>, sbs_status = AcceptedOnL2\<rparr>,
      bi_states = \<lparr>su_state_updates = u, su_classes = []\<rparr>, bi_receipts = [], bi_executions = []\<rparr>"

lemma genesis_input_updates [simp]: "bi_updates (genesis_input u) = u"
  by (simp add: genesis_input_def)

lemma genesis_storage:
  assumes lib: "trie_lib_ok lib stored view mroot" "mroot (\<lambda>_. 0) = 0" and u: "updates_ok u" "keys_fit u" and a: "a \<in> updated_contracts u"
  shows "(case map_option (\<lambda>es. genesis_root lib n (a, es)) (tbl_get (storage_updates u) a) of Some r \<Rightarrow> r | None \<Rightarrow> 0) =
    mroot (storage_contents (insert_input (genesis_input u) (db_empty :: (unit, unit) db)) a)"
proof -
  let ?d = "insert_input (genesis_input u) (db_empty :: (unit, unit) db)"
  have "storage_ok (db_empty :: (unit, unit) db)" by (simp add: storage_ok_def db_empty_def)
  from storage_insert [OF this, of "genesis_input u" a]
  have dup: "dup_get (tb_ContractStorage ?d) a k = Option.bind (tbl_get (storage_updates u) a) (\<lambda>m. tbl_get m k)" for k
    using u(1) by (simp add: storage_write_def db_empty_def dup_get_def [of "[]"] seek_by_key_subkey_def split: option.split)
  show ?thesis
  proof (cases "tbl_get (storage_updates u) a")
    case None
    then have "storage_contents ?d a = (\<lambda>_. 0)" by (simp add: fun_eq_iff contents_tables dup)
    then show ?thesis using None lib(2) by simp
  next
    case (Some es)
    then have "(a, es) \<in> set (storage_updates u)" unfolding tbl_get_def by (rule map_of_SomeD)
    then have es: "tbl_inv es" "\<forall>x\<in>set es. fst x < 2 ^ 251" using u by (auto simp: updates_ok_def keys_fit_def)
    have "view (fold (storages_trie_insert lib a) es (tl_open lib (tl_empty lib))) (felt_to_bytes_be a) = overlay (map_of es) (\<lambda>_. 0)"
      using fold_bonsai_insert [OF lib(1), of "storages_trie_insert lib a" "felt_to_bytes_be a" fst snd es] es
      by (simp add: tbl_inv_distinct_fst storages_trie_insert_def trie_lib_okD [OF lib(1)] fun_eq_iff)
    also have "\<dots> = storage_contents ?d a"
      by (auto simp: fun_eq_iff overlay_def contents_tables dup Some tbl_get_def [of es] or_zero_def split: option.split)
    finally show ?thesis using Some by (simp add: genesis_root_def trie_lib_okD [OF lib(1)])
  qed
qed

lemma those_None: "x \<in> set xs \<Longrightarrow> f x = None \<Longrightarrow> those (map f xs) = None"
  by (induction xs) (auto split: option.split)

lemma genesis_leaf_in:
  assumes "updates_ok u" "replaced_classes u = []" "mset xs = mset (genesis_leafs lib n u)" "(a, leaf) \<in> set xs"
  shows "a \<in> updated_contracts u"
    "leaf = \<lparr>cl_class_hash = tbl_get (deployed_contracts u) a,
       cl_storage_root = map_option (\<lambda>es. genesis_root lib n (a, es)) (tbl_get (storage_updates u) a),
       cl_nonce = tbl_get (nonce_updates u) a\<rparr>"
proof -
  have "tbl_get (genesis_leafs lib n u) a = Some leaf"
    using assms(4) mset_eq_setD [OF assms(3)] tbl_inv_map_of_in [OF genesis_leafs_get(1) [OF assms(1,2)]] by metis
  then show "a \<in> updated_contracts u"
    "leaf = \<lparr>cl_class_hash = tbl_get (deployed_contracts u) a,
       cl_storage_root = map_option (\<lambda>es. genesis_root lib n (a, es)) (tbl_get (storage_updates u) a),
       cl_nonce = tbl_get (nonce_updates u) a\<rparr>"
    by (simp_all add: genesis_leafs_get(2) [OF assms(1,2)] split: if_splits)
qed

lemma genesis_leafs_keys:
  assumes "updates_ok u" "replaced_classes u = []"
  shows "tbl_keys (genesis_leafs lib n u) = updated_contracts u"
proof (rule set_eqI)
  fix a
  show "a \<in> tbl_keys (genesis_leafs lib n u) \<longleftrightarrow> a \<in> updated_contracts u"
    using tbl_get_eq_None [of "genesis_leafs lib n u" a] by (auto simp: genesis_leafs_get(2) [OF assms] split: if_splits)
qed

lemma genesis_contract_root:
  assumes lib: "trie_lib_ok lib stored view mroot" "mroot (\<lambda>_. 0) = 0" and order: "\<And>xs. mset (order xs) = mset xs"
    and u: "updates_ok u" "keys_fit u" "replaced_classes u = []" and deployed: "updated_contracts u \<subseteq> tbl_keys (deployed_contracts u)"
  shows "genesis_insert_contract_updates lib H order n u =
    Some (Inr (mroot (contract_contents H mroot (updated_contracts u) (insert_input (genesis_input u) (db_empty :: (unit, unit) db)))))"
proof -
  let ?d = "insert_input (genesis_input u) (db_empty :: (unit, unit) db)" and ?xs = "order (genesis_leafs lib n u)"
  let ?hashes = "map (\<lambda>(a, _). (a, state_leaf H mroot ?d a)) ?xs"
  have hashes: "those (map (\<lambda>(address, leaf). case cl_class_hash leaf of
             None \<Rightarrow> None
           | Some class_hash \<Rightarrow>
               (let nonce = (case cl_nonce leaf of Some n \<Rightarrow> n | None \<Rightarrow> 0);
                    storage_root = (case cl_storage_root leaf of Some r \<Rightarrow> r | None \<Rightarrow> 0)
                in Some (address, compute_contract_state_hash H class_hash storage_root nonce))) ?xs) = Some ?hashes"
  proof (rule those_map_Some, rule ballI)
    fix e assume "e \<in> set ?xs"
    moreover obtain a leaf where e: "e = (a, leaf)" by (cases e)
    ultimately have a: "a \<in> updated_contracts u"
      "leaf = \<lparr>cl_class_hash = tbl_get (deployed_contracts u) a,
         cl_storage_root = map_option (\<lambda>es. genesis_root lib n (a, es)) (tbl_get (storage_updates u) a),
         cl_nonce = tbl_get (nonce_updates u) a\<rparr>"
      using genesis_leaf_in [OF u(1,3) order] by blast+
    then obtain c where c: "tbl_get (deployed_contracts u) a = Some c" using deployed tbl_get_eq_None [of _ a] by blast
    have "stored_nonce (db_empty :: (unit, unit) db) a = 0" by (simp add: contents_tables db_empty_def tbl_get_def)
    then have "state_leaf H mroot ?d a = compute_contract_state_hash H c
        (case cl_storage_root leaf of Some r \<Rightarrow> r | None \<Rightarrow> 0) (case cl_nonce leaf of Some n \<Rightarrow> n | None \<Rightarrow> 0)"
      using genesis_storage [OF lib u(1,2) a(1), of n] u(1) c a(2)
      by (simp add: state_leaf_def info_after nonce_write_def class_write_def split: option.split)
    then show "(case e of (address, leaf) \<Rightarrow> case cl_class_hash leaf of
             None \<Rightarrow> None
           | Some class_hash \<Rightarrow>
               (let nonce = (case cl_nonce leaf of Some n \<Rightarrow> n | None \<Rightarrow> 0);
                    storage_root = (case cl_storage_root leaf of Some r \<Rightarrow> r | None \<Rightarrow> 0)
                in Some (address, compute_contract_state_hash H class_hash storage_root nonce))) =
        Some (case e of (a, _) \<Rightarrow> (a, state_leaf H mroot ?d a))"
      using a(2) c by (simp add: e Let_def)
  qed
  have keys: "fst ` set ?xs = updated_contracts u"
    using genesis_leafs_keys [where lib = lib and n = n, OF u(1,3)] mset_eq_setD [OF order, of "genesis_leafs lib n u"] by (simp add: tbl_keys_def)
  have dist: "distinct (map fst ?hashes)"
    using tbl_inv_distinct_fst [OF genesis_leafs_get(1) [where lib = lib and n = n, OF u(1,3)]] order [of "genesis_leafs lib n u"]
    by (simp add: comp_def split_beta) (metis mset_eq_imp_distinct_iff mset_map)
  have "fst ` set ?hashes = updated_contracts u" using keys by force
  then have small: "\<forall>e\<in>set ?hashes. fst e < 2 ^ 251" using u(2) unfolding keys_fit_def by blast
  have "view (fold (contracts_trie_insert lib) ?hashes (tl_open lib (tl_empty lib))) contracts_identifier =
      overlay (map_of ?hashes) (\<lambda>_. 0)"
    using fold_bonsai_insert [OF lib(1), of "contracts_trie_insert lib" contracts_identifier fst snd ?hashes, OF _ dist small]
    by (simp add: contracts_trie_insert_def trie_lib_okD [OF lib(1)] fun_eq_iff)
  also have "\<dots> = contract_contents H mroot (updated_contracts u) ?d"
    by (auto simp: fun_eq_iff overlay_def map_of_keyed_pairs keys contract_contents_def)
  finally show ?thesis by (simp add: genesis_insert_contract_updates_def hashes trie_lib_okD [OF lib(1)] Let_def)
qed

lemma genesis_panics:
  assumes u: "updates_ok u" "replaced_classes u = []" and order: "\<And>xs. mset (order xs) = mset xs"
    and a: "a \<in> updated_contracts u" "a \<notin> tbl_keys (deployed_contracts u)"
  shows "genesis_insert_contract_updates lib H order n u = None"
proof -
  let ?xs = "order (genesis_leafs lib n u)"
  have "a \<in> fst ` set ?xs"
    using a(1) genesis_leafs_keys [where lib = lib and n = n, OF u] mset_eq_setD [OF order, of "genesis_leafs lib n u"] by (simp add: tbl_keys_def)
  then obtain leaf where leaf: "(a, leaf) \<in> set ?xs" by force
  then have "cl_class_hash leaf = None"
    using genesis_leaf_in(2) [OF u order leaf] a(2) by (simp add: tbl_get_eq_None)
  with leaf show ?thesis
    unfolding genesis_insert_contract_updates_def by (subst those_None [of "(a, leaf)"]) simp_all
qed

section \<open>A concrete library and genesis state\<close>

text \<open>
  An instance of the library: the database and the trie are the map itself, and the root of a
  map adds up what it holds on a few paths.
\<close>

definition sample_lib :: "((bytes \<Rightarrow> trie_path \<Rightarrow> felt), (bytes \<Rightarrow> trie_path \<Rightarrow> felt)) trie_lib" where
  "sample_lib = \<lparr>tl_empty = (\<lambda>_ _. 0), tl_open = (\<lambda>db. db), tl_insert = (\<lambda>i p v tr. tr(i := (tr i)(p := v))),
     tl_commit = (\<lambda>n tr. tr), tl_db = (\<lambda>tr. tr), tl_root = (\<lambda>i tr. \<Sum>k\<leftarrow>[1, 2, 7, 9]. tr i (bonsai_path k))\<rparr>"

definition sample_mroot :: "(trie_path \<Rightarrow> felt) \<Rightarrow> felt" where
  "sample_mroot c = (\<Sum>k\<leftarrow>[1, 2, 7, 9]. c (bonsai_path k))"

text \<open>The instance for the classes trie has another root function.\<close>

definition sample_clib :: "((bytes \<Rightarrow> trie_path \<Rightarrow> felt), (bytes \<Rightarrow> trie_path \<Rightarrow> felt)) trie_lib" where
  "sample_clib = sample_lib\<lparr>tl_root := (\<lambda>i tr. 7 * (tr i (bonsai_path 2)) + 1)\<rparr>"

definition sample_croot :: "(trie_path \<Rightarrow> felt) \<Rightarrow> felt" where
  "sample_croot c = 7 * c (bonsai_path 2) + 1"

definition sample_hashes :: trie_hashes where
  "sample_hashes = \<lparr>th_pedersen = (\<lambda>a b. 2 * a + 3 * b), th_poseidon = (\<lambda>a b. 5 * b)\<rparr>"

lemma sample_lib_ok: "trie_lib_ok sample_lib (\<lambda>db. db) (\<lambda>tr. tr) sample_mroot" "sample_mroot (\<lambda>_. 0) = 0"
  by (simp_all add: trie_lib_ok_def sample_lib_def sample_mroot_def)

lemma sample_clib_ok: "trie_lib_ok sample_clib (\<lambda>db. db) (\<lambda>tr. tr) sample_croot"
  by (simp add: trie_lib_ok_def sample_clib_def sample_lib_def sample_croot_def)

definition sample_genesis_updates :: state_updates where
  "sample_genesis_updates =
     \<lparr>nonce_updates = [(7, 3)], storage_updates = [(7, [(1, 5), (2, 6)])], deployed_contracts = [(7, 11), (9, 12)],
      declared_classes = [(2, 4)], deprecated_declared_classes = [], replaced_classes = []\<rparr>"

lemma sample_genesis_ok: "updates_ok sample_genesis_updates" "keys_fit sample_genesis_updates" "replaced_classes sample_genesis_updates = []"
  "updated_contracts sample_genesis_updates \<subseteq> tbl_keys (deployed_contracts sample_genesis_updates)"
  by (simp_all add: updates_ok_def keys_fit_def updated_contracts_def sample_genesis_updates_def)

lemma sample_contents:
  defines "d \<equiv> insert_input (genesis_input sample_genesis_updates) (db_empty :: (unit, unit) db)"
  shows "sample_croot (class_contents sample_hashes d) = 141"
    "sample_mroot (contract_contents sample_hashes sample_mroot (updated_contracts sample_genesis_updates) d) = 334"
proof -
  let ?i = "genesis_input sample_genesis_updates :: (unit, unit) block_input"
  have ok: "updates_ok (bi_updates ?i)" using sample_genesis_ok(1) by simp
  have "storage_ok (db_empty :: (unit, unit) db)" by (simp add: storage_ok_def db_empty_def)
  note ins = storage_insert [OF this ok, THEN conjunct2] info_after [OF ok] compiled_after_insert [OF ok]
  have empty: "stored_nonce (db_empty :: (unit, unit) db) a = 0" "stored_class (db_empty :: (unit, unit) db) a = 0"
    "tbl_get (tb_CompiledClassHashes (db_empty :: (unit, unit) db)) a = None"
    "dup_get (tb_ContractStorage (db_empty :: (unit, unit) db)) a k = None" for a k
    by (simp_all add: contents_tables db_empty_def tbl_get_def dup_get_def seek_by_key_subkey_def)
  have storage: "sample_mroot (storage_contents d 7) = 11" "sample_mroot (storage_contents d 9) = 0"
    unfolding d_def sample_mroot_def
    by (simp_all add: contents_tables path_key_path ins empty storage_write_def) (simp_all add: sample_genesis_updates_def tbl_get_def empty)
  show "sample_croot (class_contents sample_hashes d) = 141"
    unfolding d_def sample_croot_def
    by (simp add: contents_tables path_key_path ins empty)
      (simp add: sample_genesis_updates_def tbl_get_def compute_classes_trie_value_def sample_hashes_def db_empty_def)
  have "state_leaf sample_hashes sample_mroot d 7 = 238" "state_leaf sample_hashes sample_mroot d 9 = 96"
    unfolding state_leaf_def storage unfolding d_def ins
    by (simp_all add: empty nonce_write_def class_write_def)
      (simp_all add: sample_genesis_updates_def tbl_get_def compute_contract_state_hash_def sample_hashes_def empty)
  then show "sample_mroot (contract_contents sample_hashes sample_mroot (updated_contracts sample_genesis_updates) d) = 334"
    by (subst sample_mroot_def)
      (simp add: contract_contents_def path_key_path updated_contracts_def sample_genesis_updates_def)
qed

section \<open>Properties\<close>

text \<open>
  C19. The state root commits to the state that is served.  However many blocks are written, the
  two roots the writer returns for the last one are the roots of maps that only depend on the
  state which the database provider reads after that block: for every contract ever updated
  the hash of its class, of the root of its storage and of its nonce, and for every declared
  class its compiled class hash.  The root of the classes and the roots of the contracts and storages may be computed with
  different hashes.  The order in which the leaves are collected does not matter, and nothing
  panics.
\<close>

theorem state_root_commits_to_state:
  assumes "trie_lib_ok clib cstored cview croot" "trie_lib_ok lib stored view mroot" "\<And>xs. mset (order xs) = mset xs" "blocks_fit (is @ [i])"
  defines "d \<equiv> db_of (is @ [i])"
  shows "\<exists>d0 s0 s. write_blocks clib lib H order is (db_empty, tries_empty clib lib) = Some (d0, s0)
    \<and> write_block clib lib H order i (d0, s0) = Some (d, s, Inr (croot (class_contents H d)), Inr (mroot (contract_contents H mroot (touched (is @ [i])) d)))"
proof -
  have u: "updates_ok (bi_updates i)" "replaced_classes (bi_updates i) = []" "keys_fit (bi_updates i)" "inputs_ok is"
    using assms(4) by (auto simp: blocks_fit_def inputs_ok_snoc)
  have "blocks_fit is" using assms(4) by (simp add: blocks_fit_def inputs_ok_snoc)
  from write_blocks_match [OF assms(1-3) this] obtain s0 where
    s0: "write_blocks clib lib H order is (db_empty, tries_empty clib lib) = Some (db_of is, s0)"
    "tries_match cstored stored H mroot (touched is) (db_of is) s0" by blast
  have "storage_ok (db_of is)" using latest_storage_lookup [OF u(4)] by blast
  from write_block_step [OF assms(1-3) u(1-3) this s0(2)] show ?thesis
    using s0(1) unfolding d_def by (auto simp: db_of_snoc touched_def Un_commute)
qed

lemma state_root_commits_to_state_witness:
  "\<exists>d s. write_block sample_clib sample_lib sample_hashes rev (genesis_input sample_genesis_updates) (db_empty, tries_empty sample_clib sample_lib) =
     Some (d, s, Inr 141, Inr 334)"
proof -
  let ?i = "genesis_input sample_genesis_updates :: (unit, unit) block_input"
  have "blocks_fit ([] @ [?i])" using sample_genesis_ok by (simp add: blocks_fit_def inputs_ok_def)
  from state_root_commits_to_state [where order = rev and H = sample_hashes, OF sample_clib_ok sample_lib_ok(1) _ this] show ?thesis
    using sample_contents by (auto simp: db_of_def touched_def)
qed

text \<open>
  C31. The genesis writer is equivalent to the database writer on an empty database.  If every contract
  of the genesis state has a class, the in-memory writer, which is used to check a stored
  genesis block, returns the roots that the database writer computes when the genesis block is
  stored, in whatever order either of them collects the leaves; a contract without a class makes
  it panic.
\<close>

theorem genesis_writer_agrees:
  assumes clib: "trie_lib_ok clib cstored cview croot"
    and lib: "trie_lib_ok lib stored view mroot" "mroot (\<lambda>_. 0) = 0"
    and order: "\<And>xs. mset (order xs) = mset xs" "\<And>xs. mset (order' xs) = mset xs"
    and u: "updates_ok u" "keys_fit u" "replaced_classes u = []"
  shows "(updated_contracts u \<subseteq> tbl_keys (deployed_contracts u) \<longrightarrow>
      genesis_insert_contract_updates lib H order n u =
        map_option snd (trie_insert_contract_updates lib H order' (db_empty :: (unit, unit) db) n u (tries_empty clib lib)))
    \<and> (\<not> updated_contracts u \<subseteq> tbl_keys (deployed_contracts u) \<longrightarrow> genesis_insert_contract_updates lib H order n u = None)
    \<and> genesis_insert_declared_classes clib H n (declared_classes u) =
        snd (trie_insert_declared_classes clib H n (declared_classes u) (tries_empty clib lib))"
proof -
  let ?d = "db_empty :: (unit, unit) db" and ?i = "genesis_input u"
  have "tries_match cstored stored H mroot {} ?d (tries_empty clib lib)"
    using tries_match_empty [OF clib lib(1)] by (simp add: db_of_def)
  then have m: "\<forall>a < 2 ^ 251. stored (sd_storages (tries_empty clib lib)) (felt_to_bytes_be a) = storage_contents ?d a"
    "stored (sd_contracts (tries_empty clib lib)) contracts_identifier = contract_contents H mroot {} ?d"
    by (simp_all add: tries_match_def)
  have "storage_ok ?d" by (simp add: storage_ok_def db_empty_def)
  from contract_updates_step [where order = order' and i = ?i and n = n, OF lib(1) order(2) _ _ _ this m] u
  obtain s' where "trie_insert_contract_updates lib H order' ?d n u (tries_empty clib lib) =
      Some (s', Inr (mroot (contract_contents H mroot (updated_contracts u) (insert_input ?i ?d))))" by auto
  moreover have "genesis_insert_declared_classes clib H n (declared_classes u) =
      snd (trie_insert_declared_classes clib H n (declared_classes u) (tries_empty clib lib))"
    by (simp add: genesis_insert_declared_classes_def trie_insert_declared_classes_def tries_empty_def Let_def)
  moreover have "genesis_insert_contract_updates lib H order n u = None" if "\<not> updated_contracts u \<subseteq> tbl_keys (deployed_contracts u)"
    using that genesis_panics [OF u(1,3) order(1)] by blast
  ultimately show ?thesis
    using genesis_contract_root [OF lib order(1) u, of H n] by simp
qed

lemma genesis_writer_agrees_witness:
  "genesis_insert_contract_updates sample_lib sample_hashes (\<lambda>xs. xs) 0 sample_genesis_updates = Some (Inr 334)
   \<and> map_option snd (trie_insert_contract_updates sample_lib sample_hashes rev (db_empty :: (unit, unit) db) 0 sample_genesis_updates
       (tries_empty sample_clib sample_lib)) = Some (Inr 334)"
  using genesis_writer_agrees [where order = "\<lambda>xs. xs" and order' = rev and H = sample_hashes and n = 0, OF sample_clib_ok sample_lib_ok _ _ sample_genesis_ok(1-3)]
    sample_genesis_ok(4) genesis_contract_root [where order = "\<lambda>xs. xs" and H = sample_hashes and n = 0, OF sample_lib_ok _ sample_genesis_ok] sample_contents
  by simp

end
