(* ===== verification/Root_Props.thy ===== *)
theory Root_Props
  imports State_Trie_Props Mining_Props
begin

text \<open>
  Mining with the state tries of the database: the parameters of the backend for the tries are
  the writers of \<open>State_Trie\<close>, and the state root in the header of every mined block commits to
  the state that is served after it.
\<close>

lemma those_total: "\<forall>x\<in>set xs. f x \<noteq> None \<Longrightarrow> \<exists>ys. those (map f xs) = Some ys"
  by (induction xs) auto

lemma contract_updates_total: "\<exists>s' r. trie_insert_contract_updates lib H order d n u s = Some (s', Inr r)"
proof -
  let ?f = "\<lambda>(address, leaf). map_option (Pair address) (contract_state_leaf_hash H d address
      (leaf\<lparr>cl_storage_root := Some (tl_root lib (felt_to_bytes_be address)
        (tl_open lib (fold (commit_storage lib n) (storage_updates u) (sd_storages s))))\<rparr>))"
  have "\<forall>e\<in>set (order (contract_leafs u)). ?f e \<noteq> None"
    by (simp add: split_beta contract_state_leaf_hash_def latest_nonce_def latest_class_hash_def Let_def)
  from those_total [OF this] show ?thesis
    by (auto simp: trie_insert_contract_updates_def Let_def)
qed

text \<open>The backend runs with these writers on its database.\<close>

definition mines_with ::
    "('db, 'tc) trie_lib \<Rightarrow> ('db, 'tr) trie_lib \<Rightarrow> trie_hashes \<Rightarrow> leaf_order \<Rightarrow> ('cls, 'info) db
     \<Rightarrow> 'db trie_dbs chain_params \<Rightarrow> bool" where
  "mines_with clib lib H order d cp \<longleftrightarrow>
     (\<forall>s n u. cp_trie_classes cp s n u = trie_insert_declared_classes clib H n u s)
     \<and> (\<forall>s n u. trie_insert_contract_updates lib H order d n u s = Some (cp_trie_contracts cp s n u))"

lemma new_state_root_total:
  assumes "mines_with clib lib H order d cp"
  shows "\<exists>s' root. compute_new_state_root cp s b = Some (s', root)"
proof -
  have "\<exists>s' r. cp_trie_contracts cp s n u = (s', Inr r)" for s n u
    using contract_updates_total [of lib H order d n u s] assms by (auto simp: mines_with_def)
  then show ?thesis
    using assms by (auto simp: mines_with_def compute_new_state_root_def trie_insert_declared_classes_def Let_def split: prod.splits sum.splits)
      (metis Pair_inject sum.distinct(1))
qed

lemma tbl_put_subset: "e \<in> set (tbl_put k v t) \<Longrightarrow> e = (k, v) \<or> e \<in> set t"
  by (induction k v t rule: tbl_put.induct) (auto split: if_splits)

lemma registry_contracts:
  assumes "update_block_hash_registry_contract d n u = Inr u'"
  shows "updated_contracts u' = updated_contracts u \<union> (if STORED_BLOCK_HASH_BUFFER \<le> n then {1} else {})"
    "replaced_classes u' = replaced_classes u" "keys_fit u \<Longrightarrow> n < 2 ^ 64 \<Longrightarrow> keys_fit u'"
proof -
  show upd: "updated_contracts u' = updated_contracts u \<union> (if STORED_BLOCK_HASH_BUFFER \<le> n then {1} else {})"
    "replaced_classes u' = replaced_classes u"
    using assms by (auto simp: update_block_hash_registry_contract_def block_hash_by_num_def updated_contracts_def Let_def split: if_splits)
  assume fit: "keys_fit u" and n: "n < 2 ^ 64"
  show "keys_fit u'"
  proof (cases "STORED_BLOCK_HASH_BUFFER \<le> n")
    case True
    define old where "old = (case tbl_get (storage_updates u) 1 of Some t \<Rightarrow> t | None \<Rightarrow> [])"
    obtain h where u': "u' = u\<lparr>storage_updates := tbl_put 1 (tbl_put (n - STORED_BLOCK_HASH_BUFFER) h old) (storage_updates u)\<rparr>"
      using assms True by (auto simp: update_block_hash_registry_contract_def block_hash_by_num_def Let_def old_def)
    have "\<forall>x\<in>set old. fst x < 2 ^ 251"
    proof (cases "tbl_get (storage_updates u) 1")
      case (Some t)
      then have "(1, t) \<in> set (storage_updates u)" unfolding tbl_get_def by (rule map_of_SomeD)
      then show ?thesis using fit Some by (force simp: old_def keys_fit_def)
    qed (simp add: old_def)
    moreover have "n - STORED_BLOCK_HASH_BUFFER < 2 ^ 251" using n by simp
    ultimately have inner: "\<forall>x\<in>set (tbl_put (n - STORED_BLOCK_HASH_BUFFER) h old). fst x < 2 ^ 251"
      using tbl_put_subset [of _ "n - STORED_BLOCK_HASH_BUFFER" h old] by (metis fst_conv)
    have "\<forall>x\<in>set (snd e). fst x < 2 ^ 251" if "e \<in> set (storage_updates u')" for e
      using that tbl_put_subset [of e 1] inner fit by (simp add: u' keys_fit_def) (metis snd_conv)
    then have "\<forall>e\<in>set (storage_updates u'). \<forall>x\<in>set (snd e). fst x < 2 ^ 251" by blast
    then show ?thesis using fit upd(1) by (auto simp: keys_fit_def u')
  qed (use assms fit in \<open>simp add: update_block_hash_registry_contract_def\<close>)
qed

section \<open>Property\<close>

text \<open>
  C11. The state root in the header of a mined block commits to the state served after the block.
  If the tries hold the state of the database before a block is mined, with the writers of the
  database as the tries of the backend, then they hold the state of the database after it,
  including the entry of the block hash registry, and the header stored for the block has as
  state root the hash of the roots of exactly these contents.  The classes trie and the other two
  are instances of the trie library with a root function each.
\<close>

theorem mined_state_root:
  fixes bk :: "('cls, 'db trie_dbs) backend"
  assumes clib: "trie_lib_ok clib cstored cview croot" and lib: "trie_lib_ok lib stored view mroot"
    and order: "\<And>xs. mset (order xs) = mset xs"
    and cp: "mines_with clib lib H order (bk_db bk) cp"
    and bk: "storage_ok (bk_db bk)" "tries_match cstored stored H mroot A (bk_db bk) (bk_trie bk)"
    and out: "updates_ok (su_state_updates (eo_states out))" "keys_fit (su_state_updates (eo_states out))"
      "replaced_classes (su_state_updates (eo_states out)) = []" "be_number e < 2 ^ 64"
    and mine: "do_mine_block cp e out bk = Some (bk', Inr m)"
  defines "A' \<equiv> A \<union> updated_contracts (su_state_updates (eo_states out)) \<union> (if 10 \<le> be_number e then {1} else {})"
  shows "tries_match cstored stored H mroot A' (bk_db bk') (bk_trie bk') \<and> storage_ok (bk_db bk')
    \<and> (\<exists>b. block_by_id (bk_db bk') (Num (be_number e)) = Inr (Some b) \<and>
        hd_state_root (blk_header b) = cp_pos cp [short_string ''STARKNET_STATE_V0'',
          mroot (contract_contents H mroot A' (bk_db bk')), croot (class_contents H (bk_db bk'))])"
proof (rule do_mine_block_success [OF mine], goal_cases)
  case (1 parent s' tr' root items b)
  let ?sb = "\<lparr>sbs_block = b, sbs_status = AcceptedOnL2\<rparr>" and ?st = "(eo_states out)\<lparr>su_state_updates := s'\<rparr>"
  let ?rs = "map rwh_receipt (map (fst \<circ> snd) items)" and ?xs = "map (snd \<circ> snd) items"
  define i where "i = \<lparr>bi_block = ?sb, bi_states = ?st, bi_receipts = ?rs, bi_executions = ?xs\<rparr>"
  have i: "bi_updates i = s'" "bi_number i = be_number e" "insert_input i (bk_db bk) = bk_db bk'"
    using 1(4,5) by (simp_all add: i_def insert_input_def Let_def commit_header_def mining_header_def)
  have u: "updates_ok (bi_updates i)" "replaced_classes (bi_updates i) = []" "keys_fit (bi_updates i)"
    using updates_ok_registry [OF out(1) 1(3)] registry_contracts [OF 1(3)] out by (simp_all add: i(1))
  obtain s2 where w: "write_block clib lib H order i (bk_db bk, bk_trie bk) =
      Some (bk_db bk', s2, Inr (croot (class_contents H (bk_db bk'))), Inr (mroot (contract_contents H mroot A' (bk_db bk'))))"
    "tries_match cstored stored H mroot A' (bk_db bk') s2"
    using write_block_step [OF clib lib order u bk] registry_contracts(1) [OF 1(3)]
    by (auto simp: i A'_def STORED_BLOCK_HASH_BUFFER_def Un_assoc)
  have writers: "cp_trie_classes cp s n t = trie_insert_declared_classes clib H n t s"
    "trie_insert_contract_updates lib H order (bk_db bk) n u s = Some (cp_trie_contracts cp s n u)" for s n t u
    using cp by (simp_all add: mines_with_def)
  have "tr' = s2 \<and> root = cp_pos cp [short_string ''STARKNET_STATE_V0'',
      mroot (contract_contents H mroot A' (bk_db bk')), croot (class_contents H (bk_db bk'))]"
    using w(1) 1(7)
    by (simp add: write_block_def compute_new_state_root_def writers i mining_header_def split: prod.splits sum.splits)
  then have root: "bk_trie bk' = s2" "hd_state_root (sb_header b) = cp_pos cp [short_string ''STARKNET_STATE_V0'',
      mroot (contract_contents H mroot A' (bk_db bk')), croot (class_contents H (bk_db bk'))]"
    using 1(4,5) by (simp_all add: Let_def commit_header_def)
  have "Num (be_number e) \<in> block_ids ?sb" using i(2) by (simp add: block_ids_def i_def)
  from block_inserted [OF this] have "block_by_id (bk_db bk') (Num (be_number e)) = Inr (Some (unseal b))"
    using 1(5) by simp
  then show ?case
    using w(2) root storage_insert [OF bk(1) u(1)] by (simp add: i(3) unseal_def)
qed

text \<open>The instance of \<open>Mining_Props\<close> with the tries of \<open>sample_clib\<close> and \<open>sample_lib\<close>, and a block that changes the state.\<close>

definition sample_root_cp :: "(bytes \<Rightarrow> trie_path \<Rightarrow> felt) trie_dbs chain_params" where
  "sample_root_cp = \<lparr>cp_pos = length, cp_to_felt = (\<lambda>s. 0), cp_keccak = (\<lambda>s. 0), cp_merkle_root = length,
     cp_trie_classes = (\<lambda>s n t. trie_insert_declared_classes sample_clib sample_hashes n t s),
     cp_trie_contracts = (\<lambda>s n u. the (trie_insert_contract_updates sample_lib sample_hashes rev (bk_db sample_backend) n u s))\<rparr>"

definition sample_root_backend :: "(bool, (bytes \<Rightarrow> trie_path \<Rightarrow> felt) trie_dbs) backend" where
  "sample_root_backend = \<lparr>bk_db = bk_db sample_backend, bk_trie = tries_empty sample_clib sample_lib,
     bk_generator = block_context_generator_default, bk_oracle = sampled_starknet\<rparr>"

definition sample_root_output :: "bool execution_output" where
  "sample_root_output = sample_output\<lparr>eo_states := \<lparr>su_state_updates = sample_genesis_updates, su_classes = []\<rparr>\<rparr>"

lemma sample_root_mines_with: "mines_with sample_clib sample_lib sample_hashes rev (bk_db sample_root_backend) sample_root_cp"
  using contract_updates_total [of sample_lib sample_hashes rev "bk_db sample_backend"]
  by (simp add: mines_with_def sample_root_cp_def sample_root_backend_def) (metis option.sel)

lemma sample_root_match: "tries_match (\<lambda>db. db) (\<lambda>db. db) sample_hashes sample_mroot {} (bk_db sample_root_backend) (bk_trie sample_root_backend)"
proof -
  have "tb_ContractStorage (bk_db sample_backend) = []" "tb_ContractInfo (bk_db sample_backend) = []"
    "tb_CompiledClassHashes (bk_db sample_backend) = []"
    by (simp_all add: sample_backend_def execution_output_default_def db_simps db_empty_def flat_storage_def)
  then show ?thesis
    by (simp add: tries_match_def tries_empty_def sample_root_backend_def sample_clib_def sample_lib_def contents_tables contract_contents_def
      fun_eq_iff tbl_get_def dup_get_def seek_by_key_subkey_def)
qed

lemma sample_root_mines:
  obtains bk' m where "do_mine_block sample_root_cp sample_env sample_root_output sample_root_backend = Some (bk', Inr m)"
proof -
  note unfolds = do_mine_block_def commit_block_def commit_def update_block_hash_registry_contract_def mining_header_def
    STORED_BLOCK_HASH_BUFFER_def Let_def
  note samples = sample_root_output_def sample_root_backend_def sample_output_def sample_receipt_def sample_env_def
  have "\<exists>f g. \<forall>s b. compute_new_state_root sample_root_cp s b = Some (f s b, g s b)"
    using new_state_root_total [OF sample_root_mines_with] by metis
  then obtain f g where "\<And>s b. compute_new_state_root sample_root_cp s b = Some (f s b, g s b)" by blast
  then show thesis using that sample_backend_latest by (simp add: unfolds samples)
qed

lemma mined_state_root_witness:
  "\<exists>bk' m b. do_mine_block sample_root_cp sample_env sample_root_output sample_root_backend = Some (bk', Inr m) \<and>
     block_by_id (bk_db bk') (Num 1) = Inr (Some b) \<and>
     tries_match (\<lambda>db. db) (\<lambda>db. db) sample_hashes sample_mroot {7, 9} (bk_db bk') (bk_trie bk')"
proof -
  obtain bk' m where mine: "do_mine_block sample_root_cp sample_env sample_root_output sample_root_backend = Some (bk', Inr m)"
    by (rule sample_root_mines)
  have "storage_ok (bk_db sample_root_backend)"
    using sample_backend_ok by (simp add: backend_ok_def sample_root_backend_def)
  note root = mined_state_root [where order = rev, OF sample_clib_ok sample_lib_ok(1) _ sample_root_mines_with this sample_root_match _ _ _ _ mine]
  have "tries_match (\<lambda>db. db) (\<lambda>db. db) sample_hashes sample_mroot (updated_contracts sample_genesis_updates) (bk_db bk') (bk_trie bk')
      \<and> (\<exists>b. block_by_id (bk_db bk') (Num 1) = Inr (Some b))"
    using root sample_genesis_ok by (auto simp: sample_root_output_def sample_env_def)
  moreover have "updated_contracts sample_genesis_updates = {7, 9}"
    by (auto simp: updated_contracts_def sample_genesis_updates_def)
  ultimately show ?thesis using mine by auto
qed

end
