(* ===== verification/Messaging.thy ===== *)
theory Messaging
  imports Pool_Properties Events Num_Text Tx_Hash
begin

text \<open>
  Messages from the settlement chain (\<^verbatim>\<open>crates/messaging\<close>): the messengers for Ethereum and for
  Starknet, the conversion of their logs and events into L1 handler transactions, and the
  service that gathers them at an interval and hands them to the pool.

  The settlement chain is reached through the clients of alloy and starknet-rs.  They are
  functions from a state of the world, which the model passes at every request, to the answer.
  A gathering future is suspended at its requests: its state says which request it waits for,
  and a poll passes it the worlds of the answers that have arrived.  \<open>None\<close> is a panic.
\<close>

section \<open>Configuration\<close>

datatype settlement_provider_error = EthereumError string | StarknetError string

datatype messenger_error = InitError | UnsupportedChain | GatherError | MessengerProvider settlement_provider_error

record messaging_config =
  mc_chain :: string
  mc_rpc_url :: string
  mc_contract_address :: string
  mc_interval :: nat
  mc_from_block :: nat

datatype settlement_layer =
  SettleEthereum (sle_id: nat) (sle_rpc_url: string) (sle_account: nat) (sle_core_contract: nat) (sle_block: nat)
| SettleStarknet (sls_id: chain_id) (sls_rpc_url: string) (sls_account: contract_address)
    (sls_core_contract: contract_address) (sls_block: nat)
| Sovereign

text \<open>The text of the two kinds of addresses is that of their libraries.\<close>

fun messaging_from_chain_spec ::
    "(nat \<Rightarrow> string) \<Rightarrow> (contract_address \<Rightarrow> string) \<Rightarrow> settlement_layer \<Rightarrow> messaging_config option" where
  "messaging_from_chain_spec show_eth show_address (SettleEthereum _ rpc_url _ core_contract block) =
     Some \<lparr>mc_chain = ''ethereum'', mc_rpc_url = rpc_url, mc_contract_address = show_eth core_contract, mc_interval = 2,
       mc_from_block = block\<rparr>"
| "messaging_from_chain_spec show_eth show_address (SettleStarknet _ rpc_url _ core_contract block) =
     Some \<lparr>mc_chain = ''starknet'', mc_rpc_url = rpc_url, mc_contract_address = show_address core_contract, mc_interval = 2,
       mc_from_block = block\<rparr>"
| "messaging_from_chain_spec show_eth show_address Sovereign = None"

section \<open>Settlement clients\<close>

text \<open>The parts of a log that the messenger uses, and the event it decodes to.\<close>

record eth_log =
  el_address :: nat
  el_topic :: nat
  el_data :: "nat list"
  el_block_number :: "nat option"

record log_message_to_l2 =
  lm_from_address :: nat
  lm_to_address :: nat
  lm_selector :: nat
  lm_payload :: "nat list"
  lm_nonce :: nat
  lm_fee :: nat

record log_filter =
  lf_from_block :: nat
  lf_to_block :: nat
  lf_address :: nat
  lf_topic :: nat

record 'w ethereum_messaging =
  em_block_number :: "'w \<Rightarrow> string + nat"
  em_get_logs :: "'w \<Rightarrow> log_filter \<Rightarrow> string + eth_log list"
  em_contract_address :: nat

record settlement_filter =
  sf_from_block :: nat
  sf_to_block :: nat
  sf_address :: felt
  sf_keys :: "felt list list"

record event_page =
  ep_events :: "emitted_event list"
  ep_continuation_token :: "string option"

record 'w starknet_messaging =
  sm_block_number :: "'w \<Rightarrow> string + nat"
  sm_get_events :: "'w \<Rightarrow> settlement_filter \<Rightarrow> string option \<Rightarrow> nat \<Rightarrow> string + event_page"
  sm_contract_address :: felt

datatype 'w messenger_mode = MEthereum "'w ethereum_messaging" | MStarknet "'w starknet_messaging"

text \<open>
  \<^verbatim>\<open>from_config\<close>: the two constructors parse the URL and the address with third-party code and
  are arguments.
\<close>

definition messenger_from_config ::
    "(messaging_config \<Rightarrow> string + 'w ethereum_messaging) \<Rightarrow> (messaging_config \<Rightarrow> string + 'w starknet_messaging)
     \<Rightarrow> messaging_config \<Rightarrow> messenger_error + 'w messenger_mode" where
  "messenger_from_config ethereum_new starknet_new config =
     (if mc_chain config = ''ethereum'' then
        (case ethereum_new config of Inr m \<Rightarrow> Inr (MEthereum m) | Inl _ \<Rightarrow> Inl InitError)
      else if mc_chain config = ''starknet'' then
        (case starknet_new config of Inr m \<Rightarrow> Inr (MStarknet m) | Inl _ \<Rightarrow> Inl InitError)
      else Inl UnsupportedChain)"

text \<open>What the conversions use of other crates.\<close>

record msg_to_l2 =
  m2_from_address :: nat
  m2_to_address :: felt
  m2_selector :: felt
  m2_payload :: "felt list"
  m2_nonce :: nat

record msg_to_l1 =
  m1_from_address :: felt
  m1_to_address :: felt
  m1_payload :: "felt list"

record messaging_lib =
  ml_selector :: "string \<Rightarrow> felt"
  ml_poseidon :: hash_fn
  ml_pedersen :: hash_fn
  ml_felt_from_str :: "string \<Rightarrow> felt option"
  ml_msg_to_l2_hash :: "msg_to_l2 \<Rightarrow> nat"
  ml_msg_to_l1_hash :: "msg_to_l1 \<Rightarrow> nat"
  ml_decode_log :: "eth_log \<Rightarrow> log_message_to_l2 option"

section \<open>The Ethereum messenger\<close>

definition compute_l1_to_l2_message_hash :: "messaging_lib \<Rightarrow> nat \<Rightarrow> felt \<Rightarrow> felt \<Rightarrow> felt list \<Rightarrow> nat \<Rightarrow> nat" where
  "compute_l1_to_l2_message_hash lib from_address to_address selector payload nonce =
     ml_msg_to_l2_hash lib \<lparr>m2_from_address = from_address, m2_to_address = to_address, m2_selector = selector,
       m2_payload = payload, m2_nonce = nonce\<rparr>"

definition compute_l2_to_l1_message_hash :: "messaging_lib \<Rightarrow> felt \<Rightarrow> felt \<Rightarrow> felt list \<Rightarrow> nat" where
  "compute_l2_to_l1_message_hash lib from_address to_address payload =
     ml_msg_to_l1_hash lib \<lparr>m1_from_address = from_address, m1_to_address = to_address, m1_payload = payload\<rparr>"

definition parse_messages :: "messaging_lib \<Rightarrow> message_to_l1 list \<Rightarrow> nat list" where
  "parse_messages lib messages =
     map (\<lambda>msg. compute_l2_to_l1_message_hash lib (msg_from_address msg) (msg_to_address msg) (msg_payload msg)) messages"

text \<open>\<^verbatim>\<open>{:#064x}\<close>: the prefix counts for the width, so at least 62 digits are printed.\<close>

definition format_064x :: "nat \<Rightarrow> string" where
  "format_064x v = (let digits = show_hex v in ''0x'' @ replicate (62 - length digits) (CHR ''0'') @ digits)"

definition felt_from_u256 :: "messaging_lib \<Rightarrow> nat \<Rightarrow> felt option" where
  "felt_from_u256 lib v = ml_felt_from_str lib (format_064x v)"

definition l1_handler_tx_from_log ::
    "messaging_lib \<Rightarrow> eth_log \<Rightarrow> chain_id \<Rightarrow> (messenger_error + l1_handler_tx) option" where
  "l1_handler_tx_from_log lib log cid =
     Option.bind (ml_decode_log lib log) (\<lambda>log.
     Option.bind (felt_from_u256 lib (lm_to_address log)) (\<lambda>contract_address.
     Option.bind (felt_from_u256 lib (lm_selector log)) (\<lambda>entry_point_selector.
     if 2 ^ 64 \<le> lm_nonce log \<or> 2 ^ 128 \<le> lm_fee log then None
     else Option.bind (those (map (felt_from_u256 lib) (lm_payload log))) (\<lambda>payload.
       let message_hash = compute_l1_to_l2_message_hash lib (lm_from_address log) contract_address entry_point_selector
             payload (lm_nonce log)
       in Some (Inr \<lparr>l1h_nonce = lm_nonce log, l1h_chain_id = cid, l1h_paid_fee_on_l1 = lm_fee log, l1h_version = 0,
            l1h_message_hash = message_hash, l1h_calldata = lm_from_address log # payload,
            l1h_contract_address = contract_address, l1h_entry_point_selector = entry_point_selector\<rparr>)))))"

definition LOG_MESSAGE_TO_L2_TOPIC :: nat where
  "LOG_MESSAGE_TO_L2_TOPIC = 0xdb80dd488acf86d17c747445b0eabb5d57c541d3bd7b6b87af987858e5066b2b"

definition fetch_logs :: "'w ethereum_messaging \<Rightarrow> 'w \<Rightarrow> nat \<Rightarrow> nat \<Rightarrow> messenger_error + eth_log list" where
  "fetch_logs m w from_block to_block =
     (case em_get_logs m w \<lparr>lf_from_block = from_block, lf_to_block = to_block, lf_address = em_contract_address m,
          lf_topic = LOG_MESSAGE_TO_L2_TOPIC\<rparr> of
        Inl e \<Rightarrow> Inl (MessengerProvider (EthereumError e))
      | Inr logs \<Rightarrow> Inr (filter (\<lambda>log. el_block_number log \<noteq> None) logs))"

text \<open>The last block of a round, in the arithmetic of \<^verbatim>\<open>u64\<close>.\<close>

definition gather_to_block :: "nat \<Rightarrow> nat \<Rightarrow> nat \<Rightarrow> nat" where
  "gather_to_block from_block max_blocks chain_latest_block =
     (if (from_block + max_blocks + 1) mod 2 ^ 64 < chain_latest_block then (from_block + max_blocks) mod 2 ^ 64
      else chain_latest_block)"

text \<open>The conversions that succeed, in order; one that panics ends the round.\<close>

definition collect_messages :: "('a \<Rightarrow> (messenger_error + l1_handler_tx) option) \<Rightarrow> 'a list \<Rightarrow> l1_handler_tx list option" where
  "collect_messages convert xs =
     map_option (concat \<circ> map (\<lambda>r. case r of Inr tx \<Rightarrow> [tx] | Inl _ \<Rightarrow> [])) (those (map convert xs))"

section \<open>The gathering future\<close>

text \<open>The requests at which \<^verbatim>\<open>gather_messages\<close> is suspended, with the variables that are still needed.\<close>

datatype gather_state =
  AskBlockNumber
| AskLogs nat
| AskEvents nat "string option" "emitted_event list"

datatype gather_step = Continue gather_state | Done "messenger_error + nat \<times> l1_handler_tx list"

fun ethereum_gather ::
    "messaging_lib \<Rightarrow> 'w ethereum_messaging \<Rightarrow> nat \<Rightarrow> chain_id \<Rightarrow> nat \<Rightarrow> gather_state \<Rightarrow> 'w \<Rightarrow> gather_step option" where
  "ethereum_gather lib m max_blocks cid from_block AskBlockNumber w =
     (case em_block_number m w of
        Inl e \<Rightarrow> Some (Done (Inl (MessengerProvider (EthereumError e))))
      | Inr chain_latest_block \<Rightarrow> Some (Continue (AskLogs (gather_to_block from_block max_blocks chain_latest_block))))"
| "ethereum_gather lib m max_blocks cid from_block (AskLogs to_block) w =
     (case fetch_logs m w from_block to_block of
        Inl e \<Rightarrow> Some (Done (Inl e))
      | Inr logs \<Rightarrow> map_option (\<lambda>txs. Done (Inr (to_block, txs)))
          (collect_messages (\<lambda>l. l1_handler_tx_from_log lib l cid) logs))"
| "ethereum_gather lib m max_blocks cid from_block (AskEvents _ _ _) w = None"

section \<open>The Starknet messenger\<close>

definition MESSAGE_SENT_EVENT_KEY :: "messaging_lib \<Rightarrow> felt" where
  "MESSAGE_SENT_EVENT_KEY lib = ml_selector lib ''MessageSent''"

definition compute_starknet_to_appchain_message_hash ::
    "messaging_lib \<Rightarrow> felt \<Rightarrow> felt \<Rightarrow> felt \<Rightarrow> felt \<Rightarrow> felt list \<Rightarrow> felt" where
  "compute_starknet_to_appchain_message_hash lib from_address to_address nonce entry_point_selector payload =
     ml_poseidon lib ([from_address, to_address, nonce, entry_point_selector, length payload] @ payload)"

text \<open>
  Indexing past the end panics, so an event with fewer than four keys or three data elements
  does, whatever the check before it logs.
\<close>

definition l1_handler_tx_from_event ::
    "messaging_lib \<Rightarrow> emitted_event \<Rightarrow> chain_id \<Rightarrow> (messenger_error + l1_handler_tx) option" where
  "l1_handler_tx_from_event lib event cid =
     (if ee_keys event = [] then None
      else if ee_keys event ! 0 \<noteq> MESSAGE_SENT_EVENT_KEY lib then Some (Inl GatherError)
      else if length (ee_keys event) < 4 \<or> length (ee_data event) < 3 then None
      else
        (let from_address = ee_keys event ! 2;
             to_address = ee_keys event ! 3;
             entry_point_selector = ee_data event ! 0;
             nonce = ee_data event ! 1;
             calldata = from_address # drop 3 (ee_data event);
             message_hash = compute_starknet_to_appchain_message_hash lib from_address to_address nonce
               entry_point_selector calldata
         in Some (Inr \<lparr>l1h_nonce = nonce, l1h_chain_id = cid, l1h_paid_fee_on_l1 = 30000, l1h_version = 0,
              l1h_message_hash = message_hash, l1h_calldata = calldata, l1h_contract_address = to_address,
              l1h_entry_point_selector = entry_point_selector\<rparr>)))"

text \<open>One page of \<^verbatim>\<open>fetch_events\<close>; an error of the client is unwrapped by its caller.\<close>

definition fetch_event_page ::
    "messaging_lib \<Rightarrow> 'w starknet_messaging \<Rightarrow> 'w \<Rightarrow> nat \<Rightarrow> nat \<Rightarrow> string option \<Rightarrow> string + event_page" where
  "fetch_event_page lib m w from_block to_block continuation_token =
     sm_get_events m w \<lparr>sf_from_block = from_block, sf_to_block = to_block, sf_address = sm_contract_address m,
       sf_keys = [[MESSAGE_SENT_EVENT_KEY lib]]\<rparr> continuation_token 200"

fun starknet_gather ::
    "messaging_lib \<Rightarrow> 'w starknet_messaging \<Rightarrow> nat \<Rightarrow> chain_id \<Rightarrow> nat \<Rightarrow> gather_state \<Rightarrow> 'w \<Rightarrow> gather_step option" where
  "starknet_gather lib m max_blocks cid from_block AskBlockNumber w =
     (case sm_block_number m w of
        Inl _ \<Rightarrow> Some (Done (Inl GatherError))
      | Inr chain_latest_block \<Rightarrow>
          if chain_latest_block < from_block then Some (Done (Inr (chain_latest_block, [])))
          else Some (Continue (AskEvents (gather_to_block from_block max_blocks chain_latest_block) None [])))"
| "starknet_gather lib m max_blocks cid from_block (AskEvents to_block continuation_token events) w =
     (case fetch_event_page lib m w from_block to_block continuation_token of
        Inl _ \<Rightarrow> None
      | Inr page \<Rightarrow>
          (let events = events @ filter (\<lambda>e. ee_block_number e \<noteq> None) (ep_events page)
           in case ep_continuation_token page of
                Some token \<Rightarrow> Some (Continue (AskEvents to_block (Some token) events))
              | None \<Rightarrow> map_option (\<lambda>txs. Done (Inr (to_block, txs)))
                  (collect_messages (\<lambda>e. l1_handler_tx_from_event lib e cid) events)))"
| "starknet_gather lib m max_blocks cid from_block (AskLogs _) w = None"

section \<open>The service\<close>

definition gather_step_of ::
    "messaging_lib \<Rightarrow> 'w messenger_mode \<Rightarrow> chain_id \<Rightarrow> nat \<Rightarrow> gather_state \<Rightarrow> 'w \<Rightarrow> gather_step option" where
  "gather_step_of lib m cid from_block =
     (case m of
        MEthereum inner \<Rightarrow> ethereum_gather lib inner 200 cid from_block
      | MStarknet inner \<Rightarrow> starknet_gather lib inner 200 cid from_block)"

datatype gather_result = Suspended gather_state | Finished "messenger_error + nat \<times> l1_handler_tx list"

fun gather_poll :: "(gather_state \<Rightarrow> 'w \<Rightarrow> gather_step option) \<Rightarrow> gather_state \<Rightarrow> 'w list \<Rightarrow> gather_result option" where
  "gather_poll step st [] = Some (Suspended st)"
| "gather_poll step st (w # ws) =
     (case step st w of
        None \<Rightarrow> None
      | Some (Continue st') \<Rightarrow> gather_poll step st' ws
      | Some (Done r) \<Rightarrow> Some (Finished r))"

record 'w messaging_service =
  ms_messenger :: "'w messenger_mode"
  ms_chain_id :: chain_id
  ms_gather_from_block :: nat
  ms_gather_fut :: "(nat \<times> gather_state) option"

definition messaging_service_new ::
    "(messaging_config \<Rightarrow> messenger_error + 'w messenger_mode) \<Rightarrow> messaging_config \<Rightarrow> chain_id \<Rightarrow> 'w messaging_service option" where
  "messaging_service_new from_config config cid =
     (case from_config config of
        Inl _ \<Rightarrow> None
      | Inr m \<Rightarrow> Some \<lparr>ms_messenger = m, ms_chain_id = cid, ms_gather_from_block = mc_from_block config, ms_gather_fut = None\<rparr>)"

record messaging_outcome =
  mo_latest_block :: nat
  mo_msg_count :: nat

definition message_tx :: "messaging_lib \<Rightarrow> l1_handler_tx \<Rightarrow> 'cls executable_tx_with_hash" where
  "message_tx lib tx = \<lparr>ewh_hash = l1_handler_calculate_hash (ml_pedersen lib) tx, ewh_transaction = ExL1Handler tx\<rparr>"

text \<open>The results of the pool are ignored.  \<open>now i\<close> is the time of the \<open>i\<close>-th submission.\<close>

definition submit_messages ::
    "messaging_lib \<Rightarrow> ('cls, 'p, 'v, 'o, 'l, 's, 'r, 'b) pool_deps \<Rightarrow> (nat \<Rightarrow> nat) \<Rightarrow> l1_handler_tx list
     \<Rightarrow> ('cls, 'p, 'v, 'o, 'l, 's) pool \<Rightarrow> ('cls, 'p, 'v, 'o, 'l, 's) pool option" where
  "submit_messages lib d now txs p =
     map_option fst (submit_all d p (map (\<lambda>(i, tx). (now i, message_tx lib tx)) (enumerate 0 txs)))"

text \<open>The future that is polled: the one that is running, or a new one at a tick.\<close>

definition current_gather :: "bool \<Rightarrow> 'w messaging_service \<Rightarrow> (nat \<times> gather_state) option" where
  "current_gather tick s =
     (if tick \<and> ms_gather_fut s = None then Some (ms_gather_from_block s, AskBlockNumber) else ms_gather_fut s)"

definition messaging_poll_next ::
    "messaging_lib \<Rightarrow> ('cls, 'p, 'v, 'o, 'l, 's, 'r, 'b) pool_deps \<Rightarrow> (nat \<Rightarrow> nat) \<Rightarrow> bool \<Rightarrow> 'w list
     \<Rightarrow> 'w messaging_service \<times> ('cls, 'p, 'v, 'o, 'l, 's) pool
     \<Rightarrow> (('w messaging_service \<times> ('cls, 'p, 'v, 'o, 'l, 's) pool) \<times> messaging_outcome poll) option" where
  "messaging_poll_next lib d now tick ws = (\<lambda>(s, p).
     (case current_gather tick s of
        None \<Rightarrow> Some ((s, p), Pending)
      | Some (from_block, st) \<Rightarrow>
          (case gather_poll (gather_step_of lib (ms_messenger s) (ms_chain_id s) from_block) st ws of
             None \<Rightarrow> None
           | Some (Suspended st') \<Rightarrow> Some ((s\<lparr>ms_gather_fut := Some (from_block, st')\<rparr>, p), Pending)
           | Some (Finished (Inl e)) \<Rightarrow> Some ((s\<lparr>ms_gather_fut := None\<rparr>, p), Pending)
           | Some (Finished (Inr (last_block, txs))) \<Rightarrow>
               map_option (\<lambda>p'. ((s\<lparr>ms_gather_fut := None, ms_gather_from_block := (last_block + 1) mod 2 ^ 64\<rparr>, p'),
                   Ready \<lparr>mo_latest_block = last_block, mo_msg_count = length txs\<rparr>))
                 (submit_messages lib d now txs p))))"

text \<open>
  The task polls the service until it is pending; \<open>inputs\<close> says for each of these polls whether a
  tick is due and which answers have arrived.  With none of either a poll is pending.
\<close>

fun messaging_task_poll ::
    "messaging_lib \<Rightarrow> ('cls, 'p, 'v, 'o, 'l, 's, 'r, 'b) pool_deps \<Rightarrow> ((nat \<Rightarrow> nat) \<times> bool \<times> 'w list) list
     \<Rightarrow> 'w messaging_service \<times> ('cls, 'p, 'v, 'o, 'l, 's) pool
     \<Rightarrow> ('w messaging_service \<times> ('cls, 'p, 'v, 'o, 'l, 's) pool) option" where
  "messaging_task_poll lib d [] sp = Some sp"
| "messaging_task_poll lib d ((now, tick, ws) # inputs) sp =
     (case messaging_poll_next lib d now tick ws sp of
        None \<Rightarrow> None
      | Some (sp', Pending) \<Rightarrow> Some sp'
      | Some (sp', Ready _) \<Rightarrow> messaging_task_poll lib d inputs sp')"

end
