(* ===== verification/Messaging_Props.thy ===== *)
theory Messaging_Props
  imports Messaging "HOL-Library.Sublist"
begin

text \<open>
  What the messaging service promises.  The contract between the service and a messenger is the
  locale \<open>settlement_source\<close>: a round that finishes has gathered exactly the messages of the blocks
  it reports.  It is interpreted for both messengers, over clients that answer for an
  append-only settlement chain.
\<close>

section \<open>The settlement chain\<close>

text \<open>The blocks of the settlement chain, with the logs or the events of each.\<close>

record settlement_block =
  stl_logs :: "eth_log list"
  stl_events :: "emitted_event list"

definition settled :: "('b \<Rightarrow> 'a list) \<Rightarrow> 'b list \<Rightarrow> nat \<Rightarrow> nat \<Rightarrow> 'a list" where
  "settled f c a b = concat (map f (take (b - a) (drop a c)))"

definition matching_logs :: "log_filter \<Rightarrow> settlement_block \<Rightarrow> eth_log list" where
  "matching_logs f b = filter (\<lambda>l. el_address l = lf_address f \<and> el_topic l = lf_topic f) (stl_logs b)"

definition matching_events :: "settlement_filter \<Rightarrow> settlement_block \<Rightarrow> emitted_event list" where
  "matching_events f b = filter (\<lambda>e. ee_from_address e = sf_address f \<and>
     list_all2 (\<lambda>key alternatives. alternatives = [] \<or> key \<in> set alternatives)
       (take (length (sf_keys f)) (ee_keys e)) (sf_keys f)) (stl_events b)"

text \<open>
  The documented behaviour of the clients: \<^verbatim>\<open>eth_getLogs\<close> returns the matching logs of the range in
  order; \<^verbatim>\<open>starknet_getEvents\<close> returns them in pages, and a continuation token, whose position is
  \<open>pos\<close>, continues where its page ended.  What is in a block has the number of the block.
\<close>

definition ethereum_honest :: "('w \<Rightarrow> settlement_block list) \<Rightarrow> 'w ethereum_messaging \<Rightarrow> bool" where
  "ethereum_honest view m \<longleftrightarrow>
     (\<forall>w n. em_block_number m w = Inr n \<longrightarrow> Suc n = length (view w))
     \<and> (\<forall>w f ls. em_get_logs m w f = Inr ls \<and> lf_to_block f < length (view w) \<longrightarrow>
          ls = settled (matching_logs f) (view w) (lf_from_block f) (Suc (lf_to_block f)))
     \<and> (\<forall>w. \<forall>b\<in>set (view w). \<forall>l\<in>set (stl_logs b). el_block_number l \<noteq> None)"

definition starknet_honest :: "(string option \<Rightarrow> nat) \<Rightarrow> ('w \<Rightarrow> settlement_block list) \<Rightarrow> 'w starknet_messaging \<Rightarrow> bool" where
  "starknet_honest pos view m \<longleftrightarrow> pos None = 0
     \<and> (\<forall>w n. sm_block_number m w = Inr n \<longrightarrow> Suc n = length (view w))
     \<and> (\<forall>w f token k page. sm_get_events m w f token k = Inr page \<and> sf_to_block f < length (view w) \<longrightarrow>
          (let es = settled (matching_events f) (view w) (sf_from_block f) (Suc (sf_to_block f))
           in ep_events page = take (length (ep_events page)) (drop (pos token) es)
             \<and> (case ep_continuation_token page of
                  None \<Rightarrow> length es \<le> pos token + length (ep_events page)
                | Some t \<Rightarrow> pos (Some t) = pos token + length (ep_events page))))
     \<and> (\<forall>w. \<forall>b\<in>set (view w). \<forall>e\<in>set (stl_events b). ee_block_number e \<noteq> None)"

fun messenger_honest :: "(string option \<Rightarrow> nat) \<Rightarrow> ('w \<Rightarrow> settlement_block list) \<Rightarrow> 'w messenger_mode \<Rightarrow> bool" where
  "messenger_honest pos view (MEthereum m) = ethereum_honest view m"
| "messenger_honest pos view (MStarknet m) = starknet_honest pos view m"

text \<open>The chain stays below the bound of its block numbers.\<close>

definition chain_bounded :: "('w \<Rightarrow> settlement_block list) \<Rightarrow> bool" where
  "chain_bounded view \<longleftrightarrow> (\<forall>w. length (view w) + 201 < 2 ^ 64)"

text \<open>The messages of a block, by either messenger.\<close>

definition converted :: "('a \<Rightarrow> (messenger_error + l1_handler_tx) option) \<Rightarrow> 'a list \<Rightarrow> l1_handler_tx list" where
  "converted convert xs = concat (map (\<lambda>x. case convert x of Some (Inr tx) \<Rightarrow> [tx] | _ \<Rightarrow> []) xs)"

fun block_messages :: "messaging_lib \<Rightarrow> 'w messenger_mode \<Rightarrow> chain_id \<Rightarrow> settlement_block \<Rightarrow> l1_handler_tx list" where
  "block_messages lib (MEthereum m) cid b = converted (\<lambda>l. l1_handler_tx_from_log lib l cid)
     (filter (\<lambda>l. el_address l = em_contract_address m \<and> el_topic l = LOG_MESSAGE_TO_L2_TOPIC) (stl_logs b))"
| "block_messages lib (MStarknet m) cid b = converted (\<lambda>e. l1_handler_tx_from_event lib e cid)
     (filter (\<lambda>e. ee_from_address e = sm_contract_address m \<and> ee_keys e \<noteq> [] \<and> ee_keys e ! 0 = MESSAGE_SENT_EVENT_KEY lib)
       (stl_events b))"

lemma settled_append:
  assumes "a \<le> b" "b \<le> e"
  shows "settled f c a b @ settled f c b e = settled f c a e"
proof -
  have "take (e - a) (drop a c) = take (b - a) (drop a c) @ take (e - b) (drop b c)"
    using assms take_add [of "b - a" "e - b" "drop a c"] by simp
  then show ?thesis by (simp add: settled_def)
qed

lemma settled_prefix: "prefix c c' \<Longrightarrow> b \<le> length c \<Longrightarrow> settled f c' a b = settled f c a b"
  by (auto simp: settled_def prefix_def)

lemma settled_empty [simp]: "settled f c a a = []"
  by (simp add: settled_def)

lemma converted_concat: "converted g (concat xss) = concat (map (converted g) xss)"
  by (induction xss) (simp_all add: converted_def)

lemma settled_converted: "converted g (settled f c a b) = settled (\<lambda>x. converted g (f x)) c a b"
  by (simp add: settled_def converted_concat comp_def)

lemma settled_cong:
  assumes "\<And>x. f x = g x"
  shows "settled f c a b = settled g c a b"
  using ext [of f g, OF assms] by simp

lemma set_settled: "x \<in> set (settled f c a b) \<Longrightarrow> \<exists>y\<in>set c. x \<in> set (f y)"
  by (auto simp: settled_def dest!: in_set_takeD in_set_dropD)

lemma collect_messages_converted:
  assumes "collect_messages convert xs = Some txs"
  shows "txs = converted convert xs"
proof -
  obtain rs where rs: "those (map convert xs) = Some rs" "txs = concat (map (\<lambda>r. case r of Inr tx \<Rightarrow> [tx] | Inl _ \<Rightarrow> []) rs)"
    using assms by (auto simp: collect_messages_def)
  have "those (map convert xs) = Some rs \<Longrightarrow>
      concat (map (\<lambda>r. case r of Inr tx \<Rightarrow> [tx] | Inl _ \<Rightarrow> []) rs) = converted convert xs"
    by (induction xs arbitrary: rs) (auto simp: converted_def split: option.splits sum.splits)
  then show ?thesis using rs by simp
qed

section \<open>The contract of a messenger\<close>

text \<open>
  \<open>ok a c st\<close> says that a round from block \<open>a\<close> can be in state \<open>st\<close> when the chain was last seen as \<open>c\<close>.
\<close>

definition growing :: "('w \<Rightarrow> 'b list) \<Rightarrow> 'b list \<Rightarrow> 'w list \<Rightarrow> bool" where
  "growing view c ws \<longleftrightarrow> sorted_wrt prefix (c # map view ws)"

definition newest :: "('w \<Rightarrow> 'b list) \<Rightarrow> 'b list \<Rightarrow> 'w list \<Rightarrow> 'b list" where
  "newest view c ws = last (c # map view ws)"

lemma growing_Cons: "growing view c (w # ws) \<longleftrightarrow> prefix c (view w) \<and> growing view (view w) ws"
  unfolding growing_def by (auto intro: prefix_order.trans)

lemma newest_Cons [simp]: "newest view c (w # ws) = newest view (view w) ws" "newest view c [] = c"
  by (simp_all add: newest_def)

lemma newest_prefix: "growing view c ws \<Longrightarrow> prefix c (newest view c ws)"
  by (induction ws arbitrary: c) (auto simp: growing_Cons intro: prefix_order.trans)

locale settlement_source =
  fixes step :: "nat \<Rightarrow> gather_state \<Rightarrow> 'w \<Rightarrow> gather_step option"
    and ok :: "nat \<Rightarrow> 'b list \<Rightarrow> gather_state \<Rightarrow> bool"
    and view :: "'w \<Rightarrow> 'b list"
    and msgs :: "'b \<Rightarrow> l1_handler_tx list"
  assumes grow: "ok a c st \<Longrightarrow> prefix c c' \<Longrightarrow> ok a c' st"
    and restart: "ok a c st \<Longrightarrow> b \<le> length c \<Longrightarrow> ok b c AskBlockNumber"
    and continue: "ok a c st \<Longrightarrow> prefix c (view w) \<Longrightarrow> step a st w = Some (Continue st') \<Longrightarrow> ok a (view w) st'"
    and done_round: "ok a c st \<Longrightarrow> prefix c (view w) \<Longrightarrow> step a st w = Some (Done (Inr (l, txs))) \<Longrightarrow>
      a \<le> Suc l \<and> l < length (view w) \<and> Suc l < 2 ^ 64 \<and> txs = settled msgs (view w) a (Suc l)"
begin

lemma poll_suspended:
  "gather_poll (step a) st ws = Some (Suspended st') \<Longrightarrow> ok a c st \<Longrightarrow> growing view c ws \<Longrightarrow> ok a (newest view c ws) st'"
proof (induction ws arbitrary: c st)
  case (Cons w ws)
  then obtain st1 where "step a st w = Some (Continue st1)" "gather_poll (step a) st1 ws = Some (Suspended st')"
    by (auto split: option.splits gather_step.splits)
  then show ?case using Cons continue by (auto simp: growing_Cons)
qed simp

lemma poll_finished:
  "gather_poll (step a) st ws = Some (Finished (Inr (l, txs))) \<Longrightarrow> ok a c st \<Longrightarrow> growing view c ws \<Longrightarrow>
   a \<le> Suc l \<and> l < length (newest view c ws) \<and> Suc l < 2 ^ 64 \<and> txs = settled msgs (newest view c ws) a (Suc l)"
proof (induction ws arbitrary: c st)
  case (Cons w ws)
  consider (go) st1 where "step a st w = Some (Continue st1)" "gather_poll (step a) st1 ws = Some (Finished (Inr (l, txs)))"
    | (stop) "step a st w = Some (Done (Inr (l, txs)))"
    using Cons.prems(1) by (auto split: option.splits gather_step.splits)
  moreover have g: "prefix c (view w)" "growing view (view w) ws" using Cons.prems(3) by (simp_all add: growing_Cons)
  ultimately show ?case
  proof cases
    case go
    show ?thesis using Cons.IH [OF go(2) continue [OF Cons.prems(2) g(1) go(1)] g(2)] by simp
  next
    case stop
    have r: "a \<le> Suc l \<and> l < length (view w) \<and> Suc l < 2 ^ 64 \<and> txs = settled msgs (view w) a (Suc l)"
      by (rule done_round [OF Cons.prems(2) g(1) stop])
    moreover have "prefix (view w) (newest view (view w) ws)" by (rule newest_prefix [OF g(2)])
    ultimately show ?thesis
      using settled_prefix [of "view w" "newest view (view w) ws" "Suc l" msgs a] prefix_length_le [of "view w"]
      by fastforce
  qed
qed simp

end

section \<open>Both messengers meet the contract\<close>

fun gather_ok ::
    "(string option \<Rightarrow> nat) \<Rightarrow> ('w \<Rightarrow> settlement_block list) \<Rightarrow> messaging_lib \<Rightarrow> 'w messenger_mode \<Rightarrow> nat
     \<Rightarrow> settlement_block list \<Rightarrow> gather_state \<Rightarrow> bool" where
  "gather_ok pos view lib m a c AskBlockNumber \<longleftrightarrow> messenger_honest pos view m \<and> chain_bounded view \<and> a \<le> length c"
| "gather_ok pos view lib m a c (AskLogs b) \<longleftrightarrow> messenger_honest pos view m \<and> chain_bounded view \<and> a \<le> Suc b \<and> b < length c"
| "gather_ok pos view lib m a c (AskEvents b token es) \<longleftrightarrow> messenger_honest pos view m \<and> chain_bounded view \<and> a \<le> Suc b \<and> b < length c
     \<and> (\<forall>sm. m = MStarknet sm \<longrightarrow> es = take (pos token) (settled (matching_events \<lparr>sf_from_block = a, sf_to_block = b,
          sf_address = sm_contract_address sm, sf_keys = [[MESSAGE_SENT_EVENT_KEY lib]]\<rparr>) c a (Suc b)))"

lemma gather_ok_bounds:
  "gather_ok pos view lib m a c st \<Longrightarrow> messenger_honest pos view m \<and> chain_bounded view \<and> a \<le> length c"
  by (cases st) auto

lemma gather_to_block_range:
  assumes "chain_bounded view" "Suc n = length (view w)" "a \<le> length (view w)"
  shows "a \<le> Suc (gather_to_block a 200 n) \<and> gather_to_block a 200 n < length (view w) \<and> gather_to_block a 200 n < a + 202"
proof -
  have "a + 201 < 2 ^ 64" using assms by (auto simp: chain_bounded_def dest: spec [of _ w])
  then show ?thesis using assms(2,3) by (auto simp: gather_to_block_def)
qed

lemma matching_events_key:
  "matching_events \<lparr>sf_from_block = a, sf_to_block = b, sf_address = x, sf_keys = [[k]]\<rparr> blk =
     filter (\<lambda>e. ee_from_address e = x \<and> ee_keys e \<noteq> [] \<and> ee_keys e ! 0 = k) (stl_events blk)"
proof -
  have "list_all2 (\<lambda>key alternatives. alternatives = [] \<or> key \<in> set alternatives) (take 1 ks) [[k]] \<longleftrightarrow> ks \<noteq> [] \<and> ks ! 0 = k" for ks
    by (cases ks) auto
  then show ?thesis by (simp add: matching_events_def)
qed

lemma gather_ok_grow: "gather_ok pos view lib m a c st \<Longrightarrow> prefix c c' \<Longrightarrow> gather_ok pos view lib m a c' st"
  using prefix_length_le [of c c']
  by (cases st) (auto simp: settled_prefix)

lemma ethereum_honestD:
  assumes "ethereum_honest view m"
  shows "em_block_number m w = Inr n \<Longrightarrow> Suc n = length (view w)"
    and "em_get_logs m w f = Inr ls \<Longrightarrow> lf_to_block f < length (view w) \<Longrightarrow>
      ls = settled (matching_logs f) (view w) (lf_from_block f) (Suc (lf_to_block f))"
    and "b \<in> set (view w) \<Longrightarrow> l \<in> set (stl_logs b) \<Longrightarrow> el_block_number l \<noteq> None"
  using assms unfolding ethereum_honest_def by blast+

lemma starknet_honestD:
  assumes "starknet_honest pos view m"
  shows "pos None = 0" "sm_block_number m w = Inr n \<Longrightarrow> Suc n = length (view w)"
    and "b \<in> set (view w) \<Longrightarrow> e \<in> set (stl_events b) \<Longrightarrow> ee_block_number e \<noteq> None"
  using assms unfolding starknet_honest_def by blast+

lemma starknet_honest_page:
  assumes "starknet_honest pos view m" "sm_get_events m w f token k = Inr page" "sf_to_block f < length (view w)"
  defines "es \<equiv> settled (matching_events f) (view w) (sf_from_block f) (Suc (sf_to_block f))"
  shows "ep_events page = take (length (ep_events page)) (drop (pos token) es)"
    and "ep_continuation_token page = None \<Longrightarrow> length es \<le> pos token + length (ep_events page)"
    and "ep_continuation_token page = Some t \<Longrightarrow> pos (Some t) = pos token + length (ep_events page)"
proof -
  have "\<forall>w f token k page. sm_get_events m w f token k = Inr page \<and> sf_to_block f < length (view w) \<longrightarrow>
      (let es = settled (matching_events f) (view w) (sf_from_block f) (Suc (sf_to_block f))
       in ep_events page = take (length (ep_events page)) (drop (pos token) es)
         \<and> (case ep_continuation_token page of
              None \<Rightarrow> length es \<le> pos token + length (ep_events page)
            | Some t \<Rightarrow> pos (Some t) = pos token + length (ep_events page)))"
    using assms(1) unfolding starknet_honest_def by blast
  from this [rule_format, OF conjI, OF assms(2,3)]
  show "ep_events page = take (length (ep_events page)) (drop (pos token) es)"
    "ep_continuation_token page = None \<Longrightarrow> length es \<le> pos token + length (ep_events page)"
    "ep_continuation_token page = Some t \<Longrightarrow> pos (Some t) = pos token + length (ep_events page)"
    unfolding es_def Let_def by (simp_all split: option.splits)
qed

lemma starknet_page_events:
  assumes "starknet_honest pos view m" "sm_get_events m w f token k = Inr page" "sf_to_block f < length (view w)"
  defines "es \<equiv> settled (matching_events f) (view w) (sf_from_block f) (Suc (sf_to_block f))"
  shows "filter (\<lambda>e. ee_block_number e \<noteq> None) (ep_events page) = take (length (ep_events page)) (drop (pos token) es)"
proof -
  note p = starknet_honest_page(1) [OF assms(1-3), folded es_def]
  have "\<forall>e\<in>set es. ee_block_number e \<noteq> None"
    using starknet_honestD(3) [OF assms(1)] unfolding es_def by (fastforce simp: matching_events_def dest!: set_settled)
  then have "\<forall>e\<in>set (ep_events page). ee_block_number e \<noteq> None"
    by (metis p in_set_takeD in_set_dropD)
  then show ?thesis using p by (simp add: filter_id_conv)
qed

lemma ethereum_continue:
  assumes "gather_ok pos view lib (MEthereum m) a c st" "prefix c (view w)" "ethereum_gather lib m 200 cid a st w = Some (Continue st')"
  shows "gather_ok pos view lib (MEthereum m) a (view w) st'"
proof (cases st)
  case AskBlockNumber
  then obtain n where n: "em_block_number m w = Inr n" "st' = AskLogs (gather_to_block a 200 n)"
    using assms(3) by (auto split: sum.splits)
  have h: "ethereum_honest view m" "chain_bounded view" "a \<le> length (view w)"
    using assms(1) AskBlockNumber prefix_length_le [OF assms(2)] by auto
  moreover have "Suc n = length (view w)" using ethereum_honestD(1) [OF h(1) n(1)] .
  ultimately show ?thesis using gather_to_block_range [of view n w a] by (simp add: n(2))
qed (use assms in \<open>auto split: sum.splits\<close>)

lemma ethereum_done:
  assumes "gather_ok pos view lib (MEthereum m) a c st" "prefix c (view w)"
    and "ethereum_gather lib m 200 cid a st w = Some (Done (Inr (l, txs)))"
  shows "a \<le> Suc l \<and> l < length (view w) \<and> txs = settled (block_messages lib (MEthereum m) cid) (view w) a (Suc l)"
proof -
  obtain b where st: "st = AskLogs b" using assms(3) by (cases st) (auto split: sum.splits)
  have ok: "ethereum_honest view m" "a \<le> Suc b" "b < length (view w)"
    using assms(1) prefix_length_le [OF assms(2)] by (auto simp: st)
  let ?f = "\<lparr>lf_from_block = a, lf_to_block = b, lf_address = em_contract_address m, lf_topic = LOG_MESSAGE_TO_L2_TOPIC\<rparr>"
  let ?conv = "\<lambda>l. l1_handler_tx_from_log lib l cid"
  obtain ls where ls: "em_get_logs m w ?f = Inr ls" "l = b"
    "collect_messages ?conv (filter (\<lambda>l. el_block_number l \<noteq> None) ls) = Some txs"
  proof (cases "em_get_logs m w ?f")
    case (Inr ls)
    then have "fetch_logs m w a b = Inr (filter (\<lambda>l. el_block_number l \<noteq> None) ls)" by (simp add: fetch_logs_def)
    then show thesis using assms(3) that [OF Inr] unfolding st by auto
  qed (use assms(3) in \<open>simp add: st fetch_logs_def\<close>)
  have e: "ls = settled (matching_logs ?f) (view w) a (Suc b)" using ethereum_honestD(2) [OF ok(1) ls(1)] ok(3) by simp
  have "\<forall>l\<in>set ls. el_block_number l \<noteq> None"
    using ethereum_honestD(3) [OF ok(1)] unfolding e by (fastforce simp: matching_logs_def dest!: set_settled)
  then have "filter (\<lambda>l. el_block_number l \<noteq> None) ls = ls" by (simp add: filter_id_conv)
  then have "txs = converted ?conv ls" using collect_messages_converted [OF ls(3)] by simp
  also have "\<dots> = settled (block_messages lib (MEthereum m) cid) (view w) a (Suc b)"
    unfolding e settled_converted by (rule settled_cong) (simp add: matching_logs_def)
  finally show ?thesis using ok ls(2) by simp
qed

lemma starknet_continue:
  assumes "gather_ok pos view lib (MStarknet m) a c st" "prefix c (view w)" "starknet_gather lib m 200 cid a st w = Some (Continue st')"
  shows "gather_ok pos view lib (MStarknet m) a (view w) st'"
proof (cases st)
  case AskBlockNumber
  then obtain n where n: "sm_block_number m w = Inr n" "st' = AskEvents (gather_to_block a 200 n) None []"
    using assms(3) by (auto split: sum.splits if_splits)
  have h: "starknet_honest pos view m" "chain_bounded view" "a \<le> length (view w)"
    using assms(1) AskBlockNumber prefix_length_le [OF assms(2)] by auto
  moreover have "Suc n = length (view w)" by (rule starknet_honestD(2) [OF h(1) n(1)])
  ultimately show ?thesis
    using gather_to_block_range [of view n w a] starknet_honestD(1) [OF h(1)] by (simp add: n(2))
next
  case (AskEvents b token es)
  let ?f = "\<lparr>sf_from_block = a, sf_to_block = b, sf_address = sm_contract_address m, sf_keys = [[MESSAGE_SENT_EVENT_KEY lib]]\<rparr>"
  let ?es = "settled (matching_events ?f) (view w) a (Suc b)"
  have ok: "starknet_honest pos view m" "chain_bounded view" "a \<le> Suc b" "b < length (view w)" "es = take (pos token) ?es"
    using gather_ok_grow [OF assms(1,2)] by (auto simp: AskEvents)
  obtain page t where page: "sm_get_events m w ?f token 200 = Inr page" "ep_continuation_token page = Some t"
    "st' = AskEvents b (Some t) (es @ filter (\<lambda>e. ee_block_number e \<noteq> None) (ep_events page))"
    using assms(3) by (auto simp: AskEvents fetch_event_page_def Let_def split: sum.splits option.splits)
  note p = starknet_honest_page [OF ok(1) page(1), simplified, OF ok(4)]
  show ?thesis
    using ok p(3) [OF page(2)] starknet_page_events [OF ok(1) page(1)] by (simp add: page(3) take_add)
qed (use assms in \<open>auto split: sum.splits\<close>)

lemma starknet_done:
  assumes "gather_ok pos view lib (MStarknet m) a c st" "prefix c (view w)"
    and "starknet_gather lib m 200 cid a st w = Some (Done (Inr (l, txs)))"
  shows "a \<le> Suc l \<and> l < length (view w) \<and> txs = settled (block_messages lib (MStarknet m) cid) (view w) a (Suc l)"
proof (cases st)
  case AskBlockNumber
  then have n: "sm_block_number m w = Inr l" "l < a" "txs = []"
    using assms(3) by (auto split: sum.splits if_splits)
  have "starknet_honest pos view m" "a \<le> length (view w)"
    using gather_ok_grow [OF assms(1,2)] by (auto simp: AskBlockNumber)
  then have "Suc l = length (view w)" "a = Suc l" using starknet_honestD(2) [OF _ n(1)] n(2) by fastforce+
  then show ?thesis by (simp add: n(3))
next
  case (AskEvents b token es)
  let ?f = "\<lparr>sf_from_block = a, sf_to_block = b, sf_address = sm_contract_address m, sf_keys = [[MESSAGE_SENT_EVENT_KEY lib]]\<rparr>"
  let ?es = "settled (matching_events ?f) (view w) a (Suc b)" and ?conv = "\<lambda>e. l1_handler_tx_from_event lib e cid"
  have ok: "starknet_honest pos view m" "a \<le> Suc b" "b < length (view w)" "es = take (pos token) ?es"
    using gather_ok_grow [OF assms(1,2)] by (auto simp: AskEvents)
  obtain page where page: "sm_get_events m w ?f token 200 = Inr page" "ep_continuation_token page = None" "l = b"
    "collect_messages ?conv (es @ filter (\<lambda>e. ee_block_number e \<noteq> None) (ep_events page)) = Some txs"
    using assms(3) by (auto simp: AskEvents fetch_event_page_def Let_def split: sum.splits option.splits)
  have "length ?es \<le> pos token + length (ep_events page)"
    using starknet_honest_page(2) [OF ok(1) page(1) _ page(2)] ok(3) by simp
  then have "es @ filter (\<lambda>e. ee_block_number e \<noteq> None) (ep_events page) = ?es"
    using starknet_page_events [OF ok(1) page(1)] ok(3,4) by (simp add: take_add [symmetric])
  then have "txs = converted ?conv ?es" using collect_messages_converted [OF page(4)] by simp
  also have "\<dots> = settled (block_messages lib (MStarknet m) cid) (view w) a (Suc b)"
    unfolding settled_converted by (rule settled_cong) (simp add: matching_events_key)
  finally show ?thesis using ok page(3) by simp
qed (use assms in simp)

interpretation gather: settlement_source "gather_step_of lib m cid" "gather_ok pos view lib m" view "block_messages lib m cid"
  for pos view lib m cid
proof (unfold_locales, goal_cases)
  case (1 a c st c')
  then show ?case by (rule gather_ok_grow)
next
  case (2 a c st b)
  then show ?case using gather_ok_bounds [OF 2(1)] by simp
next
  case (3 a c st w st')
  then show ?case
    using ethereum_continue starknet_continue by (cases m) (fastforce simp: gather_step_of_def)+
next
  case (4 a c st w l txs)
  have "a \<le> Suc l \<and> l < length (view w) \<and> txs = settled (block_messages lib m cid) (view w) a (Suc l)"
    using 4 ethereum_done starknet_done by (cases m) (fastforce simp: gather_step_of_def)+
  moreover have "length (view w) + 201 < 2 ^ 64"
    using gather_ok_bounds [OF 4(1)] by (simp add: chain_bounded_def)
  ultimately show ?case by auto
qed

section \<open>Runs of the service\<close>

text \<open>The messages that a poll hands to the pool.\<close>

definition poll_messages :: "messaging_lib \<Rightarrow> bool \<Rightarrow> 'w list \<Rightarrow> 'w messaging_service \<Rightarrow> l1_handler_tx list" where
  "poll_messages lib tick ws s =
     (case current_gather tick s of
        None \<Rightarrow> []
      | Some (a, st) \<Rightarrow>
          (case gather_poll (gather_step_of lib (ms_messenger s) (ms_chain_id s) a) st ws of
             Some (Finished (Inr (_, txs))) \<Rightarrow> txs
           | _ \<Rightarrow> []))"

lemma poll_cases:
  assumes "messaging_poll_next lib d now tick ws (s, p) = Some ((s', p'), r)"
  obtains (idle) "current_gather tick s = None" "s' = s" "p' = p" "r = Pending" "poll_messages lib tick ws s = []"
    | (suspended) a st st' where "current_gather tick s = Some (a, st)"
        "gather_poll (gather_step_of lib (ms_messenger s) (ms_chain_id s) a) st ws = Some (Suspended st')"
        "s' = s\<lparr>ms_gather_fut := Some (a, st')\<rparr>" "p' = p" "r = Pending" "poll_messages lib tick ws s = []"
    | (failed) a st where "current_gather tick s = Some (a, st)" "s' = s\<lparr>ms_gather_fut := None\<rparr>" "p' = p" "r = Pending"
        "poll_messages lib tick ws s = []"
    | (gathered) a st l txs where "current_gather tick s = Some (a, st)"
        "gather_poll (gather_step_of lib (ms_messenger s) (ms_chain_id s) a) st ws = Some (Finished (Inr (l, txs)))"
        "s' = s\<lparr>ms_gather_fut := None, ms_gather_from_block := (l + 1) mod 2 ^ 64\<rparr>"
        "submit_messages lib d now txs p = Some p'" "r = Ready \<lparr>mo_latest_block = l, mo_msg_count = length txs\<rparr>"
        "poll_messages lib tick ws s = txs"
proof (cases "current_gather tick s")
  case None
  then show thesis using assms by (intro idle) (simp_all add: messaging_poll_next_def poll_messages_def)
next
  case (Some ast)
  obtain a st where ast: "ast = (a, st)" by fastforce
  let ?g = "gather_poll (gather_step_of lib (ms_messenger s) (ms_chain_id s) a) st ws"
  obtain g where g: "?g = Some g" using assms Some by (cases ?g) (simp_all add: ast messaging_poll_next_def)
  show thesis
  proof (cases g)
    case (Suspended st')
    then show thesis using assms Some g
      by (intro suspended [of a st st']) (simp_all add: ast messaging_poll_next_def poll_messages_def)
  next
    case (Finished r')
    show thesis
    proof (cases r')
      case (Inl e)
      then show thesis using assms Some g Finished
        by (intro failed [of a st]) (simp_all add: ast messaging_poll_next_def poll_messages_def)
    next
      case (Inr ltxs)
      then show thesis using assms Some g Finished
        by (intro gathered [of a st "fst ltxs" "snd ltxs"])
          (auto simp: ast messaging_poll_next_def poll_messages_def split: prod.splits)
    qed
  qed
qed

text \<open>
  A run: polls with whatever answers, errors included, while the settlement chain grows and
  others change the pool.  The log records the messages handed to the pool.
\<close>

inductive messaging_run ::
    "messaging_lib \<Rightarrow> ('cls, 'p, 'v, 'o, 'l, 's, 'r, 'b) pool_deps \<Rightarrow> ('w \<Rightarrow> settlement_block list) \<Rightarrow> 'w messaging_service
     \<Rightarrow> settlement_block list \<Rightarrow> 'w messaging_service \<Rightarrow> ('cls, 'p, 'v, 'o, 'l, 's) pool \<Rightarrow> settlement_block list
     \<Rightarrow> l1_handler_tx list \<Rightarrow> bool"
  for lib d view s0 c0 where
  run_start: "messaging_run lib d view s0 c0 s0 p c0 []"
| run_poll: "messaging_run lib d view s0 c0 s p c log \<Longrightarrow> growing view c ws \<Longrightarrow>
    messaging_poll_next lib d now tick ws (s, p) = Some ((s', p'), r) \<Longrightarrow>
    messaging_run lib d view s0 c0 s' p' (newest view c ws) (log @ poll_messages lib tick ws s)"
| run_pool: "messaging_run lib d view s0 c0 s p c log \<Longrightarrow> messaging_run lib d view s0 c0 s q c log"

definition service_ok ::
    "(string option \<Rightarrow> nat) \<Rightarrow> ('w \<Rightarrow> settlement_block list) \<Rightarrow> messaging_lib \<Rightarrow> settlement_block list \<Rightarrow> 'w messaging_service \<Rightarrow> bool" where
  "service_ok pos view lib c s \<longleftrightarrow> gather_ok pos view lib (ms_messenger s) (ms_gather_from_block s) c AskBlockNumber
     \<and> (\<forall>a st. ms_gather_fut s = Some (a, st) \<longrightarrow> a = ms_gather_from_block s \<and> gather_ok pos view lib (ms_messenger s) a c st)"

lemma service_ok_gather:
  "service_ok pos view lib c s \<Longrightarrow> current_gather tick s = Some (a, st) \<Longrightarrow>
   a = ms_gather_from_block s \<and> gather_ok pos view lib (ms_messenger s) a c st"
  by (auto simp: service_ok_def current_gather_def split: if_splits)

lemma service_ok_grow: "service_ok pos view lib c s \<Longrightarrow> prefix c c' \<Longrightarrow> service_ok pos view lib c' s"
  unfolding service_ok_def using gather_ok_grow by blast

lemma poll_keeps:
  assumes ok: "service_ok pos view lib c s" and ws: "growing view c ws"
    and poll: "messaging_poll_next lib d now tick ws (s, p) = Some ((s', p'), r)"
  defines "c' \<equiv> newest view c ws" and "f \<equiv> block_messages lib (ms_messenger s) (ms_chain_id s)"
  shows "service_ok pos view lib c' s' \<and> ms_messenger s' = ms_messenger s \<and> ms_chain_id s' = ms_chain_id s
    \<and> ms_gather_from_block s \<le> ms_gather_from_block s'
    \<and> poll_messages lib tick ws s = settled f c' (ms_gather_from_block s) (ms_gather_from_block s')"
proof -
  have ok': "service_ok pos view lib c' s" unfolding c'_def by (rule service_ok_grow [OF ok newest_prefix [OF ws]])
  from poll show ?thesis
  proof (cases rule: poll_cases)
    case idle
    then show ?thesis using ok' by simp
  next
    case (suspended a st st')
    have a: "a = ms_gather_from_block s" "gather_ok pos view lib (ms_messenger s) a c st"
      using service_ok_gather [OF ok suspended(1)] by auto
    have "gather_ok pos view lib (ms_messenger s) a c' st'"
      unfolding c'_def by (rule gather.poll_suspended [OF suspended(2) a(2) ws])
    then show ?thesis using ok' a(1) suspended by (simp add: service_ok_def)
  next
    case (failed a st)
    then show ?thesis using ok' by (simp add: service_ok_def)
  next
    case (gathered a st l txs)
    have a: "a = ms_gather_from_block s" "gather_ok pos view lib (ms_messenger s) a c st"
      using service_ok_gather [OF ok gathered(1)] by auto
    have r: "a \<le> Suc l" "l < length c'" "Suc l < 2 ^ 64" "txs = settled f c' a (Suc l)"
      using gather.poll_finished [OF gathered(2) a(2) ws] unfolding c'_def f_def by blast+
    then have "ms_gather_from_block s' = Suc l" by (simp add: gathered(3))
    moreover have "service_ok pos view lib c' s'"
      using ok' r(2,3) by (simp add: service_ok_def gathered(3))
    ultimately show ?thesis using r a(1) gathered(3,6) by simp
  qed
qed

text \<open>What has been handed over in a run.\<close>

lemma messaging_run_settled:
  assumes run: "messaging_run lib d view s0 c0 s p c log" and ok: "service_ok pos view lib c0 s0"
  defines "f \<equiv> block_messages lib (ms_messenger s0) (ms_chain_id s0)"
  shows "service_ok pos view lib c s \<and> ms_messenger s = ms_messenger s0 \<and> ms_chain_id s = ms_chain_id s0 \<and> prefix c0 c
    \<and> ms_gather_from_block s0 \<le> ms_gather_from_block s
    \<and> log = settled f c (ms_gather_from_block s0) (ms_gather_from_block s)"
  using run
proof induction
  case (run_start p)
  then show ?case using ok by simp
next
  case (run_poll s p c log ws now tick s' p' r)
  have s: "service_ok pos view lib c s" using run_poll.IH by blast
  let ?c = "newest view c ws"
  have grow: "prefix c ?c" by (rule newest_prefix [OF run_poll.hyps(2)])
  have "settled f ?c (ms_gather_from_block s0) (ms_gather_from_block s) = log"
    using run_poll.IH settled_prefix [OF grow, of "ms_gather_from_block s"] s by (simp add: service_ok_def)
  moreover have "prefix c0 ?c" using run_poll.IH grow by (auto intro: prefix_order.trans)
  ultimately show ?case
    using poll_keeps [OF s run_poll.hyps(2,3)] run_poll.IH
      settled_append [of "ms_gather_from_block s0" "ms_gather_from_block s" "ms_gather_from_block s'" f ?c]
    unfolding f_def by fastforce
next
  case (run_pool s p c log q)
  then show ?case by simp
qed

lemma service_start_ok:
  assumes "ms_gather_fut s0 = None" "ms_gather_from_block s0 \<le> length c0"
    and "messenger_honest pos view (ms_messenger s0)" "chain_bounded view"
  shows "service_ok pos view lib c0 s0"
  using assms by (simp add: service_ok_def)

section \<open>Properties\<close>

text \<open>
  C13. Messages are gathered in order and exactly once.  Let the settlement chain be append only, its
  client answer truthfully or with errors, and the configured first block be at most one past the
  end of the chain when the service starts.  Then in every run of the service, whatever the
  answers and ticks that have arrived at each poll, the messages handed to the pool so far are
  those of the blocks from the configured first block up to the block before the next one to
  gather, in the order of the chain; and what a poll does to the pool is to submit its messages.
\<close>

theorem messages_in_order:
  assumes run: "messaging_run lib d view s0 c0 s p c log"
    and start: "ms_gather_fut s0 = None" "ms_gather_from_block s0 \<le> length c0"
    and client: "messenger_honest pos view (ms_messenger s0)" "chain_bounded view"
  shows "log = settled (block_messages lib (ms_messenger s0) (ms_chain_id s0)) c (ms_gather_from_block s0) (ms_gather_from_block s)
    \<and> ms_gather_from_block s0 \<le> ms_gather_from_block s \<and> ms_gather_from_block s \<le> length c
    \<and> (messaging_poll_next lib d now tick ws (s, p) = Some ((s', p'), r) \<longrightarrow>
        submit_messages lib d now (poll_messages lib tick ws s) p = Some p')"
proof -
  have "submit_messages lib d now (poll_messages lib tick ws s) p = Some p'"
    if "messaging_poll_next lib d now tick ws (s, p) = Some ((s', p'), r)"
    using that by (cases rule: poll_cases) (simp_all add: submit_messages_def)
  then show ?thesis
    using messaging_run_settled [OF run service_start_ok [OF start client]] by (auto simp: service_ok_def)
qed

text \<open>A settlement chain on Starknet with one block and one message, the first of its contract.\<close>

definition sample_event :: emitted_event where
  "sample_event = \<lparr>ee_block_hash = Some 6, ee_block_number = Some 0, ee_keys = [3, 0, 8, 5], ee_data = [11, 1, 1, 4],
     ee_transaction_hash = 7, ee_from_address = 2\<rparr>"

definition sample_settlement :: "unit \<Rightarrow> settlement_block list" where
  "sample_settlement w = [\<lparr>stl_logs = [], stl_events = [sample_event]\<rparr>]"

definition sample_starknet :: "unit starknet_messaging" where
  "sample_starknet = \<lparr>sm_block_number = (\<lambda>w. Inr 0), sm_get_events = (\<lambda>w f token k. Inr \<lparr>ep_events =
       settled (matching_events f) (sample_settlement w) (sf_from_block f) (Suc (sf_to_block f)), ep_continuation_token = None\<rparr>),
     sm_contract_address = 2\<rparr>"

definition sample_messaging_lib :: messaging_lib where
  "sample_messaging_lib = \<lparr>ml_selector = (\<lambda>s. 3), ml_poseidon = length, ml_pedersen = length, ml_felt_from_str = (\<lambda>s. None),
     ml_msg_to_l2_hash = (\<lambda>m. 0), ml_msg_to_l1_hash = (\<lambda>m. 0),
     ml_decode_log = (\<lambda>l. None)\<rparr>"

definition sample_service :: "unit messaging_service" where
  "sample_service = \<lparr>ms_messenger = MStarknet sample_starknet, ms_chain_id = Id 1, ms_gather_from_block = 0, ms_gather_fut = None\<rparr>"

definition sample_message :: l1_handler_tx where
  "sample_message = \<lparr>l1h_nonce = 1, l1h_chain_id = Id 1, l1h_paid_fee_on_l1 = 30000, l1h_version = 0, l1h_message_hash = 7,
     l1h_calldata = [8, 4], l1h_contract_address = 5, l1h_entry_point_selector = 11\<rparr>"

lemmas sample_messaging_defs = sample_starknet_def sample_settlement_def sample_event_def sample_messaging_lib_def
  settled_def matching_events_def MESSAGE_SENT_EVENT_KEY_def

lemma sample_gather:
  "gather_poll (gather_step_of sample_messaging_lib (MStarknet sample_starknet) (Id 1) 0) AskBlockNumber [(), ()] =
     Some (Finished (Inr (0, [sample_message])))"
  by (simp add: sample_messaging_defs gather_step_of_def gather_to_block_def fetch_event_page_def Let_def collect_messages_def
      l1_handler_tx_from_event_def compute_starknet_to_appchain_message_hash_def sample_message_def nth_Cons')

lemma sample_honest: "messenger_honest (\<lambda>_. 0) sample_settlement (ms_messenger sample_service)" "chain_bounded sample_settlement"
  by (auto simp: sample_service_def starknet_honest_def sample_starknet_def chain_bounded_def sample_settlement_def sample_event_def Let_def)

lemma sample_rejected:
  "add_transaction sample_deps n (pool_new sample_validator fifo_new) (message_tx sample_messaging_lib sample_message) =
     Some (pool_new sample_validator fifo_new, Inl (InvalidTransaction (InvalidNonce 5 0 1)))"
  by (simp add: sample_pool_defs add_transaction_def pool_new_def message_tx_def sample_message_def)

lemma sample_poll:
  "messaging_poll_next sample_messaging_lib sample_deps now True [(), ()] (sample_service, pool_new sample_validator fifo_new) =
     Some ((sample_service\<lparr>ms_gather_from_block := 1\<rparr>, pool_new sample_validator fifo_new),
       Ready \<lparr>mo_latest_block = 0, mo_msg_count = 1\<rparr>)"
  using sample_gather
  by (simp add: messaging_poll_next_def current_gather_def sample_service_def submit_messages_def sample_rejected)

theorem messages_in_order_witness:
  "\<exists>s p c. messaging_run sample_messaging_lib sample_deps sample_settlement sample_service (sample_settlement ()) s p c [sample_message]
     \<and> settled (block_messages sample_messaging_lib (MStarknet sample_starknet) (Id 1)) (sample_settlement ()) 0 1 = [sample_message]"
proof -
  let ?p = "pool_new sample_validator fifo_new"
  let ?s = "sample_service\<lparr>ms_gather_from_block := 1\<rparr>"
  have msgs: "poll_messages sample_messaging_lib True [(), ()] sample_service = [sample_message]"
    using sample_gather by (simp add: poll_messages_def current_gather_def sample_service_def)
  have "growing sample_settlement (sample_settlement ()) [(), ()]" by (simp add: growing_def sample_settlement_def)
  from run_poll [OF run_start this sample_poll]
  have run: "messaging_run sample_messaging_lib sample_deps sample_settlement sample_service (sample_settlement ()) ?s ?p
      (sample_settlement ()) [sample_message]"
    by (simp add: msgs)
  have "ms_gather_fut sample_service = None" "ms_gather_from_block sample_service \<le> length (sample_settlement ())"
    by (simp_all add: sample_service_def)
  from messages_in_order [OF run this sample_honest] run show ?thesis by (auto simp: sample_service_def)
qed

text \<open>What the pool of the node does with a message depends on its nonce.\<close>

lemma message_early:
  assumes "account_nonce (validator p) (l1h_contract_address t) = Some n" "n < l1h_nonce t"
  shows "add_transaction (node_deps vv search try_send send) now p (message_tx lib t) =
    Some (p, Inl (InvalidTransaction (InvalidNonce (l1h_contract_address t) n (l1h_nonce t))))"
  using assms
  by (simp add: add_transaction_def node_deps_def message_tx_def tx_validate_def declare_check_def Let_def)

lemma message_valid:
  assumes "account_nonce v (l1h_contract_address t) = Some n" "l1h_nonce t \<le> n" "vv_valid_address vv (l1h_contract_address t)"
  shows "tx_validate vv v (message_tx lib t) =
    Some (v\<lparr>vs_pool_nonces := (vs_pool_nonces v)(l1h_contract_address t \<mapsto> (n + 1) mod stark_prime)\<rparr>, Inr (Valid (message_tx lib t)))"
  using assms
  by (simp add: message_tx_def tx_validate_def declare_check_def stateful_validate_def to_executor_tx_def prepared_tx_def Let_def)

lemma submit_early:
  assumes "\<forall>t\<in>set txs. \<exists>n. account_nonce (validator p) (l1h_contract_address t) = Some n \<and> n < l1h_nonce t"
  shows "map_option fst (submit_all (node_deps vv search try_send send) p (map (\<lambda>(i, tx). (now i, message_tx lib tx)) (enumerate k txs))) = Some p"
  using assms
proof (induction txs arbitrary: k)
  case (Cons t txs)
  obtain n where "account_nonce (validator p) (l1h_contract_address t) = Some n" "n < l1h_nonce t"
    using Cons.prems by auto
  from message_early [OF this, of vv search try_send send] Cons.IH [of "Suc k"] Cons.prems show ?case
    by (auto simp: option.map_comp comp_def split_beta)
qed simp

text \<open>
  C32. Messages whose nonce is ahead of their recipient are lost.  The nonce of a message counts
  the messages of the settlement contract, but the pool compares it with the nonce of the
  contract that receives it and rejects it when it is greater; the service ignores the rejection,
  counts the message as gathered and moves on.  If all messages of a round are such, the round
  changes nothing but the block from which the next one gathers.  And it is not made up for:
  in a run with an honest client the messages of the round were those of the blocks before that
  block, and however the run goes on, all that is handed over afterwards is the messages of the
  blocks from that block on.
\<close>

theorem early_messages_lost:
  assumes D: "D = node_deps vv search try_send send"
    and poll: "messaging_poll_next lib D now tick ws (s, p) = Some ((s', p'), Ready out)"
    and early: "\<forall>t\<in>set (poll_messages lib tick ws s). \<exists>n. account_nonce (validator p) (l1h_contract_address t) = Some n \<and> n < l1h_nonce t"
  defines "f \<equiv> block_messages lib (ms_messenger s) (ms_chain_id s)"
  shows "p' = p \<and> mo_msg_count out = length (poll_messages lib tick ws s)
    \<and> ms_gather_from_block s' = (mo_latest_block out + 1) mod 2 ^ 64 \<and> ms_gather_fut s' = None
    \<and> (messaging_run lib D view s0 c0 s p c log \<and> ms_gather_fut s0 = None \<and> ms_gather_from_block s0 \<le> length c0
        \<and> messenger_honest pos view (ms_messenger s0) \<and> chain_bounded view \<and> growing view c ws
        \<and> messaging_run lib D view s' (newest view c ws) s2 p2 c2 log2 \<longrightarrow>
        poll_messages lib tick ws s = settled f c2 (ms_gather_from_block s) (ms_gather_from_block s')
        \<and> log2 = settled f c2 (ms_gather_from_block s') (ms_gather_from_block s2)
        \<and> ms_gather_from_block s \<le> ms_gather_from_block s' \<and> ms_gather_from_block s' \<le> ms_gather_from_block s2)"
proof -
  have now: "p' = p \<and> mo_msg_count out = length (poll_messages lib tick ws s)
    \<and> ms_gather_from_block s' = (mo_latest_block out + 1) mod 2 ^ 64 \<and> ms_gather_fut s' = None"
    using poll
  proof (cases rule: poll_cases)
    case (gathered a st l txs)
    then have "Some p' = Some p" using submit_early [of txs p vv search try_send send now lib 0] early by (simp add: submit_messages_def D)
    then show ?thesis using gathered by simp
  qed simp_all
  have "poll_messages lib tick ws s = settled f c2 (ms_gather_from_block s) (ms_gather_from_block s')
      \<and> log2 = settled f c2 (ms_gather_from_block s') (ms_gather_from_block s2)
      \<and> ms_gather_from_block s \<le> ms_gather_from_block s' \<and> ms_gather_from_block s' \<le> ms_gather_from_block s2"
    if run: "messaging_run lib D view s0 c0 s p c log" and start: "service_ok pos view lib c0 s0" and ws: "growing view c ws"
      and later: "messaging_run lib D view s' (newest view c ws) s2 p2 c2 log2"
  proof -
    have s: "service_ok pos view lib c s" using messaging_run_settled [OF run start] by blast
    have k: "service_ok pos view lib (newest view c ws) s'" "ms_messenger s' = ms_messenger s" "ms_chain_id s' = ms_chain_id s"
      "ms_gather_from_block s \<le> ms_gather_from_block s'"
      "poll_messages lib tick ws s = settled f (newest view c ws) (ms_gather_from_block s) (ms_gather_from_block s')"
      using poll_keeps [OF s ws poll] unfolding f_def by simp_all
    have l: "prefix (newest view c ws) c2" "ms_gather_from_block s' \<le> ms_gather_from_block s2"
      "log2 = settled f c2 (ms_gather_from_block s') (ms_gather_from_block s2)"
      using messaging_run_settled [OF later k(1)] k(2,3) unfolding f_def by simp_all
    have "ms_gather_from_block s' \<le> length (newest view c ws)" using k(1) by (simp add: service_ok_def)
    then show ?thesis using settled_prefix [OF l(1), of "ms_gather_from_block s'" f "ms_gather_from_block s"] k(4,5) l(2,3) by simp
  qed
  then show ?thesis using now service_start_ok [of s0 c0 pos view lib] by blast
qed

theorem early_messages_lost_witness:
  "poll_messages sample_messaging_lib True [(), ()] sample_service = [sample_message] \<and>
   (\<exists>s' out. messaging_poll_next sample_messaging_lib sample_deps (\<lambda>_. 0) True [(), ()] (sample_service, pool_new sample_validator fifo_new) =
      Some ((s', pool_new sample_validator fifo_new), Ready out) \<and> mo_msg_count out = 1 \<and> ms_gather_from_block s' = 1 \<and>
      (\<forall>s2 p2 c2 log2. messaging_run sample_messaging_lib sample_deps sample_settlement s' (sample_settlement ()) s2 p2 c2 log2 \<longrightarrow>
         log2 = settled (block_messages sample_messaging_lib (MStarknet sample_starknet) (Id 1)) c2 1 (ms_gather_from_block s2)))"
proof -
  let ?p = "pool_new sample_validator fifo_new"
  have msgs: "poll_messages sample_messaging_lib True [(), ()] sample_service = [sample_message]"
    using sample_gather by (simp add: poll_messages_def current_gather_def sample_service_def)
  have nonce: "account_nonce (validator ?p) 5 = Some 0"
    by (simp add: pool_new_def account_nonce_def sample_validator_def tx_validator_new_def)
  have grow: "growing sample_settlement (sample_settlement ()) [(), ()]" "newest sample_settlement (sample_settlement ()) [(), ()] = sample_settlement ()"
    by (simp_all add: growing_def newest_def sample_settlement_def)
  have start: "ms_gather_fut sample_service = None" "ms_gather_from_block sample_service \<le> length (sample_settlement ())"
    by (simp_all add: sample_service_def)
  note lost = early_messages_lost [OF sample_deps_def sample_poll [of "\<lambda>_. 0"], where ?s0.0 = sample_service and view = sample_settlement
      and ?c0.0 = "sample_settlement ()" and c = "sample_settlement ()" and log = "[]" and pos = "\<lambda>_. 0"]
  have early: "\<forall>t\<in>set (poll_messages sample_messaging_lib True [(), ()] sample_service).
      \<exists>n. account_nonce (validator ?p) (l1h_contract_address t) = Some n \<and> n < l1h_nonce t"
    using msgs nonce by (simp add: sample_message_def)
  show ?thesis
    using lost [OF early] msgs sample_poll [of "\<lambda>_. 0"] grow start sample_honest
      run_start [of sample_messaging_lib sample_deps sample_settlement sample_service "sample_settlement ()" ?p]
    by (auto simp: sample_service_def)
qed

text \<open>
  A settlement chain that is shorter than the first block to gather moves the service back: the
  next round starts right after the end of that chain, whatever block was configured.
\<close>

lemma short_chain_rewinds:
  assumes "current_gather tick s = Some (a, AskBlockNumber)" "ms_messenger s = MStarknet m" "sm_block_number m w = Inr n" "n < a" "n + 1 < 2 ^ 64"
  shows "\<exists>out. messaging_poll_next lib d now tick (w # ws) (s, p) =
    Some ((s\<lparr>ms_gather_fut := None, ms_gather_from_block := n + 1\<rparr>, p), Ready out) \<and> mo_msg_count out = 0"
  using assms by (simp add: messaging_poll_next_def gather_step_of_def submit_messages_def)

end
