(* ===== verification/Spec2Isabelle.thy ===== *)
theory Spec2Isabelle
  imports Block_Hash Pool_Properties Mining_Props Producer_Props Event_Props Da_Blob Sync_Props Fork_Props Rpc_Props Prune_Props Root_Props Messaging_Props
begin

text \<open>
  \<^bold>\<open>Verification of the katana sequencer.\<close>  Katana is a sequencer for Starknet: transactions
  are submitted to a pool, a validator decides on them, a block producer executes them and
  mines blocks, blocks are stored in a key-value database, and clients read blocks, state and
  events back.  A node can also be forked from a remote chain, follow a remote chain through a
  feeder gateway, and encode its state updates for data availability.  All paths below are
  under \<^verbatim>\<open>src/\<close>.

  \<^bold>\<open>Conventions.\<close>  Structs are records, enums are datatypes with the constructors of the source.
  A field element is a natural number; where the code computes with field elements or machine
  integers, the modulus is written out or words are used.  \<^verbatim>\<open>Result\<close> is a sum with the error on the
  left, a panic is \<open>None\<close>, an ordered map is a sorted association list, a database table likewise.
  Stateful code passes its state explicitly; tasks, channels and polls are steps of relations
  whose every interleaving is covered by rule induction.  Types that the code only stores
  (contract classes, execution traces) are type parameters.

  \<^bold>\<open>Shared vocabulary.\<close>  \<open>Katana_Prelude\<close> holds scalar types, results and list lemmas, \<open>Num_Text\<close> and
  \<open>Bytes_Be\<close> the text and byte forms of integers in the Rust standard library, \<open>Kv_Tables\<close> the
  tables and cursors of \<^verbatim>\<open>crates/storage/db\<close> with the locale \<open>kv_table\<close>, \<open>Integer_Set\<close> its block lists.

  \<^bold>\<open>Primitives\<close> (\<^verbatim>\<open>crates/primitives\<close>).  \<open>Chain_Types\<close> (\<^verbatim>\<open>chain.rs\<close>, \<^verbatim>\<open>version.rs\<close>), \<open>Transactions\<close>
  (\<^verbatim>\<open>transaction.rs\<close>, \<^verbatim>\<open>fee.rs\<close>), \<open>Tx_Hash\<close> (\<^verbatim>\<open>utils/transaction.rs\<close>), \<open>Block_Types\<close> and \<open>Block_Hash\<close>
  (\<^verbatim>\<open>block.rs\<close>, \<^verbatim>\<open>receipt.rs\<close>, \<^verbatim>\<open>state.rs\<close>), \<open>Da_Encoding\<close>, \<open>Da_Props\<close> and \<open>Da_Blob\<close> (\<^verbatim>\<open>da\<close>).  Shown: the
  transaction hash determines the transaction up to its signature and separates kinds and
  versions, the block hash and the state-diff commitment determine what they cover, versions
  parse back from their text, and the data availability encoding decodes to the state update
  up to what the format cannot express.  Hash functions are parameters; injectivity is assumed
  only where a theorem says so.  The two blob transforms are inverse to each other on lists of
  residues, for every modulus and generator with the powers that the constants of the curve
  are chosen for.

  \<^bold>\<open>Storage\<close> (\<^verbatim>\<open>crates/storage\<close>).  \<open>Versioned_Models\<close> are the stored rows, \<open>Db_Provider\<close> the getters
  and the block writer of \<^verbatim>\<open>provider/src/providers/db/mod.rs\<close>, \<open>Db_Blocks\<close> what a block does to each
  table, \<open>Db_State\<close> the state providers of \<^verbatim>\<open>db/state.rs\<close>.  The specification of the state is the chain
  of state updates that was written.  The locale \<open>change_index\<close> (\<open>Change_Index\<close>) is the contract
  between writer and historical provider; \<open>Db_History\<close> interprets it three times, for storage,
  nonces and classes.  \<open>Db_Updates\<close> reads state updates back, \<open>Storage_Properties\<close> collects the
  properties: refinement of the chain by both providers, round trips of blocks, receipts and
  state updates, and the invariant of every database the writers can produce.

  \<^bold>\<open>State tries\<close> (\<^verbatim>\<open>crates/trie\<close>, \<^verbatim>\<open>storage/db/src/trie\<close>, \<^verbatim>\<open>providers/db/trie.rs\<close>, \<^verbatim>\<open>bin/katana/src/cli/db/prune.rs\<close>).
  \<open>Trie_Db\<close> is the database under the tries; \<open>Trie_Props\<close> shows that its snapshots are those of the log
  of commits.  \<open>Db_Prune\<close> is the pruning command; \<open>Prune_Props\<close> shows that it forgets exactly the
  commits at or before its cutoff, what this takes from the blocks that are kept, and that the
  announced numbers are exact.  \<open>State_Trie\<close> has the leaves and the two trie writers, with the trie
  library as a record of functions that is assumed to store maps and to hash them
  (\<open>trie_lib_ok\<close>); the classes trie, which hashes with Poseidon, and the contracts and storages tries, which
  hash with Pedersen, are two such records with a root function each.  \<open>State_Trie_Props\<close> shows that the roots commit to the state that is served and that the
  genesis writer agrees with the one of the database; \<open>Root_Props\<close> carries this to the state root in
  the header of every mined block.

  \<^bold>\<open>Forking\<close> (\<^verbatim>\<open>crates/storage/fork\<close>, \<^verbatim>\<open>provider/src/providers/fork/state.rs\<close>).  \<open>Fork_Backend\<close> is the
  request thread and its client, \<open>Fork_State\<close> the providers that read the local database first and
  cache what the remote chain answers.  \<open>Fork_Backend_Props\<close> shows that every request is answered
  exactly once with the answer to that request and that one poll suffices when the remote
  chain answers; \<open>Fork_Props\<close> that the forked state is the local chain laid over the remote one,
  and what a read through an outdated provider destroys.

  \<^bold>\<open>Execution\<close> (\<^verbatim>\<open>crates/executor\<close>).  \<open>Exec_Errors\<close> and \<open>Executor\<close> model batches, fees, receipts, and the
  extraction of the state update; \<open>Executor_Props\<close> shows what is recorded and that the extracted
  update is the well-formed input the storage theorems ask for.  The execution library
  (blockifier) is a record of functions.

  \<^bold>\<open>Pool\<close> (\<^verbatim>\<open>crates/pool\<close>).  \<open>Tx_Pool\<close> is the pool with its ordering and subscriptions, \<open>Tx_Validator\<close> the
  validator.  \<open>Pool_Properties\<close> has the locale \<open>sound_pool\<close> for what the pool needs of an ordering and
  shows submission order, the effect of a submission and nonce tracking.

  \<^bold>\<open>Block production\<close> (\<^verbatim>\<open>crates/core\<close>).  \<open>Mining\<close> is the backend (commitments, state root, genesis,
  registry contract, gas oracle), \<open>Block_Producer\<close> the interval and instant producers and the miner.
  \<open>Mining_Props\<close> shows that mined blocks form a hash-linked chain and hold exactly the successful
  transactions with their receipts and traces, and that the registry contract has the hashes of
  old blocks; \<open>Producer_Props\<close> that in every interleaving without overlapping mining each
  submitted transaction is in exactly one place in order and the stored blocks hold those that
  were mined without failing, and exhibits the interleavings in which the code loses or
  replaces blocks.

  \<^bold>\<open>The Starknet API\<close> (\<^verbatim>\<open>crates/rpc\<close>).  \<open>Api_Error\<close> has the errors; \<open>Events\<close> and \<open>Event_Props\<close> the events
  (\<^verbatim>\<open>utils/events.rs\<close>): following the continuation tokens ends and yields exactly the matching
  events in order.  \<open>Rpc_Handlers\<close> are the read handlers of \<^verbatim>\<open>starknet/mod.rs\<close> for state, blocks,
  transactions, receipts and statuses, with the builders of their answers and the client of
  the forked chain; an answer is represented by what the constructor of its wire type is given.
  \<open>Rpc_Props\<close> shows that the handlers agree on every stored block, also after later blocks, that the pending block shown is the
  block mined next, and how the status of a waiting transaction depends on the mode.

  \<^bold>\<open>Syncing\<close> (\<^verbatim>\<open>crates/feeder-gateway\<close>, \<^verbatim>\<open>crates/sync\<close>).  \<open>Feeder_Gateway\<close> has the gateway types,
  \<open>Sync_Stages\<close> the stages and the pipeline; \<open>Sync_Props\<close> has the locale \<open>staged_sync\<close> for what the
  pipeline asks of its stages and shows that it reaches every tip it sees and then waits for the
  next: the pipeline holds a sender of its own tip channel, so its outer loop never ends but by an
  error.

  \<^bold>\<open>Messaging\<close> (\<^verbatim>\<open>crates/messaging\<close>).  \<open>Messaging\<close> has the messengers for Ethereum and Starknet, whose
  gathering futures are suspended at each request to the settlement chain, and the service that
  hands the messages to the pool.  \<open>Messaging_Props\<close> has the locale \<open>settlement_source\<close> for what the
  service needs of a messenger and shows that messages are gathered in order and exactly once,
  and which of them the pool rejects, after which they are not handed over again.

  \<^bold>\<open>Termination and fuel.\<close>  Loops are total functions, recursive on the data or with a measure (a
  poll of the fork backend ends because every round empties the channel).  The chunk loop of the
  pipeline may run for ever and is a partial function; \<open>sync_reaches_tip\<close> shows that it ends for
  every tip; the loop around it is run over the tips seen so far, after which it waits.
  A client that follows continuation tokens is given one request more than there are matching
  events, and \<open>events_paging\<close> shows that this is enough.  Printing a number uses the number itself
  as fuel, since every division by a radix of two or more makes it smaller.

  \<^bold>\<open>Parameters for code outside the repository.\<close>  Hash functions and tries (starknet-types-core,
  bonsai-trie), the execution library (blockifier), class compilation, JSON-RPC and gateway
  transports, the clients of the settlement chain, binary search in an ordered set whose order is inconsistent, channels of the
  standard library and of tokio, and clocks.  A theorem that relies on one of them has that
  reliance as a hypothesis, and a witness with a concrete instance.

  \<^bold>\<open>Not modelled.\<close>  Serialisation (byte codecs, JSON) and with it the order of two values under one
  subkey of a table, on which no property depends, the mdbx environment and migrations, the nodes
  of Merkle tries and proofs, genesis files and key derivation, the RPC handlers for classes, state
  updates, fee estimation, proofs, submission and tracing, the wire types,
  command line, node assembly, task manager, metrics and logging, generated bindings and the
  Cairo contracts: they are calls into third-party code or plain input and output, and the
  model takes what they provide as parameters where it needs it.
\<close>

end
